(* ===== verification/Prelude.thy ===== *)
theory Prelude
  imports Main "HOL-Library.Sublist"
begin

text \<open>
  Shared vocabulary of the development.

  \<^item> JavaScript strings are lists of code points (\<open>jsstr\<close>): this is the view the source itself
    takes with \<open>[...label]\<close> and \<open>codePointAt\<close>, and it makes lone surrogates ordinary elements.
  \<^item> A \<open>throw new Error(message)\<close> is \<open>Inl (JsError message)\<close>; a normal return is \<open>Inr\<close>.
  \<^item> The parts of the ECMAScript library the source uses on strings (\<open>trim\<close>, \<open>split\<close>, \<open>join\<close>,
    \<open>lastIndexOf\<close>, \<open>startsWith\<close>, \<open>TextEncoder\<close>) are defined here and executable.
  \<^item> \<open>normalize("NFKC")\<close> and \<open>toLowerCase\<close> depend on the Unicode Character Database, which is not
    part of the repository; they are the fields of a parameter record \<open>unicode\<close>, and what the code
    relies on is the predicate \<open>unicode_ok\<close>.
\<close>

section \<open>Strings, results\<close>

type_synonym jsstr = "nat list"
type_synonym bytes = "nat list"
type_synonym address = jsstr

datatype js_error = JsError (message: jsstr)

type_synonym 'a res = "js_error + 'a"

named_theorems res_simps
named_theorems str_simps

definition js :: "string \<Rightarrow> jsstr" where
  "js s = map of_char s"

fun bind_res :: "('e + 'a) \<Rightarrow> ('a \<Rightarrow> 'e + 'b) \<Rightarrow> 'e + 'b" where
  "bind_res (Inl e) f = Inl e"
| "bind_res (Inr x) f = f x"

fun is_ok :: "('e + 'a) \<Rightarrow> bool" where
  "is_ok (Inl e) = False"
| "is_ok (Inr x) = True"

fun res_option :: "('e + 'a) \<Rightarrow> 'a option" where
  "res_option (Inl e) = None"
| "res_option (Inr x) = Some x"

text \<open>\<open>x ?? d\<close> of an optional value, and the truth of an optional string: the empty string is falsy.\<close>

definition or_else :: "'a option \<Rightarrow> 'a \<Rightarrow> 'a" where
  "or_else x d = (case x of Some v \<Rightarrow> v | None \<Rightarrow> d)"

definition truthy_str :: "jsstr option \<Rightarrow> bool" where
  "truthy_str s \<longleftrightarrow> s \<noteq> None \<and> s \<noteq> Some []"

section \<open>The string library\<close>

definition is_js_space :: "nat \<Rightarrow> bool" where
  "is_js_space c \<longleftrightarrow>
     (9 \<le> c \<and> c \<le> 13) \<or> c = 32 \<or> c = 0xA0 \<or> c = 0x1680 \<or> (0x2000 \<le> c \<and> c \<le> 0x200A) \<or>
     c = 0x2028 \<or> c = 0x2029 \<or> c = 0x202F \<or> c = 0x205F \<or> c = 0x3000 \<or> c = 0xFEFF"

definition trim :: "jsstr \<Rightarrow> jsstr" where
  "trim s = rev (dropWhile is_js_space (rev (dropWhile is_js_space s)))"

fun split_on :: "nat \<Rightarrow> jsstr \<Rightarrow> jsstr list" where
  "split_on c [] = [[]]"
| "split_on c (x # xs) =
     (if x = c then [] # split_on c xs
      else (case split_on c xs of [] \<Rightarrow> [[x]] | p # ps \<Rightarrow> (x # p) # ps))"

fun join :: "jsstr \<Rightarrow> jsstr list \<Rightarrow> jsstr" where
  "join d [] = []"
| "join d [p] = p"
| "join d (p # q # ps) = p @ d @ join d (q # ps)"

fun lastIndexOf :: "nat \<Rightarrow> jsstr \<Rightarrow> int" where
  "lastIndexOf c [] = - 1"
| "lastIndexOf c (x # xs) =
     (let i = lastIndexOf c xs in if 0 \<le> i then i + 1 else if x = c then 0 else - 1)"

definition startsWith :: "jsstr \<Rightarrow> jsstr \<Rightarrow> bool" where
  "startsWith s p \<longleftrightarrow> prefix p s"

definition ascii_lower :: "nat \<Rightarrow> nat" where
  "ascii_lower c = (if 65 \<le> c \<and> c \<le> 90 then c + 32 else c)"

definition ascii_str :: "jsstr \<Rightarrow> bool" where
  "ascii_str s \<longleftrightarrow> list_all (\<lambda>c. c < 128) s"

text \<open>\<open>new TextEncoder().encode\<close>: UTF-8, a lone surrogate becoming U+FFFD.\<close>

definition utf8_char :: "nat \<Rightarrow> bytes" where
  "utf8_char c =
     (if c < 0x80 then [c]
      else if c < 0x800 then [0xC0 + c div 64, 0x80 + c mod 64]
      else if 0xD800 \<le> c \<and> c \<le> 0xDFFF then [0xEF, 0xBF, 0xBD]
      else if c < 0x10000 then [0xE0 + c div 4096, 0x80 + c div 64 mod 64, 0x80 + c mod 64]
      else [0xF0 + c div 262144, 0x80 + c div 4096 mod 64, 0x80 + c div 64 mod 64, 0x80 + c mod 64])"

definition utf8 :: "jsstr \<Rightarrow> bytes" where
  "utf8 s = concat (map utf8_char s)"

definition scalar :: "nat \<Rightarrow> bool" where
  "scalar c \<longleftrightarrow> c < 0x110000 \<and> \<not> (0xD800 \<le> c \<and> c \<le> 0xDFFF)"

text \<open>\<open>n.toString()\<close> of an integer, and \<open>toString("hex")\<close> of a buffer.\<close>

fun dec_digits :: "nat \<Rightarrow> jsstr" where
  "dec_digits n = (if n < 10 then [48 + n] else dec_digits (n div 10) @ [48 + n mod 10])"

declare dec_digits.simps [simp del]

definition int_str :: "int \<Rightarrow> jsstr" where
  "int_str z = (if z < 0 then 45 # dec_digits (nat (- z)) else dec_digits (nat z))"

definition hex_digit :: "nat \<Rightarrow> nat" where
  "hex_digit d = (if d < 10 then 48 + d else 87 + d)"

definition hex_str :: "bytes \<Rightarrow> jsstr" where
  "hex_str bs = concat (map (\<lambda>b. [hex_digit (b div 16), hex_digit (b mod 16)]) bs)"

text \<open>The code points a canonical dotted name is made of: lowercase ASCII letters, digits, hyphen,
  dot and the emoji ranges of the program, less U+2329 and U+232A, the two characters of those
  ranges that NFKC rewrites.\<close>

definition emoji_range :: "nat \<Rightarrow> bool" where
  "emoji_range c \<longleftrightarrow>
     (0x1F300 \<le> c \<and> c \<le> 0x1FAFF) \<or> (0x2600 \<le> c \<and> c \<le> 0x27BF) \<or> (0x1F1E6 \<le> c \<and> c \<le> 0x1F1FF) \<or>
     (0x2300 \<le> c \<and> c \<le> 0x23FF) \<or> (0x2B00 \<le> c \<and> c \<le> 0x2BFF) \<or> c = 0x200D \<or> c = 0x20E3 \<or> c = 0xFE0F"

definition nfkc_stable :: "nat \<Rightarrow> bool" where
  "nfkc_stable c \<longleftrightarrow>
     (97 \<le> c \<and> c \<le> 122) \<or> (48 \<le> c \<and> c \<le> 57) \<or> c = 45 \<or> c = 46 \<or>
     (emoji_range c \<and> c \<noteq> 0x2329 \<and> c \<noteq> 0x232A)"

record unicode =
  nfkc :: "jsstr \<Rightarrow> jsstr"
  lower :: "jsstr \<Rightarrow> jsstr"

text \<open>What the code relies on: ASCII text is NFKC already and its lower case is the ASCII one, and
  strings over the stable code points are fixed by both operations (UAX #15 and UnicodeData.txt: none
  of those code points has a decomposition, a non-zero combining class or a lower-case mapping).\<close>

definition unicode_ok :: "unicode \<Rightarrow> bool" where
  "unicode_ok U \<longleftrightarrow>
     (\<forall>s. ascii_str s \<longrightarrow> nfkc U s = s \<and> lower U s = map ascii_lower s) \<and>
     (\<forall>s. list_all nfkc_stable s \<longrightarrow> nfkc U s = s \<and> lower U s = s)"

text \<open>A concrete instance: right on ASCII and on the stable code points.\<close>

definition ascii_unicode :: unicode where
  "ascii_unicode = \<lparr>nfkc = (\<lambda>s. s), lower = map ascii_lower\<rparr>"

section \<open>Lemmas on results\<close>

lemma is_ok_iff [res_simps]: "is_ok r \<longleftrightarrow> (\<exists>x. r = Inr x)"
  by (cases r) auto

lemma not_ok_iff [res_simps]: "\<not> is_ok r \<longleftrightarrow> (\<exists>e. r = Inl e)"
  by (cases r) auto

lemma bind_res_Inr [res_simps]: "bind_res r f = Inr y \<longleftrightarrow> (\<exists>x. r = Inr x \<and> f x = Inr y)"
  by (cases r) auto

lemma bind_res_Inl [res_simps]:
  "bind_res r f = Inl e \<longleftrightarrow> r = Inl e \<or> (\<exists>x. r = Inr x \<and> f x = Inl e)"
  by (cases r) auto

lemma or_else_simps [simp]: "or_else None d = d" "or_else (Some v) d = v"
  by (simp_all add: or_else_def)

section \<open>Lemmas on strings\<close>

lemma js_Nil [simp]: "js [] = []"
  by (simp add: js_def)

lemma js_Cons [simp]: "js (c # cs) = of_char c # js cs"
  by (simp add: js_def)

lemma split_on_not_Nil [simp]: "split_on c s \<noteq> []"
  by (induction s) (auto split: list.splits)

lemma split_on_notin [simp]: "c \<notin> set s \<Longrightarrow> split_on c s = [s]"
  by (induction s) auto

lemma split_on_append: "c \<notin> set p \<Longrightarrow> split_on c (p @ c # s) = p # split_on c s"
  by (induction p) auto

lemma split_on_parts: "p \<in> set (split_on c s) \<Longrightarrow> c \<notin> set p"
  by (induction s arbitrary: p) (auto split: if_splits list.splits)

lemma join_Cons: "ps \<noteq> [] \<Longrightarrow> join d (p # ps) = p @ d @ join d ps"
  by (cases ps) auto

lemma join_split_on: "join [c] (split_on c s) = s"
proof (induction s)
  case (Cons x xs)
  obtain p ps where s: "split_on c xs = p # ps"
    by (meson list.exhaust split_on_not_Nil)
  with Cons show ?case
    by (cases ps) (auto simp: join_Cons)
qed simp

lemma split_on_join:
  "ps \<noteq> [] \<Longrightarrow> \<forall>p \<in> set ps. c \<notin> set p \<Longrightarrow> split_on c (join [c] ps) = ps"
proof (induction ps)
  case (Cons p ps)
  then show ?case
    by (cases "ps = []") (auto simp: join_Cons split_on_append)
qed simp

lemma set_join: "set (join d ps) \<subseteq> set d \<union> \<Union> (set ` set ps)"
  by (induction d ps rule: join.induct) auto

lemma lastIndexOf_ge: "- 1 \<le> lastIndexOf c s"
  by (induction s) (auto simp: Let_def)

lemma lastIndexOf_notin: "c \<notin> set s \<Longrightarrow> lastIndexOf c s = - 1"
  by (induction s) (auto simp: Let_def)

lemma lastIndexOf_append: "c \<notin> set t \<Longrightarrow> lastIndexOf c (p @ c # t) = int (length p)"
  by (induction p) (auto simp: Let_def lastIndexOf_notin)

lemma lastIndexOf_decomp:
  "0 \<le> lastIndexOf c s \<Longrightarrow>
   s = take (nat (lastIndexOf c s)) s @ c # drop (nat (lastIndexOf c s) + 1) s \<and>
   c \<notin> set (drop (nat (lastIndexOf c s) + 1) s)"
proof (induction s)
  case (Cons x xs)
  show ?case
  proof (cases "0 \<le> lastIndexOf c xs")
    case True
    then have "nat (lastIndexOf c xs + 1) = Suc (nat (lastIndexOf c xs))" by simp
    with True Cons.IH show ?thesis by (auto simp: Let_def)
  next
    case False
    moreover have "c \<notin> set xs"
    proof
      assume "c \<in> set xs"
      then obtain p t where "xs = p @ c # t" "c \<notin> set t" by (meson split_list_last)
      with False show False by (simp add: lastIndexOf_append)
    qed
    ultimately show ?thesis using Cons.prems by (auto simp: Let_def split: if_splits)
  qed
qed simp

lemma trim_id: "list_all (\<lambda>c. \<not> is_js_space c) s \<Longrightarrow> trim s = s"
proof -
  have "list_all (\<lambda>c. \<not> is_js_space c) t \<Longrightarrow> dropWhile is_js_space t = t" for t
    by (cases t) auto
  then show "list_all (\<lambda>c. \<not> is_js_space c) s \<Longrightarrow> trim s = s"
    by (simp add: trim_def)
qed

lemma nfkc_stable_not_space: "nfkc_stable c \<Longrightarrow> \<not> is_js_space c"
  unfolding nfkc_stable_def emoji_range_def is_js_space_def by presburger

lemma nfkc_stable_scalar: "nfkc_stable c \<Longrightarrow> scalar c"
  unfolding nfkc_stable_def emoji_range_def scalar_def by presburger

lemma unicode_ok_stable:
  "unicode_ok U \<Longrightarrow> list_all nfkc_stable s \<Longrightarrow> nfkc U s = s \<and> lower U s = s"
  by (simp add: unicode_ok_def)

lemma stable_pipeline:
  assumes "unicode_ok U" "list_all nfkc_stable s"
  shows "lower U (nfkc U (trim s)) = s"
proof -
  have "trim s = s"
    using assms(2) by (intro trim_id) (auto simp: list_all_iff nfkc_stable_not_space)
  with assms show ?thesis by (simp add: unicode_ok_stable)
qed

lemma ascii_unicode_ok: "unicode_ok ascii_unicode"
proof -
  have "nfkc_stable c \<Longrightarrow> ascii_lower c = c" for c
    unfolding nfkc_stable_def emoji_range_def ascii_lower_def by presburger
  then have "list_all nfkc_stable s \<Longrightarrow> map ascii_lower s = s" for s
    by (simp add: list_all_iff map_idI)
  then show ?thesis by (simp add: unicode_ok_def ascii_unicode_def)
qed

section \<open>UTF-8 is uniquely decodable\<close>

lemma utf8_Nil [simp]: "utf8 [] = []"
  by (simp add: utf8_def)

lemma utf8_Cons: "utf8 (c # s) = utf8_char c @ utf8 s"
  by (simp add: utf8_def)

lemma utf8_append: "utf8 (s @ t) = utf8 s @ utf8 t"
  by (simp add: utf8_def)

lemma utf8_char_not_Nil [simp]: "utf8_char c \<noteq> []"
  by (simp add: utf8_char_def)

lemma utf8_eq_Nil [simp]: "utf8 s = [] \<longleftrightarrow> s = []"
  by (cases s) (simp_all add: utf8_Cons)

lemma utf8_ascii: "ascii_str s \<Longrightarrow> utf8 s = s"
  by (induction s) (auto simp: ascii_str_def utf8_Cons utf8_char_def)

lemma div_mod_64_eq: "(c::nat) div 64 = d div 64 \<Longrightarrow> c mod 64 = d mod 64 \<Longrightarrow> c = d"
  by (metis div_mult_mod_eq)

lemma utf8_char_prefix_free:
  assumes "scalar c" "scalar d" "utf8_char c @ s = utf8_char d @ t"
  shows "c = d"
proof -
  have three: "x div 4096 = y div 4096 \<Longrightarrow> x div 64 mod 64 = y div 64 mod 64 \<Longrightarrow> x div 64 = y div 64"
    for x y :: nat
    using div_mod_64_eq[of "x div 64" "y div 64"] by (simp add: div_mult2_eq[symmetric])
  have four: "x div 262144 = y div 262144 \<Longrightarrow> x div 4096 mod 64 = y div 4096 mod 64 \<Longrightarrow>
    x div 4096 = y div 4096" for x y :: nat
    using div_mod_64_eq[of "x div 4096" "y div 4096"] by (simp add: div_mult2_eq[symmetric])
  consider "c < 0x80" | "0x80 \<le> c" "c < 0x800" | "0x800 \<le> c" "c < 0x10000" | "0x10000 \<le> c"
    by linarith
  then show ?thesis
  proof cases
    case 1
    with assms show ?thesis by (auto simp: utf8_char_def scalar_def split: if_splits)
  next
    case 2
    with assms show ?thesis
      by (auto simp: utf8_char_def scalar_def split: if_splits intro: div_mod_64_eq)
  next
    case 3
    with assms show ?thesis
      by (auto simp: utf8_char_def scalar_def split: if_splits intro!: div_mod_64_eq three)
  next
    case 4
    with assms show ?thesis
      by (auto simp: utf8_char_def scalar_def split: if_splits intro!: div_mod_64_eq three four)
  qed
qed

lemma utf8_inj:
  "list_all scalar s \<Longrightarrow> list_all scalar t \<Longrightarrow> utf8 s = utf8 t \<Longrightarrow> s = t"
proof (induction s arbitrary: t)
  case (Cons c s)
  have "utf8 t \<noteq> []" using Cons.prems(3) by (metis list.distinct(1) utf8_eq_Nil)
  then obtain d t' where t: "t = d # t'" by (cases t) simp_all
  from Cons.prems(3) have cd: "utf8_char c @ utf8 s = utf8_char d @ utf8 t'"
    by (simp add: t utf8_Cons)
  have "scalar c" "scalar d" using Cons.prems(1,2) by (simp_all add: t)
  then have "c = d" using cd by (rule utf8_char_prefix_free)
  with cd have "utf8 s = utf8 t'" by simp
  with Cons.IH Cons.prems(1,2) \<open>c = d\<close> t show ?case by simp
qed (metis utf8_Nil utf8_eq_Nil)

lemma utf8_char_lt_128: "b \<in> set (utf8_char c) \<Longrightarrow> b < 128 \<Longrightarrow> b = c"
  by (auto simp: utf8_char_def split: if_splits)

lemma utf8_ascii_byte: "b \<in> set (utf8 s) \<Longrightarrow> b < 128 \<Longrightarrow> b \<in> set s"
  by (induction s) (auto simp: utf8_Cons dest: utf8_char_lt_128)

section \<open>Decimal and hexadecimal text are injective\<close>

fun dec_val :: "jsstr \<Rightarrow> nat" where
  "dec_val s = foldl (\<lambda>acc c. acc * 10 + (c - 48)) 0 s"

lemma dec_val_digits: "dec_val (dec_digits n) = n"
proof (induction n rule: dec_digits.induct)
  case (1 n)
  then show ?case by (subst dec_digits.simps) simp
qed

lemma dec_digits_inj: "dec_digits m = dec_digits n \<longleftrightarrow> m = n"
  by (metis dec_val_digits)

lemma dec_digits_range: "c \<in> set (dec_digits n) \<Longrightarrow> 48 \<le> c \<and> c \<le> 57"
proof (induction n rule: dec_digits.induct)
  case (1 n)
  then show ?case by (subst (asm) (2) dec_digits.simps) (auto split: if_splits)
qed

lemma int_str_inj: "int_str a = int_str b \<Longrightarrow> a = b"
proof -
  have "45 \<notin> set (dec_digits n)" for n using dec_digits_range by fastforce
  then show "int_str a = int_str b \<Longrightarrow> a = b"
    by (auto simp: int_str_def dec_digits_inj eq_nat_nat_iff split: if_splits)
       (metis list.set_intros(1))+
qed

lemma hex_digit_inj: "d < 16 \<Longrightarrow> e < 16 \<Longrightarrow> hex_digit d = hex_digit e \<Longrightarrow> d = e"
  by (auto simp: hex_digit_def split: if_splits)

lemma hex_str_inj:
  "list_all (\<lambda>b. b < 256) bs \<Longrightarrow> list_all (\<lambda>b. b < 256) cs \<Longrightarrow> hex_str bs = hex_str cs \<Longrightarrow> bs = cs"
proof (induction bs arbitrary: cs)
  case Nil
  then show ?case by (cases cs) (auto simp: hex_str_def)
next
  case (Cons b bs)
  then obtain c cs' where cs: "cs = c # cs'" by (cases cs) (auto simp: hex_str_def)
  have "b div 16 = c div 16" "b mod 16 = c mod 16"
    using Cons.prems by (auto simp: cs hex_str_def intro!: hex_digit_inj)
  then have "b = c" by (metis div_mult_mod_eq)
  with Cons show ?case by (auto simp: cs hex_str_def)
qed

lemma find_Some: "find P xs = Some x \<Longrightarrow> P x \<and> x \<in> set xs"
  by (induction xs) (auto split: if_splits)

lemma find_None_all: "find P xs = None \<Longrightarrow> x \<in> set xs \<Longrightarrow> \<not> P x"
  by (induction xs) (auto split: if_splits)

end
