(* ===== verification/Account_Types.thy ===== *)
theory Account_Types
  imports Prelude
begin

text \<open>
  The account types of the generated client (\<open>clients/ts/src/generated/accounts\<close> and
  \<open>types/record.ts\<close>): one record per TypeScript type, in field order. A \<open>bigint\<close> or a \<open>number\<close> that
  holds an integer is an \<open>int\<close>, \<open>Option<T>\<close> is \<open>option\<close>, \<open>ReadonlyUint8Array\<close> is \<open>bytes\<close>. Field
  names carry the record's prefix because Isabelle record fields share one name space.
\<close>

record srecord =
  key :: jsstr
  val :: jsstr

record nameRecord =
  nr_discriminator :: bytes
  nr_owner :: address
  nr_controller :: "address option"
  nr_nameHash :: bytes
  nr_tld :: jsstr
  nr_registeredAt :: int
  nr_expiresAt :: int
  nr_records :: "srecord list"
  nr_resolver :: "address option"
  nr_hostingRef :: "jsstr option"
  nr_transferLocked :: bool
  nr_reverseSet :: bool
  nr_nftMint :: "address option"
  nr_parent :: "address option"
  nr_parentRegisteredAt :: int
  nr_depth :: int
  nr_listed :: bool
  nr_bump :: int

record config =
  cfg_discriminator :: bytes
  cfg_admin :: address
  cfg_paymentMint :: address
  cfg_treasuryTokenAccount :: address
  cfg_price1 :: int
  cfg_price2 :: int
  cfg_price3 :: int
  cfg_price4 :: int
  cfg_price5plus :: int
  cfg_priceNumeric :: int
  cfg_gracePeriodSeconds :: int
  cfg_minYears :: int
  cfg_maxYears :: int
  cfg_solTreasury :: address
  cfg_marketplaceFeeBps :: int
  cfg_stakingVault :: address
  cfg_burnVault :: address
  cfg_stakingFeeBps :: int
  cfg_referralFeeBps :: int
  cfg_burnFeeBps :: int
  cfg_solansMint :: address
  cfg_solansRate :: int
  cfg_solansDiscountBps :: int
  cfg_bump :: int

record listing =
  ls_discriminator :: bytes
  ls_seller :: address
  ls_nameHash :: bytes
  ls_price :: int
  ls_expiresAt :: int
  ls_bump :: int

record offer =
  of_discriminator :: bytes
  of_buyer :: address
  of_nameHash :: bytes
  of_amount :: int
  of_expiresAt :: int
  of_bump :: int

record auction =
  au_discriminator :: bytes
  au_seller :: address
  au_nameHash :: bytes
  au_bidVault :: address
  au_highestBidder :: "address option"
  au_highestBid :: int
  au_reservePrice :: int
  au_minIncrement :: int
  au_endTime :: int
  au_bump :: int

record reverseRecord =
  rv_discriminator :: bytes
  rv_owner :: address
  rv_nameHash :: bytes
  rv_name :: jsstr
  rv_tld :: jsstr
  rv_bump :: int

record stakePool =
  sp_discriminator :: bytes
  sp_solansMint :: address
  sp_stakeVault :: address
  sp_rewardVault :: address
  sp_totalStaked :: int
  sp_accRewardPerShare :: int
  sp_lastRewardBalance :: int
  sp_bump :: int

record stakeAccount =
  sa_discriminator :: bytes
  sa_owner :: address
  sa_amount :: int
  sa_rewardDebt :: int
  sa_bump :: int

text \<open>The integer ranges of the on-chain fields a decoded account respects.\<close>

definition u8 :: "int \<Rightarrow> bool" where "u8 n \<longleftrightarrow> 0 \<le> n \<and> n < 2 ^ 8"
definition u16 :: "int \<Rightarrow> bool" where "u16 n \<longleftrightarrow> 0 \<le> n \<and> n < 2 ^ 16"
definition u32 :: "int \<Rightarrow> bool" where "u32 n \<longleftrightarrow> 0 \<le> n \<and> n < 2 ^ 32"
definition u64 :: "int \<Rightarrow> bool" where "u64 n \<longleftrightarrow> 0 \<le> n \<and> n < 2 ^ 64"
definition u128 :: "int \<Rightarrow> bool" where "u128 n \<longleftrightarrow> 0 \<le> n \<and> n < 2 ^ 128"
definition i64 :: "int \<Rightarrow> bool" where "i64 n \<longleftrightarrow> - (2 ^ 63) \<le> n \<and> n < 2 ^ 63"

definition prices_u64 :: "config \<Rightarrow> bool" where
  "prices_u64 c \<longleftrightarrow> u64 (cfg_price1 c) \<and> u64 (cfg_price2 c) \<and> u64 (cfg_price3 c) \<and> u64 (cfg_price4 c) \<and>
     u64 (cfg_price5plus c) \<and> u64 (cfg_priceNumeric c)"

end
