(* ===== verification/Program.thy ===== *)
theory Program
  imports Account_Types
begin

text \<open>
  The parts of the on-chain program (\<open>programs/solans/src\<close>, Rust) that the TypeScript code says it
  mirrors: name and TLD validation, the name hashes, the price and fee arithmetic of \<open>Config\<close>, the
  staking accumulator and the \<open>auto_renew\<close> handler. They are the other side of the equivalence
  theorems. Rust integers are \<open>int\<close> values whose width is written out at every checked, saturating
  or truncating operation. The hash function \<open>keccak\<close> (crate \<open>solana_keccak_hasher\<close>) and the SPL
  token transfers of a fee distribution are parameters.
\<close>

section \<open>Errors, constants, checked arithmetic\<close>

datatype solans_error =
    InvalidNameLength | InvalidNameCharacter | InvalidNameHyphen | NameMismatch | InvalidTld
  | InvalidYears | MathOverflow | NotOwner | NotAuthorized | TransferLocked | NotExpired
  | RecordNotFound | TooManyRecords | RecordTooLong | InvalidTreasury | InvalidMint | NotAdmin
  | Tokenized | InvalidNftMint | TooDeep | ParentExpired | NotParent | Subdomain | Listed
  | NotListed | NotSeller | ListingExpired | SelfPurchase | PriceMismatch | InvalidFeeBps
  | OfferExpired | NotOfferer | InvalidFeeSplit | InvalidPrice | InsufficientStake
  | StakeMintMismatch | SolansNotConfigured | InsufficientBurnVault | InvalidDiscount
  | AuctionEnded | AuctionActive | BidTooLow | AuctionHasBids | SelfBid | WrongRefundAccount
  | NameExpired | AutoRenewTooEarly

definition NAME_MIN_LEN :: nat where "NAME_MIN_LEN = 1"
definition RUST_NAME_MAX_LEN :: nat where "RUST_NAME_MAX_LEN = 63"
definition RUST_ALLOWED_TLDS :: "jsstr list" where
  "RUST_ALLOWED_TLDS = [js ''sol'', js ''chain'', js ''web3'']"
definition RUST_BPS_DENOMINATOR :: int where "RUST_BPS_DENOMINATOR = 10000"
definition ACC_SCALE :: int where "ACC_SCALE = 1000000000000"
definition RUST_SOLANS_RATE_SCALE :: int where "RUST_SOLANS_RATE_SCALE = 1000000"
definition SECONDS_PER_YEAR :: int where "SECONDS_PER_YEAR = 31536000"
definition RUST_RENEWAL_WINDOW_SECONDS :: int where "RUST_RENEWAL_WINDOW_SECONDS = 2592000"

definition checked_u :: "nat \<Rightarrow> int \<Rightarrow> solans_error + int" where
  "checked_u w n = (if 0 \<le> n \<and> n < 2 ^ w then Inr n else Inl MathOverflow)"

definition checked_i64 :: "int \<Rightarrow> solans_error + int" where
  "checked_i64 n = (if i64 n then Inr n else Inl MathOverflow)"

definition checked_div_u :: "int \<Rightarrow> int \<Rightarrow> solans_error + int" where
  "checked_div_u a b = (if b = 0 then Inl MathOverflow else Inr (a div b))"

definition saturating_sub :: "int \<Rightarrow> int \<Rightarrow> int" where
  "saturating_sub a b = (if b \<le> a then a - b else 0)"

definition saturating_u64 :: "int \<Rightarrow> int" where
  "saturating_u64 n = min n (2 ^ 64 - 1)"

section \<open>utils.rs: names and hashes\<close>

definition is_emoji_char :: "nat \<Rightarrow> bool" where
  "is_emoji_char c \<longleftrightarrow>
     (0x1F300 \<le> c \<and> c \<le> 0x1FAFF) \<or> (0x2600 \<le> c \<and> c \<le> 0x27BF) \<or> (0x1F1E6 \<le> c \<and> c \<le> 0x1F1FF) \<or>
     (0x2300 \<le> c \<and> c \<le> 0x23FF) \<or> (0x2B00 \<le> c \<and> c \<le> 0x2BFF) \<or>
     c = 0x200D \<or> c = 0x20E3 \<or> c = 0xFE0F"

text \<open>The character loop of \<open>validate_name\<close>, with its locals \<open>first\<close>, \<open>last\<close> and \<open>prev_hyphen\<close>.\<close>

fun validate_name_loop ::
  "nat option \<Rightarrow> nat \<Rightarrow> bool \<Rightarrow> jsstr \<Rightarrow> solans_error + (nat option \<times> nat)" where
  "validate_name_loop first lst prev_hyphen [] = Inr (first, lst)"
| "validate_name_loop first lst prev_hyphen (c # cs) =
     (let first = (if first = None then Some c else first); lst = c in
      if \<not> ((97 \<le> c \<and> c \<le> 122) \<or> (48 \<le> c \<and> c \<le> 57) \<or> c = 45 \<or> is_emoji_char c)
      then Inl InvalidNameCharacter
      else if c = 45 then
        (if prev_hyphen then Inl InvalidNameHyphen else validate_name_loop first lst True cs)
      else validate_name_loop first lst False cs)"

definition validate_name :: "jsstr \<Rightarrow> solans_error + unit" where
  "validate_name name =
     (let len = length (utf8 name) in
      if \<not> (NAME_MIN_LEN \<le> len \<and> len \<le> RUST_NAME_MAX_LEN) then Inl InvalidNameLength
      else case validate_name_loop None 0 False name of
        Inl e \<Rightarrow> Inl e
      | Inr (None, lst) \<Rightarrow> Inl InvalidNameLength
      | Inr (Some first, lst) \<Rightarrow>
          if first \<noteq> 45 \<and> lst \<noteq> 45 then Inr () else Inl InvalidNameHyphen)"

definition validate_tld :: "jsstr \<Rightarrow> solans_error + unit" where
  "validate_tld tld = (if tld \<in> set RUST_ALLOWED_TLDS then Inr () else Inl InvalidTld)"

definition compute_name_hash :: "(bytes \<Rightarrow> bytes) \<Rightarrow> jsstr \<Rightarrow> jsstr \<Rightarrow> bytes" where
  "compute_name_hash keccak name tld = keccak (concat [utf8 name, js ''.'', utf8 tld])"

definition compute_subdomain_hash :: "(bytes \<Rightarrow> bytes) \<Rightarrow> bytes \<Rightarrow> jsstr \<Rightarrow> bytes" where
  "compute_subdomain_hash keccak parent_hash label = keccak (concat [[0], parent_hash, utf8 label])"

definition validate_years :: "int \<Rightarrow> int \<Rightarrow> int \<Rightarrow> solans_error + unit" where
  "validate_years years min_years max_years =
     (if min_years \<le> years \<and> years \<le> max_years then Inr () else Inl InvalidYears)"

definition years_to_secs :: "int \<Rightarrow> solans_error + int" where
  "years_to_secs years = checked_i64 (years * SECONDS_PER_YEAR)"

section \<open>state/config.rs: prices and fees\<close>

definition price_for_len :: "config \<Rightarrow> nat \<Rightarrow> int" where
  "price_for_len c len =
     (if len = 1 then cfg_price1 c else if len = 2 then cfg_price2 c else if len = 3 then cfg_price3 c
      else if len = 4 then cfg_price4 c else cfg_price5plus c)"

definition price_for_label :: "config \<Rightarrow> jsstr \<Rightarrow> int" where
  "price_for_label c label =
     (if \<not> ascii_str label then saturating_u64 (price_for_len c (length label) * 2)
      else let b = utf8 label in
        if length b \<le> 4 \<and> list_all (\<lambda>d. 48 \<le> d \<and> d \<le> 57) b then cfg_priceNumeric c
        else price_for_len c (length b))"

definition fee_split :: "config \<Rightarrow> int \<Rightarrow> int \<times> int \<times> int \<times> int" where
  "fee_split c amount =
     (let share = (\<lambda>bps. (min (amount * bps) (2 ^ 128 - 1) div RUST_BPS_DENOMINATOR) mod 2 ^ 64);
          staking = share (cfg_stakingFeeBps c);
          referral = share (cfg_referralFeeBps c);
          burn = share (cfg_burnFeeBps c);
          treasury = saturating_sub (saturating_sub (saturating_sub amount staking) referral) burn
      in (treasury, staking, referral, burn))"

definition solans_fee :: "config \<Rightarrow> int \<Rightarrow> solans_error + int" where
  "solans_fee c usdc_fee =
     bind_res (bind_res (checked_u 128 (usdc_fee * cfg_solansRate c))
                 (\<lambda>v. checked_div_u v RUST_SOLANS_RATE_SCALE)) (\<lambda>gross.
       let keep_bps = saturating_sub RUST_BPS_DENOMINATOR (cfg_solansDiscountBps c) in
       bind_res (bind_res (checked_u 128 (gross * keep_bps))
                   (\<lambda>v. checked_div_u v RUST_BPS_DENOMINATOR)) (\<lambda>net. checked_u 64 net))"

definition buyback_usdc :: "config \<Rightarrow> int \<Rightarrow> solans_error + int" where
  "buyback_usdc c solans_amount =
     bind_res (bind_res (checked_u 128 (solans_amount * RUST_SOLANS_RATE_SCALE))
                 (\<lambda>v. checked_div_u v (cfg_solansRate c))) (\<lambda>usdc. checked_u 64 usdc)"

section \<open>state/stake.rs: the reward accumulator\<close>

definition sync :: "stakePool \<Rightarrow> int \<Rightarrow> solans_error + stakePool" where
  "sync p reward_vault_amount =
     bind_res
       (if sp_totalStaked p > 0 then
          let delta = saturating_sub reward_vault_amount (sp_lastRewardBalance p) in
          if delta > 0 then
            bind_res (bind_res (checked_u 128 (delta * ACC_SCALE))
                        (\<lambda>v. checked_div_u v (sp_totalStaked p))) (\<lambda>add.
              bind_res (checked_u 128 (sp_accRewardPerShare p + add)) (\<lambda>acc.
                Inr (p\<lparr>sp_accRewardPerShare := acc\<rparr>)))
          else Inr p
        else Inr p)
       (\<lambda>p'. Inr (p'\<lparr>sp_lastRewardBalance := reward_vault_amount\<rparr>))"

definition accrued :: "stakePool \<Rightarrow> int \<Rightarrow> solans_error + int" where
  "accrued p amount =
     bind_res (checked_u 128 (amount * sp_accRewardPerShare p)) (\<lambda>v. checked_div_u v ACC_SCALE)"

definition pending :: "stakePool \<Rightarrow> stakeAccount \<Rightarrow> solans_error + int" where
  "pending p s =
     bind_res (accrued p (sa_amount s)) (\<lambda>a. Inr (saturating_sub a (sa_rewardDebt s) mod 2 ^ 64))"

section \<open>instructions/renew_name.rs and auto_renew.rs\<close>

text \<open>The expiry both renewal handlers write.\<close>

definition renewed_expiry :: "int \<Rightarrow> int \<Rightarrow> int \<Rightarrow> solans_error + int" where
  "renewed_expiry expires_at now years =
     bind_res (years_to_secs years) (\<lambda>secs. checked_i64 (max expires_at now + secs))"

text \<open>\<open>distribute\<close> is the fee distribution CPI; it moves tokens in the token state \<open>'t\<close> or fails.\<close>

definition auto_renew ::
  "(bytes \<Rightarrow> bytes) \<Rightarrow> (config \<Rightarrow> int \<Rightarrow> 't \<Rightarrow> solans_error + 't) \<Rightarrow> config \<Rightarrow> int \<Rightarrow> jsstr \<Rightarrow> jsstr \<Rightarrow> int \<Rightarrow>
   nameRecord \<times> 't \<Rightarrow> solans_error + (nameRecord \<times> 't)" where
  "auto_renew keccak distribute c now name tld years st =
     (case st of (nr, toks) \<Rightarrow>
       bind_res (validate_name name) (\<lambda>_.
       bind_res (validate_tld tld) (\<lambda>_.
       if nr_nameHash nr \<noteq> compute_name_hash keccak name tld then Inl NameMismatch else
       bind_res (validate_years years (cfg_minYears c) (cfg_maxYears c)) (\<lambda>_.
       if years \<noteq> 1 then Inl InvalidYears else
       bind_res (checked_u 64 (price_for_label c name * years)) (\<lambda>amount.
       bind_res (checked_i64 (nr_expiresAt nr - RUST_RENEWAL_WINDOW_SECONDS)) (\<lambda>window_opens.
       if \<not> window_opens \<le> now then Inl AutoRenewTooEarly else
       bind_res (distribute c amount toks) (\<lambda>toks'.
       bind_res (renewed_expiry (nr_expiresAt nr) now years) (\<lambda>e.
         Inr (nr\<lparr>nr_expiresAt := e\<rparr>, toks')))))))))"

section \<open>Lemmas on the program's arithmetic\<close>

lemma checked_u_Inr [res_simps]: "checked_u w n = Inr m \<longleftrightarrow> m = n \<and> 0 \<le> n \<and> n < 2 ^ w"
  by (auto simp: checked_u_def)

lemma checked_u_Inl [res_simps]: "checked_u w n = Inl e \<longleftrightarrow> e = MathOverflow \<and> \<not> (0 \<le> n \<and> n < 2 ^ w)"
  by (auto simp: checked_u_def)

lemma checked_i64_Inr [res_simps]: "checked_i64 n = Inr m \<longleftrightarrow> m = n \<and> i64 n"
  by (auto simp: checked_i64_def)

lemma checked_div_u_Inr [res_simps]: "checked_div_u a b = Inr m \<longleftrightarrow> b \<noteq> 0 \<and> m = a div b"
  by (auto simp: checked_div_u_def)

lemma price_for_len_u64: "prices_u64 c \<Longrightarrow> u64 (price_for_len c n)"
  by (simp add: prices_u64_def price_for_len_def)

text \<open>One term of the split: the share of a \<open>u16\<close> rate of a \<open>u64\<close> amount, free of truncation.\<close>

lemma fee_share_exact:
  assumes "u64 a" "u16 b" "b \<le> 10000"
  shows "min (a * b) (2 ^ 128 - 1) div 10000 mod 2 ^ 64 = a * b div 10000"
proof -
  have le: "a * b \<le> a * 10000" using assms by (intro mult_left_mono) (auto simp: u64_def)
  then have "a * b \<le> 2 ^ 128 - 1" using assms(1) by (simp add: u64_def)
  moreover have "a * b div 10000 \<le> a" using zdiv_mono1[OF le, of 10000] by simp
  moreover have "0 \<le> a * b div 10000" using assms by (simp add: u64_def u16_def pos_imp_zdiv_nonneg_iff)
  ultimately show ?thesis using assms(1) by (simp add: min_absorb1 u64_def)
qed

end
