(* ===== verification/Normalize.thy ===== *)
theory Normalize
  imports Program
begin

text \<open>
  \<open>clients/ts/src/normalize.ts\<close>: label and TLD validation, \<open>parseName\<close>, \<open>parsePath\<close>. Every
  \<open>throw\<close> is an \<open>Inl\<close> with the message the source builds. The Unicode operations are the parameter
  record \<open>U\<close>. \<open>canonical_label\<close> is the specification both this validator and the program's
  \<open>validate_name\<close> are proved to implement.
\<close>

section \<open>Definitions\<close>

definition DEFAULT_TLD :: jsstr where
  "DEFAULT_TLD = js ''sol''"

definition ALLOWED_TLDS :: "jsstr list" where
  "ALLOWED_TLDS = [js ''sol'', js ''chain'', js ''web3'']"

definition NAME_MAX_LEN :: nat where
  "NAME_MAX_LEN = 63"

definition MAX_SUBDOMAIN_DEPTH :: nat where
  "MAX_SUBDOMAIN_DEPTH = 4"

definition isEmojiChar :: "nat \<Rightarrow> bool" where
  "isEmojiChar cp \<longleftrightarrow>
     (0x1f300 \<le> cp \<and> cp \<le> 0x1faff) \<or>
     (0x2600 \<le> cp \<and> cp \<le> 0x27bf) \<or>
     (0x1f1e6 \<le> cp \<and> cp \<le> 0x1f1ff) \<or>
     (0x2300 \<le> cp \<and> cp \<le> 0x23ff) \<or>
     (0x2b00 \<le> cp \<and> cp \<le> 0x2bff) \<or>
     cp = 0x200d \<or>
     cp = 0x20e3 \<or>
     cp = 0xfe0f"

definition byteLen :: "jsstr \<Rightarrow> nat" where
  "byteLen s = length (utf8 s)"

definition isAllowedTld :: "jsstr \<Rightarrow> bool" where
  "isAllowedTld t \<longleftrightarrow> t \<in> set ALLOWED_TLDS"

text \<open>\<open>"\<close> around a message's argument.\<close>

definition quoted :: "jsstr \<Rightarrow> jsstr" where
  "quoted s = [34] @ s @ [34]"

definition strip_leading_dot :: "jsstr \<Rightarrow> jsstr" where
  "strip_leading_dot s = (case s of [] \<Rightarrow> [] | c # cs \<Rightarrow> if c = 46 then cs else s)"

definition validateTld :: "unicode \<Rightarrow> jsstr \<Rightarrow> jsstr res" where
  "validateTld U tld =
     (let t = strip_leading_dot (lower U (trim tld)) in
      if \<not> isAllowedTld t
      then Inl (JsError (js ''Unsupported TLD '' @ quoted tld @ js '' (allowed: '' @
             join (js '', '') ALLOWED_TLDS @ js '')''))
      else Inr t)"

definition length_error :: "jsstr \<Rightarrow> js_error" where
  "length_error input = JsError (js ''Invalid name length (must be 1-63 bytes): '' @ quoted input)"

definition hyphen_error :: "jsstr \<Rightarrow> js_error" where
  "hyphen_error input =
     JsError (js ''Invalid hyphen position (no leading/trailing/double): '' @ quoted input)"

definition character_error :: "jsstr \<Rightarrow> js_error" where
  "character_error input =
     JsError (js ''Name has invalid characters (allowed: a-z 0-9 - and emoji): '' @ quoted input)"

definition depth_error :: "jsstr \<Rightarrow> js_error" where
  "depth_error input = JsError (js ''Subdomain too deep (max 4 levels): '' @ quoted input)"

text \<open>The \<open>for (const c of chars)\<close> loop of \<open>validateLabel\<close> with its local \<open>prevHyphen\<close>.\<close>

fun validateLabel_loop :: "jsstr \<Rightarrow> bool \<Rightarrow> jsstr \<Rightarrow> unit res" where
  "validateLabel_loop input prevHyphen [] = Inr ()"
| "validateLabel_loop input prevHyphen (c # cs) =
     (let asciiOk = (c = 45 \<or> (97 \<le> c \<and> c \<le> 122) \<or> (48 \<le> c \<and> c \<le> 57)) in
      if \<not> asciiOk \<and> \<not> isEmojiChar c then Inl (character_error input)
      else if c = 45 then
        (if prevHyphen then Inl (hyphen_error input) else validateLabel_loop input True cs)
      else validateLabel_loop input False cs)"

definition validateLabel :: "jsstr \<Rightarrow> jsstr \<Rightarrow> jsstr res" where
  "validateLabel label input =
     (if byteLen label < 1 \<or> NAME_MAX_LEN < byteLen label then Inl (length_error input)
      else if label \<noteq> [] \<and> (hd label = 45 \<or> last label = 45) then Inl (hyphen_error input)
      else bind_res (validateLabel_loop input False label) (\<lambda>_. Inr label))"

text \<open>The common head of \<open>parseName\<close> and \<open>parsePath\<close>: trim, normalize, lower, split off an allowed
  TLD at the last dot.\<close>

definition canonicalize :: "unicode \<Rightarrow> jsstr \<Rightarrow> jsstr" where
  "canonicalize U input = lower U (nfkc U (trim input))"

definition split_tld :: "jsstr \<Rightarrow> jsstr \<times> jsstr" where
  "split_tld trimmed =
     (let dot = lastIndexOf 46 trimmed; suffix = drop (nat (dot + 1)) trimmed in
      if 0 < dot \<and> isAllowedTld suffix then (take (nat dot) trimmed, suffix)
      else (trimmed, DEFAULT_TLD))"

text \<open>\<open>if (tldOverride) tld = validateTld(tldOverride)\<close>: an absent or empty override is falsy.\<close>

definition override_tld :: "unicode \<Rightarrow> jsstr \<Rightarrow> jsstr option \<Rightarrow> jsstr res" where
  "override_tld U tld ov = (case ov of None \<Rightarrow> Inr tld | Some t \<Rightarrow> if t = [] then Inr tld else validateTld U t)"

definition parseName :: "unicode \<Rightarrow> jsstr \<Rightarrow> jsstr option \<Rightarrow> (jsstr \<times> jsstr) res" where
  "parseName U input tldOverride =
     (let (label, tld) = split_tld (canonicalize U input) in
      bind_res (override_tld U tld tldOverride) (\<lambda>tld.
      bind_res (validateLabel label input) (\<lambda>name. Inr (name, tld))))"

fun validate_labels :: "jsstr list \<Rightarrow> jsstr \<Rightarrow> unit res" where
  "validate_labels [] input = Inr ()"
| "validate_labels (l # ls) input =
     bind_res (validateLabel l input) (\<lambda>_. validate_labels ls input)"

definition parsePath :: "unicode \<Rightarrow> jsstr \<Rightarrow> jsstr option \<Rightarrow> (jsstr list \<times> jsstr) res" where
  "parsePath U input tldOverride =
     (let (rest, tld) = split_tld (canonicalize U input) in
      bind_res (override_tld U tld tldOverride) (\<lambda>tld.
        let labels = split_on 46 rest in
        if MAX_SUBDOMAIN_DEPTH < length labels - 1 then Inl (depth_error input)
        else bind_res (validate_labels labels input) (\<lambda>_. Inr (labels, tld))))"

definition normalizeName :: "unicode \<Rightarrow> jsstr \<Rightarrow> jsstr res" where
  "normalizeName U input = bind_res (parseName U input None) (\<lambda>(name, tld). Inr name)"

definition isValidName :: "unicode \<Rightarrow> jsstr \<Rightarrow> bool" where
  "isValidName U input = (case parseName U input None of Inr _ \<Rightarrow> True | Inl _ \<Rightarrow> False)"

section \<open>Specification\<close>

definition label_char :: "nat \<Rightarrow> bool" where
  "label_char c \<longleftrightarrow> (97 \<le> c \<and> c \<le> 122) \<or> (48 \<le> c \<and> c \<le> 57) \<or> c = 45 \<or> emoji_range c"

definition canonical_label :: "jsstr \<Rightarrow> bool" where
  "canonical_label l \<longleftrightarrow>
     l \<noteq> [] \<and> length (utf8 l) \<le> 63 \<and> list_all label_char l \<and>
     hd l \<noteq> 45 \<and> last l \<noteq> 45 \<and> \<not> sublist [45, 45] l"

definition canonical_path :: "jsstr list \<Rightarrow> bool" where
  "canonical_path ls \<longleftrightarrow> ls \<noteq> [] \<and> length ls \<le> 5 \<and> list_all canonical_label ls"

definition dotted :: "jsstr list \<Rightarrow> jsstr \<Rightarrow> jsstr" where
  "dotted ls tld = join [46] (ls @ [tld])"

section \<open>The validator implements the specification\<close>

lemma isEmojiChar_range [simp]: "isEmojiChar c = emoji_range c"
  by (simp add: isEmojiChar_def emoji_range_def)

lemma is_emoji_char_range [simp]: "is_emoji_char c = emoji_range c"
  by (simp add: is_emoji_char_def emoji_range_def)

lemma sublist_hyphens_Cons:
  "sublist [45, 45] ((c::nat) # cs) \<longleftrightarrow> (c = 45 \<and> cs \<noteq> [] \<and> hd cs = 45) \<or> sublist [45, 45] cs"
  by (cases cs) (auto simp: sublist_Cons_right)

lemma validateLabel_loop_iff:
  "validateLabel_loop input prev cs = Inr () \<longleftrightarrow>
   list_all label_char cs \<and> \<not> sublist [45, 45] (if prev then 45 # cs else cs)"
proof (induction input prev cs rule: validateLabel_loop.induct)
  case (1 input prev)
  then show ?case by (auto simp: sublist_Cons_right)
next
  case (2 input prev c cs)
  then show ?case
    by (cases "c = 45")
       (auto simp: Let_def label_char_def sublist_hyphens_Cons split: if_splits)
qed

lemma validateLabel_iff:
  "validateLabel l input = Inr r \<longleftrightarrow> canonical_label l \<and> r = l"
  using validateLabel_loop_iff[of input False l]
  by (cases "validateLabel_loop input False l")
     (auto simp: validateLabel_def canonical_label_def byteLen_def NAME_MAX_LEN_def not_less_eq_eq
        Suc_le_eq)

lemma validate_name_loop_iff:
  "validate_name_loop f l prev cs = Inr r \<longleftrightarrow>
   list_all label_char cs \<and> \<not> sublist [45, 45] (if prev then 45 # cs else cs) \<and>
   r = (if cs = [] then (f, l) else (if f = None then Some (hd cs) else f, last cs))"
proof (induction cs arbitrary: f l prev)
  case Nil
  then show ?case by (auto simp: sublist_Cons_right)
next
  case (Cons c cs)
  show ?case
    by (cases "c = 45")
       (auto simp: Let_def label_char_def sublist_hyphens_Cons Cons.IH split: if_splits)
qed

lemma validate_name_iff: "validate_name l = Inr () \<longleftrightarrow> canonical_label l"
proof (cases "validate_name_loop None 0 False l")
  case (Inl e)
  then have "\<not> (list_all label_char l \<and> \<not> sublist [45, 45] l)"
    using validate_name_loop_iff[of None 0 False l] by (metis (full_types) Inl_Inr_False)
  with Inl show ?thesis by (auto simp: validate_name_def canonical_label_def Let_def)
next
  case (Inr r)
  with validate_name_loop_iff[of None 0 False l r] show ?thesis
    by (cases "l = []")
       (auto simp: validate_name_def canonical_label_def Let_def NAME_MIN_LEN_def
          RUST_NAME_MAX_LEN_def Suc_le_eq)
qed

lemma validate_labels_iff: "validate_labels ls input = Inr () \<longleftrightarrow> list_all canonical_label ls"
  by (induction ls) (auto simp: res_simps validateLabel_iff)

lemma allowed_tlds_eq: "ALLOWED_TLDS = RUST_ALLOWED_TLDS"
  by (simp add: ALLOWED_TLDS_def RUST_ALLOWED_TLDS_def)

lemma validate_tld_iff: "validate_tld t = Inr () \<longleftrightarrow> isAllowedTld t"
  by (simp add: validate_tld_def isAllowedTld_def allowed_tlds_eq)

section \<open>Facts about canonical labels and TLDs\<close>

lemma DEFAULT_TLD_allowed [simp]: "isAllowedTld DEFAULT_TLD"
  by (simp add: isAllowedTld_def ALLOWED_TLDS_def DEFAULT_TLD_def)

lemma allowed_tld_cases: "isAllowedTld t \<Longrightarrow> t = js ''sol'' \<or> t = js ''chain'' \<or> t = js ''web3''"
  by (auto simp: isAllowedTld_def ALLOWED_TLDS_def)

lemma allowed_tld_stable: "isAllowedTld t \<Longrightarrow> list_all nfkc_stable t"
  by (auto dest!: allowed_tld_cases simp: nfkc_stable_def)

lemma allowed_tld_no_dot: "isAllowedTld t \<Longrightarrow> 46 \<notin> set t"
  by (auto dest!: allowed_tld_cases)

lemma allowed_tld_scalar: "isAllowedTld t \<Longrightarrow> list_all scalar t"
  using allowed_tld_stable nfkc_stable_scalar by (auto simp: list_all_iff)

lemma label_char_scalar: "label_char c \<Longrightarrow> scalar c"
  unfolding label_char_def emoji_range_def scalar_def by presburger

lemma label_char_not_dot: "label_char c \<Longrightarrow> c \<noteq> 46"
  unfolding label_char_def emoji_range_def by presburger

lemma label_char_nonzero: "label_char c \<Longrightarrow> c \<noteq> 0"
  unfolding label_char_def emoji_range_def by presburger

lemma canonical_label_not_Nil: "canonical_label l \<Longrightarrow> l \<noteq> []"
  by (simp add: canonical_label_def)

lemma canonical_label_no_dot: "canonical_label l \<Longrightarrow> 46 \<notin> set l"
  using label_char_not_dot by (auto simp: canonical_label_def list_all_iff)

lemma canonical_label_scalar: "canonical_label l \<Longrightarrow> list_all scalar l"
  using label_char_scalar by (auto simp: canonical_label_def list_all_iff)

lemma override_tld_ok:
  "override_tld U tld ov = Inr t \<Longrightarrow> isAllowedTld tld \<Longrightarrow> isAllowedTld t"
  by (auto simp: override_tld_def validateTld_def Let_def split: option.splits if_splits)

lemma split_tld_allowed: "isAllowedTld (snd (split_tld s))"
  by (simp add: split_tld_def Let_def)

lemma split_tld_append:
  assumes "p \<noteq> []" "isAllowedTld t"
  shows "split_tld (p @ 46 # t) = (p, t)"
proof -
  have "lastIndexOf 46 (p @ 46 # t) = int (length p)"
    using assms(2) by (intro lastIndexOf_append allowed_tld_no_dot)
  moreover have "nat (int (length p) + 1) = Suc (length p)" by simp
  ultimately show ?thesis using assms by (simp add: split_tld_def Let_def)
qed

lemma split_tld_no_dot: "46 \<notin> set s \<Longrightarrow> split_tld s = (s, DEFAULT_TLD)"
  by (simp add: split_tld_def lastIndexOf_notin)

section \<open>What the parsers return\<close>

lemma parseName_iff:
  "parseName U input ov = Inr (name, tld) \<longleftrightarrow>
   name = fst (split_tld (canonicalize U input)) \<and> canonical_label name \<and>
   override_tld U (snd (split_tld (canonicalize U input))) ov = Inr tld"
  by (auto simp: parseName_def Let_def res_simps validateLabel_iff split: prod.splits)

lemma parsePath_iff:
  "parsePath U input ov = Inr (labels, tld) \<longleftrightarrow>
   labels = split_on 46 (fst (split_tld (canonicalize U input))) \<and> canonical_path labels \<and>
   override_tld U (snd (split_tld (canonicalize U input))) ov = Inr tld"
  by (auto simp: parsePath_def Let_def res_simps validate_labels_iff canonical_path_def
      MAX_SUBDOMAIN_DEPTH_def split: prod.splits if_splits)

lemma parsePath_tld: "parsePath U input ov = Inr (labels, tld) \<Longrightarrow> isAllowedTld tld"
  using override_tld_ok split_tld_allowed by (fastforce simp: parsePath_iff)

lemma parseName_tld: "parseName U input ov = Inr (name, tld) \<Longrightarrow> isAllowedTld tld"
  using override_tld_ok split_tld_allowed by (fastforce simp: parseName_iff)

lemma parseName_parsePath:
  "parseName U input ov = Inr (name, tld) \<Longrightarrow> parsePath U input ov = Inr ([name], tld)"
  by (auto simp: parseName_iff parsePath_iff canonical_path_def canonical_label_no_dot)

lemma parsePath_single_parseName:
  assumes "parsePath U input ov = Inr ([name], tld)"
  shows "parseName U input ov = Inr (name, tld)"
proof -
  let ?r = "fst (split_tld (canonicalize U input))"
  have "[name] = split_on 46 ?r" using assms by (simp add: parsePath_iff)
  then have "name = ?r" using join_split_on[of 46 ?r] by (metis join.simps(2))
  with assms show ?thesis by (simp add: parseName_iff parsePath_iff canonical_path_def)
qed

lemma dotted_Cons_label: "ls \<noteq> [] \<Longrightarrow> dotted ls tld = join [46] ls @ 46 # tld"
  unfolding dotted_def
proof (induction ls)
  case (Cons l ls)
  then show ?case by (cases "ls = []") (auto simp: join_Cons)
qed simp

lemma canonical_path_no_dot: "canonical_path ls \<Longrightarrow> \<forall>l \<in> set ls. 46 \<notin> set l"
  by (auto simp: canonical_path_def list_all_iff canonical_label_no_dot)

lemma canonical_path_join_not_Nil: "canonical_path ls \<Longrightarrow> join [46] ls \<noteq> []"
  by (cases "([46] :: jsstr, ls)" rule: join.cases) (auto simp: canonical_path_def canonical_label_def)

text \<open>Reading back a printed path.\<close>

lemma parsePath_stable_dotted:
  assumes "unicode_ok U" "canonical_path ls" "isAllowedTld tld" "list_all nfkc_stable (join [46] ls)"
  shows "parsePath U (dotted ls tld) None = Inr (ls, tld)"
proof -
  have ne: "ls \<noteq> []" using assms(2) by (simp add: canonical_path_def)
  have d: "dotted ls tld = join [46] ls @ 46 # tld" using ne by (rule dotted_Cons_label)
  have "list_all nfkc_stable (dotted ls tld)"
    using assms(3,4) by (simp add: d allowed_tld_stable nfkc_stable_def)
  then have c: "canonicalize U (dotted ls tld) = dotted ls tld"
    using assms(1) by (simp add: canonicalize_def stable_pipeline)
  have "split_tld (dotted ls tld) = (join [46] ls, tld)"
    unfolding d by (rule split_tld_append) (use assms canonical_path_join_not_Nil in auto)
  moreover have "split_on 46 (join [46] ls) = ls"
    using ne assms(2) by (intro split_on_join) (auto dest: canonical_path_no_dot)
  ultimately show ?thesis using assms(2) by (simp add: parsePath_iff c override_tld_def)
qed

lemma subdomain_not_a_name:
  assumes "parsePath U name ov = Inr (l # m # ls, tld)"
  shows "\<exists>e. parseName U name ov = Inl e"
proof (rule ccontr)
  assume "\<nexists>e. parseName U name ov = Inl e"
  then obtain n t where "parseName U name ov = Inr (n, t)" by (metis sum.exhaust surj_pair)
  from parseName_parsePath[OF this] assms show False by simp
qed

lemma parseName_stable:
  assumes "unicode_ok U" "canonical_label l" "isAllowedTld tld" "list_all nfkc_stable l"
  shows "parseName U (l @ js ''.'' @ tld) None = Inr (l, tld)"
proof -
  have "parsePath U (dotted [l] tld) None = Inr ([l], tld)"
    using assms by (intro parsePath_stable_dotted) (simp_all add: canonical_path_def)
  then show ?thesis by (intro parsePath_single_parseName) (simp add: dotted_def)
qed

text \<open>The name the witnesses use.\<close>

lemma sample_name: "parseName ascii_unicode (js ''alex.sol'') None = Inr (js ''alex'', js ''sol'')"
  using parseName_stable[OF ascii_unicode_ok, of "js ''alex''" "js ''sol''"]
  by (simp add: canonical_label_def label_char_def utf8_def utf8_char_def isAllowedTld_def ALLOWED_TLDS_def
      nfkc_stable_def sublist_code)

lemma sample_subname:
  "parsePath ascii_unicode (js ''pay.alex.sol'') None = Inr ([js ''pay'', js ''alex''], js ''sol'')"
  using parsePath_stable_dotted[OF ascii_unicode_ok, of "[js ''pay'', js ''alex'']" "js ''sol''"]
  by (simp add: canonical_path_def canonical_label_def label_char_def utf8_def utf8_char_def isAllowedTld_def
      ALLOWED_TLDS_def nfkc_stable_def sublist_code dotted_def)

text \<open>parseName and parsePath agree: parseName accepts an input with a name and TLD exactly when parsePath accepts it as a path of that single label.\<close>

lemma parseName_parsePath_agree:
  "parseName U input ov = Inr (name, tld) \<longleftrightarrow> parsePath U input ov = Inr ([name], tld)"
  using parseName_parsePath parsePath_single_parseName by blast

section \<open>Properties\<close>

text \<open>C5: The client accepts a label exactly when the program does, and both accept exactly the canonical labels: 1 to 63 UTF-8 bytes of a-z, 0-9, hyphen and the emoji ranges, no hyphen at an end, no double hyphen.\<close>

theorem validateLabel_mirrors_program:
  "is_ok (validateLabel label input) = is_ok (validate_name label) \<and>
   is_ok (validate_name label) = canonical_label label"
  using validateLabel_iff[of label input] validate_name_iff[of label] by (auto simp: is_ok_iff)

text \<open>C8: Printing a canonical path with its TLD and parsing the text gives the path and the TLD back, whenever NFKC leaves the labels alone.\<close>

theorem parsePath_print_roundtrip:
  assumes "unicode_ok U" "canonical_path ls" "isAllowedTld tld" "list_all nfkc_stable (join [46] ls)"
  shows "parsePath U (dotted ls tld) None = Inr (ls, tld)"
  by (rule parsePath_stable_dotted[OF assms])

theorem parsePath_print_roundtrip_witness:
  "unicode_ok ascii_unicode \<and>
   parsePath ascii_unicode (dotted [js ''pay'', [0x1F525], js ''a-1''] (js ''chain'')) None =
     Inr ([js ''pay'', [0x1F525], js ''a-1''], js ''chain'')"
  using parsePath_print_roundtrip[OF ascii_unicode_ok, of "[js ''pay'', [0x1F525], js ''a-1'']" "js ''chain''"]
    ascii_unicode_ok
  by (simp add: canonical_path_def canonical_label_def label_char_def emoji_range_def utf8_def utf8_char_def
      isAllowedTld_def ALLOWED_TLDS_def nfkc_stable_def sublist_code)

end
