(* ===== verification/Kit.thy ===== *)
theory Kit
  imports Prelude
begin

text \<open>
  The third-party packages the TypeScript code calls (\<open>@solana/kit\<close>, \<open>@noble/hashes\<close>,
  \<open>@solana-program/token\<close>) are not part of the repository. They enter the model as the fields of one
  parameter record \<open>kit\<close>. The generated client builds its encoders and decoders by applying kit
  combinators; a codec is therefore a term of those combinators (\<open>codec\<close>), and the kit's meaning of
  the term is the parameter \<open>encode\<close>/\<open>read\<close>. A decoder's \<open>read(bytes, offset)\<close> is modelled on the
  suffix from the offset: it returns the value and the suffix behind it.

  The locale \<open>kit_codecs\<close> states the documented behaviour of each combinator (the Borsh layout:
  little-endian numbers of fixed width, a \<open>u32\<close> length before strings and arrays, a \<open>u8\<close> tag before
  an optional value, struct fields in order). From it one theorem gives the round trip of every
  well-typed value of every codec. The interpretation at the end runs the laws on an executable
  reference implementation of that layout, with base58 addresses.
\<close>

section \<open>Codec terms, values, the parameter record\<close>

datatype codec =
    U8C | U16C | U32C | U64C | U128C | I64C
  | BooleanC | AddressC | BytesC | Utf8C
  | FixSizeC codec nat
  | SizePrefixC codec codec
  | OptionC codec
  | ArrayC codec
  | StructC "(string \<times> codec) list"

datatype cval =
    VNum int
  | VBool bool
  | VAddr address
  | VBytes bytes
  | VStr jsstr
  | VOpt "cval option"
  | VArr "cval list"
  | VStruct "(string \<times> cval) list"

text \<open>The value of an instruction account (an address, a signer, a derived address with its bump), an
  account meta with its role, an instruction.\<close>

datatype acctVal = AddrI address | SignerI address | PdaI address int

datatype accountRole = READONLY | WRITABLE | READONLY_SIGNER | WRITABLE_SIGNER

record accountMeta =
  am_address :: address
  am_role :: accountRole

record instruction =
  ix_programAddress :: address
  ix_accounts :: "accountMeta list"
  ix_data :: bytes

record kit =
  keccak_256 :: "bytes \<Rightarrow> bytes"
  getProgramDerivedAddress :: "address \<Rightarrow> bytes list \<Rightarrow> (address \<times> int) res"
  encode :: "codec \<Rightarrow> cval \<Rightarrow> bytes res"
  read :: "codec \<Rightarrow> bytes \<Rightarrow> (cval \<times> bytes) res"
  isAddress :: "address \<Rightarrow> bool"
  base58_encode :: "jsstr \<Rightarrow> bytes res"
  containsBytes :: "bytes \<Rightarrow> bytes \<Rightarrow> nat \<Rightarrow> bool"
  getAccountMeta :: "address \<Rightarrow> string \<Rightarrow> acctVal option \<Rightarrow> bool \<Rightarrow> accountMeta"

text \<open>\<open>decoder.decode(bytes)\<close> reads at offset 0 and ignores what follows the value.\<close>

definition decode :: "kit \<Rightarrow> codec \<Rightarrow> bytes \<Rightarrow> cval res" where
  "decode K c bs = bind_res (read K c bs) (\<lambda>(v, rest). Inr v)"

text \<open>\<open>address(s)\<close> returns its argument or throws.\<close>

definition address_error :: js_error where
  "address_error = JsError (js ''invalid address'')"

definition address_of :: "kit \<Rightarrow> jsstr \<Rightarrow> address res" where
  "address_of K s = (if isAddress K s then Inr s else Inl address_error)"

text \<open>Selectors of decoded values: the fields of a decoded object, by name.\<close>

fun fld :: "string \<Rightarrow> cval \<Rightarrow> cval" where
  "fld f (VStruct fs) = (case map_of fs f of Some v \<Rightarrow> v | None \<Rightarrow> VStruct [])"
| "fld f v = VStruct []"

fun num_of :: "cval \<Rightarrow> int" where
  "num_of (VNum n) = n" | "num_of v = 0"

fun bool_of :: "cval \<Rightarrow> bool" where
  "bool_of (VBool b) = b" | "bool_of v = False"

fun addr_of :: "cval \<Rightarrow> address" where
  "addr_of (VAddr a) = a" | "addr_of v = []"

fun bytes_of :: "cval \<Rightarrow> bytes" where
  "bytes_of (VBytes b) = b" | "bytes_of v = []"

fun str_of :: "cval \<Rightarrow> jsstr" where
  "str_of (VStr s) = s" | "str_of v = []"

fun opt_of :: "cval \<Rightarrow> cval option" where
  "opt_of (VOpt x) = x" | "opt_of v = None"

fun arr_of :: "cval \<Rightarrow> cval list" where
  "arr_of (VArr vs) = vs" | "arr_of v = []"

section \<open>Well-typed values\<close>

fun num_range :: "codec \<Rightarrow> int \<Rightarrow> bool" where
  "num_range U8C n \<longleftrightarrow> 0 \<le> n \<and> n < 2 ^ 8"
| "num_range U16C n \<longleftrightarrow> 0 \<le> n \<and> n < 2 ^ 16"
| "num_range U32C n \<longleftrightarrow> 0 \<le> n \<and> n < 2 ^ 32"
| "num_range U64C n \<longleftrightarrow> 0 \<le> n \<and> n < 2 ^ 64"
| "num_range U128C n \<longleftrightarrow> 0 \<le> n \<and> n < 2 ^ 128"
| "num_range I64C n \<longleftrightarrow> - (2 ^ 63) \<le> n \<and> n < 2 ^ 63"
| "num_range _ n \<longleftrightarrow> False"

definition text_ok :: "jsstr \<Rightarrow> bool" where
  "text_ok s \<longleftrightarrow> list_all scalar s \<and> 0 \<notin> set s \<and> length (utf8 s) < 2 ^ 32"

text \<open>\<open>wt A c v\<close>: the value \<open>v\<close> is one the codec \<open>c\<close> is built for; \<open>A\<close> tells addresses apart.\<close>

fun wt :: "(address \<Rightarrow> bool) \<Rightarrow> codec \<Rightarrow> cval \<Rightarrow> bool"
  and wt_fields :: "(address \<Rightarrow> bool) \<Rightarrow> (string \<times> codec) list \<Rightarrow> (string \<times> cval) list \<Rightarrow> bool" where
  "wt A U8C v = (case v of VNum n \<Rightarrow> num_range U8C n | _ \<Rightarrow> False)"
| "wt A U16C v = (case v of VNum n \<Rightarrow> num_range U16C n | _ \<Rightarrow> False)"
| "wt A U32C v = (case v of VNum n \<Rightarrow> num_range U32C n | _ \<Rightarrow> False)"
| "wt A U64C v = (case v of VNum n \<Rightarrow> num_range U64C n | _ \<Rightarrow> False)"
| "wt A U128C v = (case v of VNum n \<Rightarrow> num_range U128C n | _ \<Rightarrow> False)"
| "wt A I64C v = (case v of VNum n \<Rightarrow> num_range I64C n | _ \<Rightarrow> False)"
| "wt A BooleanC v = (case v of VBool b \<Rightarrow> True | _ \<Rightarrow> False)"
| "wt A AddressC v = (case v of VAddr a \<Rightarrow> A a | _ \<Rightarrow> False)"
| "wt A BytesC v = False"
| "wt A Utf8C v = False"
| "wt A (FixSizeC c n) v = (c = BytesC \<and> (case v of VBytes b \<Rightarrow> length b = n | _ \<Rightarrow> False))"
| "wt A (SizePrefixC c p) v = (c = Utf8C \<and> p = U32C \<and> (case v of VStr s \<Rightarrow> text_ok s | _ \<Rightarrow> False))"
| "wt A (OptionC c) v = (case v of VOpt x \<Rightarrow> (case x of None \<Rightarrow> True | Some w \<Rightarrow> wt A c w) | _ \<Rightarrow> False)"
| "wt A (ArrayC c) v = (case v of VArr vs \<Rightarrow> length vs < 2 ^ 32 \<and> (\<forall>w \<in> set vs. wt A c w) | _ \<Rightarrow> False)"
| "wt A (StructC fs) v = (case v of VStruct vs \<Rightarrow> wt_fields A fs vs | _ \<Rightarrow> False)"
| "wt_fields A [] vs = (vs = [])"
| "wt_fields A (fc # fs) vs =
     (case vs of [] \<Rightarrow> False | gv # vs' \<Rightarrow> fst fc = fst gv \<and> wt A (snd fc) (snd gv) \<and> wt_fields A fs vs')"

section \<open>Sequencing encoders and readers\<close>

fun enc_all :: "(cval \<Rightarrow> bytes res) \<Rightarrow> cval list \<Rightarrow> bytes res" where
  "enc_all e [] = Inr []"
| "enc_all e (v # vs) = bind_res (e v) (\<lambda>b. bind_res (enc_all e vs) (\<lambda>bs. Inr (b @ bs)))"

fun read_n :: "(bytes \<Rightarrow> (cval \<times> bytes) res) \<Rightarrow> nat \<Rightarrow> bytes \<Rightarrow> (cval list \<times> bytes) res" where
  "read_n r 0 s = Inr ([], s)"
| "read_n r (Suc n) s =
     bind_res (r s) (\<lambda>(v, s1). bind_res (read_n r n s1) (\<lambda>(vs, s2). Inr (v # vs, s2)))"

fun enc_fields ::
  "(codec \<Rightarrow> cval \<Rightarrow> bytes res) \<Rightarrow> (string \<times> codec) list \<Rightarrow> (string \<times> cval) list \<Rightarrow> bytes res" where
  "enc_fields e ((f, c) # fs) ((g, v) # vs) =
     bind_res (e c v) (\<lambda>b. bind_res (enc_fields e fs vs) (\<lambda>bs. Inr (b @ bs)))"
| "enc_fields e fs vs = Inr []"

fun read_fields ::
  "(codec \<Rightarrow> bytes \<Rightarrow> (cval \<times> bytes) res) \<Rightarrow> (string \<times> codec) list \<Rightarrow> bytes \<Rightarrow>
   ((string \<times> cval) list \<times> bytes) res" where
  "read_fields r [] s = Inr ([], s)"
| "read_fields r ((f, c) # fs) s =
     bind_res (r c s) (\<lambda>(v, s1). bind_res (read_fields r fs s1) (\<lambda>(vs, s2). Inr ((f, v) # vs, s2)))"

section \<open>A reference implementation of the layout\<close>

definition codec_error :: js_error where
  "codec_error = JsError (js ''codec error'')"

fun le_bytes :: "nat \<Rightarrow> nat \<Rightarrow> bytes" where
  "le_bytes 0 n = []"
| "le_bytes (Suc w) n = n mod 256 # le_bytes w (n div 256)"

fun le_val :: "bytes \<Rightarrow> nat" where
  "le_val [] = 0"
| "le_val (b # bs) = b + 256 * le_val bs"

fun num_width :: "codec \<Rightarrow> nat" where
  "num_width U8C = 1" | "num_width U16C = 2" | "num_width U32C = 4" | "num_width U64C = 8"
| "num_width U128C = 16" | "num_width I64C = 8" | "num_width c = 0"

definition enc_num_ref :: "codec \<Rightarrow> cval \<Rightarrow> bytes res" where
  "enc_num_ref c v = (case v of
     VNum n \<Rightarrow> if num_range c n then Inr (le_bytes (num_width c) (nat (n mod 2 ^ (8 * num_width c))))
              else Inl codec_error
   | _ \<Rightarrow> Inl codec_error)"

definition rd_num_ref :: "codec \<Rightarrow> bytes \<Rightarrow> (cval \<times> bytes) res" where
  "rd_num_ref c s =
     (let w = num_width c; n = le_val (take w s) in
      if length s < w then Inl codec_error
      else Inr (VNum (if c = I64C \<and> 2 ^ 63 \<le> n then int n - 2 ^ 64 else int n), drop w s))"

fun utf8_dec :: "bytes \<Rightarrow> jsstr" where
  "utf8_dec [] = []"
| "utf8_dec (b # bs) =
     (if b < 0x80 then b # utf8_dec bs
      else (case bs of [] \<Rightarrow> [0xFFFD] | b1 # bs1 \<Rightarrow>
        if b < 0xE0 then ((b - 0xC0) * 64 + (b1 - 0x80)) # utf8_dec bs1
        else (case bs1 of [] \<Rightarrow> [0xFFFD] | b2 # bs2 \<Rightarrow>
          if b < 0xF0 then ((b - 0xE0) * 4096 + (b1 - 0x80) * 64 + (b2 - 0x80)) # utf8_dec bs2
          else (case bs2 of [] \<Rightarrow> [0xFFFD] | b3 # bs3 \<Rightarrow>
            ((b - 0xF0) * 262144 + (b1 - 0x80) * 4096 + (b2 - 0x80) * 64 + (b3 - 0x80)) # utf8_dec bs3))))"

definition alphabet58 :: jsstr where
  "alphabet58 = js ''123456789ABCDEFGHJKLMNPQRSTUVWXYZabcdefghijkmnopqrstuvwxyz''"

fun index_of :: "nat \<Rightarrow> jsstr \<Rightarrow> nat" where
  "index_of c [] = 0"
| "index_of c (x # xs) = (if x = c then 0 else Suc (index_of c xs))"

fun be_bytes :: "nat \<Rightarrow> bytes" where
  "be_bytes n = (if n = 0 then [] else be_bytes (n div 256) @ [n mod 256])"

fun digits58 :: "nat \<Rightarrow> nat list" where
  "digits58 n = (if n = 0 then [] else digits58 (n div 58) @ [n mod 58])"

declare be_bytes.simps [simp del] digits58.simps [simp del]

definition dec58 :: "jsstr \<Rightarrow> bytes" where
  "dec58 s =
     replicate (length (takeWhile (\<lambda>c. c = 49) s)) 0 @
     be_bytes (foldl (\<lambda>acc c. acc * 58 + index_of c alphabet58) 0 s)"

definition enc58 :: "bytes \<Rightarrow> jsstr" where
  "enc58 bs =
     replicate (length (takeWhile (\<lambda>b. b = 0) bs)) 49 @
     map (\<lambda>d. alphabet58 ! d) (digits58 (foldl (\<lambda>acc b. acc * 256 + b) 0 bs))"

definition is_address_ref :: "address \<Rightarrow> bool" where
  "is_address_ref a \<longleftrightarrow> length (dec58 a) = 32 \<and> enc58 (dec58 a) = a"

fun enc_ref :: "codec \<Rightarrow> cval \<Rightarrow> bytes res"
  and enc_fields_ref :: "(string \<times> codec) list \<Rightarrow> (string \<times> cval) list \<Rightarrow> bytes res" where
  "enc_ref U8C v = enc_num_ref U8C v"
| "enc_ref U16C v = enc_num_ref U16C v"
| "enc_ref U32C v = enc_num_ref U32C v"
| "enc_ref U64C v = enc_num_ref U64C v"
| "enc_ref U128C v = enc_num_ref U128C v"
| "enc_ref I64C v = enc_num_ref I64C v"
| "enc_ref BooleanC v = (case v of VBool b \<Rightarrow> Inr [if b then 1 else 0] | _ \<Rightarrow> Inl codec_error)"
| "enc_ref AddressC v =
     (case v of VAddr a \<Rightarrow> if is_address_ref a then Inr (dec58 a) else Inl codec_error | _ \<Rightarrow> Inl codec_error)"
| "enc_ref BytesC v = (case v of VBytes b \<Rightarrow> Inr b | _ \<Rightarrow> Inl codec_error)"
| "enc_ref Utf8C v = (case v of VStr s \<Rightarrow> Inr (utf8 s) | _ \<Rightarrow> Inl codec_error)"
| "enc_ref (FixSizeC c n) v =
     bind_res (enc_ref c v) (\<lambda>bs. Inr (take n bs @ replicate (n - length bs) 0))"
| "enc_ref (SizePrefixC c p) v =
     bind_res (enc_ref c v) (\<lambda>bs.
     bind_res (enc_ref p (VNum (int (length bs)))) (\<lambda>pb. Inr (pb @ bs)))"
| "enc_ref (OptionC c) v =
     (case v of
        VOpt None \<Rightarrow> Inr [0]
      | VOpt (Some w) \<Rightarrow> bind_res (enc_ref c w) (\<lambda>bs. Inr (1 # bs))
      | _ \<Rightarrow> Inl codec_error)"
| "enc_ref (ArrayC c) v =
     (case v of
        VArr vs \<Rightarrow> bind_res (enc_num_ref U32C (VNum (int (length vs)))) (\<lambda>lb.
                  bind_res (enc_all (\<lambda>w. enc_ref c w) vs) (\<lambda>bs. Inr (lb @ bs)))
      | _ \<Rightarrow> Inl codec_error)"
| "enc_ref (StructC fs) v = (case v of VStruct vs \<Rightarrow> enc_fields_ref fs vs | _ \<Rightarrow> Inl codec_error)"
| "enc_fields_ref [] vs = Inr []"
| "enc_fields_ref (fc # fs) vs =
     (case vs of [] \<Rightarrow> Inr []
      | gv # vs' \<Rightarrow> bind_res (enc_ref (snd fc) (snd gv)) (\<lambda>b.
                   bind_res (enc_fields_ref fs vs') (\<lambda>bs. Inr (b @ bs))))"

fun rd_ref :: "codec \<Rightarrow> bytes \<Rightarrow> (cval \<times> bytes) res"
  and rd_fields_ref :: "(string \<times> codec) list \<Rightarrow> bytes \<Rightarrow> ((string \<times> cval) list \<times> bytes) res" where
  "rd_ref U8C s = rd_num_ref U8C s"
| "rd_ref U16C s = rd_num_ref U16C s"
| "rd_ref U32C s = rd_num_ref U32C s"
| "rd_ref U64C s = rd_num_ref U64C s"
| "rd_ref U128C s = rd_num_ref U128C s"
| "rd_ref I64C s = rd_num_ref I64C s"
| "rd_ref BooleanC s = (case s of [] \<Rightarrow> Inl codec_error | b # r \<Rightarrow> Inr (VBool (b = 1), r))"
| "rd_ref AddressC s =
     (if length s < 32 then Inl codec_error else Inr (VAddr (enc58 (take 32 s)), drop 32 s))"
| "rd_ref BytesC s = Inr (VBytes s, [])"
| "rd_ref Utf8C s = Inr (VStr (filter (\<lambda>c. c \<noteq> 0) (utf8_dec s)), [])"
| "rd_ref (FixSizeC c n) s =
     (if length s < n then Inl codec_error
      else bind_res (rd_ref c (take n s)) (\<lambda>(v, junk). Inr (v, drop n s)))"
| "rd_ref (SizePrefixC c p) s =
     bind_res (rd_ref p s) (\<lambda>(k, r).
       let n = nat (num_of k) in
       if length r < n then Inl codec_error
       else bind_res (rd_ref c (take n r)) (\<lambda>(v, junk). Inr (v, drop n r)))"
| "rd_ref (OptionC c) s =
     (case s of [] \<Rightarrow> Inl codec_error
      | b # r \<Rightarrow> if b = 0 then Inr (VOpt None, r)
                else bind_res (rd_ref c r) (\<lambda>(v, r'). Inr (VOpt (Some v), r')))"
| "rd_ref (ArrayC c) s =
     bind_res (rd_num_ref U32C s) (\<lambda>(k, r).
     bind_res (read_n (\<lambda>t. rd_ref c t) (nat (num_of k)) r) (\<lambda>(vs, r'). Inr (VArr vs, r')))"
| "rd_ref (StructC fs) s = bind_res (rd_fields_ref fs s) (\<lambda>(vs, r). Inr (VStruct vs, r))"
| "rd_fields_ref [] s = Inr ([], s)"
| "rd_fields_ref (fc # fs) s =
     bind_res (rd_ref (snd fc) s) (\<lambda>(v, s1).
     bind_res (rd_fields_ref fs s1) (\<lambda>(vs, s2). Inr ((fst fc, v) # vs, s2)))"

section \<open>The contract of the kit's codecs\<close>

locale kit_codecs =
  fixes enc :: "codec \<Rightarrow> cval \<Rightarrow> bytes res"
    and rd :: "codec \<Rightarrow> bytes \<Rightarrow> (cval \<times> bytes) res"
    and isAddr :: "address \<Rightarrow> bool"
  assumes enc_num: "num_range c i \<Longrightarrow>
      \<exists>bs. enc c (VNum i) = Inr bs \<and> (\<forall>rest. rd c (bs @ rest) = Inr (VNum i, rest))"
    and enc_bool: "\<exists>bs. enc BooleanC (VBool t) = Inr bs \<and> (\<forall>rest. rd BooleanC (bs @ rest) = Inr (VBool t, rest))"
    and enc_addr: "isAddr a \<Longrightarrow>
      \<exists>bs. enc AddressC (VAddr a) = Inr bs \<and> length bs = 32 \<and>
           (\<forall>rest. rd AddressC (bs @ rest) = Inr (VAddr a, rest))"
    and enc_bytes: "enc BytesC (VBytes b) = Inr b"
    and rd_bytes: "rd BytesC b = Inr (VBytes b, [])"
    and enc_utf8: "enc Utf8C (VStr s) = Inr (utf8 s)"
    and rd_utf8: "list_all scalar s \<Longrightarrow> 0 \<notin> set s \<Longrightarrow> rd Utf8C (utf8 s) = Inr (VStr s, [])"
    and enc_fix: "enc c v = Inr bs \<Longrightarrow> length bs = n \<Longrightarrow> enc (FixSizeC c n) v = Inr bs"
    and rd_fix: "length bs = n \<Longrightarrow> rd c bs = Inr (v, junk) \<Longrightarrow> rd (FixSizeC c n) (bs @ rest) = Inr (v, rest)"
    and enc_prefix: "enc c v = Inr bs \<Longrightarrow> enc p (VNum (int (length bs))) = Inr pb \<Longrightarrow>
      enc (SizePrefixC c p) v = Inr (pb @ bs)"
    and rd_prefix: "rd p s = Inr (VNum (int (length bs)), bs @ rest) \<Longrightarrow> rd c bs = Inr (v, junk) \<Longrightarrow>
      rd (SizePrefixC c p) s = Inr (v, rest)"
    and enc_none: "enc (OptionC c) (VOpt None) = Inr [0]"
    and enc_some: "enc c v = Inr bs \<Longrightarrow> enc (OptionC c) (VOpt (Some v)) = Inr (1 # bs)"
    and rd_none: "rd (OptionC c) (0 # rest) = Inr (VOpt None, rest)"
    and rd_some: "rd c s = Inr (v, rest) \<Longrightarrow> rd (OptionC c) (1 # s) = Inr (VOpt (Some v), rest)"
    and enc_array: "enc U32C (VNum (int (length vs))) = Inr lb \<Longrightarrow> enc_all (enc c) vs = Inr bs \<Longrightarrow>
      enc (ArrayC c) (VArr vs) = Inr (lb @ bs)"
    and rd_array: "rd U32C s = Inr (VNum (int n), s1) \<Longrightarrow> read_n (rd c) n s1 = Inr (vs, rest) \<Longrightarrow>
      rd (ArrayC c) s = Inr (VArr vs, rest)"
    and enc_struct: "length fs = length ws \<Longrightarrow> map fst fs = map fst ws \<Longrightarrow>
      enc (StructC fs) (VStruct ws) = enc_fields enc fs ws"
    and rd_struct: "read_fields rd fs s = Inr (ws, rest) \<Longrightarrow> rd (StructC fs) s = Inr (VStruct ws, rest)"
begin

lemma array_roundtrip:
  assumes "\<And>v. v \<in> set vs \<Longrightarrow> \<exists>bs. enc c v = Inr bs \<and> (\<forall>rest. rd c (bs @ rest) = Inr (v, rest))"
  shows "\<exists>bs. enc_all (enc c) vs = Inr bs \<and> (\<forall>rest. read_n (rd c) (length vs) (bs @ rest) = Inr (vs, rest))"
  using assms
proof (induction vs)
  case (Cons v vs)
  obtain b where b: "enc c v = Inr b" "\<And>rest. rd c (b @ rest) = Inr (v, rest)"
    using Cons.prems by (meson list.set_intros(1))
  obtain bs where bs: "enc_all (enc c) vs = Inr bs"
    "\<And>rest. read_n (rd c) (length vs) (bs @ rest) = Inr (vs, rest)"
    using Cons by (meson list.set_intros(2))
  have "enc_all (enc c) (v # vs) = Inr (b @ bs)" by (simp add: b bs)
  moreover have "read_n (rd c) (length (v # vs)) ((b @ bs) @ rest) = Inr (v # vs, rest)" for rest
    by (simp add: b bs)
  ultimately show ?case by blast
qed simp

lemma wt_fields_names: "wt_fields A fs vs \<Longrightarrow> map fst fs = map fst vs \<and> length fs = length vs"
  by (induction fs arbitrary: vs) (auto split: list.splits)

lemma text_roundtrip:
  assumes "text_ok s"
  shows "\<exists>bs. enc (SizePrefixC Utf8C U32C) (VStr s) = Inr bs \<and>
    (\<forall>rest. rd (SizePrefixC Utf8C U32C) (bs @ rest) = Inr (VStr s, rest))"
proof -
  have s: "list_all scalar s" "0 \<notin> set s" "length (utf8 s) < 2 ^ 32"
    using assms by (simp_all add: text_ok_def)
  have "num_range U32C (int (length (utf8 s)))"
    using s(3) by simp
  then obtain pb where pb: "enc U32C (VNum (int (length (utf8 s)))) = Inr pb"
    "\<And>rest. rd U32C (pb @ rest) = Inr (VNum (int (length (utf8 s))), rest)"
    using enc_num by blast
  have "rd (SizePrefixC Utf8C U32C) ((pb @ utf8 s) @ rest) = Inr (VStr s, rest)" for rest
    using rd_prefix[OF _ rd_utf8] pb(2) s by simp
  then show ?thesis using enc_prefix[OF enc_utf8 pb(1)] by blast
qed

lemma option_roundtrip:
  assumes "\<And>v. x = Some v \<Longrightarrow> \<exists>bs. enc c v = Inr bs \<and> (\<forall>rest. rd c (bs @ rest) = Inr (v, rest))"
  shows "\<exists>bs. enc (OptionC c) (VOpt x) = Inr bs \<and> (\<forall>rest. rd (OptionC c) (bs @ rest) = Inr (VOpt x, rest))"
proof (cases x)
  case None
  then show ?thesis using enc_none rd_none by (metis append_Cons append_Nil)
next
  case (Some v)
  then obtain bs where "enc c v = Inr bs" "\<And>rest. rd c (bs @ rest) = Inr (v, rest)"
    using assms by blast
  then show ?thesis using Some enc_some rd_some by (metis append_Cons)
qed

lemma array_codec_roundtrip:
  assumes "length vs < 2 ^ 32"
    "\<And>v. v \<in> set vs \<Longrightarrow> \<exists>bs. enc c v = Inr bs \<and> (\<forall>rest. rd c (bs @ rest) = Inr (v, rest))"
  shows "\<exists>bs. enc (ArrayC c) (VArr vs) = Inr bs \<and> (\<forall>rest. rd (ArrayC c) (bs @ rest) = Inr (VArr vs, rest))"
proof -
  have "num_range U32C (int (length vs))" using assms(1) by simp
  then obtain lb where lb: "enc U32C (VNum (int (length vs))) = Inr lb"
    "\<And>rest. rd U32C (lb @ rest) = Inr (VNum (int (length vs)), rest)"
    using enc_num by blast
  obtain bs where bs: "enc_all (enc c) vs = Inr bs"
    "\<And>rest. read_n (rd c) (length vs) (bs @ rest) = Inr (vs, rest)"
    using array_roundtrip[OF assms(2)] by blast
  have "rd (ArrayC c) ((lb @ bs) @ rest) = Inr (VArr vs, rest)" for rest
    using rd_array[OF lb(2) bs(2)] by simp
  then show ?thesis using enc_array[OF lb(1) bs(1)] by blast
qed

lemma struct_roundtrip:
  assumes "wt_fields A fs vs"
    "\<exists>bs. enc_fields enc fs vs = Inr bs \<and> (\<forall>rest. read_fields rd fs (bs @ rest) = Inr (vs, rest))"
  shows "\<exists>bs. enc (StructC fs) (VStruct vs) = Inr bs \<and>
    (\<forall>rest. rd (StructC fs) (bs @ rest) = Inr (VStruct vs, rest))"
proof -
  obtain bs where bs: "enc_fields enc fs vs = Inr bs"
    "\<And>rest. read_fields rd fs (bs @ rest) = Inr (vs, rest)" using assms(2) by blast
  have "enc (StructC fs) (VStruct vs) = Inr bs"
    using enc_struct wt_fields_names[OF assms(1)] bs(1) by metis
  with bs(2) rd_struct show ?thesis by blast
qed

lemma fields_cons_roundtrip:
  assumes "\<exists>bs. enc c v = Inr bs \<and> (\<forall>rest. rd c (bs @ rest) = Inr (v, rest))"
    "\<exists>bs. enc_fields enc fs vs = Inr bs \<and> (\<forall>rest. read_fields rd fs (bs @ rest) = Inr (vs, rest))"
  shows "\<exists>bs. enc_fields enc ((f, c) # fs) ((f, v) # vs) = Inr bs \<and>
    (\<forall>rest. read_fields rd ((f, c) # fs) (bs @ rest) = Inr ((f, v) # vs, rest))"
proof -
  obtain b where b: "enc c v = Inr b" "\<And>rest. rd c (b @ rest) = Inr (v, rest)"
    using assms(1) by blast
  obtain bs where bs: "enc_fields enc fs vs = Inr bs"
    "\<And>rest. read_fields rd fs (bs @ rest) = Inr (vs, rest)" using assms(2) by blast
  have "read_fields rd ((f, c) # fs) ((b @ bs) @ rest) = Inr ((f, v) # vs, rest)" for rest
    by (simp add: b bs)
  moreover have "enc_fields enc ((f, c) # fs) ((f, v) # vs) = Inr (b @ bs)" by (simp add: b bs)
  ultimately show ?thesis by blast
qed

lemma bytes_roundtrip:
  "length b = n \<Longrightarrow> \<exists>bs. enc (FixSizeC BytesC n) (VBytes b) = Inr bs \<and>
    (\<forall>rest. rd (FixSizeC BytesC n) (bs @ rest) = Inr (VBytes b, rest))"
  using enc_fix[OF enc_bytes] rd_fix[OF _ rd_bytes] by blast

lemma address_roundtrip:
  "isAddr a \<Longrightarrow> \<exists>bs. enc AddressC (VAddr a) = Inr bs \<and> (\<forall>rest. rd AddressC (bs @ rest) = Inr (VAddr a, rest))"
  using enc_addr by blast

lemma roundtrip_for:
  "A = isAddr \<Longrightarrow> wt A c v \<Longrightarrow>
   \<exists>bs. enc c v = Inr bs \<and> (\<forall>rest. rd c (bs @ rest) = Inr (v, rest))"
  and fields_roundtrip_for:
  "A = isAddr \<Longrightarrow> wt_fields A fs vs \<Longrightarrow>
   \<exists>bs. enc_fields enc fs vs = Inr bs \<and> (\<forall>rest. read_fields rd fs (bs @ rest) = Inr (vs, rest))"
proof (induction A c v and A fs vs rule: wt_wt_fields.induct)
  case (15 A fs v)
  then obtain vs where v: "v = VStruct vs" "wt_fields A fs vs" by (auto split: cval.splits)
  then show ?case using 15 struct_roundtrip[OF v(2)] by auto
next
  case (17 A fc fs vs)
  then obtain g v vs' where vs: "vs = (g, v) # vs'" "fst fc = g" "wt A (snd fc) v" "wt_fields A fs vs'"
    by (auto split: list.splits)
  then show ?case using 17 fields_cons_roundtrip[of "snd fc" v fs vs' g] by (cases fc) auto
qed (auto simp del: num_range.simps split: cval.splits option.splits
      intro: enc_num enc_bool address_roundtrip text_roundtrip option_roundtrip array_codec_roundtrip
        bytes_roundtrip)

lemmas roundtrip = roundtrip_for[OF refl]

text \<open>The bytes of a struct start with the bytes of its first field.\<close>

lemma struct_prefix:
  assumes "wt isAddr (StructC ((f, FixSizeC BytesC n) # fs)) (VStruct ((f, VBytes b) # vs))"
  shows "\<exists>bs. enc (StructC ((f, FixSizeC BytesC n) # fs)) (VStruct ((f, VBytes b) # vs)) = Inr (b @ bs)"
proof -
  have w: "wt_fields isAddr fs vs" "length b = n" using assms by auto
  obtain bs where bs: "enc_fields enc fs vs = Inr bs"
    using fields_roundtrip_for[OF refl w(1)] by blast
  have "enc (FixSizeC BytesC n) (VBytes b) = Inr b" using enc_fix[OF enc_bytes w(2)] .
  then have "enc_fields enc ((f, FixSizeC BytesC n) # fs) ((f, VBytes b) # vs) = Inr (b @ bs)"
    by (simp add: bs)
  then show ?thesis using enc_struct wt_fields_names[OF w(1)] by fastforce
qed

end

text \<open>What the code relies on of a kit: its codecs obey the locale, \<open>containsBytes\<close> compares a slice,
  and \<open>getAccountMetaFactory(programAddress, "programId")\<close> puts the program's address in the place of an
  absent optional account and otherwise keeps the account's address.\<close>

fun val_address :: "acctVal \<Rightarrow> address" where
  "val_address (AddrI a) = a"
| "val_address (SignerI a) = a"
| "val_address (PdaI a b) = a"

fun meta_role :: "acctVal \<Rightarrow> bool \<Rightarrow> accountRole" where
  "meta_role (SignerI a) w = (if w then WRITABLE_SIGNER else READONLY_SIGNER)"
| "meta_role v w = (if w then WRITABLE else READONLY)"

definition meta_ref :: "address \<Rightarrow> string \<Rightarrow> acctVal option \<Rightarrow> bool \<Rightarrow> accountMeta" where
  "meta_ref programAddress inputName v w =
     (case v of
        None \<Rightarrow> \<lparr>am_address = programAddress, am_role = READONLY\<rparr>
      | Some x \<Rightarrow> \<lparr>am_address = val_address x, am_role = meta_role x w\<rparr>)"

definition kit_ok :: "kit \<Rightarrow> bool" where
  "kit_ok K \<longleftrightarrow> kit_codecs (encode K) (read K) (isAddress K) \<and>
     (\<forall>data b off. containsBytes K data b off \<longleftrightarrow> take (length b) (drop off data) = b) \<and>
     getAccountMeta K = meta_ref"

lemma kit_ok_codecs: "kit_ok K \<Longrightarrow> kit_codecs (encode K) (read K) (isAddress K)"
  by (simp add: kit_ok_def)

section \<open>Tagged codecs\<close>

text \<open>Every generated account and instruction has an encoder whose \<open>transformEncoder\<close> stamps a fixed
  discriminator, a decoder, and a TypeScript type the two convert. The locale is the contract the
  generated files share; \<open>put\<close> and \<open>get\<close> convert between the record and the object's fields, \<open>stamp\<close> is
  the transformation.\<close>

locale tagged_codec =
  fixes encoder decoder :: codec
    and put :: "'a \<Rightarrow> cval"
    and get :: "cval \<Rightarrow> 'a"
    and stamp :: "'a \<Rightarrow> 'a"
    and tag :: bytes
  assumes same: "decoder = encoder"
    and get_put: "get (put r) = r"
    and stamped: "\<exists>vs. put (stamp r) = VStruct ((''discriminator'', VBytes tag) # vs)"
    and tagged: "\<exists>fs. encoder = StructC ((''discriminator'', FixSizeC BytesC 8) # fs)"
begin

lemma tagged_roundtrip:
  assumes K: "kit_ok K" and r: "wt (isAddress K) encoder (put (stamp r))"
  shows "\<exists>bs. encode K encoder (put (stamp r)) = Inr (tag @ bs) \<and>
    (\<forall>rest. bind_res (decode K decoder (tag @ bs @ rest)) (\<lambda>v. Inr (get v)) = (Inr (stamp r) :: 'a res))"
proof -
  have L: "kit_codecs (encode K) (read K) (isAddress K)" using K by (rule kit_ok_codecs)
  obtain bs where bs: "encode K encoder (put (stamp r)) = Inr bs"
    "\<And>rest. read K encoder (bs @ rest) = Inr (put (stamp r), rest)"
    using kit_codecs.roundtrip[OF L r] by blast
  obtain vs fs where "put (stamp r) = VStruct ((''discriminator'', VBytes tag) # vs)"
    "encoder = StructC ((''discriminator'', FixSizeC BytesC 8) # fs)" using stamped tagged by blast
  then have "\<exists>bs'. encode K encoder (put (stamp r)) = Inr (tag @ bs')"
    using kit_codecs.struct_prefix[OF L] r by metis
  then obtain bs' where "bs = tag @ bs'" using bs(1) by auto
  with bs show ?thesis by (auto simp: decode_def same get_put)
qed

end

section \<open>The reference implementation meets the contract\<close>

lemma length_le_bytes [simp]: "length (le_bytes w n) = w"
  by (induction w arbitrary: n) auto

lemma le_val_le_bytes: "n < 256 ^ w \<Longrightarrow> le_val (le_bytes w n) = n"
proof (induction w arbitrary: n)
  case (Suc w)
  have "n div 256 < 256 ^ w" using Suc.prems by (simp add: less_mult_imp_div_less mult.commute)
  with Suc.IH show ?case by simp
qed simp

lemma num_ref_roundtrip:
  assumes "num_range c i"
  shows "\<exists>bs. enc_num_ref c (VNum i) = Inr bs \<and> (\<forall>rest. rd_num_ref c (bs @ rest) = Inr (VNum i, rest))"
proof -
  let ?w = "num_width c" and ?n = "nat (i mod 2 ^ (8 * num_width c))"
  have "i mod 2 ^ (8 * ?w) < 2 ^ (8 * ?w)" by simp
  then have "?n < 2 ^ (8 * ?w)" by (simp add: nat_less_iff)
  then have "?n < 256 ^ ?w" by (simp add: power_mult)
  then have v: "le_val (le_bytes ?w ?n) = ?n" by (rule le_val_le_bytes)
  have "rd_num_ref c (le_bytes ?w ?n @ rest) = Inr (VNum i, rest)" for rest
  proof (cases "c = I64C \<and> i < 0")
    case True
    with assms have "(i + 2 ^ 64) mod 2 ^ 64 = i + 2 ^ 64" by (intro mod_pos_pos_trivial) auto
    then have "i mod 2 ^ 64 = i + 2 ^ 64" by simp
    with True assms v show ?thesis by (simp add: rd_num_ref_def Let_def le_nat_iff)
  next
    case False
    with assms have "0 \<le> i" by (cases c) auto
    with False assms v show ?thesis
      by (cases c) (auto simp: rd_num_ref_def Let_def nat_less_iff le_nat_iff)
  qed
  then show ?thesis using assms by (simp add: enc_num_ref_def)
qed

lemma num_ref_of_range:
  "num_range c i \<Longrightarrow> enc_ref c = enc_num_ref c \<and> rd_ref c = rd_num_ref c"
  by (cases c) auto

lemma utf8_dec_char: "scalar c \<Longrightarrow> utf8_dec (utf8_char c @ bs) = c # utf8_dec bs"
proof -
  have two: "x div 64 * 64 + x mod 64 = x" for x :: nat by simp
  have three: "x div 4096 * 4096 + x div 64 mod 64 * 64 + x mod 64 = x" for x :: nat
  proof -
    have "x div 64 div 64 = x div 4096" by (simp flip: div_mult2_eq)
    with two[of x] two[of "x div 64"] show ?thesis by linarith
  qed
  have four: "x div 262144 * 262144 + x div 4096 mod 64 * 4096 + x div 64 mod 64 * 64 + x mod 64 = x"
    for x :: nat
  proof -
    have "x div 4096 div 64 = x div 262144" by (simp flip: div_mult2_eq)
    with three[of x] two[of "x div 4096"] show ?thesis by linarith
  qed
  assume "scalar c"
  then show ?thesis
    by (auto simp: utf8_char_def scalar_def two three four)
qed

lemma utf8_dec_utf8: "list_all scalar s \<Longrightarrow> utf8_dec (utf8 s) = s"
  by (induction s) (simp_all add: utf8_Cons utf8_dec_char del: utf8_dec.simps(2))

lemma enc_fields_ref_eq:
  "length fs = length ws \<Longrightarrow> enc_fields_ref fs ws = enc_fields enc_ref fs ws"
  by (induction fs ws rule: list_induct2) (auto split: prod.splits)

lemma rd_fields_ref_eq: "rd_fields_ref fs s = read_fields rd_ref fs s"
proof (induction fs arbitrary: s)
  case (Cons fc fs)
  then show ?case by (cases fc; cases "rd_ref (snd fc) s") auto
qed simp

interpretation borsh: kit_codecs enc_ref rd_ref is_address_ref
proof unfold_locales
  fix c i assume "num_range c i"
  then show "\<exists>bs. enc_ref c (VNum i) = Inr bs \<and> (\<forall>rest. rd_ref c (bs @ rest) = Inr (VNum i, rest))"
    using num_ref_roundtrip num_ref_of_range by metis
next
  fix fs :: "(string \<times> codec) list" and ws :: "(string \<times> cval) list"
  assume "length fs = length ws" "map fst fs = map fst ws"
  then show "enc_ref (StructC fs) (VStruct ws) = enc_fields enc_ref fs ws"
    by (simp add: enc_fields_ref_eq)
next
  fix s :: jsstr assume "list_all scalar s" "0 \<notin> set s"
  moreover from this have "filter (\<lambda>c. c \<noteq> 0) s = s" by (intro filter_True ballI) metis
  ultimately show "rd_ref Utf8C (utf8 s) = Inr (VStr s, [])" by (simp add: utf8_dec_utf8)
qed (auto simp: is_address_ref_def rd_fields_ref_eq)

text \<open>A concrete kit for witnesses: the reference codecs, and stand-ins for the hash function and the
  address derivation that are easy to evaluate (a derived address is 31 zero bytes and one byte that
  depends on the seeds).\<close>

definition toy_hash :: "bytes \<Rightarrow> bytes" where
  "toy_hash bs = take 32 (bs @ replicate 32 0)"

definition toy_pda :: "address \<Rightarrow> bytes list \<Rightarrow> (address \<times> int) res" where
  "toy_pda prog seeds =
     (if length seeds > 16 \<or> list_ex (\<lambda>s. length s > 32) seeds then Inl codec_error
      else Inr (replicate 31 49 @ [alphabet58 ! (sum_list (concat seeds) mod 57 + 1)], 255))"

definition ref_kit :: kit where
  "ref_kit = \<lparr>keccak_256 = toy_hash, getProgramDerivedAddress = toy_pda, encode = enc_ref, read = rd_ref,
     isAddress = is_address_ref, base58_encode = (\<lambda>s. Inr (dec58 s)),
     containsBytes = (\<lambda>data b off. take (length b) (drop off data) = b), getAccountMeta = meta_ref\<rparr>"

lemma ref_kit_ok: "kit_ok ref_kit"
  using borsh.kit_codecs_axioms by (simp add: kit_ok_def ref_kit_def)

end
