(* ===== verification/Hash_Name.thy ===== *)
theory Hash_Name
  imports Normalize Kit
begin

text \<open>
  \<open>clients/ts/src/hashName.ts\<close> and the generated PDA finders (\<open>generated/pdas/*.ts\<close>): the flat
  name hash, the recursive subdomain hash, \<open>nameInfo\<close> with its root-first loop, and the addresses
  derived from them. The hash function and the address derivation are fields of the kit \<open>K\<close>.
  The lemmas show that a path's hash is the one the program recomputes, and that two different
  paths with the same hash exhibit two different hash inputs, among those the two computations
  actually use, with the same digest.
\<close>

section \<open>Definitions\<close>

definition SOLANS_PROGRAM_ADDRESS :: address where
  "SOLANS_PROGRAM_ADDRESS = js ''AiDB9oh4jMKuGnx4nEseMgW7qpMnswygx6wpFKJbXKfb''"

definition LISTING_SEED :: bytes where "LISTING_SEED = utf8 (js ''listing'')"
definition OFFER_SEED :: bytes where "OFFER_SEED = utf8 (js ''offer'')"
definition AUCTION_SEED :: bytes where "AUCTION_SEED = utf8 (js ''auction'')"

definition computeNameHash :: "kit \<Rightarrow> jsstr \<Rightarrow> jsstr \<Rightarrow> bytes" where
  "computeNameHash K name tld = keccak_256 K (utf8 (name @ js ''.'' @ tld))"

text \<open>\<open>buf\<close> is built with the source's three writes into a zeroed array.\<close>

definition set_at :: "bytes \<Rightarrow> bytes \<Rightarrow> nat \<Rightarrow> bytes" where
  "set_at buf src off = take off buf @ src @ drop (off + length src) buf"

definition computeSubdomainHash :: "kit \<Rightarrow> bytes \<Rightarrow> jsstr \<Rightarrow> bytes" where
  "computeSubdomainHash K parentHash label =
     (let labelBytes = utf8 label;
          buf = replicate (1 + length parentHash + length labelBytes) 0;
          buf = buf[0 := 0];
          buf = set_at buf parentHash 1;
          buf = set_at buf labelBytes (1 + length parentHash)
      in keccak_256 K buf)"

record nameInfo =
  ni_labels :: "jsstr list"
  ni_tld :: jsstr
  ni_hash :: bytes
  ni_parentHash :: "bytes option"
  ni_depth :: nat

text \<open>\<open>for (let i = labels.length - 2; i >= 0; i--)\<close>: the labels above the root, root side first.\<close>

fun nameInfo_loop :: "kit \<Rightarrow> jsstr list \<Rightarrow> bytes \<times> bytes option \<Rightarrow> bytes \<times> bytes option" where
  "nameInfo_loop K [] (hash, parentHash) = (hash, parentHash)"
| "nameInfo_loop K (label # ls) (hash, parentHash) =
     nameInfo_loop K ls (computeSubdomainHash K hash label, Some hash)"

definition nameInfo :: "kit \<Rightarrow> unicode \<Rightarrow> jsstr \<Rightarrow> jsstr option \<Rightarrow> nameInfo res" where
  "nameInfo K U input tldOverride =
     bind_res (parsePath U input tldOverride) (\<lambda>(labels, tld).
       let (hash, parentHash) =
             nameInfo_loop K (rev (butlast labels)) (computeNameHash K (last labels) tld, None)
       in Inr \<lparr>ni_labels = labels, ni_tld = tld, ni_hash = hash, ni_parentHash = parentHash,
               ni_depth = length labels - 1\<rparr>)"

definition nameParts :: "kit \<Rightarrow> unicode \<Rightarrow> jsstr \<Rightarrow> jsstr option \<Rightarrow> (jsstr \<times> jsstr \<times> bytes) res" where
  "nameParts K U input tldOverride =
     bind_res (parseName U input tldOverride) (\<lambda>(name, tld). Inr (name, tld, computeNameHash K name tld))"

definition nameHashFor :: "kit \<Rightarrow> unicode \<Rightarrow> jsstr \<Rightarrow> jsstr option \<Rightarrow> bytes res" where
  "nameHashFor K U input tldOverride = bind_res (nameInfo K U input tldOverride) (\<lambda>i. Inr (ni_hash i))"

text \<open>Seeds are encoded one by one; the first failing encoder throws.\<close>

fun encode_seeds :: "kit \<Rightarrow> (codec \<times> cval) list \<Rightarrow> bytes list res" where
  "encode_seeds K [] = Inr []"
| "encode_seeds K ((c, v) # ss) =
     bind_res (encode K c v) (\<lambda>b. bind_res (encode_seeds K ss) (\<lambda>bs. Inr (b # bs)))"

definition derive :: "kit \<Rightarrow> (codec \<times> cval) list \<Rightarrow> (address \<times> int) res" where
  "derive K seeds = bind_res (encode_seeds K seeds) (getProgramDerivedAddress K SOLANS_PROGRAM_ADDRESS)"

definition findNameRecordPda :: "kit \<Rightarrow> bytes \<Rightarrow> (address \<times> int) res" where
  "findNameRecordPda K nameHash =
     derive K [(BytesC, VBytes [110, 97, 109, 101]), (FixSizeC BytesC 32, VBytes nameHash)]"

definition findConfigPda :: "kit \<Rightarrow> (address \<times> int) res" where
  "findConfigPda K = derive K [(BytesC, VBytes [99, 111, 110, 102, 105, 103])]"

definition findReverseRecordPda :: "kit \<Rightarrow> address \<Rightarrow> (address \<times> int) res" where
  "findReverseRecordPda K owner =
     derive K [(BytesC, VBytes [114, 101, 118, 101, 114, 115, 101]), (AddressC, VAddr owner)]"

definition findStakePoolPda :: "kit \<Rightarrow> (address \<times> int) res" where
  "findStakePoolPda K = derive K [(BytesC, VBytes [115, 116, 97, 107, 101, 95, 112, 111, 111, 108])]"

definition findStakeAccountPda :: "kit \<Rightarrow> address \<Rightarrow> (address \<times> int) res" where
  "findStakeAccountPda K staker =
     derive K [(BytesC, VBytes [115, 116, 97, 107, 101]), (AddressC, VAddr staker)]"

definition findNameRecord :: "kit \<Rightarrow> unicode \<Rightarrow> jsstr \<Rightarrow> jsstr option \<Rightarrow> (address \<times> int) res" where
  "findNameRecord K U input tldOverride =
     bind_res (nameHashFor K U input tldOverride) (findNameRecordPda K)"

definition findListing :: "kit \<Rightarrow> unicode \<Rightarrow> jsstr \<Rightarrow> jsstr option \<Rightarrow> (address \<times> int) res" where
  "findListing K U input tldOverride =
     bind_res (nameHashFor K U input tldOverride) (\<lambda>h.
       getProgramDerivedAddress K SOLANS_PROGRAM_ADDRESS [LISTING_SEED, h])"

definition findOffer :: "kit \<Rightarrow> unicode \<Rightarrow> jsstr \<Rightarrow> address \<Rightarrow> jsstr option \<Rightarrow> (address \<times> int) res" where
  "findOffer K U input buyer tldOverride =
     bind_res (nameHashFor K U input tldOverride) (\<lambda>h.
     bind_res (encode K AddressC (VAddr buyer)) (\<lambda>b.
       getProgramDerivedAddress K SOLANS_PROGRAM_ADDRESS [OFFER_SEED, h, b]))"

definition findAuction :: "kit \<Rightarrow> unicode \<Rightarrow> jsstr \<Rightarrow> jsstr option \<Rightarrow> (address \<times> int) res" where
  "findAuction K U input tldOverride =
     bind_res (nameHashFor K U input tldOverride) (\<lambda>h.
       getProgramDerivedAddress K SOLANS_PROGRAM_ADDRESS [AUCTION_SEED, h])"

section \<open>Specification: the recursive hash and its inputs\<close>

text \<open>The hash the program computes for a leaf-first path, with its own hash functions.\<close>

fun onchain_hash :: "(bytes \<Rightarrow> bytes) \<Rightarrow> jsstr \<Rightarrow> jsstr list \<Rightarrow> bytes" where
  "onchain_hash k tld [] = []"
| "onchain_hash k tld [root] = compute_name_hash k root tld"
| "onchain_hash k tld (l # p # ls) = compute_subdomain_hash k (onchain_hash k tld (p # ls)) l"

text \<open>Every input the computation feeds to the hash function.\<close>

fun hash_inputs :: "(bytes \<Rightarrow> bytes) \<Rightarrow> jsstr \<Rightarrow> jsstr list \<Rightarrow> bytes list" where
  "hash_inputs k tld [] = []"
| "hash_inputs k tld [root] = [utf8 (root @ 46 # tld)]"
| "hash_inputs k tld (l # p # ls) =
     (0 # onchain_hash k tld (p # ls) @ utf8 l) # hash_inputs k tld (p # ls)"

text \<open>What \<open>nameInfo\<close> must return for a parsed path.\<close>

definition path_info :: "kit \<Rightarrow> jsstr \<Rightarrow> jsstr list \<Rightarrow> nameInfo" where
  "path_info K tld labels =
     \<lparr>ni_labels = labels, ni_tld = tld, ni_hash = onchain_hash (keccak_256 K) tld labels,
      ni_parentHash = (if tl labels = [] then None else Some (onchain_hash (keccak_256 K) tld (tl labels))),
      ni_depth = length labels - 1\<rparr>"

section \<open>The client's hashes are the program's\<close>

lemma set_at_replicate:
  "computeSubdomainHash K parentHash label = keccak_256 K (0 # parentHash @ utf8 label)"
  by (simp add: computeSubdomainHash_def set_at_def Let_def)

lemma computeNameHash_eq: "isAllowedTld tld \<Longrightarrow> computeNameHash K name tld = compute_name_hash (keccak_256 K) name tld"
  by (simp add: computeNameHash_def compute_name_hash_def utf8_append utf8_Cons utf8_char_def)

lemma computeSubdomainHash_eq:
  "computeSubdomainHash K h label = compute_subdomain_hash (keccak_256 K) h label"
  by (simp add: set_at_replicate compute_subdomain_hash_def)

lemma onchain_hash_Cons:
  "ls \<noteq> [] \<Longrightarrow> onchain_hash k tld (l # ls) = compute_subdomain_hash k (onchain_hash k tld ls) l"
  by (cases ls) auto

lemma nameInfo_loop_append:
  "nameInfo_loop K (xs @ ys) st = nameInfo_loop K ys (nameInfo_loop K xs st)"
  by (induction xs arbitrary: st) auto

lemma nameInfo_loop_hash:
  assumes "ls \<noteq> []" "isAllowedTld tld"
  shows "nameInfo_loop K (rev (butlast ls)) (computeNameHash K (last ls) tld, None) =
    (onchain_hash (keccak_256 K) tld ls,
     if tl ls = [] then None else Some (onchain_hash (keccak_256 K) tld (tl ls)))"
  using assms(1)
proof (induction ls)
  case (Cons l ls)
  show ?case
  proof (cases "ls = []")
    case True
    then show ?thesis using assms(2) by (simp add: computeNameHash_eq)
  next
    case False
    with Cons.IH show ?thesis
      by (simp add: nameInfo_loop_append onchain_hash_Cons computeSubdomainHash_eq)
  qed
qed simp

lemma nameInfo_iff:
  "nameInfo K U input ov = Inr i \<longleftrightarrow>
   (\<exists>labels tld. parsePath U input ov = Inr (labels, tld) \<and> i = path_info K tld labels)"
proof (cases "parsePath U input ov")
  case (Inr r)
  obtain labels tld where r: "r = (labels, tld)" by (cases r)
  have "labels \<noteq> []" "isAllowedTld tld"
    using Inr parsePath_tld parsePath_iff canonical_path_def by (auto simp: r)
  with Inr show ?thesis
    by (auto simp: r nameInfo_def nameInfo_loop_hash path_info_def)
qed (simp add: nameInfo_def)

lemma nameParts_iff:
  "nameParts K U input ov = Inr (name, tld, h) \<longleftrightarrow>
   parseName U input ov = Inr (name, tld) \<and> h = compute_name_hash (keccak_256 K) name tld"
  using parseName_tld by (auto simp: nameParts_def res_simps computeNameHash_eq)

lemma nameParts_nameInfo:
  assumes "nameParts K U input ov = Inr (name, tld, h)"
  shows "\<exists>i. nameInfo K U input ov = Inr i \<and> ni_hash i = h \<and> ni_labels i = [name] \<and> ni_tld i = tld \<and>
    ni_parentHash i = None \<and> ni_depth i = 0"
  using assms parseName_parsePath by (fastforce simp: nameParts_iff nameInfo_iff path_info_def)

text \<open>A printed path is read back with its hash.\<close>

lemma nameInfo_dotted:
  assumes "unicode_ok U" "canonical_path ls" "isAllowedTld tld" "list_all nfkc_stable (join [46] ls)"
  shows "nameInfo K U (dotted ls tld) None = Inr (path_info K tld ls)"
  using parsePath_stable_dotted[OF assms] by (simp add: nameInfo_iff)

lemma utf8_replicate: "c < 128 \<Longrightarrow> utf8 (replicate n c) = replicate n c"
  by (simp add: utf8_ascii ascii_str_def list_all_iff)

lemma canonical_replicate: "0 < n \<Longrightarrow> n \<le> 63 \<Longrightarrow> canonical_label (replicate n 97)"
  using set_mono_sublist[of "[45, 45]" "replicate n (97 :: nat)"]
  by (auto simp: canonical_label_def utf8_replicate list_all_iff label_char_def hd_replicate last_replicate)

section \<open>Equal hashes exhibit a collision\<close>

lemma onchain_hash_input:
  "ls \<noteq> [] \<Longrightarrow> isAllowedTld tld \<Longrightarrow> onchain_hash k tld ls = k (hd (hash_inputs k tld ls)) \<and>
    hash_inputs k tld ls \<noteq> []"
  by (cases "(k, tld, ls)" rule: hash_inputs.cases)
     (auto simp: compute_name_hash_def compute_subdomain_hash_def utf8_append utf8_Cons utf8_char_def)

lemma hash_inputs_Cons:
  "ls \<noteq> [] \<Longrightarrow> hash_inputs k tld (l # ls) = (0 # onchain_hash k tld ls @ utf8 l) # hash_inputs k tld ls"
  by (cases ls) auto

lemma root_input_inj:
  assumes "canonical_label r" "canonical_label r'" "isAllowedTld t" "isAllowedTld t'"
    and "utf8 (r @ 46 # t) = utf8 (r' @ 46 # t')"
  shows "r = r' \<and> t = t'"
proof -
  have "list_all scalar (r @ 46 # t)" "list_all scalar (r' @ 46 # t')"
    using assms(1-4) by (simp_all add: canonical_label_scalar allowed_tld_scalar scalar_def)
  then have "r @ 46 # t = r' @ 46 # t'" using assms(5) utf8_inj by blast
  then show ?thesis
    using assms(1,2) canonical_label_no_dot
    by (metis split_on_append allowed_tld_no_dot assms(3,4) list.inject split_on_notin)
qed

lemma root_input_head: "canonical_label r \<Longrightarrow> utf8 (r @ s) \<noteq> 0 # x"
proof
  assume r: "canonical_label r" and eq: "utf8 (r @ s) = 0 # x"
  obtain c cs where "r = c # cs" using r canonical_label_not_Nil by (cases r) auto
  with r eq have "label_char c" "utf8_char c @ utf8 (cs @ s) = 0 # x"
    by (auto simp: canonical_label_def utf8_Cons)
  then show False
    using label_char_nonzero by (auto simp: utf8_char_def split: if_splits)
qed

lemma hash_collision:
  assumes len: "\<And>x. length (k x) = 32"
    and "canonical_path ls" "canonical_path ls'" "isAllowedTld t" "isAllowedTld t'"
    and "onchain_hash k t ls = onchain_hash k t' ls'"
  shows "(ls = ls' \<and> t = t') \<or>
    (\<exists>x \<in> set (hash_inputs k t ls). \<exists>y \<in> set (hash_inputs k t' ls'). x \<noteq> y \<and> k x = k y)"
  using assms(2,3,6)
proof (induction ls arbitrary: ls')
  case Nil
  then show ?case by (simp add: canonical_path_def)
next
  case (Cons l ls)
  obtain l' ms where ls': "ls' = l' # ms" using Cons.prems(2) by (cases ls') (auto simp: canonical_path_def)
  let ?x = "hd (hash_inputs k t (l # ls))" and ?y = "hd (hash_inputs k t' ls')"
  have xy: "k ?x = k ?y" "?x \<in> set (hash_inputs k t (l # ls))" "?y \<in> set (hash_inputs k t' ls')"
    using Cons.prems(3) onchain_hash_input[of "l # ls" t k] onchain_hash_input[of ls' t' k] assms(4,5)
    by (simp_all add: ls')
  have can: "canonical_label l" "canonical_label l'"
    using Cons.prems by (auto simp: canonical_path_def ls')
  show ?case
  proof (cases "?x = ?y")
    case False
    with xy show ?thesis by blast
  next
    case eq: True
    show ?thesis
    proof (cases "ls = [] \<or> ms = []")
      case True
      then have "ls = [] \<and> ms = []"
        using eq can root_input_head by (cases "ls = []"; cases "ms = []") (auto simp: hash_inputs_Cons ls', metis+)
      then show ?thesis
        using eq can root_input_inj[OF can assms(4,5)] by (simp add: ls')
    next
      case False
      then have "onchain_hash k t ls @ utf8 l = onchain_hash k t' ms @ utf8 l'"
        using eq by (simp add: hash_inputs_Cons ls')
      moreover have "length (onchain_hash k t ls) = length (onchain_hash k t' ms)"
        using False len onchain_hash_input assms(4,5) by metis
      ultimately have h: "onchain_hash k t ls = onchain_hash k t' ms" "utf8 l = utf8 l'" by auto
      then have "l = l'" using can canonical_label_scalar utf8_inj by blast
      moreover have "canonical_path ls" "canonical_path ms"
        using Cons.prems False by (auto simp: canonical_path_def ls')
      ultimately show ?thesis using Cons.IH[of ms] h(1) False by (auto simp: hash_inputs_Cons ls')
    qed
  qed
qed

section \<open>Properties\<close>

text \<open>C6: For every input nameInfo accepts, each label and the TLD pass the program's validation, the depth is at most 4, and the hash and parent hash are the ones the program computes recursively from the labels.\<close>

theorem nameInfo_onchain:
  assumes "nameInfo K U input ov = Inr i"
  shows "ni_labels i \<noteq> [] \<and> list_all (\<lambda>l. validate_name l = Inr ()) (ni_labels i) \<and>
    validate_tld (ni_tld i) = Inr () \<and> ni_depth i \<le> MAX_SUBDOMAIN_DEPTH \<and>
    ni_hash i = onchain_hash (keccak_256 K) (ni_tld i) (ni_labels i) \<and>
    ni_parentHash i = (if ni_depth i = 0 then None
                       else Some (onchain_hash (keccak_256 K) (ni_tld i) (tl (ni_labels i))))"
proof -
  obtain labels tld where p: "parsePath U input ov = Inr (labels, tld)" and i: "i = path_info K tld labels"
    using assms by (auto simp: nameInfo_iff)
  have c: "canonical_path labels" using p parsePath_iff by blast
  have "isAllowedTld tld" using p by (rule parsePath_tld)
  moreover have "(length labels - 1 = 0) = (tl labels = [])" using c by (cases labels) (auto simp: canonical_path_def)
  ultimately show ?thesis
    using c by (auto simp: i path_info_def canonical_path_def MAX_SUBDOMAIN_DEPTH_def validate_name_iff
        validate_tld_iff list_all_iff)
qed

theorem nameInfo_onchain_witness:
  "\<exists>i. nameInfo ref_kit ascii_unicode (dotted [js ''pay'', js ''alex''] (js ''sol'')) None = Inr i \<and>
     ni_labels i = [js ''pay'', js ''alex''] \<and> ni_depth i = 1 \<and> ni_depth i \<le> MAX_SUBDOMAIN_DEPTH \<and>
     ni_hash i = onchain_hash (keccak_256 ref_kit) (ni_tld i) (ni_labels i)"
proof -
  have "canonical_path [js ''pay'', js ''alex'']" "isAllowedTld (js ''sol'')"
    "list_all nfkc_stable (join [46] [js ''pay'', js ''alex''])"
    by (simp_all add: canonical_path_def canonical_label_def label_char_def utf8_def utf8_char_def isAllowedTld_def
        ALLOWED_TLDS_def nfkc_stable_def sublist_code)
  note i = nameInfo_dotted[OF ascii_unicode_ok this, of ref_kit]
  show ?thesis using nameInfo_onchain[OF i] i by (auto simp: path_info_def)
qed

text \<open>C7: If two canonical paths have the same hash, they are the same name, or two different inputs that the two computations feed to the hash function have the same digest.\<close>

theorem distinct_names_collide_only_with_keccak:
  assumes "\<And>x. length (keccak_256 K x) = 32"
    and "nameInfo K U s ov = Inr i" "nameInfo K U s' ov' = Inr i'" "ni_hash i = ni_hash i'"
  shows "(ni_labels i = ni_labels i' \<and> ni_tld i = ni_tld i') \<or>
    (\<exists>x \<in> set (hash_inputs (keccak_256 K) (ni_tld i) (ni_labels i)).
     \<exists>y \<in> set (hash_inputs (keccak_256 K) (ni_tld i') (ni_labels i')).
       x \<noteq> y \<and> keccak_256 K x = keccak_256 K y)"
proof -
  obtain ls t where p: "parsePath U s ov = Inr (ls, t)" and i: "i = path_info K t ls"
    using assms(2) by (auto simp: nameInfo_iff)
  obtain ls' t' where p': "parsePath U s' ov' = Inr (ls', t')" and i': "i' = path_info K t' ls'"
    using assms(3) by (auto simp: nameInfo_iff)
  have "canonical_path ls" "canonical_path ls'" using p p' parsePath_iff by blast+
  moreover have "isAllowedTld t" "isAllowedTld t'" using p p' by (blast intro: parsePath_tld)+
  moreover have "onchain_hash (keccak_256 K) t ls = onchain_hash (keccak_256 K) t' ls'"
    using assms(4) by (simp add: i i' path_info_def)
  ultimately show ?thesis using hash_collision[of "keccak_256 K" ls ls' t t', OF assms(1)]
    by (simp add: i i' path_info_def)
qed

theorem distinct_names_collide_only_with_keccak_witness:
  "\<exists>i i'. nameInfo ref_kit ascii_unicode (dotted [replicate 33 97] (js ''sol'')) None = Inr i \<and>
     nameInfo ref_kit ascii_unicode (dotted [replicate 34 97] (js ''sol'')) None = Inr i' \<and>
     ni_hash i = ni_hash i' \<and> ni_labels i \<noteq> ni_labels i' \<and>
     (\<exists>x y. x \<noteq> y \<and> keccak_256 ref_kit x = keccak_256 ref_kit y)"
proof -
  have sol: "isAllowedTld (js ''sol'')" by (simp add: isAllowedTld_def ALLOWED_TLDS_def)
  have c: "canonical_path [replicate 33 97]" "canonical_path [replicate 34 97]"
    by (simp_all add: canonical_path_def canonical_replicate)
  have n: "list_all nfkc_stable (join [46] [replicate 33 97])" "list_all nfkc_stable (join [46] [replicate 34 97])"
    by (simp_all add: list_all_iff nfkc_stable_def)
  let ?i = "path_info ref_kit (js ''sol'') [replicate 33 97]" and ?j = "path_info ref_kit (js ''sol'') [replicate 34 97]"
  note i = nameInfo_dotted[OF ascii_unicode_ok c(1) sol n(1), of ref_kit]
  note j = nameInfo_dotted[OF ascii_unicode_ok c(2) sol n(2), of ref_kit]
  have h: "ni_hash ?i = ni_hash ?j"
    by (simp add: path_info_def compute_name_hash_def ref_kit_def toy_hash_def utf8_replicate)
  have l: "ni_labels ?i \<noteq> ni_labels ?j" by (simp add: path_info_def)
  have "\<And>x. length (keccak_256 ref_kit x) = 32" by (simp add: ref_kit_def toy_hash_def)
  from distinct_names_collide_only_with_keccak[OF this i j h] l i j h show ?thesis by blast
qed

end
