(* ===== verification/Accounts.thy ===== *)
theory Accounts
  imports Account_Types Hash_Name
begin

text \<open>
  The generated account codecs (\<open>clients/ts/src/generated/accounts/*.ts\<close>, \<open>types/record.ts\<close>) and
  \<open>identifySolansAccount\<close> (\<open>programs/solans.ts\<close>). Encoders and decoders are separate codec terms, as in
  the source; \<open>X_val\<close> and \<open>X_of\<close> convert between a record and the fields of the TypeScript object,
  \<open>encodeX\<close> stamps the discriminator as \<open>transformEncoder\<close> does, \<open>decodeX\<close> is \<open>decodeAccount\<close> on the data
  of an existing account (it does not look at the discriminator). \<open>X_ok\<close> says that a record's fields
  fit the codec. Each account interprets the locale \<open>tagged_codec\<close>, which gives its round trip.
\<close>

section \<open>Codecs\<close>

subsection \<open>types/record.ts\<close>

definition getRecordEncoder :: codec where
  "getRecordEncoder = StructC [(''key'', SizePrefixC Utf8C U32C), (''value'', SizePrefixC Utf8C U32C)]"

definition getRecordDecoder :: codec where
  "getRecordDecoder = StructC [(''key'', SizePrefixC Utf8C U32C), (''value'', SizePrefixC Utf8C U32C)]"

definition srecord_val :: "srecord \<Rightarrow> cval" where
  "srecord_val r = VStruct [(''key'', VStr (key r)), (''value'', VStr (val r))]"

definition srecord_of :: "cval \<Rightarrow> srecord" where
  "srecord_of v = \<lparr>key = str_of (fld ''key'' v), val = str_of (fld ''value'' v)\<rparr>"

subsection \<open>nameRecord.ts\<close>

definition NAME_RECORD_DISCRIMINATOR :: bytes where
  "NAME_RECORD_DISCRIMINATOR = [254, 22, 17, 161, 229, 49, 238, 105]"

definition getNameRecordEncoder :: codec where
  "getNameRecordEncoder = StructC [
     (''discriminator'', FixSizeC BytesC 8),
     (''owner'', AddressC),
     (''controller'', OptionC AddressC),
     (''nameHash'', FixSizeC BytesC 32),
     (''tld'', SizePrefixC Utf8C U32C),
     (''registeredAt'', I64C),
     (''expiresAt'', I64C),
     (''records'', ArrayC getRecordEncoder),
     (''resolver'', OptionC AddressC),
     (''hostingRef'', OptionC (SizePrefixC Utf8C U32C)),
     (''transferLocked'', BooleanC),
     (''reverseSet'', BooleanC),
     (''nftMint'', OptionC AddressC),
     (''parent'', OptionC AddressC),
     (''parentRegisteredAt'', I64C),
     (''depth'', U8C),
     (''listed'', BooleanC),
     (''bump'', U8C)]"

definition getNameRecordDecoder :: codec where
  "getNameRecordDecoder = StructC [
     (''discriminator'', FixSizeC BytesC 8),
     (''owner'', AddressC),
     (''controller'', OptionC AddressC),
     (''nameHash'', FixSizeC BytesC 32),
     (''tld'', SizePrefixC Utf8C U32C),
     (''registeredAt'', I64C),
     (''expiresAt'', I64C),
     (''records'', ArrayC getRecordDecoder),
     (''resolver'', OptionC AddressC),
     (''hostingRef'', OptionC (SizePrefixC Utf8C U32C)),
     (''transferLocked'', BooleanC),
     (''reverseSet'', BooleanC),
     (''nftMint'', OptionC AddressC),
     (''parent'', OptionC AddressC),
     (''parentRegisteredAt'', I64C),
     (''depth'', U8C),
     (''listed'', BooleanC),
     (''bump'', U8C)]"

definition nameRecord_val :: "nameRecord \<Rightarrow> cval" where
  "nameRecord_val r = VStruct [
     (''discriminator'', VBytes (nr_discriminator r)),
     (''owner'', VAddr (nr_owner r)),
     (''controller'', VOpt (map_option VAddr (nr_controller r))),
     (''nameHash'', VBytes (nr_nameHash r)),
     (''tld'', VStr (nr_tld r)),
     (''registeredAt'', VNum (nr_registeredAt r)),
     (''expiresAt'', VNum (nr_expiresAt r)),
     (''records'', VArr (map srecord_val (nr_records r))),
     (''resolver'', VOpt (map_option VAddr (nr_resolver r))),
     (''hostingRef'', VOpt (map_option VStr (nr_hostingRef r))),
     (''transferLocked'', VBool (nr_transferLocked r)),
     (''reverseSet'', VBool (nr_reverseSet r)),
     (''nftMint'', VOpt (map_option VAddr (nr_nftMint r))),
     (''parent'', VOpt (map_option VAddr (nr_parent r))),
     (''parentRegisteredAt'', VNum (nr_parentRegisteredAt r)),
     (''depth'', VNum (nr_depth r)),
     (''listed'', VBool (nr_listed r)),
     (''bump'', VNum (nr_bump r))]"

definition nameRecord_of :: "cval \<Rightarrow> nameRecord" where
  "nameRecord_of v = \<lparr>
     nr_discriminator = bytes_of (fld ''discriminator'' v),
     nr_owner = addr_of (fld ''owner'' v),
     nr_controller = map_option addr_of (opt_of (fld ''controller'' v)),
     nr_nameHash = bytes_of (fld ''nameHash'' v),
     nr_tld = str_of (fld ''tld'' v),
     nr_registeredAt = num_of (fld ''registeredAt'' v),
     nr_expiresAt = num_of (fld ''expiresAt'' v),
     nr_records = map srecord_of (arr_of (fld ''records'' v)),
     nr_resolver = map_option addr_of (opt_of (fld ''resolver'' v)),
     nr_hostingRef = map_option str_of (opt_of (fld ''hostingRef'' v)),
     nr_transferLocked = bool_of (fld ''transferLocked'' v),
     nr_reverseSet = bool_of (fld ''reverseSet'' v),
     nr_nftMint = map_option addr_of (opt_of (fld ''nftMint'' v)),
     nr_parent = map_option addr_of (opt_of (fld ''parent'' v)),
     nr_parentRegisteredAt = num_of (fld ''parentRegisteredAt'' v),
     nr_depth = num_of (fld ''depth'' v),
     nr_listed = bool_of (fld ''listed'' v),
     nr_bump = num_of (fld ''bump'' v)\<rparr>"

definition encodeNameRecord :: "kit \<Rightarrow> nameRecord \<Rightarrow> bytes res" where
  "encodeNameRecord K r =
     encode K getNameRecordEncoder (nameRecord_val (r\<lparr>nr_discriminator := NAME_RECORD_DISCRIMINATOR\<rparr>))"

definition decodeNameRecord :: "kit \<Rightarrow> bytes \<Rightarrow> nameRecord res" where
  "decodeNameRecord K bs = bind_res (decode K getNameRecordDecoder bs) (\<lambda>v. Inr (nameRecord_of v))"

definition nameRecord_ok :: "kit \<Rightarrow> nameRecord \<Rightarrow> bool" where
  "nameRecord_ok K r \<longleftrightarrow>
     wt (isAddress K) getNameRecordEncoder (nameRecord_val (r\<lparr>nr_discriminator := NAME_RECORD_DISCRIMINATOR\<rparr>))"

subsection \<open>config.ts\<close>

definition CONFIG_DISCRIMINATOR :: bytes where
  "CONFIG_DISCRIMINATOR = [155, 12, 170, 224, 30, 250, 204, 130]"

definition getConfigEncoder :: codec where
  "getConfigEncoder = StructC [
     (''discriminator'', FixSizeC BytesC 8),
     (''admin'', AddressC),
     (''paymentMint'', AddressC),
     (''treasuryTokenAccount'', AddressC),
     (''price1'', U64C),
     (''price2'', U64C),
     (''price3'', U64C),
     (''price4'', U64C),
     (''price5plus'', U64C),
     (''priceNumeric'', U64C),
     (''gracePeriodSeconds'', I64C),
     (''minYears'', U16C),
     (''maxYears'', U16C),
     (''solTreasury'', AddressC),
     (''marketplaceFeeBps'', U16C),
     (''stakingVault'', AddressC),
     (''burnVault'', AddressC),
     (''stakingFeeBps'', U16C),
     (''referralFeeBps'', U16C),
     (''burnFeeBps'', U16C),
     (''solansMint'', AddressC),
     (''solansRate'', U64C),
     (''solansDiscountBps'', U16C),
     (''bump'', U8C)]"

definition getConfigDecoder :: codec where
  "getConfigDecoder = StructC [
     (''discriminator'', FixSizeC BytesC 8),
     (''admin'', AddressC),
     (''paymentMint'', AddressC),
     (''treasuryTokenAccount'', AddressC),
     (''price1'', U64C),
     (''price2'', U64C),
     (''price3'', U64C),
     (''price4'', U64C),
     (''price5plus'', U64C),
     (''priceNumeric'', U64C),
     (''gracePeriodSeconds'', I64C),
     (''minYears'', U16C),
     (''maxYears'', U16C),
     (''solTreasury'', AddressC),
     (''marketplaceFeeBps'', U16C),
     (''stakingVault'', AddressC),
     (''burnVault'', AddressC),
     (''stakingFeeBps'', U16C),
     (''referralFeeBps'', U16C),
     (''burnFeeBps'', U16C),
     (''solansMint'', AddressC),
     (''solansRate'', U64C),
     (''solansDiscountBps'', U16C),
     (''bump'', U8C)]"

definition config_val :: "config \<Rightarrow> cval" where
  "config_val r = VStruct [
     (''discriminator'', VBytes (cfg_discriminator r)),
     (''admin'', VAddr (cfg_admin r)),
     (''paymentMint'', VAddr (cfg_paymentMint r)),
     (''treasuryTokenAccount'', VAddr (cfg_treasuryTokenAccount r)),
     (''price1'', VNum (cfg_price1 r)),
     (''price2'', VNum (cfg_price2 r)),
     (''price3'', VNum (cfg_price3 r)),
     (''price4'', VNum (cfg_price4 r)),
     (''price5plus'', VNum (cfg_price5plus r)),
     (''priceNumeric'', VNum (cfg_priceNumeric r)),
     (''gracePeriodSeconds'', VNum (cfg_gracePeriodSeconds r)),
     (''minYears'', VNum (cfg_minYears r)),
     (''maxYears'', VNum (cfg_maxYears r)),
     (''solTreasury'', VAddr (cfg_solTreasury r)),
     (''marketplaceFeeBps'', VNum (cfg_marketplaceFeeBps r)),
     (''stakingVault'', VAddr (cfg_stakingVault r)),
     (''burnVault'', VAddr (cfg_burnVault r)),
     (''stakingFeeBps'', VNum (cfg_stakingFeeBps r)),
     (''referralFeeBps'', VNum (cfg_referralFeeBps r)),
     (''burnFeeBps'', VNum (cfg_burnFeeBps r)),
     (''solansMint'', VAddr (cfg_solansMint r)),
     (''solansRate'', VNum (cfg_solansRate r)),
     (''solansDiscountBps'', VNum (cfg_solansDiscountBps r)),
     (''bump'', VNum (cfg_bump r))]"

definition config_of :: "cval \<Rightarrow> config" where
  "config_of v = \<lparr>
     cfg_discriminator = bytes_of (fld ''discriminator'' v),
     cfg_admin = addr_of (fld ''admin'' v),
     cfg_paymentMint = addr_of (fld ''paymentMint'' v),
     cfg_treasuryTokenAccount = addr_of (fld ''treasuryTokenAccount'' v),
     cfg_price1 = num_of (fld ''price1'' v),
     cfg_price2 = num_of (fld ''price2'' v),
     cfg_price3 = num_of (fld ''price3'' v),
     cfg_price4 = num_of (fld ''price4'' v),
     cfg_price5plus = num_of (fld ''price5plus'' v),
     cfg_priceNumeric = num_of (fld ''priceNumeric'' v),
     cfg_gracePeriodSeconds = num_of (fld ''gracePeriodSeconds'' v),
     cfg_minYears = num_of (fld ''minYears'' v),
     cfg_maxYears = num_of (fld ''maxYears'' v),
     cfg_solTreasury = addr_of (fld ''solTreasury'' v),
     cfg_marketplaceFeeBps = num_of (fld ''marketplaceFeeBps'' v),
     cfg_stakingVault = addr_of (fld ''stakingVault'' v),
     cfg_burnVault = addr_of (fld ''burnVault'' v),
     cfg_stakingFeeBps = num_of (fld ''stakingFeeBps'' v),
     cfg_referralFeeBps = num_of (fld ''referralFeeBps'' v),
     cfg_burnFeeBps = num_of (fld ''burnFeeBps'' v),
     cfg_solansMint = addr_of (fld ''solansMint'' v),
     cfg_solansRate = num_of (fld ''solansRate'' v),
     cfg_solansDiscountBps = num_of (fld ''solansDiscountBps'' v),
     cfg_bump = num_of (fld ''bump'' v)\<rparr>"

definition encodeConfig :: "kit \<Rightarrow> config \<Rightarrow> bytes res" where
  "encodeConfig K r =
     encode K getConfigEncoder (config_val (r\<lparr>cfg_discriminator := CONFIG_DISCRIMINATOR\<rparr>))"

definition decodeConfig :: "kit \<Rightarrow> bytes \<Rightarrow> config res" where
  "decodeConfig K bs = bind_res (decode K getConfigDecoder bs) (\<lambda>v. Inr (config_of v))"

definition config_ok :: "kit \<Rightarrow> config \<Rightarrow> bool" where
  "config_ok K r \<longleftrightarrow>
     wt (isAddress K) getConfigEncoder (config_val (r\<lparr>cfg_discriminator := CONFIG_DISCRIMINATOR\<rparr>))"

subsection \<open>listing.ts\<close>

definition LISTING_DISCRIMINATOR :: bytes where
  "LISTING_DISCRIMINATOR = [218, 32, 50, 73, 43, 134, 26, 58]"

definition getListingEncoder :: codec where
  "getListingEncoder = StructC [
     (''discriminator'', FixSizeC BytesC 8),
     (''seller'', AddressC),
     (''nameHash'', FixSizeC BytesC 32),
     (''price'', U64C),
     (''expiresAt'', I64C),
     (''bump'', U8C)]"

definition getListingDecoder :: codec where
  "getListingDecoder = StructC [
     (''discriminator'', FixSizeC BytesC 8),
     (''seller'', AddressC),
     (''nameHash'', FixSizeC BytesC 32),
     (''price'', U64C),
     (''expiresAt'', I64C),
     (''bump'', U8C)]"

definition listing_val :: "listing \<Rightarrow> cval" where
  "listing_val r = VStruct [
     (''discriminator'', VBytes (ls_discriminator r)),
     (''seller'', VAddr (ls_seller r)),
     (''nameHash'', VBytes (ls_nameHash r)),
     (''price'', VNum (ls_price r)),
     (''expiresAt'', VNum (ls_expiresAt r)),
     (''bump'', VNum (ls_bump r))]"

definition listing_of :: "cval \<Rightarrow> listing" where
  "listing_of v = \<lparr>
     ls_discriminator = bytes_of (fld ''discriminator'' v),
     ls_seller = addr_of (fld ''seller'' v),
     ls_nameHash = bytes_of (fld ''nameHash'' v),
     ls_price = num_of (fld ''price'' v),
     ls_expiresAt = num_of (fld ''expiresAt'' v),
     ls_bump = num_of (fld ''bump'' v)\<rparr>"

definition encodeListing :: "kit \<Rightarrow> listing \<Rightarrow> bytes res" where
  "encodeListing K r =
     encode K getListingEncoder (listing_val (r\<lparr>ls_discriminator := LISTING_DISCRIMINATOR\<rparr>))"

definition decodeListing :: "kit \<Rightarrow> bytes \<Rightarrow> listing res" where
  "decodeListing K bs = bind_res (decode K getListingDecoder bs) (\<lambda>v. Inr (listing_of v))"

definition listing_ok :: "kit \<Rightarrow> listing \<Rightarrow> bool" where
  "listing_ok K r \<longleftrightarrow>
     wt (isAddress K) getListingEncoder (listing_val (r\<lparr>ls_discriminator := LISTING_DISCRIMINATOR\<rparr>))"

subsection \<open>offer.ts\<close>

definition OFFER_DISCRIMINATOR :: bytes where
  "OFFER_DISCRIMINATOR = [215, 88, 60, 71, 170, 162, 73, 229]"

definition getOfferEncoder :: codec where
  "getOfferEncoder = StructC [
     (''discriminator'', FixSizeC BytesC 8),
     (''buyer'', AddressC),
     (''nameHash'', FixSizeC BytesC 32),
     (''amount'', U64C),
     (''expiresAt'', I64C),
     (''bump'', U8C)]"

definition getOfferDecoder :: codec where
  "getOfferDecoder = StructC [
     (''discriminator'', FixSizeC BytesC 8),
     (''buyer'', AddressC),
     (''nameHash'', FixSizeC BytesC 32),
     (''amount'', U64C),
     (''expiresAt'', I64C),
     (''bump'', U8C)]"

definition offer_val :: "offer \<Rightarrow> cval" where
  "offer_val r = VStruct [
     (''discriminator'', VBytes (of_discriminator r)),
     (''buyer'', VAddr (of_buyer r)),
     (''nameHash'', VBytes (of_nameHash r)),
     (''amount'', VNum (of_amount r)),
     (''expiresAt'', VNum (of_expiresAt r)),
     (''bump'', VNum (of_bump r))]"

definition offer_of :: "cval \<Rightarrow> offer" where
  "offer_of v = \<lparr>
     of_discriminator = bytes_of (fld ''discriminator'' v),
     of_buyer = addr_of (fld ''buyer'' v),
     of_nameHash = bytes_of (fld ''nameHash'' v),
     of_amount = num_of (fld ''amount'' v),
     of_expiresAt = num_of (fld ''expiresAt'' v),
     of_bump = num_of (fld ''bump'' v)\<rparr>"

definition encodeOffer :: "kit \<Rightarrow> offer \<Rightarrow> bytes res" where
  "encodeOffer K r =
     encode K getOfferEncoder (offer_val (r\<lparr>of_discriminator := OFFER_DISCRIMINATOR\<rparr>))"

definition decodeOffer :: "kit \<Rightarrow> bytes \<Rightarrow> offer res" where
  "decodeOffer K bs = bind_res (decode K getOfferDecoder bs) (\<lambda>v. Inr (offer_of v))"

definition offer_ok :: "kit \<Rightarrow> offer \<Rightarrow> bool" where
  "offer_ok K r \<longleftrightarrow>
     wt (isAddress K) getOfferEncoder (offer_val (r\<lparr>of_discriminator := OFFER_DISCRIMINATOR\<rparr>))"

subsection \<open>auction.ts\<close>

definition AUCTION_DISCRIMINATOR :: bytes where
  "AUCTION_DISCRIMINATOR = [218, 94, 247, 242, 126, 233, 131, 81]"

definition getAuctionEncoder :: codec where
  "getAuctionEncoder = StructC [
     (''discriminator'', FixSizeC BytesC 8),
     (''seller'', AddressC),
     (''nameHash'', FixSizeC BytesC 32),
     (''bidVault'', AddressC),
     (''highestBidder'', OptionC AddressC),
     (''highestBid'', U64C),
     (''reservePrice'', U64C),
     (''minIncrement'', U64C),
     (''endTime'', I64C),
     (''bump'', U8C)]"

definition getAuctionDecoder :: codec where
  "getAuctionDecoder = StructC [
     (''discriminator'', FixSizeC BytesC 8),
     (''seller'', AddressC),
     (''nameHash'', FixSizeC BytesC 32),
     (''bidVault'', AddressC),
     (''highestBidder'', OptionC AddressC),
     (''highestBid'', U64C),
     (''reservePrice'', U64C),
     (''minIncrement'', U64C),
     (''endTime'', I64C),
     (''bump'', U8C)]"

definition auction_val :: "auction \<Rightarrow> cval" where
  "auction_val r = VStruct [
     (''discriminator'', VBytes (au_discriminator r)),
     (''seller'', VAddr (au_seller r)),
     (''nameHash'', VBytes (au_nameHash r)),
     (''bidVault'', VAddr (au_bidVault r)),
     (''highestBidder'', VOpt (map_option VAddr (au_highestBidder r))),
     (''highestBid'', VNum (au_highestBid r)),
     (''reservePrice'', VNum (au_reservePrice r)),
     (''minIncrement'', VNum (au_minIncrement r)),
     (''endTime'', VNum (au_endTime r)),
     (''bump'', VNum (au_bump r))]"

definition auction_of :: "cval \<Rightarrow> auction" where
  "auction_of v = \<lparr>
     au_discriminator = bytes_of (fld ''discriminator'' v),
     au_seller = addr_of (fld ''seller'' v),
     au_nameHash = bytes_of (fld ''nameHash'' v),
     au_bidVault = addr_of (fld ''bidVault'' v),
     au_highestBidder = map_option addr_of (opt_of (fld ''highestBidder'' v)),
     au_highestBid = num_of (fld ''highestBid'' v),
     au_reservePrice = num_of (fld ''reservePrice'' v),
     au_minIncrement = num_of (fld ''minIncrement'' v),
     au_endTime = num_of (fld ''endTime'' v),
     au_bump = num_of (fld ''bump'' v)\<rparr>"

definition encodeAuction :: "kit \<Rightarrow> auction \<Rightarrow> bytes res" where
  "encodeAuction K r =
     encode K getAuctionEncoder (auction_val (r\<lparr>au_discriminator := AUCTION_DISCRIMINATOR\<rparr>))"

definition decodeAuction :: "kit \<Rightarrow> bytes \<Rightarrow> auction res" where
  "decodeAuction K bs = bind_res (decode K getAuctionDecoder bs) (\<lambda>v. Inr (auction_of v))"

definition auction_ok :: "kit \<Rightarrow> auction \<Rightarrow> bool" where
  "auction_ok K r \<longleftrightarrow>
     wt (isAddress K) getAuctionEncoder (auction_val (r\<lparr>au_discriminator := AUCTION_DISCRIMINATOR\<rparr>))"

subsection \<open>reverseRecord.ts\<close>

definition REVERSE_RECORD_DISCRIMINATOR :: bytes where
  "REVERSE_RECORD_DISCRIMINATOR = [125, 98, 59, 20, 159, 18, 85, 123]"

definition getReverseRecordEncoder :: codec where
  "getReverseRecordEncoder = StructC [
     (''discriminator'', FixSizeC BytesC 8),
     (''owner'', AddressC),
     (''nameHash'', FixSizeC BytesC 32),
     (''name'', SizePrefixC Utf8C U32C),
     (''tld'', SizePrefixC Utf8C U32C),
     (''bump'', U8C)]"

definition getReverseRecordDecoder :: codec where
  "getReverseRecordDecoder = StructC [
     (''discriminator'', FixSizeC BytesC 8),
     (''owner'', AddressC),
     (''nameHash'', FixSizeC BytesC 32),
     (''name'', SizePrefixC Utf8C U32C),
     (''tld'', SizePrefixC Utf8C U32C),
     (''bump'', U8C)]"

definition reverseRecord_val :: "reverseRecord \<Rightarrow> cval" where
  "reverseRecord_val r = VStruct [
     (''discriminator'', VBytes (rv_discriminator r)),
     (''owner'', VAddr (rv_owner r)),
     (''nameHash'', VBytes (rv_nameHash r)),
     (''name'', VStr (rv_name r)),
     (''tld'', VStr (rv_tld r)),
     (''bump'', VNum (rv_bump r))]"

definition reverseRecord_of :: "cval \<Rightarrow> reverseRecord" where
  "reverseRecord_of v = \<lparr>
     rv_discriminator = bytes_of (fld ''discriminator'' v),
     rv_owner = addr_of (fld ''owner'' v),
     rv_nameHash = bytes_of (fld ''nameHash'' v),
     rv_name = str_of (fld ''name'' v),
     rv_tld = str_of (fld ''tld'' v),
     rv_bump = num_of (fld ''bump'' v)\<rparr>"

definition encodeReverseRecord :: "kit \<Rightarrow> reverseRecord \<Rightarrow> bytes res" where
  "encodeReverseRecord K r =
     encode K getReverseRecordEncoder (reverseRecord_val (r\<lparr>rv_discriminator := REVERSE_RECORD_DISCRIMINATOR\<rparr>))"

definition decodeReverseRecord :: "kit \<Rightarrow> bytes \<Rightarrow> reverseRecord res" where
  "decodeReverseRecord K bs = bind_res (decode K getReverseRecordDecoder bs) (\<lambda>v. Inr (reverseRecord_of v))"

definition reverseRecord_ok :: "kit \<Rightarrow> reverseRecord \<Rightarrow> bool" where
  "reverseRecord_ok K r \<longleftrightarrow>
     wt (isAddress K) getReverseRecordEncoder (reverseRecord_val (r\<lparr>rv_discriminator := REVERSE_RECORD_DISCRIMINATOR\<rparr>))"

subsection \<open>stakePool.ts\<close>

definition STAKE_POOL_DISCRIMINATOR :: bytes where
  "STAKE_POOL_DISCRIMINATOR = [121, 34, 206, 21, 79, 127, 255, 28]"

definition getStakePoolEncoder :: codec where
  "getStakePoolEncoder = StructC [
     (''discriminator'', FixSizeC BytesC 8),
     (''solansMint'', AddressC),
     (''stakeVault'', AddressC),
     (''rewardVault'', AddressC),
     (''totalStaked'', U64C),
     (''accRewardPerShare'', U128C),
     (''lastRewardBalance'', U64C),
     (''bump'', U8C)]"

definition getStakePoolDecoder :: codec where
  "getStakePoolDecoder = StructC [
     (''discriminator'', FixSizeC BytesC 8),
     (''solansMint'', AddressC),
     (''stakeVault'', AddressC),
     (''rewardVault'', AddressC),
     (''totalStaked'', U64C),
     (''accRewardPerShare'', U128C),
     (''lastRewardBalance'', U64C),
     (''bump'', U8C)]"

definition stakePool_val :: "stakePool \<Rightarrow> cval" where
  "stakePool_val r = VStruct [
     (''discriminator'', VBytes (sp_discriminator r)),
     (''solansMint'', VAddr (sp_solansMint r)),
     (''stakeVault'', VAddr (sp_stakeVault r)),
     (''rewardVault'', VAddr (sp_rewardVault r)),
     (''totalStaked'', VNum (sp_totalStaked r)),
     (''accRewardPerShare'', VNum (sp_accRewardPerShare r)),
     (''lastRewardBalance'', VNum (sp_lastRewardBalance r)),
     (''bump'', VNum (sp_bump r))]"

definition stakePool_of :: "cval \<Rightarrow> stakePool" where
  "stakePool_of v = \<lparr>
     sp_discriminator = bytes_of (fld ''discriminator'' v),
     sp_solansMint = addr_of (fld ''solansMint'' v),
     sp_stakeVault = addr_of (fld ''stakeVault'' v),
     sp_rewardVault = addr_of (fld ''rewardVault'' v),
     sp_totalStaked = num_of (fld ''totalStaked'' v),
     sp_accRewardPerShare = num_of (fld ''accRewardPerShare'' v),
     sp_lastRewardBalance = num_of (fld ''lastRewardBalance'' v),
     sp_bump = num_of (fld ''bump'' v)\<rparr>"

definition encodeStakePool :: "kit \<Rightarrow> stakePool \<Rightarrow> bytes res" where
  "encodeStakePool K r =
     encode K getStakePoolEncoder (stakePool_val (r\<lparr>sp_discriminator := STAKE_POOL_DISCRIMINATOR\<rparr>))"

definition decodeStakePool :: "kit \<Rightarrow> bytes \<Rightarrow> stakePool res" where
  "decodeStakePool K bs = bind_res (decode K getStakePoolDecoder bs) (\<lambda>v. Inr (stakePool_of v))"

definition stakePool_ok :: "kit \<Rightarrow> stakePool \<Rightarrow> bool" where
  "stakePool_ok K r \<longleftrightarrow>
     wt (isAddress K) getStakePoolEncoder (stakePool_val (r\<lparr>sp_discriminator := STAKE_POOL_DISCRIMINATOR\<rparr>))"

subsection \<open>stakeAccount.ts\<close>

definition STAKE_ACCOUNT_DISCRIMINATOR :: bytes where
  "STAKE_ACCOUNT_DISCRIMINATOR = [80, 158, 67, 124, 50, 189, 192, 255]"

definition getStakeAccountEncoder :: codec where
  "getStakeAccountEncoder = StructC [
     (''discriminator'', FixSizeC BytesC 8),
     (''owner'', AddressC),
     (''amount'', U64C),
     (''rewardDebt'', U128C),
     (''bump'', U8C)]"

definition getStakeAccountDecoder :: codec where
  "getStakeAccountDecoder = StructC [
     (''discriminator'', FixSizeC BytesC 8),
     (''owner'', AddressC),
     (''amount'', U64C),
     (''rewardDebt'', U128C),
     (''bump'', U8C)]"

definition stakeAccount_val :: "stakeAccount \<Rightarrow> cval" where
  "stakeAccount_val r = VStruct [
     (''discriminator'', VBytes (sa_discriminator r)),
     (''owner'', VAddr (sa_owner r)),
     (''amount'', VNum (sa_amount r)),
     (''rewardDebt'', VNum (sa_rewardDebt r)),
     (''bump'', VNum (sa_bump r))]"

definition stakeAccount_of :: "cval \<Rightarrow> stakeAccount" where
  "stakeAccount_of v = \<lparr>
     sa_discriminator = bytes_of (fld ''discriminator'' v),
     sa_owner = addr_of (fld ''owner'' v),
     sa_amount = num_of (fld ''amount'' v),
     sa_rewardDebt = num_of (fld ''rewardDebt'' v),
     sa_bump = num_of (fld ''bump'' v)\<rparr>"

definition encodeStakeAccount :: "kit \<Rightarrow> stakeAccount \<Rightarrow> bytes res" where
  "encodeStakeAccount K r =
     encode K getStakeAccountEncoder (stakeAccount_val (r\<lparr>sa_discriminator := STAKE_ACCOUNT_DISCRIMINATOR\<rparr>))"

definition decodeStakeAccount :: "kit \<Rightarrow> bytes \<Rightarrow> stakeAccount res" where
  "decodeStakeAccount K bs = bind_res (decode K getStakeAccountDecoder bs) (\<lambda>v. Inr (stakeAccount_of v))"

definition stakeAccount_ok :: "kit \<Rightarrow> stakeAccount \<Rightarrow> bool" where
  "stakeAccount_ok K r \<longleftrightarrow>
     wt (isAddress K) getStakeAccountEncoder (stakeAccount_val (r\<lparr>sa_discriminator := STAKE_ACCOUNT_DISCRIMINATOR\<rparr>))"

section \<open>programs/solans.ts: identifySolansAccount\<close>

datatype SolansAccount =
    Auction | Config | Listing | NameRecord | Offer | ReverseRecord | StakeAccount | StakePool

definition failed_to_identify :: js_error where
  "failed_to_identify = JsError (js ''SOLANA_ERROR__PROGRAM_CLIENTS__FAILED_TO_IDENTIFY'')"

text \<open>The cascade of \<open>if (containsBytes(data, fixEncoderSize(getBytesEncoder(), 8).encode(..), 0))\<close>
  tests, in order, over the constants the source writes inline.\<close>

fun identify_first :: "kit \<Rightarrow> (bytes \<times> 'v) list \<Rightarrow> bytes \<Rightarrow> 'v res" where
  "identify_first K [] data = Inl failed_to_identify"
| "identify_first K ((d, v) # ds) data =
     bind_res (encode K (FixSizeC BytesC 8) (VBytes d)) (\<lambda>b.
       if containsBytes K data b 0 then Inr v else identify_first K ds data)"

definition account_table :: "(bytes \<times> SolansAccount) list" where
  "account_table = [
     ([218, 94, 247, 242, 126, 233, 131, 81], Auction),
     ([155, 12, 170, 224, 30, 250, 204, 130], Config),
     ([218, 32, 50, 73, 43, 134, 26, 58], Listing),
     ([254, 22, 17, 161, 229, 49, 238, 105], NameRecord),
     ([215, 88, 60, 71, 170, 162, 73, 229], Offer),
     ([125, 98, 59, 20, 159, 18, 85, 123], ReverseRecord),
     ([80, 158, 67, 124, 50, 189, 192, 255], StakeAccount),
     ([121, 34, 206, 21, 79, 127, 255, 28], StakePool)]"

definition identifySolansAccount :: "kit \<Rightarrow> bytes \<Rightarrow> SolansAccount res" where
  "identifySolansAccount K = identify_first K account_table"

section \<open>Round trips\<close>

lemma srecord_of_val: "srecord_of (srecord_val r) = r"
  by (simp add: srecord_of_def srecord_val_def)

interpretation name_record_codec: tagged_codec getNameRecordEncoder getNameRecordDecoder nameRecord_val nameRecord_of
  "\<lambda>r. r\<lparr>nr_discriminator := NAME_RECORD_DISCRIMINATOR\<rparr>" NAME_RECORD_DISCRIMINATOR
proof
  show "nameRecord_of (nameRecord_val r) = r" for r
    by (cases r) (simp add: nameRecord_of_def nameRecord_val_def option.map_comp comp_def option.map_ident srecord_of_val map_idI)
qed (auto simp: getNameRecordEncoder_def getNameRecordDecoder_def nameRecord_val_def getRecordEncoder_def getRecordDecoder_def)

lemma decodeNameRecord_encode:
  "kit_ok K \<Longrightarrow> nameRecord_ok K r \<Longrightarrow>
   \<exists>bs. encodeNameRecord K r = Inr (NAME_RECORD_DISCRIMINATOR @ bs) \<and>
     (\<forall>rest. decodeNameRecord K (NAME_RECORD_DISCRIMINATOR @ bs @ rest) = Inr (r\<lparr>nr_discriminator := NAME_RECORD_DISCRIMINATOR\<rparr>))"
  unfolding nameRecord_ok_def encodeNameRecord_def decodeNameRecord_def by (rule name_record_codec.tagged_roundtrip)

interpretation config_codec: tagged_codec getConfigEncoder getConfigDecoder config_val config_of
  "\<lambda>r. r\<lparr>cfg_discriminator := CONFIG_DISCRIMINATOR\<rparr>" CONFIG_DISCRIMINATOR
proof
  show "config_of (config_val r) = r" for r
    by (cases r) (simp add: config_of_def config_val_def option.map_comp comp_def option.map_ident)
qed (auto simp: getConfigEncoder_def getConfigDecoder_def config_val_def)

lemma decodeConfig_encode:
  "kit_ok K \<Longrightarrow> config_ok K r \<Longrightarrow>
   \<exists>bs. encodeConfig K r = Inr (CONFIG_DISCRIMINATOR @ bs) \<and>
     (\<forall>rest. decodeConfig K (CONFIG_DISCRIMINATOR @ bs @ rest) = Inr (r\<lparr>cfg_discriminator := CONFIG_DISCRIMINATOR\<rparr>))"
  unfolding config_ok_def encodeConfig_def decodeConfig_def by (rule config_codec.tagged_roundtrip)

interpretation listing_codec: tagged_codec getListingEncoder getListingDecoder listing_val listing_of
  "\<lambda>r. r\<lparr>ls_discriminator := LISTING_DISCRIMINATOR\<rparr>" LISTING_DISCRIMINATOR
proof
  show "listing_of (listing_val r) = r" for r
    by (cases r) (simp add: listing_of_def listing_val_def option.map_comp comp_def option.map_ident)
qed (auto simp: getListingEncoder_def getListingDecoder_def listing_val_def)

lemma decodeListing_encode:
  "kit_ok K \<Longrightarrow> listing_ok K r \<Longrightarrow>
   \<exists>bs. encodeListing K r = Inr (LISTING_DISCRIMINATOR @ bs) \<and>
     (\<forall>rest. decodeListing K (LISTING_DISCRIMINATOR @ bs @ rest) = Inr (r\<lparr>ls_discriminator := LISTING_DISCRIMINATOR\<rparr>))"
  unfolding listing_ok_def encodeListing_def decodeListing_def by (rule listing_codec.tagged_roundtrip)

interpretation offer_codec: tagged_codec getOfferEncoder getOfferDecoder offer_val offer_of
  "\<lambda>r. r\<lparr>of_discriminator := OFFER_DISCRIMINATOR\<rparr>" OFFER_DISCRIMINATOR
proof
  show "offer_of (offer_val r) = r" for r
    by (cases r) (simp add: offer_of_def offer_val_def option.map_comp comp_def option.map_ident)
qed (auto simp: getOfferEncoder_def getOfferDecoder_def offer_val_def)

lemma decodeOffer_encode:
  "kit_ok K \<Longrightarrow> offer_ok K r \<Longrightarrow>
   \<exists>bs. encodeOffer K r = Inr (OFFER_DISCRIMINATOR @ bs) \<and>
     (\<forall>rest. decodeOffer K (OFFER_DISCRIMINATOR @ bs @ rest) = Inr (r\<lparr>of_discriminator := OFFER_DISCRIMINATOR\<rparr>))"
  unfolding offer_ok_def encodeOffer_def decodeOffer_def by (rule offer_codec.tagged_roundtrip)

interpretation auction_codec: tagged_codec getAuctionEncoder getAuctionDecoder auction_val auction_of
  "\<lambda>r. r\<lparr>au_discriminator := AUCTION_DISCRIMINATOR\<rparr>" AUCTION_DISCRIMINATOR
proof
  show "auction_of (auction_val r) = r" for r
    by (cases r) (simp add: auction_of_def auction_val_def option.map_comp comp_def option.map_ident)
qed (auto simp: getAuctionEncoder_def getAuctionDecoder_def auction_val_def)

lemma decodeAuction_encode:
  "kit_ok K \<Longrightarrow> auction_ok K r \<Longrightarrow>
   \<exists>bs. encodeAuction K r = Inr (AUCTION_DISCRIMINATOR @ bs) \<and>
     (\<forall>rest. decodeAuction K (AUCTION_DISCRIMINATOR @ bs @ rest) = Inr (r\<lparr>au_discriminator := AUCTION_DISCRIMINATOR\<rparr>))"
  unfolding auction_ok_def encodeAuction_def decodeAuction_def by (rule auction_codec.tagged_roundtrip)

interpretation reverse_record_codec: tagged_codec getReverseRecordEncoder getReverseRecordDecoder reverseRecord_val reverseRecord_of
  "\<lambda>r. r\<lparr>rv_discriminator := REVERSE_RECORD_DISCRIMINATOR\<rparr>" REVERSE_RECORD_DISCRIMINATOR
proof
  show "reverseRecord_of (reverseRecord_val r) = r" for r
    by (cases r) (simp add: reverseRecord_of_def reverseRecord_val_def option.map_comp comp_def option.map_ident)
qed (auto simp: getReverseRecordEncoder_def getReverseRecordDecoder_def reverseRecord_val_def)

lemma decodeReverseRecord_encode:
  "kit_ok K \<Longrightarrow> reverseRecord_ok K r \<Longrightarrow>
   \<exists>bs. encodeReverseRecord K r = Inr (REVERSE_RECORD_DISCRIMINATOR @ bs) \<and>
     (\<forall>rest. decodeReverseRecord K (REVERSE_RECORD_DISCRIMINATOR @ bs @ rest) = Inr (r\<lparr>rv_discriminator := REVERSE_RECORD_DISCRIMINATOR\<rparr>))"
  unfolding reverseRecord_ok_def encodeReverseRecord_def decodeReverseRecord_def by (rule reverse_record_codec.tagged_roundtrip)

interpretation stake_pool_codec: tagged_codec getStakePoolEncoder getStakePoolDecoder stakePool_val stakePool_of
  "\<lambda>r. r\<lparr>sp_discriminator := STAKE_POOL_DISCRIMINATOR\<rparr>" STAKE_POOL_DISCRIMINATOR
proof
  show "stakePool_of (stakePool_val r) = r" for r
    by (cases r) (simp add: stakePool_of_def stakePool_val_def option.map_comp comp_def option.map_ident)
qed (auto simp: getStakePoolEncoder_def getStakePoolDecoder_def stakePool_val_def)

lemma decodeStakePool_encode:
  "kit_ok K \<Longrightarrow> stakePool_ok K r \<Longrightarrow>
   \<exists>bs. encodeStakePool K r = Inr (STAKE_POOL_DISCRIMINATOR @ bs) \<and>
     (\<forall>rest. decodeStakePool K (STAKE_POOL_DISCRIMINATOR @ bs @ rest) = Inr (r\<lparr>sp_discriminator := STAKE_POOL_DISCRIMINATOR\<rparr>))"
  unfolding stakePool_ok_def encodeStakePool_def decodeStakePool_def by (rule stake_pool_codec.tagged_roundtrip)

interpretation stake_account_codec: tagged_codec getStakeAccountEncoder getStakeAccountDecoder stakeAccount_val stakeAccount_of
  "\<lambda>r. r\<lparr>sa_discriminator := STAKE_ACCOUNT_DISCRIMINATOR\<rparr>" STAKE_ACCOUNT_DISCRIMINATOR
proof
  show "stakeAccount_of (stakeAccount_val r) = r" for r
    by (cases r) (simp add: stakeAccount_of_def stakeAccount_val_def option.map_comp comp_def option.map_ident)
qed (auto simp: getStakeAccountEncoder_def getStakeAccountDecoder_def stakeAccount_val_def)

lemma decodeStakeAccount_encode:
  "kit_ok K \<Longrightarrow> stakeAccount_ok K r \<Longrightarrow>
   \<exists>bs. encodeStakeAccount K r = Inr (STAKE_ACCOUNT_DISCRIMINATOR @ bs) \<and>
     (\<forall>rest. decodeStakeAccount K (STAKE_ACCOUNT_DISCRIMINATOR @ bs @ rest) = Inr (r\<lparr>sa_discriminator := STAKE_ACCOUNT_DISCRIMINATOR\<rparr>))"
  unfolding stakeAccount_ok_def encodeStakeAccount_def decodeStakeAccount_def by (rule stake_account_codec.tagged_roundtrip)

section \<open>Identification\<close>

text \<open>The cascade returns the variant of the first 8-byte tag the data starts with.\<close>

lemma identify_first_eq:
  assumes "kit_ok K" "\<forall>(d, v) \<in> set ds. length d = 8"
  shows "identify_first K ds data =
    (case find (\<lambda>(d, v). take 8 data = d) ds of Some (d, v) \<Rightarrow> Inr v | None \<Rightarrow> Inl failed_to_identify)"
  using assms(2)
proof (induction ds)
  case (Cons dv ds)
  obtain d v where dv: "dv = (d, v)" by (cases dv)
  have L: "kit_codecs (encode K) (read K) (isAddress K)" using assms(1) by (rule kit_ok_codecs)
  have "length d = 8" using Cons.prems by (simp add: dv)
  then have "encode K (FixSizeC BytesC 8) (VBytes d) = Inr d"
    by (rule kit_codecs.enc_fix[OF L kit_codecs.enc_bytes[OF L]])
  with Cons assms(1) show ?case by (auto simp: dv kit_ok_def)
qed simp

lemma identify_first_tag:
  assumes "kit_ok K" "\<forall>(d, v) \<in> set ds. length d = 8" "distinct (map fst ds)" "(d, v) \<in> set ds"
  shows "identify_first K ds (d @ bs) = Inr v"
proof -
  have "length d = 8" using assms(2,4) by auto
  then have "find (\<lambda>(e, w). take 8 (d @ bs) = e) ds = Some (d, v)"
    using assms(3,4) by (induction ds) (auto simp: rev_image_eqI)
  with identify_first_eq[OF assms(1,2)] show ?thesis by simp
qed

text \<open>Data that starts with an account's tag is identified as that account.\<close>

lemma identifySolansAccount_tag:
  assumes "kit_ok K"
  shows "list_all (\<lambda>(d, v). \<forall>bs. identifySolansAccount K (d @ bs) = Inr v) account_table"
proof -
  have "\<forall>(d, v) \<in> set account_table. length d = 8" "distinct (map fst account_table)"
    by (simp_all add: account_table_def)
  then show ?thesis
    unfolding identifySolansAccount_def list_all_iff using identify_first_tag[OF assms] by fast
qed

lemma identify_nameRecord: "kit_ok K \<Longrightarrow> identifySolansAccount K (NAME_RECORD_DISCRIMINATOR @ bs) = Inr NameRecord"
  using identifySolansAccount_tag[of K] by (simp add: account_table_def NAME_RECORD_DISCRIMINATOR_def)

lemma identify_config: "kit_ok K \<Longrightarrow> identifySolansAccount K (CONFIG_DISCRIMINATOR @ bs) = Inr Config"
  using identifySolansAccount_tag[of K] by (simp add: account_table_def CONFIG_DISCRIMINATOR_def)

lemma identify_listing: "kit_ok K \<Longrightarrow> identifySolansAccount K (LISTING_DISCRIMINATOR @ bs) = Inr Listing"
  using identifySolansAccount_tag[of K] by (simp add: account_table_def LISTING_DISCRIMINATOR_def)

lemma identify_offer: "kit_ok K \<Longrightarrow> identifySolansAccount K (OFFER_DISCRIMINATOR @ bs) = Inr Offer"
  using identifySolansAccount_tag[of K] by (simp add: account_table_def OFFER_DISCRIMINATOR_def)

lemma identify_auction: "kit_ok K \<Longrightarrow> identifySolansAccount K (AUCTION_DISCRIMINATOR @ bs) = Inr Auction"
  using identifySolansAccount_tag[of K] by (simp add: account_table_def AUCTION_DISCRIMINATOR_def)

lemma identify_reverseRecord: "kit_ok K \<Longrightarrow> identifySolansAccount K (REVERSE_RECORD_DISCRIMINATOR @ bs) = Inr ReverseRecord"
  using identifySolansAccount_tag[of K] by (simp add: account_table_def REVERSE_RECORD_DISCRIMINATOR_def)

lemma identify_stakePool: "kit_ok K \<Longrightarrow> identifySolansAccount K (STAKE_POOL_DISCRIMINATOR @ bs) = Inr StakePool"
  using identifySolansAccount_tag[of K] by (simp add: account_table_def STAKE_POOL_DISCRIMINATOR_def)

lemma identify_stakeAccount: "kit_ok K \<Longrightarrow> identifySolansAccount K (STAKE_ACCOUNT_DISCRIMINATOR @ bs) = Inr StakeAccount"
  using identifySolansAccount_tag[of K] by (simp add: account_table_def STAKE_ACCOUNT_DISCRIMINATOR_def)

lemmas identify_account =
  identify_nameRecord
  identify_config
  identify_listing
  identify_offer
  identify_auction
  identify_reverseRecord
  identify_stakePool
  identify_stakeAccount

lemma whole_account:
  "\<exists>bs. enc = Inr (tag @ bs) \<and> (\<forall>rest. dec (tag @ bs @ rest) = Inr x) \<Longrightarrow> (\<And>bs. ident (tag @ bs) = Inr v) \<Longrightarrow>
   \<exists>bs. enc = Inr bs \<and> ident bs = Inr v \<and> dec bs = Inr x"
  by (metis append_Nil2)

lemmas account_whole =
  decodeNameRecord_encode[THEN whole_account]
  decodeConfig_encode[THEN whole_account]
  decodeListing_encode[THEN whole_account]
  decodeOffer_encode[THEN whole_account]
  decodeAuction_encode[THEN whole_account]
  decodeReverseRecord_encode[THEN whole_account]
  decodeStakePool_encode[THEN whole_account]
  decodeStakeAccount_encode[THEN whole_account]

end
