(* ===== verification/Samples.thy ===== *)
theory Samples
  imports Accounts
begin

text \<open>
  Concrete accounts for the witnesses of the development: one value per account type the read API
  decodes, each with the bytes the reference codecs give it. The witnesses instantiate a theorem at
  these values, so that its hypotheses are seen to hold together.
\<close>

definition sample_address :: address where
  "sample_address = replicate 32 49"

definition sample_wallet :: address where
  "sample_wallet = replicate 31 49 @ [50]"

definition sample_record :: nameRecord where
  "sample_record = \<lparr>nr_discriminator = NAME_RECORD_DISCRIMINATOR, nr_owner = sample_wallet,
     nr_controller = None, nr_nameHash = js ''alex.sol'' @ replicate 24 0, nr_tld = js ''sol'',
     nr_registeredAt = 1000, nr_expiresAt = 31537000,
     nr_records = [\<lparr>key = js ''url'', val = js ''https://alex.example''\<rparr>],
     nr_resolver = None, nr_hostingRef = None, nr_transferLocked = False, nr_reverseSet = False,
     nr_nftMint = None, nr_parent = None, nr_parentRegisteredAt = 0, nr_depth = 0, nr_listed = False,
     nr_bump = 255\<rparr>"

definition sample_config :: config where
  "sample_config = \<lparr>cfg_discriminator = CONFIG_DISCRIMINATOR, cfg_admin = sample_address,
     cfg_paymentMint = sample_address, cfg_treasuryTokenAccount = sample_address,
     cfg_price1 = 1000, cfg_price2 = 800, cfg_price3 = 600, cfg_price4 = 400, cfg_price5plus = 200,
     cfg_priceNumeric = 900, cfg_gracePeriodSeconds = 2592000, cfg_minYears = 1, cfg_maxYears = 10,
     cfg_solTreasury = sample_address, cfg_marketplaceFeeBps = 250, cfg_stakingVault = sample_address,
     cfg_burnVault = sample_address, cfg_stakingFeeBps = 1000, cfg_referralFeeBps = 500, cfg_burnFeeBps = 500,
     cfg_solansMint = sample_wallet, cfg_solansRate = 2500000, cfg_solansDiscountBps = 2000,
     cfg_bump = 254\<rparr>"

definition sample_pool :: stakePool where
  "sample_pool = \<lparr>sp_discriminator = STAKE_POOL_DISCRIMINATOR, sp_solansMint = sample_wallet,
     sp_stakeVault = sample_address, sp_rewardVault = sample_address, sp_totalStaked = 100,
     sp_accRewardPerShare = 1000000000000, sp_lastRewardBalance = 100, sp_bump = 253\<rparr>"

definition sample_stake :: stakeAccount where
  "sample_stake = \<lparr>sa_discriminator = STAKE_ACCOUNT_DISCRIMINATOR, sa_owner = sample_wallet,
     sa_amount = 40, sa_rewardDebt = 13, sa_bump = 252\<rparr>"

text \<open>A base58 text of leading ones stands for as many zero bytes.\<close>

lemma dec58_zeros: "foldl (\<lambda>acc c. acc * 58 + index_of c alphabet58) 0 (replicate n 49) = 0"
  by (induction n) (simp_all add: alphabet58_def)

lemma enc58_zeros: "foldl (\<lambda>acc b. acc * 256 + b) 0 (replicate n 0) = (0::nat)"
  by (induction n) simp_all

lemma sample_address_zero [simp]: "is_address_ref sample_address"
  by (simp add: is_address_ref_def dec58_def enc58_def dec58_zeros enc58_zeros sample_address_def
      takeWhile_replicate be_bytes.simps[of 0] digits58.simps[of 0])

lemma sample_wallet_bytes: "dec58 sample_wallet = replicate 31 0 @ [1]"
proof -
  have "index_of 50 alphabet58 = 1" by (simp add: alphabet58_def)
  moreover have "takeWhile (\<lambda>c. c = 49) sample_wallet = replicate 31 49"
    unfolding sample_wallet_def by (subst takeWhile_append2) auto
  ultimately show ?thesis
    by (simp add: dec58_def sample_wallet_def dec58_zeros be_bytes.simps[of "Suc 0"] be_bytes.simps[of 0])
qed

lemma sample_wallet_one [simp]: "is_address_ref sample_wallet"
proof -
  have "takeWhile (\<lambda>b. b = 0) (replicate 31 0 @ [1]) = replicate 31 (0::nat)"
    by (subst takeWhile_append2) auto
  moreover have "map ((!) alphabet58) (digits58 1) = [50]"
    by (simp add: digits58.simps[of "Suc 0"] digits58.simps[of 0] alphabet58_def)
  ultimately show ?thesis
    by (simp add: is_address_ref_def sample_wallet_bytes enc58_def enc58_zeros) (simp add: sample_wallet_def)
qed

lemma text_ok_ascii: "ascii_str s \<and> 0 \<notin> set s \<and> length s < 2 ^ 32 \<Longrightarrow> text_ok s"
  by (auto simp: text_ok_def utf8_ascii scalar_def ascii_str_def list_all_iff)

lemma sample_record_ok: "nameRecord_ok ref_kit sample_record"
  by (simp add: nameRecord_ok_def getNameRecordEncoder_def nameRecord_val_def sample_record_def ref_kit_def
      getRecordEncoder_def srecord_val_def text_ok_ascii ascii_str_def NAME_RECORD_DISCRIMINATOR_def)

lemma sample_config_ok: "config_ok ref_kit sample_config"
  by (simp add: config_ok_def getConfigEncoder_def config_val_def sample_config_def ref_kit_def
      CONFIG_DISCRIMINATOR_def)

lemma sample_pool_ok: "stakePool_ok ref_kit sample_pool"
  by (simp add: stakePool_ok_def getStakePoolEncoder_def stakePool_val_def sample_pool_def ref_kit_def
      STAKE_POOL_DISCRIMINATOR_def)

lemma sample_stake_ok: "stakeAccount_ok ref_kit sample_stake"
  by (simp add: stakeAccount_ok_def getStakeAccountEncoder_def stakeAccount_val_def sample_stake_def ref_kit_def
      STAKE_ACCOUNT_DISCRIMINATOR_def)

lemma sample_stamped [simp]:
  "sample_record\<lparr>nr_discriminator := NAME_RECORD_DISCRIMINATOR\<rparr> = sample_record"
  "sample_config\<lparr>cfg_discriminator := CONFIG_DISCRIMINATOR\<rparr> = sample_config"
  "sample_pool\<lparr>sp_discriminator := STAKE_POOL_DISCRIMINATOR\<rparr> = sample_pool"
  "sample_stake\<lparr>sa_discriminator := STAKE_ACCOUNT_DISCRIMINATOR\<rparr> = sample_stake"
  by (simp_all add: sample_record_def sample_config_def sample_pool_def sample_stake_def)

lemma sample_record_bytes: "\<exists>bs. decodeNameRecord ref_kit bs = Inr sample_record"
  using decodeNameRecord_encode[OF ref_kit_ok sample_record_ok] by auto

lemma sample_config_bytes: "\<exists>bs. decodeConfig ref_kit bs = Inr sample_config"
  using decodeConfig_encode[OF ref_kit_ok sample_config_ok] by auto

lemma sample_pool_bytes: "\<exists>bs. decodeStakePool ref_kit bs = Inr sample_pool"
  using decodeStakePool_encode[OF ref_kit_ok sample_pool_ok] by auto

lemma sample_stake_bytes: "\<exists>bs. decodeStakeAccount ref_kit bs = Inr sample_stake"
  using decodeStakeAccount_encode[OF ref_kit_ok sample_stake_ok] by auto

text \<open>The addresses the concrete kit derives for the singletons and for the sample wallet.\<close>

lemma sample_pdas:
  "findConfigPda ref_kit = Inr (replicate 31 49 @ [53], 255)"
  "findStakePoolPda ref_kit = Inr (replicate 31 49 @ [113], 255)"
  "findStakeAccountPda ref_kit sample_wallet = Inr (replicate 31 49 @ [83], 255)"
  by (simp_all add: findConfigPda_def findStakePoolPda_def findStakeAccountPda_def derive_def ref_kit_def toy_pda_def
      alphabet58_def sample_wallet_bytes sum_list_replicate)

end
