(* ===== verification/Instruction_Core.thy ===== *)
theory Instruction_Core
  imports Accounts
begin

text \<open>
  What the generated instruction files (\<open>clients/ts/src/generated/instructions/*.ts\<close>) share. Each
  builder \<open>getXInstruction(Async)\<close> runs the same steps on its own data: collect the accounts of the
  input (\<open>input.a ?? null\<close>), resolve default values in order, turn the accounts into metas in order,
  encode the arguments with the discriminator stamped. Each \<open>parseXInstruction\<close> checks the number
  of accounts, names them in order (an optional slot that holds the program's address is absent) and
  decodes the data. The steps are defined once here; the builders and parsers of the files below
  apply them to the slots, defaults and codecs the files write. TypeScript objects with named
  fields are functions from field names (\<open>in_account\<close>, \<open>in_arg\<close>) or association lists.

  The lemmas give the round trip of any builder and parser that agree on slots and codec.
\<close>

section \<open>Builders\<close>

record ixInput =
  in_account :: "string \<Rightarrow> acctVal option"
  in_arg :: "string \<Rightarrow> cval option"
  in_programAddress :: "address option"

datatype seed = AcctSeed string | BytesSeed bytes

datatype default_value =
    ConstAddr address
  | ConfigPda
  | NameRecordPda string
  | ReverseRecordPda string
  | StakePoolPda
  | StakeAccountPda string
  | MetadataPda string string
  | MasterEditionPda string string
  | Derived address "seed list"

text \<open>\<open>generated/pdas/metadata.ts\<close> and \<open>masterEdition.ts\<close>, called with an explicit program address.\<close>

definition derive_for :: "kit \<Rightarrow> address \<Rightarrow> (codec \<times> cval) list \<Rightarrow> (address \<times> int) res" where
  "derive_for K programAddress seeds =
     bind_res (encode_seeds K seeds) (getProgramDerivedAddress K programAddress)"

definition findMetadataPda :: "kit \<Rightarrow> address \<Rightarrow> address \<Rightarrow> address \<Rightarrow> (address \<times> int) res" where
  "findMetadataPda K metadataProgram mint programAddress =
     derive_for K programAddress
       [(BytesC, VBytes [109, 101, 116, 97, 100, 97, 116, 97]), (AddressC, VAddr metadataProgram),
        (AddressC, VAddr mint)]"

definition findMasterEditionPda :: "kit \<Rightarrow> address \<Rightarrow> address \<Rightarrow> address \<Rightarrow> (address \<times> int) res" where
  "findMasterEditionPda K metadataProgram mint programAddress =
     derive_for K programAddress
       [(BytesC, VBytes [109, 101, 116, 97, 100, 97, 116, 97]), (AddressC, VAddr metadataProgram),
        (AddressC, VAddr mint), (BytesC, VBytes [101, 100, 105, 116, 105, 111, 110])]"

definition SYSTEM_PROGRAM :: address where "SYSTEM_PROGRAM = js ''11111111111111111111111111111111''"
definition TOKEN_PROGRAM :: address where "TOKEN_PROGRAM = js ''TokenkegQfeZyiNwAJbNbGKPFXCWuBvf9Ss623VQ5DA''"
definition ASSOCIATED_TOKEN_PROGRAM :: address where
  "ASSOCIATED_TOKEN_PROGRAM = js ''ATokenGPvbdGVxr1b2hvZbsiqW5xWH25efTNsLJA8knL''"
definition METADATA_PROGRAM :: address where
  "METADATA_PROGRAM = js ''metaqbxxUerdq28cj1RbAWkYQm3ybzjb6a8bt518x1s''"
definition RENT_SYSVAR :: address where "RENT_SYSVAR = js ''SysvarRent111111111111111111111111111111111''"

type_synonym acct_env = "string \<Rightarrow> acctVal option"

definition missing_input :: js_error where
  "missing_input = JsError (js ''resolved instruction input must be non-null'')"

text \<open>\<open>getAddressFromResolvedInstructionAccount\<close>, \<open>getNonNullResolvedInstructionInput\<close>.\<close>

definition env_address :: "acct_env \<Rightarrow> string \<Rightarrow> address res" where
  "env_address env a = (case env a of None \<Rightarrow> Inl missing_input | Some v \<Rightarrow> Inr (val_address v))"

definition arg_bytes :: "ixInput \<Rightarrow> string \<Rightarrow> bytes res" where
  "arg_bytes inp a = (case in_arg inp a of Some (VBytes b) \<Rightarrow> Inr b | _ \<Rightarrow> Inl missing_input)"

definition pda_val :: "(address \<times> int) res \<Rightarrow> acctVal res" where
  "pda_val r = bind_res r (\<lambda>(a, b). Inr (PdaI a b))"

fun seed_codecs :: "acct_env \<Rightarrow> seed list \<Rightarrow> (codec \<times> cval) list res" where
  "seed_codecs env [] = Inr []"
| "seed_codecs env (AcctSeed a # ss) =
     bind_res (env_address env a) (\<lambda>x. bind_res (seed_codecs env ss) (\<lambda>r. Inr ((AddressC, VAddr x) # r)))"
| "seed_codecs env (BytesSeed b # ss) =
     bind_res (seed_codecs env ss) (\<lambda>r. Inr ((BytesC, VBytes b) # r))"

fun resolve_default :: "kit \<Rightarrow> ixInput \<Rightarrow> acct_env \<Rightarrow> default_value \<Rightarrow> acctVal res" where
  "resolve_default K inp env (ConstAddr a) = Inr (AddrI a)"
| "resolve_default K inp env ConfigPda = pda_val (findConfigPda K)"
| "resolve_default K inp env (NameRecordPda arg) =
     bind_res (arg_bytes inp arg) (\<lambda>h. pda_val (findNameRecordPda K h))"
| "resolve_default K inp env (ReverseRecordPda a) =
     bind_res (env_address env a) (\<lambda>x. pda_val (findReverseRecordPda K x))"
| "resolve_default K inp env StakePoolPda = pda_val (findStakePoolPda K)"
| "resolve_default K inp env (StakeAccountPda a) =
     bind_res (env_address env a) (\<lambda>x. pda_val (findStakeAccountPda K x))"
| "resolve_default K inp env (MetadataPda p m) =
     bind_res (env_address env p) (\<lambda>prog. bind_res (env_address env m) (\<lambda>mint.
       pda_val (findMetadataPda K prog mint prog)))"
| "resolve_default K inp env (MasterEditionPda p m) =
     bind_res (env_address env p) (\<lambda>prog. bind_res (env_address env m) (\<lambda>mint.
       pda_val (findMasterEditionPda K prog mint prog)))"
| "resolve_default K inp env (Derived prog seeds) =
     bind_res (seed_codecs env seeds) (\<lambda>ss. pda_val (derive_for K prog ss))"

text \<open>\<open>if (!accounts.a.value) accounts.a.value = ..\<close>, one after the other. An empty address string
  is falsy.\<close>

definition absent :: "acctVal option \<Rightarrow> bool" where
  "absent v \<longleftrightarrow> v = None \<or> v = Some (AddrI [])"

fun resolve_defaults ::
  "kit \<Rightarrow> ixInput \<Rightarrow> (string \<times> default_value) list \<Rightarrow> acct_env \<Rightarrow> acct_env res" where
  "resolve_defaults K inp [] env = Inr env"
| "resolve_defaults K inp ((a, d) # ds) env =
     (if absent (env a)
      then bind_res (resolve_default K inp env d) (\<lambda>v. resolve_defaults K inp ds (env(a \<mapsto> v)))
      else resolve_defaults K inp ds env)"

text \<open>The arguments the struct encoder reads, in field order, behind the stamped discriminator.\<close>

fun pick_args :: "(string \<times> codec) list \<Rightarrow> (string \<Rightarrow> cval option) \<Rightarrow> (string \<times> cval) list res" where
  "pick_args [] args = Inr []"
| "pick_args ((f, c) # fs) args =
     (case args f of
        None \<Rightarrow> Inl codec_error
      | Some v \<Rightarrow> bind_res (pick_args fs args) (\<lambda>vs. Inr ((f, v) # vs)))"

fun arg_fields :: "codec \<Rightarrow> (string \<times> codec) list" where
  "arg_fields (StructC fs) = tl fs"
| "arg_fields c = []"

definition encode_data :: "kit \<Rightarrow> codec \<Rightarrow> bytes \<Rightarrow> (string \<Rightarrow> cval option) \<Rightarrow> bytes res" where
  "encode_data K encoder disc args =
     bind_res (pick_args (arg_fields encoder) args) (\<lambda>vs.
       encode K encoder (VStruct ((''discriminator'', VBytes disc) # vs)))"

type_synonym slots = "(string \<times> bool) list"

definition build_ix ::
  "kit \<Rightarrow> slots \<Rightarrow> (string \<times> default_value) list \<Rightarrow> codec \<Rightarrow> bytes \<Rightarrow> ixInput \<Rightarrow> instruction res" where
  "build_ix K slots defaults encoder disc inp =
     (let programAddress = (case in_programAddress inp of None \<Rightarrow> SOLANS_PROGRAM_ADDRESS | Some p \<Rightarrow> p) in
      bind_res (resolve_defaults K inp defaults (in_account inp)) (\<lambda>env.
        let accounts = map (\<lambda>(a, w). getAccountMeta K programAddress a (env a) w) slots in
        bind_res (encode_data K encoder disc (in_arg inp)) (\<lambda>data.
          Inr \<lparr>ix_programAddress = programAddress, ix_accounts = accounts, ix_data = data\<rparr>)))"

section \<open>Parsers\<close>

record parsedIx =
  px_programAddress :: address
  px_accounts :: "(string \<times> accountMeta option) list"
  px_data :: cval

definition insufficient_metas :: js_error where
  "insufficient_metas = JsError (js ''SOLANA_ERROR__PROGRAM_CLIENTS__INSUFFICIENT_ACCOUNT_METAS'')"

text \<open>The run of \<open>getNextAccount()\<close> and \<open>getNextOptionalAccount()\<close> calls; the flag marks optional slots.\<close>

fun next_accounts :: "(string \<times> bool) list \<Rightarrow> accountMeta list \<Rightarrow> (string \<times> accountMeta option) list" where
  "next_accounts ((a, opt) # ss) (m # ms) =
     (a, if opt \<and> am_address m = SOLANS_PROGRAM_ADDRESS then None else Some m) # next_accounts ss ms"
| "next_accounts ss ms = []"

definition parse_ix :: "kit \<Rightarrow> nat \<Rightarrow> (string \<times> bool) list \<Rightarrow> codec \<Rightarrow> instruction \<Rightarrow> parsedIx res" where
  "parse_ix K n names decoder ix =
     (if length (ix_accounts ix) < n then Inl insufficient_metas
      else bind_res (decode K decoder (ix_data ix)) (\<lambda>data.
        Inr \<lparr>px_programAddress = ix_programAddress ix, px_accounts = next_accounts names (ix_accounts ix),
             px_data = data\<rparr>))"

text \<open>\<open>p.accounts.a.address\<close> of a required account.\<close>

definition px_address :: "parsedIx \<Rightarrow> string \<Rightarrow> address" where
  "px_address p a = (case map_of (px_accounts p) a of Some (Some m) \<Rightarrow> am_address m | _ \<Rightarrow> [])"

section \<open>Specification of an instruction's layout\<close>

text \<open>What a builder and a parser of one file must agree on.\<close>

definition layout_ok :: "slots \<Rightarrow> codec \<Rightarrow> bytes \<Rightarrow> nat \<Rightarrow> (string \<times> bool) list \<Rightarrow> codec \<Rightarrow> bool" where
  "layout_ok slots encoder disc n names decoder \<longleftrightarrow>
     decoder = encoder \<and> length disc = 8 \<and> n = length slots \<and> map fst slots = map fst names \<and>
     distinct (map fst slots) \<and> encoder = StructC ((''discriminator'', FixSizeC BytesC 8) # arg_fields encoder)"

text \<open>A builder and a parser of one instruction: both are the generic code on one layout.\<close>

definition coherent ::
  "(kit \<Rightarrow> ixInput \<Rightarrow> instruction res) \<Rightarrow> (kit \<Rightarrow> instruction \<Rightarrow> parsedIx res) \<Rightarrow> codec \<Rightarrow> bytes \<Rightarrow>
   string list \<Rightarrow> bool" where
  "coherent build parse encoder disc required \<longleftrightarrow>
     (\<exists>slots defaults n names decoder. (\<forall>K. build K = build_ix K slots defaults encoder disc) \<and>
        (\<forall>K. parse K = parse_ix K n names decoder) \<and> layout_ok slots encoder disc n names decoder \<and>
        required = map fst (filter (\<lambda>(a, opt). \<not> opt) names))"

text \<open>The arguments of an input fit the encoder.\<close>

definition args_ok :: "kit \<Rightarrow> codec \<Rightarrow> ixInput \<Rightarrow> bool" where
  "args_ok K encoder inp \<longleftrightarrow>
     (case pick_args (arg_fields encoder) (in_arg inp) of
        Inl e \<Rightarrow> False | Inr vs \<Rightarrow> wt_fields (isAddress K) (arg_fields encoder) vs)"

section \<open>The round trip\<close>

lemma pick_args_map_of:
  "pick_args fs args = Inr vs \<Longrightarrow> map fst vs = map fst fs \<and> (\<forall>f v. map_of vs f = Some v \<longrightarrow> args f = Some v)"
proof (induction fs arbitrary: vs)
  case (Cons fc fs)
  then show ?case by (cases fc) (auto simp: res_simps split: option.splits if_splits)
qed simp

lemma resolve_defaults_keeps:
  "resolve_defaults K inp ds env = Inr env' \<Longrightarrow> \<not> absent (env a) \<Longrightarrow> env' a = env a"
proof (induction ds arbitrary: env)
  case (Cons d ds)
  obtain b x where d: "d = (b, x)" by (cases d)
  show ?case
  proof (cases "absent (env b)")
    case True
    then obtain v where "resolve_defaults K inp ds (env(b \<mapsto> v)) = Inr env'"
      using Cons.prems(1) by (auto simp: d res_simps)
    moreover have "(env(b \<mapsto> v)) a = env a" using True Cons.prems(2) by auto
    ultimately show ?thesis using Cons.IH Cons.prems(2) by metis
  next
    case False
    with Cons show ?thesis by (simp add: d)
  qed
qed simp

lemma resolve_defaults_other:
  "resolve_defaults K inp ds env = Inr env' \<Longrightarrow> a \<notin> fst ` set ds \<Longrightarrow> env' a = env a"
proof (induction ds arbitrary: env)
  case (Cons d ds)
  then show ?case by (cases d) (auto simp: res_simps split: if_splits)
qed simp

text \<open>A record account that the caller leaves out is derived from the hash argument.\<close>

lemma resolve_defaults_record:
  assumes "resolve_defaults K inp ds env = Inr env'" "distinct (map fst ds)" "(a, NameRecordPda f) \<in> set ds"
    "env a = None" "in_arg inp f = Some (VBytes h)" "findNameRecordPda K h = Inr (rec, bump)"
  shows "env' a = Some (PdaI rec bump)"
  using assms
proof (induction ds arbitrary: env)
  case (Cons d ds)
  obtain b x where d: "d = (b, x)" by (cases d)
  show ?case
  proof (cases "a = b")
    case True
    then have "x = NameRecordPda f" using Cons.prems(2,3) by (auto simp: d rev_image_eqI)
    then have r: "resolve_defaults K inp ds (env(a \<mapsto> PdaI rec bump)) = Inr env'"
      using Cons.prems True by (auto simp: d absent_def arg_bytes_def pda_val_def)
    show ?thesis using resolve_defaults_keeps[OF r, of a] by (simp add: absent_def)
  next
    case False
    then obtain env1 where "resolve_defaults K inp ds env1 = Inr env'" "env1 a = None"
      using Cons.prems(1,4) by (auto simp: d res_simps split: if_splits)
    with Cons.IH Cons.prems False show ?thesis by (auto simp: d)
  qed
qed simp

lemma next_accounts_lookup:
  assumes "map fst slots = map fst names" "distinct (map fst slots)" "(a, w) \<in> set slots"
    "am_address (f a w) \<noteq> SOLANS_PROGRAM_ADDRESS \<or> (a, False) \<in> set names"
  shows "map_of (next_accounts names (map (\<lambda>(a, w). f a w) slots)) a = Some (Some (f a w))"
  using assms
proof (induction slots arbitrary: names)
  case (Cons s slots)
  obtain b v where s: "s = (b, v)" by (cases s)
  obtain opt names' where n: "names = (b, opt) # names'" using Cons.prems(1) by (cases names) (auto simp: s)
  have nin: "b \<notin> fst ` set names'"
    using Cons.prems(1,2) by (simp add: s n)
  show ?case
  proof (cases "a = b")
    case True
    then have "w = v" using Cons.prems(2,3) by (auto simp: s rev_image_eqI)
    with True Cons.prems(4) nin show ?thesis by (auto simp: s n rev_image_eqI)
  next
    case False
    with Cons show ?thesis by (auto simp: s n)
  qed
qed simp

lemma build_parse:
  assumes K: "kit_ok K" and L: "layout_ok slots encoder disc n names decoder"
    and A: "args_ok K encoder inp" and P: "in_programAddress inp = None"
    and B: "build_ix K slots defaults encoder disc inp = Inr ix"
  shows "\<exists>p rest. parse_ix K n names decoder ix = Inr p \<and> ix_data ix = disc @ rest \<and>
    ix_programAddress ix = SOLANS_PROGRAM_ADDRESS \<and>
    (\<forall>f \<in> set (map fst (arg_fields encoder)). f \<noteq> ''discriminator'' \<longrightarrow> in_arg inp f = Some (fld f (px_data p))) \<and>
    (\<exists>env. resolve_defaults K inp defaults (in_account inp) = Inr env \<and>
       (\<forall>a v. env a = Some v \<and> (a, False) \<in> set names \<longrightarrow> px_address p a = val_address v))"
proof -
  have C: "kit_codecs (encode K) (read K) (isAddress K)" using K by (rule kit_ok_codecs)
  obtain vs where vs: "pick_args (arg_fields encoder) (in_arg inp) = Inr vs"
    "wt_fields (isAddress K) (arg_fields encoder) vs" using A by (auto simp: args_ok_def split: sum.splits)
  let ?v = "VStruct ((''discriminator'', VBytes disc) # vs)"
  have enc: "encoder = StructC ((''discriminator'', FixSizeC BytesC 8) # arg_fields encoder)"
    using L by (simp add: layout_ok_def)
  have S: "map fst slots = map fst names" "distinct (map fst slots)" using L unfolding layout_ok_def by blast+
  have len: "length disc = 8" using L by (simp add: layout_ok_def)
  have w: "wt (isAddress K) (StructC ((''discriminator'', FixSizeC BytesC 8) # arg_fields encoder)) ?v"
    using vs(2) len by simp
  obtain env data where env: "resolve_defaults K inp defaults (in_account inp) = Inr env"
    and data: "encode K encoder ?v = Inr data"
    and ix: "ix = \<lparr>ix_programAddress = SOLANS_PROGRAM_ADDRESS,
      ix_accounts = map (\<lambda>(a, w). getAccountMeta K SOLANS_PROGRAM_ADDRESS a (env a) w) slots, ix_data = data\<rparr>"
    using B P vs(1) by (auto simp: build_ix_def encode_data_def res_simps)
  obtain rest where rest: "data = disc @ rest"
    using kit_codecs.struct_prefix[OF C w] data enc by auto
  have "\<forall>rest. read K encoder (data @ rest) = Inr (?v, rest)"
    using kit_codecs.roundtrip[OF C w] data enc by auto
  then have "read K encoder (data @ []) = Inr (?v, [])" by blast
  then have dec: "decode K decoder data = Inr ?v" using L by (simp add: decode_def layout_ok_def)
  let ?p = "\<lparr>px_programAddress = SOLANS_PROGRAM_ADDRESS,
    px_accounts = next_accounts names (ix_accounts ix), px_data = ?v\<rparr>"
  have "parse_ix K n names decoder ix = Inr ?p"
    using L dec by (simp add: parse_ix_def ix layout_ok_def)
  moreover have "in_arg inp f = Some (fld f ?v)"
    if "f \<in> set (map fst (arg_fields encoder))" "f \<noteq> ''discriminator''" for f
  proof -
    have "f \<in> set (map fst vs)" using that pick_args_map_of[OF vs(1)] by metis
    then obtain x where "map_of vs f = Some x" by (metis image_set map_of_eq_None_iff option.exhaust)
    with that(2) pick_args_map_of[OF vs(1)] show ?thesis by auto
  qed
  moreover have "px_address ?p a = val_address v"
    if e: "env a = Some v" and n: "(a, False) \<in> set names" for a v
  proof -
    have "a \<in> set (map fst names)" using n by force
    then have "a \<in> set (map fst slots)" using S(1) by metis
    then obtain w' where "(a, w') \<in> set slots" by auto
    then have "map_of (next_accounts names (ix_accounts ix)) a =
        Some (Some (getAccountMeta K SOLANS_PROGRAM_ADDRESS a (env a) w'))"
      using next_accounts_lookup[OF S, of a w' "\<lambda>a w. getAccountMeta K SOLANS_PROGRAM_ADDRESS a (env a) w"]
        n by (simp add: ix)
    with e K show ?thesis by (simp add: px_address_def kit_ok_def meta_ref_def)
  qed
  ultimately show ?thesis using rest env by (intro exI[of _ ?p] exI[of _ rest]) (simp add: ix)
qed

lemma coherent_roundtrip:
  assumes "kit_ok K" "coherent build parse encoder disc required" "args_ok K encoder inp"
    "in_programAddress inp = None" "build K inp = Inr ix"
  shows "\<exists>p rest. parse K ix = Inr p \<and> ix_data ix = disc @ rest \<and>
    ix_programAddress ix = SOLANS_PROGRAM_ADDRESS \<and>
    (\<forall>f \<in> set (map fst (arg_fields encoder)). f \<noteq> ''discriminator'' \<longrightarrow> in_arg inp f = Some (fld f (px_data p))) \<and>
    (\<forall>a \<in> set required. \<forall>v. in_account inp a = Some v \<and> \<not> absent (Some v) \<longrightarrow> px_address p a = val_address v)"
proof -
  obtain slots defaults n names decoder where b: "build K = build_ix K slots defaults encoder disc"
    and p: "parse K = parse_ix K n names decoder" and L: "layout_ok slots encoder disc n names decoder"
    and r: "required = map fst (filter (\<lambda>(a, opt). \<not> opt) names)"
    using assms(2) unfolding coherent_def by blast
  have "build_ix K slots defaults encoder disc inp = Inr ix" using assms(5) by (simp add: b)
  from build_parse[OF assms(1) L assms(3,4) this] obtain q rest env where
    q: "parse_ix K n names decoder ix = Inr q" "ix_data ix = disc @ rest"
      "ix_programAddress ix = SOLANS_PROGRAM_ADDRESS"
      "\<forall>f \<in> set (map fst (arg_fields encoder)). f \<noteq> ''discriminator'' \<longrightarrow> in_arg inp f = Some (fld f (px_data q))"
    and env: "resolve_defaults K inp defaults (in_account inp) = Inr env"
      "\<forall>a v. env a = Some v \<and> (a, False) \<in> set names \<longrightarrow> px_address q a = val_address v" by blast
  have "px_address q a = val_address v"
    if "a \<in> set required" "in_account inp a = Some v" "\<not> absent (Some v)" for a v
  proof -
    have "env a = Some v" using resolve_defaults_keeps[OF env(1)] that(2,3) by metis
    with env(2) that(1) show ?thesis by (auto simp: r)
  qed
  with q show ?thesis by (intro exI[of _ q] exI[of _ rest]) (simp add: p)
qed

end
