(* ===== verification/Name_Instructions.thy ===== *)
theory Name_Instructions
  imports Instruction_Core
begin

text \<open>
  The generated instruction files of the life of a name (registration, renewal, transfer, records, subdomains, tokenization), under
  \<open>clients/ts/src/generated/instructions/\<close>: per file the discriminator, the data encoder and decoder,
  the builders and the parser, as applications of the shared code of \<open>Instruction_Core\<close> to the slots
  (account name, is it writable), default values and codecs the file writes. The \<open>coherent\<close> lemmas show
  that a file's builders and parser agree.
\<close>

section \<open>Definitions\<close>

subsection \<open>registerName.ts\<close>

definition REGISTER_NAME_DISCRIMINATOR :: bytes where
  "REGISTER_NAME_DISCRIMINATOR = [101, 120, 221, 151, 68, 123, 191, 103]"

definition getRegisterNameInstructionDataEncoder :: codec where
  "getRegisterNameInstructionDataEncoder = StructC [
     (''discriminator'', FixSizeC BytesC 8), (''name'', SizePrefixC Utf8C U32C),
      (''tld'', SizePrefixC Utf8C U32C), (''nameHash'', FixSizeC BytesC 32), (''years'', U16C)]"

definition getRegisterNameInstructionDataDecoder :: codec where
  "getRegisterNameInstructionDataDecoder = StructC [
     (''discriminator'', FixSizeC BytesC 8), (''name'', SizePrefixC Utf8C U32C),
      (''tld'', SizePrefixC Utf8C U32C), (''nameHash'', FixSizeC BytesC 32), (''years'', U16C)]"

definition getRegisterNameInstructionAsync :: "kit \<Rightarrow> ixInput \<Rightarrow> instruction res" where
  "getRegisterNameInstructionAsync K = build_ix K
     [(''payer'', True), (''owner'', False), (''config'', False), (''nameRecord'', True),
      (''payerTokenAccount'', True), (''treasuryTokenAccount'', True), (''stakingVault'', True),
      (''burnVault'', True), (''referralTokenAccount'', True), (''paymentMint'', False),
      (''tokenProgram'', False), (''systemProgram'', False)]
     [(''config'', ConfigPda), (''nameRecord'', NameRecordPda ''nameHash''),
      (''tokenProgram'', ConstAddr TOKEN_PROGRAM), (''systemProgram'', ConstAddr SYSTEM_PROGRAM)]
     getRegisterNameInstructionDataEncoder REGISTER_NAME_DISCRIMINATOR"

definition getRegisterNameInstruction :: "kit \<Rightarrow> ixInput \<Rightarrow> instruction res" where
  "getRegisterNameInstruction K = build_ix K
     [(''payer'', True), (''owner'', False), (''config'', False), (''nameRecord'', True),
      (''payerTokenAccount'', True), (''treasuryTokenAccount'', True), (''stakingVault'', True),
      (''burnVault'', True), (''referralTokenAccount'', True), (''paymentMint'', False),
      (''tokenProgram'', False), (''systemProgram'', False)]
     [(''tokenProgram'', ConstAddr TOKEN_PROGRAM), (''systemProgram'', ConstAddr SYSTEM_PROGRAM)]
     getRegisterNameInstructionDataEncoder REGISTER_NAME_DISCRIMINATOR"

definition parseRegisterNameInstruction :: "kit \<Rightarrow> instruction \<Rightarrow> parsedIx res" where
  "parseRegisterNameInstruction K = parse_ix K 12
     [(''payer'', False), (''owner'', False), (''config'', False), (''nameRecord'', False),
      (''payerTokenAccount'', False), (''treasuryTokenAccount'', False), (''stakingVault'', False),
      (''burnVault'', False), (''referralTokenAccount'', True), (''paymentMint'', False),
      (''tokenProgram'', False), (''systemProgram'', False)]
     getRegisterNameInstructionDataDecoder"

subsection \<open>registerWithSolans.ts\<close>

definition REGISTER_WITH_SOLANS_DISCRIMINATOR :: bytes where
  "REGISTER_WITH_SOLANS_DISCRIMINATOR = [16, 245, 158, 68, 101, 91, 138, 215]"

definition getRegisterWithSolansInstructionDataEncoder :: codec where
  "getRegisterWithSolansInstructionDataEncoder = StructC [
     (''discriminator'', FixSizeC BytesC 8), (''name'', SizePrefixC Utf8C U32C),
      (''tld'', SizePrefixC Utf8C U32C), (''nameHash'', FixSizeC BytesC 32), (''years'', U16C)]"

definition getRegisterWithSolansInstructionDataDecoder :: codec where
  "getRegisterWithSolansInstructionDataDecoder = StructC [
     (''discriminator'', FixSizeC BytesC 8), (''name'', SizePrefixC Utf8C U32C),
      (''tld'', SizePrefixC Utf8C U32C), (''nameHash'', FixSizeC BytesC 32), (''years'', U16C)]"

definition getRegisterWithSolansInstructionAsync :: "kit \<Rightarrow> ixInput \<Rightarrow> instruction res" where
  "getRegisterWithSolansInstructionAsync K = build_ix K
     [(''payer'', True), (''owner'', False), (''config'', False), (''nameRecord'', True),
      (''payerSolansAccount'', True), (''solansMint'', True), (''tokenProgram'', False),
      (''systemProgram'', False)]
     [(''config'', ConfigPda), (''nameRecord'', NameRecordPda ''nameHash''),
      (''tokenProgram'', ConstAddr TOKEN_PROGRAM), (''systemProgram'', ConstAddr SYSTEM_PROGRAM)]
     getRegisterWithSolansInstructionDataEncoder REGISTER_WITH_SOLANS_DISCRIMINATOR"

definition getRegisterWithSolansInstruction :: "kit \<Rightarrow> ixInput \<Rightarrow> instruction res" where
  "getRegisterWithSolansInstruction K = build_ix K
     [(''payer'', True), (''owner'', False), (''config'', False), (''nameRecord'', True),
      (''payerSolansAccount'', True), (''solansMint'', True), (''tokenProgram'', False),
      (''systemProgram'', False)]
     [(''tokenProgram'', ConstAddr TOKEN_PROGRAM), (''systemProgram'', ConstAddr SYSTEM_PROGRAM)]
     getRegisterWithSolansInstructionDataEncoder REGISTER_WITH_SOLANS_DISCRIMINATOR"

definition parseRegisterWithSolansInstruction :: "kit \<Rightarrow> instruction \<Rightarrow> parsedIx res" where
  "parseRegisterWithSolansInstruction K = parse_ix K 8
     [(''payer'', False), (''owner'', False), (''config'', False), (''nameRecord'', False),
      (''payerSolansAccount'', False), (''solansMint'', False), (''tokenProgram'', False),
      (''systemProgram'', False)]
     getRegisterWithSolansInstructionDataDecoder"

subsection \<open>renewName.ts\<close>

definition RENEW_NAME_DISCRIMINATOR :: bytes where
  "RENEW_NAME_DISCRIMINATOR = [236, 176, 53, 141, 135, 23, 77, 87]"

definition getRenewNameInstructionDataEncoder :: codec where
  "getRenewNameInstructionDataEncoder = StructC [
     (''discriminator'', FixSizeC BytesC 8), (''name'', SizePrefixC Utf8C U32C),
      (''tld'', SizePrefixC Utf8C U32C), (''years'', U16C)]"

definition getRenewNameInstructionDataDecoder :: codec where
  "getRenewNameInstructionDataDecoder = StructC [
     (''discriminator'', FixSizeC BytesC 8), (''name'', SizePrefixC Utf8C U32C),
      (''tld'', SizePrefixC Utf8C U32C), (''years'', U16C)]"

definition getRenewNameInstructionAsync :: "kit \<Rightarrow> ixInput \<Rightarrow> instruction res" where
  "getRenewNameInstructionAsync K = build_ix K
     [(''payer'', True), (''config'', False), (''nameRecord'', True),
      (''payerTokenAccount'', True), (''treasuryTokenAccount'', True), (''stakingVault'', True),
      (''burnVault'', True), (''referralTokenAccount'', True), (''paymentMint'', False),
      (''tokenProgram'', False)]
     [(''config'', ConfigPda), (''tokenProgram'', ConstAddr TOKEN_PROGRAM)]
     getRenewNameInstructionDataEncoder RENEW_NAME_DISCRIMINATOR"

definition getRenewNameInstruction :: "kit \<Rightarrow> ixInput \<Rightarrow> instruction res" where
  "getRenewNameInstruction K = build_ix K
     [(''payer'', True), (''config'', False), (''nameRecord'', True),
      (''payerTokenAccount'', True), (''treasuryTokenAccount'', True), (''stakingVault'', True),
      (''burnVault'', True), (''referralTokenAccount'', True), (''paymentMint'', False),
      (''tokenProgram'', False)]
     [(''tokenProgram'', ConstAddr TOKEN_PROGRAM)]
     getRenewNameInstructionDataEncoder RENEW_NAME_DISCRIMINATOR"

definition parseRenewNameInstruction :: "kit \<Rightarrow> instruction \<Rightarrow> parsedIx res" where
  "parseRenewNameInstruction K = parse_ix K 10
     [(''payer'', False), (''config'', False), (''nameRecord'', False),
      (''payerTokenAccount'', False), (''treasuryTokenAccount'', False), (''stakingVault'', False),
      (''burnVault'', False), (''referralTokenAccount'', True), (''paymentMint'', False),
      (''tokenProgram'', False)]
     getRenewNameInstructionDataDecoder"

subsection \<open>renewWithSolans.ts\<close>

definition RENEW_WITH_SOLANS_DISCRIMINATOR :: bytes where
  "RENEW_WITH_SOLANS_DISCRIMINATOR = [216, 153, 16, 43, 181, 31, 35, 80]"

definition getRenewWithSolansInstructionDataEncoder :: codec where
  "getRenewWithSolansInstructionDataEncoder = StructC [
     (''discriminator'', FixSizeC BytesC 8), (''name'', SizePrefixC Utf8C U32C),
      (''tld'', SizePrefixC Utf8C U32C), (''years'', U16C)]"

definition getRenewWithSolansInstructionDataDecoder :: codec where
  "getRenewWithSolansInstructionDataDecoder = StructC [
     (''discriminator'', FixSizeC BytesC 8), (''name'', SizePrefixC Utf8C U32C),
      (''tld'', SizePrefixC Utf8C U32C), (''years'', U16C)]"

definition getRenewWithSolansInstructionAsync :: "kit \<Rightarrow> ixInput \<Rightarrow> instruction res" where
  "getRenewWithSolansInstructionAsync K = build_ix K
     [(''payer'', True), (''config'', False), (''nameRecord'', True),
      (''payerSolansAccount'', True), (''solansMint'', True), (''tokenProgram'', False)]
     [(''config'', ConfigPda), (''tokenProgram'', ConstAddr TOKEN_PROGRAM)]
     getRenewWithSolansInstructionDataEncoder RENEW_WITH_SOLANS_DISCRIMINATOR"

definition getRenewWithSolansInstruction :: "kit \<Rightarrow> ixInput \<Rightarrow> instruction res" where
  "getRenewWithSolansInstruction K = build_ix K
     [(''payer'', True), (''config'', False), (''nameRecord'', True),
      (''payerSolansAccount'', True), (''solansMint'', True), (''tokenProgram'', False)]
     [(''tokenProgram'', ConstAddr TOKEN_PROGRAM)]
     getRenewWithSolansInstructionDataEncoder RENEW_WITH_SOLANS_DISCRIMINATOR"

definition parseRenewWithSolansInstruction :: "kit \<Rightarrow> instruction \<Rightarrow> parsedIx res" where
  "parseRenewWithSolansInstruction K = parse_ix K 6
     [(''payer'', False), (''config'', False), (''nameRecord'', False),
      (''payerSolansAccount'', False), (''solansMint'', False), (''tokenProgram'', False)]
     getRenewWithSolansInstructionDataDecoder"

subsection \<open>autoRenew.ts\<close>

definition AUTO_RENEW_DISCRIMINATOR :: bytes where
  "AUTO_RENEW_DISCRIMINATOR = [95, 201, 47, 51, 62, 31, 63, 37]"

definition getAutoRenewInstructionDataEncoder :: codec where
  "getAutoRenewInstructionDataEncoder = StructC [
     (''discriminator'', FixSizeC BytesC 8), (''name'', SizePrefixC Utf8C U32C),
      (''tld'', SizePrefixC Utf8C U32C), (''years'', U16C)]"

definition getAutoRenewInstructionDataDecoder :: codec where
  "getAutoRenewInstructionDataDecoder = StructC [
     (''discriminator'', FixSizeC BytesC 8), (''name'', SizePrefixC Utf8C U32C),
      (''tld'', SizePrefixC Utf8C U32C), (''years'', U16C)]"

definition getAutoRenewInstructionAsync :: "kit \<Rightarrow> ixInput \<Rightarrow> instruction res" where
  "getAutoRenewInstructionAsync K = build_ix K
     [(''keeper'', True), (''config'', False), (''nameRecord'', True),
      (''ownerTokenAccount'', True), (''treasuryTokenAccount'', True), (''stakingVault'', True),
      (''burnVault'', True), (''paymentMint'', False), (''tokenProgram'', False)]
     [(''config'', ConfigPda), (''tokenProgram'', ConstAddr TOKEN_PROGRAM)]
     getAutoRenewInstructionDataEncoder AUTO_RENEW_DISCRIMINATOR"

definition getAutoRenewInstruction :: "kit \<Rightarrow> ixInput \<Rightarrow> instruction res" where
  "getAutoRenewInstruction K = build_ix K
     [(''keeper'', True), (''config'', False), (''nameRecord'', True),
      (''ownerTokenAccount'', True), (''treasuryTokenAccount'', True), (''stakingVault'', True),
      (''burnVault'', True), (''paymentMint'', False), (''tokenProgram'', False)]
     [(''tokenProgram'', ConstAddr TOKEN_PROGRAM)]
     getAutoRenewInstructionDataEncoder AUTO_RENEW_DISCRIMINATOR"

definition parseAutoRenewInstruction :: "kit \<Rightarrow> instruction \<Rightarrow> parsedIx res" where
  "parseAutoRenewInstruction K = parse_ix K 9
     [(''keeper'', False), (''config'', False), (''nameRecord'', False),
      (''ownerTokenAccount'', False), (''treasuryTokenAccount'', False), (''stakingVault'', False),
      (''burnVault'', False), (''paymentMint'', False), (''tokenProgram'', False)]
     getAutoRenewInstructionDataDecoder"

subsection \<open>claimExpired.ts\<close>

definition CLAIM_EXPIRED_DISCRIMINATOR :: bytes where
  "CLAIM_EXPIRED_DISCRIMINATOR = [124, 78, 197, 187, 210, 66, 255, 1]"

definition getClaimExpiredInstructionDataEncoder :: codec where
  "getClaimExpiredInstructionDataEncoder = StructC [
     (''discriminator'', FixSizeC BytesC 8), (''name'', SizePrefixC Utf8C U32C),
      (''tld'', SizePrefixC Utf8C U32C), (''years'', U16C)]"

definition getClaimExpiredInstructionDataDecoder :: codec where
  "getClaimExpiredInstructionDataDecoder = StructC [
     (''discriminator'', FixSizeC BytesC 8), (''name'', SizePrefixC Utf8C U32C),
      (''tld'', SizePrefixC Utf8C U32C), (''years'', U16C)]"

definition getClaimExpiredInstructionAsync :: "kit \<Rightarrow> ixInput \<Rightarrow> instruction res" where
  "getClaimExpiredInstructionAsync K = build_ix K
     [(''claimer'', True), (''config'', False), (''nameRecord'', True),
      (''payerTokenAccount'', True), (''treasuryTokenAccount'', True), (''stakingVault'', True),
      (''burnVault'', True), (''referralTokenAccount'', True), (''paymentMint'', False),
      (''tokenProgram'', False)]
     [(''config'', ConfigPda), (''tokenProgram'', ConstAddr TOKEN_PROGRAM)]
     getClaimExpiredInstructionDataEncoder CLAIM_EXPIRED_DISCRIMINATOR"

definition getClaimExpiredInstruction :: "kit \<Rightarrow> ixInput \<Rightarrow> instruction res" where
  "getClaimExpiredInstruction K = build_ix K
     [(''claimer'', True), (''config'', False), (''nameRecord'', True),
      (''payerTokenAccount'', True), (''treasuryTokenAccount'', True), (''stakingVault'', True),
      (''burnVault'', True), (''referralTokenAccount'', True), (''paymentMint'', False),
      (''tokenProgram'', False)]
     [(''tokenProgram'', ConstAddr TOKEN_PROGRAM)]
     getClaimExpiredInstructionDataEncoder CLAIM_EXPIRED_DISCRIMINATOR"

definition parseClaimExpiredInstruction :: "kit \<Rightarrow> instruction \<Rightarrow> parsedIx res" where
  "parseClaimExpiredInstruction K = parse_ix K 10
     [(''claimer'', False), (''config'', False), (''nameRecord'', False),
      (''payerTokenAccount'', False), (''treasuryTokenAccount'', False), (''stakingVault'', False),
      (''burnVault'', False), (''referralTokenAccount'', True), (''paymentMint'', False),
      (''tokenProgram'', False)]
     getClaimExpiredInstructionDataDecoder"

subsection \<open>transferName.ts\<close>

definition TRANSFER_NAME_DISCRIMINATOR :: bytes where
  "TRANSFER_NAME_DISCRIMINATOR = [32, 215, 182, 130, 12, 106, 157, 75]"

definition getTransferNameInstructionDataEncoder :: codec where
  "getTransferNameInstructionDataEncoder = StructC [
     (''discriminator'', FixSizeC BytesC 8), (''newOwner'', AddressC)]"

definition getTransferNameInstructionDataDecoder :: codec where
  "getTransferNameInstructionDataDecoder = StructC [
     (''discriminator'', FixSizeC BytesC 8), (''newOwner'', AddressC)]"

definition getTransferNameInstruction :: "kit \<Rightarrow> ixInput \<Rightarrow> instruction res" where
  "getTransferNameInstruction K = build_ix K
     [(''owner'', False), (''nameRecord'', True)]
     []
     getTransferNameInstructionDataEncoder TRANSFER_NAME_DISCRIMINATOR"

definition parseTransferNameInstruction :: "kit \<Rightarrow> instruction \<Rightarrow> parsedIx res" where
  "parseTransferNameInstruction K = parse_ix K 2
     [(''owner'', False), (''nameRecord'', False)]
     getTransferNameInstructionDataDecoder"

subsection \<open>lockTransfer.ts\<close>

definition LOCK_TRANSFER_DISCRIMINATOR :: bytes where
  "LOCK_TRANSFER_DISCRIMINATOR = [141, 30, 149, 158, 41, 243, 55, 225]"

definition getLockTransferInstructionDataEncoder :: codec where
  "getLockTransferInstructionDataEncoder = StructC [
     (''discriminator'', FixSizeC BytesC 8), (''lock'', BooleanC)]"

definition getLockTransferInstructionDataDecoder :: codec where
  "getLockTransferInstructionDataDecoder = StructC [
     (''discriminator'', FixSizeC BytesC 8), (''lock'', BooleanC)]"

definition getLockTransferInstruction :: "kit \<Rightarrow> ixInput \<Rightarrow> instruction res" where
  "getLockTransferInstruction K = build_ix K
     [(''owner'', False), (''nameRecord'', True)]
     []
     getLockTransferInstructionDataEncoder LOCK_TRANSFER_DISCRIMINATOR"

definition parseLockTransferInstruction :: "kit \<Rightarrow> instruction \<Rightarrow> parsedIx res" where
  "parseLockTransferInstruction K = parse_ix K 2
     [(''owner'', False), (''nameRecord'', False)]
     getLockTransferInstructionDataDecoder"

subsection \<open>burnName.ts\<close>

definition BURN_NAME_DISCRIMINATOR :: bytes where
  "BURN_NAME_DISCRIMINATOR = [105, 235, 154, 87, 48, 149, 178, 40]"

definition getBurnNameInstructionDataEncoder :: codec where
  "getBurnNameInstructionDataEncoder = StructC [
     (''discriminator'', FixSizeC BytesC 8)]"

definition getBurnNameInstructionDataDecoder :: codec where
  "getBurnNameInstructionDataDecoder = StructC [
     (''discriminator'', FixSizeC BytesC 8)]"

definition getBurnNameInstruction :: "kit \<Rightarrow> ixInput \<Rightarrow> instruction res" where
  "getBurnNameInstruction K = build_ix K
     [(''owner'', True), (''nameRecord'', True)]
     []
     getBurnNameInstructionDataEncoder BURN_NAME_DISCRIMINATOR"

definition parseBurnNameInstruction :: "kit \<Rightarrow> instruction \<Rightarrow> parsedIx res" where
  "parseBurnNameInstruction K = parse_ix K 2
     [(''owner'', False), (''nameRecord'', False)]
     getBurnNameInstructionDataDecoder"

subsection \<open>setController.ts\<close>

definition SET_CONTROLLER_DISCRIMINATOR :: bytes where
  "SET_CONTROLLER_DISCRIMINATOR = [137, 23, 18, 149, 54, 29, 195, 165]"

definition getSetControllerInstructionDataEncoder :: codec where
  "getSetControllerInstructionDataEncoder = StructC [
     (''discriminator'', FixSizeC BytesC 8), (''controller'', OptionC AddressC)]"

definition getSetControllerInstructionDataDecoder :: codec where
  "getSetControllerInstructionDataDecoder = StructC [
     (''discriminator'', FixSizeC BytesC 8), (''controller'', OptionC AddressC)]"

definition getSetControllerInstruction :: "kit \<Rightarrow> ixInput \<Rightarrow> instruction res" where
  "getSetControllerInstruction K = build_ix K
     [(''owner'', False), (''nameRecord'', True)]
     []
     getSetControllerInstructionDataEncoder SET_CONTROLLER_DISCRIMINATOR"

definition parseSetControllerInstruction :: "kit \<Rightarrow> instruction \<Rightarrow> parsedIx res" where
  "parseSetControllerInstruction K = parse_ix K 2
     [(''owner'', False), (''nameRecord'', False)]
     getSetControllerInstructionDataDecoder"

subsection \<open>setHosting.ts\<close>

definition SET_HOSTING_DISCRIMINATOR :: bytes where
  "SET_HOSTING_DISCRIMINATOR = [213, 38, 154, 154, 19, 200, 116, 114]"

definition getSetHostingInstructionDataEncoder :: codec where
  "getSetHostingInstructionDataEncoder = StructC [
     (''discriminator'', FixSizeC BytesC 8), (''hostingRef'', OptionC (SizePrefixC Utf8C U32C))]"

definition getSetHostingInstructionDataDecoder :: codec where
  "getSetHostingInstructionDataDecoder = StructC [
     (''discriminator'', FixSizeC BytesC 8), (''hostingRef'', OptionC (SizePrefixC Utf8C U32C))]"

definition getSetHostingInstruction :: "kit \<Rightarrow> ixInput \<Rightarrow> instruction res" where
  "getSetHostingInstruction K = build_ix K
     [(''authority'', False), (''nameRecord'', True), (''nftTokenAccount'', False)]
     []
     getSetHostingInstructionDataEncoder SET_HOSTING_DISCRIMINATOR"

definition parseSetHostingInstruction :: "kit \<Rightarrow> instruction \<Rightarrow> parsedIx res" where
  "parseSetHostingInstruction K = parse_ix K 3
     [(''authority'', False), (''nameRecord'', False), (''nftTokenAccount'', True)]
     getSetHostingInstructionDataDecoder"

subsection \<open>setResolver.ts\<close>

definition SET_RESOLVER_DISCRIMINATOR :: bytes where
  "SET_RESOLVER_DISCRIMINATOR = [137, 108, 27, 51, 202, 16, 33, 119]"

definition getSetResolverInstructionDataEncoder :: codec where
  "getSetResolverInstructionDataEncoder = StructC [
     (''discriminator'', FixSizeC BytesC 8), (''resolver'', OptionC AddressC)]"

definition getSetResolverInstructionDataDecoder :: codec where
  "getSetResolverInstructionDataDecoder = StructC [
     (''discriminator'', FixSizeC BytesC 8), (''resolver'', OptionC AddressC)]"

definition getSetResolverInstruction :: "kit \<Rightarrow> ixInput \<Rightarrow> instruction res" where
  "getSetResolverInstruction K = build_ix K
     [(''authority'', False), (''nameRecord'', True), (''nftTokenAccount'', False)]
     []
     getSetResolverInstructionDataEncoder SET_RESOLVER_DISCRIMINATOR"

definition parseSetResolverInstruction :: "kit \<Rightarrow> instruction \<Rightarrow> parsedIx res" where
  "parseSetResolverInstruction K = parse_ix K 3
     [(''authority'', False), (''nameRecord'', False), (''nftTokenAccount'', True)]
     getSetResolverInstructionDataDecoder"

subsection \<open>setReverse.ts\<close>

definition SET_REVERSE_DISCRIMINATOR :: bytes where
  "SET_REVERSE_DISCRIMINATOR = [75, 137, 158, 195, 18, 45, 48, 16]"

definition getSetReverseInstructionDataEncoder :: codec where
  "getSetReverseInstructionDataEncoder = StructC [
     (''discriminator'', FixSizeC BytesC 8), (''name'', SizePrefixC Utf8C U32C)]"

definition getSetReverseInstructionDataDecoder :: codec where
  "getSetReverseInstructionDataDecoder = StructC [
     (''discriminator'', FixSizeC BytesC 8), (''name'', SizePrefixC Utf8C U32C)]"

definition getSetReverseInstructionAsync :: "kit \<Rightarrow> ixInput \<Rightarrow> instruction res" where
  "getSetReverseInstructionAsync K = build_ix K
     [(''owner'', True), (''nameRecord'', True), (''reverseRecord'', True),
      (''systemProgram'', False)]
     [(''reverseRecord'', ReverseRecordPda ''owner''), (''systemProgram'', ConstAddr SYSTEM_PROGRAM)]
     getSetReverseInstructionDataEncoder SET_REVERSE_DISCRIMINATOR"

definition getSetReverseInstruction :: "kit \<Rightarrow> ixInput \<Rightarrow> instruction res" where
  "getSetReverseInstruction K = build_ix K
     [(''owner'', True), (''nameRecord'', True), (''reverseRecord'', True),
      (''systemProgram'', False)]
     [(''systemProgram'', ConstAddr SYSTEM_PROGRAM)]
     getSetReverseInstructionDataEncoder SET_REVERSE_DISCRIMINATOR"

definition parseSetReverseInstruction :: "kit \<Rightarrow> instruction \<Rightarrow> parsedIx res" where
  "parseSetReverseInstruction K = parse_ix K 4
     [(''owner'', False), (''nameRecord'', False), (''reverseRecord'', False),
      (''systemProgram'', False)]
     getSetReverseInstructionDataDecoder"

subsection \<open>updateRecord.ts\<close>

definition UPDATE_RECORD_DISCRIMINATOR :: bytes where
  "UPDATE_RECORD_DISCRIMINATOR = [54, 194, 108, 162, 199, 12, 5, 60]"

definition getUpdateRecordInstructionDataEncoder :: codec where
  "getUpdateRecordInstructionDataEncoder = StructC [
     (''discriminator'', FixSizeC BytesC 8), (''key'', SizePrefixC Utf8C U32C),
      (''value'', OptionC (SizePrefixC Utf8C U32C))]"

definition getUpdateRecordInstructionDataDecoder :: codec where
  "getUpdateRecordInstructionDataDecoder = StructC [
     (''discriminator'', FixSizeC BytesC 8), (''key'', SizePrefixC Utf8C U32C),
      (''value'', OptionC (SizePrefixC Utf8C U32C))]"

definition getUpdateRecordInstruction :: "kit \<Rightarrow> ixInput \<Rightarrow> instruction res" where
  "getUpdateRecordInstruction K = build_ix K
     [(''authority'', False), (''nameRecord'', True), (''nftTokenAccount'', False)]
     []
     getUpdateRecordInstructionDataEncoder UPDATE_RECORD_DISCRIMINATOR"

definition parseUpdateRecordInstruction :: "kit \<Rightarrow> instruction \<Rightarrow> parsedIx res" where
  "parseUpdateRecordInstruction K = parse_ix K 3
     [(''authority'', False), (''nameRecord'', False), (''nftTokenAccount'', True)]
     getUpdateRecordInstructionDataDecoder"

subsection \<open>resolve.ts\<close>

definition RESOLVE_DISCRIMINATOR :: bytes where
  "RESOLVE_DISCRIMINATOR = [246, 150, 236, 206, 108, 63, 58, 10]"

definition getResolveInstructionDataEncoder :: codec where
  "getResolveInstructionDataEncoder = StructC [
     (''discriminator'', FixSizeC BytesC 8), (''nameHash'', FixSizeC BytesC 32),
      (''recordKey'', OptionC (SizePrefixC Utf8C U32C))]"

definition getResolveInstructionDataDecoder :: codec where
  "getResolveInstructionDataDecoder = StructC [
     (''discriminator'', FixSizeC BytesC 8), (''nameHash'', FixSizeC BytesC 32),
      (''recordKey'', OptionC (SizePrefixC Utf8C U32C))]"

definition getResolveInstruction :: "kit \<Rightarrow> ixInput \<Rightarrow> instruction res" where
  "getResolveInstruction K = build_ix K
     [(''nameRecord'', False)]
     []
     getResolveInstructionDataEncoder RESOLVE_DISCRIMINATOR"

definition parseResolveInstruction :: "kit \<Rightarrow> instruction \<Rightarrow> parsedIx res" where
  "parseResolveInstruction K = parse_ix K 1
     [(''nameRecord'', False)]
     getResolveInstructionDataDecoder"

subsection \<open>wrapSubdomain.ts\<close>

definition WRAP_SUBDOMAIN_DISCRIMINATOR :: bytes where
  "WRAP_SUBDOMAIN_DISCRIMINATOR = [176, 182, 82, 241, 229, 46, 229, 5]"

definition getWrapSubdomainInstructionDataEncoder :: codec where
  "getWrapSubdomainInstructionDataEncoder = StructC [
     (''discriminator'', FixSizeC BytesC 8), (''label'', SizePrefixC Utf8C U32C),
      (''nameHash'', FixSizeC BytesC 32)]"

definition getWrapSubdomainInstructionDataDecoder :: codec where
  "getWrapSubdomainInstructionDataDecoder = StructC [
     (''discriminator'', FixSizeC BytesC 8), (''label'', SizePrefixC Utf8C U32C),
      (''nameHash'', FixSizeC BytesC 32)]"

definition getWrapSubdomainInstructionAsync :: "kit \<Rightarrow> ixInput \<Rightarrow> instruction res" where
  "getWrapSubdomainInstructionAsync K = build_ix K
     [(''owner'', True), (''subdomainOwner'', False), (''parentName'', False),
      (''nameRecord'', True), (''systemProgram'', False)]
     [(''nameRecord'', NameRecordPda ''nameHash''), (''systemProgram'', ConstAddr SYSTEM_PROGRAM)]
     getWrapSubdomainInstructionDataEncoder WRAP_SUBDOMAIN_DISCRIMINATOR"

definition getWrapSubdomainInstruction :: "kit \<Rightarrow> ixInput \<Rightarrow> instruction res" where
  "getWrapSubdomainInstruction K = build_ix K
     [(''owner'', True), (''subdomainOwner'', False), (''parentName'', False),
      (''nameRecord'', True), (''systemProgram'', False)]
     [(''systemProgram'', ConstAddr SYSTEM_PROGRAM)]
     getWrapSubdomainInstructionDataEncoder WRAP_SUBDOMAIN_DISCRIMINATOR"

definition parseWrapSubdomainInstruction :: "kit \<Rightarrow> instruction \<Rightarrow> parsedIx res" where
  "parseWrapSubdomainInstruction K = parse_ix K 5
     [(''owner'', False), (''subdomainOwner'', False), (''parentName'', False),
      (''nameRecord'', False), (''systemProgram'', False)]
     getWrapSubdomainInstructionDataDecoder"

subsection \<open>revokeSubdomain.ts\<close>

definition REVOKE_SUBDOMAIN_DISCRIMINATOR :: bytes where
  "REVOKE_SUBDOMAIN_DISCRIMINATOR = [161, 15, 96, 214, 145, 88, 83, 118]"

definition getRevokeSubdomainInstructionDataEncoder :: codec where
  "getRevokeSubdomainInstructionDataEncoder = StructC [
     (''discriminator'', FixSizeC BytesC 8)]"

definition getRevokeSubdomainInstructionDataDecoder :: codec where
  "getRevokeSubdomainInstructionDataDecoder = StructC [
     (''discriminator'', FixSizeC BytesC 8)]"

definition getRevokeSubdomainInstruction :: "kit \<Rightarrow> ixInput \<Rightarrow> instruction res" where
  "getRevokeSubdomainInstruction K = build_ix K
     [(''owner'', True), (''parentName'', False), (''nameRecord'', True)]
     []
     getRevokeSubdomainInstructionDataEncoder REVOKE_SUBDOMAIN_DISCRIMINATOR"

definition parseRevokeSubdomainInstruction :: "kit \<Rightarrow> instruction \<Rightarrow> parsedIx res" where
  "parseRevokeSubdomainInstruction K = parse_ix K 3
     [(''owner'', False), (''parentName'', False), (''nameRecord'', False)]
     getRevokeSubdomainInstructionDataDecoder"

subsection \<open>tokenizeName.ts\<close>

definition TOKENIZE_NAME_DISCRIMINATOR :: bytes where
  "TOKENIZE_NAME_DISCRIMINATOR = [161, 164, 31, 49, 167, 4, 117, 23]"

definition getTokenizeNameInstructionDataEncoder :: codec where
  "getTokenizeNameInstructionDataEncoder = StructC [
     (''discriminator'', FixSizeC BytesC 8), (''name'', SizePrefixC Utf8C U32C)]"

definition getTokenizeNameInstructionDataDecoder :: codec where
  "getTokenizeNameInstructionDataDecoder = StructC [
     (''discriminator'', FixSizeC BytesC 8), (''name'', SizePrefixC Utf8C U32C)]"

definition getTokenizeNameInstructionAsync :: "kit \<Rightarrow> ixInput \<Rightarrow> instruction res" where
  "getTokenizeNameInstructionAsync K = build_ix K
     [(''owner'', True), (''nameRecord'', True), (''mint'', True), (''tokenAccount'', True),
      (''metadata'', True), (''masterEdition'', True), (''tokenProgram'', False),
      (''associatedTokenProgram'', False), (''metadataProgram'', False),
      (''systemProgram'', False), (''rent'', False)]
     [
      (''tokenAccount'', Derived ASSOCIATED_TOKEN_PROGRAM [AcctSeed ''owner'', BytesSeed [6, 221, 246, 225, 215, 101, 161, 147, 217, 203, 225, 70, 206, 235, 121, 172, 28, 180, 133, 237, 95, 91, 55, 145, 58, 140, 245, 133, 126, 255, 0, 169], AcctSeed ''mint'']),
      (''metadataProgram'', ConstAddr METADATA_PROGRAM),
      (''metadata'', MetadataPda ''metadataProgram'' ''mint''),
      (''masterEdition'', MasterEditionPda ''metadataProgram'' ''mint''),
      (''tokenProgram'', ConstAddr TOKEN_PROGRAM),
      (''associatedTokenProgram'', ConstAddr ASSOCIATED_TOKEN_PROGRAM),
      (''systemProgram'', ConstAddr SYSTEM_PROGRAM), (''rent'', ConstAddr RENT_SYSVAR)]
     getTokenizeNameInstructionDataEncoder TOKENIZE_NAME_DISCRIMINATOR"

definition getTokenizeNameInstruction :: "kit \<Rightarrow> ixInput \<Rightarrow> instruction res" where
  "getTokenizeNameInstruction K = build_ix K
     [(''owner'', True), (''nameRecord'', True), (''mint'', True), (''tokenAccount'', True),
      (''metadata'', True), (''masterEdition'', True), (''tokenProgram'', False),
      (''associatedTokenProgram'', False), (''metadataProgram'', False),
      (''systemProgram'', False), (''rent'', False)]
     [(''metadataProgram'', ConstAddr METADATA_PROGRAM),
      (''tokenProgram'', ConstAddr TOKEN_PROGRAM),
      (''associatedTokenProgram'', ConstAddr ASSOCIATED_TOKEN_PROGRAM),
      (''systemProgram'', ConstAddr SYSTEM_PROGRAM), (''rent'', ConstAddr RENT_SYSVAR)]
     getTokenizeNameInstructionDataEncoder TOKENIZE_NAME_DISCRIMINATOR"

definition parseTokenizeNameInstruction :: "kit \<Rightarrow> instruction \<Rightarrow> parsedIx res" where
  "parseTokenizeNameInstruction K = parse_ix K 11
     [(''owner'', False), (''nameRecord'', False), (''mint'', False), (''tokenAccount'', False),
      (''metadata'', False), (''masterEdition'', False), (''tokenProgram'', False),
      (''associatedTokenProgram'', False), (''metadataProgram'', False),
      (''systemProgram'', False), (''rent'', False)]
     getTokenizeNameInstructionDataDecoder"

subsection \<open>redeemName.ts\<close>

definition REDEEM_NAME_DISCRIMINATOR :: bytes where
  "REDEEM_NAME_DISCRIMINATOR = [54, 86, 206, 50, 162, 148, 156, 25]"

definition getRedeemNameInstructionDataEncoder :: codec where
  "getRedeemNameInstructionDataEncoder = StructC [
     (''discriminator'', FixSizeC BytesC 8)]"

definition getRedeemNameInstructionDataDecoder :: codec where
  "getRedeemNameInstructionDataDecoder = StructC [
     (''discriminator'', FixSizeC BytesC 8)]"

definition getRedeemNameInstructionAsync :: "kit \<Rightarrow> ixInput \<Rightarrow> instruction res" where
  "getRedeemNameInstructionAsync K = build_ix K
     [(''redeemer'', True), (''nameRecord'', True), (''mint'', True), (''tokenAccount'', True),
      (''metadata'', True), (''masterEdition'', True), (''tokenProgram'', False),
      (''metadataProgram'', False)]
     [(''metadataProgram'', ConstAddr METADATA_PROGRAM),
      (''metadata'', MetadataPda ''metadataProgram'' ''mint''),
      (''masterEdition'', MasterEditionPda ''metadataProgram'' ''mint''),
      (''tokenProgram'', ConstAddr TOKEN_PROGRAM)]
     getRedeemNameInstructionDataEncoder REDEEM_NAME_DISCRIMINATOR"

definition getRedeemNameInstruction :: "kit \<Rightarrow> ixInput \<Rightarrow> instruction res" where
  "getRedeemNameInstruction K = build_ix K
     [(''redeemer'', True), (''nameRecord'', True), (''mint'', True), (''tokenAccount'', True),
      (''metadata'', True), (''masterEdition'', True), (''tokenProgram'', False),
      (''metadataProgram'', False)]
     [(''metadataProgram'', ConstAddr METADATA_PROGRAM), (''tokenProgram'', ConstAddr TOKEN_PROGRAM)]
     getRedeemNameInstructionDataEncoder REDEEM_NAME_DISCRIMINATOR"

definition parseRedeemNameInstruction :: "kit \<Rightarrow> instruction \<Rightarrow> parsedIx res" where
  "parseRedeemNameInstruction K = parse_ix K 8
     [(''redeemer'', False), (''nameRecord'', False), (''mint'', False), (''tokenAccount'', False),
      (''metadata'', False), (''masterEdition'', False), (''tokenProgram'', False),
      (''metadataProgram'', False)]
     getRedeemNameInstructionDataDecoder"

section \<open>Builders and parsers agree\<close>

lemma registerNameAsync_coherent:
  "coherent getRegisterNameInstructionAsync parseRegisterNameInstruction getRegisterNameInstructionDataEncoder REGISTER_NAME_DISCRIMINATOR
     [''payer'', ''owner'', ''config'', ''nameRecord'', ''payerTokenAccount'',
      ''treasuryTokenAccount'', ''stakingVault'', ''burnVault'', ''paymentMint'', ''tokenProgram'',
      ''systemProgram'']"
  unfolding coherent_def
  by (intro exI conjI allI, rule getRegisterNameInstructionAsync_def, rule parseRegisterNameInstruction_def)
     (simp_all add: layout_ok_def getRegisterNameInstructionDataEncoder_def getRegisterNameInstructionDataDecoder_def
        REGISTER_NAME_DISCRIMINATOR_def)

lemma registerName_coherent:
  "coherent getRegisterNameInstruction parseRegisterNameInstruction getRegisterNameInstructionDataEncoder REGISTER_NAME_DISCRIMINATOR
     [''payer'', ''owner'', ''config'', ''nameRecord'', ''payerTokenAccount'',
      ''treasuryTokenAccount'', ''stakingVault'', ''burnVault'', ''paymentMint'', ''tokenProgram'',
      ''systemProgram'']"
  unfolding coherent_def
  by (intro exI conjI allI, rule getRegisterNameInstruction_def, rule parseRegisterNameInstruction_def)
     (simp_all add: layout_ok_def getRegisterNameInstructionDataEncoder_def getRegisterNameInstructionDataDecoder_def
        REGISTER_NAME_DISCRIMINATOR_def)

lemma registerWithSolansAsync_coherent:
  "coherent getRegisterWithSolansInstructionAsync parseRegisterWithSolansInstruction getRegisterWithSolansInstructionDataEncoder REGISTER_WITH_SOLANS_DISCRIMINATOR
     [''payer'', ''owner'', ''config'', ''nameRecord'', ''payerSolansAccount'', ''solansMint'',
      ''tokenProgram'', ''systemProgram'']"
  unfolding coherent_def
  by (intro exI conjI allI, rule getRegisterWithSolansInstructionAsync_def, rule parseRegisterWithSolansInstruction_def)
     (simp_all add: layout_ok_def getRegisterWithSolansInstructionDataEncoder_def getRegisterWithSolansInstructionDataDecoder_def
        REGISTER_WITH_SOLANS_DISCRIMINATOR_def)

lemma registerWithSolans_coherent:
  "coherent getRegisterWithSolansInstruction parseRegisterWithSolansInstruction getRegisterWithSolansInstructionDataEncoder REGISTER_WITH_SOLANS_DISCRIMINATOR
     [''payer'', ''owner'', ''config'', ''nameRecord'', ''payerSolansAccount'', ''solansMint'',
      ''tokenProgram'', ''systemProgram'']"
  unfolding coherent_def
  by (intro exI conjI allI, rule getRegisterWithSolansInstruction_def, rule parseRegisterWithSolansInstruction_def)
     (simp_all add: layout_ok_def getRegisterWithSolansInstructionDataEncoder_def getRegisterWithSolansInstructionDataDecoder_def
        REGISTER_WITH_SOLANS_DISCRIMINATOR_def)

lemma renewNameAsync_coherent:
  "coherent getRenewNameInstructionAsync parseRenewNameInstruction getRenewNameInstructionDataEncoder RENEW_NAME_DISCRIMINATOR
     [''payer'', ''config'', ''nameRecord'', ''payerTokenAccount'', ''treasuryTokenAccount'',
      ''stakingVault'', ''burnVault'', ''paymentMint'', ''tokenProgram'']"
  unfolding coherent_def
  by (intro exI conjI allI, rule getRenewNameInstructionAsync_def, rule parseRenewNameInstruction_def)
     (simp_all add: layout_ok_def getRenewNameInstructionDataEncoder_def getRenewNameInstructionDataDecoder_def
        RENEW_NAME_DISCRIMINATOR_def)

lemma renewName_coherent:
  "coherent getRenewNameInstruction parseRenewNameInstruction getRenewNameInstructionDataEncoder RENEW_NAME_DISCRIMINATOR
     [''payer'', ''config'', ''nameRecord'', ''payerTokenAccount'', ''treasuryTokenAccount'',
      ''stakingVault'', ''burnVault'', ''paymentMint'', ''tokenProgram'']"
  unfolding coherent_def
  by (intro exI conjI allI, rule getRenewNameInstruction_def, rule parseRenewNameInstruction_def)
     (simp_all add: layout_ok_def getRenewNameInstructionDataEncoder_def getRenewNameInstructionDataDecoder_def
        RENEW_NAME_DISCRIMINATOR_def)

lemma renewWithSolansAsync_coherent:
  "coherent getRenewWithSolansInstructionAsync parseRenewWithSolansInstruction getRenewWithSolansInstructionDataEncoder RENEW_WITH_SOLANS_DISCRIMINATOR
     [''payer'', ''config'', ''nameRecord'', ''payerSolansAccount'', ''solansMint'',
      ''tokenProgram'']"
  unfolding coherent_def
  by (intro exI conjI allI, rule getRenewWithSolansInstructionAsync_def, rule parseRenewWithSolansInstruction_def)
     (simp_all add: layout_ok_def getRenewWithSolansInstructionDataEncoder_def getRenewWithSolansInstructionDataDecoder_def
        RENEW_WITH_SOLANS_DISCRIMINATOR_def)

lemma renewWithSolans_coherent:
  "coherent getRenewWithSolansInstruction parseRenewWithSolansInstruction getRenewWithSolansInstructionDataEncoder RENEW_WITH_SOLANS_DISCRIMINATOR
     [''payer'', ''config'', ''nameRecord'', ''payerSolansAccount'', ''solansMint'',
      ''tokenProgram'']"
  unfolding coherent_def
  by (intro exI conjI allI, rule getRenewWithSolansInstruction_def, rule parseRenewWithSolansInstruction_def)
     (simp_all add: layout_ok_def getRenewWithSolansInstructionDataEncoder_def getRenewWithSolansInstructionDataDecoder_def
        RENEW_WITH_SOLANS_DISCRIMINATOR_def)

lemma autoRenewAsync_coherent:
  "coherent getAutoRenewInstructionAsync parseAutoRenewInstruction getAutoRenewInstructionDataEncoder AUTO_RENEW_DISCRIMINATOR
     [''keeper'', ''config'', ''nameRecord'', ''ownerTokenAccount'', ''treasuryTokenAccount'',
      ''stakingVault'', ''burnVault'', ''paymentMint'', ''tokenProgram'']"
  unfolding coherent_def
  by (intro exI conjI allI, rule getAutoRenewInstructionAsync_def, rule parseAutoRenewInstruction_def)
     (simp_all add: layout_ok_def getAutoRenewInstructionDataEncoder_def getAutoRenewInstructionDataDecoder_def
        AUTO_RENEW_DISCRIMINATOR_def)

lemma autoRenew_coherent:
  "coherent getAutoRenewInstruction parseAutoRenewInstruction getAutoRenewInstructionDataEncoder AUTO_RENEW_DISCRIMINATOR
     [''keeper'', ''config'', ''nameRecord'', ''ownerTokenAccount'', ''treasuryTokenAccount'',
      ''stakingVault'', ''burnVault'', ''paymentMint'', ''tokenProgram'']"
  unfolding coherent_def
  by (intro exI conjI allI, rule getAutoRenewInstruction_def, rule parseAutoRenewInstruction_def)
     (simp_all add: layout_ok_def getAutoRenewInstructionDataEncoder_def getAutoRenewInstructionDataDecoder_def
        AUTO_RENEW_DISCRIMINATOR_def)

lemma claimExpiredAsync_coherent:
  "coherent getClaimExpiredInstructionAsync parseClaimExpiredInstruction getClaimExpiredInstructionDataEncoder CLAIM_EXPIRED_DISCRIMINATOR
     [''claimer'', ''config'', ''nameRecord'', ''payerTokenAccount'', ''treasuryTokenAccount'',
      ''stakingVault'', ''burnVault'', ''paymentMint'', ''tokenProgram'']"
  unfolding coherent_def
  by (intro exI conjI allI, rule getClaimExpiredInstructionAsync_def, rule parseClaimExpiredInstruction_def)
     (simp_all add: layout_ok_def getClaimExpiredInstructionDataEncoder_def getClaimExpiredInstructionDataDecoder_def
        CLAIM_EXPIRED_DISCRIMINATOR_def)

lemma claimExpired_coherent:
  "coherent getClaimExpiredInstruction parseClaimExpiredInstruction getClaimExpiredInstructionDataEncoder CLAIM_EXPIRED_DISCRIMINATOR
     [''claimer'', ''config'', ''nameRecord'', ''payerTokenAccount'', ''treasuryTokenAccount'',
      ''stakingVault'', ''burnVault'', ''paymentMint'', ''tokenProgram'']"
  unfolding coherent_def
  by (intro exI conjI allI, rule getClaimExpiredInstruction_def, rule parseClaimExpiredInstruction_def)
     (simp_all add: layout_ok_def getClaimExpiredInstructionDataEncoder_def getClaimExpiredInstructionDataDecoder_def
        CLAIM_EXPIRED_DISCRIMINATOR_def)

lemma transferName_coherent:
  "coherent getTransferNameInstruction parseTransferNameInstruction getTransferNameInstructionDataEncoder TRANSFER_NAME_DISCRIMINATOR
     [''owner'', ''nameRecord'']"
  unfolding coherent_def
  by (intro exI conjI allI, rule getTransferNameInstruction_def, rule parseTransferNameInstruction_def)
     (simp_all add: layout_ok_def getTransferNameInstructionDataEncoder_def getTransferNameInstructionDataDecoder_def
        TRANSFER_NAME_DISCRIMINATOR_def)

lemma lockTransfer_coherent:
  "coherent getLockTransferInstruction parseLockTransferInstruction getLockTransferInstructionDataEncoder LOCK_TRANSFER_DISCRIMINATOR
     [''owner'', ''nameRecord'']"
  unfolding coherent_def
  by (intro exI conjI allI, rule getLockTransferInstruction_def, rule parseLockTransferInstruction_def)
     (simp_all add: layout_ok_def getLockTransferInstructionDataEncoder_def getLockTransferInstructionDataDecoder_def
        LOCK_TRANSFER_DISCRIMINATOR_def)

lemma burnName_coherent:
  "coherent getBurnNameInstruction parseBurnNameInstruction getBurnNameInstructionDataEncoder BURN_NAME_DISCRIMINATOR
     [''owner'', ''nameRecord'']"
  unfolding coherent_def
  by (intro exI conjI allI, rule getBurnNameInstruction_def, rule parseBurnNameInstruction_def)
     (simp_all add: layout_ok_def getBurnNameInstructionDataEncoder_def getBurnNameInstructionDataDecoder_def
        BURN_NAME_DISCRIMINATOR_def)

lemma setController_coherent:
  "coherent getSetControllerInstruction parseSetControllerInstruction getSetControllerInstructionDataEncoder SET_CONTROLLER_DISCRIMINATOR
     [''owner'', ''nameRecord'']"
  unfolding coherent_def
  by (intro exI conjI allI, rule getSetControllerInstruction_def, rule parseSetControllerInstruction_def)
     (simp_all add: layout_ok_def getSetControllerInstructionDataEncoder_def getSetControllerInstructionDataDecoder_def
        SET_CONTROLLER_DISCRIMINATOR_def)

lemma setHosting_coherent:
  "coherent getSetHostingInstruction parseSetHostingInstruction getSetHostingInstructionDataEncoder SET_HOSTING_DISCRIMINATOR
     [''authority'', ''nameRecord'']"
  unfolding coherent_def
  by (intro exI conjI allI, rule getSetHostingInstruction_def, rule parseSetHostingInstruction_def)
     (simp_all add: layout_ok_def getSetHostingInstructionDataEncoder_def getSetHostingInstructionDataDecoder_def
        SET_HOSTING_DISCRIMINATOR_def)

lemma setResolver_coherent:
  "coherent getSetResolverInstruction parseSetResolverInstruction getSetResolverInstructionDataEncoder SET_RESOLVER_DISCRIMINATOR
     [''authority'', ''nameRecord'']"
  unfolding coherent_def
  by (intro exI conjI allI, rule getSetResolverInstruction_def, rule parseSetResolverInstruction_def)
     (simp_all add: layout_ok_def getSetResolverInstructionDataEncoder_def getSetResolverInstructionDataDecoder_def
        SET_RESOLVER_DISCRIMINATOR_def)

lemma setReverseAsync_coherent:
  "coherent getSetReverseInstructionAsync parseSetReverseInstruction getSetReverseInstructionDataEncoder SET_REVERSE_DISCRIMINATOR
     [''owner'', ''nameRecord'', ''reverseRecord'', ''systemProgram'']"
  unfolding coherent_def
  by (intro exI conjI allI, rule getSetReverseInstructionAsync_def, rule parseSetReverseInstruction_def)
     (simp_all add: layout_ok_def getSetReverseInstructionDataEncoder_def getSetReverseInstructionDataDecoder_def
        SET_REVERSE_DISCRIMINATOR_def)

lemma setReverse_coherent:
  "coherent getSetReverseInstruction parseSetReverseInstruction getSetReverseInstructionDataEncoder SET_REVERSE_DISCRIMINATOR
     [''owner'', ''nameRecord'', ''reverseRecord'', ''systemProgram'']"
  unfolding coherent_def
  by (intro exI conjI allI, rule getSetReverseInstruction_def, rule parseSetReverseInstruction_def)
     (simp_all add: layout_ok_def getSetReverseInstructionDataEncoder_def getSetReverseInstructionDataDecoder_def
        SET_REVERSE_DISCRIMINATOR_def)

lemma updateRecord_coherent:
  "coherent getUpdateRecordInstruction parseUpdateRecordInstruction getUpdateRecordInstructionDataEncoder UPDATE_RECORD_DISCRIMINATOR
     [''authority'', ''nameRecord'']"
  unfolding coherent_def
  by (intro exI conjI allI, rule getUpdateRecordInstruction_def, rule parseUpdateRecordInstruction_def)
     (simp_all add: layout_ok_def getUpdateRecordInstructionDataEncoder_def getUpdateRecordInstructionDataDecoder_def
        UPDATE_RECORD_DISCRIMINATOR_def)

lemma resolve_coherent:
  "coherent getResolveInstruction parseResolveInstruction getResolveInstructionDataEncoder RESOLVE_DISCRIMINATOR
     [''nameRecord'']"
  unfolding coherent_def
  by (intro exI conjI allI, rule getResolveInstruction_def, rule parseResolveInstruction_def)
     (simp_all add: layout_ok_def getResolveInstructionDataEncoder_def getResolveInstructionDataDecoder_def
        RESOLVE_DISCRIMINATOR_def)

lemma wrapSubdomainAsync_coherent:
  "coherent getWrapSubdomainInstructionAsync parseWrapSubdomainInstruction getWrapSubdomainInstructionDataEncoder WRAP_SUBDOMAIN_DISCRIMINATOR
     [''owner'', ''subdomainOwner'', ''parentName'', ''nameRecord'', ''systemProgram'']"
  unfolding coherent_def
  by (intro exI conjI allI, rule getWrapSubdomainInstructionAsync_def, rule parseWrapSubdomainInstruction_def)
     (simp_all add: layout_ok_def getWrapSubdomainInstructionDataEncoder_def getWrapSubdomainInstructionDataDecoder_def
        WRAP_SUBDOMAIN_DISCRIMINATOR_def)

lemma wrapSubdomain_coherent:
  "coherent getWrapSubdomainInstruction parseWrapSubdomainInstruction getWrapSubdomainInstructionDataEncoder WRAP_SUBDOMAIN_DISCRIMINATOR
     [''owner'', ''subdomainOwner'', ''parentName'', ''nameRecord'', ''systemProgram'']"
  unfolding coherent_def
  by (intro exI conjI allI, rule getWrapSubdomainInstruction_def, rule parseWrapSubdomainInstruction_def)
     (simp_all add: layout_ok_def getWrapSubdomainInstructionDataEncoder_def getWrapSubdomainInstructionDataDecoder_def
        WRAP_SUBDOMAIN_DISCRIMINATOR_def)

lemma revokeSubdomain_coherent:
  "coherent getRevokeSubdomainInstruction parseRevokeSubdomainInstruction getRevokeSubdomainInstructionDataEncoder REVOKE_SUBDOMAIN_DISCRIMINATOR
     [''owner'', ''parentName'', ''nameRecord'']"
  unfolding coherent_def
  by (intro exI conjI allI, rule getRevokeSubdomainInstruction_def, rule parseRevokeSubdomainInstruction_def)
     (simp_all add: layout_ok_def getRevokeSubdomainInstructionDataEncoder_def getRevokeSubdomainInstructionDataDecoder_def
        REVOKE_SUBDOMAIN_DISCRIMINATOR_def)

lemma tokenizeNameAsync_coherent:
  "coherent getTokenizeNameInstructionAsync parseTokenizeNameInstruction getTokenizeNameInstructionDataEncoder TOKENIZE_NAME_DISCRIMINATOR
     [''owner'', ''nameRecord'', ''mint'', ''tokenAccount'', ''metadata'', ''masterEdition'',
      ''tokenProgram'', ''associatedTokenProgram'', ''metadataProgram'', ''systemProgram'', ''rent'']"
  unfolding coherent_def
  by (intro exI conjI allI, rule getTokenizeNameInstructionAsync_def, rule parseTokenizeNameInstruction_def)
     (simp_all add: layout_ok_def getTokenizeNameInstructionDataEncoder_def getTokenizeNameInstructionDataDecoder_def
        TOKENIZE_NAME_DISCRIMINATOR_def)

lemma tokenizeName_coherent:
  "coherent getTokenizeNameInstruction parseTokenizeNameInstruction getTokenizeNameInstructionDataEncoder TOKENIZE_NAME_DISCRIMINATOR
     [''owner'', ''nameRecord'', ''mint'', ''tokenAccount'', ''metadata'', ''masterEdition'',
      ''tokenProgram'', ''associatedTokenProgram'', ''metadataProgram'', ''systemProgram'', ''rent'']"
  unfolding coherent_def
  by (intro exI conjI allI, rule getTokenizeNameInstruction_def, rule parseTokenizeNameInstruction_def)
     (simp_all add: layout_ok_def getTokenizeNameInstructionDataEncoder_def getTokenizeNameInstructionDataDecoder_def
        TOKENIZE_NAME_DISCRIMINATOR_def)

lemma redeemNameAsync_coherent:
  "coherent getRedeemNameInstructionAsync parseRedeemNameInstruction getRedeemNameInstructionDataEncoder REDEEM_NAME_DISCRIMINATOR
     [''redeemer'', ''nameRecord'', ''mint'', ''tokenAccount'', ''metadata'', ''masterEdition'',
      ''tokenProgram'', ''metadataProgram'']"
  unfolding coherent_def
  by (intro exI conjI allI, rule getRedeemNameInstructionAsync_def, rule parseRedeemNameInstruction_def)
     (simp_all add: layout_ok_def getRedeemNameInstructionDataEncoder_def getRedeemNameInstructionDataDecoder_def
        REDEEM_NAME_DISCRIMINATOR_def)

lemma redeemName_coherent:
  "coherent getRedeemNameInstruction parseRedeemNameInstruction getRedeemNameInstructionDataEncoder REDEEM_NAME_DISCRIMINATOR
     [''redeemer'', ''nameRecord'', ''mint'', ''tokenAccount'', ''metadata'', ''masterEdition'',
      ''tokenProgram'', ''metadataProgram'']"
  unfolding coherent_def
  by (intro exI conjI allI, rule getRedeemNameInstruction_def, rule parseRedeemNameInstruction_def)
     (simp_all add: layout_ok_def getRedeemNameInstructionDataEncoder_def getRedeemNameInstructionDataDecoder_def
        REDEEM_NAME_DISCRIMINATOR_def)

end
