(* ===== verification/Market_Instructions.thy ===== *)
theory Market_Instructions
  imports Instruction_Core
begin

text \<open>
  The generated instruction files of the marketplace (listings, offers, auctions), under
  \<open>clients/ts/src/generated/instructions/\<close>: per file the discriminator, the data encoder and decoder,
  the builders and the parser, as applications of the shared code of \<open>Instruction_Core\<close> to the slots
  (account name, is it writable), default values and codecs the file writes. The \<open>coherent\<close> lemmas show
  that a file's builders and parser agree.
\<close>

section \<open>Definitions\<close>

subsection \<open>listName.ts\<close>

definition LIST_NAME_DISCRIMINATOR :: bytes where
  "LIST_NAME_DISCRIMINATOR = [246, 122, 32, 41, 48, 9, 211, 11]"

definition getListNameInstructionDataEncoder :: codec where
  "getListNameInstructionDataEncoder = StructC [
     (''discriminator'', FixSizeC BytesC 8), (''price'', U64C), (''durationSeconds'', I64C)]"

definition getListNameInstructionDataDecoder :: codec where
  "getListNameInstructionDataDecoder = StructC [
     (''discriminator'', FixSizeC BytesC 8), (''price'', U64C), (''durationSeconds'', I64C)]"

definition getListNameInstruction :: "kit \<Rightarrow> ixInput \<Rightarrow> instruction res" where
  "getListNameInstruction K = build_ix K
     [(''owner'', True), (''nameRecord'', True), (''listing'', True), (''systemProgram'', False)]
     [(''systemProgram'', ConstAddr SYSTEM_PROGRAM)]
     getListNameInstructionDataEncoder LIST_NAME_DISCRIMINATOR"

definition parseListNameInstruction :: "kit \<Rightarrow> instruction \<Rightarrow> parsedIx res" where
  "parseListNameInstruction K = parse_ix K 4
     [(''owner'', False), (''nameRecord'', False), (''listing'', False), (''systemProgram'', False)]
     getListNameInstructionDataDecoder"

subsection \<open>updateListing.ts\<close>

definition UPDATE_LISTING_DISCRIMINATOR :: bytes where
  "UPDATE_LISTING_DISCRIMINATOR = [192, 174, 210, 68, 116, 40, 242, 253]"

definition getUpdateListingInstructionDataEncoder :: codec where
  "getUpdateListingInstructionDataEncoder = StructC [
     (''discriminator'', FixSizeC BytesC 8), (''price'', U64C), (''durationSeconds'', I64C)]"

definition getUpdateListingInstructionDataDecoder :: codec where
  "getUpdateListingInstructionDataDecoder = StructC [
     (''discriminator'', FixSizeC BytesC 8), (''price'', U64C), (''durationSeconds'', I64C)]"

definition getUpdateListingInstruction :: "kit \<Rightarrow> ixInput \<Rightarrow> instruction res" where
  "getUpdateListingInstruction K = build_ix K
     [(''seller'', False), (''listing'', True)]
     []
     getUpdateListingInstructionDataEncoder UPDATE_LISTING_DISCRIMINATOR"

definition parseUpdateListingInstruction :: "kit \<Rightarrow> instruction \<Rightarrow> parsedIx res" where
  "parseUpdateListingInstruction K = parse_ix K 2
     [(''seller'', False), (''listing'', False)]
     getUpdateListingInstructionDataDecoder"

subsection \<open>cancelListing.ts\<close>

definition CANCEL_LISTING_DISCRIMINATOR :: bytes where
  "CANCEL_LISTING_DISCRIMINATOR = [41, 183, 50, 232, 230, 233, 157, 70]"

definition getCancelListingInstructionDataEncoder :: codec where
  "getCancelListingInstructionDataEncoder = StructC [
     (''discriminator'', FixSizeC BytesC 8)]"

definition getCancelListingInstructionDataDecoder :: codec where
  "getCancelListingInstructionDataDecoder = StructC [
     (''discriminator'', FixSizeC BytesC 8)]"

definition getCancelListingInstruction :: "kit \<Rightarrow> ixInput \<Rightarrow> instruction res" where
  "getCancelListingInstruction K = build_ix K
     [(''canceller'', False), (''seller'', True), (''nameRecord'', True), (''listing'', True)]
     []
     getCancelListingInstructionDataEncoder CANCEL_LISTING_DISCRIMINATOR"

definition parseCancelListingInstruction :: "kit \<Rightarrow> instruction \<Rightarrow> parsedIx res" where
  "parseCancelListingInstruction K = parse_ix K 4
     [(''canceller'', False), (''seller'', False), (''nameRecord'', False), (''listing'', False)]
     getCancelListingInstructionDataDecoder"

subsection \<open>buyName.ts\<close>

definition BUY_NAME_DISCRIMINATOR :: bytes where
  "BUY_NAME_DISCRIMINATOR = [51, 244, 250, 246, 119, 54, 246, 23]"

definition getBuyNameInstructionDataEncoder :: codec where
  "getBuyNameInstructionDataEncoder = StructC [
     (''discriminator'', FixSizeC BytesC 8), (''expectedPrice'', U64C)]"

definition getBuyNameInstructionDataDecoder :: codec where
  "getBuyNameInstructionDataDecoder = StructC [
     (''discriminator'', FixSizeC BytesC 8), (''expectedPrice'', U64C)]"

definition getBuyNameInstructionAsync :: "kit \<Rightarrow> ixInput \<Rightarrow> instruction res" where
  "getBuyNameInstructionAsync K = build_ix K
     [(''buyer'', True), (''seller'', True), (''solTreasury'', True), (''config'', False),
      (''nameRecord'', True), (''listing'', True), (''systemProgram'', False)]
     [(''config'', ConfigPda), (''systemProgram'', ConstAddr SYSTEM_PROGRAM)]
     getBuyNameInstructionDataEncoder BUY_NAME_DISCRIMINATOR"

definition getBuyNameInstruction :: "kit \<Rightarrow> ixInput \<Rightarrow> instruction res" where
  "getBuyNameInstruction K = build_ix K
     [(''buyer'', True), (''seller'', True), (''solTreasury'', True), (''config'', False),
      (''nameRecord'', True), (''listing'', True), (''systemProgram'', False)]
     [(''systemProgram'', ConstAddr SYSTEM_PROGRAM)]
     getBuyNameInstructionDataEncoder BUY_NAME_DISCRIMINATOR"

definition parseBuyNameInstruction :: "kit \<Rightarrow> instruction \<Rightarrow> parsedIx res" where
  "parseBuyNameInstruction K = parse_ix K 7
     [(''buyer'', False), (''seller'', False), (''solTreasury'', False), (''config'', False),
      (''nameRecord'', False), (''listing'', False), (''systemProgram'', False)]
     getBuyNameInstructionDataDecoder"

subsection \<open>makeOffer.ts\<close>

definition MAKE_OFFER_DISCRIMINATOR :: bytes where
  "MAKE_OFFER_DISCRIMINATOR = [214, 98, 97, 35, 59, 12, 44, 178]"

definition getMakeOfferInstructionDataEncoder :: codec where
  "getMakeOfferInstructionDataEncoder = StructC [
     (''discriminator'', FixSizeC BytesC 8), (''amount'', U64C), (''durationSeconds'', I64C)]"

definition getMakeOfferInstructionDataDecoder :: codec where
  "getMakeOfferInstructionDataDecoder = StructC [
     (''discriminator'', FixSizeC BytesC 8), (''amount'', U64C), (''durationSeconds'', I64C)]"

definition getMakeOfferInstruction :: "kit \<Rightarrow> ixInput \<Rightarrow> instruction res" where
  "getMakeOfferInstruction K = build_ix K
     [(''buyer'', True), (''nameRecord'', False), (''offer'', True), (''systemProgram'', False)]
     [(''systemProgram'', ConstAddr SYSTEM_PROGRAM)]
     getMakeOfferInstructionDataEncoder MAKE_OFFER_DISCRIMINATOR"

definition parseMakeOfferInstruction :: "kit \<Rightarrow> instruction \<Rightarrow> parsedIx res" where
  "parseMakeOfferInstruction K = parse_ix K 4
     [(''buyer'', False), (''nameRecord'', False), (''offer'', False), (''systemProgram'', False)]
     getMakeOfferInstructionDataDecoder"

subsection \<open>cancelOffer.ts\<close>

definition CANCEL_OFFER_DISCRIMINATOR :: bytes where
  "CANCEL_OFFER_DISCRIMINATOR = [92, 203, 223, 40, 92, 89, 53, 119]"

definition getCancelOfferInstructionDataEncoder :: codec where
  "getCancelOfferInstructionDataEncoder = StructC [
     (''discriminator'', FixSizeC BytesC 8)]"

definition getCancelOfferInstructionDataDecoder :: codec where
  "getCancelOfferInstructionDataDecoder = StructC [
     (''discriminator'', FixSizeC BytesC 8)]"

definition getCancelOfferInstruction :: "kit \<Rightarrow> ixInput \<Rightarrow> instruction res" where
  "getCancelOfferInstruction K = build_ix K
     [(''canceller'', False), (''buyer'', True), (''nameRecord'', False), (''offer'', True)]
     []
     getCancelOfferInstructionDataEncoder CANCEL_OFFER_DISCRIMINATOR"

definition parseCancelOfferInstruction :: "kit \<Rightarrow> instruction \<Rightarrow> parsedIx res" where
  "parseCancelOfferInstruction K = parse_ix K 4
     [(''canceller'', False), (''buyer'', False), (''nameRecord'', True), (''offer'', False)]
     getCancelOfferInstructionDataDecoder"

subsection \<open>acceptOffer.ts\<close>

definition ACCEPT_OFFER_DISCRIMINATOR :: bytes where
  "ACCEPT_OFFER_DISCRIMINATOR = [227, 82, 234, 131, 1, 18, 48, 2]"

definition getAcceptOfferInstructionDataEncoder :: codec where
  "getAcceptOfferInstructionDataEncoder = StructC [
     (''discriminator'', FixSizeC BytesC 8)]"

definition getAcceptOfferInstructionDataDecoder :: codec where
  "getAcceptOfferInstructionDataDecoder = StructC [
     (''discriminator'', FixSizeC BytesC 8)]"

definition getAcceptOfferInstructionAsync :: "kit \<Rightarrow> ixInput \<Rightarrow> instruction res" where
  "getAcceptOfferInstructionAsync K = build_ix K
     [(''owner'', False), (''buyer'', True), (''solTreasury'', True), (''config'', False),
      (''nameRecord'', True), (''offer'', True)]
     [(''config'', ConfigPda)]
     getAcceptOfferInstructionDataEncoder ACCEPT_OFFER_DISCRIMINATOR"

definition getAcceptOfferInstruction :: "kit \<Rightarrow> ixInput \<Rightarrow> instruction res" where
  "getAcceptOfferInstruction K = build_ix K
     [(''owner'', False), (''buyer'', True), (''solTreasury'', True), (''config'', False),
      (''nameRecord'', True), (''offer'', True)]
     []
     getAcceptOfferInstructionDataEncoder ACCEPT_OFFER_DISCRIMINATOR"

definition parseAcceptOfferInstruction :: "kit \<Rightarrow> instruction \<Rightarrow> parsedIx res" where
  "parseAcceptOfferInstruction K = parse_ix K 6
     [(''owner'', False), (''buyer'', False), (''solTreasury'', False), (''config'', False),
      (''nameRecord'', False), (''offer'', False)]
     getAcceptOfferInstructionDataDecoder"

subsection \<open>startAuction.ts\<close>

definition START_AUCTION_DISCRIMINATOR :: bytes where
  "START_AUCTION_DISCRIMINATOR = [255, 2, 149, 136, 148, 125, 65, 195]"

definition getStartAuctionInstructionDataEncoder :: codec where
  "getStartAuctionInstructionDataEncoder = StructC [
     (''discriminator'', FixSizeC BytesC 8), (''reservePrice'', U64C), (''minIncrement'', U64C),
      (''durationSeconds'', I64C)]"

definition getStartAuctionInstructionDataDecoder :: codec where
  "getStartAuctionInstructionDataDecoder = StructC [
     (''discriminator'', FixSizeC BytesC 8), (''reservePrice'', U64C), (''minIncrement'', U64C),
      (''durationSeconds'', I64C)]"

definition getStartAuctionInstructionAsync :: "kit \<Rightarrow> ixInput \<Rightarrow> instruction res" where
  "getStartAuctionInstructionAsync K = build_ix K
     [(''owner'', True), (''config'', False), (''nameRecord'', True), (''auction'', True),
      (''solansMint'', False), (''bidVault'', True), (''tokenProgram'', False),
      (''associatedTokenProgram'', False), (''systemProgram'', False)]
     [(''config'', ConfigPda), (''tokenProgram'', ConstAddr TOKEN_PROGRAM),
      (''bidVault'', Derived ASSOCIATED_TOKEN_PROGRAM [AcctSeed ''auction'', AcctSeed ''tokenProgram'', AcctSeed ''solansMint'']),
      (''associatedTokenProgram'', ConstAddr ASSOCIATED_TOKEN_PROGRAM),
      (''systemProgram'', ConstAddr SYSTEM_PROGRAM)]
     getStartAuctionInstructionDataEncoder START_AUCTION_DISCRIMINATOR"

definition getStartAuctionInstruction :: "kit \<Rightarrow> ixInput \<Rightarrow> instruction res" where
  "getStartAuctionInstruction K = build_ix K
     [(''owner'', True), (''config'', False), (''nameRecord'', True), (''auction'', True),
      (''solansMint'', False), (''bidVault'', True), (''tokenProgram'', False),
      (''associatedTokenProgram'', False), (''systemProgram'', False)]
     [(''tokenProgram'', ConstAddr TOKEN_PROGRAM),
      (''associatedTokenProgram'', ConstAddr ASSOCIATED_TOKEN_PROGRAM),
      (''systemProgram'', ConstAddr SYSTEM_PROGRAM)]
     getStartAuctionInstructionDataEncoder START_AUCTION_DISCRIMINATOR"

definition parseStartAuctionInstruction :: "kit \<Rightarrow> instruction \<Rightarrow> parsedIx res" where
  "parseStartAuctionInstruction K = parse_ix K 9
     [(''owner'', False), (''config'', False), (''nameRecord'', False), (''auction'', False),
      (''solansMint'', False), (''bidVault'', False), (''tokenProgram'', False),
      (''associatedTokenProgram'', False), (''systemProgram'', False)]
     getStartAuctionInstructionDataDecoder"

subsection \<open>bid.ts\<close>

definition BID_DISCRIMINATOR :: bytes where
  "BID_DISCRIMINATOR = [199, 56, 85, 38, 146, 243, 37, 158]"

definition getBidInstructionDataEncoder :: codec where
  "getBidInstructionDataEncoder = StructC [
     (''discriminator'', FixSizeC BytesC 8), (''amount'', U64C)]"

definition getBidInstructionDataDecoder :: codec where
  "getBidInstructionDataDecoder = StructC [
     (''discriminator'', FixSizeC BytesC 8), (''amount'', U64C)]"

definition getBidInstruction :: "kit \<Rightarrow> ixInput \<Rightarrow> instruction res" where
  "getBidInstruction K = build_ix K
     [(''bidder'', True), (''auction'', True), (''bidderSolansAccount'', True),
      (''prevBidderSolansAccount'', True), (''bidVault'', True), (''solansMint'', False),
      (''tokenProgram'', False)]
     [(''tokenProgram'', ConstAddr TOKEN_PROGRAM)]
     getBidInstructionDataEncoder BID_DISCRIMINATOR"

definition parseBidInstruction :: "kit \<Rightarrow> instruction \<Rightarrow> parsedIx res" where
  "parseBidInstruction K = parse_ix K 7
     [(''bidder'', False), (''auction'', False), (''bidderSolansAccount'', False),
      (''prevBidderSolansAccount'', True), (''bidVault'', False), (''solansMint'', False),
      (''tokenProgram'', False)]
     getBidInstructionDataDecoder"

subsection \<open>cancelAuction.ts\<close>

definition CANCEL_AUCTION_DISCRIMINATOR :: bytes where
  "CANCEL_AUCTION_DISCRIMINATOR = [156, 43, 197, 110, 218, 105, 143, 182]"

definition getCancelAuctionInstructionDataEncoder :: codec where
  "getCancelAuctionInstructionDataEncoder = StructC [
     (''discriminator'', FixSizeC BytesC 8)]"

definition getCancelAuctionInstructionDataDecoder :: codec where
  "getCancelAuctionInstructionDataDecoder = StructC [
     (''discriminator'', FixSizeC BytesC 8)]"

definition getCancelAuctionInstruction :: "kit \<Rightarrow> ixInput \<Rightarrow> instruction res" where
  "getCancelAuctionInstruction K = build_ix K
     [(''seller'', True), (''nameRecord'', True), (''auction'', True), (''bidVault'', True),
      (''tokenProgram'', False)]
     [(''tokenProgram'', ConstAddr TOKEN_PROGRAM)]
     getCancelAuctionInstructionDataEncoder CANCEL_AUCTION_DISCRIMINATOR"

definition parseCancelAuctionInstruction :: "kit \<Rightarrow> instruction \<Rightarrow> parsedIx res" where
  "parseCancelAuctionInstruction K = parse_ix K 5
     [(''seller'', False), (''nameRecord'', False), (''auction'', False), (''bidVault'', False),
      (''tokenProgram'', False)]
     getCancelAuctionInstructionDataDecoder"

subsection \<open>settleAuction.ts\<close>

definition SETTLE_AUCTION_DISCRIMINATOR :: bytes where
  "SETTLE_AUCTION_DISCRIMINATOR = [246, 196, 183, 98, 222, 139, 46, 133]"

definition getSettleAuctionInstructionDataEncoder :: codec where
  "getSettleAuctionInstructionDataEncoder = StructC [
     (''discriminator'', FixSizeC BytesC 8)]"

definition getSettleAuctionInstructionDataDecoder :: codec where
  "getSettleAuctionInstructionDataDecoder = StructC [
     (''discriminator'', FixSizeC BytesC 8)]"

definition getSettleAuctionInstructionAsync :: "kit \<Rightarrow> ixInput \<Rightarrow> instruction res" where
  "getSettleAuctionInstructionAsync K = build_ix K
     [(''settler'', False), (''config'', False), (''seller'', True),
      (''sellerSolansAccount'', True), (''nameRecord'', True), (''auction'', True),
      (''bidVault'', True), (''solansMint'', True), (''tokenProgram'', False)]
     [(''config'', ConfigPda), (''tokenProgram'', ConstAddr TOKEN_PROGRAM)]
     getSettleAuctionInstructionDataEncoder SETTLE_AUCTION_DISCRIMINATOR"

definition getSettleAuctionInstruction :: "kit \<Rightarrow> ixInput \<Rightarrow> instruction res" where
  "getSettleAuctionInstruction K = build_ix K
     [(''settler'', False), (''config'', False), (''seller'', True),
      (''sellerSolansAccount'', True), (''nameRecord'', True), (''auction'', True),
      (''bidVault'', True), (''solansMint'', True), (''tokenProgram'', False)]
     [(''tokenProgram'', ConstAddr TOKEN_PROGRAM)]
     getSettleAuctionInstructionDataEncoder SETTLE_AUCTION_DISCRIMINATOR"

definition parseSettleAuctionInstruction :: "kit \<Rightarrow> instruction \<Rightarrow> parsedIx res" where
  "parseSettleAuctionInstruction K = parse_ix K 9
     [(''settler'', False), (''config'', False), (''seller'', False),
      (''sellerSolansAccount'', True), (''nameRecord'', False), (''auction'', False),
      (''bidVault'', False), (''solansMint'', False), (''tokenProgram'', False)]
     getSettleAuctionInstructionDataDecoder"

section \<open>Builders and parsers agree\<close>

lemma listName_coherent:
  "coherent getListNameInstruction parseListNameInstruction getListNameInstructionDataEncoder LIST_NAME_DISCRIMINATOR
     [''owner'', ''nameRecord'', ''listing'', ''systemProgram'']"
  unfolding coherent_def
  by (intro exI conjI allI, rule getListNameInstruction_def, rule parseListNameInstruction_def)
     (simp_all add: layout_ok_def getListNameInstructionDataEncoder_def getListNameInstructionDataDecoder_def
        LIST_NAME_DISCRIMINATOR_def)

lemma updateListing_coherent:
  "coherent getUpdateListingInstruction parseUpdateListingInstruction getUpdateListingInstructionDataEncoder UPDATE_LISTING_DISCRIMINATOR
     [''seller'', ''listing'']"
  unfolding coherent_def
  by (intro exI conjI allI, rule getUpdateListingInstruction_def, rule parseUpdateListingInstruction_def)
     (simp_all add: layout_ok_def getUpdateListingInstructionDataEncoder_def getUpdateListingInstructionDataDecoder_def
        UPDATE_LISTING_DISCRIMINATOR_def)

lemma cancelListing_coherent:
  "coherent getCancelListingInstruction parseCancelListingInstruction getCancelListingInstructionDataEncoder CANCEL_LISTING_DISCRIMINATOR
     [''canceller'', ''seller'', ''nameRecord'', ''listing'']"
  unfolding coherent_def
  by (intro exI conjI allI, rule getCancelListingInstruction_def, rule parseCancelListingInstruction_def)
     (simp_all add: layout_ok_def getCancelListingInstructionDataEncoder_def getCancelListingInstructionDataDecoder_def
        CANCEL_LISTING_DISCRIMINATOR_def)

lemma buyNameAsync_coherent:
  "coherent getBuyNameInstructionAsync parseBuyNameInstruction getBuyNameInstructionDataEncoder BUY_NAME_DISCRIMINATOR
     [''buyer'', ''seller'', ''solTreasury'', ''config'', ''nameRecord'', ''listing'',
      ''systemProgram'']"
  unfolding coherent_def
  by (intro exI conjI allI, rule getBuyNameInstructionAsync_def, rule parseBuyNameInstruction_def)
     (simp_all add: layout_ok_def getBuyNameInstructionDataEncoder_def getBuyNameInstructionDataDecoder_def
        BUY_NAME_DISCRIMINATOR_def)

lemma buyName_coherent:
  "coherent getBuyNameInstruction parseBuyNameInstruction getBuyNameInstructionDataEncoder BUY_NAME_DISCRIMINATOR
     [''buyer'', ''seller'', ''solTreasury'', ''config'', ''nameRecord'', ''listing'',
      ''systemProgram'']"
  unfolding coherent_def
  by (intro exI conjI allI, rule getBuyNameInstruction_def, rule parseBuyNameInstruction_def)
     (simp_all add: layout_ok_def getBuyNameInstructionDataEncoder_def getBuyNameInstructionDataDecoder_def
        BUY_NAME_DISCRIMINATOR_def)

lemma makeOffer_coherent:
  "coherent getMakeOfferInstruction parseMakeOfferInstruction getMakeOfferInstructionDataEncoder MAKE_OFFER_DISCRIMINATOR
     [''buyer'', ''nameRecord'', ''offer'', ''systemProgram'']"
  unfolding coherent_def
  by (intro exI conjI allI, rule getMakeOfferInstruction_def, rule parseMakeOfferInstruction_def)
     (simp_all add: layout_ok_def getMakeOfferInstructionDataEncoder_def getMakeOfferInstructionDataDecoder_def
        MAKE_OFFER_DISCRIMINATOR_def)

lemma cancelOffer_coherent:
  "coherent getCancelOfferInstruction parseCancelOfferInstruction getCancelOfferInstructionDataEncoder CANCEL_OFFER_DISCRIMINATOR
     [''canceller'', ''buyer'', ''offer'']"
  unfolding coherent_def
  by (intro exI conjI allI, rule getCancelOfferInstruction_def, rule parseCancelOfferInstruction_def)
     (simp_all add: layout_ok_def getCancelOfferInstructionDataEncoder_def getCancelOfferInstructionDataDecoder_def
        CANCEL_OFFER_DISCRIMINATOR_def)

lemma acceptOfferAsync_coherent:
  "coherent getAcceptOfferInstructionAsync parseAcceptOfferInstruction getAcceptOfferInstructionDataEncoder ACCEPT_OFFER_DISCRIMINATOR
     [''owner'', ''buyer'', ''solTreasury'', ''config'', ''nameRecord'', ''offer'']"
  unfolding coherent_def
  by (intro exI conjI allI, rule getAcceptOfferInstructionAsync_def, rule parseAcceptOfferInstruction_def)
     (simp_all add: layout_ok_def getAcceptOfferInstructionDataEncoder_def getAcceptOfferInstructionDataDecoder_def
        ACCEPT_OFFER_DISCRIMINATOR_def)

lemma acceptOffer_coherent:
  "coherent getAcceptOfferInstruction parseAcceptOfferInstruction getAcceptOfferInstructionDataEncoder ACCEPT_OFFER_DISCRIMINATOR
     [''owner'', ''buyer'', ''solTreasury'', ''config'', ''nameRecord'', ''offer'']"
  unfolding coherent_def
  by (intro exI conjI allI, rule getAcceptOfferInstruction_def, rule parseAcceptOfferInstruction_def)
     (simp_all add: layout_ok_def getAcceptOfferInstructionDataEncoder_def getAcceptOfferInstructionDataDecoder_def
        ACCEPT_OFFER_DISCRIMINATOR_def)

lemma startAuctionAsync_coherent:
  "coherent getStartAuctionInstructionAsync parseStartAuctionInstruction getStartAuctionInstructionDataEncoder START_AUCTION_DISCRIMINATOR
     [''owner'', ''config'', ''nameRecord'', ''auction'', ''solansMint'', ''bidVault'',
      ''tokenProgram'', ''associatedTokenProgram'', ''systemProgram'']"
  unfolding coherent_def
  by (intro exI conjI allI, rule getStartAuctionInstructionAsync_def, rule parseStartAuctionInstruction_def)
     (simp_all add: layout_ok_def getStartAuctionInstructionDataEncoder_def getStartAuctionInstructionDataDecoder_def
        START_AUCTION_DISCRIMINATOR_def)

lemma startAuction_coherent:
  "coherent getStartAuctionInstruction parseStartAuctionInstruction getStartAuctionInstructionDataEncoder START_AUCTION_DISCRIMINATOR
     [''owner'', ''config'', ''nameRecord'', ''auction'', ''solansMint'', ''bidVault'',
      ''tokenProgram'', ''associatedTokenProgram'', ''systemProgram'']"
  unfolding coherent_def
  by (intro exI conjI allI, rule getStartAuctionInstruction_def, rule parseStartAuctionInstruction_def)
     (simp_all add: layout_ok_def getStartAuctionInstructionDataEncoder_def getStartAuctionInstructionDataDecoder_def
        START_AUCTION_DISCRIMINATOR_def)

lemma bid_coherent:
  "coherent getBidInstruction parseBidInstruction getBidInstructionDataEncoder BID_DISCRIMINATOR
     [''bidder'', ''auction'', ''bidderSolansAccount'', ''bidVault'', ''solansMint'',
      ''tokenProgram'']"
  unfolding coherent_def
  by (intro exI conjI allI, rule getBidInstruction_def, rule parseBidInstruction_def)
     (simp_all add: layout_ok_def getBidInstructionDataEncoder_def getBidInstructionDataDecoder_def
        BID_DISCRIMINATOR_def)

lemma cancelAuction_coherent:
  "coherent getCancelAuctionInstruction parseCancelAuctionInstruction getCancelAuctionInstructionDataEncoder CANCEL_AUCTION_DISCRIMINATOR
     [''seller'', ''nameRecord'', ''auction'', ''bidVault'', ''tokenProgram'']"
  unfolding coherent_def
  by (intro exI conjI allI, rule getCancelAuctionInstruction_def, rule parseCancelAuctionInstruction_def)
     (simp_all add: layout_ok_def getCancelAuctionInstructionDataEncoder_def getCancelAuctionInstructionDataDecoder_def
        CANCEL_AUCTION_DISCRIMINATOR_def)

lemma settleAuctionAsync_coherent:
  "coherent getSettleAuctionInstructionAsync parseSettleAuctionInstruction getSettleAuctionInstructionDataEncoder SETTLE_AUCTION_DISCRIMINATOR
     [''settler'', ''config'', ''seller'', ''nameRecord'', ''auction'', ''bidVault'',
      ''solansMint'', ''tokenProgram'']"
  unfolding coherent_def
  by (intro exI conjI allI, rule getSettleAuctionInstructionAsync_def, rule parseSettleAuctionInstruction_def)
     (simp_all add: layout_ok_def getSettleAuctionInstructionDataEncoder_def getSettleAuctionInstructionDataDecoder_def
        SETTLE_AUCTION_DISCRIMINATOR_def)

lemma settleAuction_coherent:
  "coherent getSettleAuctionInstruction parseSettleAuctionInstruction getSettleAuctionInstructionDataEncoder SETTLE_AUCTION_DISCRIMINATOR
     [''settler'', ''config'', ''seller'', ''nameRecord'', ''auction'', ''bidVault'',
      ''solansMint'', ''tokenProgram'']"
  unfolding coherent_def
  by (intro exI conjI allI, rule getSettleAuctionInstruction_def, rule parseSettleAuctionInstruction_def)
     (simp_all add: layout_ok_def getSettleAuctionInstructionDataEncoder_def getSettleAuctionInstructionDataDecoder_def
        SETTLE_AUCTION_DISCRIMINATOR_def)

end
