(* ===== verification/Admin_Instructions.thy ===== *)
theory Admin_Instructions
  imports Instruction_Core
begin

text \<open>
  The generated instruction files of the registry configuration, the burn pool and staking, under
  \<open>clients/ts/src/generated/instructions/\<close>: per file the discriminator, the data encoder and decoder,
  the builders and the parser, as applications of the shared code of \<open>Instruction_Core\<close> to the slots
  (account name, is it writable), default values and codecs the file writes. The \<open>coherent\<close> lemmas show
  that a file's builders and parser agree.
\<close>

section \<open>Definitions\<close>

subsection \<open>initConfig.ts\<close>

definition INIT_CONFIG_DISCRIMINATOR :: bytes where
  "INIT_CONFIG_DISCRIMINATOR = [23, 235, 115, 232, 168, 96, 1, 231]"

definition getInitConfigInstructionDataEncoder :: codec where
  "getInitConfigInstructionDataEncoder = StructC [
     (''discriminator'', FixSizeC BytesC 8), (''price1'', U64C), (''price2'', U64C),
      (''price3'', U64C), (''price4'', U64C), (''price5plus'', U64C), (''priceNumeric'', U64C),
      (''gracePeriodSeconds'', I64C), (''minYears'', U16C), (''maxYears'', U16C),
      (''solTreasury'', AddressC), (''marketplaceFeeBps'', U16C), (''stakingFeeBps'', U16C),
      (''referralFeeBps'', U16C), (''burnFeeBps'', U16C)]"

definition getInitConfigInstructionDataDecoder :: codec where
  "getInitConfigInstructionDataDecoder = StructC [
     (''discriminator'', FixSizeC BytesC 8), (''price1'', U64C), (''price2'', U64C),
      (''price3'', U64C), (''price4'', U64C), (''price5plus'', U64C), (''priceNumeric'', U64C),
      (''gracePeriodSeconds'', I64C), (''minYears'', U16C), (''maxYears'', U16C),
      (''solTreasury'', AddressC), (''marketplaceFeeBps'', U16C), (''stakingFeeBps'', U16C),
      (''referralFeeBps'', U16C), (''burnFeeBps'', U16C)]"

definition getInitConfigInstructionAsync :: "kit \<Rightarrow> ixInput \<Rightarrow> instruction res" where
  "getInitConfigInstructionAsync K = build_ix K
     [(''admin'', True), (''config'', True), (''paymentMint'', False),
      (''treasuryTokenAccount'', False), (''stakingVault'', False), (''burnVault'', False),
      (''tokenProgram'', False), (''systemProgram'', False)]
     [(''config'', ConfigPda), (''tokenProgram'', ConstAddr TOKEN_PROGRAM),
      (''systemProgram'', ConstAddr SYSTEM_PROGRAM)]
     getInitConfigInstructionDataEncoder INIT_CONFIG_DISCRIMINATOR"

definition getInitConfigInstruction :: "kit \<Rightarrow> ixInput \<Rightarrow> instruction res" where
  "getInitConfigInstruction K = build_ix K
     [(''admin'', True), (''config'', True), (''paymentMint'', False),
      (''treasuryTokenAccount'', False), (''stakingVault'', False), (''burnVault'', False),
      (''tokenProgram'', False), (''systemProgram'', False)]
     [(''tokenProgram'', ConstAddr TOKEN_PROGRAM), (''systemProgram'', ConstAddr SYSTEM_PROGRAM)]
     getInitConfigInstructionDataEncoder INIT_CONFIG_DISCRIMINATOR"

definition parseInitConfigInstruction :: "kit \<Rightarrow> instruction \<Rightarrow> parsedIx res" where
  "parseInitConfigInstruction K = parse_ix K 8
     [(''admin'', False), (''config'', False), (''paymentMint'', False),
      (''treasuryTokenAccount'', False), (''stakingVault'', False), (''burnVault'', False),
      (''tokenProgram'', False), (''systemProgram'', False)]
     getInitConfigInstructionDataDecoder"

subsection \<open>updateConfig.ts\<close>

definition UPDATE_CONFIG_DISCRIMINATOR :: bytes where
  "UPDATE_CONFIG_DISCRIMINATOR = [29, 158, 252, 191, 10, 83, 219, 99]"

definition getUpdateConfigInstructionDataEncoder :: codec where
  "getUpdateConfigInstructionDataEncoder = StructC [
     (''discriminator'', FixSizeC BytesC 8), (''price1'', U64C), (''price2'', U64C),
      (''price3'', U64C), (''price4'', U64C), (''price5plus'', U64C), (''priceNumeric'', U64C),
      (''gracePeriodSeconds'', I64C), (''minYears'', U16C), (''maxYears'', U16C),
      (''solTreasury'', AddressC), (''marketplaceFeeBps'', U16C), (''stakingFeeBps'', U16C),
      (''referralFeeBps'', U16C), (''burnFeeBps'', U16C)]"

definition getUpdateConfigInstructionDataDecoder :: codec where
  "getUpdateConfigInstructionDataDecoder = StructC [
     (''discriminator'', FixSizeC BytesC 8), (''price1'', U64C), (''price2'', U64C),
      (''price3'', U64C), (''price4'', U64C), (''price5plus'', U64C), (''priceNumeric'', U64C),
      (''gracePeriodSeconds'', I64C), (''minYears'', U16C), (''maxYears'', U16C),
      (''solTreasury'', AddressC), (''marketplaceFeeBps'', U16C), (''stakingFeeBps'', U16C),
      (''referralFeeBps'', U16C), (''burnFeeBps'', U16C)]"

definition getUpdateConfigInstructionAsync :: "kit \<Rightarrow> ixInput \<Rightarrow> instruction res" where
  "getUpdateConfigInstructionAsync K = build_ix K
     [(''admin'', False), (''config'', True)]
     [(''config'', ConfigPda)]
     getUpdateConfigInstructionDataEncoder UPDATE_CONFIG_DISCRIMINATOR"

definition getUpdateConfigInstruction :: "kit \<Rightarrow> ixInput \<Rightarrow> instruction res" where
  "getUpdateConfigInstruction K = build_ix K
     [(''admin'', False), (''config'', True)]
     []
     getUpdateConfigInstructionDataEncoder UPDATE_CONFIG_DISCRIMINATOR"

definition parseUpdateConfigInstruction :: "kit \<Rightarrow> instruction \<Rightarrow> parsedIx res" where
  "parseUpdateConfigInstruction K = parse_ix K 2
     [(''admin'', False), (''config'', False)]
     getUpdateConfigInstructionDataDecoder"

subsection \<open>setSolansParams.ts\<close>

definition SET_SOLANS_PARAMS_DISCRIMINATOR :: bytes where
  "SET_SOLANS_PARAMS_DISCRIMINATOR = [91, 68, 181, 191, 248, 118, 235, 102]"

definition getSetSolansParamsInstructionDataEncoder :: codec where
  "getSetSolansParamsInstructionDataEncoder = StructC [
     (''discriminator'', FixSizeC BytesC 8), (''solansRate'', U64C), (''solansDiscountBps'', U16C)]"

definition getSetSolansParamsInstructionDataDecoder :: codec where
  "getSetSolansParamsInstructionDataDecoder = StructC [
     (''discriminator'', FixSizeC BytesC 8), (''solansRate'', U64C), (''solansDiscountBps'', U16C)]"

definition getSetSolansParamsInstructionAsync :: "kit \<Rightarrow> ixInput \<Rightarrow> instruction res" where
  "getSetSolansParamsInstructionAsync K = build_ix K
     [(''admin'', False), (''config'', True)]
     [(''config'', ConfigPda)]
     getSetSolansParamsInstructionDataEncoder SET_SOLANS_PARAMS_DISCRIMINATOR"

definition getSetSolansParamsInstruction :: "kit \<Rightarrow> ixInput \<Rightarrow> instruction res" where
  "getSetSolansParamsInstruction K = build_ix K
     [(''admin'', False), (''config'', True)]
     []
     getSetSolansParamsInstructionDataEncoder SET_SOLANS_PARAMS_DISCRIMINATOR"

definition parseSetSolansParamsInstruction :: "kit \<Rightarrow> instruction \<Rightarrow> parsedIx res" where
  "parseSetSolansParamsInstruction K = parse_ix K 2
     [(''admin'', False), (''config'', False)]
     getSetSolansParamsInstructionDataDecoder"

subsection \<open>transferAdmin.ts\<close>

definition TRANSFER_ADMIN_DISCRIMINATOR :: bytes where
  "TRANSFER_ADMIN_DISCRIMINATOR = [42, 242, 66, 106, 228, 10, 111, 156]"

definition getTransferAdminInstructionDataEncoder :: codec where
  "getTransferAdminInstructionDataEncoder = StructC [
     (''discriminator'', FixSizeC BytesC 8), (''newAdmin'', AddressC)]"

definition getTransferAdminInstructionDataDecoder :: codec where
  "getTransferAdminInstructionDataDecoder = StructC [
     (''discriminator'', FixSizeC BytesC 8), (''newAdmin'', AddressC)]"

definition getTransferAdminInstructionAsync :: "kit \<Rightarrow> ixInput \<Rightarrow> instruction res" where
  "getTransferAdminInstructionAsync K = build_ix K
     [(''admin'', False), (''config'', True)]
     [(''config'', ConfigPda)]
     getTransferAdminInstructionDataEncoder TRANSFER_ADMIN_DISCRIMINATOR"

definition getTransferAdminInstruction :: "kit \<Rightarrow> ixInput \<Rightarrow> instruction res" where
  "getTransferAdminInstruction K = build_ix K
     [(''admin'', False), (''config'', True)]
     []
     getTransferAdminInstructionDataEncoder TRANSFER_ADMIN_DISCRIMINATOR"

definition parseTransferAdminInstruction :: "kit \<Rightarrow> instruction \<Rightarrow> parsedIx res" where
  "parseTransferAdminInstruction K = parse_ix K 2
     [(''admin'', False), (''config'', False)]
     getTransferAdminInstructionDataDecoder"

subsection \<open>initBurnPool.ts\<close>

definition INIT_BURN_POOL_DISCRIMINATOR :: bytes where
  "INIT_BURN_POOL_DISCRIMINATOR = [133, 239, 244, 64, 49, 161, 219, 25]"

definition getInitBurnPoolInstructionDataEncoder :: codec where
  "getInitBurnPoolInstructionDataEncoder = StructC [
     (''discriminator'', FixSizeC BytesC 8)]"

definition getInitBurnPoolInstructionDataDecoder :: codec where
  "getInitBurnPoolInstructionDataDecoder = StructC [
     (''discriminator'', FixSizeC BytesC 8)]"

definition getInitBurnPoolInstructionAsync :: "kit \<Rightarrow> ixInput \<Rightarrow> instruction res" where
  "getInitBurnPoolInstructionAsync K = build_ix K
     [(''admin'', True), (''config'', True), (''solansMint'', False), (''paymentMint'', False),
      (''burnVault'', True), (''tokenProgram'', False), (''associatedTokenProgram'', False),
      (''systemProgram'', False)]
     [(''config'', ConfigPda), (''tokenProgram'', ConstAddr TOKEN_PROGRAM),
      (''burnVault'', Derived ASSOCIATED_TOKEN_PROGRAM [AcctSeed ''config'', AcctSeed ''tokenProgram'', AcctSeed ''paymentMint'']),
      (''associatedTokenProgram'', ConstAddr ASSOCIATED_TOKEN_PROGRAM),
      (''systemProgram'', ConstAddr SYSTEM_PROGRAM)]
     getInitBurnPoolInstructionDataEncoder INIT_BURN_POOL_DISCRIMINATOR"

definition getInitBurnPoolInstruction :: "kit \<Rightarrow> ixInput \<Rightarrow> instruction res" where
  "getInitBurnPoolInstruction K = build_ix K
     [(''admin'', True), (''config'', True), (''solansMint'', False), (''paymentMint'', False),
      (''burnVault'', True), (''tokenProgram'', False), (''associatedTokenProgram'', False),
      (''systemProgram'', False)]
     [(''tokenProgram'', ConstAddr TOKEN_PROGRAM),
      (''associatedTokenProgram'', ConstAddr ASSOCIATED_TOKEN_PROGRAM),
      (''systemProgram'', ConstAddr SYSTEM_PROGRAM)]
     getInitBurnPoolInstructionDataEncoder INIT_BURN_POOL_DISCRIMINATOR"

definition parseInitBurnPoolInstruction :: "kit \<Rightarrow> instruction \<Rightarrow> parsedIx res" where
  "parseInitBurnPoolInstruction K = parse_ix K 8
     [(''admin'', False), (''config'', False), (''solansMint'', False), (''paymentMint'', False),
      (''burnVault'', False), (''tokenProgram'', False), (''associatedTokenProgram'', False),
      (''systemProgram'', False)]
     getInitBurnPoolInstructionDataDecoder"

subsection \<open>buybackBurn.ts\<close>

definition BUYBACK_BURN_DISCRIMINATOR :: bytes where
  "BUYBACK_BURN_DISCRIMINATOR = [20, 254, 58, 252, 209, 32, 111, 97]"

definition getBuybackBurnInstructionDataEncoder :: codec where
  "getBuybackBurnInstructionDataEncoder = StructC [
     (''discriminator'', FixSizeC BytesC 8), (''solansAmount'', U64C)]"

definition getBuybackBurnInstructionDataDecoder :: codec where
  "getBuybackBurnInstructionDataDecoder = StructC [
     (''discriminator'', FixSizeC BytesC 8), (''solansAmount'', U64C)]"

definition getBuybackBurnInstructionAsync :: "kit \<Rightarrow> ixInput \<Rightarrow> instruction res" where
  "getBuybackBurnInstructionAsync K = build_ix K
     [(''keeper'', False), (''config'', False), (''burnVault'', True),
      (''keeperPaymentAccount'', True), (''keeperSolansAccount'', True), (''solansMint'', True),
      (''paymentMint'', False), (''tokenProgram'', False)]
     [(''config'', ConfigPda), (''tokenProgram'', ConstAddr TOKEN_PROGRAM)]
     getBuybackBurnInstructionDataEncoder BUYBACK_BURN_DISCRIMINATOR"

definition getBuybackBurnInstruction :: "kit \<Rightarrow> ixInput \<Rightarrow> instruction res" where
  "getBuybackBurnInstruction K = build_ix K
     [(''keeper'', False), (''config'', False), (''burnVault'', True),
      (''keeperPaymentAccount'', True), (''keeperSolansAccount'', True), (''solansMint'', True),
      (''paymentMint'', False), (''tokenProgram'', False)]
     [(''tokenProgram'', ConstAddr TOKEN_PROGRAM)]
     getBuybackBurnInstructionDataEncoder BUYBACK_BURN_DISCRIMINATOR"

definition parseBuybackBurnInstruction :: "kit \<Rightarrow> instruction \<Rightarrow> parsedIx res" where
  "parseBuybackBurnInstruction K = parse_ix K 8
     [(''keeper'', False), (''config'', False), (''burnVault'', False),
      (''keeperPaymentAccount'', False), (''keeperSolansAccount'', False), (''solansMint'', False),
      (''paymentMint'', False), (''tokenProgram'', False)]
     getBuybackBurnInstructionDataDecoder"

subsection \<open>initStakePool.ts\<close>

definition INIT_STAKE_POOL_DISCRIMINATOR :: bytes where
  "INIT_STAKE_POOL_DISCRIMINATOR = [145, 69, 167, 211, 154, 130, 73, 50]"

definition getInitStakePoolInstructionDataEncoder :: codec where
  "getInitStakePoolInstructionDataEncoder = StructC [
     (''discriminator'', FixSizeC BytesC 8)]"

definition getInitStakePoolInstructionDataDecoder :: codec where
  "getInitStakePoolInstructionDataDecoder = StructC [
     (''discriminator'', FixSizeC BytesC 8)]"

definition getInitStakePoolInstructionAsync :: "kit \<Rightarrow> ixInput \<Rightarrow> instruction res" where
  "getInitStakePoolInstructionAsync K = build_ix K
     [(''admin'', True), (''config'', True), (''stakePool'', True), (''solansMint'', False),
      (''paymentMint'', False), (''stakeVault'', True), (''rewardVault'', True),
      (''tokenProgram'', False), (''associatedTokenProgram'', False), (''systemProgram'', False)]
     [(''config'', ConfigPda), (''stakePool'', StakePoolPda),
      (''tokenProgram'', ConstAddr TOKEN_PROGRAM),
      (''stakeVault'', Derived ASSOCIATED_TOKEN_PROGRAM [AcctSeed ''stakePool'', AcctSeed ''tokenProgram'', AcctSeed ''solansMint'']),
      (''rewardVault'', Derived ASSOCIATED_TOKEN_PROGRAM [AcctSeed ''stakePool'', AcctSeed ''tokenProgram'', AcctSeed ''paymentMint'']),
      (''associatedTokenProgram'', ConstAddr ASSOCIATED_TOKEN_PROGRAM),
      (''systemProgram'', ConstAddr SYSTEM_PROGRAM)]
     getInitStakePoolInstructionDataEncoder INIT_STAKE_POOL_DISCRIMINATOR"

definition getInitStakePoolInstruction :: "kit \<Rightarrow> ixInput \<Rightarrow> instruction res" where
  "getInitStakePoolInstruction K = build_ix K
     [(''admin'', True), (''config'', True), (''stakePool'', True), (''solansMint'', False),
      (''paymentMint'', False), (''stakeVault'', True), (''rewardVault'', True),
      (''tokenProgram'', False), (''associatedTokenProgram'', False), (''systemProgram'', False)]
     [(''tokenProgram'', ConstAddr TOKEN_PROGRAM),
      (''associatedTokenProgram'', ConstAddr ASSOCIATED_TOKEN_PROGRAM),
      (''systemProgram'', ConstAddr SYSTEM_PROGRAM)]
     getInitStakePoolInstructionDataEncoder INIT_STAKE_POOL_DISCRIMINATOR"

definition parseInitStakePoolInstruction :: "kit \<Rightarrow> instruction \<Rightarrow> parsedIx res" where
  "parseInitStakePoolInstruction K = parse_ix K 10
     [(''admin'', False), (''config'', False), (''stakePool'', False), (''solansMint'', False),
      (''paymentMint'', False), (''stakeVault'', False), (''rewardVault'', False),
      (''tokenProgram'', False), (''associatedTokenProgram'', False), (''systemProgram'', False)]
     getInitStakePoolInstructionDataDecoder"

subsection \<open>stake.ts\<close>

definition STAKE_DISCRIMINATOR :: bytes where
  "STAKE_DISCRIMINATOR = [206, 176, 202, 18, 200, 209, 179, 108]"

definition getStakeInstructionDataEncoder :: codec where
  "getStakeInstructionDataEncoder = StructC [
     (''discriminator'', FixSizeC BytesC 8), (''amount'', U64C)]"

definition getStakeInstructionDataDecoder :: codec where
  "getStakeInstructionDataDecoder = StructC [
     (''discriminator'', FixSizeC BytesC 8), (''amount'', U64C)]"

definition getStakeInstructionAsync :: "kit \<Rightarrow> ixInput \<Rightarrow> instruction res" where
  "getStakeInstructionAsync K = build_ix K
     [(''staker'', True), (''config'', False), (''stakePool'', True), (''stakeAccount'', True),
      (''stakerTokenAccount'', True), (''stakerRewardAccount'', True), (''stakeVault'', True),
      (''rewardVault'', True), (''solansMint'', False), (''paymentMint'', False),
      (''tokenProgram'', False), (''systemProgram'', False)]
     [(''config'', ConfigPda), (''stakePool'', StakePoolPda),
      (''stakeAccount'', StakeAccountPda ''staker''), (''tokenProgram'', ConstAddr TOKEN_PROGRAM),
      (''systemProgram'', ConstAddr SYSTEM_PROGRAM)]
     getStakeInstructionDataEncoder STAKE_DISCRIMINATOR"

definition getStakeInstruction :: "kit \<Rightarrow> ixInput \<Rightarrow> instruction res" where
  "getStakeInstruction K = build_ix K
     [(''staker'', True), (''config'', False), (''stakePool'', True), (''stakeAccount'', True),
      (''stakerTokenAccount'', True), (''stakerRewardAccount'', True), (''stakeVault'', True),
      (''rewardVault'', True), (''solansMint'', False), (''paymentMint'', False),
      (''tokenProgram'', False), (''systemProgram'', False)]
     [(''tokenProgram'', ConstAddr TOKEN_PROGRAM), (''systemProgram'', ConstAddr SYSTEM_PROGRAM)]
     getStakeInstructionDataEncoder STAKE_DISCRIMINATOR"

definition parseStakeInstruction :: "kit \<Rightarrow> instruction \<Rightarrow> parsedIx res" where
  "parseStakeInstruction K = parse_ix K 12
     [(''staker'', False), (''config'', False), (''stakePool'', False), (''stakeAccount'', False),
      (''stakerTokenAccount'', False), (''stakerRewardAccount'', False), (''stakeVault'', False),
      (''rewardVault'', False), (''solansMint'', False), (''paymentMint'', False),
      (''tokenProgram'', False), (''systemProgram'', False)]
     getStakeInstructionDataDecoder"

subsection \<open>unstake.ts\<close>

definition UNSTAKE_DISCRIMINATOR :: bytes where
  "UNSTAKE_DISCRIMINATOR = [90, 95, 107, 42, 205, 124, 50, 225]"

definition getUnstakeInstructionDataEncoder :: codec where
  "getUnstakeInstructionDataEncoder = StructC [
     (''discriminator'', FixSizeC BytesC 8), (''amount'', U64C)]"

definition getUnstakeInstructionDataDecoder :: codec where
  "getUnstakeInstructionDataDecoder = StructC [
     (''discriminator'', FixSizeC BytesC 8), (''amount'', U64C)]"

definition getUnstakeInstructionAsync :: "kit \<Rightarrow> ixInput \<Rightarrow> instruction res" where
  "getUnstakeInstructionAsync K = build_ix K
     [(''staker'', False), (''config'', False), (''stakePool'', True), (''stakeAccount'', True),
      (''stakerTokenAccount'', True), (''stakerRewardAccount'', True), (''stakeVault'', True),
      (''rewardVault'', True), (''solansMint'', False), (''paymentMint'', False),
      (''tokenProgram'', False)]
     [(''config'', ConfigPda), (''stakePool'', StakePoolPda),
      (''stakeAccount'', StakeAccountPda ''staker''), (''tokenProgram'', ConstAddr TOKEN_PROGRAM)]
     getUnstakeInstructionDataEncoder UNSTAKE_DISCRIMINATOR"

definition getUnstakeInstruction :: "kit \<Rightarrow> ixInput \<Rightarrow> instruction res" where
  "getUnstakeInstruction K = build_ix K
     [(''staker'', False), (''config'', False), (''stakePool'', True), (''stakeAccount'', True),
      (''stakerTokenAccount'', True), (''stakerRewardAccount'', True), (''stakeVault'', True),
      (''rewardVault'', True), (''solansMint'', False), (''paymentMint'', False),
      (''tokenProgram'', False)]
     [(''tokenProgram'', ConstAddr TOKEN_PROGRAM)]
     getUnstakeInstructionDataEncoder UNSTAKE_DISCRIMINATOR"

definition parseUnstakeInstruction :: "kit \<Rightarrow> instruction \<Rightarrow> parsedIx res" where
  "parseUnstakeInstruction K = parse_ix K 11
     [(''staker'', False), (''config'', False), (''stakePool'', False), (''stakeAccount'', False),
      (''stakerTokenAccount'', False), (''stakerRewardAccount'', False), (''stakeVault'', False),
      (''rewardVault'', False), (''solansMint'', False), (''paymentMint'', False),
      (''tokenProgram'', False)]
     getUnstakeInstructionDataDecoder"

subsection \<open>claimRewards.ts\<close>

definition CLAIM_REWARDS_DISCRIMINATOR :: bytes where
  "CLAIM_REWARDS_DISCRIMINATOR = [4, 144, 132, 71, 116, 23, 151, 80]"

definition getClaimRewardsInstructionDataEncoder :: codec where
  "getClaimRewardsInstructionDataEncoder = StructC [
     (''discriminator'', FixSizeC BytesC 8)]"

definition getClaimRewardsInstructionDataDecoder :: codec where
  "getClaimRewardsInstructionDataDecoder = StructC [
     (''discriminator'', FixSizeC BytesC 8)]"

definition getClaimRewardsInstructionAsync :: "kit \<Rightarrow> ixInput \<Rightarrow> instruction res" where
  "getClaimRewardsInstructionAsync K = build_ix K
     [(''staker'', False), (''config'', False), (''stakePool'', True), (''stakeAccount'', True),
      (''stakerRewardAccount'', True), (''rewardVault'', True), (''paymentMint'', False),
      (''tokenProgram'', False)]
     [(''config'', ConfigPda), (''stakePool'', StakePoolPda),
      (''stakeAccount'', StakeAccountPda ''staker''), (''tokenProgram'', ConstAddr TOKEN_PROGRAM)]
     getClaimRewardsInstructionDataEncoder CLAIM_REWARDS_DISCRIMINATOR"

definition getClaimRewardsInstruction :: "kit \<Rightarrow> ixInput \<Rightarrow> instruction res" where
  "getClaimRewardsInstruction K = build_ix K
     [(''staker'', False), (''config'', False), (''stakePool'', True), (''stakeAccount'', True),
      (''stakerRewardAccount'', True), (''rewardVault'', True), (''paymentMint'', False),
      (''tokenProgram'', False)]
     [(''tokenProgram'', ConstAddr TOKEN_PROGRAM)]
     getClaimRewardsInstructionDataEncoder CLAIM_REWARDS_DISCRIMINATOR"

definition parseClaimRewardsInstruction :: "kit \<Rightarrow> instruction \<Rightarrow> parsedIx res" where
  "parseClaimRewardsInstruction K = parse_ix K 8
     [(''staker'', False), (''config'', False), (''stakePool'', False), (''stakeAccount'', False),
      (''stakerRewardAccount'', False), (''rewardVault'', False), (''paymentMint'', False),
      (''tokenProgram'', False)]
     getClaimRewardsInstructionDataDecoder"

section \<open>Builders and parsers agree\<close>

lemma initConfigAsync_coherent:
  "coherent getInitConfigInstructionAsync parseInitConfigInstruction getInitConfigInstructionDataEncoder INIT_CONFIG_DISCRIMINATOR
     [''admin'', ''config'', ''paymentMint'', ''treasuryTokenAccount'', ''stakingVault'',
      ''burnVault'', ''tokenProgram'', ''systemProgram'']"
  unfolding coherent_def
  by (intro exI conjI allI, rule getInitConfigInstructionAsync_def, rule parseInitConfigInstruction_def)
     (simp_all add: layout_ok_def getInitConfigInstructionDataEncoder_def getInitConfigInstructionDataDecoder_def
        INIT_CONFIG_DISCRIMINATOR_def)

lemma initConfig_coherent:
  "coherent getInitConfigInstruction parseInitConfigInstruction getInitConfigInstructionDataEncoder INIT_CONFIG_DISCRIMINATOR
     [''admin'', ''config'', ''paymentMint'', ''treasuryTokenAccount'', ''stakingVault'',
      ''burnVault'', ''tokenProgram'', ''systemProgram'']"
  unfolding coherent_def
  by (intro exI conjI allI, rule getInitConfigInstruction_def, rule parseInitConfigInstruction_def)
     (simp_all add: layout_ok_def getInitConfigInstructionDataEncoder_def getInitConfigInstructionDataDecoder_def
        INIT_CONFIG_DISCRIMINATOR_def)

lemma updateConfigAsync_coherent:
  "coherent getUpdateConfigInstructionAsync parseUpdateConfigInstruction getUpdateConfigInstructionDataEncoder UPDATE_CONFIG_DISCRIMINATOR
     [''admin'', ''config'']"
  unfolding coherent_def
  by (intro exI conjI allI, rule getUpdateConfigInstructionAsync_def, rule parseUpdateConfigInstruction_def)
     (simp_all add: layout_ok_def getUpdateConfigInstructionDataEncoder_def getUpdateConfigInstructionDataDecoder_def
        UPDATE_CONFIG_DISCRIMINATOR_def)

lemma updateConfig_coherent:
  "coherent getUpdateConfigInstruction parseUpdateConfigInstruction getUpdateConfigInstructionDataEncoder UPDATE_CONFIG_DISCRIMINATOR
     [''admin'', ''config'']"
  unfolding coherent_def
  by (intro exI conjI allI, rule getUpdateConfigInstruction_def, rule parseUpdateConfigInstruction_def)
     (simp_all add: layout_ok_def getUpdateConfigInstructionDataEncoder_def getUpdateConfigInstructionDataDecoder_def
        UPDATE_CONFIG_DISCRIMINATOR_def)

lemma setSolansParamsAsync_coherent:
  "coherent getSetSolansParamsInstructionAsync parseSetSolansParamsInstruction getSetSolansParamsInstructionDataEncoder SET_SOLANS_PARAMS_DISCRIMINATOR
     [''admin'', ''config'']"
  unfolding coherent_def
  by (intro exI conjI allI, rule getSetSolansParamsInstructionAsync_def, rule parseSetSolansParamsInstruction_def)
     (simp_all add: layout_ok_def getSetSolansParamsInstructionDataEncoder_def getSetSolansParamsInstructionDataDecoder_def
        SET_SOLANS_PARAMS_DISCRIMINATOR_def)

lemma setSolansParams_coherent:
  "coherent getSetSolansParamsInstruction parseSetSolansParamsInstruction getSetSolansParamsInstructionDataEncoder SET_SOLANS_PARAMS_DISCRIMINATOR
     [''admin'', ''config'']"
  unfolding coherent_def
  by (intro exI conjI allI, rule getSetSolansParamsInstruction_def, rule parseSetSolansParamsInstruction_def)
     (simp_all add: layout_ok_def getSetSolansParamsInstructionDataEncoder_def getSetSolansParamsInstructionDataDecoder_def
        SET_SOLANS_PARAMS_DISCRIMINATOR_def)

lemma transferAdminAsync_coherent:
  "coherent getTransferAdminInstructionAsync parseTransferAdminInstruction getTransferAdminInstructionDataEncoder TRANSFER_ADMIN_DISCRIMINATOR
     [''admin'', ''config'']"
  unfolding coherent_def
  by (intro exI conjI allI, rule getTransferAdminInstructionAsync_def, rule parseTransferAdminInstruction_def)
     (simp_all add: layout_ok_def getTransferAdminInstructionDataEncoder_def getTransferAdminInstructionDataDecoder_def
        TRANSFER_ADMIN_DISCRIMINATOR_def)

lemma transferAdmin_coherent:
  "coherent getTransferAdminInstruction parseTransferAdminInstruction getTransferAdminInstructionDataEncoder TRANSFER_ADMIN_DISCRIMINATOR
     [''admin'', ''config'']"
  unfolding coherent_def
  by (intro exI conjI allI, rule getTransferAdminInstruction_def, rule parseTransferAdminInstruction_def)
     (simp_all add: layout_ok_def getTransferAdminInstructionDataEncoder_def getTransferAdminInstructionDataDecoder_def
        TRANSFER_ADMIN_DISCRIMINATOR_def)

lemma initBurnPoolAsync_coherent:
  "coherent getInitBurnPoolInstructionAsync parseInitBurnPoolInstruction getInitBurnPoolInstructionDataEncoder INIT_BURN_POOL_DISCRIMINATOR
     [''admin'', ''config'', ''solansMint'', ''paymentMint'', ''burnVault'', ''tokenProgram'',
      ''associatedTokenProgram'', ''systemProgram'']"
  unfolding coherent_def
  by (intro exI conjI allI, rule getInitBurnPoolInstructionAsync_def, rule parseInitBurnPoolInstruction_def)
     (simp_all add: layout_ok_def getInitBurnPoolInstructionDataEncoder_def getInitBurnPoolInstructionDataDecoder_def
        INIT_BURN_POOL_DISCRIMINATOR_def)

lemma initBurnPool_coherent:
  "coherent getInitBurnPoolInstruction parseInitBurnPoolInstruction getInitBurnPoolInstructionDataEncoder INIT_BURN_POOL_DISCRIMINATOR
     [''admin'', ''config'', ''solansMint'', ''paymentMint'', ''burnVault'', ''tokenProgram'',
      ''associatedTokenProgram'', ''systemProgram'']"
  unfolding coherent_def
  by (intro exI conjI allI, rule getInitBurnPoolInstruction_def, rule parseInitBurnPoolInstruction_def)
     (simp_all add: layout_ok_def getInitBurnPoolInstructionDataEncoder_def getInitBurnPoolInstructionDataDecoder_def
        INIT_BURN_POOL_DISCRIMINATOR_def)

lemma buybackBurnAsync_coherent:
  "coherent getBuybackBurnInstructionAsync parseBuybackBurnInstruction getBuybackBurnInstructionDataEncoder BUYBACK_BURN_DISCRIMINATOR
     [''keeper'', ''config'', ''burnVault'', ''keeperPaymentAccount'', ''keeperSolansAccount'',
      ''solansMint'', ''paymentMint'', ''tokenProgram'']"
  unfolding coherent_def
  by (intro exI conjI allI, rule getBuybackBurnInstructionAsync_def, rule parseBuybackBurnInstruction_def)
     (simp_all add: layout_ok_def getBuybackBurnInstructionDataEncoder_def getBuybackBurnInstructionDataDecoder_def
        BUYBACK_BURN_DISCRIMINATOR_def)

lemma buybackBurn_coherent:
  "coherent getBuybackBurnInstruction parseBuybackBurnInstruction getBuybackBurnInstructionDataEncoder BUYBACK_BURN_DISCRIMINATOR
     [''keeper'', ''config'', ''burnVault'', ''keeperPaymentAccount'', ''keeperSolansAccount'',
      ''solansMint'', ''paymentMint'', ''tokenProgram'']"
  unfolding coherent_def
  by (intro exI conjI allI, rule getBuybackBurnInstruction_def, rule parseBuybackBurnInstruction_def)
     (simp_all add: layout_ok_def getBuybackBurnInstructionDataEncoder_def getBuybackBurnInstructionDataDecoder_def
        BUYBACK_BURN_DISCRIMINATOR_def)

lemma initStakePoolAsync_coherent:
  "coherent getInitStakePoolInstructionAsync parseInitStakePoolInstruction getInitStakePoolInstructionDataEncoder INIT_STAKE_POOL_DISCRIMINATOR
     [''admin'', ''config'', ''stakePool'', ''solansMint'', ''paymentMint'', ''stakeVault'',
      ''rewardVault'', ''tokenProgram'', ''associatedTokenProgram'', ''systemProgram'']"
  unfolding coherent_def
  by (intro exI conjI allI, rule getInitStakePoolInstructionAsync_def, rule parseInitStakePoolInstruction_def)
     (simp_all add: layout_ok_def getInitStakePoolInstructionDataEncoder_def getInitStakePoolInstructionDataDecoder_def
        INIT_STAKE_POOL_DISCRIMINATOR_def)

lemma initStakePool_coherent:
  "coherent getInitStakePoolInstruction parseInitStakePoolInstruction getInitStakePoolInstructionDataEncoder INIT_STAKE_POOL_DISCRIMINATOR
     [''admin'', ''config'', ''stakePool'', ''solansMint'', ''paymentMint'', ''stakeVault'',
      ''rewardVault'', ''tokenProgram'', ''associatedTokenProgram'', ''systemProgram'']"
  unfolding coherent_def
  by (intro exI conjI allI, rule getInitStakePoolInstruction_def, rule parseInitStakePoolInstruction_def)
     (simp_all add: layout_ok_def getInitStakePoolInstructionDataEncoder_def getInitStakePoolInstructionDataDecoder_def
        INIT_STAKE_POOL_DISCRIMINATOR_def)

lemma stakeAsync_coherent:
  "coherent getStakeInstructionAsync parseStakeInstruction getStakeInstructionDataEncoder STAKE_DISCRIMINATOR
     [''staker'', ''config'', ''stakePool'', ''stakeAccount'', ''stakerTokenAccount'',
      ''stakerRewardAccount'', ''stakeVault'', ''rewardVault'', ''solansMint'', ''paymentMint'',
      ''tokenProgram'', ''systemProgram'']"
  unfolding coherent_def
  by (intro exI conjI allI, rule getStakeInstructionAsync_def, rule parseStakeInstruction_def)
     (simp_all add: layout_ok_def getStakeInstructionDataEncoder_def getStakeInstructionDataDecoder_def
        STAKE_DISCRIMINATOR_def)

lemma stake_coherent:
  "coherent getStakeInstruction parseStakeInstruction getStakeInstructionDataEncoder STAKE_DISCRIMINATOR
     [''staker'', ''config'', ''stakePool'', ''stakeAccount'', ''stakerTokenAccount'',
      ''stakerRewardAccount'', ''stakeVault'', ''rewardVault'', ''solansMint'', ''paymentMint'',
      ''tokenProgram'', ''systemProgram'']"
  unfolding coherent_def
  by (intro exI conjI allI, rule getStakeInstruction_def, rule parseStakeInstruction_def)
     (simp_all add: layout_ok_def getStakeInstructionDataEncoder_def getStakeInstructionDataDecoder_def
        STAKE_DISCRIMINATOR_def)

lemma unstakeAsync_coherent:
  "coherent getUnstakeInstructionAsync parseUnstakeInstruction getUnstakeInstructionDataEncoder UNSTAKE_DISCRIMINATOR
     [''staker'', ''config'', ''stakePool'', ''stakeAccount'', ''stakerTokenAccount'',
      ''stakerRewardAccount'', ''stakeVault'', ''rewardVault'', ''solansMint'', ''paymentMint'',
      ''tokenProgram'']"
  unfolding coherent_def
  by (intro exI conjI allI, rule getUnstakeInstructionAsync_def, rule parseUnstakeInstruction_def)
     (simp_all add: layout_ok_def getUnstakeInstructionDataEncoder_def getUnstakeInstructionDataDecoder_def
        UNSTAKE_DISCRIMINATOR_def)

lemma unstake_coherent:
  "coherent getUnstakeInstruction parseUnstakeInstruction getUnstakeInstructionDataEncoder UNSTAKE_DISCRIMINATOR
     [''staker'', ''config'', ''stakePool'', ''stakeAccount'', ''stakerTokenAccount'',
      ''stakerRewardAccount'', ''stakeVault'', ''rewardVault'', ''solansMint'', ''paymentMint'',
      ''tokenProgram'']"
  unfolding coherent_def
  by (intro exI conjI allI, rule getUnstakeInstruction_def, rule parseUnstakeInstruction_def)
     (simp_all add: layout_ok_def getUnstakeInstructionDataEncoder_def getUnstakeInstructionDataDecoder_def
        UNSTAKE_DISCRIMINATOR_def)

lemma claimRewardsAsync_coherent:
  "coherent getClaimRewardsInstructionAsync parseClaimRewardsInstruction getClaimRewardsInstructionDataEncoder CLAIM_REWARDS_DISCRIMINATOR
     [''staker'', ''config'', ''stakePool'', ''stakeAccount'', ''stakerRewardAccount'',
      ''rewardVault'', ''paymentMint'', ''tokenProgram'']"
  unfolding coherent_def
  by (intro exI conjI allI, rule getClaimRewardsInstructionAsync_def, rule parseClaimRewardsInstruction_def)
     (simp_all add: layout_ok_def getClaimRewardsInstructionDataEncoder_def getClaimRewardsInstructionDataDecoder_def
        CLAIM_REWARDS_DISCRIMINATOR_def)

lemma claimRewards_coherent:
  "coherent getClaimRewardsInstruction parseClaimRewardsInstruction getClaimRewardsInstructionDataEncoder CLAIM_REWARDS_DISCRIMINATOR
     [''staker'', ''config'', ''stakePool'', ''stakeAccount'', ''stakerRewardAccount'',
      ''rewardVault'', ''paymentMint'', ''tokenProgram'']"
  unfolding coherent_def
  by (intro exI conjI allI, rule getClaimRewardsInstruction_def, rule parseClaimRewardsInstruction_def)
     (simp_all add: layout_ok_def getClaimRewardsInstructionDataEncoder_def getClaimRewardsInstructionDataDecoder_def
        CLAIM_REWARDS_DISCRIMINATOR_def)

end
