(* ===== verification/Programs.thy ===== *)
theory Programs
  imports Samples Name_Instructions Market_Instructions Admin_Instructions
begin

text \<open>
  \<open>clients/ts/src/generated/programs/solans.ts\<close>: the enumeration of the program's instructions and
  \<open>identifySolansInstruction\<close>, whose cascade of comparisons repeats the discriminators as inline
  constants. \<open>instruction_table\<close> lists every builder with its parser, encoder and discriminator; the
  lemmas show that what a builder emits is identified as its own variant and parsed back.
\<close>

section \<open>Definitions\<close>

datatype SolansInstruction =
    AcceptOffer | AutoRenew | Bid | BurnName | BuyName | BuybackBurn | CancelAuction | CancelListing
  | CancelOffer | ClaimExpired | ClaimRewards | InitBurnPool | InitConfig | InitStakePool
  | ListName | LockTransfer | MakeOffer | RedeemName | RegisterName | RegisterWithSolans
  | RenewName | RenewWithSolans | Resolve | RevokeSubdomain | SetController | SetHosting
  | SetResolver | SetReverse | SetSolansParams | SettleAuction | Stake | StartAuction
  | TokenizeName | TransferAdmin | TransferName | Unstake | UpdateConfig | UpdateListing
  | UpdateRecord | WrapSubdomain

definition identify_tests_1 :: "(bytes \<times> SolansInstruction) list" where
  "identify_tests_1 = [
     ([227, 82, 234, 131, 1, 18, 48, 2], AcceptOffer),
     ([95, 201, 47, 51, 62, 31, 63, 37], AutoRenew),
     ([199, 56, 85, 38, 146, 243, 37, 158], Bid),
     ([105, 235, 154, 87, 48, 149, 178, 40], BurnName),
     ([51, 244, 250, 246, 119, 54, 246, 23], BuyName),
     ([20, 254, 58, 252, 209, 32, 111, 97], BuybackBurn),
     ([156, 43, 197, 110, 218, 105, 143, 182], CancelAuction),
     ([41, 183, 50, 232, 230, 233, 157, 70], CancelListing),
     ([92, 203, 223, 40, 92, 89, 53, 119], CancelOffer),
     ([124, 78, 197, 187, 210, 66, 255, 1], ClaimExpired)]"

definition identify_tests_2 :: "(bytes \<times> SolansInstruction) list" where
  "identify_tests_2 = [
     ([4, 144, 132, 71, 116, 23, 151, 80], ClaimRewards),
     ([133, 239, 244, 64, 49, 161, 219, 25], InitBurnPool),
     ([23, 235, 115, 232, 168, 96, 1, 231], InitConfig),
     ([145, 69, 167, 211, 154, 130, 73, 50], InitStakePool),
     ([246, 122, 32, 41, 48, 9, 211, 11], ListName),
     ([141, 30, 149, 158, 41, 243, 55, 225], LockTransfer),
     ([214, 98, 97, 35, 59, 12, 44, 178], MakeOffer),
     ([54, 86, 206, 50, 162, 148, 156, 25], RedeemName),
     ([101, 120, 221, 151, 68, 123, 191, 103], RegisterName),
     ([16, 245, 158, 68, 101, 91, 138, 215], RegisterWithSolans)]"

definition identify_tests_3 :: "(bytes \<times> SolansInstruction) list" where
  "identify_tests_3 = [
     ([236, 176, 53, 141, 135, 23, 77, 87], RenewName),
     ([216, 153, 16, 43, 181, 31, 35, 80], RenewWithSolans),
     ([246, 150, 236, 206, 108, 63, 58, 10], Resolve),
     ([161, 15, 96, 214, 145, 88, 83, 118], RevokeSubdomain),
     ([137, 23, 18, 149, 54, 29, 195, 165], SetController),
     ([213, 38, 154, 154, 19, 200, 116, 114], SetHosting),
     ([137, 108, 27, 51, 202, 16, 33, 119], SetResolver),
     ([75, 137, 158, 195, 18, 45, 48, 16], SetReverse),
     ([91, 68, 181, 191, 248, 118, 235, 102], SetSolansParams),
     ([246, 196, 183, 98, 222, 139, 46, 133], SettleAuction)]"

definition identify_tests_4 :: "(bytes \<times> SolansInstruction) list" where
  "identify_tests_4 = [
     ([206, 176, 202, 18, 200, 209, 179, 108], Stake),
     ([255, 2, 149, 136, 148, 125, 65, 195], StartAuction),
     ([161, 164, 31, 49, 167, 4, 117, 23], TokenizeName),
     ([42, 242, 66, 106, 228, 10, 111, 156], TransferAdmin),
     ([32, 215, 182, 130, 12, 106, 157, 75], TransferName),
     ([90, 95, 107, 42, 205, 124, 50, 225], Unstake),
     ([29, 158, 252, 191, 10, 83, 219, 99], UpdateConfig),
     ([192, 174, 210, 68, 116, 40, 242, 253], UpdateListing),
     ([54, 194, 108, 162, 199, 12, 5, 60], UpdateRecord),
     ([176, 182, 82, 241, 229, 46, 229, 5], WrapSubdomain)]"

definition identify_table :: "(bytes \<times> SolansInstruction) list" where
  "identify_table = identify_tests_1 @ identify_tests_2 @ identify_tests_3 @ identify_tests_4"

definition identifySolansInstruction :: "kit \<Rightarrow> bytes \<Rightarrow> SolansInstruction res" where
  "identifySolansInstruction K = identify_first K identify_table"

section \<open>The builders of the program\<close>

definition parsers_1 :: "(SolansInstruction \<times> (kit \<Rightarrow> instruction \<Rightarrow> parsedIx res)) list" where
  "parsers_1 = [
     (AcceptOffer, parseAcceptOfferInstruction),
     (AutoRenew, parseAutoRenewInstruction),
     (Bid, parseBidInstruction),
     (BurnName, parseBurnNameInstruction),
     (BuyName, parseBuyNameInstruction),
     (BuybackBurn, parseBuybackBurnInstruction),
     (CancelAuction, parseCancelAuctionInstruction),
     (CancelListing, parseCancelListingInstruction),
     (CancelOffer, parseCancelOfferInstruction),
     (ClaimExpired, parseClaimExpiredInstruction),
     (ClaimRewards, parseClaimRewardsInstruction),
     (InitBurnPool, parseInitBurnPoolInstruction),
     (InitConfig, parseInitConfigInstruction),
     (InitStakePool, parseInitStakePoolInstruction),
     (ListName, parseListNameInstruction),
     (LockTransfer, parseLockTransferInstruction),
     (MakeOffer, parseMakeOfferInstruction),
     (RedeemName, parseRedeemNameInstruction),
     (RegisterName, parseRegisterNameInstruction),
     (RegisterWithSolans, parseRegisterWithSolansInstruction)]"

definition parsers_2 :: "(SolansInstruction \<times> (kit \<Rightarrow> instruction \<Rightarrow> parsedIx res)) list" where
  "parsers_2 = [
     (RenewName, parseRenewNameInstruction),
     (RenewWithSolans, parseRenewWithSolansInstruction),
     (Resolve, parseResolveInstruction),
     (RevokeSubdomain, parseRevokeSubdomainInstruction),
     (SetController, parseSetControllerInstruction),
     (SetHosting, parseSetHostingInstruction),
     (SetResolver, parseSetResolverInstruction),
     (SetReverse, parseSetReverseInstruction),
     (SetSolansParams, parseSetSolansParamsInstruction),
     (SettleAuction, parseSettleAuctionInstruction),
     (Stake, parseStakeInstruction),
     (StartAuction, parseStartAuctionInstruction),
     (TokenizeName, parseTokenizeNameInstruction),
     (TransferAdmin, parseTransferAdminInstruction),
     (TransferName, parseTransferNameInstruction),
     (Unstake, parseUnstakeInstruction),
     (UpdateConfig, parseUpdateConfigInstruction),
     (UpdateListing, parseUpdateListingInstruction),
     (UpdateRecord, parseUpdateRecordInstruction),
     (WrapSubdomain, parseWrapSubdomainInstruction)]"

definition unrecognized_type :: js_error where
  "unrecognized_type = JsError (js ''SOLANA_ERROR__PROGRAM_CLIENTS__UNRECOGNIZED_INSTRUCTION_TYPE'')"

text \<open>\<open>parseSolansInstruction\<close> of the generated client: the switch over the identified type. (The indexer has a
  function of the same name, in the theory \<open>Indexer\<close>.)\<close>

definition parseInstruction :: "kit \<Rightarrow> instruction \<Rightarrow> (SolansInstruction \<times> parsedIx) res" where
  "parseInstruction K ix =
     bind_res (identifySolansInstruction K (ix_data ix)) (\<lambda>instructionType.
       case map_of (parsers_1 @ parsers_2) instructionType of
         None \<Rightarrow> Inl unrecognized_type
       | Some parse \<Rightarrow> bind_res (parse K ix) (\<lambda>p. Inr (instructionType, p)))"

definition instruction_table ::
  "(SolansInstruction \<times> (kit \<Rightarrow> ixInput \<Rightarrow> instruction res) \<times> (kit \<Rightarrow> instruction \<Rightarrow> parsedIx res) \<times>
    codec \<times> bytes) list" where
  "instruction_table = [
     (AcceptOffer, getAcceptOfferInstructionAsync, parseAcceptOfferInstruction,
      getAcceptOfferInstructionDataEncoder, ACCEPT_OFFER_DISCRIMINATOR),
     (AcceptOffer, getAcceptOfferInstruction, parseAcceptOfferInstruction,
      getAcceptOfferInstructionDataEncoder, ACCEPT_OFFER_DISCRIMINATOR),
     (AutoRenew, getAutoRenewInstructionAsync, parseAutoRenewInstruction,
      getAutoRenewInstructionDataEncoder, AUTO_RENEW_DISCRIMINATOR),
     (AutoRenew, getAutoRenewInstruction, parseAutoRenewInstruction,
      getAutoRenewInstructionDataEncoder, AUTO_RENEW_DISCRIMINATOR),
     (Bid, getBidInstruction, parseBidInstruction,
      getBidInstructionDataEncoder, BID_DISCRIMINATOR),
     (BurnName, getBurnNameInstruction, parseBurnNameInstruction,
      getBurnNameInstructionDataEncoder, BURN_NAME_DISCRIMINATOR),
     (BuyName, getBuyNameInstructionAsync, parseBuyNameInstruction,
      getBuyNameInstructionDataEncoder, BUY_NAME_DISCRIMINATOR),
     (BuyName, getBuyNameInstruction, parseBuyNameInstruction,
      getBuyNameInstructionDataEncoder, BUY_NAME_DISCRIMINATOR),
     (BuybackBurn, getBuybackBurnInstructionAsync, parseBuybackBurnInstruction,
      getBuybackBurnInstructionDataEncoder, BUYBACK_BURN_DISCRIMINATOR),
     (BuybackBurn, getBuybackBurnInstruction, parseBuybackBurnInstruction,
      getBuybackBurnInstructionDataEncoder, BUYBACK_BURN_DISCRIMINATOR),
     (CancelAuction, getCancelAuctionInstruction, parseCancelAuctionInstruction,
      getCancelAuctionInstructionDataEncoder, CANCEL_AUCTION_DISCRIMINATOR),
     (CancelListing, getCancelListingInstruction, parseCancelListingInstruction,
      getCancelListingInstructionDataEncoder, CANCEL_LISTING_DISCRIMINATOR),
     (CancelOffer, getCancelOfferInstruction, parseCancelOfferInstruction,
      getCancelOfferInstructionDataEncoder, CANCEL_OFFER_DISCRIMINATOR),
     (ClaimExpired, getClaimExpiredInstructionAsync, parseClaimExpiredInstruction,
      getClaimExpiredInstructionDataEncoder, CLAIM_EXPIRED_DISCRIMINATOR),
     (ClaimExpired, getClaimExpiredInstruction, parseClaimExpiredInstruction,
      getClaimExpiredInstructionDataEncoder, CLAIM_EXPIRED_DISCRIMINATOR),
     (ClaimRewards, getClaimRewardsInstructionAsync, parseClaimRewardsInstruction,
      getClaimRewardsInstructionDataEncoder, CLAIM_REWARDS_DISCRIMINATOR),
     (ClaimRewards, getClaimRewardsInstruction, parseClaimRewardsInstruction,
      getClaimRewardsInstructionDataEncoder, CLAIM_REWARDS_DISCRIMINATOR),
     (InitBurnPool, getInitBurnPoolInstructionAsync, parseInitBurnPoolInstruction,
      getInitBurnPoolInstructionDataEncoder, INIT_BURN_POOL_DISCRIMINATOR),
     (InitBurnPool, getInitBurnPoolInstruction, parseInitBurnPoolInstruction,
      getInitBurnPoolInstructionDataEncoder, INIT_BURN_POOL_DISCRIMINATOR),
     (InitConfig, getInitConfigInstructionAsync, parseInitConfigInstruction,
      getInitConfigInstructionDataEncoder, INIT_CONFIG_DISCRIMINATOR),
     (InitConfig, getInitConfigInstruction, parseInitConfigInstruction,
      getInitConfigInstructionDataEncoder, INIT_CONFIG_DISCRIMINATOR),
     (InitStakePool, getInitStakePoolInstructionAsync, parseInitStakePoolInstruction,
      getInitStakePoolInstructionDataEncoder, INIT_STAKE_POOL_DISCRIMINATOR),
     (InitStakePool, getInitStakePoolInstruction, parseInitStakePoolInstruction,
      getInitStakePoolInstructionDataEncoder, INIT_STAKE_POOL_DISCRIMINATOR),
     (ListName, getListNameInstruction, parseListNameInstruction,
      getListNameInstructionDataEncoder, LIST_NAME_DISCRIMINATOR),
     (LockTransfer, getLockTransferInstruction, parseLockTransferInstruction,
      getLockTransferInstructionDataEncoder, LOCK_TRANSFER_DISCRIMINATOR),
     (MakeOffer, getMakeOfferInstruction, parseMakeOfferInstruction,
      getMakeOfferInstructionDataEncoder, MAKE_OFFER_DISCRIMINATOR),
     (RedeemName, getRedeemNameInstructionAsync, parseRedeemNameInstruction,
      getRedeemNameInstructionDataEncoder, REDEEM_NAME_DISCRIMINATOR),
     (RedeemName, getRedeemNameInstruction, parseRedeemNameInstruction,
      getRedeemNameInstructionDataEncoder, REDEEM_NAME_DISCRIMINATOR),
     (RegisterName, getRegisterNameInstructionAsync, parseRegisterNameInstruction,
      getRegisterNameInstructionDataEncoder, REGISTER_NAME_DISCRIMINATOR),
     (RegisterName, getRegisterNameInstruction, parseRegisterNameInstruction,
      getRegisterNameInstructionDataEncoder, REGISTER_NAME_DISCRIMINATOR),
     (RegisterWithSolans, getRegisterWithSolansInstructionAsync, parseRegisterWithSolansInstruction,
      getRegisterWithSolansInstructionDataEncoder, REGISTER_WITH_SOLANS_DISCRIMINATOR),
     (RegisterWithSolans, getRegisterWithSolansInstruction, parseRegisterWithSolansInstruction,
      getRegisterWithSolansInstructionDataEncoder, REGISTER_WITH_SOLANS_DISCRIMINATOR),
     (RenewName, getRenewNameInstructionAsync, parseRenewNameInstruction,
      getRenewNameInstructionDataEncoder, RENEW_NAME_DISCRIMINATOR),
     (RenewName, getRenewNameInstruction, parseRenewNameInstruction,
      getRenewNameInstructionDataEncoder, RENEW_NAME_DISCRIMINATOR),
     (RenewWithSolans, getRenewWithSolansInstructionAsync, parseRenewWithSolansInstruction,
      getRenewWithSolansInstructionDataEncoder, RENEW_WITH_SOLANS_DISCRIMINATOR),
     (RenewWithSolans, getRenewWithSolansInstruction, parseRenewWithSolansInstruction,
      getRenewWithSolansInstructionDataEncoder, RENEW_WITH_SOLANS_DISCRIMINATOR),
     (Resolve, getResolveInstruction, parseResolveInstruction,
      getResolveInstructionDataEncoder, RESOLVE_DISCRIMINATOR),
     (RevokeSubdomain, getRevokeSubdomainInstruction, parseRevokeSubdomainInstruction,
      getRevokeSubdomainInstructionDataEncoder, REVOKE_SUBDOMAIN_DISCRIMINATOR),
     (SetController, getSetControllerInstruction, parseSetControllerInstruction,
      getSetControllerInstructionDataEncoder, SET_CONTROLLER_DISCRIMINATOR),
     (SetHosting, getSetHostingInstruction, parseSetHostingInstruction,
      getSetHostingInstructionDataEncoder, SET_HOSTING_DISCRIMINATOR),
     (SetResolver, getSetResolverInstruction, parseSetResolverInstruction,
      getSetResolverInstructionDataEncoder, SET_RESOLVER_DISCRIMINATOR),
     (SetReverse, getSetReverseInstructionAsync, parseSetReverseInstruction,
      getSetReverseInstructionDataEncoder, SET_REVERSE_DISCRIMINATOR),
     (SetReverse, getSetReverseInstruction, parseSetReverseInstruction,
      getSetReverseInstructionDataEncoder, SET_REVERSE_DISCRIMINATOR),
     (SetSolansParams, getSetSolansParamsInstructionAsync, parseSetSolansParamsInstruction,
      getSetSolansParamsInstructionDataEncoder, SET_SOLANS_PARAMS_DISCRIMINATOR),
     (SetSolansParams, getSetSolansParamsInstruction, parseSetSolansParamsInstruction,
      getSetSolansParamsInstructionDataEncoder, SET_SOLANS_PARAMS_DISCRIMINATOR),
     (SettleAuction, getSettleAuctionInstructionAsync, parseSettleAuctionInstruction,
      getSettleAuctionInstructionDataEncoder, SETTLE_AUCTION_DISCRIMINATOR),
     (SettleAuction, getSettleAuctionInstruction, parseSettleAuctionInstruction,
      getSettleAuctionInstructionDataEncoder, SETTLE_AUCTION_DISCRIMINATOR),
     (Stake, getStakeInstructionAsync, parseStakeInstruction,
      getStakeInstructionDataEncoder, STAKE_DISCRIMINATOR),
     (Stake, getStakeInstruction, parseStakeInstruction,
      getStakeInstructionDataEncoder, STAKE_DISCRIMINATOR),
     (StartAuction, getStartAuctionInstructionAsync, parseStartAuctionInstruction,
      getStartAuctionInstructionDataEncoder, START_AUCTION_DISCRIMINATOR),
     (StartAuction, getStartAuctionInstruction, parseStartAuctionInstruction,
      getStartAuctionInstructionDataEncoder, START_AUCTION_DISCRIMINATOR),
     (TokenizeName, getTokenizeNameInstructionAsync, parseTokenizeNameInstruction,
      getTokenizeNameInstructionDataEncoder, TOKENIZE_NAME_DISCRIMINATOR),
     (TokenizeName, getTokenizeNameInstruction, parseTokenizeNameInstruction,
      getTokenizeNameInstructionDataEncoder, TOKENIZE_NAME_DISCRIMINATOR),
     (TransferAdmin, getTransferAdminInstructionAsync, parseTransferAdminInstruction,
      getTransferAdminInstructionDataEncoder, TRANSFER_ADMIN_DISCRIMINATOR),
     (TransferAdmin, getTransferAdminInstruction, parseTransferAdminInstruction,
      getTransferAdminInstructionDataEncoder, TRANSFER_ADMIN_DISCRIMINATOR),
     (TransferName, getTransferNameInstruction, parseTransferNameInstruction,
      getTransferNameInstructionDataEncoder, TRANSFER_NAME_DISCRIMINATOR),
     (Unstake, getUnstakeInstructionAsync, parseUnstakeInstruction,
      getUnstakeInstructionDataEncoder, UNSTAKE_DISCRIMINATOR),
     (Unstake, getUnstakeInstruction, parseUnstakeInstruction,
      getUnstakeInstructionDataEncoder, UNSTAKE_DISCRIMINATOR),
     (UpdateConfig, getUpdateConfigInstructionAsync, parseUpdateConfigInstruction,
      getUpdateConfigInstructionDataEncoder, UPDATE_CONFIG_DISCRIMINATOR),
     (UpdateConfig, getUpdateConfigInstruction, parseUpdateConfigInstruction,
      getUpdateConfigInstructionDataEncoder, UPDATE_CONFIG_DISCRIMINATOR),
     (UpdateListing, getUpdateListingInstruction, parseUpdateListingInstruction,
      getUpdateListingInstructionDataEncoder, UPDATE_LISTING_DISCRIMINATOR),
     (UpdateRecord, getUpdateRecordInstruction, parseUpdateRecordInstruction,
      getUpdateRecordInstructionDataEncoder, UPDATE_RECORD_DISCRIMINATOR),
     (WrapSubdomain, getWrapSubdomainInstructionAsync, parseWrapSubdomainInstruction,
      getWrapSubdomainInstructionDataEncoder, WRAP_SUBDOMAIN_DISCRIMINATOR),
     (WrapSubdomain, getWrapSubdomainInstruction, parseWrapSubdomainInstruction,
      getWrapSubdomainInstructionDataEncoder, WRAP_SUBDOMAIN_DISCRIMINATOR)]"

section \<open>Lemmas\<close>

lemmas identify_table_defs =
  identify_table_def identify_tests_1_def identify_tests_2_def identify_tests_3_def identify_tests_4_def

lemma identify_table_lengths: "\<forall>(d, v) \<in> set identify_table. length d = 8"
  by (simp add: identify_table_defs)

lemma identify_table_distinct: "distinct (map fst identify_table)"
  by (simp add: identify_table_defs)

lemma identify_tag:
  "kit_ok K \<Longrightarrow> (d, v) \<in> set identify_table \<Longrightarrow> identifySolansInstruction K (d @ bs) = Inr v"
  unfolding identifySolansInstruction_def
  by (rule identify_first_tag[OF _ identify_table_lengths identify_table_distinct])

lemmas discriminator_defs =
  ACCEPT_OFFER_DISCRIMINATOR_def
  AUTO_RENEW_DISCRIMINATOR_def
  BID_DISCRIMINATOR_def
  BURN_NAME_DISCRIMINATOR_def
  BUY_NAME_DISCRIMINATOR_def
  BUYBACK_BURN_DISCRIMINATOR_def
  CANCEL_AUCTION_DISCRIMINATOR_def
  CANCEL_LISTING_DISCRIMINATOR_def
  CANCEL_OFFER_DISCRIMINATOR_def
  CLAIM_EXPIRED_DISCRIMINATOR_def
  CLAIM_REWARDS_DISCRIMINATOR_def
  INIT_BURN_POOL_DISCRIMINATOR_def
  INIT_CONFIG_DISCRIMINATOR_def
  INIT_STAKE_POOL_DISCRIMINATOR_def
  LIST_NAME_DISCRIMINATOR_def
  LOCK_TRANSFER_DISCRIMINATOR_def
  MAKE_OFFER_DISCRIMINATOR_def
  REDEEM_NAME_DISCRIMINATOR_def
  REGISTER_NAME_DISCRIMINATOR_def
  REGISTER_WITH_SOLANS_DISCRIMINATOR_def
  RENEW_NAME_DISCRIMINATOR_def
  RENEW_WITH_SOLANS_DISCRIMINATOR_def
  RESOLVE_DISCRIMINATOR_def
  REVOKE_SUBDOMAIN_DISCRIMINATOR_def
  SET_CONTROLLER_DISCRIMINATOR_def
  SET_HOSTING_DISCRIMINATOR_def
  SET_RESOLVER_DISCRIMINATOR_def
  SET_REVERSE_DISCRIMINATOR_def
  SET_SOLANS_PARAMS_DISCRIMINATOR_def
  SETTLE_AUCTION_DISCRIMINATOR_def
  STAKE_DISCRIMINATOR_def
  START_AUCTION_DISCRIMINATOR_def
  TOKENIZE_NAME_DISCRIMINATOR_def
  TRANSFER_ADMIN_DISCRIMINATOR_def
  TRANSFER_NAME_DISCRIMINATOR_def
  UNSTAKE_DISCRIMINATOR_def
  UPDATE_CONFIG_DISCRIMINATOR_def
  UPDATE_LISTING_DISCRIMINATOR_def
  UPDATE_RECORD_DISCRIMINATOR_def
  WRAP_SUBDOMAIN_DISCRIMINATOR_def

lemmas coherent_lemmas =
  acceptOfferAsync_coherent
  acceptOffer_coherent
  autoRenewAsync_coherent
  autoRenew_coherent
  bid_coherent
  burnName_coherent
  buyNameAsync_coherent
  buyName_coherent
  buybackBurnAsync_coherent
  buybackBurn_coherent
  cancelAuction_coherent
  cancelListing_coherent
  cancelOffer_coherent
  claimExpiredAsync_coherent
  claimExpired_coherent
  claimRewardsAsync_coherent
  claimRewards_coherent
  initBurnPoolAsync_coherent
  initBurnPool_coherent
  initConfigAsync_coherent
  initConfig_coherent
  initStakePoolAsync_coherent
  initStakePool_coherent
  listName_coherent
  lockTransfer_coherent
  makeOffer_coherent
  redeemNameAsync_coherent
  redeemName_coherent
  registerNameAsync_coherent
  registerName_coherent
  registerWithSolansAsync_coherent
  registerWithSolans_coherent
  renewNameAsync_coherent
  renewName_coherent
  renewWithSolansAsync_coherent
  renewWithSolans_coherent
  resolve_coherent
  revokeSubdomain_coherent
  setController_coherent
  setHosting_coherent
  setResolver_coherent
  setReverseAsync_coherent
  setReverse_coherent
  setSolansParamsAsync_coherent
  setSolansParams_coherent
  settleAuctionAsync_coherent
  settleAuction_coherent
  stakeAsync_coherent
  stake_coherent
  startAuctionAsync_coherent
  startAuction_coherent
  tokenizeNameAsync_coherent
  tokenizeName_coherent
  transferAdminAsync_coherent
  transferAdmin_coherent
  transferName_coherent
  unstakeAsync_coherent
  unstake_coherent
  updateConfigAsync_coherent
  updateConfig_coherent
  updateListing_coherent
  updateRecord_coherent
  wrapSubdomainAsync_coherent
  wrapSubdomain_coherent

lemma coherent_ex: "coherent build parse encoder disc r \<Longrightarrow> \<exists>r. coherent build parse encoder disc r"
  by blast

lemma table_coherent:
  "list_all (\<lambda>(v, build, parse, encoder, disc). \<exists>required. coherent build parse encoder disc required)
     instruction_table"
  unfolding instruction_table_def list.pred_inject prod.case
  by (simp add: coherent_lemmas[THEN coherent_ex])

lemma table_identified:
  "list_all (\<lambda>(v, build, parse, encoder, disc). (disc, v) \<in> set identify_table) instruction_table"
  unfolding instruction_table_def list.pred_inject prod.case
  by (simp add: identify_table_defs discriminator_defs)

lemma table_parsed:
  "list_all (\<lambda>(v, build, parse, encoder, disc). map_of (parsers_1 @ parsers_2) v = Some parse) instruction_table"
  unfolding instruction_table_def list.pred_inject prod.case
  by (simp add: parsers_1_def parsers_2_def)

section \<open>A sample input\<close>

definition sample_transfer :: ixInput where
  "sample_transfer = \<lparr>in_account = [''owner'' \<mapsto> SignerI sample_wallet, ''nameRecord'' \<mapsto> AddrI sample_address],
     in_arg = [''newOwner'' \<mapsto> VAddr sample_wallet], in_programAddress = None\<rparr>"

lemma sample_transfer_built: "\<exists>ix. getTransferNameInstruction ref_kit sample_transfer = Inr ix"
  by (simp add: getTransferNameInstruction_def build_ix_def sample_transfer_def encode_data_def
      getTransferNameInstructionDataEncoder_def ref_kit_def)

text \<open>Instruction data is identified as a variant exactly when its first eight bytes are that variant's discriminator, and rejected when they are no discriminator of the program.\<close>

lemma identifySolansInstruction_exact:
  assumes "kit_ok K"
  shows "identifySolansInstruction K data = Inr v \<longleftrightarrow> (take 8 data, v) \<in> set identify_table"
proof -
  note D = identify_table_distinct and T = identify_first_eq[OF assms identify_table_lengths, of data]
  show ?thesis
  proof
    assume "identifySolansInstruction K data = Inr v"
    then obtain d where f: "find (\<lambda>(d, v). take 8 data = d) identify_table = Some (d, v)"
      unfolding identifySolansInstruction_def T by (auto split: option.splits)
    from find_Some[OF f] show "(take 8 data, v) \<in> set identify_table" by simp
  next
    assume m: "(take 8 data, v) \<in> set identify_table"
    from identify_tag[OF assms m, of "drop 8 data"] show "identifySolansInstruction K data = Inr v" by simp
  qed
qed

section \<open>Properties\<close>

text \<open>C17: Every account type: the bytes its encoder gives for a value that fits the codec are identified as that account type and decode back to the value, with the discriminator stamped.\<close>

theorem account_codecs_roundtrip:
  assumes "kit_ok K"
  shows "(nameRecord_ok K n \<longrightarrow> (\<exists>bs. encodeNameRecord K n = Inr bs \<and> identifySolansAccount K bs = Inr NameRecord \<and>
       decodeNameRecord K bs = Inr (n\<lparr>nr_discriminator := NAME_RECORD_DISCRIMINATOR\<rparr>))) \<and>
     (config_ok K c \<longrightarrow> (\<exists>bs. encodeConfig K c = Inr bs \<and> identifySolansAccount K bs = Inr Config \<and>
       decodeConfig K bs = Inr (c\<lparr>cfg_discriminator := CONFIG_DISCRIMINATOR\<rparr>))) \<and>
     (listing_ok K l \<longrightarrow> (\<exists>bs. encodeListing K l = Inr bs \<and> identifySolansAccount K bs = Inr Listing \<and>
       decodeListing K bs = Inr (l\<lparr>ls_discriminator := LISTING_DISCRIMINATOR\<rparr>))) \<and>
     (offer_ok K f \<longrightarrow> (\<exists>bs. encodeOffer K f = Inr bs \<and> identifySolansAccount K bs = Inr Offer \<and>
       decodeOffer K bs = Inr (f\<lparr>of_discriminator := OFFER_DISCRIMINATOR\<rparr>))) \<and>
     (auction_ok K a \<longrightarrow> (\<exists>bs. encodeAuction K a = Inr bs \<and> identifySolansAccount K bs = Inr Auction \<and>
       decodeAuction K bs = Inr (a\<lparr>au_discriminator := AUCTION_DISCRIMINATOR\<rparr>))) \<and>
     (reverseRecord_ok K r \<longrightarrow> (\<exists>bs. encodeReverseRecord K r = Inr bs \<and> identifySolansAccount K bs = Inr ReverseRecord \<and>
       decodeReverseRecord K bs = Inr (r\<lparr>rv_discriminator := REVERSE_RECORD_DISCRIMINATOR\<rparr>))) \<and>
     (stakePool_ok K p \<longrightarrow> (\<exists>bs. encodeStakePool K p = Inr bs \<and> identifySolansAccount K bs = Inr StakePool \<and>
       decodeStakePool K bs = Inr (p\<lparr>sp_discriminator := STAKE_POOL_DISCRIMINATOR\<rparr>))) \<and>
     (stakeAccount_ok K s \<longrightarrow> (\<exists>bs. encodeStakeAccount K s = Inr bs \<and> identifySolansAccount K bs = Inr StakeAccount \<and>
       decodeStakeAccount K bs = Inr (s\<lparr>sa_discriminator := STAKE_ACCOUNT_DISCRIMINATOR\<rparr>)))"
  by (intro conjI impI account_whole) (use assms in \<open>simp_all add: identify_account\<close>)

theorem account_codecs_roundtrip_witness:
  "(\<exists>bs. encodeNameRecord ref_kit sample_record = Inr bs \<and> identifySolansAccount ref_kit bs = Inr NameRecord \<and>
     decodeNameRecord ref_kit bs = Inr sample_record) \<and>
   (\<exists>bs. encodeStakePool ref_kit sample_pool = Inr bs \<and> identifySolansAccount ref_kit bs = Inr StakePool \<and>
     decodeStakePool ref_kit bs = Inr sample_pool)"
  using account_codecs_roundtrip[OF ref_kit_ok, of sample_record sample_config _ _ _ _ sample_pool sample_stake]
  by (simp add: sample_record_ok sample_pool_ok sample_stamped)

text \<open>C18: Every instruction of the generated client: what a builder builds, the identifier identifies as that instruction, and the parser of the same file accepts and returns with the arguments the builder was given.\<close>

theorem built_instructions_identified_and_parsed:
  assumes "kit_ok K" "(v, build, parse, encoder, disc) \<in> set instruction_table"
    "args_ok K encoder inp" "in_programAddress inp = None" "build K inp = Inr ix"
  shows "identifySolansInstruction K (ix_data ix) = Inr v \<and> ix_programAddress ix = SOLANS_PROGRAM_ADDRESS \<and>
    (\<exists>p. parse K ix = Inr p \<and> parseInstruction K ix = Inr (v, p) \<and>
       (\<forall>f \<in> set (map fst (arg_fields encoder)). f \<noteq> ''discriminator'' \<longrightarrow> in_arg inp f = Some (fld f (px_data p))))"
proof -
  obtain required where c: "coherent build parse encoder disc required"
    using assms(2) table_coherent by (auto simp: list_all_iff)
  have "(disc, v) \<in> set identify_table" using assms(2) table_identified by (auto simp: list_all_iff)
  moreover have "map_of (parsers_1 @ parsers_2) v = Some parse" using assms(2) table_parsed by (auto simp: list_all_iff)
  ultimately show ?thesis
    using coherent_roundtrip[OF assms(1) c assms(3-5)] identify_tag[OF assms(1)] by (fastforce simp: parseInstruction_def)
qed

theorem built_instructions_identified_and_parsed_witness:
  "\<exists>ix p. getTransferNameInstruction ref_kit sample_transfer = Inr ix \<and>
     identifySolansInstruction ref_kit (ix_data ix) = Inr TransferName \<and>
     parseTransferNameInstruction ref_kit ix = Inr p \<and> fld ''newOwner'' (px_data p) = VAddr sample_wallet"
proof -
  have t: "(TransferName, getTransferNameInstruction, parseTransferNameInstruction,
      getTransferNameInstructionDataEncoder, TRANSFER_NAME_DISCRIMINATOR) \<in> set instruction_table"
    by (simp add: instruction_table_def)
  have a: "args_ok ref_kit getTransferNameInstructionDataEncoder sample_transfer"
    by (simp add: args_ok_def getTransferNameInstructionDataEncoder_def sample_transfer_def ref_kit_def)
  have p: "in_programAddress sample_transfer = None" by (simp add: sample_transfer_def)
  obtain ix where ix: "getTransferNameInstruction ref_kit sample_transfer = Inr ix"
    using sample_transfer_built by blast
  from built_instructions_identified_and_parsed[OF ref_kit_ok t a p ix] ix show ?thesis
    by (fastforce simp: getTransferNameInstructionDataEncoder_def sample_transfer_def)
qed

end
