(* ===== verification/Client.thy ===== *)
theory Client
  imports Samples Program
begin

text \<open>
  The SDK's read API (\<open>clients/sdk/src/client.ts\<close>). The \<open>AccountFetcher\<close> of a \<open>SolansClient\<close> is the
  function \<open>fetch\<close>: it returns the account's data, \<open>None\<close> when \<open>exists\<close> is false, or the rejection of
  the promise. One fetcher value is one state of the chain.

  The \<open>for\<close> loop of \<open>resolve\<close> follows \<open>parent\<close> pointers the fetcher supplies, so nothing in the code
  bounds it: \<open>resolve_loop\<close> is a \<open>partial_function\<close> whose value \<open>None\<close> is "does not return". It is
  proved to return whenever the program's depth discipline holds along the chain of parents, and
  its result is characterised by the inductive relation \<open>live\<close>.
\<close>

section \<open>Prices and quotes\<close>

type_synonym fetcher = "address \<Rightarrow> bytes option res"

definition SOLANS_RATE_SCALE :: int where "SOLANS_RATE_SCALE = 1000000"
definition BPS_DENOMINATOR :: int where "BPS_DENOMINATOR = 10000"

definition priceForLen :: "config \<Rightarrow> nat \<Rightarrow> int" where
  "priceForLen cfg len =
     (if len = 1 then cfg_price1 cfg
      else if len = 2 then cfg_price2 cfg
      else if len = 3 then cfg_price3 cfg
      else if len = 4 then cfg_price4 cfg
      else cfg_price5plus cfg)"

text \<open>\<open>/^\d+$/.test(s)\<close>; without the \<open>u\<close> or \<open>i\<close> flag \<open>\d\<close> is an ASCII digit.\<close>

definition all_digits :: "jsstr \<Rightarrow> bool" where
  "all_digits s \<longleftrightarrow> s \<noteq> [] \<and> list_all (\<lambda>c. 48 \<le> c \<and> c \<le> 57) s"

definition priceForLabel :: "config \<Rightarrow> jsstr \<Rightarrow> int" where
  "priceForLabel cfg label =
     (let codePoints = label; isAscii = list_all (\<lambda>c. c < 128) codePoints in
      if \<not> isAscii then priceForLen cfg (length codePoints) * 2
      else if length label \<le> 4 \<and> all_digits label then cfg_priceNumeric cfg
      else priceForLen cfg (length label))"

text \<open>BigInt division truncates toward zero.\<close>

definition bigint_div :: "int \<Rightarrow> int \<Rightarrow> int" where
  "bigint_div a b = sgn a * sgn b * (\<bar>a\<bar> div \<bar>b\<bar>)"

section \<open>SolansClient\<close>

text \<open>\<open>const [pda] = await find..; const acct = await this.fetchAccount(pda);
  return acct.exists ? decode..(acct).data : null\<close>\<close>

definition fetch_decoded ::
  "(address \<times> int) res \<Rightarrow> fetcher \<Rightarrow> (bytes \<Rightarrow> 'a res) \<Rightarrow> 'a option res" where
  "fetch_decoded pda fetch dec =
     bind_res pda (\<lambda>(a, bump). bind_res (fetch a) (\<lambda>acct.
       case acct of None \<Rightarrow> Inr None | Some data \<Rightarrow> bind_res (dec data) (\<lambda>x. Inr (Some x))))"

partial_function (option) resolve_loop ::
  "kit \<Rightarrow> fetcher \<Rightarrow> nameRecord \<Rightarrow> nameRecord \<Rightarrow> nameRecord option res option" where
  "resolve_loop K fetch leaf cursor =
     (case nr_parent cursor of
        None \<Rightarrow> Some (Inr (Some leaf))
      | Some parent \<Rightarrow>
          (case fetch parent of
             Inl e \<Rightarrow> Some (Inl e)
           | Inr None \<Rightarrow> Some (Inr None)
           | Inr (Some data) \<Rightarrow>
               (case decodeNameRecord K data of
                  Inl e \<Rightarrow> Some (Inl e)
                | Inr prec \<Rightarrow>
                    if nr_registeredAt prec \<noteq> nr_parentRegisteredAt cursor then Some (Inr None)
                    else resolve_loop K fetch leaf prec)))"

declare resolve_loop.simps [code]

definition resolve :: "kit \<Rightarrow> unicode \<Rightarrow> fetcher \<Rightarrow> jsstr \<Rightarrow> nameRecord option res option" where
  "resolve K U fetch name =
     (case findNameRecord K U name None of
        Inl e \<Rightarrow> Some (Inl e)
      | Inr (pda, bump) \<Rightarrow>
          (case fetch pda of
             Inl e \<Rightarrow> Some (Inl e)
           | Inr None \<Rightarrow> Some (Inr None)
           | Inr (Some data) \<Rightarrow>
               (case decodeNameRecord K data of
                  Inl e \<Rightarrow> Some (Inl e)
                | Inr leaf \<Rightarrow> resolve_loop K fetch leaf leaf)))"

definition getRecords :: "kit \<Rightarrow> unicode \<Rightarrow> fetcher \<Rightarrow> jsstr \<Rightarrow> srecord list res option" where
  "getRecords K U fetch name =
     map_option (\<lambda>r. bind_res r (\<lambda>rec. Inr (case rec of None \<Rightarrow> [] | Some n \<Rightarrow> nr_records n)))
       (resolve K U fetch name)"

definition find_value :: "jsstr \<Rightarrow> srecord list \<Rightarrow> jsstr option" where
  "find_value k rs = map_option val (find (\<lambda>r. key r = k) rs)"

text \<open>The body of \<open>contentRef\<close> on a resolved record: \<open>if (hosting) return hosting\<close> skips the empty
  string, \<open>??\<close> does not.\<close>

definition content_of :: "nameRecord \<Rightarrow> jsstr option" where
  "content_of rec =
     (case nr_hostingRef rec of
        Some (c # cs) \<Rightarrow> Some (c # cs)
      | _ \<Rightarrow> (case find_value (js ''content'') (nr_records rec) of
               Some v \<Rightarrow> Some v
             | None \<Rightarrow> find_value (js ''url'') (nr_records rec)))"

definition contentRef :: "kit \<Rightarrow> unicode \<Rightarrow> fetcher \<Rightarrow> jsstr \<Rightarrow> jsstr option res option" where
  "contentRef K U fetch name =
     map_option (\<lambda>r. bind_res r (\<lambda>rec. Inr (case rec of None \<Rightarrow> None | Some n \<Rightarrow> content_of n)))
       (resolve K U fetch name)"

definition getListing :: "kit \<Rightarrow> unicode \<Rightarrow> fetcher \<Rightarrow> jsstr \<Rightarrow> listing option res" where
  "getListing K U fetch name = fetch_decoded (findListing K U name None) fetch (decodeListing K)"

definition getOffer :: "kit \<Rightarrow> unicode \<Rightarrow> fetcher \<Rightarrow> jsstr \<Rightarrow> address \<Rightarrow> offer option res" where
  "getOffer K U fetch name buyer = fetch_decoded (findOffer K U name buyer None) fetch (decodeOffer K)"

definition getAuction :: "kit \<Rightarrow> unicode \<Rightarrow> fetcher \<Rightarrow> jsstr \<Rightarrow> auction option res" where
  "getAuction K U fetch name = fetch_decoded (findAuction K U name None) fetch (decodeAuction K)"

definition getConfig :: "kit \<Rightarrow> fetcher \<Rightarrow> config option res" where
  "getConfig K fetch = fetch_decoded (findConfigPda K) fetch (decodeConfig K)"

definition not_configured :: js_error where
  "not_configured = JsError (js ''pay-in-$SOLANS is not configured'')"

definition not_initialized :: js_error where
  "not_initialized = JsError (js ''registry config is not initialized'')"

definition quoteSolansFee :: "kit \<Rightarrow> fetcher \<Rightarrow> int \<Rightarrow> int res" where
  "quoteSolansFee K fetch usdcFee =
     bind_res (getConfig K fetch) (\<lambda>c. case c of
       None \<Rightarrow> Inl not_configured
     | Some cfg \<Rightarrow>
         if cfg_solansRate cfg = 0 then Inl not_configured
         else let gross = bigint_div (usdcFee * cfg_solansRate cfg) SOLANS_RATE_SCALE
              in Inr (bigint_div (gross * (BPS_DENOMINATOR - cfg_solansDiscountBps cfg)) BPS_DENOMINATOR))"

definition quoteName :: "kit \<Rightarrow> fetcher \<Rightarrow> jsstr \<Rightarrow> int \<Rightarrow> int res" where
  "quoteName K fetch label years =
     bind_res (getConfig K fetch) (\<lambda>c. case c of
       None \<Rightarrow> Inl not_initialized
     | Some cfg \<Rightarrow> Inr (priceForLabel cfg label * years))"

definition quoteBuyback :: "kit \<Rightarrow> fetcher \<Rightarrow> int \<Rightarrow> int res" where
  "quoteBuyback K fetch solansAmount =
     bind_res (getConfig K fetch) (\<lambda>c. case c of
       None \<Rightarrow> Inl not_configured
     | Some cfg \<Rightarrow>
         if cfg_solansRate cfg = 0 then Inl not_configured
         else Inr (bigint_div (solansAmount * SOLANS_RATE_SCALE) (cfg_solansRate cfg)))"

definition getStakePool :: "kit \<Rightarrow> fetcher \<Rightarrow> stakePool option res" where
  "getStakePool K fetch = fetch_decoded (findStakePoolPda K) fetch (decodeStakePool K)"

definition getStake :: "kit \<Rightarrow> fetcher \<Rightarrow> address \<Rightarrow> stakeAccount option res" where
  "getStake K fetch staker = fetch_decoded (findStakeAccountPda K staker) fetch (decodeStakeAccount K)"

text \<open>\<open>rv.data.subarray(64, 72).reduce((a, b, i) => a + (BigInt(b) << BigInt(8 * i)), 0n)\<close>\<close>

fun reduce_le :: "nat \<Rightarrow> int \<Rightarrow> bytes \<Rightarrow> int" where
  "reduce_le i a [] = a"
| "reduce_le i a (b # bs) = reduce_le (i + 1) (a + int b * 2 ^ (8 * i)) bs"

definition token_balance :: "bytes \<Rightarrow> int" where
  "token_balance data = reduce_le 0 0 (take 8 (drop 64 data))"

definition pending_with :: "stakePool \<Rightarrow> stakeAccount \<Rightarrow> bytes option \<Rightarrow> int" where
  "pending_with pool stake rv =
     (let accPerShare =
            (if sp_totalStaked pool > 0 then
               (case rv of
                  None \<Rightarrow> sp_accRewardPerShare pool
                | Some data \<Rightarrow>
                    let bal = token_balance data;
                        delta = (if bal > sp_lastRewardBalance pool then bal - sp_lastRewardBalance pool else 0)
                    in sp_accRewardPerShare pool + bigint_div (delta * 1000000000000) (sp_totalStaked pool))
             else sp_accRewardPerShare pool);
          accrued = bigint_div (sa_amount stake * accPerShare) 1000000000000
      in if accrued > sa_rewardDebt stake then accrued - sa_rewardDebt stake else 0)"

text \<open>\<open>Promise.all\<close> rejects with the first rejection; the pool's is taken when both reject.\<close>

definition pendingReward :: "kit \<Rightarrow> fetcher \<Rightarrow> address \<Rightarrow> int res" where
  "pendingReward K fetch staker =
     bind_res (getStakePool K fetch) (\<lambda>pool. bind_res (getStake K fetch staker) (\<lambda>stake.
       case (pool, stake) of
         (Some p, Some s) \<Rightarrow>
           if sa_amount s = 0 then Inr 0
           else if sp_totalStaked p > 0 then
             bind_res (fetch (sp_rewardVault p)) (\<lambda>rv. Inr (pending_with p s rv))
           else Inr (pending_with p s None)
       | _ \<Rightarrow> Inr 0))"

definition getRecord :: "kit \<Rightarrow> unicode \<Rightarrow> fetcher \<Rightarrow> jsstr \<Rightarrow> jsstr \<Rightarrow> jsstr option res option" where
  "getRecord K U fetch name k =
     map_option (\<lambda>r. bind_res r (\<lambda>rs. Inr (find_value k rs))) (getRecords K U fetch name)"

definition getAddress :: "kit \<Rightarrow> unicode \<Rightarrow> fetcher \<Rightarrow> jsstr \<Rightarrow> jsstr \<Rightarrow> jsstr option res option" where
  "getAddress K U fetch name chain = getRecord K U fetch name (js ''address.'' @ chain)"

definition reverseLookup :: "kit \<Rightarrow> fetcher \<Rightarrow> address \<Rightarrow> jsstr option res" where
  "reverseLookup K fetch owner =
     bind_res (findReverseRecordPda K owner) (\<lambda>(rpda, b).
     bind_res (fetch rpda) (\<lambda>rev. case rev of
       None \<Rightarrow> Inr None
     | Some rdata \<Rightarrow>
         bind_res (decodeReverseRecord K rdata) (\<lambda>r.
         bind_res (findNameRecordPda K (rv_nameHash r)) (\<lambda>(npda, b').
         bind_res (fetch npda) (\<lambda>fwd. case fwd of
           None \<Rightarrow> Inr None
         | Some ndata \<Rightarrow>
             bind_res (decodeNameRecord K ndata) (\<lambda>n.
               if nr_owner n \<noteq> owner then Inr None
               else Inr (Some (rv_name r @ js ''.'' @ rv_tld r))))))))"

section \<open>Specification of resolution\<close>

text \<open>A record is live when every ancestor still exists and still has the registration time its child
  captured.\<close>

inductive live :: "kit \<Rightarrow> fetcher \<Rightarrow> nameRecord \<Rightarrow> bool" for K fetch where
  live_root: "nr_parent c = None \<Longrightarrow> live K fetch c"
| live_sub: "nr_parent c = Some p \<Longrightarrow> fetch p = Inr (Some data) \<Longrightarrow> decodeNameRecord K data = Inr r \<Longrightarrow>
    nr_registeredAt r = nr_parentRegisteredAt c \<Longrightarrow> live K fetch r \<Longrightarrow> live K fetch c"

inductive_cases live_subE: "live K fetch c"

text \<open>What \<open>wrap_subdomain\<close> establishes on chain: a name's live parent is one level higher.\<close>

definition stored :: "kit \<Rightarrow> fetcher \<Rightarrow> address \<Rightarrow> nameRecord \<Rightarrow> bool" where
  "stored K fetch a r \<longleftrightarrow> (\<exists>data. fetch a = Inr (Some data) \<and> decodeNameRecord K data = Inr r)"

definition depth_ok :: "kit \<Rightarrow> fetcher \<Rightarrow> bool" where
  "depth_ok K fetch \<longleftrightarrow>
     (\<forall>a c p r. stored K fetch a c \<and> nr_parent c = Some p \<and> stored K fetch p r \<and>
        nr_registeredAt r = nr_parentRegisteredAt c \<longrightarrow> 0 \<le> nr_depth r \<and> nr_depth r < nr_depth c)"

section \<open>Prices and quotes mirror the program\<close>

lemma bigint_div_nonneg: "0 \<le> a \<Longrightarrow> 0 < b \<Longrightarrow> bigint_div a b = a div b"
  by (auto simp: bigint_div_def sgn_if)

lemma priceForLen_eq: "priceForLen = price_for_len"
  by (intro ext) (simp add: priceForLen_def price_for_len_def)

lemma saturating_u64_id: "u64 n \<Longrightarrow> saturating_u64 n = n"
  by (simp add: saturating_u64_def u64_def)

lemma price_saturated:
  assumes "prices_u64 cfg" "label \<noteq> []"
  shows "price_for_label cfg label = saturating_u64 (priceForLabel cfg label)"
proof (cases "ascii_str label")
  case True
  moreover have "u64 (cfg_priceNumeric cfg)" "\<And>n. u64 (price_for_len cfg n)"
    using assms(1) price_for_len_u64 by (auto simp: prices_u64_def)
  ultimately show ?thesis
    using assms(2) by (simp add: price_for_label_def priceForLabel_def priceForLen_eq utf8_ascii all_digits_def
        saturating_u64_id ascii_str_def[symmetric])
next
  case False
  then show ?thesis by (simp add: price_for_label_def priceForLabel_def priceForLen_eq ascii_str_def[symmetric])
qed

lemma u64_mult_u128: "u64 a \<Longrightarrow> u64 b \<Longrightarrow> 0 \<le> a * b \<and> a * b < 2 ^ 128"
proof -
  assume "u64 a" "u64 b"
  then have "0 \<le> a" "a \<le> 2 ^ 64 - 1" "0 \<le> b" "b \<le> 2 ^ 64 - 1" by (auto simp: u64_def)
  then have "a * b \<le> (2 ^ 64 - 1) * (2 ^ 64 - 1)" by (intro mult_mono) auto
  with \<open>0 \<le> a\<close> \<open>0 \<le> b\<close> show ?thesis by simp
qed

text \<open>The fee the program charges is the quoted one, or the quote does not fit a \<open>u64\<close>.\<close>

lemma solans_fee_quote:
  assumes "u64 fee" "u64 (cfg_solansRate cfg)" "0 \<le> cfg_solansDiscountBps cfg" "cfg_solansDiscountBps cfg \<le> 10000"
  defines "q \<equiv> bigint_div (bigint_div (fee * cfg_solansRate cfg) SOLANS_RATE_SCALE *
    (BPS_DENOMINATOR - cfg_solansDiscountBps cfg)) BPS_DENOMINATOR"
  shows "solans_fee cfg fee = checked_u 64 q"
proof -
  let ?p = "fee * cfg_solansRate cfg" and ?k = "10000 - cfg_solansDiscountBps cfg"
  have p: "0 \<le> ?p" "?p < 2 ^ 128" using u64_mult_u128[OF assms(1,2)] by auto
  then have g: "0 \<le> ?p div 1000000" "?p div 1000000 < 2 ^ 128 div 1000000 + 1"
    by (simp_all add: pos_imp_zdiv_nonneg_iff)
  have k: "0 \<le> ?k" "?k \<le> 10000" using assms(3,4) by auto
  have "?p div 1000000 * ?k \<le> (2 ^ 128 div 1000000) * 10000" using g k by (intro mult_mono) auto
  then have "?p div 1000000 * ?k < 2 ^ 128" by simp
  moreover have "0 \<le> ?p div 1000000 * ?k" using g k by simp
  ultimately show ?thesis
    using p g k by (simp add: solans_fee_def checked_u_def checked_div_u_def q_def bigint_div_nonneg saturating_sub_def
        RUST_SOLANS_RATE_SCALE_def RUST_BPS_DENOMINATOR_def SOLANS_RATE_SCALE_def BPS_DENOMINATOR_def Let_def)
qed

lemma buyback_quote:
  assumes "u64 amount" "u64 (cfg_solansRate cfg)" "cfg_solansRate cfg \<noteq> 0"
  shows "buyback_usdc cfg amount =
    checked_u 64 (bigint_div (amount * SOLANS_RATE_SCALE) (cfg_solansRate cfg))"
proof -
  have "u64 1000000" by (simp add: u64_def)
  then have "0 \<le> amount * 1000000" "amount * 1000000 < 2 ^ 128" using u64_mult_u128 assms(1) by blast+
  moreover have "0 < cfg_solansRate cfg" using assms(2,3) by (simp add: u64_def)
  ultimately show ?thesis
    by (simp add: buyback_usdc_def checked_u_def checked_div_u_def RUST_SOLANS_RATE_SCALE_def
        SOLANS_RATE_SCALE_def bigint_div_nonneg)
qed

section \<open>Pending rewards mirror the program\<close>

lemma reduce_le_acc: "reduce_le i a bs = a + 2 ^ (8 * i) * int (le_val bs)"
  by (induction i a bs rule: reduce_le.induct) (auto simp: algebra_simps power_add)

lemma token_balance_le_val: "token_balance data = int (le_val (take 8 (drop 64 data)))"
  by (simp add: token_balance_def reduce_le_acc)

lemma pending_mirror:
  assumes "sync p (token_balance data) = Inr p'" "pending p' s = Inr r"
    and "0 \<le> sp_totalStaked p" "0 \<le> sa_amount s" "0 \<le> sp_accRewardPerShare p"
  shows "r = pending_with p s (Some data) mod 2 ^ 64"
proof -
  let ?d = "saturating_sub (token_balance data) (sp_lastRewardBalance p)"
  have d: "?d = (if token_balance data > sp_lastRewardBalance p then token_balance data - sp_lastRewardBalance p else 0)"
    by (simp add: saturating_sub_def)
  have "0 \<le> ?d" by (simp add: saturating_sub_def)
  then have acc: "sp_accRewardPerShare p' =
      (if sp_totalStaked p > 0 then sp_accRewardPerShare p + bigint_div (?d * 1000000000000) (sp_totalStaked p)
       else sp_accRewardPerShare p)"
    using assms(1)
    by (auto simp: sync_def res_simps bigint_div_nonneg ACC_SCALE_def Let_def split: if_splits)
  have "0 \<le> sp_accRewardPerShare p'"
    using assms(3,5) \<open>0 \<le> ?d\<close> by (auto simp: acc bigint_div_nonneg pos_imp_zdiv_nonneg_iff)
  then have "bigint_div (sa_amount s * sp_accRewardPerShare p') 1000000000000 =
      sa_amount s * sp_accRewardPerShare p' div 1000000000000"
    using assms(4) by (simp add: bigint_div_nonneg)
  with assms(2) show ?thesis
    by (auto simp: pending_def accrued_def res_simps ACC_SCALE_def pending_with_def Let_def acc d[symmetric]
        saturating_sub_def)
qed

section \<open>Resolution\<close>

lemma resolve_loop_sound:
  assumes "resolve_loop K fetch leaf c = Some y"
  shows "\<forall>x. y = Inr (Some x) \<longrightarrow> x = leaf \<and> live K fetch c"
proof (rule resolve_loop.raw_induct[OF _ assms], goal_cases)
  case (1 loop K fetch leaf c y)
  from 1(2) show ?case
    by (fastforce dest: 1(1) split: option.splits sum.splits if_splits intro: live.intros)
qed

lemma resolve_loop_complete: "live K fetch c \<Longrightarrow> resolve_loop K fetch leaf c = Some (Inr (Some leaf))"
  by (induction rule: live.induct) (simp_all add: resolve_loop.simps)

lemma resolve_loop_live:
  "resolve_loop K fetch leaf c = Some (Inr (Some x)) \<longleftrightarrow> x = leaf \<and> live K fetch c"
  using resolve_loop_sound resolve_loop_complete by blast

lemma resolve_loop_returns:
  assumes "depth_ok K fetch"
  shows "stored K fetch a c \<Longrightarrow> \<exists>y. resolve_loop K fetch leaf c = Some y"
proof (induction "nat (nr_depth c)" arbitrary: a c rule: less_induct)
  case less
  note IH = less(1) and c = less(2)
  show ?case
  proof (cases "\<exists>p data r. nr_parent c = Some p \<and> fetch p = Inr (Some data) \<and> decodeNameRecord K data = Inr r \<and>
      nr_registeredAt r = nr_parentRegisteredAt c")
    case True
    then obtain p data r where p: "nr_parent c = Some p" "fetch p = Inr (Some data)"
      "decodeNameRecord K data = Inr r" "nr_registeredAt r = nr_parentRegisteredAt c" by blast
    then have r: "stored K fetch p r" by (auto simp: stored_def)
    then have "0 \<le> nr_depth r \<and> nr_depth r < nr_depth c"
      using assms c p(1,4) unfolding depth_ok_def by blast
    then have "nat (nr_depth r) < nat (nr_depth c)" by simp
    then obtain y where "resolve_loop K fetch leaf r = Some y" using IH r by blast
    with p show ?thesis by (subst resolve_loop.simps) simp
  next
    case False
    then show ?thesis by (subst resolve_loop.simps) (auto split: option.splits sum.splits)
  qed
qed

text \<open>Without the depth discipline the loop need not return: a record that is its own parent.\<close>

lemma resolve_loop_cycle:
  assumes "nr_parent c = Some p" "stored K fetch p c" "nr_registeredAt c = nr_parentRegisteredAt c"
  shows "resolve_loop K fetch leaf c = None"
proof -
  have "K' = K \<and> fetch' = fetch \<longrightarrow> d \<noteq> c" if "resolve_loop K' fetch' leaf d = Some y" for K' fetch' leaf d y
  proof (rule resolve_loop.raw_induct[OF _ that], goal_cases)
    case (1 loop K' fetch' leaf d y)
    from 1(2) show ?case
      using assms by (auto dest: 1(1) simp: stored_def split: option.splits sum.splits if_splits)
  qed
  then show ?thesis by (metis not_None_eq)
qed

lemma resolve_iff:
  "resolve K U fetch name = Some (Inr (Some r)) \<longleftrightarrow>
   (\<exists>pda bump. findNameRecord K U name None = Inr (pda, bump) \<and> stored K fetch pda r \<and> live K fetch r)"
  unfolding resolve_def stored_def
  by (auto simp: resolve_loop_live split: sum.splits prod.splits option.splits)

section \<open>Sample addresses\<close>

lemma ref_kit_name_pda: "\<exists>pda b. findNameRecordPda ref_kit h = Inr (pda, b)"
  by (simp add: findNameRecordPda_def derive_def ref_kit_def toy_pda_def)

lemma ref_kit_path_pda:
  assumes "parsePath U name None = Inr (ls, tld)"
  shows "\<exists>pda b. findNameRecord ref_kit U name None = Inr (pda, b)"
proof -
  have "nameInfo ref_kit U name None = Inr (path_info ref_kit tld ls)" using assms by (simp add: nameInfo_iff)
  with ref_kit_name_pda show ?thesis by (simp add: findNameRecord_def nameHashFor_def)
qed

lemma sample_record_pda: "\<exists>pda b. findNameRecord ref_kit ascii_unicode (js ''alex.sol'') None = Inr (pda, b)"
  using ref_kit_path_pda[OF parseName_parsePath[OF sample_name]] .

lemma sample_sub_pda: "\<exists>pda b. findNameRecord ref_kit ascii_unicode (js ''pay.alex.sol'') None = Inr (pda, b)"
  using ref_kit_path_pda[OF sample_subname] .

text \<open>When pay-in is configured the quoted fee is what Config::solans_fee charges, or the program reports an overflow because the quote does not fit a u64.\<close>

lemma quoteSolansFee_mirrors:
  assumes "getConfig K fetch = Inr (Some cfg)" "u64 fee" "u64 (cfg_solansRate cfg)" "cfg_solansRate cfg \<noteq> 0"
    "0 \<le> cfg_solansDiscountBps cfg" "cfg_solansDiscountBps cfg \<le> 10000"
  shows "\<exists>q. quoteSolansFee K fetch fee = Inr q \<and> 0 \<le> q \<and>
    solans_fee cfg fee = (if q < 2 ^ 64 then Inr q else Inl MathOverflow)"
proof -
  let ?g = "bigint_div (fee * cfg_solansRate cfg) SOLANS_RATE_SCALE"
  let ?q = "bigint_div (?g * (BPS_DENOMINATOR - cfg_solansDiscountBps cfg)) BPS_DENOMINATOR"
  have g: "0 \<le> ?g" using u64_mult_u128[OF assms(2,3)]
    by (simp add: SOLANS_RATE_SCALE_def bigint_div_nonneg pos_imp_zdiv_nonneg_iff)
  have "0 \<le> ?q" using g assms(6)
    by (simp add: BPS_DENOMINATOR_def bigint_div_nonneg pos_imp_zdiv_nonneg_iff)
  moreover have "quoteSolansFee K fetch fee = Inr ?q" using assms(1,4) by (simp add: quoteSolansFee_def)
  moreover have "solans_fee cfg fee = checked_u 64 ?q" using assms(2,3,5,6) by (rule solans_fee_quote)
  ultimately show ?thesis by (auto simp: checked_u_def)
qed

text \<open>When pay-in is configured the quoted reimbursement is what Config::buyback_usdc pays, or the program reports an overflow because it does not fit a u64.\<close>

lemma quoteBuyback_mirrors:
  assumes "getConfig K fetch = Inr (Some cfg)" "u64 amount" "u64 (cfg_solansRate cfg)" "cfg_solansRate cfg \<noteq> 0"
  shows "\<exists>q. quoteBuyback K fetch amount = Inr q \<and> 0 \<le> q \<and>
    buyback_usdc cfg amount = (if q < 2 ^ 64 then Inr q else Inl MathOverflow)"
proof -
  let ?q = "bigint_div (amount * SOLANS_RATE_SCALE) (cfg_solansRate cfg)"
  have "0 \<le> ?q" using assms(2-4)
    by (simp add: SOLANS_RATE_SCALE_def bigint_div_nonneg pos_imp_zdiv_nonneg_iff u64_def)
  moreover have "quoteBuyback K fetch amount = Inr ?q" using assms(1,4) by (simp add: quoteBuyback_def)
  moreover have "buyback_usdc cfg amount = checked_u 64 ?q" using assms(2-4) by (rule buyback_quote)
  ultimately show ?thesis by (auto simp: checked_u_def)
qed

text \<open>On every chain state in which a live parent has a smaller depth than its child, as the program establishes, resolve returns (a record, null or an error).\<close>

lemma resolve_returns_under_depth_discipline: "depth_ok K fetch \<Longrightarrow> \<exists>y. resolve K U fetch name = Some y"
  using resolve_loop_returns unfolding resolve_def stored_def
  by (fastforce split: sum.splits prod.splits option.splits)

text \<open>When pay-in is configured, the SOLANS fee the client quotes is what Config::solans_fee charges and the reimbursement it quotes is what Config::buyback_usdc pays, or the program reports an overflow because the quote does not fit a u64.\<close>

lemma quotes_mirror_program:
  assumes "getConfig K fetch = Inr (Some cfg)" "u64 fee" "u64 amount" "u64 (cfg_solansRate cfg)" "cfg_solansRate cfg \<noteq> 0"
    "0 \<le> cfg_solansDiscountBps cfg" "cfg_solansDiscountBps cfg \<le> 10000"
  shows "(\<exists>q. quoteSolansFee K fetch fee = Inr q \<and> 0 \<le> q \<and>
      solans_fee cfg fee = (if q < 2 ^ 64 then Inr q else Inl MathOverflow)) \<and>
    (\<exists>q. quoteBuyback K fetch amount = Inr q \<and> 0 \<le> q \<and>
      buyback_usdc cfg amount = (if q < 2 ^ 64 then Inr q else Inl MathOverflow))"
  using quoteSolansFee_mirrors[OF assms(1,2,4-7)] quoteBuyback_mirrors[OF assms(1,3-5)] by (rule conjI)

section \<open>Properties\<close>

text \<open>C13: resolve returns a record exactly when the name's account holds it and every ancestor still exists with the registration time its child captured.\<close>

theorem resolve_returns_live_records:
  "resolve K U fetch name = Some (Inr (Some r)) \<longleftrightarrow>
   (\<exists>pda bump. findNameRecord K U name None = Inr (pda, bump) \<and> stored K fetch pda r \<and> live K fetch r)"
  by (rule resolve_iff)


text \<open>C15: The client's price of a non-empty label is the program's, up to the program's saturation at the largest u64.\<close>

theorem priceForLabel_mirrors_program:
  assumes "prices_u64 cfg" "label \<noteq> []"
  shows "price_for_label cfg label = min (priceForLabel cfg label) (2 ^ 64 - 1)"
  using price_saturated[OF assms] by (simp add: saturating_u64_def)

theorem priceForLabel_mirrors_program_witness:
  "prices_u64 sample_config \<and> price_for_label sample_config (js ''777'') = 900 \<and>
   price_for_label sample_config [0x1F525] = 2000 \<and>
   price_for_label sample_config (js ''777'') = min (priceForLabel sample_config (js ''777'')) (2 ^ 64 - 1)"
proof -
  have c: "prices_u64 sample_config" by (simp add: prices_u64_def u64_def sample_config_def)
  moreover have "price_for_label sample_config (js ''777'') = 900" "price_for_label sample_config [0x1F525] = 2000"
    by (simp_all add: price_for_label_def price_for_len_def ascii_str_def utf8_ascii saturating_u64_def sample_config_def)
  ultimately show ?thesis using priceForLabel_mirrors_program[OF c, of "js ''777''"] by simp
qed

text \<open>C16: The pending reward the client shows is the amount the program pays after syncing the pool with the reward vault's balance, as a u64.\<close>

theorem pendingReward_mirrors_program:
  assumes "getStakePool K fetch = Inr (Some p)" "getStake K fetch staker = Inr (Some s)"
    "fetch (sp_rewardVault p) = Inr (Some data)"
    "0 < sp_totalStaked p" "0 < sa_amount s" "0 \<le> sp_accRewardPerShare p"
    "sync p (token_balance data) = Inr p'" "pending p' s = Inr r"
  shows "\<exists>q. pendingReward K fetch staker = Inr q \<and> r = q mod 2 ^ 64"
proof -
  have "pendingReward K fetch staker = Inr (pending_with p s (Some data))"
    using assms(1-5) by (simp add: pendingReward_def)
  moreover have "r = pending_with p s (Some data) mod 2 ^ 64"
    using assms(4-6) by (intro pending_mirror[OF assms(7,8)]) simp_all
  ultimately show ?thesis by blast
qed

theorem pendingReward_mirrors_program_witness:
  "\<exists>fetch q. getStakePool ref_kit fetch = Inr (Some sample_pool) \<and>
     getStake ref_kit fetch sample_wallet = Inr (Some sample_stake) \<and>
     pendingReward ref_kit fetch sample_wallet = Inr q \<and> 47 = q mod 2 ^ 64"
proof -
  obtain pb where pb: "decodeStakePool ref_kit pb = Inr sample_pool" using sample_pool_bytes by blast
  obtain sb where sb: "decodeStakeAccount ref_kit sb = Inr sample_stake" using sample_stake_bytes by blast
  let ?data = "replicate 64 0 @ [150, 0, 0, 0, 0, 0, 0, 0]"
  let ?pool = "replicate 31 49 @ [113]"
  let ?fetch = "\<lambda>a. Inr (Some (if a = ?pool then pb else if last a = 83 then sb else ?data))"
  have g: "getStakePool ref_kit ?fetch = Inr (Some sample_pool)"
    by (simp add: getStakePool_def fetch_decoded_def sample_pdas pb)
  have s: "getStake ref_kit ?fetch sample_wallet = Inr (Some sample_stake)"
    by (simp add: getStake_def fetch_decoded_def sample_pdas sb)
  have rv: "?fetch (sp_rewardVault sample_pool) = Inr (Some ?data)"
  proof -
    have "last (sp_rewardVault sample_pool) = 49" by (simp add: sample_pool_def sample_address_def last_replicate)
    moreover from this have "sp_rewardVault sample_pool \<noteq> ?pool" by auto
    ultimately show ?thesis by simp
  qed
  have b: "token_balance ?data = 150" by (simp add: token_balance_def)
  let ?p = "sample_pool\<lparr>sp_accRewardPerShare := 1500000000000, sp_lastRewardBalance := 150\<rparr>"
  have p1: "sync sample_pool (token_balance ?data) = Inr ?p"
    unfolding b by (simp add: sync_def sample_pool_def saturating_sub_def checked_u_def checked_div_u_def ACC_SCALE_def)
  have p2: "pending ?p sample_stake = Inr 47"
    by (simp add: pending_def accrued_def sample_stake_def saturating_sub_def checked_u_def checked_div_u_def ACC_SCALE_def)
  have "0 < sp_totalStaked sample_pool" "0 < sa_amount sample_stake" "0 \<le> sp_accRewardPerShare sample_pool"
    by (simp_all add: sample_pool_def sample_stake_def)
  from pendingReward_mirrors_program[OF g s rv this p1 p2] g s show ?thesis by blast
qed

end
