(* ===== verification/Account_Fetch.thy ===== *)
theory Account_Fetch
  imports Client
begin

text \<open>
  The fetch functions and sizes of the generated account files (\<open>clients/ts/src/generated/accounts/*.ts\<close>):
  \<open>fetchMaybeX\<close>, \<open>fetchX\<close>, \<open>fetchAllMaybeX\<close>, \<open>fetchAllX\<close>, \<open>getXSize\<close>, and \<open>getXCodec\<close> (\<open>combineCodec\<close>, a pair). The RPC calls \<open>fetchEncodedAccount\<close> and
  \<open>fetchEncodedAccounts\<close> of the kit are the parameters \<open>fetch\<close> and \<open>many\<close>; an account is the data behind its address.
  The locale \<open>account_reads\<close> states what the four functions of an account are; every account type interprets
  it. The locale \<open>kit_sizes\<close> adds the documented widths of numbers and booleans to the kit's contract; under it the
  bytes of an account have the size its file declares.
\<close>

section \<open>Reading accounts\<close>

type_synonym batch_fetcher = "address list \<Rightarrow> bytes option list res"

text \<open>\<open>assertAccountExists\<close>, \<open>assertAccountsExist\<close>, and \<open>decodeAccount\<close> of an account that may not exist.\<close>

definition account_not_found :: js_error where
  "account_not_found = JsError (js ''Account not found'')"

definition assertAccountExists :: "'a option \<Rightarrow> 'a res" where
  "assertAccountExists acct = (case acct of None \<Rightarrow> Inl account_not_found | Some x \<Rightarrow> Inr x)"

definition assertAccountsExist :: "'a option list \<Rightarrow> 'a list res" where
  "assertAccountsExist accts =
     (if None \<in> set accts then Inl account_not_found else Inr (map the accts))"

definition decode_maybe :: "(bytes \<Rightarrow> 'a res) \<Rightarrow> bytes option \<Rightarrow> 'a option res" where
  "decode_maybe dec acct = (case acct of None \<Rightarrow> Inr None | Some data \<Rightarrow> bind_res (dec data) (\<lambda>x. Inr (Some x)))"

text \<open>\<open>map\<close> with a function that may throw.\<close>

fun map_res :: "('a \<Rightarrow> 'b res) \<Rightarrow> 'a list \<Rightarrow> 'b list res" where
  "map_res f [] = Inr []"
| "map_res f (x # xs) = bind_res (f x) (\<lambda>y. bind_res (map_res f xs) (\<lambda>ys. Inr (y # ys)))"

subsection \<open>nameRecord.ts\<close>

definition getNameRecordCodec :: "codec \<times> codec" where "getNameRecordCodec = (getNameRecordEncoder, getNameRecordDecoder)"

definition fetchMaybeNameRecord :: "kit \<Rightarrow> fetcher \<Rightarrow> address \<Rightarrow> nameRecord option res" where
  "fetchMaybeNameRecord K fetch a = bind_res (fetch a) (decode_maybe (decodeNameRecord K))"

definition fetchNameRecord :: "kit \<Rightarrow> fetcher \<Rightarrow> address \<Rightarrow> nameRecord res" where
  "fetchNameRecord K fetch a = bind_res (fetchMaybeNameRecord K fetch a) assertAccountExists"

definition fetchAllMaybeNameRecord :: "kit \<Rightarrow> batch_fetcher \<Rightarrow> address list \<Rightarrow> nameRecord option list res" where
  "fetchAllMaybeNameRecord K many as = bind_res (many as) (map_res (decode_maybe (decodeNameRecord K)))"

definition fetchAllNameRecord :: "kit \<Rightarrow> batch_fetcher \<Rightarrow> address list \<Rightarrow> nameRecord list res" where
  "fetchAllNameRecord K many as = bind_res (fetchAllMaybeNameRecord K many as) assertAccountsExist"

subsection \<open>config.ts\<close>

definition getConfigCodec :: "codec \<times> codec" where "getConfigCodec = (getConfigEncoder, getConfigDecoder)"

definition fetchMaybeConfig :: "kit \<Rightarrow> fetcher \<Rightarrow> address \<Rightarrow> config option res" where
  "fetchMaybeConfig K fetch a = bind_res (fetch a) (decode_maybe (decodeConfig K))"

definition fetchConfig :: "kit \<Rightarrow> fetcher \<Rightarrow> address \<Rightarrow> config res" where
  "fetchConfig K fetch a = bind_res (fetchMaybeConfig K fetch a) assertAccountExists"

definition fetchAllMaybeConfig :: "kit \<Rightarrow> batch_fetcher \<Rightarrow> address list \<Rightarrow> config option list res" where
  "fetchAllMaybeConfig K many as = bind_res (many as) (map_res (decode_maybe (decodeConfig K)))"

definition fetchAllConfig :: "kit \<Rightarrow> batch_fetcher \<Rightarrow> address list \<Rightarrow> config list res" where
  "fetchAllConfig K many as = bind_res (fetchAllMaybeConfig K many as) assertAccountsExist"

definition getConfigSize :: nat where "getConfigSize = 311"

subsection \<open>listing.ts\<close>

definition getListingCodec :: "codec \<times> codec" where "getListingCodec = (getListingEncoder, getListingDecoder)"

definition fetchMaybeListing :: "kit \<Rightarrow> fetcher \<Rightarrow> address \<Rightarrow> listing option res" where
  "fetchMaybeListing K fetch a = bind_res (fetch a) (decode_maybe (decodeListing K))"

definition fetchListing :: "kit \<Rightarrow> fetcher \<Rightarrow> address \<Rightarrow> listing res" where
  "fetchListing K fetch a = bind_res (fetchMaybeListing K fetch a) assertAccountExists"

definition fetchAllMaybeListing :: "kit \<Rightarrow> batch_fetcher \<Rightarrow> address list \<Rightarrow> listing option list res" where
  "fetchAllMaybeListing K many as = bind_res (many as) (map_res (decode_maybe (decodeListing K)))"

definition fetchAllListing :: "kit \<Rightarrow> batch_fetcher \<Rightarrow> address list \<Rightarrow> listing list res" where
  "fetchAllListing K many as = bind_res (fetchAllMaybeListing K many as) assertAccountsExist"

definition getListingSize :: nat where "getListingSize = 89"

subsection \<open>offer.ts\<close>

definition getOfferCodec :: "codec \<times> codec" where "getOfferCodec = (getOfferEncoder, getOfferDecoder)"

definition fetchMaybeOffer :: "kit \<Rightarrow> fetcher \<Rightarrow> address \<Rightarrow> offer option res" where
  "fetchMaybeOffer K fetch a = bind_res (fetch a) (decode_maybe (decodeOffer K))"

definition fetchOffer :: "kit \<Rightarrow> fetcher \<Rightarrow> address \<Rightarrow> offer res" where
  "fetchOffer K fetch a = bind_res (fetchMaybeOffer K fetch a) assertAccountExists"

definition fetchAllMaybeOffer :: "kit \<Rightarrow> batch_fetcher \<Rightarrow> address list \<Rightarrow> offer option list res" where
  "fetchAllMaybeOffer K many as = bind_res (many as) (map_res (decode_maybe (decodeOffer K)))"

definition fetchAllOffer :: "kit \<Rightarrow> batch_fetcher \<Rightarrow> address list \<Rightarrow> offer list res" where
  "fetchAllOffer K many as = bind_res (fetchAllMaybeOffer K many as) assertAccountsExist"

definition getOfferSize :: nat where "getOfferSize = 89"

subsection \<open>auction.ts\<close>

definition getAuctionCodec :: "codec \<times> codec" where "getAuctionCodec = (getAuctionEncoder, getAuctionDecoder)"

definition fetchMaybeAuction :: "kit \<Rightarrow> fetcher \<Rightarrow> address \<Rightarrow> auction option res" where
  "fetchMaybeAuction K fetch a = bind_res (fetch a) (decode_maybe (decodeAuction K))"

definition fetchAuction :: "kit \<Rightarrow> fetcher \<Rightarrow> address \<Rightarrow> auction res" where
  "fetchAuction K fetch a = bind_res (fetchMaybeAuction K fetch a) assertAccountExists"

definition fetchAllMaybeAuction :: "kit \<Rightarrow> batch_fetcher \<Rightarrow> address list \<Rightarrow> auction option list res" where
  "fetchAllMaybeAuction K many as = bind_res (many as) (map_res (decode_maybe (decodeAuction K)))"

definition fetchAllAuction :: "kit \<Rightarrow> batch_fetcher \<Rightarrow> address list \<Rightarrow> auction list res" where
  "fetchAllAuction K many as = bind_res (fetchAllMaybeAuction K many as) assertAccountsExist"

subsection \<open>reverseRecord.ts\<close>

definition getReverseRecordCodec :: "codec \<times> codec" where "getReverseRecordCodec = (getReverseRecordEncoder, getReverseRecordDecoder)"

definition fetchMaybeReverseRecord :: "kit \<Rightarrow> fetcher \<Rightarrow> address \<Rightarrow> reverseRecord option res" where
  "fetchMaybeReverseRecord K fetch a = bind_res (fetch a) (decode_maybe (decodeReverseRecord K))"

definition fetchReverseRecord :: "kit \<Rightarrow> fetcher \<Rightarrow> address \<Rightarrow> reverseRecord res" where
  "fetchReverseRecord K fetch a = bind_res (fetchMaybeReverseRecord K fetch a) assertAccountExists"

definition fetchAllMaybeReverseRecord :: "kit \<Rightarrow> batch_fetcher \<Rightarrow> address list \<Rightarrow> reverseRecord option list res" where
  "fetchAllMaybeReverseRecord K many as = bind_res (many as) (map_res (decode_maybe (decodeReverseRecord K)))"

definition fetchAllReverseRecord :: "kit \<Rightarrow> batch_fetcher \<Rightarrow> address list \<Rightarrow> reverseRecord list res" where
  "fetchAllReverseRecord K many as = bind_res (fetchAllMaybeReverseRecord K many as) assertAccountsExist"

subsection \<open>stakePool.ts\<close>

definition getStakePoolCodec :: "codec \<times> codec" where "getStakePoolCodec = (getStakePoolEncoder, getStakePoolDecoder)"

definition fetchMaybeStakePool :: "kit \<Rightarrow> fetcher \<Rightarrow> address \<Rightarrow> stakePool option res" where
  "fetchMaybeStakePool K fetch a = bind_res (fetch a) (decode_maybe (decodeStakePool K))"

definition fetchStakePool :: "kit \<Rightarrow> fetcher \<Rightarrow> address \<Rightarrow> stakePool res" where
  "fetchStakePool K fetch a = bind_res (fetchMaybeStakePool K fetch a) assertAccountExists"

definition fetchAllMaybeStakePool :: "kit \<Rightarrow> batch_fetcher \<Rightarrow> address list \<Rightarrow> stakePool option list res" where
  "fetchAllMaybeStakePool K many as = bind_res (many as) (map_res (decode_maybe (decodeStakePool K)))"

definition fetchAllStakePool :: "kit \<Rightarrow> batch_fetcher \<Rightarrow> address list \<Rightarrow> stakePool list res" where
  "fetchAllStakePool K many as = bind_res (fetchAllMaybeStakePool K many as) assertAccountsExist"

definition getStakePoolSize :: nat where "getStakePoolSize = 137"

subsection \<open>stakeAccount.ts\<close>

definition getStakeAccountCodec :: "codec \<times> codec" where "getStakeAccountCodec = (getStakeAccountEncoder, getStakeAccountDecoder)"

definition fetchMaybeStakeAccount :: "kit \<Rightarrow> fetcher \<Rightarrow> address \<Rightarrow> stakeAccount option res" where
  "fetchMaybeStakeAccount K fetch a = bind_res (fetch a) (decode_maybe (decodeStakeAccount K))"

definition fetchStakeAccount :: "kit \<Rightarrow> fetcher \<Rightarrow> address \<Rightarrow> stakeAccount res" where
  "fetchStakeAccount K fetch a = bind_res (fetchMaybeStakeAccount K fetch a) assertAccountExists"

definition fetchAllMaybeStakeAccount :: "kit \<Rightarrow> batch_fetcher \<Rightarrow> address list \<Rightarrow> stakeAccount option list res" where
  "fetchAllMaybeStakeAccount K many as = bind_res (many as) (map_res (decode_maybe (decodeStakeAccount K)))"

definition fetchAllStakeAccount :: "kit \<Rightarrow> batch_fetcher \<Rightarrow> address list \<Rightarrow> stakeAccount list res" where
  "fetchAllStakeAccount K many as = bind_res (fetchAllMaybeStakeAccount K many as) assertAccountsExist"

definition getStakeAccountSize :: nat where "getStakeAccountSize = 65"

section \<open>One account or many\<close>

text \<open>The RPC of a settled chain: \<open>acc\<close> gives the data at each address, and the batch call gives it in the order asked.\<close>

lemma assert_exist_map:
  "assertAccountsExist (x # xs) = bind_res (assertAccountExists x) (\<lambda>y. bind_res (assertAccountsExist xs) (\<lambda>ys. Inr (y # ys)))"
  by (cases x) (auto simp: assertAccountsExist_def assertAccountExists_def)

lemma map_res_map: "map_res f (map g xs) = map_res (\<lambda>x. f (g x)) xs"
  by (induction xs) auto

lemma map_res_Inr: "map_res f xs = Inr ys \<longleftrightarrow> list_all2 (\<lambda>x y. f x = Inr y) xs ys"
proof (induction xs arbitrary: ys)
  case (Cons x xs)
  show ?case by (auto simp: res_simps Cons.IH list_all2_Cons1)
qed auto

lemma assert_exist_iff: "assertAccountsExist xs = Inr ys \<longleftrightarrow> xs = map Some ys"
proof (induction xs arbitrary: ys)
  case (Cons x xs)
  show ?case
    by (cases x) (auto simp: assert_exist_map assertAccountExists_def res_simps Cons.IH Cons_eq_map_conv)
qed (auto simp: assertAccountsExist_def)

locale account_reads =
  fixes dec :: "bytes \<Rightarrow> 'a res"
    and maybe :: "fetcher \<Rightarrow> address \<Rightarrow> 'a option res"
    and one :: "fetcher \<Rightarrow> address \<Rightarrow> 'a res"
    and all_maybe :: "batch_fetcher \<Rightarrow> address list \<Rightarrow> 'a option list res"
    and all_existing :: "batch_fetcher \<Rightarrow> address list \<Rightarrow> 'a list res"
  assumes maybe_reads: "maybe fetch a = bind_res (fetch a) (decode_maybe dec)"
    and one_reads: "one fetch a = bind_res (maybe fetch a) assertAccountExists"
    and all_maybe_reads: "all_maybe many as = bind_res (many as) (map_res (decode_maybe dec))"
    and all_reads: "all_existing many as = bind_res (all_maybe many as) assertAccountsExist"
begin

lemma batch_maybe:
  "all_maybe (\<lambda>as. Inr (map acc as)) as = map_res (maybe (\<lambda>a. Inr (acc a))) as"
proof -
  have "maybe (\<lambda>a. Inr (acc a)) = (\<lambda>a. decode_maybe dec (acc a))" by (rule ext) (simp add: maybe_reads)
  then show ?thesis by (simp add: all_maybe_reads map_res_map)
qed

lemma one_Inr: "one (\<lambda>a. Inr (acc a)) a = Inr x \<longleftrightarrow> maybe (\<lambda>a. Inr (acc a)) a = Inr (Some x)"
  by (cases "maybe (\<lambda>a. Inr (acc a)) a")
     (auto simp: one_reads assertAccountExists_def split: option.splits)

lemma batch_all:
  "all_existing (\<lambda>as. Inr (map acc as)) as = Inr xs \<longleftrightarrow> map_res (one (\<lambda>a. Inr (acc a))) as = Inr xs"
proof -
  let ?m = "maybe (\<lambda>a. Inr (acc a))"
  have "all_existing (\<lambda>as. Inr (map acc as)) as = Inr xs \<longleftrightarrow> map_res ?m as = Inr (map Some xs)"
    unfolding all_reads batch_maybe by (cases "map_res ?m as") (auto simp: assert_exist_iff)
  also have "\<dots> \<longleftrightarrow> list_all2 (\<lambda>a x. ?m a = Inr (Some x)) as xs" by (simp add: map_res_Inr list_all2_map2)
  also have "\<dots> \<longleftrightarrow> map_res (one (\<lambda>a. Inr (acc a))) as = Inr xs" by (simp add: map_res_Inr one_Inr)
  finally show ?thesis .
qed

text \<open>A missing account makes the whole batch fail.\<close>

lemma batch_missing:
  assumes "a \<in> set as" "acc a = None"
  shows "\<nexists>xs. all_existing (\<lambda>as. Inr (map acc as)) as = Inr xs"
proof
  assume "\<exists>xs. all_existing (\<lambda>as. Inr (map acc as)) as = Inr xs"
  then obtain xs where "list_all2 (\<lambda>a x. one (\<lambda>a. Inr (acc a)) a = Inr x) as xs"
    using batch_all map_res_Inr by metis
  then obtain x where "one (\<lambda>a. Inr (acc a)) a = Inr x"
    using assms(1) by (auto simp: list_all2_conv_all_nth in_set_conv_nth)
  with assms(2) show False by (simp add: one_Inr maybe_reads decode_maybe_def)
qed

end

interpretation name_record_reads: account_reads "decodeNameRecord K" "fetchMaybeNameRecord K" "fetchNameRecord K" "fetchAllMaybeNameRecord K" "fetchAllNameRecord K"
  for K
  by unfold_locales (simp_all only: fetchMaybeNameRecord_def fetchNameRecord_def fetchAllMaybeNameRecord_def fetchAllNameRecord_def)

interpretation config_reads: account_reads "decodeConfig K" "fetchMaybeConfig K" "fetchConfig K" "fetchAllMaybeConfig K" "fetchAllConfig K"
  for K
  by unfold_locales (simp_all only: fetchMaybeConfig_def fetchConfig_def fetchAllMaybeConfig_def fetchAllConfig_def)

interpretation listing_reads: account_reads "decodeListing K" "fetchMaybeListing K" "fetchListing K" "fetchAllMaybeListing K" "fetchAllListing K"
  for K
  by unfold_locales (simp_all only: fetchMaybeListing_def fetchListing_def fetchAllMaybeListing_def fetchAllListing_def)

interpretation offer_reads: account_reads "decodeOffer K" "fetchMaybeOffer K" "fetchOffer K" "fetchAllMaybeOffer K" "fetchAllOffer K"
  for K
  by unfold_locales (simp_all only: fetchMaybeOffer_def fetchOffer_def fetchAllMaybeOffer_def fetchAllOffer_def)

interpretation auction_reads: account_reads "decodeAuction K" "fetchMaybeAuction K" "fetchAuction K" "fetchAllMaybeAuction K" "fetchAllAuction K"
  for K
  by unfold_locales (simp_all only: fetchMaybeAuction_def fetchAuction_def fetchAllMaybeAuction_def fetchAllAuction_def)

interpretation reverse_record_reads: account_reads "decodeReverseRecord K" "fetchMaybeReverseRecord K" "fetchReverseRecord K" "fetchAllMaybeReverseRecord K" "fetchAllReverseRecord K"
  for K
  by unfold_locales (simp_all only: fetchMaybeReverseRecord_def fetchReverseRecord_def fetchAllMaybeReverseRecord_def fetchAllReverseRecord_def)

interpretation stake_pool_reads: account_reads "decodeStakePool K" "fetchMaybeStakePool K" "fetchStakePool K" "fetchAllMaybeStakePool K" "fetchAllStakePool K"
  for K
  by unfold_locales (simp_all only: fetchMaybeStakePool_def fetchStakePool_def fetchAllMaybeStakePool_def fetchAllStakePool_def)

interpretation stake_account_reads: account_reads "decodeStakeAccount K" "fetchMaybeStakeAccount K" "fetchStakeAccount K" "fetchAllMaybeStakeAccount K" "fetchAllStakeAccount K"
  for K
  by unfold_locales (simp_all only: fetchMaybeStakeAccount_def fetchStakeAccount_def fetchAllMaybeStakeAccount_def fetchAllStakeAccount_def)

section \<open>Sizes\<close>

text \<open>The size of a codec whose values all have the same number of bytes (\<open>fixedSize\<close> of the kit's types).\<close>

fun codec_size :: "codec \<Rightarrow> nat option"
  and fields_size :: "(string \<times> codec) list \<Rightarrow> nat option" where
  "codec_size BooleanC = Some 1"
| "codec_size AddressC = Some 32"
| "codec_size BytesC = None"
| "codec_size Utf8C = None"
| "codec_size (FixSizeC c n) = Some n"
| "codec_size (SizePrefixC c p) = None"
| "codec_size (OptionC c) = None"
| "codec_size (ArrayC c) = None"
| "codec_size (StructC fs) = fields_size fs"
| "codec_size U8C = Some 1"
| "codec_size U16C = Some 2"
| "codec_size U32C = Some 4"
| "codec_size U64C = Some 8"
| "codec_size U128C = Some 16"
| "codec_size I64C = Some 8"
| "fields_size [] = Some 0"
| "fields_size (fc # fs) =
     (case codec_size (snd fc) of None \<Rightarrow> None | Some n \<Rightarrow> map_option ((+) n) (fields_size fs))"

locale kit_sizes = kit_codecs +
  assumes num_size: "num_range c i \<Longrightarrow> enc c (VNum i) = Inr bs \<Longrightarrow> length bs = num_width c"
    and bool_size: "enc BooleanC (VBool t) = Inr bs \<Longrightarrow> length bs = 1"
begin

lemma encoded_size_for:
  "A = isAddr \<Longrightarrow> wt A c v \<Longrightarrow> codec_size c = Some n \<Longrightarrow> enc c v = Inr bs \<Longrightarrow> length bs = n"
  and encoded_fields_size_for:
  "A = isAddr \<Longrightarrow> wt_fields A fs vs \<Longrightarrow> fields_size fs = Some n \<Longrightarrow> enc_fields enc fs vs = Inr bs \<Longrightarrow> length bs = n"
proof (induction A c v and A fs vs arbitrary: n bs and n bs rule: wt_wt_fields.induct)
  case (8 A v)
  then obtain a where v: "v = VAddr a" "isAddr a" by (auto split: cval.splits)
  from enc_addr[OF v(2)] 8 v(1) show ?case by auto
next
  case (11 A c m v)
  then obtain b where "c = BytesC" "v = VBytes b" "length b = m" by (auto split: cval.splits)
  with enc_fix[OF enc_bytes] 11 show ?case by auto
next
  case (15 A fs v)
  then obtain vs where v: "v = VStruct vs" "wt_fields A fs vs" by (auto split: cval.splits)
  then have "enc (StructC fs) v = enc_fields enc fs vs" using enc_struct wt_fields_names by metis
  with 15 v show ?case by auto
next
  case (17 A fc fs vs)
  then obtain g v vs' where vs: "vs = (g, v) # vs'" "wt A (snd fc) v" "wt_fields A fs vs'"
    by (auto split: list.splits)
  obtain f c where fc: "fc = (f, c)" by (cases fc)
  with 17(5,6) vs obtain b bs' k m where b: "enc c v = Inr b" "enc_fields enc fs vs' = Inr bs'" "bs = b @ bs'"
    "codec_size c = Some k" "fields_size fs = Some m" "n = k + m"
    by (cases "enc c v"; cases "enc_fields enc fs vs'") (auto split: option.splits)
  then have "length b = k" "length bs' = m" using 17(1,2,3) vs fc by auto
  with b show ?case by simp
qed (auto simp del: num_range.simps split: cval.splits dest!: num_size bool_size)

lemmas encoded_size = encoded_size_for[OF refl]

end

interpretation borsh_sizes: kit_sizes enc_ref rd_ref is_address_ref
proof unfold_locales
  fix c i bs assume "num_range c i" "enc_ref c (VNum i) = Inr bs"
  then show "length bs = num_width c" using num_ref_of_range[of c i] by (auto simp: enc_num_ref_def)
qed auto

text \<open>The accounts of fixed size: every value that fits its codec encodes to exactly the number of bytes the generated size function declares, namely the size its codec adds up to.\<close>

lemma account_sizes_are_exact:
  assumes "kit_sizes (encode K) (read K) (isAddress K)"
  shows "(config_ok K c \<longrightarrow> (\<exists>bs. encodeConfig K c = Inr bs \<and> length bs = getConfigSize)) \<and>
    (listing_ok K l \<longrightarrow> (\<exists>bs. encodeListing K l = Inr bs \<and> length bs = getListingSize)) \<and>
    (offer_ok K f \<longrightarrow> (\<exists>bs. encodeOffer K f = Inr bs \<and> length bs = getOfferSize)) \<and>
    (stakePool_ok K p \<longrightarrow> (\<exists>bs. encodeStakePool K p = Inr bs \<and> length bs = getStakePoolSize)) \<and>
    (stakeAccount_ok K s \<longrightarrow> (\<exists>bs. encodeStakeAccount K s = Inr bs \<and> length bs = getStakeAccountSize))"
proof -
  have C: "codec_size getConfigEncoder = Some getConfigSize" "codec_size getListingEncoder = Some getListingSize"
    "codec_size getOfferEncoder = Some getOfferSize" "codec_size getStakePoolEncoder = Some getStakePoolSize"
    "codec_size getStakeAccountEncoder = Some getStakeAccountSize"
    by (simp_all add: getConfigEncoder_def getConfigSize_def getListingEncoder_def getListingSize_def getOfferEncoder_def
        getOfferSize_def getStakePoolEncoder_def getStakePoolSize_def getStakeAccountEncoder_def getStakeAccountSize_def)
  have S: "\<exists>bs. encode K c v = Inr bs \<and> length bs = n" if "wt (isAddress K) c v" "codec_size c = Some n" for c v n
    using kit_codecs.roundtrip[OF kit_sizes.axioms(1)[OF assms] that(1)] kit_sizes.encoded_size[OF assms that] by blast
  show ?thesis
    unfolding config_ok_def listing_ok_def offer_ok_def stakePool_ok_def stakeAccount_ok_def
      encodeConfig_def encodeListing_def encodeOffer_def encodeStakePool_def encodeStakeAccount_def
    by (intro conjI impI S C; assumption)
qed

end
