(* ===== verification/Plugin.thy ===== *)
theory Plugin
  imports Programs Account_Fetch
begin

text \<open>
  The plugin of the generated program module (\<open>solansProgram\<close> in \<open>programs/solans.ts\<close>): the object it adds to a kit
  client, with the account codecs bound to the client's RPC and one builder per instruction. The kit functions
  that attach sending and fetching (\<open>addSelfPlanAndSendFunctions\<close>, \<open>addSelfFetchFunctions\<close>) are parameters: \<open>attach\<close> takes the
  instruction a builder makes. Every entry builds the instruction of its own name; the four paying entries
  use the client's payer when the input names none.
\<close>

section \<open>The instructions of the plugin\<close>

text \<open>\<open>{ ...input, payer: input.payer ?? client.payer }\<close>\<close>

definition or_payer :: "address \<Rightarrow> ixInput \<Rightarrow> ixInput" where
  "or_payer payer inp =
     inp\<lparr>in_account := (in_account inp)(''payer'' \<mapsto>
       (case in_account inp ''payer'' of None \<Rightarrow> SignerI payer | Some v \<Rightarrow> v))\<rparr>"

text \<open>The entries in the order of the source: the builder each calls.\<close>

definition plugin_builders_1 :: "(SolansInstruction \<times> (kit \<Rightarrow> ixInput \<Rightarrow> instruction res)) list" where
  "plugin_builders_1 =
     [(AcceptOffer, getAcceptOfferInstructionAsync),
      (AutoRenew, getAutoRenewInstructionAsync),
      (Bid, getBidInstruction),
      (BurnName, getBurnNameInstruction),
      (BuyName, getBuyNameInstructionAsync),
      (BuybackBurn, getBuybackBurnInstructionAsync),
      (CancelAuction, getCancelAuctionInstruction),
      (CancelListing, getCancelListingInstruction),
      (CancelOffer, getCancelOfferInstruction),
      (ClaimExpired, getClaimExpiredInstructionAsync),
      (ClaimRewards, getClaimRewardsInstructionAsync),
      (InitBurnPool, getInitBurnPoolInstructionAsync),
      (InitConfig, getInitConfigInstructionAsync),
      (InitStakePool, getInitStakePoolInstructionAsync),
      (ListName, getListNameInstruction),
      (LockTransfer, getLockTransferInstruction),
      (MakeOffer, getMakeOfferInstruction),
      (RedeemName, getRedeemNameInstructionAsync),
      (RegisterName, getRegisterNameInstructionAsync),
      (RegisterWithSolans, getRegisterWithSolansInstructionAsync)]"

definition plugin_builders_2 :: "(SolansInstruction \<times> (kit \<Rightarrow> ixInput \<Rightarrow> instruction res)) list" where
  "plugin_builders_2 =
     [(RenewName, getRenewNameInstructionAsync),
      (RenewWithSolans, getRenewWithSolansInstructionAsync),
      (Resolve, getResolveInstruction),
      (RevokeSubdomain, getRevokeSubdomainInstruction),
      (SetController, getSetControllerInstruction),
      (SetHosting, getSetHostingInstruction),
      (SetResolver, getSetResolverInstruction),
      (SetReverse, getSetReverseInstructionAsync),
      (SetSolansParams, getSetSolansParamsInstructionAsync),
      (SettleAuction, getSettleAuctionInstructionAsync),
      (Stake, getStakeInstructionAsync),
      (StartAuction, getStartAuctionInstructionAsync),
      (TokenizeName, getTokenizeNameInstructionAsync),
      (TransferAdmin, getTransferAdminInstructionAsync),
      (TransferName, getTransferNameInstruction),
      (Unstake, getUnstakeInstructionAsync),
      (UpdateConfig, getUpdateConfigInstructionAsync),
      (UpdateListing, getUpdateListingInstruction),
      (UpdateRecord, getUpdateRecordInstruction),
      (WrapSubdomain, getWrapSubdomainInstructionAsync)]"

definition plugin_builders :: "(SolansInstruction \<times> (kit \<Rightarrow> ixInput \<Rightarrow> instruction res)) list" where
  "plugin_builders = plugin_builders_1 @ plugin_builders_2"

text \<open>The entries that default the payer.\<close>

definition paying_entries :: "SolansInstruction list" where
  "paying_entries = [RegisterName, RegisterWithSolans, RenewName, RenewWithSolans]"

definition plugin_input :: "address \<Rightarrow> SolansInstruction \<Rightarrow> ixInput \<Rightarrow> ixInput" where
  "plugin_input payer v inp = (if v \<in> set paying_entries then or_payer payer inp else inp)"

definition no_entry :: js_error where
  "no_entry = JsError (js ''is not a function'')"

text \<open>\<open>client.solans.instructions.x(input)\<close>\<close>

definition plugin_instruction ::
  "(instruction res \<Rightarrow> 'p) \<Rightarrow> kit \<Rightarrow> address \<Rightarrow> SolansInstruction \<Rightarrow> ixInput \<Rightarrow> 'p" where
  "plugin_instruction attach K payer v inp =
     attach (case map_of plugin_builders v of
       None \<Rightarrow> Inl no_entry | Some build \<Rightarrow> build K (plugin_input payer v inp))"

section \<open>The rest of the plugin\<close>

text \<open>The codecs to which \<open>addSelfFetchFunctions\<close> binds the client.\<close>

definition plugin_accounts :: "(SolansAccount \<times> codec \<times> codec) list" where
  "plugin_accounts =
     [(Auction, getAuctionCodec), (Config, getConfigCodec), (Listing, getListingCodec), (NameRecord, getNameRecordCodec),
      (Offer, getOfferCodec), (ReverseRecord, getReverseRecordCodec), (StakeAccount, getStakeAccountCodec),
      (StakePool, getStakePoolCodec)]"

record plugin_pdas =
  pp_config :: "kit \<Rightarrow> (address \<times> int) res"
  pp_stakePool :: "kit \<Rightarrow> (address \<times> int) res"
  pp_stakeAccount :: "kit \<Rightarrow> address \<Rightarrow> (address \<times> int) res"
  pp_metadata :: "kit \<Rightarrow> address \<Rightarrow> address \<Rightarrow> address \<Rightarrow> (address \<times> int) res"
  pp_masterEdition :: "kit \<Rightarrow> address \<Rightarrow> address \<Rightarrow> address \<Rightarrow> (address \<times> int) res"
  pp_nameRecord :: "kit \<Rightarrow> bytes \<Rightarrow> (address \<times> int) res"
  pp_reverseRecord :: "kit \<Rightarrow> address \<Rightarrow> (address \<times> int) res"

definition pdas :: plugin_pdas where
  "pdas = \<lparr>pp_config = findConfigPda, pp_stakePool = findStakePoolPda, pp_stakeAccount = findStakeAccountPda,
     pp_metadata = findMetadataPda, pp_masterEdition = findMasterEditionPda, pp_nameRecord = findNameRecordPda,
     pp_reverseRecord = findReverseRecordPda\<rparr>"

section \<open>What the entries build\<close>

text \<open>What the codec of an account entry encodes, it decodes.\<close>

lemma plugin_accounts_same: "list_all (\<lambda>(v, e, d). d = e) plugin_accounts"
  by (simp add: plugin_accounts_def getRecordEncoder_def getRecordDecoder_def
      getAuctionCodec_def getAuctionEncoder_def getAuctionDecoder_def getConfigCodec_def
      getConfigEncoder_def getConfigDecoder_def getListingCodec_def getListingEncoder_def
      getListingDecoder_def getNameRecordCodec_def getNameRecordEncoder_def getNameRecordDecoder_def
      getOfferCodec_def getOfferEncoder_def getOfferDecoder_def getReverseRecordCodec_def
      getReverseRecordEncoder_def getReverseRecordDecoder_def getStakeAccountCodec_def
      getStakeAccountEncoder_def getStakeAccountDecoder_def getStakePoolCodec_def getStakePoolEncoder_def
      getStakePoolDecoder_def)

lemma plugin_accounts_roundtrip:
  assumes "kit_ok K" "(v, e, d) \<in> set plugin_accounts" "wt (isAddress K) e x"
  shows "\<exists>bs. encode K e x = Inr bs \<and> decode K d bs = Inr x"
proof -
  have "d = e" using plugin_accounts_same assms(2) by (auto simp: list_all_iff)
  moreover obtain bs where "encode K e x = Inr bs" "\<And>rest. read K e (bs @ rest) = Inr (x, rest)"
    using kit_codecs.roundtrip[OF kit_ok_codecs[OF assms(1)] assms(3)] by blast
  moreover from this(2)[of "[]"] have "read K e bs = Inr (x, [])" by simp
  ultimately show ?thesis by (simp add: decode_def)
qed

lemma plugin_in_table: "set plugin_builders \<subseteq> set (map (\<lambda>(v, build, rest). (v, build)) instruction_table)"
  by (simp add: plugin_builders_def plugin_builders_1_def plugin_builders_2_def instruction_table_def)

lemma plugin_entry:
  assumes "map_of plugin_builders v = Some build"
  shows "\<exists>parse encoder disc. (v, build, parse, encoder, disc) \<in> set instruction_table"
proof -
  have "(v, build) \<in> set (map (\<lambda>(v, build, rest). (v, build)) instruction_table)"
    using map_of_SomeD[OF assms] plugin_in_table by blast
  then show ?thesis by auto
qed

lemma plugin_complete: "\<exists>build. map_of plugin_builders v = Some build"
  by (cases v) (simp_all add: plugin_builders_def plugin_builders_1_def plugin_builders_2_def)

text \<open>The paying builders require the payer.\<close>

lemma paying_coherent:
  assumes "v \<in> set paying_entries" "(v, the (map_of plugin_builders v), parse, encoder, disc) \<in> set instruction_table"
  shows "\<exists>required. coherent (the (map_of plugin_builders v)) parse encoder disc required \<and> ''payer'' \<in> set required"
proof -
  have p: "map_of plugin_builders RegisterName = Some getRegisterNameInstructionAsync"
    "map_of plugin_builders RegisterWithSolans = Some getRegisterWithSolansInstructionAsync"
    "map_of plugin_builders RenewName = Some getRenewNameInstructionAsync"
    "map_of plugin_builders RenewWithSolans = Some getRenewWithSolansInstructionAsync"
    by (simp_all add: plugin_builders_def plugin_builders_1_def plugin_builders_2_def)
  note c = registerNameAsync_coherent registerWithSolansAsync_coherent renewNameAsync_coherent renewWithSolansAsync_coherent
  from assms(1) consider "v = RegisterName" | "v = RegisterWithSolans" | "v = RenewName" | "v = RenewWithSolans"
    by (auto simp: paying_entries_def)
  then show ?thesis
  proof cases
    case 1
    with assms(2) have "parse = parseRegisterNameInstruction" "encoder = getRegisterNameInstructionDataEncoder"
      "disc = REGISTER_NAME_DISCRIMINATOR" by (auto simp: p instruction_table_def)
    with 1 c(1) show ?thesis by (auto simp: p)
  next
    case 2
    with assms(2) have "parse = parseRegisterWithSolansInstruction" "encoder = getRegisterWithSolansInstructionDataEncoder"
      "disc = REGISTER_WITH_SOLANS_DISCRIMINATOR" by (auto simp: p instruction_table_def)
    with 2 c(2) show ?thesis by (auto simp: p)
  next
    case 3
    with assms(2) have "parse = parseRenewNameInstruction" "encoder = getRenewNameInstructionDataEncoder"
      "disc = RENEW_NAME_DISCRIMINATOR" by (auto simp: p instruction_table_def)
    with 3 c(3) show ?thesis by (auto simp: p)
  next
    case 4
    with assms(2) have "parse = parseRenewWithSolansInstruction" "encoder = getRenewWithSolansInstructionDataEncoder"
      "disc = RENEW_WITH_SOLANS_DISCRIMINATOR" by (auto simp: p instruction_table_def)
    with 4 c(4) show ?thesis by (auto simp: p)
  qed
qed

lemma plugin_input_simps [simp]:
  "in_arg (plugin_input payer v inp) = in_arg inp" "in_programAddress (plugin_input payer v inp) = in_programAddress inp"
  "args_ok K encoder (plugin_input payer v inp) = args_ok K encoder inp"
  by (simp_all add: plugin_input_def or_payer_def args_ok_def)

text \<open>Every entry of the client plugin builds the instruction of its own name, which parses back with the arguments given; the four paying entries name the payer of the input, or the client's payer when the input names none.\<close>

lemma plugin_entries_build_their_instruction:
  assumes K: "kit_ok K" and E: "(v, the (map_of plugin_builders v), parse, encoder, disc) \<in> set instruction_table"
    and A: "args_ok K encoder inp" and P: "in_programAddress inp = None"
    and B: "plugin_instruction (\<lambda>r. r) K payer v inp = Inr ix"
  shows "identifySolansInstruction K (ix_data ix) = Inr v \<and>
    (\<exists>p. parseInstruction K ix = Inr (v, p) \<and>
       (\<forall>f \<in> set (map fst (arg_fields encoder)). f \<noteq> ''discriminator'' \<longrightarrow> in_arg inp f = Some (fld f (px_data p))) \<and>
       (v \<in> set paying_entries \<and> in_account inp ''payer'' \<noteq> Some (AddrI []) \<longrightarrow>
          px_address p ''payer'' = (case in_account inp ''payer'' of None \<Rightarrow> payer | Some x \<Rightarrow> val_address x)))"
proof -
  let ?b = "the (map_of plugin_builders v)" and ?i = "plugin_input payer v inp"
  obtain build where m: "map_of plugin_builders v = Some build" using plugin_complete by blast
  have b: "?b K ?i = Inr ix" using B by (simp add: plugin_instruction_def m)
  have d: "(disc, v) \<in> set identify_table" "map_of (parsers_1 @ parsers_2) v = Some parse"
    using E table_identified table_parsed by (auto simp: list_all_iff)
  obtain required where c: "coherent ?b parse encoder disc required" "v \<in> set paying_entries \<Longrightarrow> ''payer'' \<in> set required"
    using paying_coherent[OF _ E] E table_coherent by (fastforce simp: list_all_iff)
  obtain p rest where p: "parse K ix = Inr p" "ix_data ix = disc @ rest"
      "\<forall>f \<in> set (map fst (arg_fields encoder)). f \<noteq> ''discriminator'' \<longrightarrow> in_arg inp f = Some (fld f (px_data p))"
      "\<forall>a \<in> set required. \<forall>x. in_account ?i a = Some x \<and> \<not> absent (Some x) \<longrightarrow> px_address p a = val_address x"
    using coherent_roundtrip[OF K c(1) _ _ b] A P by auto
  have "px_address p ''payer'' = (case in_account inp ''payer'' of None \<Rightarrow> payer | Some x \<Rightarrow> val_address x)"
    if "v \<in> set paying_entries" "in_account inp ''payer'' \<noteq> Some (AddrI [])"
    using p(4) c(2) that by (auto simp: plugin_input_def or_payer_def absent_def split: option.splits)
  moreover have "identifySolansInstruction K (ix_data ix) = Inr v" using identify_tag[OF K d(1)] p(2) by simp
  ultimately show ?thesis using p d(2) by (auto simp: parseInstruction_def)
qed

end
