(* ===== verification/Instruction_Typing.thy ===== *)
theory Instruction_Typing
  imports Programs
begin

text \<open>
  The TypeScript types of the generated instruction files as data, and what it means that a builder has
  them. An input type (\<open>XInput\<close>, \<open>XAsyncInput\<close>) lists the accounts with their kind (a \<open>TransactionSigner\<close> or an \<open>Address\<close>)
  and optionality, and the arguments; an instruction type (\<open>XInstruction\<close>) lists the role of every account; a parsed
  type (\<open>ParsedXInstruction\<close>) lists the accounts a parser returns. \<open>signature_ok\<close> is the check a type checker would do on a
  builder's table; the lemmas show that a builder that passes it accepts every input of its type (progress) and
  emits an instruction of its type (preservation).
\<close>

section \<open>Types\<close>

datatype input_kind = TransactionSigner | Address_T

record input_type =
  it_accounts :: "(string \<times> input_kind \<times> bool) list"
  it_args :: "string list"

type_synonym instruction_type = "(string \<times> accountRole) list"

type_synonym parsed_type = "(string \<times> bool) list"

fun role_writable :: "accountRole \<Rightarrow> bool" where
  "role_writable WRITABLE = True"
| "role_writable WRITABLE_SIGNER = True"
| "role_writable _ = False"

fun role_signer :: "accountRole \<Rightarrow> bool" where
  "role_signer READONLY_SIGNER = True"
| "role_signer WRITABLE_SIGNER = True"
| "role_signer _ = False"

section \<open>Values of a type\<close>

fun account_typed :: "kit \<Rightarrow> input_kind \<Rightarrow> bool \<Rightarrow> acctVal option \<Rightarrow> bool" where
  "account_typed K kind optional None = optional"
| "account_typed K kind optional (Some (SignerI a)) = (kind = TransactionSigner \<and> isAddress K a)"
| "account_typed K kind optional (Some (AddrI a)) = (kind = Address_T \<and> isAddress K a)"
| "account_typed K kind optional (Some (PdaI a b)) = False"

definition input_typed :: "kit \<Rightarrow> input_type \<Rightarrow> ixInput \<Rightarrow> bool" where
  "input_typed K ty inp \<longleftrightarrow>
     list_all (\<lambda>(a, kind, optional). account_typed K kind optional (in_account inp a)) (it_accounts ty)"

text \<open>An instruction of a type: the accounts have the declared roles in the declared order; an optional account that was
  left out, and that the parsed type lists as optional, is the program's address, read-only.\<close>

definition instruction_typed ::
  "kit \<Rightarrow> instruction_type \<Rightarrow> parsed_type \<Rightarrow> ixInput \<Rightarrow> instruction \<Rightarrow> bool" where
  "instruction_typed K ty pty inp ix \<longleftrightarrow>
     list_all2 (\<lambda>(a, role) m.
         (am_role m = role \<and> isAddress K (am_address m)) \<or>
         ((a, True) \<in> set pty \<and> in_account inp a = None \<and>
          m = \<lparr>am_address = SOLANS_PROGRAM_ADDRESS, am_role = READONLY\<rparr>))
       ty (ix_accounts ix)"

definition parsed_typed :: "parsed_type \<Rightarrow> parsedIx \<Rightarrow> bool" where
  "parsed_typed ty p \<longleftrightarrow>
     map fst (px_accounts p) = map fst ty \<and>
     list_all2 (\<lambda>(a, optional) (b, m). optional \<or> m \<noteq> None) ty (px_accounts p)"

section \<open>The check of a builder's table\<close>

definition known_programs :: "address list" where
  "known_programs = [SYSTEM_PROGRAM, TOKEN_PROGRAM, ASSOCIATED_TOKEN_PROGRAM, METADATA_PROGRAM, RENT_SYSVAR]"

fun seed_ok :: "string list \<Rightarrow> seed \<Rightarrow> bool" where
  "seed_ok known (AcctSeed a) = (a \<in> set known)"
| "seed_ok known (BytesSeed b) = (length b \<le> 32)"

text \<open>\<open>known\<close> are the accounts that have a value, \<open>flds\<close> the arguments with their codecs.\<close>

fun default_ok :: "string list \<Rightarrow> (string \<times> codec) list \<Rightarrow> default_value \<Rightarrow> bool" where
  "default_ok known flds (ConstAddr c) = (c \<in> set known_programs)"
| "default_ok known flds ConfigPda = True"
| "default_ok known flds (NameRecordPda arg) = (map_of flds arg = Some (FixSizeC BytesC 32))"
| "default_ok known flds (ReverseRecordPda a) = (a \<in> set known)"
| "default_ok known flds StakePoolPda = True"
| "default_ok known flds (StakeAccountPda a) = (a \<in> set known)"
| "default_ok known flds (MetadataPda p m) = (p \<in> set known \<and> m \<in> set known)"
| "default_ok known flds (MasterEditionPda p m) = (p \<in> set known \<and> m \<in> set known)"
| "default_ok known flds (Derived p seeds) = (length seeds \<le> 16 \<and> list_all (seed_ok known) seeds)"

fun defaults_ok :: "string list \<Rightarrow> (string \<times> codec) list \<Rightarrow> (string \<times> default_value) list \<Rightarrow> bool" where
  "defaults_ok known flds [] = True"
| "defaults_ok known flds ((a, d) # ds) = (default_ok known flds d \<and> defaults_ok (a # known) flds ds)"

definition required_accounts :: "input_type \<Rightarrow> string list" where
  "required_accounts ty = map fst (filter (\<lambda>(a, kind, optional). \<not> optional) (it_accounts ty))"

text \<open>The slots, the input type and the instruction type speak of the same accounts in the same order; a slot is writable
  when its role is, an input is a signer when its role is; only addresses have default values, a default
  value uses only what is known when it is computed, and an optional input without a default value is an optional account.\<close>

definition signature_ok ::
  "slots \<Rightarrow> (string \<times> default_value) list \<Rightarrow> codec \<Rightarrow> input_type \<Rightarrow> instruction_type \<Rightarrow> parsed_type \<Rightarrow> bool" where
  "signature_ok slots defaults encoder ity ty pty \<longleftrightarrow>
     map fst (it_accounts ity) = map fst ty \<and>
     slots = map (\<lambda>(a, role). (a, role_writable role)) ty \<and>
     map (\<lambda>(a, kind, optional). kind = TransactionSigner) (it_accounts ity) = map (\<lambda>(a, role). role_signer role) ty \<and>
     list_all (\<lambda>(a, d). (a, Address_T, True) \<in> set (it_accounts ity)) defaults \<and>
     list_all (\<lambda>(a, kind, optional). optional \<and> a \<notin> fst ` set defaults \<longrightarrow> (a, True) \<in> set pty) (it_accounts ity) \<and>
     distinct (map fst ty) \<and>
     it_args ity = map fst (arg_fields encoder) \<and>
     defaults_ok (required_accounts ity) (arg_fields encoder) defaults"

text \<open>A builder with its declared types.\<close>

definition typed_builder ::
  "(kit \<Rightarrow> ixInput \<Rightarrow> instruction res) \<Rightarrow> codec \<Rightarrow> input_type \<Rightarrow> instruction_type \<Rightarrow> parsed_type \<Rightarrow> bool" where
  "typed_builder build encoder ity ty pty \<longleftrightarrow>
     (\<exists>slots defaults disc. (\<forall>K. build K = build_ix K slots defaults encoder disc) \<and> length disc = 8 \<and>
        encoder = StructC ((''discriminator'', FixSizeC BytesC 8) # arg_fields encoder) \<and>
        signature_ok slots defaults encoder ity ty pty)"

section \<open>What address derivation promises\<close>

text \<open>\<open>getProgramDerivedAddress\<close> finds an address for at most sixteen seeds of at most 32 bytes, and the addresses of the
  well-known programs are addresses.\<close>

definition derivation_ok :: "kit \<Rightarrow> bool" where
  "derivation_ok K \<longleftrightarrow>
     (\<forall>p seeds. length seeds \<le> 16 \<and> list_all (\<lambda>s. length s \<le> 32) seeds \<longrightarrow>
        (\<exists>a b. getProgramDerivedAddress K p seeds = Inr (a, b) \<and> isAddress K a)) \<and>
     list_all (isAddress K) known_programs"

section \<open>Progress: the defaults of a checked builder resolve\<close>

text \<open>An account environment in which the \<open>known\<close> accounts have addresses.\<close>

definition env_ok :: "kit \<Rightarrow> string list \<Rightarrow> acct_env \<Rightarrow> bool" where
  "env_ok K known env \<longleftrightarrow> (\<forall>a \<in> set known. \<exists>v. env a = Some v \<and> isAddress K (val_address v))"

lemma env_ok_address:
  assumes "env_ok K known env" "a \<in> set known"
  shows "\<exists>x. env_address env a = Inr x \<and> isAddress K x"
  using assms by (fastforce simp: env_ok_def env_address_def)

lemma address_seed: "kit_ok K \<Longrightarrow> isAddress K x \<Longrightarrow> \<exists>bs. encode K AddressC (VAddr x) = Inr bs \<and> length bs = 32"
  using kit_codecs.enc_addr[OF kit_ok_codecs] by blast

lemma known_seed:
  assumes "kit_ok K" "env_ok K known env" "a \<in> set known"
  shows "\<exists>x xs. env_address env a = Inr x \<and> encode K AddressC (VAddr x) = Inr xs \<and> length xs = 32"
  using env_ok_address[OF assms(2,3)] address_seed[OF assms(1)] by blast

lemma bytes_seed: "kit_ok K \<Longrightarrow> encode K BytesC (VBytes b) = Inr b"
  using kit_codecs.enc_bytes[OF kit_ok_codecs] .

lemma hash_seed: "kit_ok K \<Longrightarrow> length b = 32 \<Longrightarrow> encode K (FixSizeC BytesC 32) (VBytes b) = Inr b"
  using kit_codecs.enc_fix[OF kit_ok_codecs bytes_seed] by blast

lemma derived_pda:
  assumes "derivation_ok K" "length seeds \<le> 16" "list_all (\<lambda>s. length s \<le> 32) seeds"
  shows "\<exists>a b. getProgramDerivedAddress K p seeds = Inr (a, b) \<and> isAddress K a"
  using assms by (simp add: derivation_ok_def)

lemma seed_codecs_encode:
  assumes K: "kit_ok K" and E: "env_ok K known env" and S: "list_all (seed_ok known) seeds"
  shows "\<exists>ss bs. seed_codecs env seeds = Inr ss \<and> encode_seeds K ss = Inr bs \<and> length bs = length seeds \<and>
    list_all (\<lambda>s. length s \<le> 32) bs"
  using S
proof (induction seeds)
  case (Cons s seeds)
  then obtain ss bs where IH: "seed_codecs env seeds = Inr ss" "encode_seeds K ss = Inr bs"
    "length bs = length seeds" "list_all (\<lambda>s. length s \<le> 32) bs" by auto
  show ?case
  proof (cases s)
    case (AcctSeed a)
    then obtain x where x: "env_address env a = Inr x" "isAddress K x" using Cons.prems env_ok_address[OF E] by auto
    with address_seed[OF K x(2)] IH AcctSeed show ?thesis by auto
  next
    case (BytesSeed b)
    with Cons.prems IH bytes_seed[OF K] show ?thesis by auto
  qed
qed simp

lemma default_resolves:
  assumes K: "kit_ok K" and D: "derivation_ok K" and E: "env_ok K known env"
    and A: "\<forall>f. map_of flds f = Some (FixSizeC BytesC 32) \<longrightarrow> (\<exists>b. in_arg inp f = Some (VBytes b) \<and> length b = 32)"
    and d: "default_ok known flds d"
  shows "\<exists>v. resolve_default K inp env d = Inr v \<and> isAddress K (val_address v) \<and> (\<forall>a. v \<noteq> SignerI a)"
proof -
  note pda = derived_pda[OF D]
  have pda1: "\<exists>a b. getProgramDerivedAddress K p [b1] = Inr (a, b) \<and> isAddress K a" if "length b1 \<le> 32" for p b1
    using pda[of "[b1]" p] that by simp
  have pda2: "\<exists>a b. getProgramDerivedAddress K p [b1, b2] = Inr (a, b) \<and> isAddress K a"
    if "length b1 \<le> 32" "length b2 \<le> 32" for p b1 b2 using pda[of "[b1, b2]" p] that by simp
  show ?thesis
  proof (cases d)
    case (ConstAddr c)
    then show ?thesis using D d by (auto simp: derivation_ok_def list_all_iff)
  next
    case ConfigPda
    then show ?thesis using pda1[of "[99, 111, 110, 102, 105, 103]" SOLANS_PROGRAM_ADDRESS]
      by (auto simp: findConfigPda_def derive_def bytes_seed[OF K] pda_val_def)
  next
    case StakePoolPda
    then show ?thesis using pda1[of "[115, 116, 97, 107, 101, 95, 112, 111, 111, 108]" SOLANS_PROGRAM_ADDRESS]
      by (auto simp: findStakePoolPda_def derive_def bytes_seed[OF K] pda_val_def)
  next
    case (NameRecordPda arg)
    then obtain b where b: "in_arg inp arg = Some (VBytes b)" "length b = 32" using A d by auto
    with NameRecordPda pda2[of "[110, 97, 109, 101]" b SOLANS_PROGRAM_ADDRESS] show ?thesis
      by (auto simp: arg_bytes_def findNameRecordPda_def derive_def bytes_seed[OF K] hash_seed[OF K] pda_val_def)
  next
    case (ReverseRecordPda a)
    then have "a \<in> set known" using d by simp
    from known_seed[OF K E this] obtain x bs where
      x: "env_address env a = Inr x" "encode K AddressC (VAddr x) = Inr bs" "length bs = 32" by blast
    with ReverseRecordPda pda2[of "[114, 101, 118, 101, 114, 115, 101]" bs SOLANS_PROGRAM_ADDRESS] show ?thesis
      by (auto simp: findReverseRecordPda_def derive_def bytes_seed[OF K] pda_val_def)
  next
    case (StakeAccountPda a)
    then have "a \<in> set known" using d by simp
    from known_seed[OF K E this] obtain x bs where
      x: "env_address env a = Inr x" "encode K AddressC (VAddr x) = Inr bs" "length bs = 32" by blast
    with StakeAccountPda pda2[of "[115, 116, 97, 107, 101]" bs SOLANS_PROGRAM_ADDRESS] show ?thesis
      by (auto simp: findStakeAccountPda_def derive_def bytes_seed[OF K] pda_val_def)
  next
    case (MetadataPda p m)
    then have k: "p \<in> set known" "m \<in> set known" using d by simp_all
    from known_seed[OF K E k(1)] known_seed[OF K E k(2)] obtain x xs y ys where
      x: "env_address env p = Inr x" "encode K AddressC (VAddr x) = Inr xs" "length xs = 32"
        "env_address env m = Inr y" "encode K AddressC (VAddr y) = Inr ys" "length ys = 32" by blast
    with MetadataPda pda[of "[[109, 101, 116, 97, 100, 97, 116, 97], xs, ys]" x] show ?thesis
      by (auto simp: findMetadataPda_def derive_for_def bytes_seed[OF K] pda_val_def)
  next
    case (MasterEditionPda p m)
    then have k: "p \<in> set known" "m \<in> set known" using d by simp_all
    from known_seed[OF K E k(1)] known_seed[OF K E k(2)] obtain x xs y ys where
      x: "env_address env p = Inr x" "encode K AddressC (VAddr x) = Inr xs" "length xs = 32"
        "env_address env m = Inr y" "encode K AddressC (VAddr y) = Inr ys" "length ys = 32" by blast
    with MasterEditionPda
      pda[of "[[109, 101, 116, 97, 100, 97, 116, 97], xs, ys, [101, 100, 105, 116, 105, 111, 110]]" x] show ?thesis
      by (auto simp: findMasterEditionPda_def derive_for_def bytes_seed[OF K] pda_val_def)
  next
    case (Derived p seeds)
    then obtain ss bs where "seed_codecs env seeds = Inr ss" "encode_seeds K ss = Inr bs" "length bs \<le> 16"
      "list_all (\<lambda>s. length s \<le> 32) bs" using d seed_codecs_encode[OF K E, of seeds] by auto
    with Derived pda[of bs p] show ?thesis by (auto simp: derive_for_def pda_val_def)
  qed
qed

lemma defaults_resolve:
  assumes K: "kit_ok K" and D: "derivation_ok K"
    and A: "\<forall>f. map_of flds f = Some (FixSizeC BytesC 32) \<longrightarrow> (\<exists>b. in_arg inp f = Some (VBytes b) \<and> length b = 32)"
    and ds: "defaults_ok known flds ds" and E: "env_ok K known env"
    and G: "\<forall>a v. a \<in> fst ` set ds \<and> env a = Some v \<longrightarrow> isAddress K (val_address v) \<and> (\<forall>x. v \<noteq> SignerI x)"
  shows "\<exists>env'. resolve_defaults K inp ds env = Inr env' \<and>
    (\<forall>a. a \<notin> fst ` set ds \<longrightarrow> env' a = env a) \<and>
    (\<forall>a \<in> fst ` set ds. \<exists>v. env' a = Some v \<and> isAddress K (val_address v) \<and> (\<forall>x. v \<noteq> SignerI x))"
  using ds E G
proof (induction ds arbitrary: known env)
  case (Cons ad ds)
  obtain a d where ad: "ad = (a, d)" by (cases ad)
  have "\<exists>v. isAddress K (val_address v) \<and> (\<forall>x. v \<noteq> SignerI x) \<and> (absent (env a) \<longrightarrow> resolve_default K inp env d = Inr v) \<and>
      (\<not> absent (env a) \<longrightarrow> env a = Some v)"
  proof (cases "absent (env a)")
    case True
    then show ?thesis using default_resolves[OF K D Cons.prems(2) A, of d] Cons.prems(1) ad by auto
  next
    case False
    then obtain v where "env a = Some v" by (cases "env a") (auto simp: absent_def)
    with False Cons.prems(3) ad show ?thesis by auto
  qed
  then obtain v where v: "isAddress K (val_address v)" "\<forall>x. v \<noteq> SignerI x"
    and r: "absent (env a) \<longrightarrow> resolve_default K inp env d = Inr v" "\<not> absent (env a) \<longrightarrow> env a = Some v" by blast
  have step: "resolve_defaults K inp (ad # ds) env = resolve_defaults K inp ds (env(a \<mapsto> v))"
    using r by (cases "absent (env a)") (simp_all add: ad fun_upd_idem)
  have E1: "env_ok K (a # known) (env(a \<mapsto> v))" using Cons.prems(2) v(1) by (auto simp: env_ok_def)
  have D1: "defaults_ok (a # known) flds ds" using Cons.prems(1) ad by simp
  have "\<forall>b w. b \<in> fst ` set ds \<and> (env(a \<mapsto> v)) b = Some w \<longrightarrow> isAddress K (val_address w) \<and> (\<forall>x. w \<noteq> SignerI x)"
    using Cons.prems(3) v by auto
  from Cons.IH[OF D1 E1 this] obtain env' where e: "resolve_defaults K inp ds (env(a \<mapsto> v)) = Inr env'"
    "\<forall>b. b \<notin> fst ` set ds \<longrightarrow> env' b = (env(a \<mapsto> v)) b"
    "\<forall>b \<in> fst ` set ds. \<exists>w. env' b = Some w \<and> isAddress K (val_address w) \<and> (\<forall>x. w \<noteq> SignerI x)"
    by blast
  then have "\<exists>w. env' a = Some w \<and> isAddress K (val_address w) \<and> (\<forall>x. w \<noteq> SignerI x)"
    using v by (cases "a \<in> fst ` set ds") auto
  with e step ad show ?case by auto
qed simp

section \<open>Progress and preservation of a checked builder\<close>

lemma wt_fields_lookup:
  "wt_fields A fs vs \<Longrightarrow> map_of fs f = Some c \<Longrightarrow> \<exists>v. map_of vs f = Some v \<and> wt A c v"
proof (induction fs arbitrary: vs)
  case (Cons fc fs)
  then show ?case by (cases fc; cases vs) (auto split: if_splits)
qed simp

lemma args_ok_bytes:
  assumes "args_ok K encoder inp" "map_of (arg_fields encoder) f = Some (FixSizeC BytesC 32)"
  shows "\<exists>b. in_arg inp f = Some (VBytes b) \<and> length b = 32"
proof -
  obtain vs where vs: "pick_args (arg_fields encoder) (in_arg inp) = Inr vs"
    "wt_fields (isAddress K) (arg_fields encoder) vs" using assms(1) by (auto simp: args_ok_def split: sum.splits)
  obtain v where v: "map_of vs f = Some v" "wt (isAddress K) (FixSizeC BytesC 32) v"
    using wt_fields_lookup[OF vs(2) assms(2)] by blast
  have "in_arg inp f = Some v" using pick_args_map_of[OF vs(1)] v(1) by blast
  with v(2) show ?thesis by (auto split: cval.splits)
qed

lemma args_encode:
  assumes "kit_ok K" "args_ok K encoder inp" "length disc = 8"
    "encoder = StructC ((''discriminator'', FixSizeC BytesC 8) # arg_fields encoder)"
  shows "\<exists>data. encode_data K encoder disc (in_arg inp) = Inr data"
proof -
  obtain vs where vs: "pick_args (arg_fields encoder) (in_arg inp) = Inr vs"
    "wt_fields (isAddress K) (arg_fields encoder) vs" using assms(2) by (auto simp: args_ok_def split: sum.splits)
  have "wt (isAddress K) (StructC ((''discriminator'', FixSizeC BytesC 8) # arg_fields encoder))
      (VStruct ((''discriminator'', VBytes disc) # vs))" using vs(2) assms(3) by simp
  then have "wt (isAddress K) encoder (VStruct ((''discriminator'', VBytes disc) # vs))" using assms(4) by simp
  from kit_codecs.roundtrip[OF kit_ok_codecs[OF assms(1)] this] vs(1) show ?thesis by (auto simp: encode_data_def)
qed

lemma meta_of_typed:
  assumes "isAddress K (val_address v)" "(\<exists>x. v = SignerI x) \<longleftrightarrow> role_signer role"
  shows "am_role (meta_ref p a (Some v) (role_writable role)) = role \<and>
    isAddress K (am_address (meta_ref p a (Some v) (role_writable role)))"
  using assms by (cases v; cases role) (simp_all add: meta_ref_def)

lemma slot_kind:
  assumes S: "signature_ok slots defaults encoder ity ty pty" and r: "(a, role) \<in> set ty"
  shows "\<exists>kind optional. (a, kind, optional) \<in> set (it_accounts ity) \<and> (kind = TransactionSigner) = role_signer role \<and>
    (a \<in> fst ` set defaults \<longrightarrow> kind = Address_T)"
proof -
  have names: "map fst (it_accounts ity) = map fst ty" "distinct (map fst ty)"
    and kinds: "map (\<lambda>(a, kind, optional). kind = TransactionSigner) (it_accounts ity) = map (\<lambda>(a, role). role_signer role) ty"
    using S by (simp_all add: signature_ok_def)
  obtain i where i: "i < length ty" "ty ! i = (a, role)" using r by (auto simp: in_set_conv_nth)
  have len: "length (it_accounts ity) = length ty" using names(1) by (metis length_map)
  obtain b kind optional where bi: "it_accounts ity ! i = (b, kind, optional)" by (cases "it_accounts ity ! i")
  have "b = a" using arg_cong[OF names(1), of "\<lambda>xs. xs ! i"] i len bi by simp
  then have m: "(a, kind, optional) \<in> set (it_accounts ity)" using bi i(1) len by (metis nth_mem)
  have "(kind = TransactionSigner) = role_signer role" using arg_cong[OF kinds, of "\<lambda>xs. xs ! i"] i len bi by simp
  moreover have "kind = Address_T" if "a \<in> fst ` set defaults"
  proof -
    have "(a, Address_T, True) \<in> set (it_accounts ity)" using S that by (auto simp: signature_ok_def list_all_iff)
    moreover have "distinct (map fst (it_accounts ity))" using names by simp
    ultimately show ?thesis using m by (metis Pair_inject eq_key_imp_eq_value)
  qed
  ultimately show ?thesis using m by blast
qed

lemma input_given:
  assumes "input_typed K ity inp" "(a, kind, optional) \<in> set (it_accounts ity)" "in_account inp a = Some v"
  shows "isAddress K (val_address v) \<and> ((\<exists>x. v = SignerI x) \<longleftrightarrow> kind = TransactionSigner)"
proof -
  have "account_typed K kind optional (Some v)" using assms by (auto simp: input_typed_def list_all_iff)
  then show ?thesis by (cases v) auto
qed

lemma input_env_ok: "input_typed K ity inp \<Longrightarrow> env_ok K (required_accounts ity) (in_account inp)"
proof (unfold env_ok_def, intro ballI)
  fix a assume I: "input_typed K ity inp" and "a \<in> set (required_accounts ity)"
  then obtain kind where m: "(a, kind, False) \<in> set (it_accounts ity)" by (auto simp: required_accounts_def)
  with I have "account_typed K kind False (in_account inp a)" by (auto simp: input_typed_def list_all_iff)
  then obtain v where "in_account inp a = Some v" by (cases "in_account inp a") auto
  with input_given[OF I m] show "\<exists>v. in_account inp a = Some v \<and> isAddress K (val_address v)" by blast
qed

text \<open>The account a checked slot becomes.\<close>

lemma slot_typed:
  assumes S: "signature_ok slots defaults encoder ity ty pty" and I: "input_typed K ity inp" and r: "(a, role) \<in> set ty"
    and other: "a \<notin> fst ` set defaults \<Longrightarrow> env a = in_account inp a"
    and dflt: "a \<in> fst ` set defaults \<Longrightarrow> \<exists>v. env a = Some v \<and> isAddress K (val_address v) \<and> (\<forall>x. v \<noteq> SignerI x)"
  shows "(am_role (meta_ref p a (env a) (role_writable role)) = role \<and>
      isAddress K (am_address (meta_ref p a (env a) (role_writable role)))) \<or>
    ((a, True) \<in> set pty \<and> in_account inp a = None \<and>
     meta_ref p a (env a) (role_writable role) = \<lparr>am_address = p, am_role = READONLY\<rparr>)"
proof -
  obtain kind optional where m: "(a, kind, optional) \<in> set (it_accounts ity)"
    and k: "(kind = TransactionSigner) = role_signer role" and d: "a \<in> fst ` set defaults \<longrightarrow> kind = Address_T"
    using slot_kind[OF S r] by blast
  show ?thesis
  proof (cases "a \<in> fst ` set defaults")
    case True
    then obtain v where "env a = Some v" "isAddress K (val_address v)" "\<forall>x. v \<noteq> SignerI x" using dflt by blast
    with True d k show ?thesis using meta_of_typed[of K v role p a] by auto
  next
    case False
    show ?thesis
    proof (cases "in_account inp a")
      case None
      then have optional using I m by (auto simp: input_typed_def list_all_iff)
      then have "(a, True) \<in> set pty" using S m False by (auto simp: signature_ok_def list_all_iff)
      with None show ?thesis using other[OF False] by (simp add: meta_ref_def)
    next
      case (Some v)
      then show ?thesis using other[OF False] k input_given[OF I m Some] meta_of_typed[of K v role p a] by auto
    qed
  qed
qed

lemma typed_builder_sound:
  assumes K: "kit_ok K" and D: "derivation_ok K" and T: "typed_builder build encoder ity ty pty"
    and I: "input_typed K ity inp" and A: "args_ok K encoder inp" and P: "in_programAddress inp = None"
  shows "\<exists>ix. build K inp = Inr ix \<and> instruction_typed K ty pty inp ix"
proof -
  obtain slots defaults disc where b: "build K = build_ix K slots defaults encoder disc" "length disc = 8"
      "encoder = StructC ((''discriminator'', FixSizeC BytesC 8) # arg_fields encoder)"
    and S: "signature_ok slots defaults encoder ity ty pty" using T unfolding typed_builder_def by blast
  have S': "defaults_ok (required_accounts ity) (arg_fields encoder) defaults"
    "slots = map (\<lambda>(a, role). (a, role_writable role)) ty" using S by (simp_all add: signature_ok_def)
  have "(a, Address_T, True) \<in> set (it_accounts ity)" if "a \<in> fst ` set defaults" for a
    using S that by (auto simp: signature_ok_def list_all_iff)
  then have G: "\<forall>a v. a \<in> fst ` set defaults \<and> in_account inp a = Some v \<longrightarrow> isAddress K (val_address v) \<and> (\<forall>x. v \<noteq> SignerI x)"
    using input_given[OF I] by (metis input_kind.distinct(1))
  have B: "\<forall>f. map_of (arg_fields encoder) f = Some (FixSizeC BytesC 32) \<longrightarrow> (\<exists>b. in_arg inp f = Some (VBytes b) \<and> length b = 32)"
    using args_ok_bytes[OF A] by blast
  obtain env where env: "resolve_defaults K inp defaults (in_account inp) = Inr env"
      "\<forall>a. a \<notin> fst ` set defaults \<longrightarrow> env a = in_account inp a"
      "\<forall>a \<in> fst ` set defaults. \<exists>v. env a = Some v \<and> isAddress K (val_address v) \<and> (\<forall>x. v \<noteq> SignerI x)"
    using defaults_resolve[OF K D B S'(1) input_env_ok[OF I] G] by blast
  obtain data where data: "encode_data K encoder disc (in_arg inp) = Inr data" using args_encode[OF K A b(2,3)] by blast
  let ?ix = "\<lparr>ix_programAddress = SOLANS_PROGRAM_ADDRESS,
    ix_accounts = map (\<lambda>(a, role). meta_ref SOLANS_PROGRAM_ADDRESS a (env a) (role_writable role)) ty, ix_data = data\<rparr>"
  have M: "getAccountMeta K = meta_ref" using K by (simp add: kit_ok_def)
  have "build K inp = Inr ?ix" by (simp add: b(1) build_ix_def P env(1) data M S'(2) comp_def case_prod_beta)
  moreover have "instruction_typed K ty pty inp ?ix"
    unfolding instruction_typed_def instruction.select_convs list_all2_map2
  proof (rule list.rel_refl_strong)
    fix x assume x: "x \<in> set ty"
    obtain a role where ar: "x = (a, role)" by (cases x)
    from slot_typed[OF S I x[unfolded ar], of env SOLANS_PROGRAM_ADDRESS] env(2,3)
    show "(case x of (a, role) \<Rightarrow> \<lambda>m. (am_role m = role \<and> isAddress K (am_address m)) \<or>
        ((a, True) \<in> set pty \<and> in_account inp a = None \<and> m = \<lparr>am_address = SOLANS_PROGRAM_ADDRESS, am_role = READONLY\<rparr>))
      (case x of (a, role) \<Rightarrow> meta_ref SOLANS_PROGRAM_ADDRESS a (env a) (role_writable role))" by (simp add: ar)
  qed
  ultimately show ?thesis by blast
qed

end
