(* ===== verification/Client_Types.thy ===== *)
theory Client_Types
  imports Instruction_Typing
begin

text \<open>
  The types the generated instruction files export: for every instruction \<open>X\<close> the roles of \<open>XInstruction\<close>, the fields of
  \<open>XInput\<close> and (where the file has an asynchronous builder) \<open>XAsyncInput\<close>, the accounts of \<open>ParsedXInstruction\<close>, and
  \<open>getXInstructionDataCodec\<close>. A field of an input type is a \<open>TransactionSigner\<close> or an \<open>Address\<close>, marked \<open>True\<close> when it is optional;
  the other fields are the arguments.
\<close>

section \<open>acceptOffer.ts\<close>

definition AcceptOfferInstruction :: instruction_type where
  "AcceptOfferInstruction =
     [(''owner'', READONLY_SIGNER), (''buyer'', WRITABLE), (''solTreasury'', WRITABLE), (''config'', READONLY),
      (''nameRecord'', WRITABLE), (''offer'', WRITABLE)]"

definition AcceptOfferAsyncInput :: input_type where
  "AcceptOfferAsyncInput = \<lparr>it_accounts =
     [(''owner'', TransactionSigner, False), (''buyer'', Address_T, False), (''solTreasury'', Address_T, False),
      (''config'', Address_T, True), (''nameRecord'', Address_T, False), (''offer'', Address_T, False)],
     it_args = []\<rparr>"

definition AcceptOfferInput :: input_type where
  "AcceptOfferInput = \<lparr>it_accounts =
     [(''owner'', TransactionSigner, False), (''buyer'', Address_T, False), (''solTreasury'', Address_T, False),
      (''config'', Address_T, False), (''nameRecord'', Address_T, False), (''offer'', Address_T, False)],
     it_args = []\<rparr>"

definition ParsedAcceptOfferInstruction :: parsed_type where
  "ParsedAcceptOfferInstruction =
     [(''owner'', False), (''buyer'', False), (''solTreasury'', False), (''config'', False), (''nameRecord'', False),
      (''offer'', False)]"

definition getAcceptOfferInstructionDataCodec :: "codec \<times> codec" where
  "getAcceptOfferInstructionDataCodec = (getAcceptOfferInstructionDataEncoder, getAcceptOfferInstructionDataDecoder)"

section \<open>autoRenew.ts\<close>

definition AutoRenewInstruction :: instruction_type where
  "AutoRenewInstruction =
     [(''keeper'', WRITABLE_SIGNER), (''config'', READONLY), (''nameRecord'', WRITABLE),
      (''ownerTokenAccount'', WRITABLE), (''treasuryTokenAccount'', WRITABLE), (''stakingVault'', WRITABLE),
      (''burnVault'', WRITABLE), (''paymentMint'', READONLY), (''tokenProgram'', READONLY)]"

definition AutoRenewAsyncInput :: input_type where
  "AutoRenewAsyncInput = \<lparr>it_accounts =
     [(''keeper'', TransactionSigner, False), (''config'', Address_T, True), (''nameRecord'', Address_T, False),
      (''ownerTokenAccount'', Address_T, False), (''treasuryTokenAccount'', Address_T, False),
      (''stakingVault'', Address_T, False), (''burnVault'', Address_T, False), (''paymentMint'', Address_T, False),
      (''tokenProgram'', Address_T, True)],
     it_args = [''name'', ''tld'', ''years'']\<rparr>"

definition AutoRenewInput :: input_type where
  "AutoRenewInput = \<lparr>it_accounts =
     [(''keeper'', TransactionSigner, False), (''config'', Address_T, False), (''nameRecord'', Address_T, False),
      (''ownerTokenAccount'', Address_T, False), (''treasuryTokenAccount'', Address_T, False),
      (''stakingVault'', Address_T, False), (''burnVault'', Address_T, False), (''paymentMint'', Address_T, False),
      (''tokenProgram'', Address_T, True)],
     it_args = [''name'', ''tld'', ''years'']\<rparr>"

definition ParsedAutoRenewInstruction :: parsed_type where
  "ParsedAutoRenewInstruction =
     [(''keeper'', False), (''config'', False), (''nameRecord'', False), (''ownerTokenAccount'', False),
      (''treasuryTokenAccount'', False), (''stakingVault'', False), (''burnVault'', False), (''paymentMint'', False),
      (''tokenProgram'', False)]"

definition getAutoRenewInstructionDataCodec :: "codec \<times> codec" where
  "getAutoRenewInstructionDataCodec = (getAutoRenewInstructionDataEncoder, getAutoRenewInstructionDataDecoder)"

section \<open>bid.ts\<close>

definition BidInstruction :: instruction_type where
  "BidInstruction =
     [(''bidder'', WRITABLE_SIGNER), (''auction'', WRITABLE), (''bidderSolansAccount'', WRITABLE),
      (''prevBidderSolansAccount'', WRITABLE), (''bidVault'', WRITABLE), (''solansMint'', READONLY),
      (''tokenProgram'', READONLY)]"

definition BidInput :: input_type where
  "BidInput = \<lparr>it_accounts =
     [(''bidder'', TransactionSigner, False), (''auction'', Address_T, False),
      (''bidderSolansAccount'', Address_T, False), (''prevBidderSolansAccount'', Address_T, True),
      (''bidVault'', Address_T, False), (''solansMint'', Address_T, False), (''tokenProgram'', Address_T, True)],
     it_args = [''amount'']\<rparr>"

definition ParsedBidInstruction :: parsed_type where
  "ParsedBidInstruction =
     [(''bidder'', False), (''auction'', False), (''bidderSolansAccount'', False),
      (''prevBidderSolansAccount'', True), (''bidVault'', False), (''solansMint'', False), (''tokenProgram'', False)]"

definition getBidInstructionDataCodec :: "codec \<times> codec" where
  "getBidInstructionDataCodec = (getBidInstructionDataEncoder, getBidInstructionDataDecoder)"

section \<open>burnName.ts\<close>

definition BurnNameInstruction :: instruction_type where
  "BurnNameInstruction =
     [(''owner'', WRITABLE_SIGNER), (''nameRecord'', WRITABLE)]"

definition BurnNameInput :: input_type where
  "BurnNameInput = \<lparr>it_accounts =
     [(''owner'', TransactionSigner, False), (''nameRecord'', Address_T, False)],
     it_args = []\<rparr>"

definition ParsedBurnNameInstruction :: parsed_type where
  "ParsedBurnNameInstruction =
     [(''owner'', False), (''nameRecord'', False)]"

definition getBurnNameInstructionDataCodec :: "codec \<times> codec" where
  "getBurnNameInstructionDataCodec = (getBurnNameInstructionDataEncoder, getBurnNameInstructionDataDecoder)"

section \<open>buyName.ts\<close>

definition BuyNameInstruction :: instruction_type where
  "BuyNameInstruction =
     [(''buyer'', WRITABLE_SIGNER), (''seller'', WRITABLE), (''solTreasury'', WRITABLE), (''config'', READONLY),
      (''nameRecord'', WRITABLE), (''listing'', WRITABLE), (''systemProgram'', READONLY)]"

definition BuyNameAsyncInput :: input_type where
  "BuyNameAsyncInput = \<lparr>it_accounts =
     [(''buyer'', TransactionSigner, False), (''seller'', Address_T, False), (''solTreasury'', Address_T, False),
      (''config'', Address_T, True), (''nameRecord'', Address_T, False), (''listing'', Address_T, False),
      (''systemProgram'', Address_T, True)],
     it_args = [''expectedPrice'']\<rparr>"

definition BuyNameInput :: input_type where
  "BuyNameInput = \<lparr>it_accounts =
     [(''buyer'', TransactionSigner, False), (''seller'', Address_T, False), (''solTreasury'', Address_T, False),
      (''config'', Address_T, False), (''nameRecord'', Address_T, False), (''listing'', Address_T, False),
      (''systemProgram'', Address_T, True)],
     it_args = [''expectedPrice'']\<rparr>"

definition ParsedBuyNameInstruction :: parsed_type where
  "ParsedBuyNameInstruction =
     [(''buyer'', False), (''seller'', False), (''solTreasury'', False), (''config'', False),
      (''nameRecord'', False), (''listing'', False), (''systemProgram'', False)]"

definition getBuyNameInstructionDataCodec :: "codec \<times> codec" where
  "getBuyNameInstructionDataCodec = (getBuyNameInstructionDataEncoder, getBuyNameInstructionDataDecoder)"

section \<open>buybackBurn.ts\<close>

definition BuybackBurnInstruction :: instruction_type where
  "BuybackBurnInstruction =
     [(''keeper'', READONLY_SIGNER), (''config'', READONLY), (''burnVault'', WRITABLE),
      (''keeperPaymentAccount'', WRITABLE), (''keeperSolansAccount'', WRITABLE), (''solansMint'', WRITABLE),
      (''paymentMint'', READONLY), (''tokenProgram'', READONLY)]"

definition BuybackBurnAsyncInput :: input_type where
  "BuybackBurnAsyncInput = \<lparr>it_accounts =
     [(''keeper'', TransactionSigner, False), (''config'', Address_T, True), (''burnVault'', Address_T, False),
      (''keeperPaymentAccount'', Address_T, False), (''keeperSolansAccount'', Address_T, False),
      (''solansMint'', Address_T, False), (''paymentMint'', Address_T, False), (''tokenProgram'', Address_T, True)],
     it_args = [''solansAmount'']\<rparr>"

definition BuybackBurnInput :: input_type where
  "BuybackBurnInput = \<lparr>it_accounts =
     [(''keeper'', TransactionSigner, False), (''config'', Address_T, False), (''burnVault'', Address_T, False),
      (''keeperPaymentAccount'', Address_T, False), (''keeperSolansAccount'', Address_T, False),
      (''solansMint'', Address_T, False), (''paymentMint'', Address_T, False), (''tokenProgram'', Address_T, True)],
     it_args = [''solansAmount'']\<rparr>"

definition ParsedBuybackBurnInstruction :: parsed_type where
  "ParsedBuybackBurnInstruction =
     [(''keeper'', False), (''config'', False), (''burnVault'', False), (''keeperPaymentAccount'', False),
      (''keeperSolansAccount'', False), (''solansMint'', False), (''paymentMint'', False), (''tokenProgram'', False)]"

definition getBuybackBurnInstructionDataCodec :: "codec \<times> codec" where
  "getBuybackBurnInstructionDataCodec = (getBuybackBurnInstructionDataEncoder, getBuybackBurnInstructionDataDecoder)"

section \<open>cancelAuction.ts\<close>

definition CancelAuctionInstruction :: instruction_type where
  "CancelAuctionInstruction =
     [(''seller'', WRITABLE_SIGNER), (''nameRecord'', WRITABLE), (''auction'', WRITABLE), (''bidVault'', WRITABLE),
      (''tokenProgram'', READONLY)]"

definition CancelAuctionInput :: input_type where
  "CancelAuctionInput = \<lparr>it_accounts =
     [(''seller'', TransactionSigner, False), (''nameRecord'', Address_T, False), (''auction'', Address_T, False),
      (''bidVault'', Address_T, False), (''tokenProgram'', Address_T, True)],
     it_args = []\<rparr>"

definition ParsedCancelAuctionInstruction :: parsed_type where
  "ParsedCancelAuctionInstruction =
     [(''seller'', False), (''nameRecord'', False), (''auction'', False), (''bidVault'', False),
      (''tokenProgram'', False)]"

definition getCancelAuctionInstructionDataCodec :: "codec \<times> codec" where
  "getCancelAuctionInstructionDataCodec = (getCancelAuctionInstructionDataEncoder, getCancelAuctionInstructionDataDecoder)"

section \<open>cancelListing.ts\<close>

definition CancelListingInstruction :: instruction_type where
  "CancelListingInstruction =
     [(''canceller'', READONLY_SIGNER), (''seller'', WRITABLE), (''nameRecord'', WRITABLE), (''listing'', WRITABLE)]"

definition CancelListingInput :: input_type where
  "CancelListingInput = \<lparr>it_accounts =
     [(''canceller'', TransactionSigner, False), (''seller'', Address_T, False), (''nameRecord'', Address_T, False),
      (''listing'', Address_T, False)],
     it_args = []\<rparr>"

definition ParsedCancelListingInstruction :: parsed_type where
  "ParsedCancelListingInstruction =
     [(''canceller'', False), (''seller'', False), (''nameRecord'', False), (''listing'', False)]"

definition getCancelListingInstructionDataCodec :: "codec \<times> codec" where
  "getCancelListingInstructionDataCodec = (getCancelListingInstructionDataEncoder, getCancelListingInstructionDataDecoder)"

section \<open>cancelOffer.ts\<close>

definition CancelOfferInstruction :: instruction_type where
  "CancelOfferInstruction =
     [(''canceller'', READONLY_SIGNER), (''buyer'', WRITABLE), (''nameRecord'', READONLY), (''offer'', WRITABLE)]"

definition CancelOfferInput :: input_type where
  "CancelOfferInput = \<lparr>it_accounts =
     [(''canceller'', TransactionSigner, False), (''buyer'', Address_T, False), (''nameRecord'', Address_T, True),
      (''offer'', Address_T, False)],
     it_args = []\<rparr>"

definition ParsedCancelOfferInstruction :: parsed_type where
  "ParsedCancelOfferInstruction =
     [(''canceller'', False), (''buyer'', False), (''nameRecord'', True), (''offer'', False)]"

definition getCancelOfferInstructionDataCodec :: "codec \<times> codec" where
  "getCancelOfferInstructionDataCodec = (getCancelOfferInstructionDataEncoder, getCancelOfferInstructionDataDecoder)"

section \<open>claimExpired.ts\<close>

definition ClaimExpiredInstruction :: instruction_type where
  "ClaimExpiredInstruction =
     [(''claimer'', WRITABLE_SIGNER), (''config'', READONLY), (''nameRecord'', WRITABLE),
      (''payerTokenAccount'', WRITABLE), (''treasuryTokenAccount'', WRITABLE), (''stakingVault'', WRITABLE),
      (''burnVault'', WRITABLE), (''referralTokenAccount'', WRITABLE), (''paymentMint'', READONLY),
      (''tokenProgram'', READONLY)]"

definition ClaimExpiredAsyncInput :: input_type where
  "ClaimExpiredAsyncInput = \<lparr>it_accounts =
     [(''claimer'', TransactionSigner, False), (''config'', Address_T, True), (''nameRecord'', Address_T, False),
      (''payerTokenAccount'', Address_T, False), (''treasuryTokenAccount'', Address_T, False),
      (''stakingVault'', Address_T, False), (''burnVault'', Address_T, False),
      (''referralTokenAccount'', Address_T, True), (''paymentMint'', Address_T, False),
      (''tokenProgram'', Address_T, True)],
     it_args = [''name'', ''tld'', ''years'']\<rparr>"

definition ClaimExpiredInput :: input_type where
  "ClaimExpiredInput = \<lparr>it_accounts =
     [(''claimer'', TransactionSigner, False), (''config'', Address_T, False), (''nameRecord'', Address_T, False),
      (''payerTokenAccount'', Address_T, False), (''treasuryTokenAccount'', Address_T, False),
      (''stakingVault'', Address_T, False), (''burnVault'', Address_T, False),
      (''referralTokenAccount'', Address_T, True), (''paymentMint'', Address_T, False),
      (''tokenProgram'', Address_T, True)],
     it_args = [''name'', ''tld'', ''years'']\<rparr>"

definition ParsedClaimExpiredInstruction :: parsed_type where
  "ParsedClaimExpiredInstruction =
     [(''claimer'', False), (''config'', False), (''nameRecord'', False), (''payerTokenAccount'', False),
      (''treasuryTokenAccount'', False), (''stakingVault'', False), (''burnVault'', False),
      (''referralTokenAccount'', True), (''paymentMint'', False), (''tokenProgram'', False)]"

definition getClaimExpiredInstructionDataCodec :: "codec \<times> codec" where
  "getClaimExpiredInstructionDataCodec = (getClaimExpiredInstructionDataEncoder, getClaimExpiredInstructionDataDecoder)"

section \<open>claimRewards.ts\<close>

definition ClaimRewardsInstruction :: instruction_type where
  "ClaimRewardsInstruction =
     [(''staker'', READONLY_SIGNER), (''config'', READONLY), (''stakePool'', WRITABLE), (''stakeAccount'', WRITABLE),
      (''stakerRewardAccount'', WRITABLE), (''rewardVault'', WRITABLE), (''paymentMint'', READONLY),
      (''tokenProgram'', READONLY)]"

definition ClaimRewardsAsyncInput :: input_type where
  "ClaimRewardsAsyncInput = \<lparr>it_accounts =
     [(''staker'', TransactionSigner, False), (''config'', Address_T, True), (''stakePool'', Address_T, True),
      (''stakeAccount'', Address_T, True), (''stakerRewardAccount'', Address_T, False),
      (''rewardVault'', Address_T, False), (''paymentMint'', Address_T, False), (''tokenProgram'', Address_T, True)],
     it_args = []\<rparr>"

definition ClaimRewardsInput :: input_type where
  "ClaimRewardsInput = \<lparr>it_accounts =
     [(''staker'', TransactionSigner, False), (''config'', Address_T, False), (''stakePool'', Address_T, False),
      (''stakeAccount'', Address_T, False), (''stakerRewardAccount'', Address_T, False),
      (''rewardVault'', Address_T, False), (''paymentMint'', Address_T, False), (''tokenProgram'', Address_T, True)],
     it_args = []\<rparr>"

definition ParsedClaimRewardsInstruction :: parsed_type where
  "ParsedClaimRewardsInstruction =
     [(''staker'', False), (''config'', False), (''stakePool'', False), (''stakeAccount'', False),
      (''stakerRewardAccount'', False), (''rewardVault'', False), (''paymentMint'', False), (''tokenProgram'', False)]"

definition getClaimRewardsInstructionDataCodec :: "codec \<times> codec" where
  "getClaimRewardsInstructionDataCodec = (getClaimRewardsInstructionDataEncoder, getClaimRewardsInstructionDataDecoder)"

section \<open>initBurnPool.ts\<close>

definition InitBurnPoolInstruction :: instruction_type where
  "InitBurnPoolInstruction =
     [(''admin'', WRITABLE_SIGNER), (''config'', WRITABLE), (''solansMint'', READONLY), (''paymentMint'', READONLY),
      (''burnVault'', WRITABLE), (''tokenProgram'', READONLY), (''associatedTokenProgram'', READONLY),
      (''systemProgram'', READONLY)]"

definition InitBurnPoolAsyncInput :: input_type where
  "InitBurnPoolAsyncInput = \<lparr>it_accounts =
     [(''admin'', TransactionSigner, False), (''config'', Address_T, True), (''solansMint'', Address_T, False),
      (''paymentMint'', Address_T, False), (''burnVault'', Address_T, True), (''tokenProgram'', Address_T, True),
      (''associatedTokenProgram'', Address_T, True), (''systemProgram'', Address_T, True)],
     it_args = []\<rparr>"

definition InitBurnPoolInput :: input_type where
  "InitBurnPoolInput = \<lparr>it_accounts =
     [(''admin'', TransactionSigner, False), (''config'', Address_T, False), (''solansMint'', Address_T, False),
      (''paymentMint'', Address_T, False), (''burnVault'', Address_T, False), (''tokenProgram'', Address_T, True),
      (''associatedTokenProgram'', Address_T, True), (''systemProgram'', Address_T, True)],
     it_args = []\<rparr>"

definition ParsedInitBurnPoolInstruction :: parsed_type where
  "ParsedInitBurnPoolInstruction =
     [(''admin'', False), (''config'', False), (''solansMint'', False), (''paymentMint'', False),
      (''burnVault'', False), (''tokenProgram'', False), (''associatedTokenProgram'', False),
      (''systemProgram'', False)]"

definition getInitBurnPoolInstructionDataCodec :: "codec \<times> codec" where
  "getInitBurnPoolInstructionDataCodec = (getInitBurnPoolInstructionDataEncoder, getInitBurnPoolInstructionDataDecoder)"

section \<open>initConfig.ts\<close>

definition InitConfigInstruction :: instruction_type where
  "InitConfigInstruction =
     [(''admin'', WRITABLE_SIGNER), (''config'', WRITABLE), (''paymentMint'', READONLY),
      (''treasuryTokenAccount'', READONLY), (''stakingVault'', READONLY), (''burnVault'', READONLY),
      (''tokenProgram'', READONLY), (''systemProgram'', READONLY)]"

definition InitConfigAsyncInput :: input_type where
  "InitConfigAsyncInput = \<lparr>it_accounts =
     [(''admin'', TransactionSigner, False), (''config'', Address_T, True), (''paymentMint'', Address_T, False),
      (''treasuryTokenAccount'', Address_T, False), (''stakingVault'', Address_T, False),
      (''burnVault'', Address_T, False), (''tokenProgram'', Address_T, True), (''systemProgram'', Address_T, True)],
     it_args = [''price1'', ''price2'', ''price3'', ''price4'', ''price5plus'', ''priceNumeric'', ''gracePeriodSeconds'',
      ''minYears'', ''maxYears'', ''solTreasury'', ''marketplaceFeeBps'', ''stakingFeeBps'', ''referralFeeBps'',
      ''burnFeeBps'']\<rparr>"

definition InitConfigInput :: input_type where
  "InitConfigInput = \<lparr>it_accounts =
     [(''admin'', TransactionSigner, False), (''config'', Address_T, False), (''paymentMint'', Address_T, False),
      (''treasuryTokenAccount'', Address_T, False), (''stakingVault'', Address_T, False),
      (''burnVault'', Address_T, False), (''tokenProgram'', Address_T, True), (''systemProgram'', Address_T, True)],
     it_args = [''price1'', ''price2'', ''price3'', ''price4'', ''price5plus'', ''priceNumeric'', ''gracePeriodSeconds'',
      ''minYears'', ''maxYears'', ''solTreasury'', ''marketplaceFeeBps'', ''stakingFeeBps'', ''referralFeeBps'',
      ''burnFeeBps'']\<rparr>"

definition ParsedInitConfigInstruction :: parsed_type where
  "ParsedInitConfigInstruction =
     [(''admin'', False), (''config'', False), (''paymentMint'', False), (''treasuryTokenAccount'', False),
      (''stakingVault'', False), (''burnVault'', False), (''tokenProgram'', False), (''systemProgram'', False)]"

definition getInitConfigInstructionDataCodec :: "codec \<times> codec" where
  "getInitConfigInstructionDataCodec = (getInitConfigInstructionDataEncoder, getInitConfigInstructionDataDecoder)"

section \<open>initStakePool.ts\<close>

definition InitStakePoolInstruction :: instruction_type where
  "InitStakePoolInstruction =
     [(''admin'', WRITABLE_SIGNER), (''config'', WRITABLE), (''stakePool'', WRITABLE), (''solansMint'', READONLY),
      (''paymentMint'', READONLY), (''stakeVault'', WRITABLE), (''rewardVault'', WRITABLE),
      (''tokenProgram'', READONLY), (''associatedTokenProgram'', READONLY), (''systemProgram'', READONLY)]"

definition InitStakePoolAsyncInput :: input_type where
  "InitStakePoolAsyncInput = \<lparr>it_accounts =
     [(''admin'', TransactionSigner, False), (''config'', Address_T, True), (''stakePool'', Address_T, True),
      (''solansMint'', Address_T, False), (''paymentMint'', Address_T, False), (''stakeVault'', Address_T, True),
      (''rewardVault'', Address_T, True), (''tokenProgram'', Address_T, True),
      (''associatedTokenProgram'', Address_T, True), (''systemProgram'', Address_T, True)],
     it_args = []\<rparr>"

definition InitStakePoolInput :: input_type where
  "InitStakePoolInput = \<lparr>it_accounts =
     [(''admin'', TransactionSigner, False), (''config'', Address_T, False), (''stakePool'', Address_T, False),
      (''solansMint'', Address_T, False), (''paymentMint'', Address_T, False), (''stakeVault'', Address_T, False),
      (''rewardVault'', Address_T, False), (''tokenProgram'', Address_T, True),
      (''associatedTokenProgram'', Address_T, True), (''systemProgram'', Address_T, True)],
     it_args = []\<rparr>"

definition ParsedInitStakePoolInstruction :: parsed_type where
  "ParsedInitStakePoolInstruction =
     [(''admin'', False), (''config'', False), (''stakePool'', False), (''solansMint'', False),
      (''paymentMint'', False), (''stakeVault'', False), (''rewardVault'', False), (''tokenProgram'', False),
      (''associatedTokenProgram'', False), (''systemProgram'', False)]"

definition getInitStakePoolInstructionDataCodec :: "codec \<times> codec" where
  "getInitStakePoolInstructionDataCodec = (getInitStakePoolInstructionDataEncoder, getInitStakePoolInstructionDataDecoder)"

section \<open>listName.ts\<close>

definition ListNameInstruction :: instruction_type where
  "ListNameInstruction =
     [(''owner'', WRITABLE_SIGNER), (''nameRecord'', WRITABLE), (''listing'', WRITABLE), (''systemProgram'', READONLY)]"

definition ListNameInput :: input_type where
  "ListNameInput = \<lparr>it_accounts =
     [(''owner'', TransactionSigner, False), (''nameRecord'', Address_T, False), (''listing'', Address_T, False),
      (''systemProgram'', Address_T, True)],
     it_args = [''price'', ''durationSeconds'']\<rparr>"

definition ParsedListNameInstruction :: parsed_type where
  "ParsedListNameInstruction =
     [(''owner'', False), (''nameRecord'', False), (''listing'', False), (''systemProgram'', False)]"

definition getListNameInstructionDataCodec :: "codec \<times> codec" where
  "getListNameInstructionDataCodec = (getListNameInstructionDataEncoder, getListNameInstructionDataDecoder)"

section \<open>lockTransfer.ts\<close>

definition LockTransferInstruction :: instruction_type where
  "LockTransferInstruction =
     [(''owner'', READONLY_SIGNER), (''nameRecord'', WRITABLE)]"

definition LockTransferInput :: input_type where
  "LockTransferInput = \<lparr>it_accounts =
     [(''owner'', TransactionSigner, False), (''nameRecord'', Address_T, False)],
     it_args = [''lock'']\<rparr>"

definition ParsedLockTransferInstruction :: parsed_type where
  "ParsedLockTransferInstruction =
     [(''owner'', False), (''nameRecord'', False)]"

definition getLockTransferInstructionDataCodec :: "codec \<times> codec" where
  "getLockTransferInstructionDataCodec = (getLockTransferInstructionDataEncoder, getLockTransferInstructionDataDecoder)"

section \<open>makeOffer.ts\<close>

definition MakeOfferInstruction :: instruction_type where
  "MakeOfferInstruction =
     [(''buyer'', WRITABLE_SIGNER), (''nameRecord'', READONLY), (''offer'', WRITABLE), (''systemProgram'', READONLY)]"

definition MakeOfferInput :: input_type where
  "MakeOfferInput = \<lparr>it_accounts =
     [(''buyer'', TransactionSigner, False), (''nameRecord'', Address_T, False), (''offer'', Address_T, False),
      (''systemProgram'', Address_T, True)],
     it_args = [''amount'', ''durationSeconds'']\<rparr>"

definition ParsedMakeOfferInstruction :: parsed_type where
  "ParsedMakeOfferInstruction =
     [(''buyer'', False), (''nameRecord'', False), (''offer'', False), (''systemProgram'', False)]"

definition getMakeOfferInstructionDataCodec :: "codec \<times> codec" where
  "getMakeOfferInstructionDataCodec = (getMakeOfferInstructionDataEncoder, getMakeOfferInstructionDataDecoder)"

section \<open>redeemName.ts\<close>

definition RedeemNameInstruction :: instruction_type where
  "RedeemNameInstruction =
     [(''redeemer'', WRITABLE_SIGNER), (''nameRecord'', WRITABLE), (''mint'', WRITABLE),
      (''tokenAccount'', WRITABLE), (''metadata'', WRITABLE), (''masterEdition'', WRITABLE),
      (''tokenProgram'', READONLY), (''metadataProgram'', READONLY)]"

definition RedeemNameAsyncInput :: input_type where
  "RedeemNameAsyncInput = \<lparr>it_accounts =
     [(''redeemer'', TransactionSigner, False), (''nameRecord'', Address_T, False), (''mint'', Address_T, False),
      (''tokenAccount'', Address_T, False), (''metadata'', Address_T, True), (''masterEdition'', Address_T, True),
      (''tokenProgram'', Address_T, True), (''metadataProgram'', Address_T, True)],
     it_args = []\<rparr>"

definition RedeemNameInput :: input_type where
  "RedeemNameInput = \<lparr>it_accounts =
     [(''redeemer'', TransactionSigner, False), (''nameRecord'', Address_T, False), (''mint'', Address_T, False),
      (''tokenAccount'', Address_T, False), (''metadata'', Address_T, False), (''masterEdition'', Address_T, False),
      (''tokenProgram'', Address_T, True), (''metadataProgram'', Address_T, True)],
     it_args = []\<rparr>"

definition ParsedRedeemNameInstruction :: parsed_type where
  "ParsedRedeemNameInstruction =
     [(''redeemer'', False), (''nameRecord'', False), (''mint'', False), (''tokenAccount'', False),
      (''metadata'', False), (''masterEdition'', False), (''tokenProgram'', False), (''metadataProgram'', False)]"

definition getRedeemNameInstructionDataCodec :: "codec \<times> codec" where
  "getRedeemNameInstructionDataCodec = (getRedeemNameInstructionDataEncoder, getRedeemNameInstructionDataDecoder)"

section \<open>registerName.ts\<close>

definition RegisterNameInstruction :: instruction_type where
  "RegisterNameInstruction =
     [(''payer'', WRITABLE_SIGNER), (''owner'', READONLY), (''config'', READONLY), (''nameRecord'', WRITABLE),
      (''payerTokenAccount'', WRITABLE), (''treasuryTokenAccount'', WRITABLE), (''stakingVault'', WRITABLE),
      (''burnVault'', WRITABLE), (''referralTokenAccount'', WRITABLE), (''paymentMint'', READONLY),
      (''tokenProgram'', READONLY), (''systemProgram'', READONLY)]"

definition RegisterNameAsyncInput :: input_type where
  "RegisterNameAsyncInput = \<lparr>it_accounts =
     [(''payer'', TransactionSigner, False), (''owner'', Address_T, False), (''config'', Address_T, True),
      (''nameRecord'', Address_T, True), (''payerTokenAccount'', Address_T, False),
      (''treasuryTokenAccount'', Address_T, False), (''stakingVault'', Address_T, False),
      (''burnVault'', Address_T, False), (''referralTokenAccount'', Address_T, True),
      (''paymentMint'', Address_T, False), (''tokenProgram'', Address_T, True), (''systemProgram'', Address_T, True)],
     it_args = [''name'', ''tld'', ''nameHash'', ''years'']\<rparr>"

definition RegisterNameInput :: input_type where
  "RegisterNameInput = \<lparr>it_accounts =
     [(''payer'', TransactionSigner, False), (''owner'', Address_T, False), (''config'', Address_T, False),
      (''nameRecord'', Address_T, False), (''payerTokenAccount'', Address_T, False),
      (''treasuryTokenAccount'', Address_T, False), (''stakingVault'', Address_T, False),
      (''burnVault'', Address_T, False), (''referralTokenAccount'', Address_T, True),
      (''paymentMint'', Address_T, False), (''tokenProgram'', Address_T, True), (''systemProgram'', Address_T, True)],
     it_args = [''name'', ''tld'', ''nameHash'', ''years'']\<rparr>"

definition ParsedRegisterNameInstruction :: parsed_type where
  "ParsedRegisterNameInstruction =
     [(''payer'', False), (''owner'', False), (''config'', False), (''nameRecord'', False),
      (''payerTokenAccount'', False), (''treasuryTokenAccount'', False), (''stakingVault'', False),
      (''burnVault'', False), (''referralTokenAccount'', True), (''paymentMint'', False), (''tokenProgram'', False),
      (''systemProgram'', False)]"

definition getRegisterNameInstructionDataCodec :: "codec \<times> codec" where
  "getRegisterNameInstructionDataCodec = (getRegisterNameInstructionDataEncoder, getRegisterNameInstructionDataDecoder)"

section \<open>registerWithSolans.ts\<close>

definition RegisterWithSolansInstruction :: instruction_type where
  "RegisterWithSolansInstruction =
     [(''payer'', WRITABLE_SIGNER), (''owner'', READONLY), (''config'', READONLY), (''nameRecord'', WRITABLE),
      (''payerSolansAccount'', WRITABLE), (''solansMint'', WRITABLE), (''tokenProgram'', READONLY),
      (''systemProgram'', READONLY)]"

definition RegisterWithSolansAsyncInput :: input_type where
  "RegisterWithSolansAsyncInput = \<lparr>it_accounts =
     [(''payer'', TransactionSigner, False), (''owner'', Address_T, False), (''config'', Address_T, True),
      (''nameRecord'', Address_T, True), (''payerSolansAccount'', Address_T, False),
      (''solansMint'', Address_T, False), (''tokenProgram'', Address_T, True), (''systemProgram'', Address_T, True)],
     it_args = [''name'', ''tld'', ''nameHash'', ''years'']\<rparr>"

definition RegisterWithSolansInput :: input_type where
  "RegisterWithSolansInput = \<lparr>it_accounts =
     [(''payer'', TransactionSigner, False), (''owner'', Address_T, False), (''config'', Address_T, False),
      (''nameRecord'', Address_T, False), (''payerSolansAccount'', Address_T, False),
      (''solansMint'', Address_T, False), (''tokenProgram'', Address_T, True), (''systemProgram'', Address_T, True)],
     it_args = [''name'', ''tld'', ''nameHash'', ''years'']\<rparr>"

definition ParsedRegisterWithSolansInstruction :: parsed_type where
  "ParsedRegisterWithSolansInstruction =
     [(''payer'', False), (''owner'', False), (''config'', False), (''nameRecord'', False),
      (''payerSolansAccount'', False), (''solansMint'', False), (''tokenProgram'', False), (''systemProgram'', False)]"

definition getRegisterWithSolansInstructionDataCodec :: "codec \<times> codec" where
  "getRegisterWithSolansInstructionDataCodec = (getRegisterWithSolansInstructionDataEncoder, getRegisterWithSolansInstructionDataDecoder)"

section \<open>renewName.ts\<close>

definition RenewNameInstruction :: instruction_type where
  "RenewNameInstruction =
     [(''payer'', WRITABLE_SIGNER), (''config'', READONLY), (''nameRecord'', WRITABLE),
      (''payerTokenAccount'', WRITABLE), (''treasuryTokenAccount'', WRITABLE), (''stakingVault'', WRITABLE),
      (''burnVault'', WRITABLE), (''referralTokenAccount'', WRITABLE), (''paymentMint'', READONLY),
      (''tokenProgram'', READONLY)]"

definition RenewNameAsyncInput :: input_type where
  "RenewNameAsyncInput = \<lparr>it_accounts =
     [(''payer'', TransactionSigner, False), (''config'', Address_T, True), (''nameRecord'', Address_T, False),
      (''payerTokenAccount'', Address_T, False), (''treasuryTokenAccount'', Address_T, False),
      (''stakingVault'', Address_T, False), (''burnVault'', Address_T, False),
      (''referralTokenAccount'', Address_T, True), (''paymentMint'', Address_T, False),
      (''tokenProgram'', Address_T, True)],
     it_args = [''name'', ''tld'', ''years'']\<rparr>"

definition RenewNameInput :: input_type where
  "RenewNameInput = \<lparr>it_accounts =
     [(''payer'', TransactionSigner, False), (''config'', Address_T, False), (''nameRecord'', Address_T, False),
      (''payerTokenAccount'', Address_T, False), (''treasuryTokenAccount'', Address_T, False),
      (''stakingVault'', Address_T, False), (''burnVault'', Address_T, False),
      (''referralTokenAccount'', Address_T, True), (''paymentMint'', Address_T, False),
      (''tokenProgram'', Address_T, True)],
     it_args = [''name'', ''tld'', ''years'']\<rparr>"

definition ParsedRenewNameInstruction :: parsed_type where
  "ParsedRenewNameInstruction =
     [(''payer'', False), (''config'', False), (''nameRecord'', False), (''payerTokenAccount'', False),
      (''treasuryTokenAccount'', False), (''stakingVault'', False), (''burnVault'', False),
      (''referralTokenAccount'', True), (''paymentMint'', False), (''tokenProgram'', False)]"

definition getRenewNameInstructionDataCodec :: "codec \<times> codec" where
  "getRenewNameInstructionDataCodec = (getRenewNameInstructionDataEncoder, getRenewNameInstructionDataDecoder)"

section \<open>renewWithSolans.ts\<close>

definition RenewWithSolansInstruction :: instruction_type where
  "RenewWithSolansInstruction =
     [(''payer'', WRITABLE_SIGNER), (''config'', READONLY), (''nameRecord'', WRITABLE),
      (''payerSolansAccount'', WRITABLE), (''solansMint'', WRITABLE), (''tokenProgram'', READONLY)]"

definition RenewWithSolansAsyncInput :: input_type where
  "RenewWithSolansAsyncInput = \<lparr>it_accounts =
     [(''payer'', TransactionSigner, False), (''config'', Address_T, True), (''nameRecord'', Address_T, False),
      (''payerSolansAccount'', Address_T, False), (''solansMint'', Address_T, False),
      (''tokenProgram'', Address_T, True)],
     it_args = [''name'', ''tld'', ''years'']\<rparr>"

definition RenewWithSolansInput :: input_type where
  "RenewWithSolansInput = \<lparr>it_accounts =
     [(''payer'', TransactionSigner, False), (''config'', Address_T, False), (''nameRecord'', Address_T, False),
      (''payerSolansAccount'', Address_T, False), (''solansMint'', Address_T, False),
      (''tokenProgram'', Address_T, True)],
     it_args = [''name'', ''tld'', ''years'']\<rparr>"

definition ParsedRenewWithSolansInstruction :: parsed_type where
  "ParsedRenewWithSolansInstruction =
     [(''payer'', False), (''config'', False), (''nameRecord'', False), (''payerSolansAccount'', False),
      (''solansMint'', False), (''tokenProgram'', False)]"

definition getRenewWithSolansInstructionDataCodec :: "codec \<times> codec" where
  "getRenewWithSolansInstructionDataCodec = (getRenewWithSolansInstructionDataEncoder, getRenewWithSolansInstructionDataDecoder)"

section \<open>resolve.ts\<close>

definition ResolveInstruction :: instruction_type where
  "ResolveInstruction =
     [(''nameRecord'', READONLY)]"

definition ResolveInput :: input_type where
  "ResolveInput = \<lparr>it_accounts =
     [(''nameRecord'', Address_T, False)],
     it_args = [''nameHash'', ''recordKey'']\<rparr>"

definition ParsedResolveInstruction :: parsed_type where
  "ParsedResolveInstruction =
     [(''nameRecord'', False)]"

definition getResolveInstructionDataCodec :: "codec \<times> codec" where
  "getResolveInstructionDataCodec = (getResolveInstructionDataEncoder, getResolveInstructionDataDecoder)"

section \<open>revokeSubdomain.ts\<close>

definition RevokeSubdomainInstruction :: instruction_type where
  "RevokeSubdomainInstruction =
     [(''owner'', WRITABLE_SIGNER), (''parentName'', READONLY), (''nameRecord'', WRITABLE)]"

definition RevokeSubdomainInput :: input_type where
  "RevokeSubdomainInput = \<lparr>it_accounts =
     [(''owner'', TransactionSigner, False), (''parentName'', Address_T, False), (''nameRecord'', Address_T, False)],
     it_args = []\<rparr>"

definition ParsedRevokeSubdomainInstruction :: parsed_type where
  "ParsedRevokeSubdomainInstruction =
     [(''owner'', False), (''parentName'', False), (''nameRecord'', False)]"

definition getRevokeSubdomainInstructionDataCodec :: "codec \<times> codec" where
  "getRevokeSubdomainInstructionDataCodec = (getRevokeSubdomainInstructionDataEncoder, getRevokeSubdomainInstructionDataDecoder)"

section \<open>setController.ts\<close>

definition SetControllerInstruction :: instruction_type where
  "SetControllerInstruction =
     [(''owner'', READONLY_SIGNER), (''nameRecord'', WRITABLE)]"

definition SetControllerInput :: input_type where
  "SetControllerInput = \<lparr>it_accounts =
     [(''owner'', TransactionSigner, False), (''nameRecord'', Address_T, False)],
     it_args = [''controller'']\<rparr>"

definition ParsedSetControllerInstruction :: parsed_type where
  "ParsedSetControllerInstruction =
     [(''owner'', False), (''nameRecord'', False)]"

definition getSetControllerInstructionDataCodec :: "codec \<times> codec" where
  "getSetControllerInstructionDataCodec = (getSetControllerInstructionDataEncoder, getSetControllerInstructionDataDecoder)"

section \<open>setHosting.ts\<close>

definition SetHostingInstruction :: instruction_type where
  "SetHostingInstruction =
     [(''authority'', READONLY_SIGNER), (''nameRecord'', WRITABLE), (''nftTokenAccount'', READONLY)]"

definition SetHostingInput :: input_type where
  "SetHostingInput = \<lparr>it_accounts =
     [(''authority'', TransactionSigner, False), (''nameRecord'', Address_T, False),
      (''nftTokenAccount'', Address_T, True)],
     it_args = [''hostingRef'']\<rparr>"

definition ParsedSetHostingInstruction :: parsed_type where
  "ParsedSetHostingInstruction =
     [(''authority'', False), (''nameRecord'', False), (''nftTokenAccount'', True)]"

definition getSetHostingInstructionDataCodec :: "codec \<times> codec" where
  "getSetHostingInstructionDataCodec = (getSetHostingInstructionDataEncoder, getSetHostingInstructionDataDecoder)"

section \<open>setResolver.ts\<close>

definition SetResolverInstruction :: instruction_type where
  "SetResolverInstruction =
     [(''authority'', READONLY_SIGNER), (''nameRecord'', WRITABLE), (''nftTokenAccount'', READONLY)]"

definition SetResolverInput :: input_type where
  "SetResolverInput = \<lparr>it_accounts =
     [(''authority'', TransactionSigner, False), (''nameRecord'', Address_T, False),
      (''nftTokenAccount'', Address_T, True)],
     it_args = [''resolver'']\<rparr>"

definition ParsedSetResolverInstruction :: parsed_type where
  "ParsedSetResolverInstruction =
     [(''authority'', False), (''nameRecord'', False), (''nftTokenAccount'', True)]"

definition getSetResolverInstructionDataCodec :: "codec \<times> codec" where
  "getSetResolverInstructionDataCodec = (getSetResolverInstructionDataEncoder, getSetResolverInstructionDataDecoder)"

section \<open>setReverse.ts\<close>

definition SetReverseInstruction :: instruction_type where
  "SetReverseInstruction =
     [(''owner'', WRITABLE_SIGNER), (''nameRecord'', WRITABLE), (''reverseRecord'', WRITABLE),
      (''systemProgram'', READONLY)]"

definition SetReverseAsyncInput :: input_type where
  "SetReverseAsyncInput = \<lparr>it_accounts =
     [(''owner'', TransactionSigner, False), (''nameRecord'', Address_T, False),
      (''reverseRecord'', Address_T, True), (''systemProgram'', Address_T, True)],
     it_args = [''name'']\<rparr>"

definition SetReverseInput :: input_type where
  "SetReverseInput = \<lparr>it_accounts =
     [(''owner'', TransactionSigner, False), (''nameRecord'', Address_T, False),
      (''reverseRecord'', Address_T, False), (''systemProgram'', Address_T, True)],
     it_args = [''name'']\<rparr>"

definition ParsedSetReverseInstruction :: parsed_type where
  "ParsedSetReverseInstruction =
     [(''owner'', False), (''nameRecord'', False), (''reverseRecord'', False), (''systemProgram'', False)]"

definition getSetReverseInstructionDataCodec :: "codec \<times> codec" where
  "getSetReverseInstructionDataCodec = (getSetReverseInstructionDataEncoder, getSetReverseInstructionDataDecoder)"

section \<open>setSolansParams.ts\<close>

definition SetSolansParamsInstruction :: instruction_type where
  "SetSolansParamsInstruction =
     [(''admin'', READONLY_SIGNER), (''config'', WRITABLE)]"

definition SetSolansParamsAsyncInput :: input_type where
  "SetSolansParamsAsyncInput = \<lparr>it_accounts =
     [(''admin'', TransactionSigner, False), (''config'', Address_T, True)],
     it_args = [''solansRate'', ''solansDiscountBps'']\<rparr>"

definition SetSolansParamsInput :: input_type where
  "SetSolansParamsInput = \<lparr>it_accounts =
     [(''admin'', TransactionSigner, False), (''config'', Address_T, False)],
     it_args = [''solansRate'', ''solansDiscountBps'']\<rparr>"

definition ParsedSetSolansParamsInstruction :: parsed_type where
  "ParsedSetSolansParamsInstruction =
     [(''admin'', False), (''config'', False)]"

definition getSetSolansParamsInstructionDataCodec :: "codec \<times> codec" where
  "getSetSolansParamsInstructionDataCodec = (getSetSolansParamsInstructionDataEncoder, getSetSolansParamsInstructionDataDecoder)"

section \<open>settleAuction.ts\<close>

definition SettleAuctionInstruction :: instruction_type where
  "SettleAuctionInstruction =
     [(''settler'', READONLY_SIGNER), (''config'', READONLY), (''seller'', WRITABLE),
      (''sellerSolansAccount'', WRITABLE), (''nameRecord'', WRITABLE), (''auction'', WRITABLE),
      (''bidVault'', WRITABLE), (''solansMint'', WRITABLE), (''tokenProgram'', READONLY)]"

definition SettleAuctionAsyncInput :: input_type where
  "SettleAuctionAsyncInput = \<lparr>it_accounts =
     [(''settler'', TransactionSigner, False), (''config'', Address_T, True), (''seller'', Address_T, False),
      (''sellerSolansAccount'', Address_T, True), (''nameRecord'', Address_T, False),
      (''auction'', Address_T, False), (''bidVault'', Address_T, False), (''solansMint'', Address_T, False),
      (''tokenProgram'', Address_T, True)],
     it_args = []\<rparr>"

definition SettleAuctionInput :: input_type where
  "SettleAuctionInput = \<lparr>it_accounts =
     [(''settler'', TransactionSigner, False), (''config'', Address_T, False), (''seller'', Address_T, False),
      (''sellerSolansAccount'', Address_T, True), (''nameRecord'', Address_T, False),
      (''auction'', Address_T, False), (''bidVault'', Address_T, False), (''solansMint'', Address_T, False),
      (''tokenProgram'', Address_T, True)],
     it_args = []\<rparr>"

definition ParsedSettleAuctionInstruction :: parsed_type where
  "ParsedSettleAuctionInstruction =
     [(''settler'', False), (''config'', False), (''seller'', False), (''sellerSolansAccount'', True),
      (''nameRecord'', False), (''auction'', False), (''bidVault'', False), (''solansMint'', False),
      (''tokenProgram'', False)]"

definition getSettleAuctionInstructionDataCodec :: "codec \<times> codec" where
  "getSettleAuctionInstructionDataCodec = (getSettleAuctionInstructionDataEncoder, getSettleAuctionInstructionDataDecoder)"

section \<open>stake.ts\<close>

definition StakeInstruction :: instruction_type where
  "StakeInstruction =
     [(''staker'', WRITABLE_SIGNER), (''config'', READONLY), (''stakePool'', WRITABLE), (''stakeAccount'', WRITABLE),
      (''stakerTokenAccount'', WRITABLE), (''stakerRewardAccount'', WRITABLE), (''stakeVault'', WRITABLE),
      (''rewardVault'', WRITABLE), (''solansMint'', READONLY), (''paymentMint'', READONLY),
      (''tokenProgram'', READONLY), (''systemProgram'', READONLY)]"

definition StakeAsyncInput :: input_type where
  "StakeAsyncInput = \<lparr>it_accounts =
     [(''staker'', TransactionSigner, False), (''config'', Address_T, True), (''stakePool'', Address_T, True),
      (''stakeAccount'', Address_T, True), (''stakerTokenAccount'', Address_T, False),
      (''stakerRewardAccount'', Address_T, False), (''stakeVault'', Address_T, False),
      (''rewardVault'', Address_T, False), (''solansMint'', Address_T, False), (''paymentMint'', Address_T, False),
      (''tokenProgram'', Address_T, True), (''systemProgram'', Address_T, True)],
     it_args = [''amount'']\<rparr>"

definition StakeInput :: input_type where
  "StakeInput = \<lparr>it_accounts =
     [(''staker'', TransactionSigner, False), (''config'', Address_T, False), (''stakePool'', Address_T, False),
      (''stakeAccount'', Address_T, False), (''stakerTokenAccount'', Address_T, False),
      (''stakerRewardAccount'', Address_T, False), (''stakeVault'', Address_T, False),
      (''rewardVault'', Address_T, False), (''solansMint'', Address_T, False), (''paymentMint'', Address_T, False),
      (''tokenProgram'', Address_T, True), (''systemProgram'', Address_T, True)],
     it_args = [''amount'']\<rparr>"

definition ParsedStakeInstruction :: parsed_type where
  "ParsedStakeInstruction =
     [(''staker'', False), (''config'', False), (''stakePool'', False), (''stakeAccount'', False),
      (''stakerTokenAccount'', False), (''stakerRewardAccount'', False), (''stakeVault'', False),
      (''rewardVault'', False), (''solansMint'', False), (''paymentMint'', False), (''tokenProgram'', False),
      (''systemProgram'', False)]"

definition getStakeInstructionDataCodec :: "codec \<times> codec" where
  "getStakeInstructionDataCodec = (getStakeInstructionDataEncoder, getStakeInstructionDataDecoder)"

section \<open>startAuction.ts\<close>

definition StartAuctionInstruction :: instruction_type where
  "StartAuctionInstruction =
     [(''owner'', WRITABLE_SIGNER), (''config'', READONLY), (''nameRecord'', WRITABLE), (''auction'', WRITABLE),
      (''solansMint'', READONLY), (''bidVault'', WRITABLE), (''tokenProgram'', READONLY),
      (''associatedTokenProgram'', READONLY), (''systemProgram'', READONLY)]"

definition StartAuctionAsyncInput :: input_type where
  "StartAuctionAsyncInput = \<lparr>it_accounts =
     [(''owner'', TransactionSigner, False), (''config'', Address_T, True), (''nameRecord'', Address_T, False),
      (''auction'', Address_T, False), (''solansMint'', Address_T, False), (''bidVault'', Address_T, True),
      (''tokenProgram'', Address_T, True), (''associatedTokenProgram'', Address_T, True),
      (''systemProgram'', Address_T, True)],
     it_args = [''reservePrice'', ''minIncrement'', ''durationSeconds'']\<rparr>"

definition StartAuctionInput :: input_type where
  "StartAuctionInput = \<lparr>it_accounts =
     [(''owner'', TransactionSigner, False), (''config'', Address_T, False), (''nameRecord'', Address_T, False),
      (''auction'', Address_T, False), (''solansMint'', Address_T, False), (''bidVault'', Address_T, False),
      (''tokenProgram'', Address_T, True), (''associatedTokenProgram'', Address_T, True),
      (''systemProgram'', Address_T, True)],
     it_args = [''reservePrice'', ''minIncrement'', ''durationSeconds'']\<rparr>"

definition ParsedStartAuctionInstruction :: parsed_type where
  "ParsedStartAuctionInstruction =
     [(''owner'', False), (''config'', False), (''nameRecord'', False), (''auction'', False),
      (''solansMint'', False), (''bidVault'', False), (''tokenProgram'', False), (''associatedTokenProgram'', False),
      (''systemProgram'', False)]"

definition getStartAuctionInstructionDataCodec :: "codec \<times> codec" where
  "getStartAuctionInstructionDataCodec = (getStartAuctionInstructionDataEncoder, getStartAuctionInstructionDataDecoder)"

section \<open>tokenizeName.ts\<close>

definition TokenizeNameInstruction :: instruction_type where
  "TokenizeNameInstruction =
     [(''owner'', WRITABLE_SIGNER), (''nameRecord'', WRITABLE), (''mint'', WRITABLE_SIGNER),
      (''tokenAccount'', WRITABLE), (''metadata'', WRITABLE), (''masterEdition'', WRITABLE),
      (''tokenProgram'', READONLY), (''associatedTokenProgram'', READONLY), (''metadataProgram'', READONLY),
      (''systemProgram'', READONLY), (''rent'', READONLY)]"

definition TokenizeNameAsyncInput :: input_type where
  "TokenizeNameAsyncInput = \<lparr>it_accounts =
     [(''owner'', TransactionSigner, False), (''nameRecord'', Address_T, False),
      (''mint'', TransactionSigner, False), (''tokenAccount'', Address_T, True), (''metadata'', Address_T, True),
      (''masterEdition'', Address_T, True), (''tokenProgram'', Address_T, True),
      (''associatedTokenProgram'', Address_T, True), (''metadataProgram'', Address_T, True),
      (''systemProgram'', Address_T, True), (''rent'', Address_T, True)],
     it_args = [''name'']\<rparr>"

definition TokenizeNameInput :: input_type where
  "TokenizeNameInput = \<lparr>it_accounts =
     [(''owner'', TransactionSigner, False), (''nameRecord'', Address_T, False),
      (''mint'', TransactionSigner, False), (''tokenAccount'', Address_T, False), (''metadata'', Address_T, False),
      (''masterEdition'', Address_T, False), (''tokenProgram'', Address_T, True),
      (''associatedTokenProgram'', Address_T, True), (''metadataProgram'', Address_T, True),
      (''systemProgram'', Address_T, True), (''rent'', Address_T, True)],
     it_args = [''name'']\<rparr>"

definition ParsedTokenizeNameInstruction :: parsed_type where
  "ParsedTokenizeNameInstruction =
     [(''owner'', False), (''nameRecord'', False), (''mint'', False), (''tokenAccount'', False),
      (''metadata'', False), (''masterEdition'', False), (''tokenProgram'', False),
      (''associatedTokenProgram'', False), (''metadataProgram'', False), (''systemProgram'', False), (''rent'', False)]"

definition getTokenizeNameInstructionDataCodec :: "codec \<times> codec" where
  "getTokenizeNameInstructionDataCodec = (getTokenizeNameInstructionDataEncoder, getTokenizeNameInstructionDataDecoder)"

section \<open>transferAdmin.ts\<close>

definition TransferAdminInstruction :: instruction_type where
  "TransferAdminInstruction =
     [(''admin'', READONLY_SIGNER), (''config'', WRITABLE)]"

definition TransferAdminAsyncInput :: input_type where
  "TransferAdminAsyncInput = \<lparr>it_accounts =
     [(''admin'', TransactionSigner, False), (''config'', Address_T, True)],
     it_args = [''newAdmin'']\<rparr>"

definition TransferAdminInput :: input_type where
  "TransferAdminInput = \<lparr>it_accounts =
     [(''admin'', TransactionSigner, False), (''config'', Address_T, False)],
     it_args = [''newAdmin'']\<rparr>"

definition ParsedTransferAdminInstruction :: parsed_type where
  "ParsedTransferAdminInstruction =
     [(''admin'', False), (''config'', False)]"

definition getTransferAdminInstructionDataCodec :: "codec \<times> codec" where
  "getTransferAdminInstructionDataCodec = (getTransferAdminInstructionDataEncoder, getTransferAdminInstructionDataDecoder)"

section \<open>transferName.ts\<close>

definition TransferNameInstruction :: instruction_type where
  "TransferNameInstruction =
     [(''owner'', READONLY_SIGNER), (''nameRecord'', WRITABLE)]"

definition TransferNameInput :: input_type where
  "TransferNameInput = \<lparr>it_accounts =
     [(''owner'', TransactionSigner, False), (''nameRecord'', Address_T, False)],
     it_args = [''newOwner'']\<rparr>"

definition ParsedTransferNameInstruction :: parsed_type where
  "ParsedTransferNameInstruction =
     [(''owner'', False), (''nameRecord'', False)]"

definition getTransferNameInstructionDataCodec :: "codec \<times> codec" where
  "getTransferNameInstructionDataCodec = (getTransferNameInstructionDataEncoder, getTransferNameInstructionDataDecoder)"

section \<open>unstake.ts\<close>

definition UnstakeInstruction :: instruction_type where
  "UnstakeInstruction =
     [(''staker'', READONLY_SIGNER), (''config'', READONLY), (''stakePool'', WRITABLE), (''stakeAccount'', WRITABLE),
      (''stakerTokenAccount'', WRITABLE), (''stakerRewardAccount'', WRITABLE), (''stakeVault'', WRITABLE),
      (''rewardVault'', WRITABLE), (''solansMint'', READONLY), (''paymentMint'', READONLY),
      (''tokenProgram'', READONLY)]"

definition UnstakeAsyncInput :: input_type where
  "UnstakeAsyncInput = \<lparr>it_accounts =
     [(''staker'', TransactionSigner, False), (''config'', Address_T, True), (''stakePool'', Address_T, True),
      (''stakeAccount'', Address_T, True), (''stakerTokenAccount'', Address_T, False),
      (''stakerRewardAccount'', Address_T, False), (''stakeVault'', Address_T, False),
      (''rewardVault'', Address_T, False), (''solansMint'', Address_T, False), (''paymentMint'', Address_T, False),
      (''tokenProgram'', Address_T, True)],
     it_args = [''amount'']\<rparr>"

definition UnstakeInput :: input_type where
  "UnstakeInput = \<lparr>it_accounts =
     [(''staker'', TransactionSigner, False), (''config'', Address_T, False), (''stakePool'', Address_T, False),
      (''stakeAccount'', Address_T, False), (''stakerTokenAccount'', Address_T, False),
      (''stakerRewardAccount'', Address_T, False), (''stakeVault'', Address_T, False),
      (''rewardVault'', Address_T, False), (''solansMint'', Address_T, False), (''paymentMint'', Address_T, False),
      (''tokenProgram'', Address_T, True)],
     it_args = [''amount'']\<rparr>"

definition ParsedUnstakeInstruction :: parsed_type where
  "ParsedUnstakeInstruction =
     [(''staker'', False), (''config'', False), (''stakePool'', False), (''stakeAccount'', False),
      (''stakerTokenAccount'', False), (''stakerRewardAccount'', False), (''stakeVault'', False),
      (''rewardVault'', False), (''solansMint'', False), (''paymentMint'', False), (''tokenProgram'', False)]"

definition getUnstakeInstructionDataCodec :: "codec \<times> codec" where
  "getUnstakeInstructionDataCodec = (getUnstakeInstructionDataEncoder, getUnstakeInstructionDataDecoder)"

section \<open>updateConfig.ts\<close>

definition UpdateConfigInstruction :: instruction_type where
  "UpdateConfigInstruction =
     [(''admin'', READONLY_SIGNER), (''config'', WRITABLE)]"

definition UpdateConfigAsyncInput :: input_type where
  "UpdateConfigAsyncInput = \<lparr>it_accounts =
     [(''admin'', TransactionSigner, False), (''config'', Address_T, True)],
     it_args = [''price1'', ''price2'', ''price3'', ''price4'', ''price5plus'', ''priceNumeric'', ''gracePeriodSeconds'',
      ''minYears'', ''maxYears'', ''solTreasury'', ''marketplaceFeeBps'', ''stakingFeeBps'', ''referralFeeBps'',
      ''burnFeeBps'']\<rparr>"

definition UpdateConfigInput :: input_type where
  "UpdateConfigInput = \<lparr>it_accounts =
     [(''admin'', TransactionSigner, False), (''config'', Address_T, False)],
     it_args = [''price1'', ''price2'', ''price3'', ''price4'', ''price5plus'', ''priceNumeric'', ''gracePeriodSeconds'',
      ''minYears'', ''maxYears'', ''solTreasury'', ''marketplaceFeeBps'', ''stakingFeeBps'', ''referralFeeBps'',
      ''burnFeeBps'']\<rparr>"

definition ParsedUpdateConfigInstruction :: parsed_type where
  "ParsedUpdateConfigInstruction =
     [(''admin'', False), (''config'', False)]"

definition getUpdateConfigInstructionDataCodec :: "codec \<times> codec" where
  "getUpdateConfigInstructionDataCodec = (getUpdateConfigInstructionDataEncoder, getUpdateConfigInstructionDataDecoder)"

section \<open>updateListing.ts\<close>

definition UpdateListingInstruction :: instruction_type where
  "UpdateListingInstruction =
     [(''seller'', READONLY_SIGNER), (''listing'', WRITABLE)]"

definition UpdateListingInput :: input_type where
  "UpdateListingInput = \<lparr>it_accounts =
     [(''seller'', TransactionSigner, False), (''listing'', Address_T, False)],
     it_args = [''price'', ''durationSeconds'']\<rparr>"

definition ParsedUpdateListingInstruction :: parsed_type where
  "ParsedUpdateListingInstruction =
     [(''seller'', False), (''listing'', False)]"

definition getUpdateListingInstructionDataCodec :: "codec \<times> codec" where
  "getUpdateListingInstructionDataCodec = (getUpdateListingInstructionDataEncoder, getUpdateListingInstructionDataDecoder)"

section \<open>updateRecord.ts\<close>

definition UpdateRecordInstruction :: instruction_type where
  "UpdateRecordInstruction =
     [(''authority'', READONLY_SIGNER), (''nameRecord'', WRITABLE), (''nftTokenAccount'', READONLY)]"

definition UpdateRecordInput :: input_type where
  "UpdateRecordInput = \<lparr>it_accounts =
     [(''authority'', TransactionSigner, False), (''nameRecord'', Address_T, False),
      (''nftTokenAccount'', Address_T, True)],
     it_args = [''key'', ''value'']\<rparr>"

definition ParsedUpdateRecordInstruction :: parsed_type where
  "ParsedUpdateRecordInstruction =
     [(''authority'', False), (''nameRecord'', False), (''nftTokenAccount'', True)]"

definition getUpdateRecordInstructionDataCodec :: "codec \<times> codec" where
  "getUpdateRecordInstructionDataCodec = (getUpdateRecordInstructionDataEncoder, getUpdateRecordInstructionDataDecoder)"

section \<open>wrapSubdomain.ts\<close>

definition WrapSubdomainInstruction :: instruction_type where
  "WrapSubdomainInstruction =
     [(''owner'', WRITABLE_SIGNER), (''subdomainOwner'', READONLY), (''parentName'', READONLY),
      (''nameRecord'', WRITABLE), (''systemProgram'', READONLY)]"

definition WrapSubdomainAsyncInput :: input_type where
  "WrapSubdomainAsyncInput = \<lparr>it_accounts =
     [(''owner'', TransactionSigner, False), (''subdomainOwner'', Address_T, False),
      (''parentName'', Address_T, False), (''nameRecord'', Address_T, True), (''systemProgram'', Address_T, True)],
     it_args = [''label'', ''nameHash'']\<rparr>"

definition WrapSubdomainInput :: input_type where
  "WrapSubdomainInput = \<lparr>it_accounts =
     [(''owner'', TransactionSigner, False), (''subdomainOwner'', Address_T, False),
      (''parentName'', Address_T, False), (''nameRecord'', Address_T, False), (''systemProgram'', Address_T, True)],
     it_args = [''label'', ''nameHash'']\<rparr>"

definition ParsedWrapSubdomainInstruction :: parsed_type where
  "ParsedWrapSubdomainInstruction =
     [(''owner'', False), (''subdomainOwner'', False), (''parentName'', False), (''nameRecord'', False),
      (''systemProgram'', False)]"

definition getWrapSubdomainInstructionDataCodec :: "codec \<times> codec" where
  "getWrapSubdomainInstructionDataCodec = (getWrapSubdomainInstructionDataEncoder, getWrapSubdomainInstructionDataDecoder)"

end
