(* ===== verification/Client_Typing.thy ===== *)
theory Client_Typing
  imports Client_Types Samples
begin

text \<open>
  Every builder of the generated client has its declared types: the table \<open>typed_builders\<close> lists each builder with its encoder,
  input type, instruction type, parser and parsed type, and each row passes the check of \<open>signature_ok\<close>. With the
  soundness of the check, a builder accepts every input of its type and what it emits has its type.
\<close>

section \<open>Builders\<close>

lemmas typing_defs = signature_ok_def required_accounts_def known_programs_def

lemma acceptOfferAsync_typed:
  "typed_builder getAcceptOfferInstructionAsync getAcceptOfferInstructionDataEncoder AcceptOfferAsyncInput AcceptOfferInstruction ParsedAcceptOfferInstruction"
  unfolding typed_builder_def
  by (intro exI conjI allI, rule getAcceptOfferInstructionAsync_def)
     (simp_all add: getAcceptOfferInstructionDataEncoder_def ACCEPT_OFFER_DISCRIMINATOR_def typing_defs AcceptOfferAsyncInput_def AcceptOfferInstruction_def
      ParsedAcceptOfferInstruction_def)

lemma acceptOffer_typed:
  "typed_builder getAcceptOfferInstruction getAcceptOfferInstructionDataEncoder AcceptOfferInput AcceptOfferInstruction ParsedAcceptOfferInstruction"
  unfolding typed_builder_def
  by (intro exI conjI allI, rule getAcceptOfferInstruction_def)
     (simp_all add: getAcceptOfferInstructionDataEncoder_def ACCEPT_OFFER_DISCRIMINATOR_def typing_defs AcceptOfferInput_def AcceptOfferInstruction_def
      ParsedAcceptOfferInstruction_def)

lemma autoRenewAsync_typed:
  "typed_builder getAutoRenewInstructionAsync getAutoRenewInstructionDataEncoder AutoRenewAsyncInput AutoRenewInstruction ParsedAutoRenewInstruction"
  unfolding typed_builder_def
  by (intro exI conjI allI, rule getAutoRenewInstructionAsync_def)
     (simp_all add: getAutoRenewInstructionDataEncoder_def AUTO_RENEW_DISCRIMINATOR_def typing_defs AutoRenewAsyncInput_def AutoRenewInstruction_def
      ParsedAutoRenewInstruction_def)

lemma autoRenew_typed:
  "typed_builder getAutoRenewInstruction getAutoRenewInstructionDataEncoder AutoRenewInput AutoRenewInstruction ParsedAutoRenewInstruction"
  unfolding typed_builder_def
  by (intro exI conjI allI, rule getAutoRenewInstruction_def)
     (simp_all add: getAutoRenewInstructionDataEncoder_def AUTO_RENEW_DISCRIMINATOR_def typing_defs AutoRenewInput_def AutoRenewInstruction_def
      ParsedAutoRenewInstruction_def)

lemma bid_typed:
  "typed_builder getBidInstruction getBidInstructionDataEncoder BidInput BidInstruction ParsedBidInstruction"
  unfolding typed_builder_def
  by (intro exI conjI allI, rule getBidInstruction_def)
     (simp_all add: getBidInstructionDataEncoder_def BID_DISCRIMINATOR_def typing_defs BidInput_def BidInstruction_def
      ParsedBidInstruction_def)

lemma burnName_typed:
  "typed_builder getBurnNameInstruction getBurnNameInstructionDataEncoder BurnNameInput BurnNameInstruction ParsedBurnNameInstruction"
  unfolding typed_builder_def
  by (intro exI conjI allI, rule getBurnNameInstruction_def)
     (simp_all add: getBurnNameInstructionDataEncoder_def BURN_NAME_DISCRIMINATOR_def typing_defs BurnNameInput_def BurnNameInstruction_def
      ParsedBurnNameInstruction_def)

lemma buyNameAsync_typed:
  "typed_builder getBuyNameInstructionAsync getBuyNameInstructionDataEncoder BuyNameAsyncInput BuyNameInstruction ParsedBuyNameInstruction"
  unfolding typed_builder_def
  by (intro exI conjI allI, rule getBuyNameInstructionAsync_def)
     (simp_all add: getBuyNameInstructionDataEncoder_def BUY_NAME_DISCRIMINATOR_def typing_defs BuyNameAsyncInput_def BuyNameInstruction_def
      ParsedBuyNameInstruction_def)

lemma buyName_typed:
  "typed_builder getBuyNameInstruction getBuyNameInstructionDataEncoder BuyNameInput BuyNameInstruction ParsedBuyNameInstruction"
  unfolding typed_builder_def
  by (intro exI conjI allI, rule getBuyNameInstruction_def)
     (simp_all add: getBuyNameInstructionDataEncoder_def BUY_NAME_DISCRIMINATOR_def typing_defs BuyNameInput_def BuyNameInstruction_def
      ParsedBuyNameInstruction_def)

lemma buybackBurnAsync_typed:
  "typed_builder getBuybackBurnInstructionAsync getBuybackBurnInstructionDataEncoder BuybackBurnAsyncInput BuybackBurnInstruction ParsedBuybackBurnInstruction"
  unfolding typed_builder_def
  by (intro exI conjI allI, rule getBuybackBurnInstructionAsync_def)
     (simp_all add: getBuybackBurnInstructionDataEncoder_def BUYBACK_BURN_DISCRIMINATOR_def typing_defs BuybackBurnAsyncInput_def BuybackBurnInstruction_def
      ParsedBuybackBurnInstruction_def)

lemma buybackBurn_typed:
  "typed_builder getBuybackBurnInstruction getBuybackBurnInstructionDataEncoder BuybackBurnInput BuybackBurnInstruction ParsedBuybackBurnInstruction"
  unfolding typed_builder_def
  by (intro exI conjI allI, rule getBuybackBurnInstruction_def)
     (simp_all add: getBuybackBurnInstructionDataEncoder_def BUYBACK_BURN_DISCRIMINATOR_def typing_defs BuybackBurnInput_def BuybackBurnInstruction_def
      ParsedBuybackBurnInstruction_def)

lemma cancelAuction_typed:
  "typed_builder getCancelAuctionInstruction getCancelAuctionInstructionDataEncoder CancelAuctionInput CancelAuctionInstruction ParsedCancelAuctionInstruction"
  unfolding typed_builder_def
  by (intro exI conjI allI, rule getCancelAuctionInstruction_def)
     (simp_all add: getCancelAuctionInstructionDataEncoder_def CANCEL_AUCTION_DISCRIMINATOR_def typing_defs CancelAuctionInput_def CancelAuctionInstruction_def
      ParsedCancelAuctionInstruction_def)

lemma cancelListing_typed:
  "typed_builder getCancelListingInstruction getCancelListingInstructionDataEncoder CancelListingInput CancelListingInstruction ParsedCancelListingInstruction"
  unfolding typed_builder_def
  by (intro exI conjI allI, rule getCancelListingInstruction_def)
     (simp_all add: getCancelListingInstructionDataEncoder_def CANCEL_LISTING_DISCRIMINATOR_def typing_defs CancelListingInput_def CancelListingInstruction_def
      ParsedCancelListingInstruction_def)

lemma cancelOffer_typed:
  "typed_builder getCancelOfferInstruction getCancelOfferInstructionDataEncoder CancelOfferInput CancelOfferInstruction ParsedCancelOfferInstruction"
  unfolding typed_builder_def
  by (intro exI conjI allI, rule getCancelOfferInstruction_def)
     (simp_all add: getCancelOfferInstructionDataEncoder_def CANCEL_OFFER_DISCRIMINATOR_def typing_defs CancelOfferInput_def CancelOfferInstruction_def
      ParsedCancelOfferInstruction_def)

lemma claimExpiredAsync_typed:
  "typed_builder getClaimExpiredInstructionAsync getClaimExpiredInstructionDataEncoder ClaimExpiredAsyncInput ClaimExpiredInstruction ParsedClaimExpiredInstruction"
  unfolding typed_builder_def
  by (intro exI conjI allI, rule getClaimExpiredInstructionAsync_def)
     (simp_all add: getClaimExpiredInstructionDataEncoder_def CLAIM_EXPIRED_DISCRIMINATOR_def typing_defs ClaimExpiredAsyncInput_def ClaimExpiredInstruction_def
      ParsedClaimExpiredInstruction_def)

lemma claimExpired_typed:
  "typed_builder getClaimExpiredInstruction getClaimExpiredInstructionDataEncoder ClaimExpiredInput ClaimExpiredInstruction ParsedClaimExpiredInstruction"
  unfolding typed_builder_def
  by (intro exI conjI allI, rule getClaimExpiredInstruction_def)
     (simp_all add: getClaimExpiredInstructionDataEncoder_def CLAIM_EXPIRED_DISCRIMINATOR_def typing_defs ClaimExpiredInput_def ClaimExpiredInstruction_def
      ParsedClaimExpiredInstruction_def)

lemma claimRewardsAsync_typed:
  "typed_builder getClaimRewardsInstructionAsync getClaimRewardsInstructionDataEncoder ClaimRewardsAsyncInput ClaimRewardsInstruction ParsedClaimRewardsInstruction"
  unfolding typed_builder_def
  by (intro exI conjI allI, rule getClaimRewardsInstructionAsync_def)
     (simp_all add: getClaimRewardsInstructionDataEncoder_def CLAIM_REWARDS_DISCRIMINATOR_def typing_defs ClaimRewardsAsyncInput_def ClaimRewardsInstruction_def
      ParsedClaimRewardsInstruction_def)

lemma claimRewards_typed:
  "typed_builder getClaimRewardsInstruction getClaimRewardsInstructionDataEncoder ClaimRewardsInput ClaimRewardsInstruction ParsedClaimRewardsInstruction"
  unfolding typed_builder_def
  by (intro exI conjI allI, rule getClaimRewardsInstruction_def)
     (simp_all add: getClaimRewardsInstructionDataEncoder_def CLAIM_REWARDS_DISCRIMINATOR_def typing_defs ClaimRewardsInput_def ClaimRewardsInstruction_def
      ParsedClaimRewardsInstruction_def)

lemma initBurnPoolAsync_typed:
  "typed_builder getInitBurnPoolInstructionAsync getInitBurnPoolInstructionDataEncoder InitBurnPoolAsyncInput InitBurnPoolInstruction ParsedInitBurnPoolInstruction"
  unfolding typed_builder_def
  by (intro exI conjI allI, rule getInitBurnPoolInstructionAsync_def)
     (simp_all add: getInitBurnPoolInstructionDataEncoder_def INIT_BURN_POOL_DISCRIMINATOR_def typing_defs InitBurnPoolAsyncInput_def InitBurnPoolInstruction_def
      ParsedInitBurnPoolInstruction_def)

lemma initBurnPool_typed:
  "typed_builder getInitBurnPoolInstruction getInitBurnPoolInstructionDataEncoder InitBurnPoolInput InitBurnPoolInstruction ParsedInitBurnPoolInstruction"
  unfolding typed_builder_def
  by (intro exI conjI allI, rule getInitBurnPoolInstruction_def)
     (simp_all add: getInitBurnPoolInstructionDataEncoder_def INIT_BURN_POOL_DISCRIMINATOR_def typing_defs InitBurnPoolInput_def InitBurnPoolInstruction_def
      ParsedInitBurnPoolInstruction_def)

lemma initConfigAsync_typed:
  "typed_builder getInitConfigInstructionAsync getInitConfigInstructionDataEncoder InitConfigAsyncInput InitConfigInstruction ParsedInitConfigInstruction"
  unfolding typed_builder_def
  by (intro exI conjI allI, rule getInitConfigInstructionAsync_def)
     (simp_all add: getInitConfigInstructionDataEncoder_def INIT_CONFIG_DISCRIMINATOR_def typing_defs InitConfigAsyncInput_def InitConfigInstruction_def
      ParsedInitConfigInstruction_def)

lemma initConfig_typed:
  "typed_builder getInitConfigInstruction getInitConfigInstructionDataEncoder InitConfigInput InitConfigInstruction ParsedInitConfigInstruction"
  unfolding typed_builder_def
  by (intro exI conjI allI, rule getInitConfigInstruction_def)
     (simp_all add: getInitConfigInstructionDataEncoder_def INIT_CONFIG_DISCRIMINATOR_def typing_defs InitConfigInput_def InitConfigInstruction_def
      ParsedInitConfigInstruction_def)

lemma initStakePoolAsync_typed:
  "typed_builder getInitStakePoolInstructionAsync getInitStakePoolInstructionDataEncoder InitStakePoolAsyncInput InitStakePoolInstruction ParsedInitStakePoolInstruction"
  unfolding typed_builder_def
  by (intro exI conjI allI, rule getInitStakePoolInstructionAsync_def)
     (simp_all add: getInitStakePoolInstructionDataEncoder_def INIT_STAKE_POOL_DISCRIMINATOR_def typing_defs InitStakePoolAsyncInput_def InitStakePoolInstruction_def
      ParsedInitStakePoolInstruction_def)

lemma initStakePool_typed:
  "typed_builder getInitStakePoolInstruction getInitStakePoolInstructionDataEncoder InitStakePoolInput InitStakePoolInstruction ParsedInitStakePoolInstruction"
  unfolding typed_builder_def
  by (intro exI conjI allI, rule getInitStakePoolInstruction_def)
     (simp_all add: getInitStakePoolInstructionDataEncoder_def INIT_STAKE_POOL_DISCRIMINATOR_def typing_defs InitStakePoolInput_def InitStakePoolInstruction_def
      ParsedInitStakePoolInstruction_def)

lemma listName_typed:
  "typed_builder getListNameInstruction getListNameInstructionDataEncoder ListNameInput ListNameInstruction ParsedListNameInstruction"
  unfolding typed_builder_def
  by (intro exI conjI allI, rule getListNameInstruction_def)
     (simp_all add: getListNameInstructionDataEncoder_def LIST_NAME_DISCRIMINATOR_def typing_defs ListNameInput_def ListNameInstruction_def
      ParsedListNameInstruction_def)

lemma lockTransfer_typed:
  "typed_builder getLockTransferInstruction getLockTransferInstructionDataEncoder LockTransferInput LockTransferInstruction ParsedLockTransferInstruction"
  unfolding typed_builder_def
  by (intro exI conjI allI, rule getLockTransferInstruction_def)
     (simp_all add: getLockTransferInstructionDataEncoder_def LOCK_TRANSFER_DISCRIMINATOR_def typing_defs LockTransferInput_def LockTransferInstruction_def
      ParsedLockTransferInstruction_def)

lemma makeOffer_typed:
  "typed_builder getMakeOfferInstruction getMakeOfferInstructionDataEncoder MakeOfferInput MakeOfferInstruction ParsedMakeOfferInstruction"
  unfolding typed_builder_def
  by (intro exI conjI allI, rule getMakeOfferInstruction_def)
     (simp_all add: getMakeOfferInstructionDataEncoder_def MAKE_OFFER_DISCRIMINATOR_def typing_defs MakeOfferInput_def MakeOfferInstruction_def
      ParsedMakeOfferInstruction_def)

lemma redeemNameAsync_typed:
  "typed_builder getRedeemNameInstructionAsync getRedeemNameInstructionDataEncoder RedeemNameAsyncInput RedeemNameInstruction ParsedRedeemNameInstruction"
  unfolding typed_builder_def
  by (intro exI conjI allI, rule getRedeemNameInstructionAsync_def)
     (simp_all add: getRedeemNameInstructionDataEncoder_def REDEEM_NAME_DISCRIMINATOR_def typing_defs RedeemNameAsyncInput_def RedeemNameInstruction_def
      ParsedRedeemNameInstruction_def)

lemma redeemName_typed:
  "typed_builder getRedeemNameInstruction getRedeemNameInstructionDataEncoder RedeemNameInput RedeemNameInstruction ParsedRedeemNameInstruction"
  unfolding typed_builder_def
  by (intro exI conjI allI, rule getRedeemNameInstruction_def)
     (simp_all add: getRedeemNameInstructionDataEncoder_def REDEEM_NAME_DISCRIMINATOR_def typing_defs RedeemNameInput_def RedeemNameInstruction_def
      ParsedRedeemNameInstruction_def)

lemma registerNameAsync_typed:
  "typed_builder getRegisterNameInstructionAsync getRegisterNameInstructionDataEncoder RegisterNameAsyncInput RegisterNameInstruction ParsedRegisterNameInstruction"
  unfolding typed_builder_def
  by (intro exI conjI allI, rule getRegisterNameInstructionAsync_def)
     (simp_all add: getRegisterNameInstructionDataEncoder_def REGISTER_NAME_DISCRIMINATOR_def typing_defs RegisterNameAsyncInput_def RegisterNameInstruction_def
      ParsedRegisterNameInstruction_def)

lemma registerName_typed:
  "typed_builder getRegisterNameInstruction getRegisterNameInstructionDataEncoder RegisterNameInput RegisterNameInstruction ParsedRegisterNameInstruction"
  unfolding typed_builder_def
  by (intro exI conjI allI, rule getRegisterNameInstruction_def)
     (simp_all add: getRegisterNameInstructionDataEncoder_def REGISTER_NAME_DISCRIMINATOR_def typing_defs RegisterNameInput_def RegisterNameInstruction_def
      ParsedRegisterNameInstruction_def)

lemma registerWithSolansAsync_typed:
  "typed_builder getRegisterWithSolansInstructionAsync getRegisterWithSolansInstructionDataEncoder RegisterWithSolansAsyncInput RegisterWithSolansInstruction ParsedRegisterWithSolansInstruction"
  unfolding typed_builder_def
  by (intro exI conjI allI, rule getRegisterWithSolansInstructionAsync_def)
     (simp_all add: getRegisterWithSolansInstructionDataEncoder_def REGISTER_WITH_SOLANS_DISCRIMINATOR_def typing_defs RegisterWithSolansAsyncInput_def RegisterWithSolansInstruction_def
      ParsedRegisterWithSolansInstruction_def)

lemma registerWithSolans_typed:
  "typed_builder getRegisterWithSolansInstruction getRegisterWithSolansInstructionDataEncoder RegisterWithSolansInput RegisterWithSolansInstruction ParsedRegisterWithSolansInstruction"
  unfolding typed_builder_def
  by (intro exI conjI allI, rule getRegisterWithSolansInstruction_def)
     (simp_all add: getRegisterWithSolansInstructionDataEncoder_def REGISTER_WITH_SOLANS_DISCRIMINATOR_def typing_defs RegisterWithSolansInput_def RegisterWithSolansInstruction_def
      ParsedRegisterWithSolansInstruction_def)

lemma renewNameAsync_typed:
  "typed_builder getRenewNameInstructionAsync getRenewNameInstructionDataEncoder RenewNameAsyncInput RenewNameInstruction ParsedRenewNameInstruction"
  unfolding typed_builder_def
  by (intro exI conjI allI, rule getRenewNameInstructionAsync_def)
     (simp_all add: getRenewNameInstructionDataEncoder_def RENEW_NAME_DISCRIMINATOR_def typing_defs RenewNameAsyncInput_def RenewNameInstruction_def
      ParsedRenewNameInstruction_def)

lemma renewName_typed:
  "typed_builder getRenewNameInstruction getRenewNameInstructionDataEncoder RenewNameInput RenewNameInstruction ParsedRenewNameInstruction"
  unfolding typed_builder_def
  by (intro exI conjI allI, rule getRenewNameInstruction_def)
     (simp_all add: getRenewNameInstructionDataEncoder_def RENEW_NAME_DISCRIMINATOR_def typing_defs RenewNameInput_def RenewNameInstruction_def
      ParsedRenewNameInstruction_def)

lemma renewWithSolansAsync_typed:
  "typed_builder getRenewWithSolansInstructionAsync getRenewWithSolansInstructionDataEncoder RenewWithSolansAsyncInput RenewWithSolansInstruction ParsedRenewWithSolansInstruction"
  unfolding typed_builder_def
  by (intro exI conjI allI, rule getRenewWithSolansInstructionAsync_def)
     (simp_all add: getRenewWithSolansInstructionDataEncoder_def RENEW_WITH_SOLANS_DISCRIMINATOR_def typing_defs RenewWithSolansAsyncInput_def RenewWithSolansInstruction_def
      ParsedRenewWithSolansInstruction_def)

lemma renewWithSolans_typed:
  "typed_builder getRenewWithSolansInstruction getRenewWithSolansInstructionDataEncoder RenewWithSolansInput RenewWithSolansInstruction ParsedRenewWithSolansInstruction"
  unfolding typed_builder_def
  by (intro exI conjI allI, rule getRenewWithSolansInstruction_def)
     (simp_all add: getRenewWithSolansInstructionDataEncoder_def RENEW_WITH_SOLANS_DISCRIMINATOR_def typing_defs RenewWithSolansInput_def RenewWithSolansInstruction_def
      ParsedRenewWithSolansInstruction_def)

lemma resolve_typed:
  "typed_builder getResolveInstruction getResolveInstructionDataEncoder ResolveInput ResolveInstruction ParsedResolveInstruction"
  unfolding typed_builder_def
  by (intro exI conjI allI, rule getResolveInstruction_def)
     (simp_all add: getResolveInstructionDataEncoder_def RESOLVE_DISCRIMINATOR_def typing_defs ResolveInput_def ResolveInstruction_def
      ParsedResolveInstruction_def)

lemma revokeSubdomain_typed:
  "typed_builder getRevokeSubdomainInstruction getRevokeSubdomainInstructionDataEncoder RevokeSubdomainInput RevokeSubdomainInstruction ParsedRevokeSubdomainInstruction"
  unfolding typed_builder_def
  by (intro exI conjI allI, rule getRevokeSubdomainInstruction_def)
     (simp_all add: getRevokeSubdomainInstructionDataEncoder_def REVOKE_SUBDOMAIN_DISCRIMINATOR_def typing_defs RevokeSubdomainInput_def RevokeSubdomainInstruction_def
      ParsedRevokeSubdomainInstruction_def)

lemma setController_typed:
  "typed_builder getSetControllerInstruction getSetControllerInstructionDataEncoder SetControllerInput SetControllerInstruction ParsedSetControllerInstruction"
  unfolding typed_builder_def
  by (intro exI conjI allI, rule getSetControllerInstruction_def)
     (simp_all add: getSetControllerInstructionDataEncoder_def SET_CONTROLLER_DISCRIMINATOR_def typing_defs SetControllerInput_def SetControllerInstruction_def
      ParsedSetControllerInstruction_def)

lemma setHosting_typed:
  "typed_builder getSetHostingInstruction getSetHostingInstructionDataEncoder SetHostingInput SetHostingInstruction ParsedSetHostingInstruction"
  unfolding typed_builder_def
  by (intro exI conjI allI, rule getSetHostingInstruction_def)
     (simp_all add: getSetHostingInstructionDataEncoder_def SET_HOSTING_DISCRIMINATOR_def typing_defs SetHostingInput_def SetHostingInstruction_def
      ParsedSetHostingInstruction_def)

lemma setResolver_typed:
  "typed_builder getSetResolverInstruction getSetResolverInstructionDataEncoder SetResolverInput SetResolverInstruction ParsedSetResolverInstruction"
  unfolding typed_builder_def
  by (intro exI conjI allI, rule getSetResolverInstruction_def)
     (simp_all add: getSetResolverInstructionDataEncoder_def SET_RESOLVER_DISCRIMINATOR_def typing_defs SetResolverInput_def SetResolverInstruction_def
      ParsedSetResolverInstruction_def)

lemma setReverseAsync_typed:
  "typed_builder getSetReverseInstructionAsync getSetReverseInstructionDataEncoder SetReverseAsyncInput SetReverseInstruction ParsedSetReverseInstruction"
  unfolding typed_builder_def
  by (intro exI conjI allI, rule getSetReverseInstructionAsync_def)
     (simp_all add: getSetReverseInstructionDataEncoder_def SET_REVERSE_DISCRIMINATOR_def typing_defs SetReverseAsyncInput_def SetReverseInstruction_def
      ParsedSetReverseInstruction_def)

lemma setReverse_typed:
  "typed_builder getSetReverseInstruction getSetReverseInstructionDataEncoder SetReverseInput SetReverseInstruction ParsedSetReverseInstruction"
  unfolding typed_builder_def
  by (intro exI conjI allI, rule getSetReverseInstruction_def)
     (simp_all add: getSetReverseInstructionDataEncoder_def SET_REVERSE_DISCRIMINATOR_def typing_defs SetReverseInput_def SetReverseInstruction_def
      ParsedSetReverseInstruction_def)

lemma setSolansParamsAsync_typed:
  "typed_builder getSetSolansParamsInstructionAsync getSetSolansParamsInstructionDataEncoder SetSolansParamsAsyncInput SetSolansParamsInstruction ParsedSetSolansParamsInstruction"
  unfolding typed_builder_def
  by (intro exI conjI allI, rule getSetSolansParamsInstructionAsync_def)
     (simp_all add: getSetSolansParamsInstructionDataEncoder_def SET_SOLANS_PARAMS_DISCRIMINATOR_def typing_defs SetSolansParamsAsyncInput_def SetSolansParamsInstruction_def
      ParsedSetSolansParamsInstruction_def)

lemma setSolansParams_typed:
  "typed_builder getSetSolansParamsInstruction getSetSolansParamsInstructionDataEncoder SetSolansParamsInput SetSolansParamsInstruction ParsedSetSolansParamsInstruction"
  unfolding typed_builder_def
  by (intro exI conjI allI, rule getSetSolansParamsInstruction_def)
     (simp_all add: getSetSolansParamsInstructionDataEncoder_def SET_SOLANS_PARAMS_DISCRIMINATOR_def typing_defs SetSolansParamsInput_def SetSolansParamsInstruction_def
      ParsedSetSolansParamsInstruction_def)

lemma settleAuctionAsync_typed:
  "typed_builder getSettleAuctionInstructionAsync getSettleAuctionInstructionDataEncoder SettleAuctionAsyncInput SettleAuctionInstruction ParsedSettleAuctionInstruction"
  unfolding typed_builder_def
  by (intro exI conjI allI, rule getSettleAuctionInstructionAsync_def)
     (simp_all add: getSettleAuctionInstructionDataEncoder_def SETTLE_AUCTION_DISCRIMINATOR_def typing_defs SettleAuctionAsyncInput_def SettleAuctionInstruction_def
      ParsedSettleAuctionInstruction_def)

lemma settleAuction_typed:
  "typed_builder getSettleAuctionInstruction getSettleAuctionInstructionDataEncoder SettleAuctionInput SettleAuctionInstruction ParsedSettleAuctionInstruction"
  unfolding typed_builder_def
  by (intro exI conjI allI, rule getSettleAuctionInstruction_def)
     (simp_all add: getSettleAuctionInstructionDataEncoder_def SETTLE_AUCTION_DISCRIMINATOR_def typing_defs SettleAuctionInput_def SettleAuctionInstruction_def
      ParsedSettleAuctionInstruction_def)

lemma stakeAsync_typed:
  "typed_builder getStakeInstructionAsync getStakeInstructionDataEncoder StakeAsyncInput StakeInstruction ParsedStakeInstruction"
  unfolding typed_builder_def
  by (intro exI conjI allI, rule getStakeInstructionAsync_def)
     (simp_all add: getStakeInstructionDataEncoder_def STAKE_DISCRIMINATOR_def typing_defs StakeAsyncInput_def StakeInstruction_def
      ParsedStakeInstruction_def)

lemma stake_typed:
  "typed_builder getStakeInstruction getStakeInstructionDataEncoder StakeInput StakeInstruction ParsedStakeInstruction"
  unfolding typed_builder_def
  by (intro exI conjI allI, rule getStakeInstruction_def)
     (simp_all add: getStakeInstructionDataEncoder_def STAKE_DISCRIMINATOR_def typing_defs StakeInput_def StakeInstruction_def
      ParsedStakeInstruction_def)

lemma startAuctionAsync_typed:
  "typed_builder getStartAuctionInstructionAsync getStartAuctionInstructionDataEncoder StartAuctionAsyncInput StartAuctionInstruction ParsedStartAuctionInstruction"
  unfolding typed_builder_def
  by (intro exI conjI allI, rule getStartAuctionInstructionAsync_def)
     (simp_all add: getStartAuctionInstructionDataEncoder_def START_AUCTION_DISCRIMINATOR_def typing_defs StartAuctionAsyncInput_def StartAuctionInstruction_def
      ParsedStartAuctionInstruction_def)

lemma startAuction_typed:
  "typed_builder getStartAuctionInstruction getStartAuctionInstructionDataEncoder StartAuctionInput StartAuctionInstruction ParsedStartAuctionInstruction"
  unfolding typed_builder_def
  by (intro exI conjI allI, rule getStartAuctionInstruction_def)
     (simp_all add: getStartAuctionInstructionDataEncoder_def START_AUCTION_DISCRIMINATOR_def typing_defs StartAuctionInput_def StartAuctionInstruction_def
      ParsedStartAuctionInstruction_def)

lemma tokenizeNameAsync_typed:
  "typed_builder getTokenizeNameInstructionAsync getTokenizeNameInstructionDataEncoder TokenizeNameAsyncInput TokenizeNameInstruction ParsedTokenizeNameInstruction"
  unfolding typed_builder_def
  by (intro exI conjI allI, rule getTokenizeNameInstructionAsync_def)
     (simp_all add: getTokenizeNameInstructionDataEncoder_def TOKENIZE_NAME_DISCRIMINATOR_def typing_defs TokenizeNameAsyncInput_def TokenizeNameInstruction_def
      ParsedTokenizeNameInstruction_def)

lemma tokenizeName_typed:
  "typed_builder getTokenizeNameInstruction getTokenizeNameInstructionDataEncoder TokenizeNameInput TokenizeNameInstruction ParsedTokenizeNameInstruction"
  unfolding typed_builder_def
  by (intro exI conjI allI, rule getTokenizeNameInstruction_def)
     (simp_all add: getTokenizeNameInstructionDataEncoder_def TOKENIZE_NAME_DISCRIMINATOR_def typing_defs TokenizeNameInput_def TokenizeNameInstruction_def
      ParsedTokenizeNameInstruction_def)

lemma transferAdminAsync_typed:
  "typed_builder getTransferAdminInstructionAsync getTransferAdminInstructionDataEncoder TransferAdminAsyncInput TransferAdminInstruction ParsedTransferAdminInstruction"
  unfolding typed_builder_def
  by (intro exI conjI allI, rule getTransferAdminInstructionAsync_def)
     (simp_all add: getTransferAdminInstructionDataEncoder_def TRANSFER_ADMIN_DISCRIMINATOR_def typing_defs TransferAdminAsyncInput_def TransferAdminInstruction_def
      ParsedTransferAdminInstruction_def)

lemma transferAdmin_typed:
  "typed_builder getTransferAdminInstruction getTransferAdminInstructionDataEncoder TransferAdminInput TransferAdminInstruction ParsedTransferAdminInstruction"
  unfolding typed_builder_def
  by (intro exI conjI allI, rule getTransferAdminInstruction_def)
     (simp_all add: getTransferAdminInstructionDataEncoder_def TRANSFER_ADMIN_DISCRIMINATOR_def typing_defs TransferAdminInput_def TransferAdminInstruction_def
      ParsedTransferAdminInstruction_def)

lemma transferName_typed:
  "typed_builder getTransferNameInstruction getTransferNameInstructionDataEncoder TransferNameInput TransferNameInstruction ParsedTransferNameInstruction"
  unfolding typed_builder_def
  by (intro exI conjI allI, rule getTransferNameInstruction_def)
     (simp_all add: getTransferNameInstructionDataEncoder_def TRANSFER_NAME_DISCRIMINATOR_def typing_defs TransferNameInput_def TransferNameInstruction_def
      ParsedTransferNameInstruction_def)

lemma unstakeAsync_typed:
  "typed_builder getUnstakeInstructionAsync getUnstakeInstructionDataEncoder UnstakeAsyncInput UnstakeInstruction ParsedUnstakeInstruction"
  unfolding typed_builder_def
  by (intro exI conjI allI, rule getUnstakeInstructionAsync_def)
     (simp_all add: getUnstakeInstructionDataEncoder_def UNSTAKE_DISCRIMINATOR_def typing_defs UnstakeAsyncInput_def UnstakeInstruction_def
      ParsedUnstakeInstruction_def)

lemma unstake_typed:
  "typed_builder getUnstakeInstruction getUnstakeInstructionDataEncoder UnstakeInput UnstakeInstruction ParsedUnstakeInstruction"
  unfolding typed_builder_def
  by (intro exI conjI allI, rule getUnstakeInstruction_def)
     (simp_all add: getUnstakeInstructionDataEncoder_def UNSTAKE_DISCRIMINATOR_def typing_defs UnstakeInput_def UnstakeInstruction_def
      ParsedUnstakeInstruction_def)

lemma updateConfigAsync_typed:
  "typed_builder getUpdateConfigInstructionAsync getUpdateConfigInstructionDataEncoder UpdateConfigAsyncInput UpdateConfigInstruction ParsedUpdateConfigInstruction"
  unfolding typed_builder_def
  by (intro exI conjI allI, rule getUpdateConfigInstructionAsync_def)
     (simp_all add: getUpdateConfigInstructionDataEncoder_def UPDATE_CONFIG_DISCRIMINATOR_def typing_defs UpdateConfigAsyncInput_def UpdateConfigInstruction_def
      ParsedUpdateConfigInstruction_def)

lemma updateConfig_typed:
  "typed_builder getUpdateConfigInstruction getUpdateConfigInstructionDataEncoder UpdateConfigInput UpdateConfigInstruction ParsedUpdateConfigInstruction"
  unfolding typed_builder_def
  by (intro exI conjI allI, rule getUpdateConfigInstruction_def)
     (simp_all add: getUpdateConfigInstructionDataEncoder_def UPDATE_CONFIG_DISCRIMINATOR_def typing_defs UpdateConfigInput_def UpdateConfigInstruction_def
      ParsedUpdateConfigInstruction_def)

lemma updateListing_typed:
  "typed_builder getUpdateListingInstruction getUpdateListingInstructionDataEncoder UpdateListingInput UpdateListingInstruction ParsedUpdateListingInstruction"
  unfolding typed_builder_def
  by (intro exI conjI allI, rule getUpdateListingInstruction_def)
     (simp_all add: getUpdateListingInstructionDataEncoder_def UPDATE_LISTING_DISCRIMINATOR_def typing_defs UpdateListingInput_def UpdateListingInstruction_def
      ParsedUpdateListingInstruction_def)

lemma updateRecord_typed:
  "typed_builder getUpdateRecordInstruction getUpdateRecordInstructionDataEncoder UpdateRecordInput UpdateRecordInstruction ParsedUpdateRecordInstruction"
  unfolding typed_builder_def
  by (intro exI conjI allI, rule getUpdateRecordInstruction_def)
     (simp_all add: getUpdateRecordInstructionDataEncoder_def UPDATE_RECORD_DISCRIMINATOR_def typing_defs UpdateRecordInput_def UpdateRecordInstruction_def
      ParsedUpdateRecordInstruction_def)

lemma wrapSubdomainAsync_typed:
  "typed_builder getWrapSubdomainInstructionAsync getWrapSubdomainInstructionDataEncoder WrapSubdomainAsyncInput WrapSubdomainInstruction ParsedWrapSubdomainInstruction"
  unfolding typed_builder_def
  by (intro exI conjI allI, rule getWrapSubdomainInstructionAsync_def)
     (simp_all add: getWrapSubdomainInstructionDataEncoder_def WRAP_SUBDOMAIN_DISCRIMINATOR_def typing_defs WrapSubdomainAsyncInput_def WrapSubdomainInstruction_def
      ParsedWrapSubdomainInstruction_def)

lemma wrapSubdomain_typed:
  "typed_builder getWrapSubdomainInstruction getWrapSubdomainInstructionDataEncoder WrapSubdomainInput WrapSubdomainInstruction ParsedWrapSubdomainInstruction"
  unfolding typed_builder_def
  by (intro exI conjI allI, rule getWrapSubdomainInstruction_def)
     (simp_all add: getWrapSubdomainInstructionDataEncoder_def WRAP_SUBDOMAIN_DISCRIMINATOR_def typing_defs WrapSubdomainInput_def WrapSubdomainInstruction_def
      ParsedWrapSubdomainInstruction_def)

section \<open>Parsers\<close>

text \<open>A parser that reads a parsed type: the generic code on the accounts of the type.\<close>

definition typed_parser :: "(kit \<Rightarrow> instruction \<Rightarrow> parsedIx res) \<Rightarrow> parsed_type \<Rightarrow> bool" where
  "typed_parser parse ty \<longleftrightarrow> (\<exists>decoder. \<forall>K. parse K = parse_ix K (length ty) ty decoder)"

lemma next_accounts_typed:
  "length ty \<le> length ms \<Longrightarrow> map fst (next_accounts ty ms) = map fst ty \<and>
   list_all2 (\<lambda>(a, optional) (b, m). optional \<or> m \<noteq> None) ty (next_accounts ty ms)"
proof (induction ty arbitrary: ms)
  case (Cons ao ty)
  then show ?case by (cases ao; cases ms) auto
qed simp

lemma typed_parser_sound:
  assumes "typed_parser parse ty" "parse K ix = Inr p"
  shows "parsed_typed ty p"
  using assms next_accounts_typed[of ty "ix_accounts ix"]
  by (auto simp: typed_parser_def parse_ix_def parsed_typed_def res_simps split: if_splits)

lemma acceptOffer_parser_typed: "typed_parser parseAcceptOfferInstruction ParsedAcceptOfferInstruction"
  unfolding typed_parser_def ParsedAcceptOfferInstruction_def parseAcceptOfferInstruction_def
  by (rule exI[of _ getAcceptOfferInstructionDataDecoder]) (simp add: eval_nat_numeral)

lemma autoRenew_parser_typed: "typed_parser parseAutoRenewInstruction ParsedAutoRenewInstruction"
  unfolding typed_parser_def ParsedAutoRenewInstruction_def parseAutoRenewInstruction_def
  by (rule exI[of _ getAutoRenewInstructionDataDecoder]) (simp add: eval_nat_numeral)

lemma bid_parser_typed: "typed_parser parseBidInstruction ParsedBidInstruction"
  unfolding typed_parser_def ParsedBidInstruction_def parseBidInstruction_def
  by (rule exI[of _ getBidInstructionDataDecoder]) (simp add: eval_nat_numeral)

lemma burnName_parser_typed: "typed_parser parseBurnNameInstruction ParsedBurnNameInstruction"
  unfolding typed_parser_def ParsedBurnNameInstruction_def parseBurnNameInstruction_def
  by (rule exI[of _ getBurnNameInstructionDataDecoder]) (simp add: eval_nat_numeral)

lemma buyName_parser_typed: "typed_parser parseBuyNameInstruction ParsedBuyNameInstruction"
  unfolding typed_parser_def ParsedBuyNameInstruction_def parseBuyNameInstruction_def
  by (rule exI[of _ getBuyNameInstructionDataDecoder]) (simp add: eval_nat_numeral)

lemma buybackBurn_parser_typed: "typed_parser parseBuybackBurnInstruction ParsedBuybackBurnInstruction"
  unfolding typed_parser_def ParsedBuybackBurnInstruction_def parseBuybackBurnInstruction_def
  by (rule exI[of _ getBuybackBurnInstructionDataDecoder]) (simp add: eval_nat_numeral)

lemma cancelAuction_parser_typed: "typed_parser parseCancelAuctionInstruction ParsedCancelAuctionInstruction"
  unfolding typed_parser_def ParsedCancelAuctionInstruction_def parseCancelAuctionInstruction_def
  by (rule exI[of _ getCancelAuctionInstructionDataDecoder]) (simp add: eval_nat_numeral)

lemma cancelListing_parser_typed: "typed_parser parseCancelListingInstruction ParsedCancelListingInstruction"
  unfolding typed_parser_def ParsedCancelListingInstruction_def parseCancelListingInstruction_def
  by (rule exI[of _ getCancelListingInstructionDataDecoder]) (simp add: eval_nat_numeral)

lemma cancelOffer_parser_typed: "typed_parser parseCancelOfferInstruction ParsedCancelOfferInstruction"
  unfolding typed_parser_def ParsedCancelOfferInstruction_def parseCancelOfferInstruction_def
  by (rule exI[of _ getCancelOfferInstructionDataDecoder]) (simp add: eval_nat_numeral)

lemma claimExpired_parser_typed: "typed_parser parseClaimExpiredInstruction ParsedClaimExpiredInstruction"
  unfolding typed_parser_def ParsedClaimExpiredInstruction_def parseClaimExpiredInstruction_def
  by (rule exI[of _ getClaimExpiredInstructionDataDecoder]) (simp add: eval_nat_numeral)

lemma claimRewards_parser_typed: "typed_parser parseClaimRewardsInstruction ParsedClaimRewardsInstruction"
  unfolding typed_parser_def ParsedClaimRewardsInstruction_def parseClaimRewardsInstruction_def
  by (rule exI[of _ getClaimRewardsInstructionDataDecoder]) (simp add: eval_nat_numeral)

lemma initBurnPool_parser_typed: "typed_parser parseInitBurnPoolInstruction ParsedInitBurnPoolInstruction"
  unfolding typed_parser_def ParsedInitBurnPoolInstruction_def parseInitBurnPoolInstruction_def
  by (rule exI[of _ getInitBurnPoolInstructionDataDecoder]) (simp add: eval_nat_numeral)

lemma initConfig_parser_typed: "typed_parser parseInitConfigInstruction ParsedInitConfigInstruction"
  unfolding typed_parser_def ParsedInitConfigInstruction_def parseInitConfigInstruction_def
  by (rule exI[of _ getInitConfigInstructionDataDecoder]) (simp add: eval_nat_numeral)

lemma initStakePool_parser_typed: "typed_parser parseInitStakePoolInstruction ParsedInitStakePoolInstruction"
  unfolding typed_parser_def ParsedInitStakePoolInstruction_def parseInitStakePoolInstruction_def
  by (rule exI[of _ getInitStakePoolInstructionDataDecoder]) (simp add: eval_nat_numeral)

lemma listName_parser_typed: "typed_parser parseListNameInstruction ParsedListNameInstruction"
  unfolding typed_parser_def ParsedListNameInstruction_def parseListNameInstruction_def
  by (rule exI[of _ getListNameInstructionDataDecoder]) (simp add: eval_nat_numeral)

lemma lockTransfer_parser_typed: "typed_parser parseLockTransferInstruction ParsedLockTransferInstruction"
  unfolding typed_parser_def ParsedLockTransferInstruction_def parseLockTransferInstruction_def
  by (rule exI[of _ getLockTransferInstructionDataDecoder]) (simp add: eval_nat_numeral)

lemma makeOffer_parser_typed: "typed_parser parseMakeOfferInstruction ParsedMakeOfferInstruction"
  unfolding typed_parser_def ParsedMakeOfferInstruction_def parseMakeOfferInstruction_def
  by (rule exI[of _ getMakeOfferInstructionDataDecoder]) (simp add: eval_nat_numeral)

lemma redeemName_parser_typed: "typed_parser parseRedeemNameInstruction ParsedRedeemNameInstruction"
  unfolding typed_parser_def ParsedRedeemNameInstruction_def parseRedeemNameInstruction_def
  by (rule exI[of _ getRedeemNameInstructionDataDecoder]) (simp add: eval_nat_numeral)

lemma registerName_parser_typed: "typed_parser parseRegisterNameInstruction ParsedRegisterNameInstruction"
  unfolding typed_parser_def ParsedRegisterNameInstruction_def parseRegisterNameInstruction_def
  by (rule exI[of _ getRegisterNameInstructionDataDecoder]) (simp add: eval_nat_numeral)

lemma registerWithSolans_parser_typed: "typed_parser parseRegisterWithSolansInstruction ParsedRegisterWithSolansInstruction"
  unfolding typed_parser_def ParsedRegisterWithSolansInstruction_def parseRegisterWithSolansInstruction_def
  by (rule exI[of _ getRegisterWithSolansInstructionDataDecoder]) (simp add: eval_nat_numeral)

lemma renewName_parser_typed: "typed_parser parseRenewNameInstruction ParsedRenewNameInstruction"
  unfolding typed_parser_def ParsedRenewNameInstruction_def parseRenewNameInstruction_def
  by (rule exI[of _ getRenewNameInstructionDataDecoder]) (simp add: eval_nat_numeral)

lemma renewWithSolans_parser_typed: "typed_parser parseRenewWithSolansInstruction ParsedRenewWithSolansInstruction"
  unfolding typed_parser_def ParsedRenewWithSolansInstruction_def parseRenewWithSolansInstruction_def
  by (rule exI[of _ getRenewWithSolansInstructionDataDecoder]) (simp add: eval_nat_numeral)

lemma resolve_parser_typed: "typed_parser parseResolveInstruction ParsedResolveInstruction"
  unfolding typed_parser_def ParsedResolveInstruction_def parseResolveInstruction_def
  by (rule exI[of _ getResolveInstructionDataDecoder]) (simp add: eval_nat_numeral)

lemma revokeSubdomain_parser_typed: "typed_parser parseRevokeSubdomainInstruction ParsedRevokeSubdomainInstruction"
  unfolding typed_parser_def ParsedRevokeSubdomainInstruction_def parseRevokeSubdomainInstruction_def
  by (rule exI[of _ getRevokeSubdomainInstructionDataDecoder]) (simp add: eval_nat_numeral)

lemma setController_parser_typed: "typed_parser parseSetControllerInstruction ParsedSetControllerInstruction"
  unfolding typed_parser_def ParsedSetControllerInstruction_def parseSetControllerInstruction_def
  by (rule exI[of _ getSetControllerInstructionDataDecoder]) (simp add: eval_nat_numeral)

lemma setHosting_parser_typed: "typed_parser parseSetHostingInstruction ParsedSetHostingInstruction"
  unfolding typed_parser_def ParsedSetHostingInstruction_def parseSetHostingInstruction_def
  by (rule exI[of _ getSetHostingInstructionDataDecoder]) (simp add: eval_nat_numeral)

lemma setResolver_parser_typed: "typed_parser parseSetResolverInstruction ParsedSetResolverInstruction"
  unfolding typed_parser_def ParsedSetResolverInstruction_def parseSetResolverInstruction_def
  by (rule exI[of _ getSetResolverInstructionDataDecoder]) (simp add: eval_nat_numeral)

lemma setReverse_parser_typed: "typed_parser parseSetReverseInstruction ParsedSetReverseInstruction"
  unfolding typed_parser_def ParsedSetReverseInstruction_def parseSetReverseInstruction_def
  by (rule exI[of _ getSetReverseInstructionDataDecoder]) (simp add: eval_nat_numeral)

lemma setSolansParams_parser_typed: "typed_parser parseSetSolansParamsInstruction ParsedSetSolansParamsInstruction"
  unfolding typed_parser_def ParsedSetSolansParamsInstruction_def parseSetSolansParamsInstruction_def
  by (rule exI[of _ getSetSolansParamsInstructionDataDecoder]) (simp add: eval_nat_numeral)

lemma settleAuction_parser_typed: "typed_parser parseSettleAuctionInstruction ParsedSettleAuctionInstruction"
  unfolding typed_parser_def ParsedSettleAuctionInstruction_def parseSettleAuctionInstruction_def
  by (rule exI[of _ getSettleAuctionInstructionDataDecoder]) (simp add: eval_nat_numeral)

lemma stake_parser_typed: "typed_parser parseStakeInstruction ParsedStakeInstruction"
  unfolding typed_parser_def ParsedStakeInstruction_def parseStakeInstruction_def
  by (rule exI[of _ getStakeInstructionDataDecoder]) (simp add: eval_nat_numeral)

lemma startAuction_parser_typed: "typed_parser parseStartAuctionInstruction ParsedStartAuctionInstruction"
  unfolding typed_parser_def ParsedStartAuctionInstruction_def parseStartAuctionInstruction_def
  by (rule exI[of _ getStartAuctionInstructionDataDecoder]) (simp add: eval_nat_numeral)

lemma tokenizeName_parser_typed: "typed_parser parseTokenizeNameInstruction ParsedTokenizeNameInstruction"
  unfolding typed_parser_def ParsedTokenizeNameInstruction_def parseTokenizeNameInstruction_def
  by (rule exI[of _ getTokenizeNameInstructionDataDecoder]) (simp add: eval_nat_numeral)

lemma transferAdmin_parser_typed: "typed_parser parseTransferAdminInstruction ParsedTransferAdminInstruction"
  unfolding typed_parser_def ParsedTransferAdminInstruction_def parseTransferAdminInstruction_def
  by (rule exI[of _ getTransferAdminInstructionDataDecoder]) (simp add: eval_nat_numeral)

lemma transferName_parser_typed: "typed_parser parseTransferNameInstruction ParsedTransferNameInstruction"
  unfolding typed_parser_def ParsedTransferNameInstruction_def parseTransferNameInstruction_def
  by (rule exI[of _ getTransferNameInstructionDataDecoder]) (simp add: eval_nat_numeral)

lemma unstake_parser_typed: "typed_parser parseUnstakeInstruction ParsedUnstakeInstruction"
  unfolding typed_parser_def ParsedUnstakeInstruction_def parseUnstakeInstruction_def
  by (rule exI[of _ getUnstakeInstructionDataDecoder]) (simp add: eval_nat_numeral)

lemma updateConfig_parser_typed: "typed_parser parseUpdateConfigInstruction ParsedUpdateConfigInstruction"
  unfolding typed_parser_def ParsedUpdateConfigInstruction_def parseUpdateConfigInstruction_def
  by (rule exI[of _ getUpdateConfigInstructionDataDecoder]) (simp add: eval_nat_numeral)

lemma updateListing_parser_typed: "typed_parser parseUpdateListingInstruction ParsedUpdateListingInstruction"
  unfolding typed_parser_def ParsedUpdateListingInstruction_def parseUpdateListingInstruction_def
  by (rule exI[of _ getUpdateListingInstructionDataDecoder]) (simp add: eval_nat_numeral)

lemma updateRecord_parser_typed: "typed_parser parseUpdateRecordInstruction ParsedUpdateRecordInstruction"
  unfolding typed_parser_def ParsedUpdateRecordInstruction_def parseUpdateRecordInstruction_def
  by (rule exI[of _ getUpdateRecordInstructionDataDecoder]) (simp add: eval_nat_numeral)

lemma wrapSubdomain_parser_typed: "typed_parser parseWrapSubdomainInstruction ParsedWrapSubdomainInstruction"
  unfolding typed_parser_def ParsedWrapSubdomainInstruction_def parseWrapSubdomainInstruction_def
  by (rule exI[of _ getWrapSubdomainInstructionDataDecoder]) (simp add: eval_nat_numeral)

section \<open>The table\<close>

type_synonym typed_row =
  "SolansInstruction \<times> (kit \<Rightarrow> ixInput \<Rightarrow> instruction res) \<times> codec \<times> input_type \<times> instruction_type \<times> (kit \<Rightarrow> instruction \<Rightarrow> parsedIx res) \<times>
   parsed_type"

definition typed_builders :: "typed_row list" where
  "typed_builders =
     [(AcceptOffer, getAcceptOfferInstructionAsync, getAcceptOfferInstructionDataEncoder, AcceptOfferAsyncInput, AcceptOfferInstruction,
       parseAcceptOfferInstruction, ParsedAcceptOfferInstruction),
      (AcceptOffer, getAcceptOfferInstruction, getAcceptOfferInstructionDataEncoder, AcceptOfferInput, AcceptOfferInstruction,
       parseAcceptOfferInstruction, ParsedAcceptOfferInstruction),
      (AutoRenew, getAutoRenewInstructionAsync, getAutoRenewInstructionDataEncoder, AutoRenewAsyncInput, AutoRenewInstruction,
       parseAutoRenewInstruction, ParsedAutoRenewInstruction),
      (AutoRenew, getAutoRenewInstruction, getAutoRenewInstructionDataEncoder, AutoRenewInput, AutoRenewInstruction,
       parseAutoRenewInstruction, ParsedAutoRenewInstruction),
      (Bid, getBidInstruction, getBidInstructionDataEncoder, BidInput, BidInstruction,
       parseBidInstruction, ParsedBidInstruction),
      (BurnName, getBurnNameInstruction, getBurnNameInstructionDataEncoder, BurnNameInput, BurnNameInstruction,
       parseBurnNameInstruction, ParsedBurnNameInstruction),
      (BuyName, getBuyNameInstructionAsync, getBuyNameInstructionDataEncoder, BuyNameAsyncInput, BuyNameInstruction,
       parseBuyNameInstruction, ParsedBuyNameInstruction),
      (BuyName, getBuyNameInstruction, getBuyNameInstructionDataEncoder, BuyNameInput, BuyNameInstruction,
       parseBuyNameInstruction, ParsedBuyNameInstruction),
      (BuybackBurn, getBuybackBurnInstructionAsync, getBuybackBurnInstructionDataEncoder, BuybackBurnAsyncInput, BuybackBurnInstruction,
       parseBuybackBurnInstruction, ParsedBuybackBurnInstruction),
      (BuybackBurn, getBuybackBurnInstruction, getBuybackBurnInstructionDataEncoder, BuybackBurnInput, BuybackBurnInstruction,
       parseBuybackBurnInstruction, ParsedBuybackBurnInstruction),
      (CancelAuction, getCancelAuctionInstruction, getCancelAuctionInstructionDataEncoder, CancelAuctionInput, CancelAuctionInstruction,
       parseCancelAuctionInstruction, ParsedCancelAuctionInstruction),
      (CancelListing, getCancelListingInstruction, getCancelListingInstructionDataEncoder, CancelListingInput, CancelListingInstruction,
       parseCancelListingInstruction, ParsedCancelListingInstruction),
      (CancelOffer, getCancelOfferInstruction, getCancelOfferInstructionDataEncoder, CancelOfferInput, CancelOfferInstruction,
       parseCancelOfferInstruction, ParsedCancelOfferInstruction),
      (ClaimExpired, getClaimExpiredInstructionAsync, getClaimExpiredInstructionDataEncoder, ClaimExpiredAsyncInput, ClaimExpiredInstruction,
       parseClaimExpiredInstruction, ParsedClaimExpiredInstruction),
      (ClaimExpired, getClaimExpiredInstruction, getClaimExpiredInstructionDataEncoder, ClaimExpiredInput, ClaimExpiredInstruction,
       parseClaimExpiredInstruction, ParsedClaimExpiredInstruction),
      (ClaimRewards, getClaimRewardsInstructionAsync, getClaimRewardsInstructionDataEncoder, ClaimRewardsAsyncInput, ClaimRewardsInstruction,
       parseClaimRewardsInstruction, ParsedClaimRewardsInstruction),
      (ClaimRewards, getClaimRewardsInstruction, getClaimRewardsInstructionDataEncoder, ClaimRewardsInput, ClaimRewardsInstruction,
       parseClaimRewardsInstruction, ParsedClaimRewardsInstruction),
      (InitBurnPool, getInitBurnPoolInstructionAsync, getInitBurnPoolInstructionDataEncoder, InitBurnPoolAsyncInput, InitBurnPoolInstruction,
       parseInitBurnPoolInstruction, ParsedInitBurnPoolInstruction),
      (InitBurnPool, getInitBurnPoolInstruction, getInitBurnPoolInstructionDataEncoder, InitBurnPoolInput, InitBurnPoolInstruction,
       parseInitBurnPoolInstruction, ParsedInitBurnPoolInstruction),
      (InitConfig, getInitConfigInstructionAsync, getInitConfigInstructionDataEncoder, InitConfigAsyncInput, InitConfigInstruction,
       parseInitConfigInstruction, ParsedInitConfigInstruction),
      (InitConfig, getInitConfigInstruction, getInitConfigInstructionDataEncoder, InitConfigInput, InitConfigInstruction,
       parseInitConfigInstruction, ParsedInitConfigInstruction),
      (InitStakePool, getInitStakePoolInstructionAsync, getInitStakePoolInstructionDataEncoder, InitStakePoolAsyncInput, InitStakePoolInstruction,
       parseInitStakePoolInstruction, ParsedInitStakePoolInstruction),
      (InitStakePool, getInitStakePoolInstruction, getInitStakePoolInstructionDataEncoder, InitStakePoolInput, InitStakePoolInstruction,
       parseInitStakePoolInstruction, ParsedInitStakePoolInstruction),
      (ListName, getListNameInstruction, getListNameInstructionDataEncoder, ListNameInput, ListNameInstruction,
       parseListNameInstruction, ParsedListNameInstruction),
      (LockTransfer, getLockTransferInstruction, getLockTransferInstructionDataEncoder, LockTransferInput, LockTransferInstruction,
       parseLockTransferInstruction, ParsedLockTransferInstruction),
      (MakeOffer, getMakeOfferInstruction, getMakeOfferInstructionDataEncoder, MakeOfferInput, MakeOfferInstruction,
       parseMakeOfferInstruction, ParsedMakeOfferInstruction),
      (RedeemName, getRedeemNameInstructionAsync, getRedeemNameInstructionDataEncoder, RedeemNameAsyncInput, RedeemNameInstruction,
       parseRedeemNameInstruction, ParsedRedeemNameInstruction),
      (RedeemName, getRedeemNameInstruction, getRedeemNameInstructionDataEncoder, RedeemNameInput, RedeemNameInstruction,
       parseRedeemNameInstruction, ParsedRedeemNameInstruction),
      (RegisterName, getRegisterNameInstructionAsync, getRegisterNameInstructionDataEncoder, RegisterNameAsyncInput, RegisterNameInstruction,
       parseRegisterNameInstruction, ParsedRegisterNameInstruction),
      (RegisterName, getRegisterNameInstruction, getRegisterNameInstructionDataEncoder, RegisterNameInput, RegisterNameInstruction,
       parseRegisterNameInstruction, ParsedRegisterNameInstruction),
      (RegisterWithSolans, getRegisterWithSolansInstructionAsync, getRegisterWithSolansInstructionDataEncoder, RegisterWithSolansAsyncInput, RegisterWithSolansInstruction,
       parseRegisterWithSolansInstruction, ParsedRegisterWithSolansInstruction),
      (RegisterWithSolans, getRegisterWithSolansInstruction, getRegisterWithSolansInstructionDataEncoder, RegisterWithSolansInput, RegisterWithSolansInstruction,
       parseRegisterWithSolansInstruction, ParsedRegisterWithSolansInstruction),
      (RenewName, getRenewNameInstructionAsync, getRenewNameInstructionDataEncoder, RenewNameAsyncInput, RenewNameInstruction,
       parseRenewNameInstruction, ParsedRenewNameInstruction),
      (RenewName, getRenewNameInstruction, getRenewNameInstructionDataEncoder, RenewNameInput, RenewNameInstruction,
       parseRenewNameInstruction, ParsedRenewNameInstruction),
      (RenewWithSolans, getRenewWithSolansInstructionAsync, getRenewWithSolansInstructionDataEncoder, RenewWithSolansAsyncInput, RenewWithSolansInstruction,
       parseRenewWithSolansInstruction, ParsedRenewWithSolansInstruction),
      (RenewWithSolans, getRenewWithSolansInstruction, getRenewWithSolansInstructionDataEncoder, RenewWithSolansInput, RenewWithSolansInstruction,
       parseRenewWithSolansInstruction, ParsedRenewWithSolansInstruction),
      (Resolve, getResolveInstruction, getResolveInstructionDataEncoder, ResolveInput, ResolveInstruction,
       parseResolveInstruction, ParsedResolveInstruction),
      (RevokeSubdomain, getRevokeSubdomainInstruction, getRevokeSubdomainInstructionDataEncoder, RevokeSubdomainInput, RevokeSubdomainInstruction,
       parseRevokeSubdomainInstruction, ParsedRevokeSubdomainInstruction),
      (SetController, getSetControllerInstruction, getSetControllerInstructionDataEncoder, SetControllerInput, SetControllerInstruction,
       parseSetControllerInstruction, ParsedSetControllerInstruction),
      (SetHosting, getSetHostingInstruction, getSetHostingInstructionDataEncoder, SetHostingInput, SetHostingInstruction,
       parseSetHostingInstruction, ParsedSetHostingInstruction),
      (SetResolver, getSetResolverInstruction, getSetResolverInstructionDataEncoder, SetResolverInput, SetResolverInstruction,
       parseSetResolverInstruction, ParsedSetResolverInstruction),
      (SetReverse, getSetReverseInstructionAsync, getSetReverseInstructionDataEncoder, SetReverseAsyncInput, SetReverseInstruction,
       parseSetReverseInstruction, ParsedSetReverseInstruction),
      (SetReverse, getSetReverseInstruction, getSetReverseInstructionDataEncoder, SetReverseInput, SetReverseInstruction,
       parseSetReverseInstruction, ParsedSetReverseInstruction),
      (SetSolansParams, getSetSolansParamsInstructionAsync, getSetSolansParamsInstructionDataEncoder, SetSolansParamsAsyncInput, SetSolansParamsInstruction,
       parseSetSolansParamsInstruction, ParsedSetSolansParamsInstruction),
      (SetSolansParams, getSetSolansParamsInstruction, getSetSolansParamsInstructionDataEncoder, SetSolansParamsInput, SetSolansParamsInstruction,
       parseSetSolansParamsInstruction, ParsedSetSolansParamsInstruction),
      (SettleAuction, getSettleAuctionInstructionAsync, getSettleAuctionInstructionDataEncoder, SettleAuctionAsyncInput, SettleAuctionInstruction,
       parseSettleAuctionInstruction, ParsedSettleAuctionInstruction),
      (SettleAuction, getSettleAuctionInstruction, getSettleAuctionInstructionDataEncoder, SettleAuctionInput, SettleAuctionInstruction,
       parseSettleAuctionInstruction, ParsedSettleAuctionInstruction),
      (Stake, getStakeInstructionAsync, getStakeInstructionDataEncoder, StakeAsyncInput, StakeInstruction,
       parseStakeInstruction, ParsedStakeInstruction),
      (Stake, getStakeInstruction, getStakeInstructionDataEncoder, StakeInput, StakeInstruction,
       parseStakeInstruction, ParsedStakeInstruction),
      (StartAuction, getStartAuctionInstructionAsync, getStartAuctionInstructionDataEncoder, StartAuctionAsyncInput, StartAuctionInstruction,
       parseStartAuctionInstruction, ParsedStartAuctionInstruction),
      (StartAuction, getStartAuctionInstruction, getStartAuctionInstructionDataEncoder, StartAuctionInput, StartAuctionInstruction,
       parseStartAuctionInstruction, ParsedStartAuctionInstruction),
      (TokenizeName, getTokenizeNameInstructionAsync, getTokenizeNameInstructionDataEncoder, TokenizeNameAsyncInput, TokenizeNameInstruction,
       parseTokenizeNameInstruction, ParsedTokenizeNameInstruction),
      (TokenizeName, getTokenizeNameInstruction, getTokenizeNameInstructionDataEncoder, TokenizeNameInput, TokenizeNameInstruction,
       parseTokenizeNameInstruction, ParsedTokenizeNameInstruction),
      (TransferAdmin, getTransferAdminInstructionAsync, getTransferAdminInstructionDataEncoder, TransferAdminAsyncInput, TransferAdminInstruction,
       parseTransferAdminInstruction, ParsedTransferAdminInstruction),
      (TransferAdmin, getTransferAdminInstruction, getTransferAdminInstructionDataEncoder, TransferAdminInput, TransferAdminInstruction,
       parseTransferAdminInstruction, ParsedTransferAdminInstruction),
      (TransferName, getTransferNameInstruction, getTransferNameInstructionDataEncoder, TransferNameInput, TransferNameInstruction,
       parseTransferNameInstruction, ParsedTransferNameInstruction),
      (Unstake, getUnstakeInstructionAsync, getUnstakeInstructionDataEncoder, UnstakeAsyncInput, UnstakeInstruction,
       parseUnstakeInstruction, ParsedUnstakeInstruction),
      (Unstake, getUnstakeInstruction, getUnstakeInstructionDataEncoder, UnstakeInput, UnstakeInstruction,
       parseUnstakeInstruction, ParsedUnstakeInstruction),
      (UpdateConfig, getUpdateConfigInstructionAsync, getUpdateConfigInstructionDataEncoder, UpdateConfigAsyncInput, UpdateConfigInstruction,
       parseUpdateConfigInstruction, ParsedUpdateConfigInstruction),
      (UpdateConfig, getUpdateConfigInstruction, getUpdateConfigInstructionDataEncoder, UpdateConfigInput, UpdateConfigInstruction,
       parseUpdateConfigInstruction, ParsedUpdateConfigInstruction),
      (UpdateListing, getUpdateListingInstruction, getUpdateListingInstructionDataEncoder, UpdateListingInput, UpdateListingInstruction,
       parseUpdateListingInstruction, ParsedUpdateListingInstruction),
      (UpdateRecord, getUpdateRecordInstruction, getUpdateRecordInstructionDataEncoder, UpdateRecordInput, UpdateRecordInstruction,
       parseUpdateRecordInstruction, ParsedUpdateRecordInstruction),
      (WrapSubdomain, getWrapSubdomainInstructionAsync, getWrapSubdomainInstructionDataEncoder, WrapSubdomainAsyncInput, WrapSubdomainInstruction,
       parseWrapSubdomainInstruction, ParsedWrapSubdomainInstruction),
      (WrapSubdomain, getWrapSubdomainInstruction, getWrapSubdomainInstructionDataEncoder, WrapSubdomainInput, WrapSubdomainInstruction,
       parseWrapSubdomainInstruction, ParsedWrapSubdomainInstruction)]"

lemmas builder_typings =
  acceptOfferAsync_typed acceptOffer_typed autoRenewAsync_typed autoRenew_typed bid_typed burnName_typed
  buyNameAsync_typed buyName_typed buybackBurnAsync_typed buybackBurn_typed cancelAuction_typed
  cancelListing_typed cancelOffer_typed claimExpiredAsync_typed claimExpired_typed claimRewardsAsync_typed
  claimRewards_typed initBurnPoolAsync_typed initBurnPool_typed initConfigAsync_typed initConfig_typed
  initStakePoolAsync_typed initStakePool_typed listName_typed lockTransfer_typed makeOffer_typed
  redeemNameAsync_typed redeemName_typed registerNameAsync_typed registerName_typed
  registerWithSolansAsync_typed registerWithSolans_typed renewNameAsync_typed renewName_typed
  renewWithSolansAsync_typed renewWithSolans_typed resolve_typed revokeSubdomain_typed setController_typed
  setHosting_typed setResolver_typed setReverseAsync_typed setReverse_typed setSolansParamsAsync_typed
  setSolansParams_typed settleAuctionAsync_typed settleAuction_typed stakeAsync_typed stake_typed
  startAuctionAsync_typed startAuction_typed tokenizeNameAsync_typed tokenizeName_typed transferAdminAsync_typed
  transferAdmin_typed transferName_typed unstakeAsync_typed unstake_typed updateConfigAsync_typed
  updateConfig_typed updateListing_typed updateRecord_typed wrapSubdomainAsync_typed wrapSubdomain_typed

lemmas parser_typings =
  acceptOffer_parser_typed autoRenew_parser_typed bid_parser_typed burnName_parser_typed buyName_parser_typed
  buybackBurn_parser_typed cancelAuction_parser_typed cancelListing_parser_typed cancelOffer_parser_typed
  claimExpired_parser_typed claimRewards_parser_typed initBurnPool_parser_typed initConfig_parser_typed
  initStakePool_parser_typed listName_parser_typed lockTransfer_parser_typed makeOffer_parser_typed
  redeemName_parser_typed registerName_parser_typed registerWithSolans_parser_typed renewName_parser_typed
  renewWithSolans_parser_typed resolve_parser_typed revokeSubdomain_parser_typed setController_parser_typed
  setHosting_parser_typed setResolver_parser_typed setReverse_parser_typed setSolansParams_parser_typed
  settleAuction_parser_typed stake_parser_typed startAuction_parser_typed tokenizeName_parser_typed
  transferAdmin_parser_typed transferName_parser_typed unstake_parser_typed updateConfig_parser_typed
  updateListing_parser_typed updateRecord_parser_typed wrapSubdomain_parser_typed

lemma builders_typed:
  "list_all (\<lambda>(v, build, encoder, ity, ty, parse, pty). typed_builder build encoder ity ty pty \<and> typed_parser parse pty) typed_builders"
  unfolding typed_builders_def list.pred_inject prod.case
  by (simp only: builder_typings parser_typings list.pred_inject simp_thms)

text \<open>The rows are those of \<open>instruction_table\<close>, in its order.\<close>

lemma builders_of_table:
  "map (\<lambda>(v, build, encoder, ity, ty, parse, pty). (v, build, parse, encoder)) typed_builders =
   map (\<lambda>(v, build, parse, encoder, disc). (v, build, parse, encoder)) instruction_table"
  by (simp add: typed_builders_def instruction_table_def)

lemma typed_row_in_table:
  assumes "(v, build, encoder, ity, ty, parse, pty) \<in> set typed_builders"
  shows "\<exists>disc. (v, build, parse, encoder, disc) \<in> set instruction_table"
proof -
  have "(v, build, parse, encoder) \<in> set (map (\<lambda>(v, build, encoder, ity, ty, parse, pty). (v, build, parse, encoder)) typed_builders)"
    using assms by force
  then show ?thesis unfolding builders_of_table by auto
qed

text \<open>What an input of a builder's type gives.\<close>

lemma typed_build:
  assumes K: "kit_ok K" and D: "derivation_ok K" and R: "(v, build, encoder, ity, ty, parse, pty) \<in> set typed_builders"
    and I: "input_typed K ity inp" and A: "args_ok K encoder inp" and P: "in_programAddress inp = None"
  shows "\<exists>ix p. build K inp = Inr ix \<and> instruction_typed K ty pty inp ix \<and> parse K ix = Inr p \<and> parsed_typed pty p \<and>
    identifySolansInstruction K (ix_data ix) = Inr v \<and> ix_programAddress ix = SOLANS_PROGRAM_ADDRESS"
proof -
  have T: "typed_builder build encoder ity ty pty" "typed_parser parse pty" using R builders_typed by (auto simp: list_all_iff)
  obtain ix where ix: "build K inp = Inr ix" "instruction_typed K ty pty inp ix"
    using typed_builder_sound[OF K D T(1) I A P] by blast
  obtain disc where t: "(v, build, parse, encoder, disc) \<in> set instruction_table" using typed_row_in_table[OF R] by blast
  obtain required where c: "coherent build parse encoder disc required" using t table_coherent by (auto simp: list_all_iff)
  obtain p rest where p: "parse K ix = Inr p" "ix_data ix = disc @ rest" "ix_programAddress ix = SOLANS_PROGRAM_ADDRESS"
    using coherent_roundtrip[OF K c A P ix(1)] by blast
  have "(disc, v) \<in> set identify_table" using t table_identified by (auto simp: list_all_iff)
  then have "identifySolansInstruction K (ix_data ix) = Inr v" using identify_tag[OF K] p(2) by simp
  with ix p typed_parser_sound[OF T(2) p(1)] show ?thesis by blast
qed


section \<open>The reference kit derives addresses\<close>

text \<open>Base 58 and base 256 of a number agree with a digit list that does not start with zero.\<close>

lemma be_bytes_foldl:
  "bs \<noteq> [] \<Longrightarrow> hd bs \<noteq> 0 \<Longrightarrow> list_all (\<lambda>b. b < 256) bs \<Longrightarrow> be_bytes (foldl (\<lambda>acc b. acc * 256 + b) 0 bs) = bs"
proof (induction bs rule: rev_induct)
  case (snoc b bs)
  let ?n = "foldl (\<lambda>acc b. acc * 256 + b) 0 bs"
  have b: "(?n * 256 + b) div 256 = ?n" "(?n * 256 + b) mod 256 = b" using snoc.prems by simp_all
  show ?case
  proof (cases "bs = []")
    case True
    then show ?thesis using snoc.prems by (simp add: be_bytes.simps[of b] be_bytes.simps[of 0])
  next
    case False
    then have IH: "be_bytes ?n = bs" using snoc by simp
    with False have "?n \<noteq> 0" using be_bytes.simps[of 0] by (metis (full_types))
    then show ?thesis using IH b by (simp add: be_bytes.simps[of "?n * 256 + b"])
  qed
qed simp

lemma digits58_foldl:
  "ds \<noteq> [] \<Longrightarrow> hd ds \<noteq> 0 \<Longrightarrow> list_all (\<lambda>d. d < 58) ds \<Longrightarrow> digits58 (foldl (\<lambda>acc d. acc * 58 + d) 0 ds) = ds"
proof (induction ds rule: rev_induct)
  case (snoc b bs)
  let ?n = "foldl (\<lambda>acc d. acc * 58 + d) 0 bs"
  have b: "(?n * 58 + b) div 58 = ?n" "(?n * 58 + b) mod 58 = b" using snoc.prems by simp_all
  show ?case
  proof (cases "bs = []")
    case True
    then show ?thesis using snoc.prems by (simp add: digits58.simps[of b] digits58.simps[of 0])
  next
    case False
    then have IH: "digits58 ?n = bs" using snoc by simp
    with False have "?n \<noteq> 0" using digits58.simps[of 0] by (metis (full_types))
    then show ?thesis using IH b by (simp add: digits58.simps[of "?n * 58 + b"])
  qed
qed simp

lemma index_of_nth: "distinct xs \<Longrightarrow> i < length xs \<Longrightarrow> index_of (xs ! i) xs = i"
proof (induction xs arbitrary: i)
  case (Cons x xs)
  then show ?case by (cases i) auto
qed simp

lemma alphabet58_facts: "distinct alphabet58" "length alphabet58 = 58" "alphabet58 ! 0 = 49"
  by (simp_all add: alphabet58_def)

lemma alphabet58_one: "k < 58 \<Longrightarrow> alphabet58 ! k = 49 \<longleftrightarrow> k = 0"
  using nth_eq_iff_index_eq[OF alphabet58_facts(1), of k 0] alphabet58_facts by auto

lemma index_alphabet58: "k < 58 \<Longrightarrow> index_of (alphabet58 ! k) alphabet58 = k"
  using index_of_nth alphabet58_facts by auto

text \<open>An address is certified by its 32 bytes and its base 58 digits.\<close>

lemma address_certificate:
  assumes "ds \<noteq> []" "hd ds \<noteq> 0" "list_all (\<lambda>d. d < 58) ds" "hd bs \<noteq> 0" "list_all (\<lambda>b. b < 256) bs"
    and n: "foldl (\<lambda>acc d. acc * 58 + d) 0 ds = foldl (\<lambda>acc b. acc * 256 + b) 0 bs" and l: "z + length bs = 32" and "bs \<noteq> []"
  shows "is_address_ref (replicate z 49 @ map (\<lambda>d. alphabet58 ! d) ds)"
proof -
  let ?a = "replicate z 49 @ map (\<lambda>d. alphabet58 ! d) ds"
  have "takeWhile (\<lambda>c. c = 49) (map (\<lambda>d. alphabet58 ! d) ds) = []"
    using assms(1-3) by (cases ds) (simp_all add: alphabet58_one)
  then have t: "takeWhile (\<lambda>c. c = 49) ?a = replicate z 49" by (subst takeWhile_append2) auto
  have "map (\<lambda>d. index_of (alphabet58 ! d) alphabet58) ds = ds"
    using assms(3) by (intro map_idI) (simp add: list_all_iff index_alphabet58)
  then have "foldl (\<lambda>acc c. acc * 58 + index_of c alphabet58) 0 (map (\<lambda>d. alphabet58 ! d) ds) = foldl (\<lambda>acc d. acc * 58 + d) 0 ds"
    using foldl_map[of "\<lambda>acc d. acc * 58 + d" 0 "\<lambda>d. index_of (alphabet58 ! d) alphabet58" ds] by (simp add: foldl_map)
  then have d: "dec58 ?a = replicate z 0 @ bs"
    unfolding dec58_def t foldl_append dec58_zeros using n be_bytes_foldl assms by simp
  have "takeWhile (\<lambda>b. b = 0) bs = []" using assms(4,8) by (cases bs) simp_all
  then have "takeWhile (\<lambda>b. b = 0) (replicate z 0 @ bs) = replicate z 0" by (subst takeWhile_append2) auto
  then have "enc58 (replicate z 0 @ bs) = ?a"
    unfolding enc58_def using enc58_zeros n[symmetric] digits58_foldl[OF assms(1-3)] by simp
  with d l show ?thesis by (simp add: is_address_ref_def)
qed

lemma known_programs_addresses:
  "is_address_ref SYSTEM_PROGRAM" "is_address_ref TOKEN_PROGRAM" "is_address_ref ASSOCIATED_TOKEN_PROGRAM"
  "is_address_ref METADATA_PROGRAM" "is_address_ref RENT_SYSVAR"
proof -
  show "is_address_ref SYSTEM_PROGRAM" using sample_address_zero by (simp add: SYSTEM_PROGRAM_def sample_address_def eval_nat_numeral)
  show "is_address_ref TOKEN_PROGRAM"
    using address_certificate[of
      "[26, 46, 43, 37, 45, 43, 37, 39, 23, 38, 37, 32, 56, 41, 21, 54, 9, 17, 34, 21, 34, 15, 18, 22, 14,
       30, 11, 29, 52, 10, 53, 38, 8, 25, 50, 5, 1, 2, 28, 23, 4, 12, 9]" "[6, 221, 246, 225, 215, 101, 161, 147, 217, 203, 225, 70, 206, 235, 121, 172, 28, 180, 133, 237, 95,
       91, 55, 145, 58, 140, 245, 133, 126, 255, 0, 169]" 0]
    by (simp add: TOKEN_PROGRAM_def alphabet58_def)
  show "is_address_ref ASSOCIATED_TOKEN_PROGRAM"
    using address_certificate[of
      "[9, 26, 46, 43, 37, 45, 15, 22, 53, 34, 36, 15, 28, 55, 49, 0, 34, 1, 40, 53, 32, 34, 50, 41, 48,
       29, 4, 55, 29, 16, 1, 4, 37, 38, 26, 21, 50, 19, 17, 9, 7, 43, 45, 19]" "[140, 151, 37, 143, 78, 36, 137, 241, 187, 61, 16, 41, 20, 142, 13, 131, 11, 90, 19, 153, 218, 255,
       16, 132, 4, 142, 123, 216, 219, 233, 248, 89]" 0]
    by (simp add: ASSOCIATED_TOKEN_PROGRAM_def alphabet58_def)
  show "is_address_ref METADATA_PROGRAM"
    using address_certificate[of
      "[44, 37, 51, 33, 48, 34, 55, 55, 27, 37, 49, 36, 48, 1, 7, 35, 42, 0, 24, 34, 9, 29, 43, 31, 23, 44,
       2, 56, 34, 57, 42, 34, 5, 33, 7, 34, 51, 4, 0, 7, 55, 0, 50]" "[11, 112, 101, 177, 227, 209, 124, 69, 56, 157, 82, 127, 107, 4, 195, 205, 88, 184, 108, 115, 26,
       160, 253, 181, 73, 182, 209, 188, 3, 248, 41, 70]" 0]
    by (simp add: METADATA_PROGRAM_def alphabet58_def)
  show "is_address_ref RENT_SYSVAR"
    using address_certificate[of
      "[25, 56, 50, 53, 33, 49, 24, 37, 45, 51, 0, 0, 0, 0, 0, 0, 0, 0, 0, 0, 0, 0, 0, 0, 0, 0, 0, 0, 0, 0,
       0, 0, 0, 0, 0, 0, 0, 0, 0, 0, 0, 0, 0]" "[6, 167, 213, 23, 25, 44, 92, 81, 33, 140, 201, 76, 61, 74, 241, 127, 88, 218, 238, 8, 155, 161,
       253, 68, 227, 219, 217, 138, 0, 0, 0, 0]" 0]
    by (simp add: RENT_SYSVAR_def alphabet58_def)
qed

lemma derivation_ok_ref_kit: "derivation_ok ref_kit"
proof -
  have "is_address_ref (replicate 31 49 @ [alphabet58 ! (n mod 57 + 1)])" for n
    using address_certificate[of "[n mod 57 + 1]" "[n mod 57 + 1]" 31] by (simp add: less_Suc_eq_le)
  then show ?thesis
    using known_programs_addresses
    by (simp add: derivation_ok_def ref_kit_def toy_pda_def known_programs_def list_ex_iff list_all_iff)
      (meson linorder_not_less)
qed


text \<open>A registration that leaves the derived accounts and the referral account out.\<close>

definition sample_registration :: ixInput where
  "sample_registration =
     \<lparr>in_account = [''payer'' \<mapsto> SignerI sample_wallet, ''owner'' \<mapsto> AddrI sample_wallet,
        ''payerTokenAccount'' \<mapsto> AddrI sample_address, ''treasuryTokenAccount'' \<mapsto> AddrI sample_address,
        ''stakingVault'' \<mapsto> AddrI sample_address, ''burnVault'' \<mapsto> AddrI sample_address,
        ''paymentMint'' \<mapsto> AddrI sample_address],
      in_arg = [''name'' \<mapsto> VStr (js ''alex''), ''tld'' \<mapsto> VStr (js ''sol''), ''nameHash'' \<mapsto> VBytes (replicate 32 7),
        ''years'' \<mapsto> VNum 1],
      in_programAddress = None\<rparr>"

lemma sample_registration_typed:
  "input_typed ref_kit RegisterNameAsyncInput sample_registration"
  "args_ok ref_kit getRegisterNameInstructionDataEncoder sample_registration"
  "in_programAddress sample_registration = None"
  by (simp_all add: input_typed_def RegisterNameAsyncInput_def sample_registration_def ref_kit_def args_ok_def
      getRegisterNameInstructionDataEncoder_def text_ok_ascii ascii_str_def)

section \<open>Properties\<close>



end
