(* ===== verification/Plugin_Typing.thy ===== *)
theory Plugin_Typing
  imports Plugin Client_Typing
begin

text \<open>
  The types of the generated program module (\<open>programs/solans.ts\<close>): \<open>SolansPluginInstructions\<close>, the input type of every entry of the
  plugin, and \<open>ParsedSolansInstruction\<close>, the union of the parsed types. Every entry accepts the inputs of its type, with the
  client's payer where the type makes the payer optional, and \<open>parseSolansInstruction\<close> returns a member of the union.
\<close>

section \<open>The types\<close>

text \<open>\<open>MakeOptional<T, K>\<close>.\<close>

definition MakeOptional :: "input_type \<Rightarrow> string \<Rightarrow> input_type" where
  "MakeOptional ty k = ty\<lparr>it_accounts := map (\<lambda>(a, kind, optional). (a, kind, optional \<or> a = k)) (it_accounts ty)\<rparr>"

primrec SolansPluginInstructions :: "SolansInstruction \<Rightarrow> input_type" where
  "SolansPluginInstructions AcceptOffer = AcceptOfferAsyncInput"
| "SolansPluginInstructions AutoRenew = AutoRenewAsyncInput"
| "SolansPluginInstructions Bid = BidInput"
| "SolansPluginInstructions BurnName = BurnNameInput"
| "SolansPluginInstructions BuyName = BuyNameAsyncInput"
| "SolansPluginInstructions BuybackBurn = BuybackBurnAsyncInput"
| "SolansPluginInstructions CancelAuction = CancelAuctionInput"
| "SolansPluginInstructions CancelListing = CancelListingInput"
| "SolansPluginInstructions CancelOffer = CancelOfferInput"
| "SolansPluginInstructions ClaimExpired = ClaimExpiredAsyncInput"
| "SolansPluginInstructions ClaimRewards = ClaimRewardsAsyncInput"
| "SolansPluginInstructions InitBurnPool = InitBurnPoolAsyncInput"
| "SolansPluginInstructions InitConfig = InitConfigAsyncInput"
| "SolansPluginInstructions InitStakePool = InitStakePoolAsyncInput"
| "SolansPluginInstructions ListName = ListNameInput"
| "SolansPluginInstructions LockTransfer = LockTransferInput"
| "SolansPluginInstructions MakeOffer = MakeOfferInput"
| "SolansPluginInstructions RedeemName = RedeemNameAsyncInput"
| "SolansPluginInstructions RegisterName = MakeOptional RegisterNameAsyncInput ''payer''"
| "SolansPluginInstructions RegisterWithSolans = MakeOptional RegisterWithSolansAsyncInput ''payer''"
| "SolansPluginInstructions RenewName = MakeOptional RenewNameAsyncInput ''payer''"
| "SolansPluginInstructions RenewWithSolans = MakeOptional RenewWithSolansAsyncInput ''payer''"
| "SolansPluginInstructions Resolve = ResolveInput"
| "SolansPluginInstructions RevokeSubdomain = RevokeSubdomainInput"
| "SolansPluginInstructions SetController = SetControllerInput"
| "SolansPluginInstructions SetHosting = SetHostingInput"
| "SolansPluginInstructions SetResolver = SetResolverInput"
| "SolansPluginInstructions SetReverse = SetReverseAsyncInput"
| "SolansPluginInstructions SetSolansParams = SetSolansParamsAsyncInput"
| "SolansPluginInstructions SettleAuction = SettleAuctionAsyncInput"
| "SolansPluginInstructions Stake = StakeAsyncInput"
| "SolansPluginInstructions StartAuction = StartAuctionAsyncInput"
| "SolansPluginInstructions TokenizeName = TokenizeNameAsyncInput"
| "SolansPluginInstructions TransferAdmin = TransferAdminAsyncInput"
| "SolansPluginInstructions TransferName = TransferNameInput"
| "SolansPluginInstructions Unstake = UnstakeAsyncInput"
| "SolansPluginInstructions UpdateConfig = UpdateConfigAsyncInput"
| "SolansPluginInstructions UpdateListing = UpdateListingInput"
| "SolansPluginInstructions UpdateRecord = UpdateRecordInput"
| "SolansPluginInstructions WrapSubdomain = WrapSubdomainAsyncInput"

primrec ParsedSolansInstruction :: "SolansInstruction \<Rightarrow> parsed_type" where
  "ParsedSolansInstruction AcceptOffer = ParsedAcceptOfferInstruction"
| "ParsedSolansInstruction AutoRenew = ParsedAutoRenewInstruction"
| "ParsedSolansInstruction Bid = ParsedBidInstruction"
| "ParsedSolansInstruction BurnName = ParsedBurnNameInstruction"
| "ParsedSolansInstruction BuyName = ParsedBuyNameInstruction"
| "ParsedSolansInstruction BuybackBurn = ParsedBuybackBurnInstruction"
| "ParsedSolansInstruction CancelAuction = ParsedCancelAuctionInstruction"
| "ParsedSolansInstruction CancelListing = ParsedCancelListingInstruction"
| "ParsedSolansInstruction CancelOffer = ParsedCancelOfferInstruction"
| "ParsedSolansInstruction ClaimExpired = ParsedClaimExpiredInstruction"
| "ParsedSolansInstruction ClaimRewards = ParsedClaimRewardsInstruction"
| "ParsedSolansInstruction InitBurnPool = ParsedInitBurnPoolInstruction"
| "ParsedSolansInstruction InitConfig = ParsedInitConfigInstruction"
| "ParsedSolansInstruction InitStakePool = ParsedInitStakePoolInstruction"
| "ParsedSolansInstruction ListName = ParsedListNameInstruction"
| "ParsedSolansInstruction LockTransfer = ParsedLockTransferInstruction"
| "ParsedSolansInstruction MakeOffer = ParsedMakeOfferInstruction"
| "ParsedSolansInstruction RedeemName = ParsedRedeemNameInstruction"
| "ParsedSolansInstruction RegisterName = ParsedRegisterNameInstruction"
| "ParsedSolansInstruction RegisterWithSolans = ParsedRegisterWithSolansInstruction"
| "ParsedSolansInstruction RenewName = ParsedRenewNameInstruction"
| "ParsedSolansInstruction RenewWithSolans = ParsedRenewWithSolansInstruction"
| "ParsedSolansInstruction Resolve = ParsedResolveInstruction"
| "ParsedSolansInstruction RevokeSubdomain = ParsedRevokeSubdomainInstruction"
| "ParsedSolansInstruction SetController = ParsedSetControllerInstruction"
| "ParsedSolansInstruction SetHosting = ParsedSetHostingInstruction"
| "ParsedSolansInstruction SetResolver = ParsedSetResolverInstruction"
| "ParsedSolansInstruction SetReverse = ParsedSetReverseInstruction"
| "ParsedSolansInstruction SetSolansParams = ParsedSetSolansParamsInstruction"
| "ParsedSolansInstruction SettleAuction = ParsedSettleAuctionInstruction"
| "ParsedSolansInstruction Stake = ParsedStakeInstruction"
| "ParsedSolansInstruction StartAuction = ParsedStartAuctionInstruction"
| "ParsedSolansInstruction TokenizeName = ParsedTokenizeNameInstruction"
| "ParsedSolansInstruction TransferAdmin = ParsedTransferAdminInstruction"
| "ParsedSolansInstruction TransferName = ParsedTransferNameInstruction"
| "ParsedSolansInstruction Unstake = ParsedUnstakeInstruction"
| "ParsedSolansInstruction UpdateConfig = ParsedUpdateConfigInstruction"
| "ParsedSolansInstruction UpdateListing = ParsedUpdateListingInstruction"
| "ParsedSolansInstruction UpdateRecord = ParsedUpdateRecordInstruction"
| "ParsedSolansInstruction WrapSubdomain = ParsedWrapSubdomainInstruction"

text \<open>The rows of \<open>typed_builders\<close> that the plugin uses, in its order.\<close>

definition plugin_rows :: "typed_row list" where
  "plugin_rows =
     [(AcceptOffer, getAcceptOfferInstructionAsync, getAcceptOfferInstructionDataEncoder, AcceptOfferAsyncInput, AcceptOfferInstruction,
       parseAcceptOfferInstruction, ParsedAcceptOfferInstruction),
      (AutoRenew, getAutoRenewInstructionAsync, getAutoRenewInstructionDataEncoder, AutoRenewAsyncInput, AutoRenewInstruction,
       parseAutoRenewInstruction, ParsedAutoRenewInstruction),
      (Bid, getBidInstruction, getBidInstructionDataEncoder, BidInput, BidInstruction,
       parseBidInstruction, ParsedBidInstruction),
      (BurnName, getBurnNameInstruction, getBurnNameInstructionDataEncoder, BurnNameInput, BurnNameInstruction,
       parseBurnNameInstruction, ParsedBurnNameInstruction),
      (BuyName, getBuyNameInstructionAsync, getBuyNameInstructionDataEncoder, BuyNameAsyncInput, BuyNameInstruction,
       parseBuyNameInstruction, ParsedBuyNameInstruction),
      (BuybackBurn, getBuybackBurnInstructionAsync, getBuybackBurnInstructionDataEncoder, BuybackBurnAsyncInput, BuybackBurnInstruction,
       parseBuybackBurnInstruction, ParsedBuybackBurnInstruction),
      (CancelAuction, getCancelAuctionInstruction, getCancelAuctionInstructionDataEncoder, CancelAuctionInput, CancelAuctionInstruction,
       parseCancelAuctionInstruction, ParsedCancelAuctionInstruction),
      (CancelListing, getCancelListingInstruction, getCancelListingInstructionDataEncoder, CancelListingInput, CancelListingInstruction,
       parseCancelListingInstruction, ParsedCancelListingInstruction),
      (CancelOffer, getCancelOfferInstruction, getCancelOfferInstructionDataEncoder, CancelOfferInput, CancelOfferInstruction,
       parseCancelOfferInstruction, ParsedCancelOfferInstruction),
      (ClaimExpired, getClaimExpiredInstructionAsync, getClaimExpiredInstructionDataEncoder, ClaimExpiredAsyncInput, ClaimExpiredInstruction,
       parseClaimExpiredInstruction, ParsedClaimExpiredInstruction),
      (ClaimRewards, getClaimRewardsInstructionAsync, getClaimRewardsInstructionDataEncoder, ClaimRewardsAsyncInput, ClaimRewardsInstruction,
       parseClaimRewardsInstruction, ParsedClaimRewardsInstruction),
      (InitBurnPool, getInitBurnPoolInstructionAsync, getInitBurnPoolInstructionDataEncoder, InitBurnPoolAsyncInput, InitBurnPoolInstruction,
       parseInitBurnPoolInstruction, ParsedInitBurnPoolInstruction),
      (InitConfig, getInitConfigInstructionAsync, getInitConfigInstructionDataEncoder, InitConfigAsyncInput, InitConfigInstruction,
       parseInitConfigInstruction, ParsedInitConfigInstruction),
      (InitStakePool, getInitStakePoolInstructionAsync, getInitStakePoolInstructionDataEncoder, InitStakePoolAsyncInput, InitStakePoolInstruction,
       parseInitStakePoolInstruction, ParsedInitStakePoolInstruction),
      (ListName, getListNameInstruction, getListNameInstructionDataEncoder, ListNameInput, ListNameInstruction,
       parseListNameInstruction, ParsedListNameInstruction),
      (LockTransfer, getLockTransferInstruction, getLockTransferInstructionDataEncoder, LockTransferInput, LockTransferInstruction,
       parseLockTransferInstruction, ParsedLockTransferInstruction),
      (MakeOffer, getMakeOfferInstruction, getMakeOfferInstructionDataEncoder, MakeOfferInput, MakeOfferInstruction,
       parseMakeOfferInstruction, ParsedMakeOfferInstruction),
      (RedeemName, getRedeemNameInstructionAsync, getRedeemNameInstructionDataEncoder, RedeemNameAsyncInput, RedeemNameInstruction,
       parseRedeemNameInstruction, ParsedRedeemNameInstruction),
      (RegisterName, getRegisterNameInstructionAsync, getRegisterNameInstructionDataEncoder, RegisterNameAsyncInput, RegisterNameInstruction,
       parseRegisterNameInstruction, ParsedRegisterNameInstruction),
      (RegisterWithSolans, getRegisterWithSolansInstructionAsync, getRegisterWithSolansInstructionDataEncoder, RegisterWithSolansAsyncInput, RegisterWithSolansInstruction,
       parseRegisterWithSolansInstruction, ParsedRegisterWithSolansInstruction),
      (RenewName, getRenewNameInstructionAsync, getRenewNameInstructionDataEncoder, RenewNameAsyncInput, RenewNameInstruction,
       parseRenewNameInstruction, ParsedRenewNameInstruction),
      (RenewWithSolans, getRenewWithSolansInstructionAsync, getRenewWithSolansInstructionDataEncoder, RenewWithSolansAsyncInput, RenewWithSolansInstruction,
       parseRenewWithSolansInstruction, ParsedRenewWithSolansInstruction),
      (Resolve, getResolveInstruction, getResolveInstructionDataEncoder, ResolveInput, ResolveInstruction,
       parseResolveInstruction, ParsedResolveInstruction),
      (RevokeSubdomain, getRevokeSubdomainInstruction, getRevokeSubdomainInstructionDataEncoder, RevokeSubdomainInput, RevokeSubdomainInstruction,
       parseRevokeSubdomainInstruction, ParsedRevokeSubdomainInstruction),
      (SetController, getSetControllerInstruction, getSetControllerInstructionDataEncoder, SetControllerInput, SetControllerInstruction,
       parseSetControllerInstruction, ParsedSetControllerInstruction),
      (SetHosting, getSetHostingInstruction, getSetHostingInstructionDataEncoder, SetHostingInput, SetHostingInstruction,
       parseSetHostingInstruction, ParsedSetHostingInstruction),
      (SetResolver, getSetResolverInstruction, getSetResolverInstructionDataEncoder, SetResolverInput, SetResolverInstruction,
       parseSetResolverInstruction, ParsedSetResolverInstruction),
      (SetReverse, getSetReverseInstructionAsync, getSetReverseInstructionDataEncoder, SetReverseAsyncInput, SetReverseInstruction,
       parseSetReverseInstruction, ParsedSetReverseInstruction),
      (SetSolansParams, getSetSolansParamsInstructionAsync, getSetSolansParamsInstructionDataEncoder, SetSolansParamsAsyncInput, SetSolansParamsInstruction,
       parseSetSolansParamsInstruction, ParsedSetSolansParamsInstruction),
      (SettleAuction, getSettleAuctionInstructionAsync, getSettleAuctionInstructionDataEncoder, SettleAuctionAsyncInput, SettleAuctionInstruction,
       parseSettleAuctionInstruction, ParsedSettleAuctionInstruction),
      (Stake, getStakeInstructionAsync, getStakeInstructionDataEncoder, StakeAsyncInput, StakeInstruction,
       parseStakeInstruction, ParsedStakeInstruction),
      (StartAuction, getStartAuctionInstructionAsync, getStartAuctionInstructionDataEncoder, StartAuctionAsyncInput, StartAuctionInstruction,
       parseStartAuctionInstruction, ParsedStartAuctionInstruction),
      (TokenizeName, getTokenizeNameInstructionAsync, getTokenizeNameInstructionDataEncoder, TokenizeNameAsyncInput, TokenizeNameInstruction,
       parseTokenizeNameInstruction, ParsedTokenizeNameInstruction),
      (TransferAdmin, getTransferAdminInstructionAsync, getTransferAdminInstructionDataEncoder, TransferAdminAsyncInput, TransferAdminInstruction,
       parseTransferAdminInstruction, ParsedTransferAdminInstruction),
      (TransferName, getTransferNameInstruction, getTransferNameInstructionDataEncoder, TransferNameInput, TransferNameInstruction,
       parseTransferNameInstruction, ParsedTransferNameInstruction),
      (Unstake, getUnstakeInstructionAsync, getUnstakeInstructionDataEncoder, UnstakeAsyncInput, UnstakeInstruction,
       parseUnstakeInstruction, ParsedUnstakeInstruction),
      (UpdateConfig, getUpdateConfigInstructionAsync, getUpdateConfigInstructionDataEncoder, UpdateConfigAsyncInput, UpdateConfigInstruction,
       parseUpdateConfigInstruction, ParsedUpdateConfigInstruction),
      (UpdateListing, getUpdateListingInstruction, getUpdateListingInstructionDataEncoder, UpdateListingInput, UpdateListingInstruction,
       parseUpdateListingInstruction, ParsedUpdateListingInstruction),
      (UpdateRecord, getUpdateRecordInstruction, getUpdateRecordInstructionDataEncoder, UpdateRecordInput, UpdateRecordInstruction,
       parseUpdateRecordInstruction, ParsedUpdateRecordInstruction),
      (WrapSubdomain, getWrapSubdomainInstructionAsync, getWrapSubdomainInstructionDataEncoder, WrapSubdomainAsyncInput, WrapSubdomainInstruction,
       parseWrapSubdomainInstruction, ParsedWrapSubdomainInstruction)]"

section \<open>The rows\<close>

lemma plugin_rows_typed: "set plugin_rows \<subseteq> set typed_builders"
  unfolding plugin_rows_def typed_builders_def by (simp only: list.set insert_subset empty_subsetI insert_iff simp_thms)

lemma plugin_rows_built:
  "map (\<lambda>(v, build, encoder, ity, ty, parse, pty). (v, build)) plugin_rows = plugin_builders"
  by (simp add: plugin_rows_def plugin_builders_def plugin_builders_1_def plugin_builders_2_def)

lemma plugin_rows_types:
  "list_all (\<lambda>(v, build, encoder, ity, ty, parse, pty).
     SolansPluginInstructions v = (if v \<in> set paying_entries then MakeOptional ity ''payer'' else ity) \<and>
     ParsedSolansInstruction v = pty) plugin_rows"
  unfolding plugin_rows_def list.pred_inject prod.case
  by (simp add: paying_entries_def)

lemma plugin_rows_payer:
  "list_all (\<lambda>(v, build, encoder, ity, ty, parse, pty).
     v \<in> set paying_entries \<longrightarrow> (''payer'', TransactionSigner, False) \<in> set (it_accounts ity) \<and>
       list_all (\<lambda>(a, kind, optional). a = ''payer'' \<longrightarrow> kind = TransactionSigner) (it_accounts ity)) plugin_rows"
  unfolding plugin_rows_def list.pred_inject prod.case
  by (simp add: paying_entries_def RegisterNameAsyncInput_def RegisterWithSolansAsyncInput_def RenewNameAsyncInput_def
      RenewWithSolansAsyncInput_def)

lemma plugin_builders_distinct: "distinct (map fst plugin_builders)"
  by (simp add: plugin_builders_def plugin_builders_1_def plugin_builders_2_def)

lemma plugin_row_built:
  assumes "(v, build, encoder, ity, ty, parse, pty) \<in> set plugin_rows"
  shows "map_of plugin_builders v = Some build"
proof -
  have "(v, build) \<in> set (map (\<lambda>(v, build, encoder, ity, ty, parse, pty). (v, build)) plugin_rows)" using assms by force
  then show ?thesis unfolding plugin_rows_built using plugin_builders_distinct by simp
qed

section \<open>The client's payer\<close>

lemma or_payer_typed:
  assumes "input_typed K (MakeOptional ity ''payer'') inp" "isAddress K payer"
    "list_all (\<lambda>(a, kind, optional). a = ''payer'' \<longrightarrow> kind = TransactionSigner) (it_accounts ity)"
  shows "input_typed K ity (or_payer payer inp)"
  unfolding input_typed_def list_all_iff
proof (intro ballI)
  fix x assume x: "x \<in> set (it_accounts ity)"
  obtain a kind optional where a: "x = (a, kind, optional)" by (cases x)
  have "account_typed K kind (optional \<or> a = ''payer'') (in_account inp a)"
    using assms(1) x a by (force simp: input_typed_def MakeOptional_def list_all_iff)
  moreover have "a = ''payer'' \<longrightarrow> kind = TransactionSigner" using assms(3) x a by (auto simp: list_all_iff)
  ultimately show "case x of (a, kind, optional) \<Rightarrow> account_typed K kind optional (in_account (or_payer payer inp) a)"
    using assms(2) by (cases "in_account inp a"; cases "the (in_account inp a)") (auto simp: a or_payer_def)
qed

lemma plugin_input_typed:
  assumes R: "(v, build, encoder, ity, ty, parse, pty) \<in> set plugin_rows"
    and I: "input_typed K (SolansPluginInstructions v) inp" and P: "isAddress K payer"
  shows "input_typed K ity (plugin_input payer v inp)"
proof -
  have "SolansPluginInstructions v = (if v \<in> set paying_entries then MakeOptional ity ''payer'' else ity)"
    "v \<in> set paying_entries \<longrightarrow> list_all (\<lambda>(a, kind, optional). a = ''payer'' \<longrightarrow> kind = TransactionSigner) (it_accounts ity)"
    using R plugin_rows_types plugin_rows_payer by (auto simp: list_all_iff)
  with I P show ?thesis by (auto simp: plugin_input_def intro: or_payer_typed)
qed

text \<open>A payer that is given signs.\<close>

lemma plugin_payer_given:
  assumes R: "(v, build, encoder, ity, ty, parse, pty) \<in> set plugin_rows"
    and I: "input_typed K (SolansPluginInstructions v) inp" and V: "v \<in> set paying_entries"
  shows "in_account inp ''payer'' \<noteq> Some (AddrI a)"
proof -
  have t: "SolansPluginInstructions v = MakeOptional ity ''payer''"
    using R V plugin_rows_types by (auto simp: list_all_iff)
  have "(''payer'', TransactionSigner, False) \<in> set (it_accounts ity)"
    using R V plugin_rows_payer by (auto simp: list_all_iff)
  then have "account_typed K TransactionSigner True (in_account inp ''payer'')"
    using I unfolding t by (force simp: input_typed_def MakeOptional_def list_all_iff)
  then show ?thesis by auto
qed

lemma MakeOptional_args [simp]: "it_args (MakeOptional ty k) = it_args ty"
  by (simp add: MakeOptional_def)

lemma plugin_args:
  assumes "(v, build, encoder, ity, ty, parse, pty) \<in> set plugin_rows"
  shows "it_args (SolansPluginInstructions v) = map fst (arg_fields encoder)"
proof -
  have "typed_builder build encoder ity ty pty" using assms plugin_rows_typed builders_typed by (auto simp: list_all_iff)
  then have "it_args ity = map fst (arg_fields encoder)" by (auto simp: typed_builder_def signature_ok_def)
  moreover have "it_args (SolansPluginInstructions v) = it_args ity"
    using assms plugin_rows_types by (auto simp: list_all_iff)
  ultimately show ?thesis by simp
qed

text \<open>\<open>parseSolansInstruction\<close> returns a member of the union.\<close>

lemma parsers_typed:
  "list_all (\<lambda>(v, parse). typed_parser parse (ParsedSolansInstruction v)) (parsers_1 @ parsers_2)"
  unfolding parsers_1_def parsers_2_def append.simps list.pred_inject prod.case ParsedSolansInstruction.simps
  by (simp only: parser_typings list.pred_inject simp_thms)

lemma parseInstruction_typed:
  assumes "parseInstruction K ix = Inr (v, p)"
  shows "parsed_typed (ParsedSolansInstruction v) p"
proof -
  obtain parse where m: "map_of (parsers_1 @ parsers_2) v = Some parse" "parse K ix = Inr p"
    using assms by (auto simp: parseInstruction_def bind_res_Inr simp del: map_of_append split: option.splits)
  then have "typed_parser parse (ParsedSolansInstruction v)"
    using map_of_SomeD[OF m(1)] parsers_typed by (auto simp: list_all_iff)
  from typed_parser_sound[OF this m(2)] show ?thesis .
qed

section \<open>Properties\<close>



end
