(* ===== verification/Solans_Errors.thy ===== *)
theory Solans_Errors
  imports Accounts Program
begin

text \<open>
  The generated error module (\<open>clients/ts/src/generated/errors/solans.ts\<close>): the error codes, their messages,
  \<open>getSolansErrorMessage\<close> and \<open>isSolansError\<close>, beside the program's own enumeration (\<open>programs/solans/src/error.rs\<close>). Anchor
  numbers the variants of \<open>#[error_code]\<close> from an offset in declaration order; \<open>isProgramError\<close> of the kit is a parameter.
  A code the program raises is recognised by the client as that error and no other, and its message is the
  program's.
\<close>

section \<open>The generated module\<close>

definition SOLANS_ERROR__INVALID_NAME_LENGTH :: nat where "SOLANS_ERROR__INVALID_NAME_LENGTH = 0x1770"
definition SOLANS_ERROR__INVALID_NAME_CHARACTER :: nat where "SOLANS_ERROR__INVALID_NAME_CHARACTER = 0x1771"
definition SOLANS_ERROR__INVALID_NAME_HYPHEN :: nat where "SOLANS_ERROR__INVALID_NAME_HYPHEN = 0x1772"
definition SOLANS_ERROR__NAME_MISMATCH :: nat where "SOLANS_ERROR__NAME_MISMATCH = 0x1773"
definition SOLANS_ERROR__INVALID_TLD :: nat where "SOLANS_ERROR__INVALID_TLD = 0x1774"
definition SOLANS_ERROR__INVALID_YEARS :: nat where "SOLANS_ERROR__INVALID_YEARS = 0x1775"
definition SOLANS_ERROR__MATH_OVERFLOW :: nat where "SOLANS_ERROR__MATH_OVERFLOW = 0x1776"
definition SOLANS_ERROR__NOT_OWNER :: nat where "SOLANS_ERROR__NOT_OWNER = 0x1777"
definition SOLANS_ERROR__NOT_AUTHORIZED :: nat where "SOLANS_ERROR__NOT_AUTHORIZED = 0x1778"
definition SOLANS_ERROR__TRANSFER_LOCKED :: nat where "SOLANS_ERROR__TRANSFER_LOCKED = 0x1779"
definition SOLANS_ERROR__NOT_EXPIRED :: nat where "SOLANS_ERROR__NOT_EXPIRED = 0x177a"
definition SOLANS_ERROR__RECORD_NOT_FOUND :: nat where "SOLANS_ERROR__RECORD_NOT_FOUND = 0x177b"
definition SOLANS_ERROR__TOO_MANY_RECORDS :: nat where "SOLANS_ERROR__TOO_MANY_RECORDS = 0x177c"
definition SOLANS_ERROR__RECORD_TOO_LONG :: nat where "SOLANS_ERROR__RECORD_TOO_LONG = 0x177d"
definition SOLANS_ERROR__INVALID_TREASURY :: nat where "SOLANS_ERROR__INVALID_TREASURY = 0x177e"
definition SOLANS_ERROR__INVALID_MINT :: nat where "SOLANS_ERROR__INVALID_MINT = 0x177f"
definition SOLANS_ERROR__NOT_ADMIN :: nat where "SOLANS_ERROR__NOT_ADMIN = 0x1780"
definition SOLANS_ERROR__TOKENIZED :: nat where "SOLANS_ERROR__TOKENIZED = 0x1781"
definition SOLANS_ERROR__INVALID_NFT_MINT :: nat where "SOLANS_ERROR__INVALID_NFT_MINT = 0x1782"
definition SOLANS_ERROR__TOO_DEEP :: nat where "SOLANS_ERROR__TOO_DEEP = 0x1783"
definition SOLANS_ERROR__PARENT_EXPIRED :: nat where "SOLANS_ERROR__PARENT_EXPIRED = 0x1784"
definition SOLANS_ERROR__NOT_PARENT :: nat where "SOLANS_ERROR__NOT_PARENT = 0x1785"
definition SOLANS_ERROR__SUBDOMAIN :: nat where "SOLANS_ERROR__SUBDOMAIN = 0x1786"
definition SOLANS_ERROR__LISTED :: nat where "SOLANS_ERROR__LISTED = 0x1787"
definition SOLANS_ERROR__NOT_LISTED :: nat where "SOLANS_ERROR__NOT_LISTED = 0x1788"
definition SOLANS_ERROR__NOT_SELLER :: nat where "SOLANS_ERROR__NOT_SELLER = 0x1789"
definition SOLANS_ERROR__LISTING_EXPIRED :: nat where "SOLANS_ERROR__LISTING_EXPIRED = 0x178a"
definition SOLANS_ERROR__SELF_PURCHASE :: nat where "SOLANS_ERROR__SELF_PURCHASE = 0x178b"
definition SOLANS_ERROR__PRICE_MISMATCH :: nat where "SOLANS_ERROR__PRICE_MISMATCH = 0x178c"
definition SOLANS_ERROR__INVALID_FEE_BPS :: nat where "SOLANS_ERROR__INVALID_FEE_BPS = 0x178d"
definition SOLANS_ERROR__OFFER_EXPIRED :: nat where "SOLANS_ERROR__OFFER_EXPIRED = 0x178e"
definition SOLANS_ERROR__NOT_OFFERER :: nat where "SOLANS_ERROR__NOT_OFFERER = 0x178f"
definition SOLANS_ERROR__INVALID_FEE_SPLIT :: nat where "SOLANS_ERROR__INVALID_FEE_SPLIT = 0x1790"
definition SOLANS_ERROR__INVALID_PRICE :: nat where "SOLANS_ERROR__INVALID_PRICE = 0x1791"
definition SOLANS_ERROR__INSUFFICIENT_STAKE :: nat where "SOLANS_ERROR__INSUFFICIENT_STAKE = 0x1792"
definition SOLANS_ERROR__STAKE_MINT_MISMATCH :: nat where "SOLANS_ERROR__STAKE_MINT_MISMATCH = 0x1793"
definition SOLANS_ERROR__SOLANS_NOT_CONFIGURED :: nat where "SOLANS_ERROR__SOLANS_NOT_CONFIGURED = 0x1794"
definition SOLANS_ERROR__INSUFFICIENT_BURN_VAULT :: nat where "SOLANS_ERROR__INSUFFICIENT_BURN_VAULT = 0x1795"
definition SOLANS_ERROR__INVALID_DISCOUNT :: nat where "SOLANS_ERROR__INVALID_DISCOUNT = 0x1796"
definition SOLANS_ERROR__AUCTION_ENDED :: nat where "SOLANS_ERROR__AUCTION_ENDED = 0x1797"
definition SOLANS_ERROR__AUCTION_ACTIVE :: nat where "SOLANS_ERROR__AUCTION_ACTIVE = 0x1798"
definition SOLANS_ERROR__BID_TOO_LOW :: nat where "SOLANS_ERROR__BID_TOO_LOW = 0x1799"
definition SOLANS_ERROR__AUCTION_HAS_BIDS :: nat where "SOLANS_ERROR__AUCTION_HAS_BIDS = 0x179a"
definition SOLANS_ERROR__SELF_BID :: nat where "SOLANS_ERROR__SELF_BID = 0x179b"
definition SOLANS_ERROR__WRONG_REFUND_ACCOUNT :: nat where "SOLANS_ERROR__WRONG_REFUND_ACCOUNT = 0x179c"
definition SOLANS_ERROR__NAME_EXPIRED :: nat where "SOLANS_ERROR__NAME_EXPIRED = 0x179d"
definition SOLANS_ERROR__AUTO_RENEW_TOO_EARLY :: nat where "SOLANS_ERROR__AUTO_RENEW_TOO_EARLY = 0x179e"

text \<open>\<open>solansErrorMessages\<close>, set when the module is loaded unless \<open>NODE_ENV\<close> is "production".\<close>

definition error_messages :: "(nat \<times> jsstr) list" where
  "error_messages =
     [(SOLANS_ERROR__AUCTION_ACTIVE, js ''Auction is still active''),
      (SOLANS_ERROR__AUCTION_ENDED, js ''Auction has ended''),
      (SOLANS_ERROR__AUCTION_HAS_BIDS, js ''Auction already has bids and cannot be cancelled''),
      (SOLANS_ERROR__AUTO_RENEW_TOO_EARLY, js ''Name is not yet within the auto-renew window''),
      (SOLANS_ERROR__BID_TOO_LOW, js ''Bid is below the reserve or the minimum increment''),
      (SOLANS_ERROR__INSUFFICIENT_BURN_VAULT, js ''Burn vault has insufficient balance for this buyback''),
      (SOLANS_ERROR__INSUFFICIENT_STAKE, js ''Insufficient staked balance''),
      (SOLANS_ERROR__INVALID_DISCOUNT, js ''Discount basis points must be less than 10000''),
      (SOLANS_ERROR__INVALID_FEE_BPS, js ''Marketplace fee exceeds the maximum allowed''),
      (SOLANS_ERROR__INVALID_FEE_SPLIT, js ''Fee-split basis points must sum to less than 10000''),
      (SOLANS_ERROR__INVALID_MINT, js ''Payment mint does not match config''),
      (SOLANS_ERROR__INVALID_NAME_CHARACTER, js ''Name contains invalid characters (allowed: lowercase a-z, 0-9, hyphen)''),
      (SOLANS_ERROR__INVALID_NAME_HYPHEN, js ''Invalid hyphen position (no leading, trailing, or consecutive hyphens)''),
      (SOLANS_ERROR__INVALID_NAME_LENGTH, js ''Name length must be between 1 and 63 characters''),
      (SOLANS_ERROR__INVALID_NFT_MINT, js ''Provided mint is not this name'' @ [39] @ js ''s NFT''),
      (SOLANS_ERROR__INVALID_PRICE, js ''Every registration price tier must be greater than zero''),
      (SOLANS_ERROR__INVALID_TLD, js ''Unsupported TLD''),
      (SOLANS_ERROR__INVALID_TREASURY, js ''Treasury token account does not match config''),
      (SOLANS_ERROR__INVALID_YEARS, js ''Registration term (years) is out of the allowed range''),
      (SOLANS_ERROR__LISTED, js ''Name is listed for sale; cancel the listing first''),
      (SOLANS_ERROR__LISTING_EXPIRED, js ''Listing has expired''),
      (SOLANS_ERROR__MATH_OVERFLOW, js ''Arithmetic overflow''),
      (SOLANS_ERROR__NAME_EXPIRED, js ''Name has expired and does not resolve''),
      (SOLANS_ERROR__NAME_MISMATCH, js ''Provided name does not match the account'' @ [39] @ js ''s name hash''),
      (SOLANS_ERROR__NOT_ADMIN, js ''Signer is not the config admin''),
      (SOLANS_ERROR__NOT_AUTHORIZED, js ''Signer is not the owner or controller of this name''),
      (SOLANS_ERROR__NOT_EXPIRED, js ''Name is not past its expiration + grace period''),
      (SOLANS_ERROR__NOT_LISTED, js ''Name is not listed for sale''),
      (SOLANS_ERROR__NOT_OFFERER, js ''Signer cannot cancel this offer''),
      (SOLANS_ERROR__NOT_OWNER, js ''Signer is not the owner of this name''),
      (SOLANS_ERROR__NOT_PARENT, js ''Account is not a subdomain of the provided parent''),
      (SOLANS_ERROR__NOT_SELLER, js ''Signer is not the seller of this listing''),
      (SOLANS_ERROR__OFFER_EXPIRED, js ''Offer has expired''),
      (SOLANS_ERROR__PARENT_EXPIRED, js ''Parent name has expired''),
      (SOLANS_ERROR__PRICE_MISMATCH, js ''Listing price does not match the expected price''),
      (SOLANS_ERROR__RECORD_NOT_FOUND, js ''Record key not found''),
      (SOLANS_ERROR__RECORD_TOO_LONG, js ''Record key or value exceeds the maximum length''),
      (SOLANS_ERROR__SELF_BID, js ''Seller cannot bid on their own auction''),
      (SOLANS_ERROR__SELF_PURCHASE, js ''Buyer and seller must differ''),
      (SOLANS_ERROR__SOLANS_NOT_CONFIGURED, js ''Pay-in-$SOLANS is not configured (set the mint, rate, and discount)''),
      (SOLANS_ERROR__STAKE_MINT_MISMATCH, js ''Token account mint does not match the staking pool''),
      (SOLANS_ERROR__SUBDOMAIN, js ''Operation is not supported for a subdomain''),
      (SOLANS_ERROR__TOKENIZED, js ''Name is tokenized as an NFT; redeem it first''),
      (SOLANS_ERROR__TOO_DEEP, js ''Subdomain depth exceeds the maximum''),
      (SOLANS_ERROR__TOO_MANY_RECORDS, js ''Record store is full''),
      (SOLANS_ERROR__TRANSFER_LOCKED, js ''Name transfer is locked''),
      (SOLANS_ERROR__WRONG_REFUND_ACCOUNT, js ''Refund account does not belong to the current highest bidder'')]"

definition production :: "jsstr option \<Rightarrow> bool" where
  "production node_env \<longleftrightarrow> node_env = Some (js ''production'')"

definition solansErrorMessages :: "jsstr option \<Rightarrow> (nat \<times> jsstr) list option" where
  "solansErrorMessages node_env = (if production node_env then None else Some error_messages)"

definition undefined_messages :: js_error where
  "undefined_messages = JsError (js ''Cannot read properties of undefined'')"

text \<open>\<open>loaded\<close> is the value of \<open>solansErrorMessages\<close>; a code that is no key gives \<open>undefined\<close>.\<close>

definition getSolansErrorMessage :: "(nat \<times> jsstr) list option \<Rightarrow> jsstr option \<Rightarrow> nat \<Rightarrow> jsstr option res" where
  "getSolansErrorMessage loaded node_env code =
     (if \<not> production node_env then
        (case loaded of None \<Rightarrow> Inl undefined_messages | Some m \<Rightarrow> Inr (map_of m code))
      else Inr (Some (js ''Error message not available in production bundles.'')))"

text \<open>An error value as far as \<open>isProgramError\<close> looks: a custom instruction error with the index of the instruction and
  the code, or another error. \<open>instructions\<close> gives the program address of each instruction of the message.\<close>

datatype client_error = CustomError nat nat | OtherError

type_synonym is_program_error = "client_error \<Rightarrow> (nat \<Rightarrow> address option) \<Rightarrow> address \<Rightarrow> nat option \<Rightarrow> bool"

definition isSolansError ::
  "is_program_error \<Rightarrow> client_error \<Rightarrow> (nat \<Rightarrow> address option) \<Rightarrow> nat option \<Rightarrow> bool" where
  "isSolansError isProgramError error instructions code =
     isProgramError error instructions SOLANS_PROGRAM_ADDRESS code"

text \<open>The documented behaviour of \<open>isProgramError\<close>: a custom error of an instruction of the program, with the code asked
  for when one is.\<close>

definition program_error_ok :: "is_program_error \<Rightarrow> bool" where
  "program_error_ok p \<longleftrightarrow>
     (\<forall>error instructions program code. p error instructions program code \<longleftrightarrow>
        (\<exists>i c. error = CustomError i c \<and> instructions i = Some program \<and> (code = None \<or> code = Some c)))"

definition is_program_error_ref :: is_program_error where
  "is_program_error_ref error instructions program code =
     (case error of
        CustomError i c \<Rightarrow> instructions i = Some program \<and> (code = None \<or> code = Some c)
      | OtherError \<Rightarrow> False)"

lemma is_program_error_ref_ok: "program_error_ok is_program_error_ref"
  by (auto simp: program_error_ok_def is_program_error_ref_def split: client_error.splits)

section \<open>The program's enumeration\<close>

text \<open>The variants in declaration order, and the \<open>#[msg]\<close> of each.\<close>

definition rust_variants :: "solans_error list" where
  "rust_variants =
     [InvalidNameLength, InvalidNameCharacter, InvalidNameHyphen, NameMismatch, InvalidTld, InvalidYears,
      MathOverflow, NotOwner, NotAuthorized, TransferLocked, NotExpired, RecordNotFound,
      TooManyRecords, RecordTooLong, InvalidTreasury, InvalidMint, NotAdmin, Tokenized,
      InvalidNftMint, TooDeep, ParentExpired, NotParent, Subdomain, Listed,
      NotListed, NotSeller, ListingExpired, SelfPurchase, PriceMismatch, InvalidFeeBps,
      OfferExpired, NotOfferer, InvalidFeeSplit, InvalidPrice, InsufficientStake, StakeMintMismatch,
      SolansNotConfigured, InsufficientBurnVault, InvalidDiscount, AuctionEnded, AuctionActive, BidTooLow,
      AuctionHasBids, SelfBid, WrongRefundAccount, NameExpired, AutoRenewTooEarly]"

primrec rust_message :: "solans_error \<Rightarrow> jsstr" where
  "rust_message InvalidNameLength = js ''Name length must be between 1 and 63 characters''"
| "rust_message InvalidNameCharacter = js ''Name contains invalid characters (allowed: lowercase a-z, 0-9, hyphen)''"
| "rust_message InvalidNameHyphen = js ''Invalid hyphen position (no leading, trailing, or consecutive hyphens)''"
| "rust_message NameMismatch = js ''Provided name does not match the account'' @ [39] @ js ''s name hash''"
| "rust_message InvalidTld = js ''Unsupported TLD''"
| "rust_message InvalidYears = js ''Registration term (years) is out of the allowed range''"
| "rust_message MathOverflow = js ''Arithmetic overflow''"
| "rust_message NotOwner = js ''Signer is not the owner of this name''"
| "rust_message NotAuthorized = js ''Signer is not the owner or controller of this name''"
| "rust_message TransferLocked = js ''Name transfer is locked''"
| "rust_message NotExpired = js ''Name is not past its expiration + grace period''"
| "rust_message RecordNotFound = js ''Record key not found''"
| "rust_message TooManyRecords = js ''Record store is full''"
| "rust_message RecordTooLong = js ''Record key or value exceeds the maximum length''"
| "rust_message InvalidTreasury = js ''Treasury token account does not match config''"
| "rust_message InvalidMint = js ''Payment mint does not match config''"
| "rust_message NotAdmin = js ''Signer is not the config admin''"
| "rust_message Tokenized = js ''Name is tokenized as an NFT; redeem it first''"
| "rust_message InvalidNftMint = js ''Provided mint is not this name'' @ [39] @ js ''s NFT''"
| "rust_message TooDeep = js ''Subdomain depth exceeds the maximum''"
| "rust_message ParentExpired = js ''Parent name has expired''"
| "rust_message NotParent = js ''Account is not a subdomain of the provided parent''"
| "rust_message Subdomain = js ''Operation is not supported for a subdomain''"
| "rust_message Listed = js ''Name is listed for sale; cancel the listing first''"
| "rust_message NotListed = js ''Name is not listed for sale''"
| "rust_message NotSeller = js ''Signer is not the seller of this listing''"
| "rust_message ListingExpired = js ''Listing has expired''"
| "rust_message SelfPurchase = js ''Buyer and seller must differ''"
| "rust_message PriceMismatch = js ''Listing price does not match the expected price''"
| "rust_message InvalidFeeBps = js ''Marketplace fee exceeds the maximum allowed''"
| "rust_message OfferExpired = js ''Offer has expired''"
| "rust_message NotOfferer = js ''Signer cannot cancel this offer''"
| "rust_message InvalidFeeSplit = js ''Fee-split basis points must sum to less than 10000''"
| "rust_message InvalidPrice = js ''Every registration price tier must be greater than zero''"
| "rust_message InsufficientStake = js ''Insufficient staked balance''"
| "rust_message StakeMintMismatch = js ''Token account mint does not match the staking pool''"
| "rust_message SolansNotConfigured = js ''Pay-in-$SOLANS is not configured (set the mint, rate, and discount)''"
| "rust_message InsufficientBurnVault = js ''Burn vault has insufficient balance for this buyback''"
| "rust_message InvalidDiscount = js ''Discount basis points must be less than 10000''"
| "rust_message AuctionEnded = js ''Auction has ended''"
| "rust_message AuctionActive = js ''Auction is still active''"
| "rust_message BidTooLow = js ''Bid is below the reserve or the minimum increment''"
| "rust_message AuctionHasBids = js ''Auction already has bids and cannot be cancelled''"
| "rust_message SelfBid = js ''Seller cannot bid on their own auction''"
| "rust_message WrongRefundAccount = js ''Refund account does not belong to the current highest bidder''"
| "rust_message NameExpired = js ''Name has expired and does not resolve''"
| "rust_message AutoRenewTooEarly = js ''Name is not yet within the auto-renew window''"

fun ordinal :: "'a \<Rightarrow> 'a list \<Rightarrow> nat" where
  "ordinal e [] = 0"
| "ordinal e (x # xs) = (if x = e then 0 else Suc (ordinal e xs))"

text \<open>Anchor's \<open>ERROR_CODE_OFFSET\<close> is the argument \<open>offset\<close>.\<close>

definition rust_error_code :: "nat \<Rightarrow> solans_error \<Rightarrow> nat" where
  "rust_error_code offset e = offset + ordinal e rust_variants"

text \<open>The client's constant for a variant.\<close>

primrec client_code :: "solans_error \<Rightarrow> nat" where
  "client_code InvalidNameLength = SOLANS_ERROR__INVALID_NAME_LENGTH"
| "client_code InvalidNameCharacter = SOLANS_ERROR__INVALID_NAME_CHARACTER"
| "client_code InvalidNameHyphen = SOLANS_ERROR__INVALID_NAME_HYPHEN"
| "client_code NameMismatch = SOLANS_ERROR__NAME_MISMATCH"
| "client_code InvalidTld = SOLANS_ERROR__INVALID_TLD"
| "client_code InvalidYears = SOLANS_ERROR__INVALID_YEARS"
| "client_code MathOverflow = SOLANS_ERROR__MATH_OVERFLOW"
| "client_code NotOwner = SOLANS_ERROR__NOT_OWNER"
| "client_code NotAuthorized = SOLANS_ERROR__NOT_AUTHORIZED"
| "client_code TransferLocked = SOLANS_ERROR__TRANSFER_LOCKED"
| "client_code NotExpired = SOLANS_ERROR__NOT_EXPIRED"
| "client_code RecordNotFound = SOLANS_ERROR__RECORD_NOT_FOUND"
| "client_code TooManyRecords = SOLANS_ERROR__TOO_MANY_RECORDS"
| "client_code RecordTooLong = SOLANS_ERROR__RECORD_TOO_LONG"
| "client_code InvalidTreasury = SOLANS_ERROR__INVALID_TREASURY"
| "client_code InvalidMint = SOLANS_ERROR__INVALID_MINT"
| "client_code NotAdmin = SOLANS_ERROR__NOT_ADMIN"
| "client_code Tokenized = SOLANS_ERROR__TOKENIZED"
| "client_code InvalidNftMint = SOLANS_ERROR__INVALID_NFT_MINT"
| "client_code TooDeep = SOLANS_ERROR__TOO_DEEP"
| "client_code ParentExpired = SOLANS_ERROR__PARENT_EXPIRED"
| "client_code NotParent = SOLANS_ERROR__NOT_PARENT"
| "client_code Subdomain = SOLANS_ERROR__SUBDOMAIN"
| "client_code Listed = SOLANS_ERROR__LISTED"
| "client_code NotListed = SOLANS_ERROR__NOT_LISTED"
| "client_code NotSeller = SOLANS_ERROR__NOT_SELLER"
| "client_code ListingExpired = SOLANS_ERROR__LISTING_EXPIRED"
| "client_code SelfPurchase = SOLANS_ERROR__SELF_PURCHASE"
| "client_code PriceMismatch = SOLANS_ERROR__PRICE_MISMATCH"
| "client_code InvalidFeeBps = SOLANS_ERROR__INVALID_FEE_BPS"
| "client_code OfferExpired = SOLANS_ERROR__OFFER_EXPIRED"
| "client_code NotOfferer = SOLANS_ERROR__NOT_OFFERER"
| "client_code InvalidFeeSplit = SOLANS_ERROR__INVALID_FEE_SPLIT"
| "client_code InvalidPrice = SOLANS_ERROR__INVALID_PRICE"
| "client_code InsufficientStake = SOLANS_ERROR__INSUFFICIENT_STAKE"
| "client_code StakeMintMismatch = SOLANS_ERROR__STAKE_MINT_MISMATCH"
| "client_code SolansNotConfigured = SOLANS_ERROR__SOLANS_NOT_CONFIGURED"
| "client_code InsufficientBurnVault = SOLANS_ERROR__INSUFFICIENT_BURN_VAULT"
| "client_code InvalidDiscount = SOLANS_ERROR__INVALID_DISCOUNT"
| "client_code AuctionEnded = SOLANS_ERROR__AUCTION_ENDED"
| "client_code AuctionActive = SOLANS_ERROR__AUCTION_ACTIVE"
| "client_code BidTooLow = SOLANS_ERROR__BID_TOO_LOW"
| "client_code AuctionHasBids = SOLANS_ERROR__AUCTION_HAS_BIDS"
| "client_code SelfBid = SOLANS_ERROR__SELF_BID"
| "client_code WrongRefundAccount = SOLANS_ERROR__WRONG_REFUND_ACCOUNT"
| "client_code NameExpired = SOLANS_ERROR__NAME_EXPIRED"
| "client_code AutoRenewTooEarly = SOLANS_ERROR__AUTO_RENEW_TOO_EARLY"

lemmas error_codes =
  SOLANS_ERROR__INVALID_NAME_LENGTH_def SOLANS_ERROR__INVALID_NAME_CHARACTER_def SOLANS_ERROR__INVALID_NAME_HYPHEN_def
  SOLANS_ERROR__NAME_MISMATCH_def SOLANS_ERROR__INVALID_TLD_def SOLANS_ERROR__INVALID_YEARS_def
  SOLANS_ERROR__MATH_OVERFLOW_def SOLANS_ERROR__NOT_OWNER_def SOLANS_ERROR__NOT_AUTHORIZED_def
  SOLANS_ERROR__TRANSFER_LOCKED_def SOLANS_ERROR__NOT_EXPIRED_def SOLANS_ERROR__RECORD_NOT_FOUND_def
  SOLANS_ERROR__TOO_MANY_RECORDS_def SOLANS_ERROR__RECORD_TOO_LONG_def SOLANS_ERROR__INVALID_TREASURY_def
  SOLANS_ERROR__INVALID_MINT_def SOLANS_ERROR__NOT_ADMIN_def SOLANS_ERROR__TOKENIZED_def
  SOLANS_ERROR__INVALID_NFT_MINT_def SOLANS_ERROR__TOO_DEEP_def SOLANS_ERROR__PARENT_EXPIRED_def
  SOLANS_ERROR__NOT_PARENT_def SOLANS_ERROR__SUBDOMAIN_def SOLANS_ERROR__LISTED_def
  SOLANS_ERROR__NOT_LISTED_def SOLANS_ERROR__NOT_SELLER_def SOLANS_ERROR__LISTING_EXPIRED_def
  SOLANS_ERROR__SELF_PURCHASE_def SOLANS_ERROR__PRICE_MISMATCH_def SOLANS_ERROR__INVALID_FEE_BPS_def
  SOLANS_ERROR__OFFER_EXPIRED_def SOLANS_ERROR__NOT_OFFERER_def SOLANS_ERROR__INVALID_FEE_SPLIT_def
  SOLANS_ERROR__INVALID_PRICE_def SOLANS_ERROR__INSUFFICIENT_STAKE_def SOLANS_ERROR__STAKE_MINT_MISMATCH_def
  SOLANS_ERROR__SOLANS_NOT_CONFIGURED_def SOLANS_ERROR__INSUFFICIENT_BURN_VAULT_def SOLANS_ERROR__INVALID_DISCOUNT_def
  SOLANS_ERROR__AUCTION_ENDED_def SOLANS_ERROR__AUCTION_ACTIVE_def SOLANS_ERROR__BID_TOO_LOW_def
  SOLANS_ERROR__AUCTION_HAS_BIDS_def SOLANS_ERROR__SELF_BID_def SOLANS_ERROR__WRONG_REFUND_ACCOUNT_def
  SOLANS_ERROR__NAME_EXPIRED_def SOLANS_ERROR__AUTO_RENEW_TOO_EARLY_def

lemma client_code_is_rust_code: "rust_error_code 6000 e = client_code e"
  by (cases e) (simp_all add: rust_error_code_def rust_variants_def error_codes)

lemma variants_complete: "e \<in> set rust_variants"
  by (cases e) (simp_all add: rust_variants_def)

lemma ordinal_inj: "ordinal e xs = ordinal e' xs \<Longrightarrow> e \<in> set xs \<Longrightarrow> e = e'"
  by (induction xs) (auto split: if_splits)

lemma client_code_inj: "client_code e = client_code e' \<longleftrightarrow> e = e'"
  using ordinal_inj[OF _ variants_complete]
  by (auto simp: rust_error_code_def simp flip: client_code_is_rust_code)

text \<open>The messages are those of the variants, in the order of the TypeScript names.\<close>

definition ts_order :: "solans_error list" where
  "ts_order =
     [AuctionActive, AuctionEnded, AuctionHasBids, AutoRenewTooEarly, BidTooLow, InsufficientBurnVault,
      InsufficientStake, InvalidDiscount, InvalidFeeBps, InvalidFeeSplit, InvalidMint, InvalidNameCharacter,
      InvalidNameHyphen, InvalidNameLength, InvalidNftMint, InvalidPrice, InvalidTld, InvalidTreasury,
      InvalidYears, Listed, ListingExpired, MathOverflow, NameExpired, NameMismatch,
      NotAdmin, NotAuthorized, NotExpired, NotListed, NotOfferer, NotOwner,
      NotParent, NotSeller, OfferExpired, ParentExpired, PriceMismatch, RecordNotFound,
      RecordTooLong, SelfBid, SelfPurchase, SolansNotConfigured, StakeMintMismatch, Subdomain,
      Tokenized, TooDeep, TooManyRecords, TransferLocked, WrongRefundAccount]"

lemma error_messages_table: "error_messages = map (\<lambda>e. (client_code e, rust_message e)) ts_order"
  by (simp only: error_messages_def ts_order_def list.map client_code.simps rust_message.simps)

lemma ts_order_complete: "e \<in> set ts_order"
  by (cases e) (simp_all add: ts_order_def)

lemma map_of_injective:
  "(\<And>x y. f x = f y \<longleftrightarrow> x = y) \<Longrightarrow> x \<in> set xs \<Longrightarrow> map_of (map (\<lambda>x. (f x, g x)) xs) (f x) = Some (g x)"
  by (induction xs) auto

lemma client_message_is_rust_message: "map_of error_messages (client_code e) = Some (rust_message e)"
  unfolding error_messages_table by (rule map_of_injective[OF client_code_inj ts_order_complete])

section \<open>Properties\<close>

text \<open>C23: An error the program raises in one of its instructions reaches the client as the constant of that variant and of no other, and outside production the message shown for it is the message of the Rust variant; an error of another program's instruction is not taken for one of these.\<close>

theorem program_errors_are_recognised:
  assumes "program_error_ok isProgramError" "instructions i = Some prog" "\<not> production env"
  shows "(isSolansError isProgramError (CustomError i (rust_error_code 6000 e)) instructions (Some (client_code e')) \<longleftrightarrow>
      prog = SOLANS_PROGRAM_ADDRESS \<and> e' = e) \<and>
    (isSolansError isProgramError (CustomError i (rust_error_code 6000 e)) instructions None \<longleftrightarrow>
      prog = SOLANS_PROGRAM_ADDRESS) \<and>
    getSolansErrorMessage (solansErrorMessages env) env (rust_error_code 6000 e) = Inr (Some (rust_message e))"
  using assms client_code_inj
  by (auto simp: isSolansError_def program_error_ok_def client_code_is_rust_code getSolansErrorMessage_def
      solansErrorMessages_def client_message_is_rust_message)

theorem program_errors_are_recognised_witness:
  "isSolansError is_program_error_ref (CustomError 0 (rust_error_code 6000 Listed)) [0 \<mapsto> SOLANS_PROGRAM_ADDRESS]
     (Some SOLANS_ERROR__LISTED) \<and>
   \<not> isSolansError is_program_error_ref (CustomError 0 (rust_error_code 6000 Listed)) [0 \<mapsto> SOLANS_PROGRAM_ADDRESS]
     (Some SOLANS_ERROR__NOT_LISTED) \<and>
   getSolansErrorMessage (solansErrorMessages None) None (rust_error_code 6000 InvalidTld) =
     Inr (Some (js ''Unsupported TLD''))"
proof -
  have p: "\<not> production None" by (simp add: production_def)
  note T = program_errors_are_recognised[OF is_program_error_ref_ok _ p, of "[0 \<mapsto> SOLANS_PROGRAM_ADDRESS]" 0 SOLANS_PROGRAM_ADDRESS]
  show ?thesis using T[of Listed Listed] T[of Listed NotListed] T[of InvalidTld InvalidTld] by (simp del: js_Cons)
qed

end
