(* ===== verification/Index_Store.thy ===== *)
theory Index_Store
  imports Program "HOL-Library.AList"
begin

text \<open>
  \<open>services/indexer/src/store.ts\<close>: the index of names. The interface \<open>IndexStore\<close> is the locale
  \<open>index_store\<close>; \<open>MemoryStore\<close> is the association list its JavaScript \<open>Map\<close> is (insertion order, an
  update in place), and interprets the locale. \<open>applyEvent\<close> takes the two store methods it calls as
  arguments. The abstract index is the map from \<open>name_record\<close> addresses to entries; \<open>applyEvent\<close> refines
  \<open>event_step\<close> on it, for every store that obeys the interface.

  Numbers of the code that hold integers (times, slots, years) are \<open>int\<close>.
\<close>

section \<open>Entries, events\<close>

record nameEntry =
  ne_nameRecord :: address
  ne_fullName :: "jsstr option"
  ne_name :: jsstr
  ne_tld :: "jsstr option"
  ne_owner :: "address option"
  ne_nameHash :: "jsstr option"
  ne_parent :: "address option"
  ne_registeredAt :: "int option"
  ne_expiresAt :: "int option"
  ne_active :: bool
  ne_listed :: "(jsstr \<times> address) option"
  ne_lastSig :: "jsstr option"
  ne_lastSlot :: "int option"

record eventMeta =
  sig :: "jsstr option"
  slot :: "int option"
  ts :: "int option"

text \<open>The tagged union \<open>IndexEvent\<close> of \<open>parse.ts\<close>, fields in its order.\<close>

datatype indexEvent =
    Register (ev_nameRecord: address) (ev_fullName: jsstr) (ev_name: jsstr) (ev_tld: jsstr)
      (ev_owner: address) (ev_nameHash: jsstr) (ev_years: int)
  | Renew (ev_nameRecord: address) (ev_name: jsstr) (ev_tld: jsstr) (ev_years: int)
  | Subdomain_Event (ev_nameRecord: address) (ev_parent: address) (ev_owner: address) (ev_label: jsstr)
      (ev_nameHash: jsstr)
  | Transfer (ev_nameRecord: address) (ev_newOwner: address)
  | Burn (ev_nameRecord: address)
  | List_Event (ev_nameRecord: address) (ev_seller: address) (ev_priceLamports: jsstr)
  | Unlist (ev_nameRecord: address)
  | Buy (ev_nameRecord: address) (ev_newOwner: address)

definition YEAR :: int where "YEAR = 31536000"

section \<open>MemoryStore\<close>

type_synonym memory_store = "(address \<times> nameEntry) list"

definition new_MemoryStore :: memory_store where
  "new_MemoryStore = []"

definition upsert :: "nameEntry \<Rightarrow> memory_store \<Rightarrow> memory_store" where
  "upsert entry byRecord = AList.update (ne_nameRecord entry) entry byRecord"

definition getByRecord :: "memory_store \<Rightarrow> address \<Rightarrow> nameEntry option" where
  "getByRecord byRecord nameRecord = map_of byRecord nameRecord"

definition getByName :: "memory_store \<Rightarrow> jsstr \<Rightarrow> nameEntry option" where
  "getByName byRecord fullName = find (\<lambda>e. ne_fullName e = Some fullName) (map snd byRecord)"

definition byOwner :: "memory_store \<Rightarrow> address \<Rightarrow> nameEntry list" where
  "byOwner byRecord owner = filter (\<lambda>e. ne_owner e = Some owner \<and> ne_active e) (map snd byRecord)"

text \<open>\<open>slice(0, limit)\<close> counts a negative limit from the end.\<close>

definition slice0 :: "int \<Rightarrow> 'a list \<Rightarrow> 'a list" where
  "slice0 n xs = (if 0 \<le> n then take (nat n) xs else take (nat (int (length xs) + n)) xs)"

definition matches_prefix :: "unicode \<Rightarrow> jsstr \<Rightarrow> nameEntry \<Rightarrow> bool" where
  "matches_prefix U p e \<longleftrightarrow>
     ne_active e \<and>
     ((case ne_fullName e of None \<Rightarrow> False | Some f \<Rightarrow> startsWith (lower U f) p) \<or>
      startsWith (lower U (ne_name e)) p)"

definition search :: "unicode \<Rightarrow> memory_store \<Rightarrow> jsstr \<Rightarrow> int \<Rightarrow> nameEntry list" where
  "search U byRecord pre limit =
     slice0 limit (filter (matches_prefix U (lower U pre)) (map snd byRecord))"

definition watchlist :: "memory_store \<Rightarrow> jsstr list" where
  "watchlist byRecord =
     map (\<lambda>e. the (ne_fullName e)) (filter (\<lambda>e. ne_active e \<and> truthy_str (ne_fullName e)) (map snd byRecord))"

definition listings :: "memory_store \<Rightarrow> nameEntry list" where
  "listings byRecord = filter (\<lambda>e. ne_active e \<and> ne_listed e \<noteq> None) (map snd byRecord)"

definition all_entries :: "memory_store \<Rightarrow> nameEntry list" where
  "all_entries byRecord = map snd byRecord"

section \<open>applyEvent\<close>

definition touch :: "eventMeta \<Rightarrow> nameEntry \<Rightarrow> nameEntry" where
  "touch m e = e\<lparr>ne_lastSig := sig m, ne_lastSlot := slot m\<rparr>"

definition register_entry :: "indexEvent \<Rightarrow> eventMeta \<Rightarrow> nameEntry" where
  "register_entry ev m =
     \<lparr>ne_nameRecord = ev_nameRecord ev, ne_fullName = Some (ev_fullName ev), ne_name = ev_name ev,
      ne_tld = Some (ev_tld ev), ne_owner = Some (ev_owner ev), ne_nameHash = Some (ev_nameHash ev),
      ne_parent = None, ne_registeredAt = ts m,
      ne_expiresAt = (case ts m of None \<Rightarrow> None | Some t \<Rightarrow> Some (t + ev_years ev * YEAR)),
      ne_active = True, ne_listed = None, ne_lastSig = sig m, ne_lastSlot = slot m\<rparr>"

definition renew_base :: "nameEntry option \<Rightarrow> eventMeta \<Rightarrow> int" where
  "renew_base e m =
     (case (case e of None \<Rightarrow> None | Some x \<Rightarrow> ne_expiresAt x) of
        Some t \<Rightarrow> t
      | None \<Rightarrow> (case ts m of Some t \<Rightarrow> t | None \<Rightarrow> 0))"

definition renew_entry :: "indexEvent \<Rightarrow> eventMeta \<Rightarrow> nameEntry option \<Rightarrow> nameEntry" where
  "renew_entry ev m e =
     touch m ((case e of
        Some x \<Rightarrow> x
      | None \<Rightarrow> \<lparr>ne_nameRecord = ev_nameRecord ev, ne_fullName = Some (ev_name ev @ js ''.'' @ ev_tld ev),
          ne_name = ev_name ev, ne_tld = Some (ev_tld ev), ne_owner = None, ne_nameHash = None,
          ne_parent = None, ne_registeredAt = None, ne_expiresAt = None, ne_active = True, ne_listed = None,
          ne_lastSig = None, ne_lastSlot = None\<rparr>)\<lparr>ne_expiresAt := Some (renew_base e m + ev_years ev * YEAR)\<rparr>)"

definition subdomain_entry :: "indexEvent \<Rightarrow> eventMeta \<Rightarrow> nameEntry option \<Rightarrow> nameEntry" where
  "subdomain_entry ev m parent =
     \<lparr>ne_nameRecord = ev_nameRecord ev,
      ne_fullName = (case parent of
         Some p \<Rightarrow> if truthy_str (ne_fullName p) then Some (ev_label ev @ js ''.'' @ the (ne_fullName p)) else None
       | None \<Rightarrow> None),
      ne_name = ev_label ev,
      ne_tld = (case parent of Some p \<Rightarrow> ne_tld p | None \<Rightarrow> None),
      ne_owner = Some (ev_owner ev), ne_nameHash = Some (ev_nameHash ev), ne_parent = Some (ev_parent ev),
      ne_registeredAt = ts m, ne_expiresAt = None, ne_active = True, ne_listed = None,
      ne_lastSig = sig m, ne_lastSlot = slot m\<rparr>"

fun applyEvent ::
  "(nameEntry \<Rightarrow> 's \<Rightarrow> 's) \<Rightarrow> ('s \<Rightarrow> address \<Rightarrow> nameEntry option) \<Rightarrow> indexEvent \<Rightarrow> eventMeta \<Rightarrow> 's \<Rightarrow> 's" where
  "applyEvent ups getr (Register nr fn n t own h y) m store =
     ups (register_entry (Register nr fn n t own h y) m) store"
| "applyEvent ups getr (Renew nr n t y) m store =
     ups (renew_entry (Renew nr n t y) m (getr store nr)) store"
| "applyEvent ups getr (Subdomain_Event nr par own l h) m store =
     ups (subdomain_entry (Subdomain_Event nr par own l h) m (getr store par)) store"
| "applyEvent ups getr (Transfer nr new) m store =
     (case getr store nr of Some e \<Rightarrow> ups (touch m (e\<lparr>ne_owner := Some new\<rparr>)) store | None \<Rightarrow> store)"
| "applyEvent ups getr (Burn nr) m store =
     (case getr store nr of Some e \<Rightarrow> ups (touch m (e\<lparr>ne_active := False\<rparr>)) store | None \<Rightarrow> store)"
| "applyEvent ups getr (List_Event nr seller price) m store =
     (case getr store nr of
        Some e \<Rightarrow> ups (touch m (e\<lparr>ne_listed := Some (price, seller)\<rparr>)) store | None \<Rightarrow> store)"
| "applyEvent ups getr (Unlist nr) m store =
     (case getr store nr of Some e \<Rightarrow> ups (touch m (e\<lparr>ne_listed := None\<rparr>)) store | None \<Rightarrow> store)"
| "applyEvent ups getr (Buy nr new) m store =
     (case getr store nr of
        Some e \<Rightarrow> ups (touch m (e\<lparr>ne_owner := Some new, ne_listed := None\<rparr>)) store | None \<Rightarrow> store)"

section \<open>The interface\<close>

text \<open>What a backend promises: \<open>ok\<close> is the invariant of its states, \<open>getr\<close> reads back the last upsert of a
  key, and the queries list the stored entries.\<close>

locale index_store =
  fixes ups :: "nameEntry \<Rightarrow> 's \<Rightarrow> 's"
    and getr :: "'s \<Rightarrow> address \<Rightarrow> nameEntry option"
    and entries :: "'s \<Rightarrow> nameEntry list"
    and getn :: "'s \<Rightarrow> jsstr \<Rightarrow> nameEntry option"
    and owned :: "'s \<Rightarrow> address \<Rightarrow> nameEntry list"
    and watch :: "'s \<Rightarrow> jsstr list"
    and listed :: "'s \<Rightarrow> nameEntry list"
    and ok :: "'s \<Rightarrow> bool"
    and empty :: 's
  assumes ok_empty: "ok empty"
    and ok_upsert: "ok s \<Longrightarrow> ok (ups e s)"
    and get_empty: "getr empty a = None"
    and get_upsert: "ok s \<Longrightarrow> getr (ups e s) a = (if a = ne_nameRecord e then Some e else getr s a)"
    and entries_get: "ok s \<Longrightarrow> e \<in> set (entries s) \<longleftrightarrow> (\<exists>a. getr s a = Some e)"
    and getn_some: "ok s \<Longrightarrow> getn s n = Some e \<Longrightarrow> ne_fullName e = Some n \<and> e \<in> set (entries s)"
    and getn_none: "ok s \<Longrightarrow> getn s n = None \<Longrightarrow> e \<in> set (entries s) \<Longrightarrow> ne_fullName e \<noteq> Some n"
    and owned_def: "ok s \<Longrightarrow> e \<in> set (owned s own) \<longleftrightarrow> e \<in> set (entries s) \<and> ne_active e \<and> ne_owner e = Some own"
    and watch_def: "ok s \<Longrightarrow> n \<in> set (watch s) \<longleftrightarrow>
      (\<exists>e \<in> set (entries s). ne_active e \<and> ne_fullName e = Some n \<and> n \<noteq> [])"
    and listed_def: "ok s \<Longrightarrow> e \<in> set (listed s) \<longleftrightarrow> e \<in> set (entries s) \<and> ne_active e \<and> ne_listed e \<noteq> None"

section \<open>The abstract index\<close>

type_synonym index = "address \<Rightarrow> nameEntry option"

definition change :: "address \<Rightarrow> (nameEntry \<Rightarrow> nameEntry) \<Rightarrow> index \<Rightarrow> index" where
  "change a f I = (case I a of None \<Rightarrow> I | Some e \<Rightarrow> I(a \<mapsto> f e))"

fun event_step :: "indexEvent \<Rightarrow> eventMeta \<Rightarrow> index \<Rightarrow> index" where
  "event_step (Register nr fn n t own h y) m I = I(nr \<mapsto> register_entry (Register nr fn n t own h y) m)"
| "event_step (Renew nr n t y) m I = I(nr \<mapsto> renew_entry (Renew nr n t y) m (I nr))"
| "event_step (Subdomain_Event nr par own l h) m I =
     I(nr \<mapsto> subdomain_entry (Subdomain_Event nr par own l h) m (I par))"
| "event_step (Transfer nr new) m I = change nr (\<lambda>e. touch m (e\<lparr>ne_owner := Some new\<rparr>)) I"
| "event_step (Burn nr) m I = change nr (\<lambda>e. touch m (e\<lparr>ne_active := False\<rparr>)) I"
| "event_step (List_Event nr seller price) m I =
     change nr (\<lambda>e. touch m (e\<lparr>ne_listed := Some (price, seller)\<rparr>)) I"
| "event_step (Unlist nr) m I = change nr (\<lambda>e. touch m (e\<lparr>ne_listed := None\<rparr>)) I"
| "event_step (Buy nr new) m I = change nr (\<lambda>e. touch m (e\<lparr>ne_owner := Some new, ne_listed := None\<rparr>)) I"

definition keyed :: "index \<Rightarrow> bool" where
  "keyed I \<longleftrightarrow> (\<forall>a e. I a = Some e \<longrightarrow> ne_nameRecord e = a)"

section \<open>Facts about the abstract index\<close>

lemma touch_key [simp]: "ne_nameRecord (touch m e) = ne_nameRecord e"
  by (simp add: touch_def)

lemma register_entry_key [simp]: "ne_nameRecord (register_entry ev m) = ev_nameRecord ev"
  by (simp add: register_entry_def)

lemma subdomain_entry_key [simp]: "ne_nameRecord (subdomain_entry ev m p) = ev_nameRecord ev"
  by (simp add: subdomain_entry_def)

lemma renew_entry_key: "(\<And>x. e = Some x \<Longrightarrow> ne_nameRecord x = ev_nameRecord ev) \<Longrightarrow>
    ne_nameRecord (renew_entry ev m e) = ev_nameRecord ev"
  by (cases e) (simp_all add: renew_entry_def)

lemma event_step_keyed: "keyed I \<Longrightarrow> keyed (event_step ev m I)"
  by (cases ev) (auto simp: keyed_def change_def renew_entry_key split: option.splits)

lemma event_step_other: "a \<noteq> ev_nameRecord ev \<Longrightarrow> event_step ev m I a = I a"
  by (cases ev) (auto simp: change_def split: option.splits)

text \<open>Replaying an event has no effect, except for a renewal (and a subdomain that names itself as its
  parent).\<close>

lemma event_step_idem:
  assumes "\<And>nr n t y. ev \<noteq> Renew nr n t y" "\<And>nr own l h. ev \<noteq> Subdomain_Event nr nr own l h"
  shows "event_step ev m (event_step ev m I) = event_step ev m I"
proof (cases ev)
  case (Subdomain_Event nr par own l h)
  with assms(2) have "par \<noteq> nr" by auto
  with Subdomain_Event show ?thesis by simp
qed (use assms(1) in \<open>auto simp: change_def touch_def split: option.splits\<close>)

section \<open>Clients of the interface\<close>

context index_store
begin

lemma index_upsert: "ok s \<Longrightarrow> getr (ups e s) = (getr s)(ne_nameRecord e \<mapsto> e)"
  by (rule ext) (simp add: get_upsert)

lemma apply_refines:
  assumes "ok s" "keyed (getr s)"
  shows "ok (applyEvent ups getr ev m s) \<and> getr (applyEvent ups getr ev m s) = event_step ev m (getr s)"
  using assms
  by (cases ev)
     (auto simp: index_upsert ok_upsert change_def keyed_def renew_entry_key split: option.splits)

lemma fold_refines:
  assumes "ok s" "keyed (getr s)"
  shows "ok (fold (\<lambda>(ev, m). applyEvent ups getr ev m) evs s) \<and>
    getr (fold (\<lambda>(ev, m). applyEvent ups getr ev m) evs s) = fold (\<lambda>(ev, m). event_step ev m) evs (getr s) \<and>
    keyed (getr (fold (\<lambda>(ev, m). applyEvent ups getr ev m) evs s))"
  using assms
proof (induction evs arbitrary: s)
  case (Cons em evs)
  obtain ev m where em: "em = (ev, m)" by (cases em)
  have "ok (applyEvent ups getr ev m s)" "keyed (getr (applyEvent ups getr ev m s))"
    using apply_refines[OF Cons.prems] event_step_keyed[OF Cons.prems(2)] by simp_all
  from Cons.IH[OF this] show ?case using apply_refines[OF Cons.prems] by (auto simp: em)
qed simp

lemma burned_unlisted:
  assumes "ok s" "keyed (getr s)" "e \<in> set (entries (applyEvent ups getr (Burn nr) m s))" "ne_nameRecord e = nr"
  shows "\<not> ne_active e"
proof -
  let ?t = "applyEvent ups getr (Burn nr) m s"
  have t: "ok ?t" "getr ?t = event_step (Burn nr) m (getr s)" using apply_refines[OF assms(1,2)] by blast+
  then obtain a where a: "getr ?t a = Some e" using entries_get assms(3) by blast
  have "keyed (getr ?t)" using t(2) event_step_keyed[OF assms(2)] by metis
  then have "a = nr" using a assms(4) by (auto simp: keyed_def)
  with a t(2) show ?thesis by (auto simp: change_def touch_def split: option.splits)
qed

end

section \<open>MemoryStore implements the interface\<close>

lemma map_of_entries:
  "distinct (map fst al) \<Longrightarrow> e \<in> snd ` set al \<longleftrightarrow> (\<exists>a. map_of al a = Some e)"
  by (force simp: map_of_eq_Some_iff)

interpretation memory: index_store upsert getByRecord all_entries getByName byOwner watchlist listings
  "\<lambda>s. distinct (map fst s)" new_MemoryStore
proof unfold_locales
  fix s e a
  show "distinct (map fst s) \<Longrightarrow> distinct (map fst (upsert e s))"
    unfolding upsert_def by (rule distinct_update)
  show "distinct (map fst s) \<Longrightarrow>
    getByRecord (upsert e s) a = (if a = ne_nameRecord e then Some e else getByRecord s a)"
    by (simp add: upsert_def getByRecord_def update_conv')
  show "distinct (map fst s) \<Longrightarrow> (e \<in> set (all_entries s)) = (\<exists>a. getByRecord s a = Some e)"
    by (simp add: all_entries_def getByRecord_def map_of_entries)
next
  fix s :: memory_store and n e
  show "getByName s n = Some e \<Longrightarrow> ne_fullName e = Some n \<and> e \<in> set (all_entries s)"
    unfolding getByName_def all_entries_def by (drule find_Some) simp
  show "getByName s n = None \<Longrightarrow> e \<in> set (all_entries s) \<Longrightarrow> ne_fullName e \<noteq> Some n"
    unfolding getByName_def all_entries_def by (rule find_None_all)
  show "(n \<in> set (watchlist s)) = (\<exists>e \<in> set (all_entries s). ne_active e \<and> ne_fullName e = Some n \<and> n \<noteq> [])"
    unfolding watchlist_def all_entries_def truthy_str_def by (auto simp: image_iff)
qed (auto simp: new_MemoryStore_def getByRecord_def byOwner_def listings_def all_entries_def)

text \<open>The store after a sequence of events, as the indexer builds it.\<close>

lemma built_index:
  "distinct (map fst (fold (\<lambda>(ev, m). applyEvent upsert getByRecord ev m) evs new_MemoryStore)) \<and>
   getByRecord (fold (\<lambda>(ev, m). applyEvent upsert getByRecord ev m) evs new_MemoryStore) =
     fold (\<lambda>(ev, m). event_step ev m) evs (\<lambda>_. None) \<and>
   keyed (getByRecord (fold (\<lambda>(ev, m). applyEvent upsert getByRecord ev m) evs new_MemoryStore))"
proof -
  have e: "getByRecord new_MemoryStore = (\<lambda>_. None)" by (rule ext) (rule memory.get_empty)
  then have "keyed (getByRecord new_MemoryStore)" by (simp add: keyed_def)
  from memory.fold_refines[OF memory.ok_empty this, of evs] show ?thesis unfolding e by blast
qed

text \<open>After a burn event the burned record is in no owner query, listing query or prefix search.\<close>

lemma burned_name_leaves_queries:
  "let s = applyEvent upsert getByRecord (Burn nr) m
     (fold (\<lambda>(ev, m). applyEvent upsert getByRecord ev m) evs new_MemoryStore)
   in nr \<notin> ne_nameRecord ` set (byOwner s own) \<and> nr \<notin> ne_nameRecord ` set (listings s) \<and>
    nr \<notin> ne_nameRecord ` set (search U s pre limit)"
proof -
  define s where s_def: "s = applyEvent upsert getByRecord (Burn nr) m
    (fold (\<lambda>(ev, m). applyEvent upsert getByRecord ev m) evs new_MemoryStore)"
  note B = built_index[of evs]
  have b: "\<not> ne_active e" if "e \<in> set (all_entries s)" "ne_nameRecord e = nr" for e
    by (rule memory.burned_unlisted[OF conjunct1[OF B] conjunct2[OF conjunct2[OF B]] that[unfolded s_def]])
  have "e \<in> set (all_entries s) \<and> ne_active e" if "e \<in> set (search U s pre limit)" for e
    using that by (auto simp: search_def slice0_def matches_prefix_def all_entries_def split: if_splits dest: in_set_takeD)
  moreover have "e \<in> set (all_entries s) \<and> ne_active e" if "e \<in> set (byOwner s own) \<or> e \<in> set (listings s)" for e
    using that by (auto simp: byOwner_def listings_def all_entries_def)
  ultimately show ?thesis using b unfolding Let_def s_def[symmetric] by blast
qed

text \<open>Applying an event that was just applied again changes nothing, unless it is a renewal or a subdomain that names itself as its parent.\<close>

lemma redelivered_event_has_no_effect:
  assumes "\<And>nr n t y. ev \<noteq> Renew nr n t y" "\<And>nr own l h. ev \<noteq> Subdomain_Event nr nr own l h"
  shows "getByRecord (fold (\<lambda>(ev, m). applyEvent upsert getByRecord ev m) (evs @ [(ev, m), (ev, m)]) new_MemoryStore) =
    getByRecord (fold (\<lambda>(ev, m). applyEvent upsert getByRecord ev m) (evs @ [(ev, m)]) new_MemoryStore)"
  using built_index[of "evs @ [(ev, m), (ev, m)]"] built_index[of "evs @ [(ev, m)]"]
    event_step_idem[OF assms(1,2)] by simp

section \<open>Properties\<close>

text \<open>C27: After any sequence of events the memory store holds exactly the entries of the abstract index that the same events build, its keys are unique, and its owner, listing and watchlist queries list exactly the active entries with that owner, a listing, a full name.\<close>

theorem memory_index_refines_events:
  "let s = fold (\<lambda>(ev, m). applyEvent upsert getByRecord ev m) evs new_MemoryStore;
       I = fold (\<lambda>(ev, m). event_step ev m) evs (\<lambda>_. None)
   in distinct (map fst s) \<and> getByRecord s = I \<and>
      set (byOwner s own) = {e \<in> ran I. ne_active e \<and> ne_owner e = Some own} \<and>
      set (listings s) = {e \<in> ran I. ne_active e \<and> ne_listed e \<noteq> None} \<and>
      set (watchlist s) = {n. n \<noteq> [] \<and> (\<exists>e \<in> ran I. ne_active e \<and> ne_fullName e = Some n)}"
proof -
  define s where s_def: "s = fold (\<lambda>(ev, m). applyEvent upsert getByRecord ev m) evs new_MemoryStore"
  define I where I_def: "I = fold (\<lambda>(ev, m). event_step ev m) evs (\<lambda>_. None)"
  have s: "distinct (map fst s)" "getByRecord s = I"
    using built_index[of evs] by (simp_all add: s_def I_def)
  have r: "e \<in> set (all_entries s) \<longleftrightarrow> e \<in> ran I" for e
    using memory.entries_get[OF s(1)] by (simp add: s(2) ran_def)
  have "set (byOwner s own) = {e \<in> ran I. ne_active e \<and> ne_owner e = Some own}"
    using memory.owned_def[OF s(1)] unfolding r by blast
  moreover have "set (listings s) = {e \<in> ran I. ne_active e \<and> ne_listed e \<noteq> None}"
    using memory.listed_def[OF s(1)] unfolding r by blast
  moreover have "set (all_entries s) = ran I" using r by blast
  then have "set (watchlist s) = {n. n \<noteq> [] \<and> (\<exists>e \<in> ran I. ne_active e \<and> ne_fullName e = Some n)}"
    using memory.watch_def[OF s(1)] by auto
  ultimately show ?thesis using s unfolding Let_def s_def[symmetric] I_def[symmetric] by blast
qed

text \<open>C28: A renewal of an indexed name adds the years to the stored expiry: that is the expiry the program writes, less the time by which the name was already expired when it was renewed.\<close>

theorem index_expiry_against_program:
  assumes "getByRecord s nr = Some e" "ne_nameRecord e = nr" "ne_expiresAt e = Some x" "ts m = Some now"
    "renewed_expiry x now y = Inr onchain"
  shows "\<exists>e'. getByRecord (applyEvent upsert getByRecord (Renew nr n t y) m s) nr = Some e' \<and>
    ne_expiresAt e' = Some (onchain - max 0 (now - x))"
proof -
  have "onchain = max x now + y * YEAR"
    using assms(5) by (auto simp: renewed_expiry_def years_to_secs_def res_simps SECONDS_PER_YEAR_def YEAR_def)
  then show ?thesis using assms(1-4)
    by (simp add: upsert_def getByRecord_def update_conv' renew_entry_def renew_base_def touch_def max_def)
qed

theorem index_expiry_against_program_witness:
  "\<exists>s m e'. getByRecord (applyEvent upsert getByRecord (Renew [1] [2] [3] 1) m s) [1] = Some e' \<and>
     renewed_expiry 31536000 41536000 1 = Inr 73072000 \<and> ne_expiresAt e' = Some (73072000 - 10000000)"
proof -
  let ?start = "\<lparr>sig = None, slot = None, ts = Some 0\<rparr>" and ?later = "\<lparr>sig = None, slot = None, ts = Some 41536000\<rparr>"
  let ?s = "applyEvent upsert getByRecord (Register [1] [2, 46, 3] [2] [3] [4] [5] 1) ?start new_MemoryStore"
  let ?e = "register_entry (Register [1] [2, 46, 3] [2] [3] [4] [5] 1) ?start"
  have r: "renewed_expiry 31536000 41536000 1 = Inr 73072000"
    by (simp add: renewed_expiry_def years_to_secs_def SECONDS_PER_YEAR_def checked_i64_def i64_def)
  have e: "getByRecord ?s [1] = Some ?e"
    by (simp add: upsert_def getByRecord_def new_MemoryStore_def)
  have x1: "ne_nameRecord ?e = [1]"
    by (simp add: register_entry_def)
  have x2: "ne_expiresAt ?e = Some 31536000"
    by (simp add: register_entry_def YEAR_def)
  have x3: "ts ?later = Some 41536000"
    by simp
  from index_expiry_against_program[OF e x1 x2 x3 r, of "[2]" "[3]"] r show ?thesis by auto
qed

end
