(* ===== verification/Metrics.thy ===== *)
theory Metrics
  imports Prelude Complex_Main "HOL-Library.AList" "HOL-Library.List_Lexorder" "HOL-Library.Multiset"
begin

text \<open>
  \<open>services/observability/src/index.ts\<close>: counters, gauges, histograms and the registry that renders
  them. A JavaScript \<open>Map\<close> is an association list in insertion order; a metric object that the registry
  and a service share is an entry of the registry's list, and the service's reference to it is its
  name, which the registry keeps unique. Numbers are exact rationals: the rounding of doubles is not
  modelled, and their text is the parameter \<open>num_str\<close>. Keys are sorted by code points; on the
  label names of the code this is the order of \<open>Array.prototype.sort\<close>.
\<close>

section \<open>Labels\<close>

type_synonym labels = "(jsstr \<times> jsstr) list"

definition CONTENT_TYPE :: jsstr where
  "CONTENT_TYPE = js ''text/plain; version=0.0.4; charset=utf-8''"

definition DEFAULT_BUCKETS :: "rat list" where
  "DEFAULT_BUCKETS = [5/1000, 1/100, 25/1000, 5/100, 1/10, 25/100, 5/10, 1, 25/10, 5, 10]"

definition sorted_labels :: "labels \<Rightarrow> labels" where
  "sorted_labels ls = sort_key fst ls"

text \<open>The source separates a key from its value by U+0000 and the pairs by U+0001.\<close>

definition seriesKey :: "labels \<Rightarrow> jsstr" where
  "seriesKey ls = join [1] (map (\<lambda>(k, v). k @ [0] @ v) (sorted_labels ls))"

definition replace_char :: "nat \<Rightarrow> jsstr \<Rightarrow> jsstr \<Rightarrow> jsstr" where
  "replace_char c r s = concat (map (\<lambda>x. if x = c then r else [x]) s)"

text \<open>Backslash is 92, newline 10, \<open>n\<close> 110, the quotation mark 34.\<close>

definition escapeLabelValue :: "jsstr \<Rightarrow> jsstr" where
  "escapeLabelValue v = replace_char 34 [92, 34] (replace_char 10 [92, 110] (replace_char 92 [92, 92] v))"

definition renderLabels :: "labels \<Rightarrow> jsstr" where
  "renderLabels ls =
     (if ls = [] then []
      else [123] @ join (js '','') (map (\<lambda>(k, v). k @ [61, 34] @ escapeLabelValue v @ [34]) (sorted_labels ls)) @ [125])"

section \<open>Scalar metrics\<close>

datatype scalar_type = Counter | Gauge

record scalar_metric =
  sm_type :: scalar_type
  sm_name :: jsstr
  sm_help :: jsstr
  sm_series :: "(jsstr \<times> labels \<times> rat) list"

definition new_scalar :: "scalar_type \<Rightarrow> jsstr \<Rightarrow> jsstr \<Rightarrow> scalar_metric" where
  "new_scalar t name help = \<lparr>sm_type = t, sm_name = name, sm_help = help, sm_series = []\<rparr>"

definition scalar_slot :: "scalar_metric \<Rightarrow> labels \<Rightarrow> labels \<times> rat" where
  "scalar_slot m ls = (case map_of (sm_series m) (seriesKey ls) of Some s \<Rightarrow> s | None \<Rightarrow> (ls, 0))"

definition with_slot :: "scalar_metric \<Rightarrow> labels \<Rightarrow> (rat \<Rightarrow> rat) \<Rightarrow> scalar_metric" where
  "with_slot m ls f =
     (case scalar_slot m ls of (ls', v) \<Rightarrow>
        m\<lparr>sm_series := AList.update (seriesKey ls) (ls', f v) (sm_series m)\<rparr>)"

definition counter_error :: js_error where
  "counter_error = JsError (js ''counter increments must be >= 0'')"

definition counter_inc :: "rat \<Rightarrow> labels \<Rightarrow> scalar_metric \<Rightarrow> scalar_metric res" where
  "counter_inc value ls m = (if value < 0 then Inl counter_error else Inr (with_slot m ls (\<lambda>v. v + value)))"

definition gauge_set :: "rat \<Rightarrow> labels \<Rightarrow> scalar_metric \<Rightarrow> scalar_metric" where
  "gauge_set value ls m = with_slot m ls (\<lambda>v. value)"

definition gauge_inc :: "rat \<Rightarrow> labels \<Rightarrow> scalar_metric \<Rightarrow> scalar_metric" where
  "gauge_inc value ls m = with_slot m ls (\<lambda>v. v + value)"

definition gauge_dec :: "rat \<Rightarrow> labels \<Rightarrow> scalar_metric \<Rightarrow> scalar_metric" where
  "gauge_dec value ls m = with_slot m ls (\<lambda>v. v - value)"

definition metric_header :: "jsstr \<Rightarrow> jsstr \<Rightarrow> jsstr \<Rightarrow> jsstr list" where
  "metric_header name help t =
     [js ''# HELP '' @ name @ js '' '' @ help, js ''# TYPE '' @ name @ js '' '' @ t]"

definition scalar_expose :: "(rat \<Rightarrow> jsstr) \<Rightarrow> scalar_metric \<Rightarrow> jsstr" where
  "scalar_expose num_str m =
     join [10] (metric_header (sm_name m) (sm_help m)
                  (case sm_type m of Counter \<Rightarrow> js ''counter'' | Gauge \<Rightarrow> js ''gauge'') @
       map (\<lambda>(k, ls, v). sm_name m @ renderLabels ls @ js '' '' @ num_str v) (sm_series m))"

section \<open>Histograms\<close>

record hist_series =
  hs_labels :: labels
  hs_counts :: "nat list"
  hs_sum :: rat
  hs_count :: nat

record histogram =
  hm_name :: jsstr
  hm_help :: jsstr
  hm_buckets :: "rat list"
  hm_series :: "(jsstr \<times> hist_series) list"

definition new_histogram :: "jsstr \<Rightarrow> jsstr \<Rightarrow> rat list \<Rightarrow> histogram" where
  "new_histogram name help buckets = \<lparr>hm_name = name, hm_help = help, hm_buckets = sort buckets, hm_series = []\<rparr>"

text \<open>The loop \<open>for (i ..) if (value <= buckets[i]) counts[i] += 1\<close>.\<close>

fun bump_counts :: "rat \<Rightarrow> rat list \<Rightarrow> nat list \<Rightarrow> nat list" where
  "bump_counts value (b # bs) (c # cs) = (if value \<le> b then c + 1 else c) # bump_counts value bs cs"
| "bump_counts value bs cs = cs"

definition hist_slot :: "histogram \<Rightarrow> labels \<Rightarrow> hist_series" where
  "hist_slot h ls =
     (case map_of (hm_series h) (seriesKey ls) of
        Some s \<Rightarrow> s
      | None \<Rightarrow> \<lparr>hs_labels = ls, hs_counts = replicate (length (hm_buckets h)) 0, hs_sum = 0, hs_count = 0\<rparr>)"

definition observe :: "rat \<Rightarrow> labels \<Rightarrow> histogram \<Rightarrow> histogram" where
  "observe value ls h =
     (let s = hist_slot h ls;
          s = s\<lparr>hs_sum := hs_sum s + value, hs_count := hs_count s + 1,
               hs_counts := bump_counts value (hm_buckets h) (hs_counts s)\<rparr>
      in h\<lparr>hm_series := AList.update (seriesKey ls) s (hm_series h)\<rparr>)"

text \<open>\<open>{ ...s.labels, le: b }\<close>: the \<open>le\<close> label is set, in place when the labels have one.\<close>

definition with_le :: "labels \<Rightarrow> jsstr \<Rightarrow> labels" where
  "with_le ls v = AList.update (js ''le'') v ls"

definition hist_expose :: "(rat \<Rightarrow> jsstr) \<Rightarrow> histogram \<Rightarrow> jsstr" where
  "hist_expose num_str h =
     join [10] (metric_header (hm_name h) (hm_help h) (js ''histogram'') @
       concat (map (\<lambda>(k, s).
         map (\<lambda>(b, c). hm_name h @ js ''_bucket'' @ renderLabels (with_le (hs_labels s) (num_str b)) @ js '' '' @
                       dec_digits c) (zip (hm_buckets h) (hs_counts s)) @
         [hm_name h @ js ''_bucket'' @ renderLabels (with_le (hs_labels s) (js ''+Inf'')) @ js '' '' @ dec_digits (hs_count s),
          hm_name h @ js ''_sum'' @ renderLabels (hs_labels s) @ js '' '' @ num_str (hs_sum s),
          hm_name h @ js ''_count'' @ renderLabels (hs_labels s) @ js '' '' @ dec_digits (hs_count s)]) (hm_series h)))"

section \<open>The registry\<close>

datatype metric = Scalar scalar_metric | Hist histogram

fun metric_name :: "metric \<Rightarrow> jsstr" where
  "metric_name (Scalar m) = sm_name m"
| "metric_name (Hist h) = hm_name h"

fun metric_expose :: "(rat \<Rightarrow> jsstr) \<Rightarrow> metric \<Rightarrow> jsstr" where
  "metric_expose num_str (Scalar m) = scalar_expose num_str m"
| "metric_expose num_str (Hist h) = hist_expose num_str h"

type_synonym registry = "metric list"

definition duplicate_error :: "jsstr \<Rightarrow> js_error" where
  "duplicate_error name = JsError (js ''metric already registered: '' @ name)"

definition register :: "metric \<Rightarrow> registry \<Rightarrow> registry res" where
  "register m r =
     (if list_ex (\<lambda>x. metric_name x = metric_name m) r then Inl (duplicate_error (metric_name m))
      else Inr (r @ [m]))"

definition reg_counter :: "jsstr \<Rightarrow> jsstr \<Rightarrow> registry \<Rightarrow> registry res" where
  "reg_counter name help = register (Scalar (new_scalar Counter name help))"

definition reg_gauge :: "jsstr \<Rightarrow> jsstr \<Rightarrow> registry \<Rightarrow> registry res" where
  "reg_gauge name help = register (Scalar (new_scalar Gauge name help))"

definition reg_histogram :: "jsstr \<Rightarrow> jsstr \<Rightarrow> rat list \<Rightarrow> registry \<Rightarrow> registry res" where
  "reg_histogram name help buckets = register (Hist (new_histogram name help buckets))"

definition registry_expose :: "(rat \<Rightarrow> jsstr) \<Rightarrow> registry \<Rightarrow> jsstr" where
  "registry_expose num_str r = join [10, 10] (map (metric_expose num_str) r) @ [10]"

text \<open>Updates through a service's reference to a registered metric.\<close>

fun inc_named :: "jsstr \<Rightarrow> rat \<Rightarrow> labels \<Rightarrow> registry \<Rightarrow> registry res" where
  "inc_named name value ls [] = Inr []"
| "inc_named name value ls (m # r) =
     (if metric_name m = name
      then (case m of
              Scalar s \<Rightarrow> bind_res (counter_inc value ls s) (\<lambda>s'. Inr (Scalar s' # r))
            | Hist h \<Rightarrow> Inr (m # r))
      else bind_res (inc_named name value ls r) (\<lambda>r'. Inr (m # r')))"

fun observe_named :: "jsstr \<Rightarrow> rat \<Rightarrow> labels \<Rightarrow> registry \<Rightarrow> registry" where
  "observe_named name value ls [] = []"
| "observe_named name value ls (m # r) =
     (if metric_name m = name
      then (case m of Hist h \<Rightarrow> Hist (observe value ls h) # r | Scalar s \<Rightarrow> m # r)
      else m # observe_named name value ls r)"

text \<open>\<open>counter.inc(1, labels)\<close> on a registered counter, which cannot throw, and the two updates of the services'
  \<open>onResponse\<close> hooks.\<close>

definition bump :: "string \<Rightarrow> labels \<Rightarrow> registry \<Rightarrow> registry" where
  "bump name ls r = (case inc_named (js name) 1 ls r of Inr r' \<Rightarrow> r' | Inl e \<Rightarrow> r)"

definition request_labels :: "jsstr \<times> jsstr \<Rightarrow> nat \<Rightarrow> labels" where
  "request_labels mr status = [(js ''method'', fst mr), (js ''route'', snd mr), (js ''status'', dec_digits status)]"

definition on_response :: "jsstr \<times> jsstr \<Rightarrow> nat \<Rightarrow> rat \<Rightarrow> registry \<Rightarrow> registry" where
  "on_response mr status elapsed r =
     observe_named (js ''solans_http_request_duration_seconds'') (elapsed / 1000)
       [(js ''method'', fst mr), (js ''route'', snd mr)]
       (bump ''solans_http_requests_total'' (request_labels mr status) r)"

section \<open>Series keys identify label sets\<close>

definition plain :: "jsstr \<Rightarrow> bool" where
  "plain s \<longleftrightarrow> 0 \<notin> set s \<and> 1 \<notin> set s"

definition plain_labels :: "labels \<Rightarrow> bool" where
  "plain_labels ls \<longleftrightarrow> list_all (\<lambda>(k, v). plain k \<and> plain v) ls \<and> distinct (map fst ls)"

lemma split_pair: "0 \<notin> set k \<Longrightarrow> 0 \<notin> set k' \<Longrightarrow> k @ 0 # v = k' @ 0 # v' \<longleftrightarrow> k = k' \<and> v = (v' :: jsstr)"
proof (induction k arbitrary: k')
  case Nil
  then show ?case by (cases k') auto
next
  case (Cons c k)
  then show ?case by (cases k') auto
qed

lemma seriesKey_pieces:
  assumes "plain_labels ls" "ls \<noteq> []"
  shows "split_on 1 (seriesKey ls) = map (\<lambda>(k, v). k @ [0] @ v) (sorted_labels ls)"
proof -
  have "set (sorted_labels ls) = set ls" by (simp add: sorted_labels_def)
  moreover from this have "sorted_labels ls \<noteq> []" using assms(2) by (metis set_empty)
  ultimately show ?thesis
    unfolding seriesKey_def using assms(1)
    by (intro split_on_join) (auto simp: plain_labels_def plain_def list_all_iff)
qed

lemma pairs_inj:
  "list_all (\<lambda>(k, v). plain k) xs \<Longrightarrow> list_all (\<lambda>(k, v). plain k) ys \<Longrightarrow>
   map (\<lambda>(k, v). k @ [0] @ v) xs = map (\<lambda>(k, v). k @ [0] @ v) ys \<Longrightarrow> xs = ys"
proof (induction xs arbitrary: ys)
  case (Cons x xs)
  then show ?case by (cases ys; cases x) (auto simp: split_pair plain_def)
qed simp

lemma sorted_labels_plain: "plain_labels ls \<Longrightarrow> list_all (\<lambda>(k, v). plain k) (sorted_labels ls)"
  by (auto simp: plain_labels_def sorted_labels_def list_all_iff)

lemma seriesKey_Nil: "seriesKey [] = []"
  by (simp add: seriesKey_def sorted_labels_def)

lemma seriesKey_not_Nil: "ls \<noteq> [] \<Longrightarrow> seriesKey ls \<noteq> []"
proof
  assume "ls \<noteq> []" "seriesKey ls = []"
  moreover obtain x xs where s: "sorted_labels ls = x # xs"
    by (metis \<open>ls \<noteq> []\<close> list.exhaust set_empty set_sort sorted_labels_def)
  ultimately show False by (cases x; cases xs) (auto simp: seriesKey_def s)
qed

section \<open>Escaping\<close>

lemma replace_char_append: "replace_char c r (s @ t) = replace_char c r s @ replace_char c r t"
  by (simp add: replace_char_def)

text \<open>The three passes equal one pass.\<close>

definition escape_char :: "nat \<Rightarrow> jsstr" where
  "escape_char c = (if c = 92 then [92, 92] else if c = 10 then [92, 110] else if c = 34 then [92, 34] else [c])"

lemma escapeLabelValue_eq: "escapeLabelValue v = concat (map escape_char v)"
  by (induction v) (auto simp: escapeLabelValue_def replace_char_def escape_char_def)

lemma escape_no_newline: "10 \<notin> set (escapeLabelValue v)"
  by (auto simp: escapeLabelValue_eq escape_char_def split: if_splits)

lemma escape_char_prefix_free: "escape_char c @ s = escape_char d @ t \<Longrightarrow> c = d \<and> s = t"
  by (auto simp: escape_char_def split: if_splits)

text \<open>A quoted value ends at the first unescaped quotation mark, so it can be read back.\<close>

lemma escape_quoted_inj: "escapeLabelValue v @ 34 # s = escapeLabelValue w @ 34 # t \<Longrightarrow> v = w \<and> s = t"
proof (induction v arbitrary: w)
  case Nil
  then show ?case by (cases w) (auto simp: escapeLabelValue_eq escape_char_def split: if_splits)
next
  case (Cons c v)
  show ?case
  proof (cases w)
    case Nil
    with Cons.prems show ?thesis by (auto simp: escapeLabelValue_eq escape_char_def split: if_splits)
  next
    case (Cons d w')
    with Cons.prems have "escape_char c @ escapeLabelValue v @ 34 # s = escape_char d @ escapeLabelValue w' @ 34 # t"
      by (simp add: escapeLabelValue_eq)
    then show ?thesis using escape_char_prefix_free Cons.IH Cons by blast
  qed
qed

section \<open>Counters and histograms record what they are fed\<close>

definition scalar_value :: "scalar_metric \<Rightarrow> labels \<Rightarrow> rat" where
  "scalar_value m ls = snd (scalar_slot m ls)"

lemma with_slot_value:
  "scalar_value (with_slot m ls f) ks =
   (if seriesKey ks = seriesKey ls then f (scalar_value m ls) else scalar_value m ks)"
  by (auto simp: scalar_value_def with_slot_def scalar_slot_def update_conv' split: prod.splits option.splits)

lemma scalar_value_key: "seriesKey ks = seriesKey ls \<Longrightarrow> scalar_value m ls = scalar_value m ks"
  by (auto simp: scalar_value_def scalar_slot_def split: option.splits)

lemma with_slot_keys: "distinct (map fst (sm_series m)) \<Longrightarrow> distinct (map fst (sm_series (with_slot m ls f)))"
  by (auto simp: with_slot_def distinct_update split: prod.splits)

text \<open>The counts of a list of observations.\<close>

definition counts_of :: "rat list \<Rightarrow> rat list \<Rightarrow> nat list" where
  "counts_of buckets vs = map (\<lambda>b. length (filter (\<lambda>v. v \<le> b) vs)) buckets"

definition series_of :: "labels \<Rightarrow> rat list \<Rightarrow> rat list \<Rightarrow> hist_series" where
  "series_of ls buckets vs =
     \<lparr>hs_labels = ls, hs_counts = counts_of buckets vs, hs_sum = sum_list vs, hs_count = length vs\<rparr>"

lemma bump_counts_of: "bump_counts v bs (counts_of bs vs) = counts_of bs (vs @ [v])"
  by (induction bs) (auto simp: counts_of_def)

lemma counts_of_Nil: "counts_of bs [] = replicate (length bs) 0"
  by (induction bs) (auto simp: counts_of_def)

lemma observe_buckets [simp]: "hm_buckets (observe v ls h) = hm_buckets h"
  by (simp add: observe_def Let_def)

lemma observe_slot:
  "hist_slot (observe v ls h) ls =
   (let s = hist_slot h ls in s\<lparr>hs_sum := hs_sum s + v, hs_count := hs_count s + 1,
      hs_counts := bump_counts v (hm_buckets h) (hs_counts s)\<rparr>)"
  by (simp add: observe_def hist_slot_def Let_def update_conv')

lemma observe_all:
  "hist_slot (fold (\<lambda>v. observe v ls) vs (new_histogram n hlp bs)) ls = series_of ls (sort bs) vs \<and>
   hm_buckets (fold (\<lambda>v. observe v ls) vs (new_histogram n hlp bs)) = sort bs"
proof (induction vs rule: rev_induct)
  case Nil
  then show ?case by (simp add: hist_slot_def new_histogram_def series_of_def counts_of_Nil)
next
  case (snoc v vs)
  then show ?case by (simp add: observe_slot Let_def series_of_def bump_counts_of)
qed

lemma counts_of_sorted: "sorted bs \<Longrightarrow> sorted (counts_of bs vs)"
proof (induction bs)
  case (Cons b bs)
  have "length (filter (\<lambda>v. v \<le> b) vs) \<le> length (filter (\<lambda>v. v \<le> c) vs)" if "b \<le> c" for c
    using that by (induction vs) auto
  with Cons show ?case by (auto simp: counts_of_def)
qed (simp add: counts_of_def)

section \<open>Names stay unique\<close>

definition registry_ok :: "registry \<Rightarrow> bool" where
  "registry_ok r \<longleftrightarrow> distinct (map metric_name r)"

lemma register_iff:
  "register m r = Inr r' \<longleftrightarrow> metric_name m \<notin> set (map metric_name r) \<and> r' = r @ [m]"
  by (auto simp: register_def list_ex_iff rev_image_eqI)

lemma register_ok: "registry_ok r \<Longrightarrow> register m r = Inr r' \<Longrightarrow> registry_ok r'"
  by (auto simp: register_iff registry_ok_def)

lemma with_slot_name [simp]: "sm_name (with_slot m ls f) = sm_name m"
  by (simp add: with_slot_def split: prod.splits)

lemma inc_named_names: "inc_named n v ls r = Inr r' \<Longrightarrow> map metric_name r' = map metric_name r"
proof (induction r arbitrary: r')
  case (Cons m r)
  then show ?case by (auto simp: res_simps counter_inc_def split: if_splits metric.splits)
qed simp

section \<open>The hooks count every request once\<close>

fun counter_value :: "jsstr \<Rightarrow> labels \<Rightarrow> registry \<Rightarrow> rat" where
  "counter_value name ls [] = 0"
| "counter_value name ls (m # r) =
     (if metric_name m = name then (case m of Scalar s \<Rightarrow> scalar_value s ls | Hist h \<Rightarrow> 0)
      else counter_value name ls r)"

fun has_counter :: "jsstr \<Rightarrow> registry \<Rightarrow> bool" where
  "has_counter name [] = False"
| "has_counter name (m # r) =
     (if metric_name m = name then (case m of Scalar s \<Rightarrow> True | Hist h \<Rightarrow> False) else has_counter name r)"

lemma inc_named_ok: "0 \<le> v \<Longrightarrow> \<exists>r'. inc_named n v ls r = Inr r'"
  by (induction r) (auto simp: counter_inc_def split: metric.splits)

lemma inc_named_value:
  "inc_named n v ls r = Inr r' \<Longrightarrow> has_counter n r \<Longrightarrow>
   counter_value n ks r' = counter_value n ks r + (if seriesKey ks = seriesKey ls then v else 0) \<and> has_counter n r'"
proof (induction r arbitrary: r')
  case (Cons m r)
  show ?case
  proof (cases "metric_name m = n")
    case True
    with Cons.prems obtain s where "m = Scalar s" by (auto split: metric.splits)
    with True Cons.prems show ?thesis
      by (auto simp: res_simps counter_inc_def with_slot_value intro: scalar_value_key split: if_splits)
  next
    case False
    with Cons show ?thesis by (auto simp: res_simps)
  qed
qed simp

lemma inc_named_other:
  "inc_named n v ls r = Inr r' \<Longrightarrow> k \<noteq> n \<Longrightarrow> counter_value k ks r' = counter_value k ks r \<and> has_counter k r' = has_counter k r"
proof (induction r arbitrary: r')
  case (Cons m r)
  then show ?case by (auto simp: res_simps counter_inc_def split: if_splits metric.splits)
qed simp

lemma observe_named_counter:
  "counter_value k ks (observe_named n v ls r) = counter_value k ks r \<and> has_counter k (observe_named n v ls r) = has_counter k r"
  by (induction r) (auto simp: observe_def Let_def split: metric.splits)

lemma bump_value:
  assumes "has_counter (js n) r"
  shows "counter_value (js n) ks (bump n ls r) = counter_value (js n) ks r + (if seriesKey ks = seriesKey ls then 1 else 0) \<and>
    has_counter (js n) (bump n ls r)"
proof -
  obtain r' where "inc_named (js n) 1 ls r = Inr r'" using inc_named_ok[of 1] zero_le_one by blast
  with inc_named_value[OF this assms] show ?thesis by (simp add: bump_def)
qed

lemma bump_other:
  "k \<noteq> js n \<Longrightarrow> counter_value k ks (bump n ls r) = counter_value k ks r \<and> has_counter k (bump n ls r) = has_counter k r"
  using inc_named_other by (auto simp: bump_def split: sum.splits)

lemma on_response_value:
  assumes "has_counter (js ''solans_http_requests_total'') r"
  shows "counter_value (js ''solans_http_requests_total'') ks (on_response mr st el r) =
    counter_value (js ''solans_http_requests_total'') ks r + (if seriesKey ks = seriesKey (request_labels mr st) then 1 else 0)"
  using bump_value[OF assms] by (simp add: on_response_def observe_named_counter del: js_Cons)

text \<open>Two label sets share a series exactly when they have the same pairs, in any order, provided no key or value contains the two separator characters.\<close>

lemma series_keys_identify_label_sets:
  assumes "plain_labels ls" "plain_labels ms"
  shows "seriesKey ls = seriesKey ms \<longleftrightarrow> set ls = set ms"
proof
  assume eq: "seriesKey ls = seriesKey ms"
  show "set ls = set ms"
  proof (cases "ls = [] \<or> ms = []")
    case True
    with eq show ?thesis using seriesKey_not_Nil seriesKey_Nil by metis
  next
    case False
    then have "sorted_labels ls = sorted_labels ms"
      using seriesKey_pieces[OF assms(1)] seriesKey_pieces[OF assms(2)] eq
        pairs_inj[OF sorted_labels_plain[OF assms(1)] sorted_labels_plain[OF assms(2)]] by simp
    then show ?thesis by (metis set_sort sorted_labels_def)
  qed
next
  assume eq: "set ls = set ms"
  have d: "distinct (map fst ls)" "distinct (map fst ms)" using assms by (simp_all add: plain_labels_def)
  then have "mset ls = mset ms" using eq by (metis distinct_map set_eq_iff_mset_eq_distinct)
  then have "mset ls = mset (sort_key fst ms)" by simp
  moreover have "inj_on fst (set ls)" using d by (simp add: distinct_map)
  ultimately have "sorted_labels ls = sorted_labels ms"
    unfolding sorted_labels_def by (rule sort_key_inj_key_eq) simp
  then show "seriesKey ls = seriesKey ms" by (simp add: seriesKey_def)
qed

text \<open>An escaped label value contains no newline, and two quoted values followed by any text are equal only if the values are: a value cannot end its quotation or its line early.\<close>

lemma exposed_label_values_cannot_break_out:
  "10 \<notin> set (escapeLabelValue v) \<and>
   (escapeLabelValue v @ [34] @ rest = escapeLabelValue v' @ [34] @ rest' \<longleftrightarrow> v = v' \<and> rest = rest')"
  using escape_no_newline[of v] escape_quoted_inj[of v rest v' rest'] by auto

text \<open>After any observations into a fresh histogram, each bucket counts the observations at most its bound, the sum and the count are theirs, and the bucket counts never decrease along the buckets.\<close>

lemma histogram_is_cumulative:
  "let h = fold (\<lambda>v. observe v ls) vs (new_histogram name hlp buckets); s = hist_slot h ls
   in hm_buckets h = sort buckets \<and>
      hs_counts s = map (\<lambda>b. length (filter (\<lambda>v. v \<le> b) vs)) (sort buckets) \<and>
      hs_sum s = sum_list vs \<and> hs_count s = length vs \<and> sorted (hs_counts s)"
  using observe_all[of ls vs name hlp buckets] counts_of_sorted[of "sort buckets" vs]
  by (simp add: Let_def series_of_def counts_of_def)

end
