(* ===== verification/Indexer.thy ===== *)
theory Indexer
  imports Index_Store Programs Metrics "HOL-Library.Sublist"
begin

text \<open>
  \<open>services/indexer/src/parse.ts\<close> and \<open>app.ts\<close>: decoding one instruction into an index event,
  flattening and ingesting Helius transactions, and the HTTP routes. The JavaScript exceptions that
  cross \<open>ingestHeliusTxs\<close> leave the store as the events before them made it, so the ingest functions
  return the state together with the result. The two store methods the ingest calls are arguments,
  as the injected \<open>IndexStore\<close> is; the routes run on \<open>MemoryStore\<close>, the store \<open>server.ts\<close> injects.
  Fastify's routing and JSON parsing are outside: a request is the data its handler reads, a response
  the status and body it sends. \<open>Number(s)\<close> on a query string is the parameter \<open>number\<close> (\<open>None\<close> is NaN).
\<close>

section \<open>parse.ts\<close>

definition metasFromAddresses :: "address list \<Rightarrow> accountMeta list" where
  "metasFromAddresses as = map (\<lambda>a. \<lparr>am_address = a, am_role = READONLY\<rparr>) as"

definition px_str :: "parsedIx \<Rightarrow> string \<Rightarrow> jsstr" where "px_str p f = str_of (fld f (px_data p))"
definition px_num :: "parsedIx \<Rightarrow> string \<Rightarrow> int" where "px_num p f = num_of (fld f (px_data p))"
definition px_hex :: "parsedIx \<Rightarrow> string \<Rightarrow> jsstr" where "px_hex p f = hex_str (bytes_of (fld f (px_data p)))"

definition register_event :: "parsedIx \<Rightarrow> indexEvent" where
  "register_event p =
     Register (px_address p ''nameRecord'') (px_str p ''name'' @ js ''.'' @ px_str p ''tld'') (px_str p ''name'')
       (px_str p ''tld'') (px_address p ''owner'') (px_hex p ''nameHash'') (px_num p ''years'')"

definition renew_event :: "parsedIx \<Rightarrow> indexEvent" where
  "renew_event p =
     Renew (px_address p ''nameRecord'') (px_str p ''name'') (px_str p ''tld'') (px_num p ''years'')"

definition event_of :: "(parsedIx \<Rightarrow> indexEvent) \<Rightarrow> parsedIx res \<Rightarrow> indexEvent option res" where
  "event_of f r = bind_res r (\<lambda>p. Inr (Some (f p)))"

definition parseSolansInstruction :: "kit \<Rightarrow> instruction \<Rightarrow> indexEvent option res" where
  "parseSolansInstruction K ix =
     (if ix_programAddress ix \<noteq> SOLANS_PROGRAM_ADDRESS then Inr None
      else case identifySolansInstruction K (ix_data ix) of
        Inl e \<Rightarrow> Inr None
      | Inr kind \<Rightarrow>
          if kind = RegisterName then event_of register_event (parseRegisterNameInstruction K ix)
          else if kind = RegisterWithSolans then event_of register_event (parseRegisterWithSolansInstruction K ix)
          else if kind = RenewName then event_of renew_event (parseRenewNameInstruction K ix)
          else if kind = RenewWithSolans then event_of renew_event (parseRenewWithSolansInstruction K ix)
          else if kind = WrapSubdomain then
            event_of (\<lambda>p. Subdomain_Event (px_address p ''nameRecord'') (px_address p ''parentName'')
                        (px_address p ''subdomainOwner'') (px_str p ''label'') (px_hex p ''nameHash''))
              (parseWrapSubdomainInstruction K ix)
          else if kind = TransferName then
            event_of (\<lambda>p. Transfer (px_address p ''nameRecord'') (addr_of (fld ''newOwner'' (px_data p))))
              (parseTransferNameInstruction K ix)
          else if kind = BurnName then
            event_of (\<lambda>p. Burn (px_address p ''nameRecord'')) (parseBurnNameInstruction K ix)
          else if kind = ListName then
            event_of (\<lambda>p. List_Event (px_address p ''nameRecord'') (px_address p ''owner'') (int_str (px_num p ''price'')))
              (parseListNameInstruction K ix)
          else if kind = CancelListing then
            event_of (\<lambda>p. Unlist (px_address p ''nameRecord'')) (parseCancelListingInstruction K ix)
          else if kind = BuyName then
            event_of (\<lambda>p. Buy (px_address p ''nameRecord'') (px_address p ''buyer'')) (parseBuyNameInstruction K ix)
          else Inr None)"

section \<open>app.ts: flattening and ingesting\<close>

datatype heliusIx =
  HeliusIx (hx_programId: "jsstr option") (hx_accounts: "jsstr list option") (hx_data: "jsstr option")
    (hx_inner: "heliusIx list option")

record heliusTx =
  tx_signature :: "jsstr option"
  tx_slot :: "int option"
  tx_timestamp :: "int option"
  tx_instructions :: "heliusIx list option"

fun addresses_of :: "kit \<Rightarrow> jsstr list \<Rightarrow> address list res" where
  "addresses_of K [] = Inr []"
| "addresses_of K (a # as) =
     bind_res (address_of K a) (\<lambda>x. bind_res (addresses_of K as) (\<lambda>xs. Inr (x # xs)))"

definition raw_of :: "kit \<Rightarrow> jsstr option \<Rightarrow> jsstr list option \<Rightarrow> jsstr option \<Rightarrow> instruction list res" where
  "raw_of K programId accounts data =
     (if truthy_str programId \<and> truthy_str data then
        bind_res (address_of K (the programId)) (\<lambda>p.
        bind_res (addresses_of K (case accounts of None \<Rightarrow> [] | Some as \<Rightarrow> as)) (\<lambda>as.
        bind_res (base58_encode K (the data)) (\<lambda>d.
          Inr [\<lparr>ix_programAddress = p, ix_accounts = metasFromAddresses as, ix_data = d\<rparr>])))
      else Inr [])"

fun walk :: "kit \<Rightarrow> heliusIx list \<Rightarrow> instruction list res" where
  "walk K [] = Inr []"
| "walk K (HeliusIx p as d None # ixs) =
     bind_res (raw_of K p as d) (\<lambda>self. bind_res (walk K ixs) (\<lambda>rest. Inr (self @ rest)))"
| "walk K (HeliusIx p as d (Some inner) # ixs) =
     bind_res (raw_of K p as d) (\<lambda>self.
     bind_res (walk K inner) (\<lambda>ins. bind_res (walk K ixs) (\<lambda>rest. Inr (self @ ins @ rest))))"

definition rawInstructionsOf :: "kit \<Rightarrow> heliusTx \<Rightarrow> instruction list res" where
  "rawInstructionsOf K tx = walk K (case tx_instructions tx of None \<Rightarrow> [] | Some ixs \<Rightarrow> ixs)"

text \<open>The state of an ingest: the store and the events applied so far, in order (the calls of \<open>onApplied\<close>).\<close>

type_synonym 's ingest = "'s \<times> (indexEvent \<times> eventMeta) list"

fun ingest_raws ::
  "kit \<Rightarrow> (nameEntry \<Rightarrow> 's \<Rightarrow> 's) \<Rightarrow> ('s \<Rightarrow> address \<Rightarrow> nameEntry option) \<Rightarrow> eventMeta \<Rightarrow> instruction list \<Rightarrow>
   's ingest \<Rightarrow> 's ingest \<times> unit res" where
  "ingest_raws K ups getr m [] w = (w, Inr ())"
| "ingest_raws K ups getr m (raw # raws) (store, applied) =
     (case parseSolansInstruction K raw of
        Inl e \<Rightarrow> ((store, applied), Inl e)
      | Inr None \<Rightarrow> ingest_raws K ups getr m raws (store, applied)
      | Inr (Some ev) \<Rightarrow>
          ingest_raws K ups getr m raws (applyEvent ups getr ev m store, applied @ [(ev, m)]))"

definition tx_meta :: "heliusTx \<Rightarrow> eventMeta" where
  "tx_meta tx = \<lparr>sig = tx_signature tx, slot = tx_slot tx, ts = tx_timestamp tx\<rparr>"

fun ingest_txs ::
  "kit \<Rightarrow> (nameEntry \<Rightarrow> 's \<Rightarrow> 's) \<Rightarrow> ('s \<Rightarrow> address \<Rightarrow> nameEntry option) \<Rightarrow> heliusTx list \<Rightarrow>
   's ingest \<Rightarrow> 's ingest \<times> unit res" where
  "ingest_txs K ups getr [] w = (w, Inr ())"
| "ingest_txs K ups getr (tx # txs) w =
     (case rawInstructionsOf K tx of
        Inl e \<Rightarrow> (w, Inl e)
      | Inr raws \<Rightarrow>
          (case ingest_raws K ups getr (tx_meta tx) raws w of
             (w', Inl e) \<Rightarrow> (w', Inl e)
           | (w', Inr u) \<Rightarrow> ingest_txs K ups getr txs w'))"

definition ingestHeliusTxs ::
  "kit \<Rightarrow> (nameEntry \<Rightarrow> 's \<Rightarrow> 's) \<Rightarrow> ('s \<Rightarrow> address \<Rightarrow> nameEntry option) \<Rightarrow> heliusTx list \<Rightarrow> 's \<Rightarrow>
   's ingest \<times> nat res" where
  "ingestHeliusTxs K ups getr txs store =
     (case ingest_txs K ups getr txs (store, []) of
        (w, Inl e) \<Rightarrow> (w, Inl e)
      | (w, Inr u) \<Rightarrow> (w, Inr (length (snd w))))"

section \<open>app.ts: the HTTP service\<close>

datatype indexer_request =
    Webhook "heliusTx list"
  | Search "jsstr option" "jsstr option"
  | Owner jsstr
  | Name jsstr
  | Watchlist
  | Listings
  | Health
  | Scrape
  | Options

datatype indexer_body =
    Indexed nat
  | ErrorBody jsstr
  | Results "nameEntry list"
  | Names "nameEntry list"
  | Entry nameEntry
  | WatchNames "jsstr list"
  | ListingEntries "nameEntry list"
  | OkBody
  | TextBody jsstr
  | NoBody

record indexer =
  ix_store :: memory_store
  ix_registry :: registry

definition indexer_registry :: "registry res" where
  "indexer_registry =
     bind_res (reg_counter (js ''solans_http_requests_total'') (js ''Indexer HTTP requests handled'') []) (\<lambda>r.
     bind_res (reg_histogram (js ''solans_http_request_duration_seconds'')
                 (js ''Indexer HTTP request duration in seconds'') DEFAULT_BUCKETS r) (\<lambda>r.
     bind_res (reg_counter (js ''solans_index_events_total'') (js ''Indexed SOLANS instructions by type'') r) (\<lambda>r.
       reg_counter (js ''solans_webhook_batches_total'') (js ''Helius webhook batches received'') r)))"

fun event_kind :: "indexEvent \<Rightarrow> jsstr" where
  "event_kind (Register a b c d e f g) = js ''register''"
| "event_kind (Renew a b c d) = js ''renew''"
| "event_kind (Subdomain_Event a b c d e) = js ''subdomain''"
| "event_kind (Transfer a b) = js ''transfer''"
| "event_kind (Burn a) = js ''burn''"
| "event_kind (List_Event a b c) = js ''list''"
| "event_kind (Unlist a) = js ''unlist''"
| "event_kind (Buy a b) = js ''buy''"

definition post_webhook :: "kit \<Rightarrow> heliusTx list \<Rightarrow> indexer \<Rightarrow> indexer \<times> nat \<times> indexer_body" where
  "post_webhook K txs app =
     (let reg = bump ''solans_webhook_batches_total'' [] (ix_registry app);
          ((store, applied), r) = ingestHeliusTxs K upsert getByRecord txs (ix_store app);
          reg = fold (\<lambda>(ev, m). bump ''solans_index_events_total'' [(js ''type'', event_kind ev)]) applied reg;
          app = app\<lparr>ix_store := store, ix_registry := reg\<rparr>
      in case r of Inr n \<Rightarrow> (app, 200, Indexed n) | Inl e \<Rightarrow> (app, 400, ErrorBody (message e)))"

fun handle ::
  "kit \<Rightarrow> unicode \<Rightarrow> (jsstr \<Rightarrow> int option) \<Rightarrow> (rat \<Rightarrow> jsstr) \<Rightarrow> indexer_request \<Rightarrow> indexer \<Rightarrow>
   indexer \<times> nat \<times> indexer_body" where
  "handle K U number num_str (Webhook txs) app = post_webhook K txs app"
| "handle K U number num_str (Search q limit) app =
     (app, if \<not> truthy_str q then (400, ErrorBody (js ''missing ?q''))
           else (200, Results (search U (ix_store app) (the q)
                  (if truthy_str limit then (case number (the limit) of None \<Rightarrow> 0 | Some n \<Rightarrow> n) else 50))))"
| "handle K U number num_str (Owner pubkey) app =
     (app, case address_of K pubkey of
             Inl e \<Rightarrow> (400, ErrorBody (js ''invalid pubkey''))
           | Inr a \<Rightarrow> (200, Names (byOwner (ix_store app) a)))"
| "handle K U number num_str (Name name) app =
     (app, case getByName (ix_store app) name of
             None \<Rightarrow> (404, ErrorBody (js ''not indexed''))
           | Some e \<Rightarrow> (200, Entry e))"
| "handle K U number num_str Watchlist app = (app, 200, WatchNames (watchlist (ix_store app)))"
| "handle K U number num_str Listings app = (app, 200, ListingEntries (listings (ix_store app)))"
| "handle K U number num_str Health app = (app, 200, OkBody)"
| "handle K U number num_str Scrape app = (app, 200, TextBody (registry_expose num_str (ix_registry app)))"
| "handle K U number num_str Options app = (app, 204, NoBody)"

fun route_of :: "indexer_request \<Rightarrow> jsstr \<times> jsstr" where
  "route_of (Webhook txs) = (js ''POST'', js ''/webhook'')"
| "route_of (Search q l) = (js ''GET'', js ''/search'')"
| "route_of (Owner p) = (js ''GET'', js ''/owner/:pubkey'')"
| "route_of (Name n) = (js ''GET'', js ''/name/:name'')"
| "route_of Watchlist = (js ''GET'', js ''/watchlist'')"
| "route_of Listings = (js ''GET'', js ''/listings'')"
| "route_of Health = (js ''GET'', js ''/health'')"
| "route_of Scrape = (js ''GET'', js ''/metrics'')"
| "route_of Options = (js ''OPTIONS'', js ''unknown'')"

text \<open>The handler, then the \<open>onResponse\<close> hook; \<open>elapsed\<close> is \<open>reply.elapsedTime\<close> in milliseconds.\<close>

definition serve ::
  "kit \<Rightarrow> unicode \<Rightarrow> (jsstr \<Rightarrow> int option) \<Rightarrow> (rat \<Rightarrow> jsstr) \<Rightarrow> rat \<Rightarrow> indexer_request \<Rightarrow> indexer \<Rightarrow>
   indexer \<times> nat \<times> indexer_body" where
  "serve K U number num_str elapsed req app =
     (let (app, status, body) = handle K U number num_str req app
      in (app\<lparr>ix_registry := on_response (route_of req) status elapsed (ix_registry app)\<rparr>, status, body))"

section \<open>Specification of an ingest\<close>

text \<open>The events a batch stands for: those of its instructions in depth-first order, each with the metadata
  of its transaction. A transaction that cannot be flattened has none.\<close>

definition raw_events :: "kit \<Rightarrow> eventMeta \<Rightarrow> instruction list \<Rightarrow> (indexEvent \<times> eventMeta) list" where
  "raw_events K m raws =
     List.map_filter (\<lambda>raw. case parseSolansInstruction K raw of Inr (Some ev) \<Rightarrow> Some (ev, m) | _ \<Rightarrow> None) raws"

definition tx_events :: "kit \<Rightarrow> heliusTx \<Rightarrow> (indexEvent \<times> eventMeta) list" where
  "tx_events K tx =
     (case rawInstructionsOf K tx of Inl e \<Rightarrow> [] | Inr raws \<Rightarrow> raw_events K (tx_meta tx) raws)"

section \<open>Ingesting is a fold of the applied events\<close>

lemma raw_events_Cons:
  "raw_events K m (raw # raws) =
     (case parseSolansInstruction K raw of Inr (Some ev) \<Rightarrow> (ev, m) # raw_events K m raws | _ \<Rightarrow> raw_events K m raws)"
  by (simp add: raw_events_def map_filter_simps split: sum.splits option.splits)

lemma ingest_raws_fold:
  "ingest_raws K ups getr m raws (s, app) = ((s', app'), r) \<Longrightarrow>
   \<exists>new. app' = app @ new \<and> s' = fold (\<lambda>(ev, m). applyEvent ups getr ev m) new s \<and>
     prefix new (raw_events K m raws) \<and> (r = Inr () \<longrightarrow> new = raw_events K m raws)"
proof (induction raws arbitrary: s app)
  case (Cons raw raws)
  show ?case
  proof (cases "\<exists>ev. parseSolansInstruction K raw = Inr (Some ev)")
    case True
    then obtain ev where ev: "parseSolansInstruction K raw = Inr (Some ev)" by blast
    have "ingest_raws K ups getr m raws (applyEvent ups getr ev m s, app @ [(ev, m)]) = ((s', app'), r)"
      using Cons.prems ev by simp
    from Cons.IH[OF this] obtain new where "app' = (app @ [(ev, m)]) @ new"
      "s' = fold (\<lambda>(ev, m). applyEvent ups getr ev m) new (applyEvent ups getr ev m s)"
      "prefix new (raw_events K m raws)" "r = Inr () \<longrightarrow> new = raw_events K m raws" by blast
    with ev show ?thesis by (intro exI[of _ "(ev, m) # new"]) (simp add: raw_events_Cons)
  next
    case False
    with Cons show ?thesis by (auto simp: raw_events_Cons split: sum.splits option.splits)
  qed
qed (simp add: raw_events_def map_filter_simps)

lemma ingest_txs_fold:
  "ingest_txs K ups getr txs (s, app) = ((s', app'), r) \<Longrightarrow>
   \<exists>new. app' = app @ new \<and> s' = fold (\<lambda>(ev, m). applyEvent ups getr ev m) new s \<and>
     prefix new (concat (map (tx_events K) txs)) \<and> (r = Inr () \<longrightarrow> new = concat (map (tx_events K) txs))"
proof (induction txs arbitrary: s app)
  case (Cons tx txs)
  show ?case
  proof (cases "rawInstructionsOf K tx")
    case (Inl e)
    with Cons.prems show ?thesis by auto
  next
    case (Inr raws)
    obtain s1 app1 r1 where one: "ingest_raws K ups getr (tx_meta tx) raws (s, app) = ((s1, app1), r1)"
      by (metis prod.exhaust)
    from ingest_raws_fold[OF one] obtain new where new: "app1 = app @ new"
      "s1 = fold (\<lambda>(ev, m). applyEvent ups getr ev m) new s" "prefix new (tx_events K tx)"
      "r1 = Inr () \<longrightarrow> new = tx_events K tx" by (auto simp: tx_events_def Inr)
    show ?thesis
    proof (cases r1)
      case (Inl e)
      with Cons.prems Inr one new show ?thesis by (auto simp: prefix_append)
    next
      case r1: (Inr u)
      have "ingest_txs K ups getr txs (s1, app1) = ((s', app'), r)" using Cons.prems Inr one r1 by simp
      from Cons.IH[OF this] obtain new' where "app' = app1 @ new'"
        "s' = fold (\<lambda>(ev, m). applyEvent ups getr ev m) new' s1"
        "prefix new' (concat (map (tx_events K) txs))"
        "r = Inr () \<longrightarrow> new' = concat (map (tx_events K) txs)" by blast
      with new r1 show ?thesis by (intro exI[of _ "new @ new'"]) simp
    qed
  qed
qed simp

lemma ingest_applied:
  assumes "ingestHeliusTxs K ups getr txs s = ((s', applied), r)"
  shows "s' = fold (\<lambda>(ev, m). applyEvent ups getr ev m) applied s" (is ?fold)
    and "prefix applied (concat (map (tx_events K) txs))" (is ?prefix)
    and "r = Inr n \<Longrightarrow> n = length applied \<and> applied = concat (map (tx_events K) txs)"
proof -
  obtain r' where r': "ingest_txs K ups getr txs (s, []) = ((s', applied), r')"
    using assms by (auto simp: ingestHeliusTxs_def split: prod.splits sum.splits)
  from ingest_txs_fold[OF this] show ?fold ?prefix
    "r = Inr n \<Longrightarrow> n = length applied \<and> applied = concat (map (tx_events K) txs)"
    using assms r' by (auto simp: ingestHeliusTxs_def split: sum.splits)
qed

section \<open>What the parser returns for a built instruction\<close>

lemma parse_register:
  assumes "identifySolansInstruction K (ix_data ix) = Inr RegisterName"
    "ix_programAddress ix = SOLANS_PROGRAM_ADDRESS" "parseRegisterNameInstruction K ix = Inr p"
  shows "parseSolansInstruction K ix = Inr (Some (register_event p))"
  using assms by (simp add: parseSolansInstruction_def event_of_def)

section \<open>A run of the service\<close>

text \<open>Requests served one after the other, each with its elapsed time; the run keeps the method, route and
  status of every response.\<close>

fun serve_all ::
  "kit \<Rightarrow> unicode \<Rightarrow> (jsstr \<Rightarrow> int option) \<Rightarrow> (rat \<Rightarrow> jsstr) \<Rightarrow> (rat \<times> indexer_request) list \<Rightarrow> indexer \<Rightarrow>
   indexer \<times> ((jsstr \<times> jsstr) \<times> nat) list" where
  "serve_all K U number num_str [] app = (app, [])"
| "serve_all K U number num_str ((elapsed, req) # reqs) app =
     (let (app, status, body) = serve K U number num_str elapsed req app;
          (app, seen) = serve_all K U number num_str reqs app
      in (app, (route_of req, status) # seen))"

lemma indexer_registry_value: "\<exists>r. indexer_registry = Inr r \<and>
    has_counter (js ''solans_http_requests_total'') r \<and> counter_value (js ''solans_http_requests_total'') ks r = 0"
  by (simp add: indexer_registry_def reg_counter_def reg_histogram_def register_def new_scalar_def new_histogram_def
      scalar_value_def scalar_slot_def)

lemma fold_bump_other:
  "k \<noteq> js n \<Longrightarrow>
   counter_value k ks (fold (\<lambda>(ev, m). bump n (f ev)) evs r) = counter_value k ks r \<and>
   has_counter k (fold (\<lambda>(ev, m). bump n (f ev)) evs r) = has_counter k r"
proof (induction evs arbitrary: r)
  case (Cons em evs)
  with bump_other[OF Cons.prems] show ?case by (cases em) simp
qed simp

lemma webhook_counts:
  assumes "post_webhook K txs app = (app', st, b)" "k \<noteq> js ''solans_webhook_batches_total''" "k \<noteq> js ''solans_index_events_total''"
  shows "counter_value k ks (ix_registry app') = counter_value k ks (ix_registry app) \<and>
    has_counter k (ix_registry app') = has_counter k (ix_registry app)"
proof -
  obtain store evs r where "ingestHeliusTxs K upsert getByRecord txs (ix_store app) = ((store, evs), r)"
    by (metis prod.exhaust)
  with assms(1) have "ix_registry app' =
      fold (\<lambda>(ev, m). bump ''solans_index_events_total'' [(js ''type'', event_kind ev)]) evs
        (bump ''solans_webhook_batches_total'' [] (ix_registry app))"
    by (cases r) (auto simp: post_webhook_def simp del: js_Cons)
  then show ?thesis by (simp add: bump_other[OF assms(2)] fold_bump_other[OF assms(3)] del: js_Cons)
qed

lemma handle_counts:
  assumes "handle K U number num_str req app = (app', st, b)"
  shows "counter_value (js ''solans_http_requests_total'') ks (ix_registry app') =
      counter_value (js ''solans_http_requests_total'') ks (ix_registry app) \<and>
    has_counter (js ''solans_http_requests_total'') (ix_registry app') =
      has_counter (js ''solans_http_requests_total'') (ix_registry app)"
proof (cases "\<exists>txs. req = Webhook txs")
  case True
  then obtain txs where "post_webhook K txs app = (app', st, b)" using assms by auto
  then show ?thesis by (rule webhook_counts) simp_all
next
  case False
  then have "app' = app" using assms by (cases req) auto
  then show ?thesis by blast
qed

lemma serve_all_counts:
  assumes "has_counter (js ''solans_http_requests_total'') (ix_registry app)"
    "serve_all K U number num_str reqs app = (app', seen)"
  shows "counter_value (js ''solans_http_requests_total'') ks (ix_registry app') =
    counter_value (js ''solans_http_requests_total'') ks (ix_registry app) +
    of_nat (length (filter (\<lambda>(mr, st). seriesKey ks = seriesKey (request_labels mr st)) seen))"
  using assms
proof (induction reqs arbitrary: app seen)
  case (Cons r reqs)
  obtain el req where r: "r = (el, req)" by (cases r)
  obtain a1 st b where h: "handle K U number num_str req app = (a1, st, b)" by (metis prod.exhaust)
  let ?a = "a1\<lparr>ix_registry := on_response (route_of req) st el (ix_registry a1)\<rparr>"
  obtain seen' where l: "serve_all K U number num_str reqs ?a = (app', seen')" "seen = (route_of req, st) # seen'"
    using Cons.prems(2) h by (auto simp: r serve_def split: prod.splits)
  have c: "has_counter (js ''solans_http_requests_total'') (ix_registry a1)"
    using handle_counts[OF h] Cons.prems(1) by simp
  then have "has_counter (js ''solans_http_requests_total'') (ix_registry ?a)"
    using bump_value[of "''solans_http_requests_total''"]
    by (simp add: on_response_def observe_named_counter del: js_Cons)
  from Cons.IH[OF this l(1)] show ?case
    using handle_counts[OF h, of ks] on_response_value[OF c, of ks "route_of req" st el] by (simp add: l(2) del: js_Cons)
qed simp

text \<open>In every run of the indexer from its fresh metrics, the request counter of a label set is the number of responses served with that method, route and status, scrapes and errors included.\<close>

lemma serve_counts_every_request:
  assumes "indexer_registry = Inr r"
    "serve_all K U number num_str reqs \<lparr>ix_store = store, ix_registry = r\<rparr> = (app', seen)"
  shows "counter_value (js ''solans_http_requests_total'') ks (ix_registry app') =
    of_nat (length (filter (\<lambda>(mr, st). seriesKey ks = seriesKey (request_labels mr st)) seen))"
proof -
  obtain r' where "indexer_registry = Inr r'" and c: "has_counter (js ''solans_http_requests_total'') r'"
    "counter_value (js ''solans_http_requests_total'') ks r' = 0" using indexer_registry_value by blast
  then have "r' = r" using assms(1) by (metis sum.inject(2))
  with serve_all_counts[OF _ assms(2), of ks] c show ?thesis by (simp del: js_Cons)
qed

section \<open>Properties\<close>



end
