(* ===== verification/Tx.thy ===== *)
theory Tx
  imports Indexer Client
begin

text \<open>
  \<open>clients/sdk/src/tx.ts\<close>: the write builders the web applications use. Each builder parses the name,
  derives the addresses and calls one generated builder. The definitions keep the order of the calls,
  so the first one that throws decides the error. The object literal passed to a generated builder is
  \<open>ix_input\<close> of its accounts (\<open>None\<close> is \<open>undefined\<close>) and its arguments.

  Three things come from outside the repository and are arguments: the kit \<open>K\<close>, \<open>findAssociatedTokenPda\<close>
  of \<open>@solana-program/token\<close> (\<open>A\<close>), and the address of the key pair \<open>generateKeyPairSigner()\<close> makes
  (\<open>mint\<close>). A \<open>TransactionSigner\<close> is its address; it enters an instruction as \<open>SignerI\<close>.

  The lemmas follow a write to the other end of the system: what the indexer decodes from the
  instruction the SDK built, and where the client finds the record.
\<close>

section \<open>Shared steps\<close>

type_synonym find_ata = "address \<Rightarrow> address \<Rightarrow> address \<Rightarrow> (address \<times> int) res"

definition ix_input :: "(string \<times> acctVal option) list \<Rightarrow> (string \<times> cval) list \<Rightarrow> ixInput" where
  "ix_input accts args =
     \<lparr>in_account = (\<lambda>a. case map_of accts a of None \<Rightarrow> None | Some v \<Rightarrow> v), in_arg = map_of args,
      in_programAddress = None\<rparr>"

text \<open>\<open>const [x] = await ..\<close> of a derived address.\<close>

definition first_of :: "(address \<times> int) res \<Rightarrow> address res" where
  "first_of r = bind_res r (\<lambda>(a, b). Inr a)"

text \<open>\<open>return [await build(..)]\<close>.\<close>

definition just :: "instruction res \<Rightarrow> instruction list res" where
  "just r = bind_res r (\<lambda>ix. Inr [ix])"

definition ataFor :: "find_ata \<Rightarrow> address \<Rightarrow> address \<Rightarrow> address res" where
  "ataFor A owner mint = first_of (A owner mint TOKEN_PROGRAM)"

text \<open>\<open>x ? await ataFor(owner, mint) : undefined\<close>; an empty string is falsy.\<close>

definition ata_if :: "find_ata \<Rightarrow> jsstr option \<Rightarrow> address \<Rightarrow> address \<Rightarrow> acctVal option res" where
  "ata_if A cond owner mint =
     (if truthy_str cond then bind_res (ataFor A owner mint) (\<lambda>a. Inr (Some (AddrI a))) else Inr None)"

definition nameRecordOf :: "kit \<Rightarrow> unicode \<Rightarrow> jsstr \<Rightarrow> address res" where
  "nameRecordOf K U name =
     bind_res (nameInfo K U name None) (\<lambda>i. first_of (findNameRecordPda K (ni_hash i)))"

section \<open>Registration and renewal\<close>

text \<open>\<open>FeeConfig\<close> is a selection of fields of \<open>Config\<close>.\<close>

record registerArgs =
  ra_payer :: address
  ra_cfg :: config
  ra_name :: jsstr
  ra_owner :: "address option"
  ra_years :: "int option"
  ra_referralTokenAccount :: "address option"
  ra_withNft :: "bool option"

record registerResult =
  rr_instructions :: "instruction list"
  rr_nameRecord :: address
  rr_nftMint :: "address option"

definition registerName_input ::
  "registerArgs \<Rightarrow> address \<Rightarrow> address \<Rightarrow> jsstr \<Rightarrow> jsstr \<Rightarrow> bytes \<Rightarrow> int \<Rightarrow> ixInput" where
  "registerName_input args owner ata label tld hash years =
     ix_input
       [(''payer'', Some (SignerI (ra_payer args))), (''owner'', Some (AddrI owner)),
        (''payerTokenAccount'', Some (AddrI ata)),
        (''treasuryTokenAccount'', Some (AddrI (cfg_treasuryTokenAccount (ra_cfg args)))),
        (''stakingVault'', Some (AddrI (cfg_stakingVault (ra_cfg args)))),
        (''burnVault'', Some (AddrI (cfg_burnVault (ra_cfg args)))),
        (''referralTokenAccount'', map_option AddrI (ra_referralTokenAccount args)),
        (''paymentMint'', Some (AddrI (cfg_paymentMint (ra_cfg args))))]
       [(''name'', VStr label), (''tld'', VStr tld), (''nameHash'', VBytes hash), (''years'', VNum years)]"

definition buildRegisterInstructions ::
  "kit \<Rightarrow> unicode \<Rightarrow> find_ata \<Rightarrow> address \<Rightarrow> registerArgs \<Rightarrow> registerResult res" where
  "buildRegisterInstructions K U A mint args =
     (let years = or_else (ra_years args) 1;
          owner = or_else (ra_owner args) (ra_payer args)
      in bind_res (nameParts K U (ra_name args) None) (\<lambda>(label, tld, hash).
         bind_res (first_of (findNameRecordPda K hash)) (\<lambda>nameRecord.
         bind_res (ataFor A (ra_payer args) (cfg_paymentMint (ra_cfg args))) (\<lambda>ata.
         bind_res (getRegisterNameInstructionAsync K
                     (registerName_input args owner ata label tld hash years)) (\<lambda>registerIx.
         if or_else (ra_withNft args) True \<and> owner = ra_payer args then
           bind_res (getTokenizeNameInstructionAsync K (ix_input
             [(''owner'', Some (SignerI (ra_payer args))), (''nameRecord'', Some (AddrI nameRecord)),
              (''mint'', Some (SignerI mint))]
             [(''name'', VStr label)])) (\<lambda>tokenizeIx.
           Inr \<lparr>rr_instructions = [registerIx, tokenizeIx], rr_nameRecord = nameRecord, rr_nftMint = Some mint\<rparr>)
         else Inr \<lparr>rr_instructions = [registerIx], rr_nameRecord = nameRecord, rr_nftMint = None\<rparr>)))))"

record renewArgs =
  rn_payer :: address
  rn_cfg :: config
  rn_name :: jsstr
  rn_years :: "int option"
  rn_referralTokenAccount :: "address option"

definition buildRenewInstructions :: "kit \<Rightarrow> unicode \<Rightarrow> find_ata \<Rightarrow> renewArgs \<Rightarrow> instruction list res" where
  "buildRenewInstructions K U A args =
     bind_res (nameParts K U (rn_name args) None) (\<lambda>(label, tld, hash).
     bind_res (first_of (findNameRecordPda K hash)) (\<lambda>nameRecord.
     bind_res (ataFor A (rn_payer args) (cfg_paymentMint (rn_cfg args))) (\<lambda>ata.
     just (getRenewNameInstructionAsync K (ix_input
       [(''payer'', Some (SignerI (rn_payer args))), (''nameRecord'', Some (AddrI nameRecord)),
        (''payerTokenAccount'', Some (AddrI ata)),
        (''treasuryTokenAccount'', Some (AddrI (cfg_treasuryTokenAccount (rn_cfg args)))),
        (''stakingVault'', Some (AddrI (cfg_stakingVault (rn_cfg args)))),
        (''burnVault'', Some (AddrI (cfg_burnVault (rn_cfg args)))),
        (''referralTokenAccount'', map_option AddrI (rn_referralTokenAccount args)),
        (''paymentMint'', Some (AddrI (cfg_paymentMint (rn_cfg args))))]
       [(''name'', VStr label), (''tld'', VStr tld), (''years'', VNum (or_else (rn_years args) 1))])))))"

section \<open>Records\<close>

record recordWriteArgs =
  rw_authority :: address
  rw_nameRecord :: address
  rw_nftMint :: "address option"

definition record_write_accounts :: "recordWriteArgs \<Rightarrow> acctVal option \<Rightarrow> (string \<times> acctVal option) list" where
  "record_write_accounts args nftTokenAccount =
     [(''authority'', Some (SignerI (rw_authority args))), (''nameRecord'', Some (AddrI (rw_nameRecord args))),
      (''nftTokenAccount'', nftTokenAccount)]"

definition nft_token_account :: "find_ata \<Rightarrow> recordWriteArgs \<Rightarrow> acctVal option res" where
  "nft_token_account A args = ata_if A (rw_nftMint args) (rw_authority args) (or_else (rw_nftMint args) [])"

definition buildUpdateRecordInstructions ::
  "kit \<Rightarrow> find_ata \<Rightarrow> recordWriteArgs \<Rightarrow> jsstr \<Rightarrow> jsstr option \<Rightarrow> instruction list res" where
  "buildUpdateRecordInstructions K A args k v =
     bind_res (nft_token_account A args) (\<lambda>nftTokenAccount.
     just (getUpdateRecordInstruction K (ix_input (record_write_accounts args nftTokenAccount)
       [(''key'', VStr k), (''value'', VOpt (map_option VStr v))])))"

definition buildSetHostingInstructions ::
  "kit \<Rightarrow> find_ata \<Rightarrow> recordWriteArgs \<Rightarrow> jsstr option \<Rightarrow> instruction list res" where
  "buildSetHostingInstructions K A args hostingRef =
     bind_res (nft_token_account A args) (\<lambda>nftTokenAccount.
     just (getSetHostingInstruction K (ix_input (record_write_accounts args nftTokenAccount)
       [(''hostingRef'', VOpt (map_option VStr hostingRef))])))"

section \<open>Marketplace\<close>

definition DEFAULT_LISTING_SECONDS :: int where
  "DEFAULT_LISTING_SECONDS = 30 * 86400"

definition buildListInstructions ::
  "kit \<Rightarrow> unicode \<Rightarrow> address \<Rightarrow> jsstr \<Rightarrow> int \<Rightarrow> int option \<Rightarrow> instruction list res" where
  "buildListInstructions K U owner name priceLamports durationSeconds =
     bind_res (nameRecordOf K U name) (\<lambda>nameRecord.
     bind_res (first_of (findListing K U name None)) (\<lambda>listing.
     just (getListNameInstruction K (ix_input
       [(''owner'', Some (SignerI owner)), (''nameRecord'', Some (AddrI nameRecord)),
        (''listing'', Some (AddrI listing))]
       [(''price'', VNum priceLamports),
        (''durationSeconds'', VNum (or_else durationSeconds DEFAULT_LISTING_SECONDS))]))))"

definition buildCancelListingInstructions ::
  "kit \<Rightarrow> unicode \<Rightarrow> address \<Rightarrow> jsstr \<Rightarrow> address \<Rightarrow> instruction list res" where
  "buildCancelListingInstructions K U canceller name seller =
     bind_res (nameRecordOf K U name) (\<lambda>nameRecord.
     bind_res (first_of (findListing K U name None)) (\<lambda>listing.
     just (getCancelListingInstruction K (ix_input
       [(''canceller'', Some (SignerI canceller)), (''seller'', Some (AddrI seller)),
        (''nameRecord'', Some (AddrI nameRecord)), (''listing'', Some (AddrI listing))] []))))"

definition buildBuyInstructions ::
  "kit \<Rightarrow> unicode \<Rightarrow> address \<Rightarrow> jsstr \<Rightarrow> address \<Rightarrow> int \<Rightarrow> address \<Rightarrow> instruction list res" where
  "buildBuyInstructions K U buyer name seller expectedPrice solTreasury =
     bind_res (nameRecordOf K U name) (\<lambda>nameRecord.
     bind_res (first_of (findListing K U name None)) (\<lambda>listing.
     bind_res (first_of (findConfigPda K)) (\<lambda>config.
     just (getBuyNameInstruction K (ix_input
       [(''buyer'', Some (SignerI buyer)), (''seller'', Some (AddrI seller)),
        (''solTreasury'', Some (AddrI solTreasury)), (''config'', Some (AddrI config)),
        (''nameRecord'', Some (AddrI nameRecord)), (''listing'', Some (AddrI listing))]
       [(''expectedPrice'', VNum expectedPrice)])))))"

definition buildMakeOfferInstructions ::
  "kit \<Rightarrow> unicode \<Rightarrow> address \<Rightarrow> jsstr \<Rightarrow> int \<Rightarrow> int option \<Rightarrow> instruction list res" where
  "buildMakeOfferInstructions K U buyer name amountLamports durationSeconds =
     bind_res (nameRecordOf K U name) (\<lambda>nameRecord.
     bind_res (first_of (findOffer K U name buyer None)) (\<lambda>offer.
     just (getMakeOfferInstruction K (ix_input
       [(''buyer'', Some (SignerI buyer)), (''nameRecord'', Some (AddrI nameRecord)),
        (''offer'', Some (AddrI offer))]
       [(''amount'', VNum amountLamports),
        (''durationSeconds'', VNum (or_else durationSeconds DEFAULT_LISTING_SECONDS))]))))"

definition buildAcceptOfferInstructions ::
  "kit \<Rightarrow> unicode \<Rightarrow> address \<Rightarrow> jsstr \<Rightarrow> address \<Rightarrow> address \<Rightarrow> instruction list res" where
  "buildAcceptOfferInstructions K U owner name buyer solTreasury =
     bind_res (nameRecordOf K U name) (\<lambda>nameRecord.
     bind_res (first_of (findOffer K U name buyer None)) (\<lambda>offer.
     bind_res (first_of (findConfigPda K)) (\<lambda>config.
     just (getAcceptOfferInstruction K (ix_input
       [(''owner'', Some (SignerI owner)), (''buyer'', Some (AddrI buyer)),
        (''solTreasury'', Some (AddrI solTreasury)), (''config'', Some (AddrI config)),
        (''nameRecord'', Some (AddrI nameRecord)), (''offer'', Some (AddrI offer))] [])))))"

definition buildCancelOfferInstructions ::
  "kit \<Rightarrow> unicode \<Rightarrow> address \<Rightarrow> jsstr \<Rightarrow> address \<Rightarrow> instruction list res" where
  "buildCancelOfferInstructions K U canceller name buyer =
     bind_res (nameRecordOf K U name) (\<lambda>nameRecord.
     bind_res (first_of (findOffer K U name buyer None)) (\<lambda>offer.
     just (getCancelOfferInstruction K (ix_input
       [(''canceller'', Some (SignerI canceller)), (''buyer'', Some (AddrI buyer)),
        (''nameRecord'', Some (AddrI nameRecord)), (''offer'', Some (AddrI offer))] []))))"

section \<open>Name management\<close>

definition buildTransferInstructions ::
  "kit \<Rightarrow> unicode \<Rightarrow> address \<Rightarrow> jsstr \<Rightarrow> address \<Rightarrow> instruction list res" where
  "buildTransferInstructions K U owner name newOwner =
     bind_res (nameRecordOf K U name) (\<lambda>nameRecord.
     just (getTransferNameInstruction K (ix_input
       [(''owner'', Some (SignerI owner)), (''nameRecord'', Some (AddrI nameRecord))]
       [(''newOwner'', VAddr newOwner)])))"

definition buildSetControllerInstructions ::
  "kit \<Rightarrow> unicode \<Rightarrow> address \<Rightarrow> jsstr \<Rightarrow> address option \<Rightarrow> instruction list res" where
  "buildSetControllerInstructions K U owner name controller =
     bind_res (nameRecordOf K U name) (\<lambda>nameRecord.
     just (getSetControllerInstruction K (ix_input
       [(''owner'', Some (SignerI owner)), (''nameRecord'', Some (AddrI nameRecord))]
       [(''controller'', VOpt (map_option VAddr controller))])))"

definition buildLockTransferInstructions ::
  "kit \<Rightarrow> unicode \<Rightarrow> address \<Rightarrow> jsstr \<Rightarrow> bool \<Rightarrow> instruction list res" where
  "buildLockTransferInstructions K U owner name lock =
     bind_res (nameRecordOf K U name) (\<lambda>nameRecord.
     just (getLockTransferInstruction K (ix_input
       [(''owner'', Some (SignerI owner)), (''nameRecord'', Some (AddrI nameRecord))]
       [(''lock'', VBool lock)])))"

definition buildSetReverseInstructions ::
  "kit \<Rightarrow> unicode \<Rightarrow> address \<Rightarrow> jsstr \<Rightarrow> instruction list res" where
  "buildSetReverseInstructions K U owner name =
     bind_res (nameRecordOf K U name) (\<lambda>nameRecord.
     bind_res (normalizeName U name) (\<lambda>label.
     just (getSetReverseInstructionAsync K (ix_input
       [(''owner'', Some (SignerI owner)), (''nameRecord'', Some (AddrI nameRecord))]
       [(''name'', VStr label)]))))"

definition buildSetResolverInstructions ::
  "kit \<Rightarrow> find_ata \<Rightarrow> recordWriteArgs \<Rightarrow> address option \<Rightarrow> instruction list res" where
  "buildSetResolverInstructions K A args resolver =
     bind_res (nft_token_account A args) (\<lambda>nftTokenAccount.
     just (getSetResolverInstruction K (ix_input (record_write_accounts args nftTokenAccount)
       [(''resolver'', VOpt (map_option VAddr resolver))])))"

definition buildBurnNameInstructions :: "kit \<Rightarrow> unicode \<Rightarrow> address \<Rightarrow> jsstr \<Rightarrow> instruction list res" where
  "buildBurnNameInstructions K U owner name =
     bind_res (nameRecordOf K U name) (\<lambda>nameRecord.
     just (getBurnNameInstruction K (ix_input
       [(''owner'', Some (SignerI owner)), (''nameRecord'', Some (AddrI nameRecord))] [])))"

definition buildTokenizeInstructions ::
  "kit \<Rightarrow> unicode \<Rightarrow> address \<Rightarrow> address \<Rightarrow> jsstr \<Rightarrow> (instruction list \<times> address) res" where
  "buildTokenizeInstructions K U mint owner name =
     bind_res (nameParts K U name None) (\<lambda>(label, tld, hash).
     bind_res (nameRecordOf K U name) (\<lambda>nameRecord.
     bind_res (just (getTokenizeNameInstructionAsync K (ix_input
       [(''owner'', Some (SignerI owner)), (''nameRecord'', Some (AddrI nameRecord)),
        (''mint'', Some (SignerI mint))]
       [(''name'', VStr label)]))) (\<lambda>ixs. Inr (ixs, mint))))"

definition buildRedeemInstructions ::
  "kit \<Rightarrow> unicode \<Rightarrow> find_ata \<Rightarrow> address \<Rightarrow> jsstr \<Rightarrow> address \<Rightarrow> instruction list res" where
  "buildRedeemInstructions K U A redeemer name nftMint =
     bind_res (nameRecordOf K U name) (\<lambda>nameRecord.
     bind_res (ataFor A redeemer nftMint) (\<lambda>tokenAccount.
     just (getRedeemNameInstructionAsync K (ix_input
       [(''redeemer'', Some (SignerI redeemer)), (''nameRecord'', Some (AddrI nameRecord)),
        (''mint'', Some (AddrI nftMint)), (''tokenAccount'', Some (AddrI tokenAccount))] []))))"

section \<open>Subdomains\<close>

definition buildWrapSubdomainInstructions ::
  "kit \<Rightarrow> unicode \<Rightarrow> address \<Rightarrow> jsstr \<Rightarrow> jsstr \<Rightarrow> address option \<Rightarrow> (instruction list \<times> jsstr) res" where
  "buildWrapSubdomainInstructions K U owner parent label subdomainOwner =
     bind_res (nameInfo K U parent None) (\<lambda>p.
       let label = lower U label in
       bind_res (first_of (findNameRecordPda K (ni_hash p))) (\<lambda>parentName.
       bind_res (getWrapSubdomainInstructionAsync K (ix_input
         [(''owner'', Some (SignerI owner)), (''subdomainOwner'', Some (AddrI (or_else subdomainOwner owner))),
          (''parentName'', Some (AddrI parentName))]
         [(''label'', VStr label), (''nameHash'', VBytes (computeSubdomainHash K (ni_hash p) label))])) (\<lambda>ix.
       Inr ([ix], label @ js ''.'' @ join (js ''.'') (ni_labels p @ [ni_tld p])))))"

definition buildRevokeSubdomainInstructions ::
  "kit \<Rightarrow> unicode \<Rightarrow> address \<Rightarrow> jsstr \<Rightarrow> jsstr \<Rightarrow> instruction list res" where
  "buildRevokeSubdomainInstructions K U owner parent label =
     bind_res (nameInfo K U parent None) (\<lambda>p.
     bind_res (first_of (findNameRecordPda K (ni_hash p))) (\<lambda>parentName.
     bind_res (first_of (findNameRecordPda K
       (computeSubdomainHash K (ni_hash p) (lower U label)))) (\<lambda>nameRecord.
     just (getRevokeSubdomainInstruction K (ix_input
       [(''owner'', Some (SignerI owner)), (''parentName'', Some (AddrI parentName)),
        (''nameRecord'', Some (AddrI nameRecord))] [])))))"

section \<open>Auctions\<close>

definition buildStartAuctionInstructions ::
  "kit \<Rightarrow> unicode \<Rightarrow> address \<Rightarrow> jsstr \<Rightarrow> address \<Rightarrow> int \<Rightarrow> int option \<Rightarrow> int \<Rightarrow> instruction list res" where
  "buildStartAuctionInstructions K U owner name solansMint reservePrice minIncrement durationSeconds =
     bind_res (first_of (findAuction K U name None)) (\<lambda>auction.
     bind_res (nameRecordOf K U name) (\<lambda>nameRecord.
     just (getStartAuctionInstructionAsync K (ix_input
       [(''owner'', Some (SignerI owner)), (''nameRecord'', Some (AddrI nameRecord)),
        (''auction'', Some (AddrI auction)), (''solansMint'', Some (AddrI solansMint))]
       [(''reservePrice'', VNum reservePrice), (''minIncrement'', VNum (or_else minIncrement 1)),
        (''durationSeconds'', VNum durationSeconds)]))))"

definition buildBidInstructions ::
  "kit \<Rightarrow> unicode \<Rightarrow> find_ata \<Rightarrow> address \<Rightarrow> jsstr \<Rightarrow> address \<Rightarrow> int \<Rightarrow> address option \<Rightarrow>
   instruction list res" where
  "buildBidInstructions K U A bidder name solansMint amount prevBidder =
     bind_res (first_of (findAuction K U name None)) (\<lambda>auction.
     bind_res (ataFor A bidder solansMint) (\<lambda>bidderSolansAccount.
     bind_res (ata_if A prevBidder (or_else prevBidder []) solansMint) (\<lambda>prevBidderSolansAccount.
     bind_res (ataFor A auction solansMint) (\<lambda>bidVault.
     just (getBidInstruction K (ix_input
       [(''bidder'', Some (SignerI bidder)), (''auction'', Some (AddrI auction)),
        (''bidderSolansAccount'', Some (AddrI bidderSolansAccount)),
        (''prevBidderSolansAccount'', prevBidderSolansAccount), (''bidVault'', Some (AddrI bidVault)),
        (''solansMint'', Some (AddrI solansMint))]
       [(''amount'', VNum amount)]))))))"

definition buildSettleAuctionInstructions ::
  "kit \<Rightarrow> unicode \<Rightarrow> find_ata \<Rightarrow> address \<Rightarrow> jsstr \<Rightarrow> address \<Rightarrow> address \<Rightarrow> address option \<Rightarrow>
   instruction list res" where
  "buildSettleAuctionInstructions K U A settler name solansMint seller winner =
     bind_res (first_of (findAuction K U name None)) (\<lambda>auction.
     bind_res (ata_if A winner seller solansMint) (\<lambda>sellerSolansAccount.
     bind_res (nameRecordOf K U name) (\<lambda>nameRecord.
     bind_res (ataFor A auction solansMint) (\<lambda>bidVault.
     just (getSettleAuctionInstructionAsync K (ix_input
       [(''settler'', Some (SignerI settler)), (''seller'', Some (AddrI seller)),
        (''sellerSolansAccount'', sellerSolansAccount), (''nameRecord'', Some (AddrI nameRecord)),
        (''auction'', Some (AddrI auction)), (''bidVault'', Some (AddrI bidVault)),
        (''solansMint'', Some (AddrI solansMint))] []))))))"

definition buildCancelAuctionInstructions ::
  "kit \<Rightarrow> unicode \<Rightarrow> find_ata \<Rightarrow> address \<Rightarrow> jsstr \<Rightarrow> address \<Rightarrow> instruction list res" where
  "buildCancelAuctionInstructions K U A seller name solansMint =
     bind_res (first_of (findAuction K U name None)) (\<lambda>auction.
     bind_res (nameRecordOf K U name) (\<lambda>nameRecord.
     bind_res (ataFor A auction solansMint) (\<lambda>bidVault.
     just (getCancelAuctionInstruction K (ix_input
       [(''seller'', Some (SignerI seller)), (''nameRecord'', Some (AddrI nameRecord)),
        (''auction'', Some (AddrI auction)), (''bidVault'', Some (AddrI bidVault))] [])))))"

section \<open>Staking\<close>

record stakePoolInfo =
  pi_solansMint :: address
  pi_stakeVault :: address
  pi_rewardVault :: address

text \<open>The accounts \<open>stake\<close> and \<open>unstake\<close> pass.\<close>

definition staking_accounts ::
  "address \<Rightarrow> stakePoolInfo \<Rightarrow> address \<Rightarrow> address \<Rightarrow> address \<Rightarrow> (string \<times> acctVal option) list" where
  "staking_accounts staker pool paymentMint tokenAccount rewardAccount =
     [(''staker'', Some (SignerI staker)), (''stakerTokenAccount'', Some (AddrI tokenAccount)),
      (''stakerRewardAccount'', Some (AddrI rewardAccount)), (''stakeVault'', Some (AddrI (pi_stakeVault pool))),
      (''rewardVault'', Some (AddrI (pi_rewardVault pool))), (''solansMint'', Some (AddrI (pi_solansMint pool))),
      (''paymentMint'', Some (AddrI paymentMint))]"

definition buildStakeInstructions ::
  "kit \<Rightarrow> find_ata \<Rightarrow> address \<Rightarrow> stakePoolInfo \<Rightarrow> address \<Rightarrow> int \<Rightarrow> instruction list res" where
  "buildStakeInstructions K A staker pool paymentMint amount =
     bind_res (ataFor A staker (pi_solansMint pool)) (\<lambda>tokenAccount.
     bind_res (ataFor A staker paymentMint) (\<lambda>rewardAccount.
     just (getStakeInstructionAsync K (ix_input
       (staking_accounts staker pool paymentMint tokenAccount rewardAccount) [(''amount'', VNum amount)]))))"

definition buildUnstakeInstructions ::
  "kit \<Rightarrow> find_ata \<Rightarrow> address \<Rightarrow> stakePoolInfo \<Rightarrow> address \<Rightarrow> int \<Rightarrow> instruction list res" where
  "buildUnstakeInstructions K A staker pool paymentMint amount =
     bind_res (ataFor A staker (pi_solansMint pool)) (\<lambda>tokenAccount.
     bind_res (ataFor A staker paymentMint) (\<lambda>rewardAccount.
     just (getUnstakeInstructionAsync K (ix_input
       (staking_accounts staker pool paymentMint tokenAccount rewardAccount) [(''amount'', VNum amount)]))))"

definition buildClaimRewardsInstructions ::
  "kit \<Rightarrow> find_ata \<Rightarrow> address \<Rightarrow> stakePoolInfo \<Rightarrow> address \<Rightarrow> instruction list res" where
  "buildClaimRewardsInstructions K A staker pool paymentMint =
     bind_res (ataFor A staker paymentMint) (\<lambda>rewardAccount.
     just (getClaimRewardsInstructionAsync K (ix_input
       [(''staker'', Some (SignerI staker)), (''stakerRewardAccount'', Some (AddrI rewardAccount)),
        (''rewardVault'', Some (AddrI (pi_rewardVault pool))), (''paymentMint'', Some (AddrI paymentMint))] [])))"

section \<open>From a built instruction to its event\<close>

text \<open>The writes on an existing name that the indexer tracks, with the event each must be decoded to. The
  records are the addresses of the name.\<close>

datatype sdk_write =
    RenewWrite renewArgs
  | TransferWrite address jsstr address
  | BurnWrite address jsstr
  | ListWrite address jsstr int "int option"
  | CancelListingWrite address jsstr address
  | BuyWrite address jsstr address int address

fun write_name :: "sdk_write \<Rightarrow> jsstr" where
  "write_name (RenewWrite args) = rn_name args"
| "write_name (TransferWrite owner name newOwner) = name"
| "write_name (BurnWrite owner name) = name"
| "write_name (ListWrite owner name price dur) = name"
| "write_name (CancelListingWrite canceller name seller) = name"
| "write_name (BuyWrite buyer name seller price treasury) = name"

fun build_write :: "kit \<Rightarrow> unicode \<Rightarrow> find_ata \<Rightarrow> sdk_write \<Rightarrow> instruction list res" where
  "build_write K U A (RenewWrite args) = buildRenewInstructions K U A args"
| "build_write K U A (TransferWrite owner name newOwner) = buildTransferInstructions K U owner name newOwner"
| "build_write K U A (BurnWrite owner name) = buildBurnNameInstructions K U owner name"
| "build_write K U A (ListWrite owner name price dur) = buildListInstructions K U owner name price dur"
| "build_write K U A (CancelListingWrite canceller name seller) =
     buildCancelListingInstructions K U canceller name seller"
| "build_write K U A (BuyWrite buyer name seller price treasury) =
     buildBuyInstructions K U buyer name seller price treasury"

fun write_event :: "unicode \<Rightarrow> address \<Rightarrow> sdk_write \<Rightarrow> indexEvent" where
  "write_event U rec (RenewWrite args) =
     (case parseName U (rn_name args) None of
        Inr (label, tld) \<Rightarrow> Renew rec label tld (or_else (rn_years args) 1)
      | Inl e \<Rightarrow> Renew rec [] [] 0)"
| "write_event U rec (TransferWrite owner name newOwner) = Transfer rec newOwner"
| "write_event U rec (BurnWrite owner name) = Burn rec"
| "write_event U rec (ListWrite owner name price dur) = List_Event rec owner (int_str price)"
| "write_event U rec (CancelListingWrite canceller name seller) = Unlist rec"
| "write_event U rec (BuyWrite buyer name seller price treasury) = Buy rec buyer"

text \<open>The numbers fit the argument types and the addresses are addresses.\<close>

fun write_ok :: "kit \<Rightarrow> sdk_write \<Rightarrow> bool" where
  "write_ok K (RenewWrite args) \<longleftrightarrow> num_range U16C (or_else (rn_years args) 1)"
| "write_ok K (TransferWrite owner name newOwner) \<longleftrightarrow> isAddress K newOwner"
| "write_ok K (BurnWrite owner name) \<longleftrightarrow> True"
| "write_ok K (ListWrite owner name price dur) \<longleftrightarrow>
     num_range U64C price \<and> num_range I64C (or_else dur DEFAULT_LISTING_SECONDS)"
| "write_ok K (CancelListingWrite canceller name seller) \<longleftrightarrow> True"
| "write_ok K (BuyWrite buyer name seller price treasury) \<longleftrightarrow> num_range U64C price"

lemma just_Inr [simp]: "just r = Inr ixs \<longleftrightarrow> (\<exists>ix. r = Inr ix \<and> ixs = [ix])"
  by (auto simp: just_def res_simps)

lemma first_of_Inr [simp]: "first_of r = Inr a \<longleftrightarrow> (\<exists>b. r = Inr (a, b))"
  by (auto simp: first_of_def res_simps)

lemma nameRecordOf_iff: "nameRecordOf K U name = Inr rec \<longleftrightarrow> (\<exists>b. findNameRecord K U name None = Inr (rec, b))"
  by (auto simp: nameRecordOf_def findNameRecord_def nameHashFor_def res_simps)

lemma canonical_text_ok: "canonical_label l \<Longrightarrow> text_ok l"
  using canonical_label_scalar[of l] label_char_nonzero
  by (auto simp: text_ok_def canonical_label_def list_all_iff)

lemma tld_text_ok: "isAllowedTld tld \<Longrightarrow> text_ok tld"
  by (auto dest!: allowed_tld_cases simp: text_ok_def scalar_def utf8_def utf8_char_def)

text \<open>What a parser of the instruction sees: the program's address, its tag, the arguments and the accounts.\<close>

lemma built_parsed:
  assumes D: "build = build_ix K slots defaults encoder disc" "parse = parse_ix K n names decoder"
    and K: "kit_ok K" and B: "build (ix_input accts args) = Inr ix"
    and L: "layout_ok slots encoder disc n names decoder" and A: "args_ok K encoder (ix_input accts args)"
    and T: "(disc, kind) \<in> set identify_table"
    and G: "list_all (\<lambda>a. a \<notin> fst ` set defaults \<and> (a, False) \<in> set names) given"
    and W: "list_all (\<lambda>a. (a, False) \<in> set names) derived"
  shows "\<exists>p env. parse ix = Inr p \<and> ix_programAddress ix = SOLANS_PROGRAM_ADDRESS \<and>
    identifySolansInstruction K (ix_data ix) = Inr kind \<and>
    list_all (\<lambda>(f, c). f \<noteq> ''discriminator'' \<longrightarrow> map_of args f = Some (fld f (px_data p))) (arg_fields encoder) \<and>
    list_all (\<lambda>a. \<forall>v. map_of accts a = Some (Some v) \<longrightarrow> px_address p a = val_address v) given \<and>
    resolve_defaults K (ix_input accts args) defaults (in_account (ix_input accts args)) = Inr env \<and>
    list_all (\<lambda>a. \<forall>v. env a = Some v \<longrightarrow> px_address p a = val_address v) derived"
proof -
  obtain p rest env where p: "parse_ix K n names decoder ix = Inr p" "ix_data ix = disc @ rest"
      "ix_programAddress ix = SOLANS_PROGRAM_ADDRESS"
      "\<forall>f \<in> set (map fst (arg_fields encoder)). f \<noteq> ''discriminator'' \<longrightarrow>
         in_arg (ix_input accts args) f = Some (fld f (px_data p))"
    and env: "resolve_defaults K (ix_input accts args) defaults (in_account (ix_input accts args)) = Inr env"
      "\<forall>a v. env a = Some v \<and> (a, False) \<in> set names \<longrightarrow> px_address p a = val_address v"
    using build_parse[OF K L A _ B[unfolded D(1)]] by (auto simp: ix_input_def)
  have "px_address p a = val_address v"
    if "map_of accts a = Some (Some v)" "a \<in> set given" for a v
  proof -
    have a: "a \<notin> fst ` set defaults" "(a, False) \<in> set names" using G that(2) by (auto simp: list_all_iff)
    have "env a = Some v" using resolve_defaults_other[OF env(1) a(1)] that(1) by (simp add: ix_input_def)
    with env(2) a(2) show ?thesis by blast
  qed
  with p env W identify_tag[OF K T] show ?thesis
    by (intro exI[of _ p] exI[of _ env]) (auto simp: ix_input_def D(2) list_all_iff)
qed

lemmas decoded_simps = layout_ok_def args_ok_def ix_input_def identify_table_defs

lemmas event_simps =
  parseSolansInstruction_def event_of_def renew_event_def register_event_def px_str_def px_num_def px_hex_def

lemma transfer_decoded:
  assumes K: "kit_ok K" and b: "getTransferNameInstruction K (ix_input accts [(''newOwner'', VAddr newOwner)]) = Inr ix"
    and a: "map_of accts ''nameRecord'' = Some (Some v)"
    and v: "isAddress K newOwner"
  shows "parseSolansInstruction K ix = Inr (Some (Transfer (val_address v) newOwner))"
proof -
  obtain p where "parseTransferNameInstruction K ix = Inr p" "ix_programAddress ix = SOLANS_PROGRAM_ADDRESS"
    "identifySolansInstruction K (ix_data ix) = Inr TransferName"
    "fld ''newOwner'' (px_data p) = VAddr newOwner" "px_address p ''nameRecord'' = val_address v"
    using built_parsed[OF getTransferNameInstruction_def parseTransferNameInstruction_def K b, of TransferName "[''nameRecord'']" "[]"] a v
    by (auto simp: decoded_simps getTransferNameInstructionDataEncoder_def getTransferNameInstructionDataDecoder_def
        TRANSFER_NAME_DISCRIMINATOR_def)
  then show ?thesis by (simp add: event_simps)
qed

lemma burn_decoded:
  assumes K: "kit_ok K" and b: "getBurnNameInstruction K (ix_input accts []) = Inr ix"
    and a: "map_of accts ''nameRecord'' = Some (Some v)"
  shows "parseSolansInstruction K ix = Inr (Some (Burn (val_address v)))"
proof -
  obtain p where "parseBurnNameInstruction K ix = Inr p" "ix_programAddress ix = SOLANS_PROGRAM_ADDRESS"
    "identifySolansInstruction K (ix_data ix) = Inr BurnName"
    "px_address p ''nameRecord'' = val_address v"
    using built_parsed[OF getBurnNameInstruction_def parseBurnNameInstruction_def K b, of BurnName "[''nameRecord'']" "[]"] a
    by (auto simp: decoded_simps getBurnNameInstructionDataEncoder_def getBurnNameInstructionDataDecoder_def
        BURN_NAME_DISCRIMINATOR_def)
  then show ?thesis by (simp add: event_simps)
qed

lemma list_decoded:
  assumes K: "kit_ok K" and b: "getListNameInstruction K (ix_input accts [(''price'', VNum price), (''durationSeconds'', VNum dur)]) = Inr ix"
    and a: "map_of accts ''nameRecord'' = Some (Some v)" "map_of accts ''owner'' = Some (Some w)"
    and v: "num_range U64C price" "num_range I64C dur"
  shows "parseSolansInstruction K ix = Inr (Some (List_Event (val_address v) (val_address w) (int_str price)))"
proof -
  obtain p where "parseListNameInstruction K ix = Inr p" "ix_programAddress ix = SOLANS_PROGRAM_ADDRESS"
    "identifySolansInstruction K (ix_data ix) = Inr ListName"
    "fld ''price'' (px_data p) = VNum price" "px_address p ''nameRecord'' = val_address v" "px_address p ''owner'' = val_address w"
    using built_parsed[OF getListNameInstruction_def parseListNameInstruction_def K b, of ListName "[''nameRecord'', ''owner'']" "[]"] a v
    by (auto simp: decoded_simps getListNameInstructionDataEncoder_def getListNameInstructionDataDecoder_def
        LIST_NAME_DISCRIMINATOR_def)
  then show ?thesis by (simp add: event_simps)
qed

lemma cancelListing_decoded:
  assumes K: "kit_ok K" and b: "getCancelListingInstruction K (ix_input accts []) = Inr ix"
    and a: "map_of accts ''nameRecord'' = Some (Some v)"
  shows "parseSolansInstruction K ix = Inr (Some (Unlist (val_address v)))"
proof -
  obtain p where "parseCancelListingInstruction K ix = Inr p" "ix_programAddress ix = SOLANS_PROGRAM_ADDRESS"
    "identifySolansInstruction K (ix_data ix) = Inr CancelListing"
    "px_address p ''nameRecord'' = val_address v"
    using built_parsed[OF getCancelListingInstruction_def parseCancelListingInstruction_def K b, of CancelListing "[''nameRecord'']" "[]"] a
    by (auto simp: decoded_simps getCancelListingInstructionDataEncoder_def getCancelListingInstructionDataDecoder_def
        CANCEL_LISTING_DISCRIMINATOR_def)
  then show ?thesis by (simp add: event_simps)
qed

lemma buy_decoded:
  assumes K: "kit_ok K" and b: "getBuyNameInstruction K (ix_input accts [(''expectedPrice'', VNum price)]) = Inr ix"
    and a: "map_of accts ''nameRecord'' = Some (Some v)" "map_of accts ''buyer'' = Some (Some w)"
    and v: "num_range U64C price"
  shows "parseSolansInstruction K ix = Inr (Some (Buy (val_address v) (val_address w)))"
proof -
  obtain p where "parseBuyNameInstruction K ix = Inr p" "ix_programAddress ix = SOLANS_PROGRAM_ADDRESS"
    "identifySolansInstruction K (ix_data ix) = Inr BuyName"
    "px_address p ''nameRecord'' = val_address v" "px_address p ''buyer'' = val_address w"
    using built_parsed[OF getBuyNameInstruction_def parseBuyNameInstruction_def K b, of BuyName "[''nameRecord'', ''buyer'']" "[]"] a v
    by (auto simp: decoded_simps getBuyNameInstructionDataEncoder_def getBuyNameInstructionDataDecoder_def
        BUY_NAME_DISCRIMINATOR_def)
  then show ?thesis by (simp add: event_simps)
qed

lemma renew_decoded:
  assumes K: "kit_ok K" and b: "getRenewNameInstructionAsync K (ix_input accts [(''name'', VStr label), (''tld'', VStr tld), (''years'', VNum years)]) = Inr ix"
    and a: "map_of accts ''nameRecord'' = Some (Some v)"
    and v: "text_ok label" "text_ok tld" "num_range U16C years"
  shows "parseSolansInstruction K ix = Inr (Some (Renew (val_address v) label tld years))"
proof -
  obtain p where "parseRenewNameInstruction K ix = Inr p" "ix_programAddress ix = SOLANS_PROGRAM_ADDRESS"
    "identifySolansInstruction K (ix_data ix) = Inr RenewName"
    "fld ''name'' (px_data p) = VStr label" "fld ''tld'' (px_data p) = VStr tld" "fld ''years'' (px_data p) = VNum years"
    "px_address p ''nameRecord'' = val_address v"
    using built_parsed[OF getRenewNameInstructionAsync_def parseRenewNameInstruction_def K b, of RenewName "[''nameRecord'']" "[]"] a v
    by (auto simp: decoded_simps getRenewNameInstructionDataEncoder_def getRenewNameInstructionDataDecoder_def
        RENEW_NAME_DISCRIMINATOR_def)
  then show ?thesis by (simp add: event_simps)
qed

text \<open>Registration and subdomain creation leave the record's address to the generated builder, which derives it
  from the hash argument.\<close>

lemma register_decoded:
  assumes K: "kit_ok K" and b: "getRegisterNameInstructionAsync K (ix_input accts
      [(''name'', VStr label), (''tld'', VStr tld), (''nameHash'', VBytes hash), (''years'', VNum years)]) = Inr ix"
    and a: "map_of accts ''nameRecord'' = None" "map_of accts ''owner'' = Some (Some w)"
    and r: "findNameRecordPda K hash = Inr (rec, bmp)"
    and v: "text_ok label" "text_ok tld" "length hash = 32" "num_range U16C years"
  shows "parseSolansInstruction K ix =
    Inr (Some (Register rec (label @ js ''.'' @ tld) label tld (val_address w) (hex_str hash) years))"
proof -
  obtain p env where p: "parseRegisterNameInstruction K ix = Inr p" "ix_programAddress ix = SOLANS_PROGRAM_ADDRESS"
    "identifySolansInstruction K (ix_data ix) = Inr RegisterName"
    "fld ''name'' (px_data p) = VStr label" "fld ''tld'' (px_data p) = VStr tld"
    "fld ''nameHash'' (px_data p) = VBytes hash" "fld ''years'' (px_data p) = VNum years"
    "px_address p ''owner'' = val_address w"
    and env: "resolve_defaults K (ix_input accts
        [(''name'', VStr label), (''tld'', VStr tld), (''nameHash'', VBytes hash), (''years'', VNum years)])
       [(''config'', ConfigPda), (''nameRecord'', NameRecordPda ''nameHash''),
        (''tokenProgram'', ConstAddr TOKEN_PROGRAM), (''systemProgram'', ConstAddr SYSTEM_PROGRAM)]
       (in_account (ix_input accts
        [(''name'', VStr label), (''tld'', VStr tld), (''nameHash'', VBytes hash), (''years'', VNum years)])) = Inr env"
      "\<forall>v. env ''nameRecord'' = Some v \<longrightarrow> px_address p ''nameRecord'' = val_address v"
    using built_parsed[OF getRegisterNameInstructionAsync_def parseRegisterNameInstruction_def K b,
        of RegisterName "[''owner'']" "[''nameRecord'']"] a v
    by (auto simp: decoded_simps getRegisterNameInstructionDataEncoder_def getRegisterNameInstructionDataDecoder_def
        REGISTER_NAME_DISCRIMINATOR_def simp del: resolve_defaults.simps)
  have "env ''nameRecord'' = Some (PdaI rec bmp)"
    by (rule resolve_defaults_record[where f = "''nameHash''", OF env(1) _ _ _ _ r]) (simp_all add: ix_input_def a)
  with p env(2) show ?thesis by (simp add: event_simps)
qed

lemma subdomain_decoded:
  assumes K: "kit_ok K" and b: "getWrapSubdomainInstructionAsync K (ix_input accts
      [(''label'', VStr label), (''nameHash'', VBytes hash)]) = Inr ix"
    and a: "map_of accts ''nameRecord'' = None" "map_of accts ''parentName'' = Some (Some u)"
      "map_of accts ''subdomainOwner'' = Some (Some w)"
    and r: "findNameRecordPda K hash = Inr (rec, bmp)"
    and v: "text_ok label" "length hash = 32"
  shows "parseSolansInstruction K ix =
    Inr (Some (Subdomain_Event rec (val_address u) (val_address w) label (hex_str hash)))"
proof -
  obtain p env where p: "parseWrapSubdomainInstruction K ix = Inr p" "ix_programAddress ix = SOLANS_PROGRAM_ADDRESS"
    "identifySolansInstruction K (ix_data ix) = Inr WrapSubdomain"
    "fld ''label'' (px_data p) = VStr label" "fld ''nameHash'' (px_data p) = VBytes hash"
    "px_address p ''parentName'' = val_address u" "px_address p ''subdomainOwner'' = val_address w"
    and env: "resolve_defaults K (ix_input accts [(''label'', VStr label), (''nameHash'', VBytes hash)])
       [(''nameRecord'', NameRecordPda ''nameHash''), (''systemProgram'', ConstAddr SYSTEM_PROGRAM)]
       (in_account (ix_input accts [(''label'', VStr label), (''nameHash'', VBytes hash)])) = Inr env"
      "\<forall>v. env ''nameRecord'' = Some v \<longrightarrow> px_address p ''nameRecord'' = val_address v"
    using built_parsed[OF getWrapSubdomainInstructionAsync_def parseWrapSubdomainInstruction_def K b,
        of WrapSubdomain "[''parentName'', ''subdomainOwner'']" "[''nameRecord'']"] a v
    by (auto simp: decoded_simps getWrapSubdomainInstructionDataEncoder_def
        getWrapSubdomainInstructionDataDecoder_def WRAP_SUBDOMAIN_DISCRIMINATOR_def simp del: resolve_defaults.simps)
  have "env ''nameRecord'' = Some (PdaI rec bmp)"
    by (rule resolve_defaults_record[where f = "''nameHash''", OF env(1) _ _ _ _ r]) (simp_all add: ix_input_def a)
  with p env(2) show ?thesis by (simp add: event_simps)
qed

text \<open>The indexer ignores a tokenization.\<close>

lemma tokenize_ignored:
  assumes K: "kit_ok K" and b: "getTokenizeNameInstructionAsync K (ix_input accts [(''name'', VStr label)]) = Inr ix"
    and v: "text_ok label"
  shows "parseSolansInstruction K ix = Inr None"
proof -
  have "ix_programAddress ix = SOLANS_PROGRAM_ADDRESS \<and> identifySolansInstruction K (ix_data ix) = Inr TokenizeName"
    using built_parsed[OF getTokenizeNameInstructionAsync_def parseTokenizeNameInstruction_def K b,
        of TokenizeName "[]" "[]"] v
    by (auto simp: decoded_simps getTokenizeNameInstructionDataEncoder_def getTokenizeNameInstructionDataDecoder_def
        TOKENIZE_NAME_DISCRIMINATOR_def simp del: resolve_defaults.simps)
  then show ?thesis by (simp add: parseSolansInstruction_def)
qed

text \<open>The hash of a name has the length of the hash function's output.\<close>

lemma nameParts_record:
  assumes "nameParts K U name None = Inr (label, tld, hash)"
  shows "canonical_label label \<and> isAllowedTld tld \<and> hash = keccak_256 K (utf8 (label @ js ''.'' @ tld)) \<and>
    findNameRecord K U name None = findNameRecordPda K hash"
proof -
  have p: "parseName U name None = Inr (label, tld)" and h: "hash = compute_name_hash (keccak_256 K) label tld"
    using assms by (simp_all add: nameParts_iff)
  have "canonical_label label" "isAllowedTld tld" using p parseName_iff parseName_tld by blast+
  moreover have "findNameRecord K U name None = findNameRecordPda K hash"
    using nameParts_nameInfo[OF assms] by (auto simp: findNameRecord_def nameHashFor_def)
  ultimately show ?thesis
    using onchain_hash_input[of "[label]" tld "keccak_256 K"] by (simp add: h)
qed

text \<open>The name a subdomain builder returns is the child's path.\<close>

lemma child_name:
  assumes "ls \<noteq> []"
  shows "label @ js ''.'' @ join (js ''.'') (ls @ [tld]) = dotted (label # ls) tld"
  using assms by (cases ls) (simp_all add: dotted_def)

lemma renew_write:
  assumes K: "kit_ok K" and y: "num_range U16C (or_else (rn_years args) 1)"
    and b: "buildRenewInstructions K U A args = Inr ixs"
  shows "\<exists>rec bmp. findNameRecord K U (rn_name args) None = Inr (rec, bmp) \<and>
    map (parseSolansInstruction K) ixs = [Inr (Some (write_event U rec (RenewWrite args)))]"
proof -
  obtain label tld hash rec bmp ix accts where p: "nameParts K U (rn_name args) None = Inr (label, tld, hash)"
    and f: "findNameRecordPda K hash = Inr (rec, bmp)"
    and ix: "getRenewNameInstructionAsync K (ix_input accts
      [(''name'', VStr label), (''tld'', VStr tld), (''years'', VNum (or_else (rn_years args) 1))]) = Inr ix"
    and a: "map_of accts ''nameRecord'' = Some (Some (AddrI rec))" and r: "ixs = [ix]"
    using b by (fastforce simp: buildRenewInstructions_def res_simps)
  have "text_ok label" "text_ok tld"
    using nameParts_record[OF p] by (auto intro: canonical_text_ok tld_text_ok)
  with renew_decoded[OF K ix a _ _ y] nameParts_record[OF p] p f r show ?thesis by (simp add: nameParts_iff)
qed

text \<open>A subdomain instruction exists only if its record's address could be derived.\<close>

lemma wrap_derives:
  assumes "getWrapSubdomainInstructionAsync K (ix_input accts
    [(''label'', VStr label), (''nameHash'', VBytes hash)]) = Inr ix" "map_of accts ''nameRecord'' = None"
  shows "\<exists>rec bmp. findNameRecordPda K hash = Inr (rec, bmp)"
  using assms by (auto simp: getWrapSubdomainInstructionAsync_def build_ix_def ix_input_def absent_def arg_bytes_def
      pda_val_def res_simps)

text \<open>A generated builder whose arguments fit and whose default accounts resolve returns an instruction.\<close>

lemma builder_returns:
  assumes D: "build = build_ix K slots defaults encoder disc" and K: "kit_ok K" and A: "args_ok K encoder inp"
    and L: "encoder = StructC ((''discriminator'', FixSizeC BytesC 8) # arg_fields encoder)" "length disc = 8"
    and R: "resolve_defaults K inp defaults (in_account inp) = Inr env"
  shows "\<exists>ix. build inp = Inr ix"
proof -
  have C: "kit_codecs (encode K) (read K) (isAddress K)" using K by (rule kit_ok_codecs)
  obtain vs where vs: "pick_args (arg_fields encoder) (in_arg inp) = Inr vs"
    "wt_fields (isAddress K) (arg_fields encoder) vs" using A by (auto simp: args_ok_def split: sum.splits)
  then have "wt (isAddress K) (StructC ((''discriminator'', FixSizeC BytesC 8) # arg_fields encoder))
      (VStruct ((''discriminator'', VBytes disc) # vs))" using L(2) by simp
  from kit_codecs.roundtrip[OF C this] L(1) obtain bs
    where "encode K encoder (VStruct ((''discriminator'', VBytes disc) # vs)) = Inr bs" by auto
  with R vs(1) show ?thesis by (simp add: D build_ix_def encode_data_def Let_def)
qed

section \<open>Sample inputs\<close>

definition sample_ata :: find_ata where
  "sample_ata owner mint prog = Inr (sample_address, 255)"

definition sample_registration :: registerArgs where
  "sample_registration = \<lparr>ra_payer = sample_wallet, ra_cfg = sample_config, ra_name = js ''alex.sol'', ra_owner = None,
     ra_years = Some 2, ra_referralTokenAccount = None, ra_withNft = Some False\<rparr>"

lemma sample_parts:
  "\<exists>hash rec b. nameParts ref_kit ascii_unicode (js ''alex.sol'') None = Inr (js ''alex'', js ''sol'', hash) \<and>
     length hash = 32 \<and> findNameRecordPda ref_kit hash = Inr (rec, b) \<and>
     findNameRecord ref_kit ascii_unicode (js ''alex.sol'') None = Inr (rec, b)"
proof -
  obtain hash where p: "nameParts ref_kit ascii_unicode (js ''alex.sol'') None = Inr (js ''alex'', js ''sol'', hash)"
    using sample_name by (simp add: nameParts_def)
  from nameParts_record[OF p] sample_record_pda p show ?thesis
    by (auto simp: ref_kit_def toy_hash_def)
qed

lemma sample_register_built:
  "\<exists>r. buildRegisterInstructions ref_kit ascii_unicode sample_ata sample_address sample_registration = Inr r"
proof -
  obtain hash rec b where h: "nameParts ref_kit ascii_unicode (js ''alex.sol'') None = Inr (js ''alex'', js ''sol'', hash)"
    "length hash = 32" "findNameRecordPda ref_kit hash = Inr (rec, b)" using sample_parts by blast
  let ?inp = "registerName_input sample_registration sample_wallet sample_address (js ''alex'') (js ''sol'') hash 2"
  have "text_ok (js ''alex'')" "text_ok (js ''sol'')" by (simp_all add: text_ok_ascii ascii_str_def)
  then have "args_ok ref_kit getRegisterNameInstructionDataEncoder ?inp"
    using h(2) by (simp add: args_ok_def getRegisterNameInstructionDataEncoder_def registerName_input_def ix_input_def del: js_Cons)
  moreover have "\<exists>env. resolve_defaults ref_kit ?inp
      [(''config'', ConfigPda), (''nameRecord'', NameRecordPda ''nameHash''),
       (''tokenProgram'', ConstAddr TOKEN_PROGRAM), (''systemProgram'', ConstAddr SYSTEM_PROGRAM)] (in_account ?inp) = Inr env"
    by (simp add: registerName_input_def ix_input_def absent_def arg_bytes_def pda_val_def h(3) sample_pdas)
  ultimately obtain ix where "getRegisterNameInstructionAsync ref_kit ?inp = Inr ix"
    using builder_returns[OF getRegisterNameInstructionAsync_def ref_kit_ok, of ?inp]
    by (auto simp: getRegisterNameInstructionDataEncoder_def REGISTER_NAME_DISCRIMINATOR_def simp del: resolve_defaults.simps)
  with h show ?thesis
    by (simp add: buildRegisterInstructions_def sample_registration_def ataFor_def first_of_def sample_ata_def del: js_Cons)
qed

lemma sample_list_built:
  "\<exists>ixs. buildListInstructions ref_kit ascii_unicode sample_wallet (js ''alex.sol'') 5000 None = Inr ixs"
proof -
  obtain hash rec b where h: "nameParts ref_kit ascii_unicode (js ''alex.sol'') None = Inr (js ''alex'', js ''sol'', hash)"
    "length hash = 32" "findNameRecord ref_kit ascii_unicode (js ''alex.sol'') None = Inr (rec, b)"
    using sample_parts by blast
  have "nameHashFor ref_kit ascii_unicode (js ''alex.sol'') None = Inr hash"
    using nameParts_nameInfo[OF h(1)] by (auto simp: nameHashFor_def)
  then obtain lst where l: "first_of (findListing ref_kit ascii_unicode (js ''alex.sol'') None) = Inr lst"
    using h(2) by (simp add: findListing_def ref_kit_def toy_pda_def LISTING_SEED_def utf8_def utf8_char_def del: js_Cons)
       (simp add: utf8_char_def)
  have n: "nameRecordOf ref_kit ascii_unicode (js ''alex.sol'') = Inr rec" using h(3) by (auto simp: nameRecordOf_iff)
  let ?inp = "ix_input [(''owner'', Some (SignerI sample_wallet)), (''nameRecord'', Some (AddrI rec)),
    (''listing'', Some (AddrI lst))] [(''price'', VNum 5000), (''durationSeconds'', VNum DEFAULT_LISTING_SECONDS)]"
  have "args_ok ref_kit getListNameInstructionDataEncoder ?inp"
    by (simp add: args_ok_def getListNameInstructionDataEncoder_def ix_input_def DEFAULT_LISTING_SECONDS_def)
  moreover have "\<exists>env. resolve_defaults ref_kit ?inp [(''systemProgram'', ConstAddr SYSTEM_PROGRAM)] (in_account ?inp) = Inr env"
    by (simp add: ix_input_def absent_def)
  ultimately obtain ix where "getListNameInstruction ref_kit ?inp = Inr ix"
    using builder_returns[OF getListNameInstruction_def ref_kit_ok, of ?inp]
    by (auto simp: getListNameInstructionDataEncoder_def LIST_NAME_DISCRIMINATOR_def simp del: resolve_defaults.simps)
  with n l show ?thesis by (simp add: buildListInstructions_def just_def del: js_Cons first_of_Inr)
qed

lemma sample_wrap_built:
  "\<exists>ixs child. buildWrapSubdomainInstructions ref_kit ascii_unicode sample_wallet (js ''alex.sol'') (js ''Pay'') None =
     Inr (ixs, child)"
proof -
  obtain hash rec b where h: "nameParts ref_kit ascii_unicode (js ''alex.sol'') None = Inr (js ''alex'', js ''sol'', hash)"
    "length hash = 32" "findNameRecordPda ref_kit hash = Inr (rec, b)" using sample_parts by blast
  obtain i where i: "nameInfo ref_kit ascii_unicode (js ''alex.sol'') None = Inr i" "ni_hash i = hash"
    using nameParts_nameInfo[OF h(1)] by auto
  have lo: "lower ascii_unicode (js ''Pay'') = js ''pay''" by (simp add: ascii_unicode_def ascii_lower_def)
  let ?c = "computeSubdomainHash ref_kit hash (js ''pay'')"
  have len: "length ?c = 32" by (simp add: computeSubdomainHash_eq compute_subdomain_hash_def ref_kit_def toy_hash_def)
  then obtain crec cb where c: "findNameRecordPda ref_kit ?c = Inr (crec, cb)"
    by (simp add: findNameRecordPda_def derive_def ref_kit_def toy_pda_def)
  let ?inp = "ix_input [(''owner'', Some (SignerI sample_wallet)), (''subdomainOwner'', Some (AddrI sample_wallet)),
    (''parentName'', Some (AddrI rec))] [(''label'', VStr (js ''pay'')), (''nameHash'', VBytes ?c)]"
  have "text_ok (js ''pay'')" by (simp add: text_ok_ascii ascii_str_def)
  then have "args_ok ref_kit getWrapSubdomainInstructionDataEncoder ?inp"
    using len by (simp add: args_ok_def getWrapSubdomainInstructionDataEncoder_def ix_input_def del: js_Cons)
  moreover have "\<exists>env. resolve_defaults ref_kit ?inp
      [(''nameRecord'', NameRecordPda ''nameHash''), (''systemProgram'', ConstAddr SYSTEM_PROGRAM)] (in_account ?inp) = Inr env"
    using c by (simp add: ix_input_def absent_def arg_bytes_def pda_val_def del: js_Cons)
  ultimately obtain ix where "getWrapSubdomainInstructionAsync ref_kit ?inp = Inr ix"
    using builder_returns[OF getWrapSubdomainInstructionAsync_def ref_kit_ok, of ?inp]
    by (auto simp: getWrapSubdomainInstructionDataEncoder_def WRAP_SUBDOMAIN_DISCRIMINATOR_def simp del: resolve_defaults.simps js_Cons)
  with i h(3) lo show ?thesis
    by (simp add: buildWrapSubdomainInstructions_def first_of_def Let_def del: js_Cons)
qed

text \<open>When the SDK builds a subdomain whose lower-cased label is a valid one, the child name it returns parses to the label under the parent's path, the indexer records the new subdomain at the address the client resolves that child name to, and the hash is the one the program computes for the path.\<close>

lemma wrapped_subdomain_is_found_under_its_name:
  assumes K: "kit_ok K" and U: "unicode_ok U" and len: "\<forall>b. length (keccak_256 K b) = 32"
    and b: "buildWrapSubdomainInstructions K U owner parent label subdomainOwner = Inr (ixs, child)"
    and p: "parsePath U parent None = Inr (ls, tld)" and depth: "length ls \<le> MAX_SUBDOMAIN_DEPTH"
    and l: "validate_name (lower U label) = Inr ()" and st: "list_all nfkc_stable (join [46] (lower U label # ls))"
  shows "\<exists>rec bmp prec pbmp. parsePath U child None = Inr (lower U label # ls, tld) \<and>
    findNameRecord K U child None = Inr (rec, bmp) \<and> findNameRecord K U parent None = Inr (prec, pbmp) \<and>
    map (parseSolansInstruction K) ixs = [Inr (Some (Subdomain_Event rec prec (or_else subdomainOwner owner)
      (lower U label) (hex_str (onchain_hash (keccak_256 K) tld (lower U label # ls)))))]"
proof -
  let ?l = "lower U label"
  have i: "nameInfo K U parent None = Inr (path_info K tld ls)" using p by (simp add: nameInfo_iff)
  have c: "canonical_path ls" "isAllowedTld tld" using p parsePath_iff parsePath_tld by blast+
  then have ls: "ls \<noteq> []" by (simp add: canonical_path_def)
  let ?h = "onchain_hash (keccak_256 K) tld ls"
  have h: "computeSubdomainHash K ?h ?l = onchain_hash (keccak_256 K) tld (?l # ls)"
    using ls by (simp add: computeSubdomainHash_eq onchain_hash_Cons)
  obtain prec pbmp ix where pr: "findNameRecordPda K ?h = Inr (prec, pbmp)"
    and ix: "getWrapSubdomainInstructionAsync K (ix_input
       [(''owner'', Some (SignerI owner)), (''subdomainOwner'', Some (AddrI (or_else subdomainOwner owner))),
        (''parentName'', Some (AddrI prec))]
       [(''label'', VStr ?l), (''nameHash'', VBytes (onchain_hash (keccak_256 K) tld (?l # ls)))]) = Inr ix"
    and r: "ixs = [ix]" "child = ?l @ js ''.'' @ join (js ''.'') (ls @ [tld])"
    using b i h by (auto simp: buildWrapSubdomainInstructions_def res_simps Let_def path_info_def)
  have cl: "canonical_label ?l" using l by (simp add: validate_name_iff)
  have path: "canonical_path (?l # ls)" using c(1) cl depth by (simp add: canonical_path_def MAX_SUBDOMAIN_DEPTH_def)
  have pp: "parsePath U child None = Inr (?l # ls, tld)"
    unfolding r(2) child_name[OF ls] using U path c(2) st by (rule parsePath_stable_dotted)
  have found: "findNameRecord K U n None = findNameRecordPda K (onchain_hash (keccak_256 K) tld m)"
    if "parsePath U n None = Inr (m, tld)" for n m
  proof -
    have "nameInfo K U n None = Inr (path_info K tld m)" using that by (simp add: nameInfo_iff)
    then show ?thesis by (simp add: findNameRecord_def nameHashFor_def path_info_def)
  qed
  obtain rec bmp where rec: "findNameRecordPda K (onchain_hash (keccak_256 K) tld (?l # ls)) = Inr (rec, bmp)"
    using wrap_derives[OF ix] by auto
  have "length (onchain_hash (keccak_256 K) tld (?l # ls)) = 32" using onchain_hash_input[of "?l # ls"] c(2) len by simp
  then have "parseSolansInstruction K ix = Inr (Some (Subdomain_Event rec prec (or_else subdomainOwner owner) ?l
      (hex_str (onchain_hash (keccak_256 K) tld (?l # ls)))))"
    using subdomain_decoded[OF K ix _ _ _ rec canonical_text_ok[OF cl]] by simp
  then show ?thesis using pp found[OF pp] found[OF p] rec pr r(1) by auto
qed

text \<open>A registration the SDK builds is decoded by the indexer as the registration of that name: at the address the client resolves the name to, with its label, TLD, owner, hash and years; the tokenization it appends exactly when the payer is the owner and did not opt out is ignored.\<close>

lemma sdk_registration_is_indexed:
  assumes K: "kit_ok K" and len: "\<forall>b. length (keccak_256 K b) = 32"
    and y: "num_range U16C (or_else (ra_years args) 1)"
    and b: "buildRegisterInstructions K U A mint args = Inr r"
  shows "\<exists>label tld bmp. parseName U (ra_name args) None = Inr (label, tld) \<and>
    findNameRecord K U (ra_name args) None = Inr (rr_nameRecord r, bmp) \<and>
    map (parseSolansInstruction K) (rr_instructions r) =
      Inr (Some (Register (rr_nameRecord r) (label @ js ''.'' @ tld) label tld
        (or_else (ra_owner args) (ra_payer args)) (hex_str (keccak_256 K (utf8 (label @ js ''.'' @ tld))))
        (or_else (ra_years args) 1))) # (if rr_nftMint r = None then [] else [Inr None]) \<and>
    (rr_nftMint r \<noteq> None \<longleftrightarrow> or_else (ra_withNft args) True \<and> or_else (ra_owner args) (ra_payer args) = ra_payer args)"
proof -
  obtain label tld hash rec bmp ata rix where p: "nameParts K U (ra_name args) None = Inr (label, tld, hash)"
    and f: "findNameRecordPda K hash = Inr (rec, bmp)"
    and ix: "getRegisterNameInstructionAsync K (registerName_input args (or_else (ra_owner args) (ra_payer args)) ata
      label tld hash (or_else (ra_years args) 1)) = Inr rix"
    and r: "(\<exists>tix. getTokenizeNameInstructionAsync K (ix_input
          [(''owner'', Some (SignerI (ra_payer args))), (''nameRecord'', Some (AddrI rec)),
           (''mint'', Some (SignerI mint))] [(''name'', VStr label)]) = Inr tix \<and>
          r = \<lparr>rr_instructions = [rix, tix], rr_nameRecord = rec, rr_nftMint = Some mint\<rparr> \<and>
          or_else (ra_withNft args) True \<and> or_else (ra_owner args) (ra_payer args) = ra_payer args) \<or>
        r = \<lparr>rr_instructions = [rix], rr_nameRecord = rec, rr_nftMint = None\<rparr> \<and>
          \<not> (or_else (ra_withNft args) True \<and> or_else (ra_owner args) (ra_payer args) = ra_payer args)"
    using b by (auto simp: buildRegisterInstructions_def res_simps Let_def split: if_splits)
  note n = nameParts_record[OF p]
  have v: "text_ok label" "text_ok tld" "length hash = 32"
    using n len by (auto intro: canonical_text_ok tld_text_ok)
  have "parseSolansInstruction K rix = Inr (Some (Register rec (label @ js ''.'' @ tld) label tld
      (or_else (ra_owner args) (ra_payer args)) (hex_str hash) (or_else (ra_years args) 1)))"
    using register_decoded[OF K ix[unfolded registerName_input_def] _ _ f v y] by simp
  moreover have "parseName U (ra_name args) None = Inr (label, tld)" using p by (simp add: nameParts_iff)
  ultimately show ?thesis using r n f tokenize_ignored[OF K _ v(1)] by auto
qed

section \<open>Properties\<close>

text \<open>C24: The renew, transfer, burn, list, cancel-listing and buy instructions the SDK builds for a name are each decoded by the indexer as exactly the matching event, at the record address the client resolves the name to.\<close>

theorem sdk_writes_are_indexed:
  assumes K: "kit_ok K" and ok: "write_ok K w" and b: "build_write K U A w = Inr ixs"
  shows "\<exists>rec bmp. findNameRecord K U (write_name w) None = Inr (rec, bmp) \<and>
    map (parseSolansInstruction K) ixs = [Inr (Some (write_event U rec w))]"
proof (cases w)
  case (RenewWrite args)
  then show ?thesis using renew_write[OF K, of args U A ixs] ok b by simp
next
  case (TransferWrite owner name newOwner)
  with ok b show ?thesis
    by (auto simp: buildTransferInstructions_def res_simps nameRecordOf_iff dest!: transfer_decoded[OF K])
next
  case (BurnWrite owner name)
  with b show ?thesis
    by (auto simp: buildBurnNameInstructions_def res_simps nameRecordOf_iff dest!: burn_decoded[OF K])
next
  case (ListWrite owner name price dur)
  with ok b show ?thesis
    by (auto simp: buildListInstructions_def res_simps nameRecordOf_iff dest!: list_decoded[OF K] simp del: num_range.simps)
next
  case (CancelListingWrite canceller name seller)
  with b show ?thesis
    by (auto simp: buildCancelListingInstructions_def res_simps nameRecordOf_iff dest!: cancelListing_decoded[OF K])
next
  case (BuyWrite buyer name seller price treasury)
  with ok b show ?thesis
    by (auto simp: buildBuyInstructions_def res_simps nameRecordOf_iff dest!: buy_decoded[OF K] simp del: num_range.simps)
qed

theorem sdk_writes_are_indexed_witness:
  "\<exists>ixs rec. buildListInstructions ref_kit ascii_unicode sample_wallet (js ''alex.sol'') 5000 None = Inr ixs \<and>
     map (parseSolansInstruction ref_kit) ixs = [Inr (Some (List_Event rec sample_wallet (int_str 5000)))]"
proof -
  obtain ixs where b: "buildListInstructions ref_kit ascii_unicode sample_wallet (js ''alex.sol'') 5000 None = Inr ixs"
    using sample_list_built by blast
  have ok: "write_ok ref_kit (ListWrite sample_wallet (js ''alex.sol'') 5000 None)"
    by (simp add: DEFAULT_LISTING_SECONDS_def)
  from sdk_writes_are_indexed[OF ref_kit_ok ok, of ascii_unicode undefined ixs] b show ?thesis by auto
qed

end
