(* ===== verification/Effects.thy ===== *)
theory Effects
  imports Prelude
begin

text \<open>
  Asynchronous code over injected effects: an effect takes the state of the world and returns the new
  state with a result or a rejection; \<open>None\<close> is an effect that never settles. \<open>await\<close> is the bind, a
  \<open>try\<close>/\<open>catch\<close> is \<open>catch_eff\<close>. The second part models \<open>Date.prototype.toISOString\<close>.
\<close>

section \<open>Effects\<close>

type_synonym ('w, 'a) eff = "'w \<Rightarrow> ('w \<times> 'a res) option"

definition ret :: "'a \<Rightarrow> ('w, 'a) eff" where
  "ret x w = Some (w, Inr x)"

definition throw :: "js_error \<Rightarrow> ('w, 'a) eff" where
  "throw e w = Some (w, Inl e)"

definition of_res :: "'a res \<Rightarrow> ('w, 'a) eff" where
  "of_res r w = Some (w, r)"

definition bind_eff :: "('w, 'a) eff \<Rightarrow> ('a \<Rightarrow> ('w, 'b) eff) \<Rightarrow> ('w, 'b) eff" where
  "bind_eff m f w =
     (case m w of
        None \<Rightarrow> None
      | Some (w', Inl e) \<Rightarrow> Some (w', Inl e)
      | Some (w', Inr x) \<Rightarrow> f x w')"

definition catch_eff :: "('w, 'a) eff \<Rightarrow> (js_error \<Rightarrow> ('w, 'a) eff) \<Rightarrow> ('w, 'a) eff" where
  "catch_eff m h w =
     (case m w of
        None \<Rightarrow> None
      | Some (w', Inl e) \<Rightarrow> h e w'
      | Some (w', Inr x) \<Rightarrow> Some (w', Inr x))"

named_theorems eff_simps

lemma ret_bind [eff_simps]: "bind_eff (ret x) f = f x"
  by (rule ext) (simp add: bind_eff_def ret_def)

lemma throw_bind [eff_simps]: "bind_eff (throw e) f = throw e"
  by (rule ext) (simp add: bind_eff_def throw_def)

lemma of_res_Inr [eff_simps]: "of_res (Inr x) = ret x"
  by (rule ext) (simp add: of_res_def ret_def)

lemma of_res_Inl [eff_simps]: "of_res (Inl e) = throw e"
  by (rule ext) (simp add: of_res_def throw_def)

lemma catch_ret [eff_simps]: "catch_eff (ret x) h = ret x"
  by (rule ext) (simp add: catch_eff_def ret_def)

lemma catch_throw [eff_simps]: "catch_eff (throw e) h = h e"
  by (rule ext) (simp add: catch_eff_def throw_def)

lemma bind_assoc: "bind_eff (bind_eff m f) g = bind_eff m (\<lambda>x. bind_eff (f x) g)"
  by (rule ext) (auto simp: bind_eff_def split: option.splits prod.splits sum.splits)

lemma bind_step: "m w = Some (w', Inr x) \<Longrightarrow> bind_eff m f w = f x w'"
  by (simp add: bind_eff_def)

lemma bind_fail: "m w = Some (w', Inl e) \<Longrightarrow> bind_eff m f w = Some (w', Inl e)"
  by (simp add: bind_eff_def)

lemma bind_settles:
  "\<exists>r. m w = Some r \<Longrightarrow> (\<And>w' x. m w = Some (w', Inr x) \<Longrightarrow> \<exists>r. f x w' = Some r) \<Longrightarrow>
   \<exists>r. bind_eff m f w = Some r"
  by (auto simp: bind_eff_def split: sum.splits)

lemma catch_settles:
  "\<exists>r. m w = Some r \<Longrightarrow> (\<And>w' e. m w = Some (w', Inl e) \<Longrightarrow> \<exists>r. h e w' = Some r) \<Longrightarrow>
   \<exists>r. catch_eff m h w = Some r"
  by (auto simp: catch_eff_def split: sum.splits)

section \<open>Dates\<close>

text \<open>The proleptic Gregorian date of a day number (days since 1970-01-01), computed over eras of 400
  years that start in March.\<close>

definition civil_from_days :: "int \<Rightarrow> int \<times> int \<times> int" where
  "civil_from_days z0 =
     (let z = z0 + 719468;
          era = z div 146097;
          doe = z mod 146097;
          yoe = (doe - doe div 1460 + doe div 36524 - doe div 146096) div 365;
          doy = doe - (365 * yoe + yoe div 4 - yoe div 100);
          mp = (5 * doy + 2) div 153;
          d = doy - (153 * mp + 2) div 5 + 1;
          m = (if mp < 10 then mp + 3 else mp - 9);
          y = yoe + era * 400 + (if m \<le> 2 then 1 else 0)
      in (y, m, d))"

definition pad :: "nat \<Rightarrow> int \<Rightarrow> jsstr" where
  "pad n z = (let s = dec_digits (nat z) in replicate (n - length s) 48 @ s)"

definition year_str :: "int \<Rightarrow> jsstr" where
  "year_str y = (if 0 \<le> y \<and> y \<le> 9999 then pad 4 y else if y < 0 then 45 # pad 6 (- y) else 43 # pad 6 y)"

definition range_error :: js_error where
  "range_error = JsError (js ''Invalid time value'')"

text \<open>\<open>new Date(secs * 1000).toISOString()\<close>; a time beyond 8.64e15 ms is invalid.\<close>

definition iso_string :: "int \<Rightarrow> jsstr res" where
  "iso_string secs =
     (if \<bar>secs * 1000\<bar> > 8640000000000000 then Inl range_error
      else let (y, m, d) = civil_from_days (secs div 86400); t = secs mod 86400 in
        Inr (year_str y @ js ''-'' @ pad 2 m @ js ''-'' @ pad 2 d @ js ''T'' @ pad 2 (t div 3600) @ js '':'' @
             pad 2 (t div 60 mod 60) @ js '':'' @ pad 2 (t mod 60) @ js ''.000Z''))"

end
