(* ===== verification/Keeper.thy ===== *)
theory Keeper
  imports Client Name_Instructions Effects Metrics
begin

text \<open>
  The auto-renew keeper (\<open>services/keeper/src\<close>): the decision logic of \<open>keeper.ts\<close> over injected effects,
  the notifiers, the metrics sink of \<open>metrics.ts\<close>, and the wiring of \<open>index.ts\<close> (the watchlist, the
  owner's delegation, building and sending \<open>auto_renew\<close>, one sweep). The contract a notifier promises to
  \<open>runOnce\<close> is the locale \<open>notifier\<close>; the fan-out of \<open>MultiNotifier\<close> over the console and metrics sinks
  interprets it. The RPC, the token program's client and the file system are parameters.
\<close>

section \<open>keeper.ts: events and notifiers\<close>

datatype keeperEvent =
    Renewed (ke_name: jsstr) (ke_expiresAt: int) (ke_signature: "jsstr option")
  | RenewalFailed (ke_name: jsstr) (ke_error: jsstr)
  | NoDelegation (ke_name: jsstr) (ke_expiresAt: int)
  | ExpiringSoon (ke_name: jsstr) (ke_expiresAt: int)

fun event_type :: "keeperEvent \<Rightarrow> jsstr" where
  "event_type (Renewed n x s) = js ''renewed''"
| "event_type (RenewalFailed n e) = js ''renewal-failed''"
| "event_type (NoDelegation n x) = js ''no-delegation''"
| "event_type (ExpiringSoon n x) = js ''expiring-soon''"

text \<open>\<open>"expiresAt" in e\<close>, \<open>"error" in e\<close>, \<open>"signature" in e && e.signature\<close> by variant; formatting the date
  throws for a time that is no valid \<open>Date\<close>.\<close>

definition when_text :: "int \<Rightarrow> jsstr res" where
  "when_text x = bind_res (iso_string x) (\<lambda>d. Inr (js '' (expires '' @ d @ js '')''))"

fun describe :: "keeperEvent \<Rightarrow> jsstr res" where
  "describe (RenewalFailed n e) = Inr (js ''renewal-failed '' @ n @ js '': '' @ e)"
| "describe (Renewed n x s) =
     bind_res (when_text x) (\<lambda>w. Inr (js ''renewed '' @ n @ w @
       (case s of Some (c # cs) \<Rightarrow> js '' ['' @ (c # cs) @ js '']'' | _ \<Rightarrow> [])))"
| "describe (NoDelegation n x) = bind_res (when_text x) (\<lambda>w. Inr (js ''no-delegation '' @ n @ w))"
| "describe (ExpiringSoon n x) = bind_res (when_text x) (\<lambda>w. Inr (js ''expiring-soon '' @ n @ w))"

type_synonym 'w notifier_fun = "keeperEvent \<Rightarrow> ('w, unit) eff"

text \<open>The console's output and the metrics registry a keeper process holds, around the world \<open>'c\<close> of the
  chain.\<close>

record 'c process =
  out :: "jsstr list"
  reg :: registry
  chain :: 'c

definition console_notify :: "'c process notifier_fun" where
  "console_notify e p =
     (case describe e of
        Inl err \<Rightarrow> Some (p, Inl err)
      | Inr d \<Rightarrow> Some (p\<lparr>out := out p @ [js ''[keeper] '' @ d]\<rparr>, Inr ()))"

text \<open>\<open>JSON.stringify(e, ..)\<close> with bigints as strings: the object's fields in order; an undefined
  signature is left out.\<close>

fun event_fields :: "keeperEvent \<Rightarrow> (jsstr \<times> jsstr) list" where
  "event_fields (Renewed n x s) =
     [(js ''type'', js ''renewed''), (js ''name'', n), (js ''expiresAt'', int_str x)] @
     (case s of None \<Rightarrow> [] | Some t \<Rightarrow> [(js ''signature'', t)])"
| "event_fields (RenewalFailed n e) = [(js ''type'', js ''renewal-failed''), (js ''name'', n), (js ''error'', e)]"
| "event_fields (NoDelegation n x) = [(js ''type'', js ''no-delegation''), (js ''name'', n), (js ''expiresAt'', int_str x)]"
| "event_fields (ExpiringSoon n x) = [(js ''type'', js ''expiring-soon''), (js ''name'', n), (js ''expiresAt'', int_str x)]"

text \<open>\<open>post\<close> is the injected \<open>fetch\<close>: a POST of the fields as a JSON object to the url.\<close>

definition webhook_notify ::
  "(jsstr \<Rightarrow> (jsstr \<times> jsstr) list \<Rightarrow> ('w, unit) eff) \<Rightarrow> jsstr \<Rightarrow> 'w notifier_fun" where
  "webhook_notify post url e = post url (event_fields e)"

text \<open>\<open>Promise.allSettled\<close> over the sinks: every sink runs, rejections are dropped.\<close>

fun multi_notify :: "'w notifier_fun list \<Rightarrow> 'w notifier_fun" where
  "multi_notify [] e w = Some (w, Inr ())"
| "multi_notify (s # sinks) e w =
     (case s e w of None \<Rightarrow> None | Some (w', r) \<Rightarrow> multi_notify sinks e w')"

section \<open>metrics.ts\<close>

definition metrics_notify :: "'c process notifier_fun" where
  "metrics_notify e p =
     (case inc_named (js ''solans_keeper_events_total'') 1 [(js ''type'', event_type e)] (reg p) of
        Inl err \<Rightarrow> Some (p, Inl err)
      | Inr r \<Rightarrow> Some (p\<lparr>reg := r\<rparr>, Inr ()))"

definition buildKeeperMetrics :: "registry res" where
  "buildKeeperMetrics =
     bind_res (reg_counter (js ''solans_keeper_events_total'') (js ''Keeper events by type'') []) (\<lambda>r.
       reg_counter (js ''solans_keeper_sweeps_total'') (js ''Completed keeper sweeps'') r)"

text \<open>The request listener of \<open>startMetricsServer\<close>: status, content type, body.\<close>

definition metrics_server :: "(rat \<Rightarrow> jsstr) \<Rightarrow> registry \<Rightarrow> jsstr option \<Rightarrow> nat \<times> jsstr option \<times> jsstr" where
  "metrics_server num_str r url =
     (if (case url of None \<Rightarrow> False | Some u \<Rightarrow> startsWith u (js ''/metrics''))
      then (200, Some CONTENT_TYPE, registry_expose num_str r)
      else if (case url of None \<Rightarrow> False | Some u \<Rightarrow> startsWith u (js ''/health''))
      then (200, Some (js ''application/json''), [123, 34, 111, 107, 34, 58, 116, 114, 117, 101, 125])
      else (404, None, []))"

section \<open>keeper.ts: the decision logic\<close>

definition dueForRenewal :: "int \<Rightarrow> int \<Rightarrow> int \<Rightarrow> bool" where
  "dueForRenewal expiresAt now windowSecs \<longleftrightarrow> expiresAt - windowSecs \<le> now"

record delegation =
  dl_delegate :: "address option"
  dl_amount :: int

record 'w deps =
  d_resolve :: "jsstr \<Rightarrow> ('w, nameRecord option) eff"
  d_ownerDelegation :: "address \<Rightarrow> ('w, delegation option) eff"
  d_quote :: "jsstr \<Rightarrow> int \<Rightarrow> ('w, int) eff"
  d_renew :: "jsstr \<Rightarrow> jsstr \<Rightarrow> int \<Rightarrow> ('w, jsstr option) eff"
  d_notify :: "'w notifier_fun"
  d_configPda :: address
  d_now :: int
  d_windowSecs :: int
  d_notifyWindowSecs :: int
  d_years :: int

datatype processResult = ResRenewed | ResSkipped | ResFailed

definition covers :: "address \<Rightarrow> int \<Rightarrow> delegation option \<Rightarrow> bool" where
  "covers configPda fee del =
     (case del of None \<Rightarrow> False | Some d \<Rightarrow> dl_delegate d = Some configPda \<and> fee \<le> dl_amount d)"

text \<open>The \<open>try\<close> block and its \<open>catch\<close>.\<close>

definition attempt_renew :: "jsstr \<Rightarrow> jsstr \<Rightarrow> jsstr \<Rightarrow> int \<Rightarrow> 'w deps \<Rightarrow> ('w, processResult) eff" where
  "attempt_renew name label tld expiresAt deps =
     catch_eff
       (bind_eff (d_renew deps label tld (d_years deps)) (\<lambda>signature.
        bind_eff (d_resolve deps name) (\<lambda>after.
        bind_eff (d_notify deps (Renewed name (case after of Some a \<Rightarrow> nr_expiresAt a | None \<Rightarrow> expiresAt) signature))
          (\<lambda>_. ret ResRenewed))))
       (\<lambda>err. bind_eff (d_notify deps (RenewalFailed name (message err))) (\<lambda>_. ret ResFailed))"

definition processName :: "unicode \<Rightarrow> jsstr \<Rightarrow> 'w deps \<Rightarrow> ('w, processResult) eff" where
  "processName U name deps =
     bind_eff (d_resolve deps name) (\<lambda>rec. case rec of
       None \<Rightarrow> ret ResSkipped
     | Some rec \<Rightarrow>
         bind_eff (of_res (parseName U name None)) (\<lambda>(label, tld).
         let expiresAt = nr_expiresAt rec in
         if \<not> dueForRenewal expiresAt (d_now deps) (d_windowSecs deps) then
           (if dueForRenewal expiresAt (d_now deps) (d_notifyWindowSecs deps)
            then bind_eff (d_notify deps (ExpiringSoon name expiresAt)) (\<lambda>_. ret ResSkipped)
            else ret ResSkipped)
         else
           bind_eff (d_quote deps label (d_years deps)) (\<lambda>fee.
           bind_eff (d_ownerDelegation deps (nr_owner rec)) (\<lambda>del.
           if \<not> covers (d_configPda deps) fee del
           then bind_eff (d_notify deps (NoDelegation name expiresAt)) (\<lambda>_. ret ResSkipped)
           else attempt_renew name label tld expiresAt deps))))"

record tally =
  t_renewed :: nat
  t_skipped :: nat
  t_failed :: nat

fun count :: "processResult \<Rightarrow> tally \<Rightarrow> tally" where
  "count ResRenewed t = t\<lparr>t_renewed := t_renewed t + 1\<rparr>"
| "count ResSkipped t = t\<lparr>t_skipped := t_skipped t + 1\<rparr>"
| "count ResFailed t = t\<lparr>t_failed := t_failed t + 1\<rparr>"

fun run_names :: "unicode \<Rightarrow> jsstr list \<Rightarrow> 'w deps \<Rightarrow> tally \<Rightarrow> ('w, tally) eff" where
  "run_names U [] deps t = ret t"
| "run_names U (name # names) deps t =
     bind_eff
       (catch_eff
          (bind_eff (processName U name deps) (\<lambda>r. ret (count r t)))
          (\<lambda>err. bind_eff (d_notify deps (RenewalFailed name (message err))) (\<lambda>_. ret (count ResFailed t))))
       (\<lambda>t'. run_names U names deps t')"

definition runOnce :: "unicode \<Rightarrow> jsstr list \<Rightarrow> 'w deps \<Rightarrow> ('w, tally) eff" where
  "runOnce U watchlist deps = run_names U watchlist deps \<lparr>t_renewed = 0, t_skipped = 0, t_failed = 0\<rparr>"

section \<open>index.ts\<close>

definition DAY :: int where "DAY = 86400"
definition RENEWAL_WINDOW_SECONDS :: int where "RENEWAL_WINDOW_SECONDS = 2592000"

definition loadKeypairPath :: "jsstr \<Rightarrow> jsstr option \<Rightarrow> jsstr" where
  "loadKeypairPath homedir KEEPER_KEYPAIR =
     (let path = (case KEEPER_KEYPAIR of Some p \<Rightarrow> p | None \<Rightarrow> homedir @ js ''/.config/solana/id.json'') in
      if startsWith path (js ''~/'') then homedir @ js ''/'' @ drop 2 path else path)"

text \<open>\<open>Set.add\<close> keeps the first occurrence. \<open>file\<close> is the parsed content of \<open>WATCHLIST_FILE\<close>: absent when the
  variable is unset or empty, a failure to read or parse it, not an array, or the strings of the array.\<close>

definition set_add :: "jsstr \<Rightarrow> jsstr list \<Rightarrow> jsstr list" where
  "set_add n names = (if n \<in> set names then names else names @ [n])"

definition watchlist_error :: js_error where
  "watchlist_error = JsError (js ''WATCHLIST_FILE must be a JSON array of names'')"

definition loadWatchlist :: "jsstr list option res option \<Rightarrow> jsstr option \<Rightarrow> jsstr list res" where
  "loadWatchlist file WATCHLIST =
     bind_res
       (case file of
          None \<Rightarrow> Inr []
        | Some (Inl e) \<Rightarrow> Inl e
        | Some (Inr None) \<Rightarrow> Inl watchlist_error
        | Some (Inr (Some parsed)) \<Rightarrow> Inr (fold (\<lambda>n. set_add (trim n)) parsed []))
       (\<lambda>names.
          let names = fold (\<lambda>n names. if trim n \<noteq> [] then set_add (trim n) names else names)
                        (split_on 44 (case WATCHLIST of None \<Rightarrow> [] | Some s \<Rightarrow> s)) names
          in Inr (filter (\<lambda>n. n \<noteq> []) names))"

text \<open>The third-party token client and the RPC: the associated token address of an owner and mint, the
  delegate fields of a decoded token account, the accounts of a world, and sending a transaction
  that carries one instruction.\<close>

record 'c rpc =
  findAssociatedTokenPda :: "address \<Rightarrow> address \<Rightarrow> address res"
  decodeToken :: "bytes \<Rightarrow> (address option \<times> int) res"
  accounts_of :: "'c \<Rightarrow> fetcher"
  sendAndConfirm :: "instruction \<Rightarrow> ('c, jsstr) eff"

definition lift_chain :: "('c, 'a) eff \<Rightarrow> ('c process, 'a) eff" where
  "lift_chain m p = (case m (chain p) of None \<Rightarrow> None | Some (c, r) \<Rightarrow> Some (p\<lparr>chain := c\<rparr>, r))"

definition read_chain :: "('c \<Rightarrow> 'a res) \<Rightarrow> ('c process, 'a) eff" where
  "read_chain f p = Some (p, f (chain p))"

definition client_resolve :: "kit \<Rightarrow> unicode \<Rightarrow> 'c rpc \<Rightarrow> jsstr \<Rightarrow> ('c process, nameRecord option) eff" where
  "client_resolve K U R n p =
     (case Client.resolve K U (accounts_of R (chain p)) n of None \<Rightarrow> None | Some r \<Rightarrow> Some (p, r))"

definition ownerDelegation :: "'c rpc \<Rightarrow> address \<Rightarrow> address \<Rightarrow> ('c process, delegation option) eff" where
  "ownerDelegation R owner paymentMint = read_chain (\<lambda>c.
     bind_res (findAssociatedTokenPda R owner paymentMint) (\<lambda>ata.
     bind_res (accounts_of R c ata) (\<lambda>acct. case acct of
       None \<Rightarrow> Inr None
     | Some data \<Rightarrow> bind_res (decodeToken R data) (\<lambda>(delegate, amount).
         Inr (Some \<lparr>dl_delegate = delegate, dl_amount = amount\<rparr>)))))"

definition vanished_error :: js_error where
  "vanished_error = JsError (js ''name record vanished'')"

definition ownerAta :: "kit \<Rightarrow> 'c rpc \<Rightarrow> config \<Rightarrow> address \<Rightarrow> ('c process, address) eff" where
  "ownerAta K R cfg nameRecord = read_chain (\<lambda>c.
     bind_res (accounts_of R c nameRecord) (\<lambda>acct. case acct of
       None \<Rightarrow> Inl vanished_error
     | Some data \<Rightarrow> bind_res (decodeNameRecord K data) (\<lambda>r.
         findAssociatedTokenPda R (nr_owner r) (cfg_paymentMint cfg))))"

definition auto_renew_input ::
  "address \<Rightarrow> config \<Rightarrow> int \<Rightarrow> jsstr \<Rightarrow> jsstr \<Rightarrow> address \<Rightarrow> address \<Rightarrow> ixInput" where
  "auto_renew_input keeper cfg years label tld nameRecord ownerTokenAccount =
     \<lparr>in_account = [''keeper'' \<mapsto> SignerI keeper, ''nameRecord'' \<mapsto> AddrI nameRecord,
        ''ownerTokenAccount'' \<mapsto> AddrI ownerTokenAccount,
        ''treasuryTokenAccount'' \<mapsto> AddrI (cfg_treasuryTokenAccount cfg),
        ''stakingVault'' \<mapsto> AddrI (cfg_stakingVault cfg), ''burnVault'' \<mapsto> AddrI (cfg_burnVault cfg),
        ''paymentMint'' \<mapsto> AddrI (cfg_paymentMint cfg)],
      in_arg = [''name'' \<mapsto> VStr label, ''tld'' \<mapsto> VStr tld, ''years'' \<mapsto> VNum years],
      in_programAddress = None\<rparr>"

definition keeper_renew ::
  "kit \<Rightarrow> unicode \<Rightarrow> 'c rpc \<Rightarrow> address \<Rightarrow> config \<Rightarrow> int \<Rightarrow> jsstr \<Rightarrow> jsstr \<Rightarrow> ('c process, jsstr option) eff" where
  "keeper_renew K U R keeper cfg years label tld =
     bind_eff (of_res (nameParts K U (label @ js ''.'' @ tld) None)) (\<lambda>(n, t, hash).
     bind_eff (of_res (findNameRecordPda K hash)) (\<lambda>(nameRecord, b).
     bind_eff (ownerAta K R cfg nameRecord) (\<lambda>ata.
     bind_eff (of_res (getAutoRenewInstructionAsync K (auto_renew_input keeper cfg years label tld nameRecord ata))) (\<lambda>ix.
     bind_eff (lift_chain (sendAndConfirm R ix)) (\<lambda>signature. ret (Some signature))))))"

definition keeper_deps ::
  "kit \<Rightarrow> unicode \<Rightarrow> 'c rpc \<Rightarrow> address \<Rightarrow> 'c process notifier_fun \<Rightarrow> config \<Rightarrow> address \<Rightarrow> int \<Rightarrow> int \<Rightarrow> int \<Rightarrow>
   'c process deps" where
  "keeper_deps K U R keeper notify cfg configPda now notifyWindowSecs years =
     \<lparr>d_resolve = client_resolve K U R,
      d_ownerDelegation = (\<lambda>owner. ownerDelegation R owner (cfg_paymentMint cfg)),
      d_quote = (\<lambda>label y. read_chain (\<lambda>c. quoteName K (accounts_of R c) label y)),
      d_renew = (\<lambda>label tld y. keeper_renew K U R keeper cfg years label tld),
      d_notify = notify, d_configPda = configPda, d_now = now, d_windowSecs = RENEWAL_WINDOW_SECONDS,
      d_notifyWindowSecs = notifyWindowSecs, d_years = years\<rparr>"

definition log_out :: "jsstr \<Rightarrow> ('c process, unit) eff" where
  "log_out s p = Some (p\<lparr>out := out p @ [s]\<rparr>, Inr ())"

text \<open>One sweep over the effects that the configuration gives; \<open>metrics?.sweeps.inc()\<close> counts it when the metrics are
  on.\<close>

definition sweep_with ::
  "kit \<Rightarrow> unicode \<Rightarrow> 'c rpc \<Rightarrow> bool \<Rightarrow> jsstr list \<Rightarrow> (config \<Rightarrow> 'c process deps) \<Rightarrow> ('c process, unit) eff" where
  "sweep_with K U R metrics watchlist deps =
     bind_eff (read_chain (\<lambda>c. getConfig K (accounts_of R c))) (\<lambda>cfg. case cfg of
       None \<Rightarrow> log_out (js ''keeper: registry config not initialized; skipping sweep'')
     | Some cfg \<Rightarrow>
         bind_eff (runOnce U watchlist (deps cfg)) (\<lambda>t.
         bind_eff (if metrics
                   then (\<lambda>p. case inc_named (js ''solans_keeper_sweeps_total'') 1 [] (reg p) of
                           Inl e \<Rightarrow> Some (p, Inl e) | Inr r \<Rightarrow> Some (p\<lparr>reg := r\<rparr>, Inr ()))
                   else ret ()) (\<lambda>_.
           log_out (js ''keeper: sweep done '' @ [8212] @ js '' renewed '' @ dec_digits (t_renewed t) @ js '', skipped '' @
             dec_digits (t_skipped t) @ js '', failed '' @ dec_digits (t_failed t)))))"

text \<open>\<open>now\<close> is the clock's value.\<close>

definition sweep ::
  "kit \<Rightarrow> unicode \<Rightarrow> 'c rpc \<Rightarrow> address \<Rightarrow> 'c process notifier_fun \<Rightarrow> address \<Rightarrow> int \<Rightarrow> int \<Rightarrow> bool \<Rightarrow> jsstr list \<Rightarrow>
   int \<Rightarrow> ('c process, unit) eff" where
  "sweep K U R keeper notify configPda notifyWindowSecs years metrics watchlist now =
     sweep_with K U R metrics watchlist (\<lambda>cfg. keeper_deps K U R keeper notify cfg configPda now notifyWindowSecs years)"

section \<open>The contract of a notifier\<close>

text \<open>\<open>runOnce\<close> relies on a notifier that settles and never rejects.\<close>

locale notifier =
  fixes notify :: "'w notifier_fun"
  assumes settles: "\<exists>w'. notify e w = Some (w', Inr ())"

definition deps_settle :: "'w deps \<Rightarrow> bool" where
  "deps_settle deps \<longleftrightarrow>
     (\<forall>n w. \<exists>r. d_resolve deps n w = Some r) \<and> (\<forall>a w. \<exists>r. d_ownerDelegation deps a w = Some r) \<and>
     (\<forall>l y w. \<exists>r. d_quote deps l y w = Some r) \<and> (\<forall>l t y w. \<exists>r. d_renew deps l t y w = Some r)"

definition tally_total :: "tally \<Rightarrow> nat" where
  "tally_total t = t_renewed t + t_skipped t + t_failed t"

lemma total_count: "tally_total (count r t) = tally_total t + 1"
  by (cases r) (simp_all add: tally_total_def)

lemma ret_settles: "\<exists>r. ret x w = Some r"
  by (simp add: ret_def)

lemma of_res_settles: "\<exists>r. of_res x w = Some r"
  by (simp add: of_res_def)

context notifier
begin

lemma notify_settles: "\<exists>r. notify e w = Some r"
  using settles by blast

lemma attempt_settles:
  assumes "deps_settle deps" "d_notify deps = notify"
  shows "\<exists>r. attempt_renew name label tld x deps w = Some r"
  unfolding attempt_renew_def assms(2)
  using assms(1) unfolding deps_settle_def
  by (intro catch_settles bind_settles notify_settles ret_settles) blast+

lemma process_settles:
  assumes "deps_settle deps" "d_notify deps = notify"
  shows "\<exists>r. processName U name deps w = Some r"
proof -
  note d = assms(1)[unfolded deps_settle_def]
  have due: "\<exists>r. bind_eff (d_quote deps label (d_years deps)) (\<lambda>fee.
      bind_eff (d_ownerDelegation deps own) (\<lambda>del.
        if \<not> covers (d_configPda deps) fee del
        then bind_eff (notify (NoDelegation name x)) (\<lambda>_. ret ResSkipped)
        else attempt_renew name label tld x deps)) w = Some r" for label tld own x w
  proof (rule bind_settles)
    show "\<exists>r. d_quote deps label (d_years deps) w = Some r" using d by blast
    fix w1 fee
    show "\<exists>r. bind_eff (d_ownerDelegation deps own) (\<lambda>del.
        if \<not> covers (d_configPda deps) fee del
        then bind_eff (notify (NoDelegation name x)) (\<lambda>_. ret ResSkipped)
        else attempt_renew name label tld x deps) w1 = Some r"
    proof (rule bind_settles)
      show "\<exists>r. d_ownerDelegation deps own w1 = Some r" using d by blast
      fix w2 del
      show "\<exists>r. (if \<not> covers (d_configPda deps) fee del
          then bind_eff (notify (NoDelegation name x)) (\<lambda>_. ret ResSkipped)
          else attempt_renew name label tld x deps) w2 = Some r"
        using attempt_settles[OF assms] bind_settles[OF notify_settles ret_settles]
        by (cases "covers (d_configPda deps) fee del") (simp_all del: split_paired_Ex)
    qed
  qed
  have rec: "\<exists>r. bind_eff (of_res (parseName U name None)) (\<lambda>(label, tld).
      let expiresAt = nr_expiresAt rec in
      if \<not> dueForRenewal expiresAt (d_now deps) (d_windowSecs deps) then
        (if dueForRenewal expiresAt (d_now deps) (d_notifyWindowSecs deps)
         then bind_eff (notify (ExpiringSoon name expiresAt)) (\<lambda>_. ret ResSkipped) else ret ResSkipped)
      else
        bind_eff (d_quote deps label (d_years deps)) (\<lambda>fee.
        bind_eff (d_ownerDelegation deps (nr_owner rec)) (\<lambda>del.
        if \<not> covers (d_configPda deps) fee del
        then bind_eff (notify (NoDelegation name expiresAt)) (\<lambda>_. ret ResSkipped)
        else attempt_renew name label tld expiresAt deps))) w = Some r" for rec w
    by (rule bind_settles[OF of_res_settles])
       (auto simp only: Let_def prod.case split: prod.split if_split
         intro!: due ret_settles bind_settles[OF notify_settles])
  show ?thesis
    unfolding processName_def assms(2)
    by (rule bind_settles, use d in blast) (simp only: option.case rec ret_settles split: option.split, simp add: rec ret_settles)
qed

lemma run_names_total:
  assumes "deps_settle deps" "d_notify deps = notify"
  shows "\<exists>w' t'. run_names U names deps t w = Some (w', Inr t') \<and> tally_total t' = tally_total t + length names"
proof (induction names arbitrary: t w)
  case Nil
  then show ?case by (simp add: ret_def)
next
  case (Cons name names)
  obtain w1 r where p: "processName U name deps w = Some (w1, r)"
    using process_settles[OF assms] by (metis surj_pair)
  show ?case
  proof (cases r)
    case (Inl e)
    obtain w2 where n: "notify (RenewalFailed name (message e)) w1 = Some (w2, Inr ())" using settles by blast
    from Cons[of "count ResFailed t" w2] show ?thesis
      by (simp add: bind_eff_def catch_eff_def p Inl assms(2) n ret_def total_count del: count.simps)
  next
    case (Inr x)
    from Cons[of "count x t" w1] show ?thesis
      by (simp add: bind_eff_def catch_eff_def p Inr ret_def total_count del: count.simps)
  qed
qed

end

lemma multi_notify_settles:
  "(\<And>s w. s \<in> set sinks \<Longrightarrow> \<exists>w' r. s e w = Some (w', r)) \<Longrightarrow> \<exists>w'. multi_notify sinks e w = Some (w', Inr ())"
proof (induction sinks arbitrary: w)
  case (Cons s sinks)
  obtain w1 r where "s e w = Some (w1, r)" using Cons.prems[of s w] by auto
  with Cons show ?case by simp
qed simp

lemma console_settles: "\<exists>w' r. console_notify e w = Some (w', r)"
  by (simp add: console_notify_def split: sum.splits)

lemma metrics_settles: "\<exists>w' r. metrics_notify e w = Some (w', r)"
  by (simp add: metrics_notify_def split: sum.splits)

interpretation keeper_sinks: notifier "multi_notify [console_notify, metrics_notify]"
  by unfold_locales (rule multi_notify_settles, auto simp: console_settles metrics_settles)

section \<open>When a renewal is attempted\<close>

lemma process_parse_fails:
  "d_resolve deps name w = Some (w1, Inr (Some rec)) \<Longrightarrow> parseName U name None = Inl e \<Longrightarrow>
   processName U name deps w = Some (w1, Inl e)"
  by (simp add: processName_def bind_eff_def of_res_def)

section \<open>What the program says to the keeper's renewal\<close>

lemma renewal_window_eq: "RENEWAL_WINDOW_SECONDS = RUST_RENEWAL_WINDOW_SECONDS"
  by (simp add: RENEWAL_WINDOW_SECONDS_def RUST_RENEWAL_WINDOW_SECONDS_def)

lemma auto_renew_years: "years \<noteq> 1 \<Longrightarrow> auto_renew k distribute cfg now label tld years st \<noteq> Inr st'"
  by (auto simp: auto_renew_def res_simps split: prod.splits if_splits)

section \<open>The watchlist\<close>

lemma set_add_props: "distinct ns \<Longrightarrow> distinct (set_add n ns)" "set (set_add n ns) = insert n (set ns)"
  by (auto simp: set_add_def)

lemma fold_set_add:
  "distinct ns \<Longrightarrow>
   distinct (fold (\<lambda>n ns. if P n then set_add (f n) ns else ns) xs ns) \<and>
   set (fold (\<lambda>n ns. if P n then set_add (f n) ns else ns) xs ns) = set ns \<union> f ` {x \<in> set xs. P x}"
proof (induction xs arbitrary: ns)
  case (Cons x xs)
  have "distinct (if P x then set_add (f x) ns else ns)" using Cons.prems by (simp add: set_add_props)
  from Cons.IH[OF this] show ?case by (auto simp: set_add_props)
qed simp

lemma loadWatchlist_loads: "\<exists>ns. loadWatchlist (Some (Inr (Some parsed))) W = Inr ns"
  by (simp add: loadWatchlist_def Let_def)

section \<open>Sample effects\<close>

text \<open>Effects of a chain with one due name whose owner's delegation covers the fee.\<close>

definition sample_deps :: "'w deps" where
  "sample_deps = \<lparr>d_resolve = (\<lambda>n. ret (Some sample_record)),
     d_ownerDelegation = (\<lambda>a. ret (Some \<lparr>dl_delegate = Some sample_address, dl_amount = 1000\<rparr>)),
     d_quote = (\<lambda>l y. ret 400), d_renew = (\<lambda>l t y. ret None), d_notify = (\<lambda>e. ret ()),
     d_configPda = sample_address, d_now = 31537000, d_windowSecs = RENEWAL_WINDOW_SECONDS,
     d_notifyWindowSecs = 60 * DAY, d_years = 1\<rparr>"

lemma sample_deps_settle: "deps_settle (sample_deps\<lparr>d_notify := f\<rparr>)"
  by (simp add: deps_settle_def sample_deps_def ret_def)

text \<open>A watchlist that loads has no duplicates and holds exactly the trimmed, non-empty names of the file and of the comma-separated variable.\<close>

lemma watchlist_is_union_of_sources:
  assumes "loadWatchlist file W = Inr ns"
  shows "distinct ns \<and> set ns = {n. n \<noteq> [] \<and>
    (n \<in> trim ` (case file of Some (Inr (Some parsed)) \<Rightarrow> set parsed | _ \<Rightarrow> {}) \<or>
     n \<in> trim ` set (split_on 44 (case W of None \<Rightarrow> [] | Some s \<Rightarrow> s)))}"
proof -
  let ?ws = "split_on 44 (case W of None \<Rightarrow> [] | Some s \<Rightarrow> s)"
  let ?g = "\<lambda>ns. fold (\<lambda>n names. if trim n \<noteq> [] then set_add (trim n) names else names) ?ws ns"
  have step: "distinct (filter (\<lambda>n. n \<noteq> []) (?g xs)) \<and>
      set (filter (\<lambda>n. n \<noteq> []) (?g xs)) = {n. n \<noteq> [] \<and> (n \<in> set xs \<or> n \<in> trim ` set ?ws)}"
    if "distinct xs" for xs
    using fold_set_add[OF that, of "\<lambda>n. trim n \<noteq> []" trim ?ws] by auto
  have parsed: "distinct (fold (\<lambda>n. set_add (trim n)) p []) \<and> set (fold (\<lambda>n. set_add (trim n)) p []) = trim ` set p" for p
    using fold_set_add[of "[]" "\<lambda>_. True" trim p] by simp
  obtain xs where xs: "distinct xs" "set xs = trim ` (case file of Some (Inr (Some parsed)) \<Rightarrow> set parsed | _ \<Rightarrow> {})"
    and ns: "ns = filter (\<lambda>n. n \<noteq> []) (?g xs)"
  proof (cases "\<exists>parsed. file = Some (Inr (Some parsed))")
    case True
    then obtain p where "file = Some (Inr (Some p))" by blast
    with assms parsed[of p] that[of "fold (\<lambda>n. set_add (trim n)) p []"] show ?thesis by (simp add: loadWatchlist_def Let_def)
  next
    case False
    with assms have "file = None" by (auto simp: loadWatchlist_def split: option.splits sum.splits)
    with assms that[of "[]"] show ?thesis by (simp add: loadWatchlist_def Let_def)
  qed
  from step[OF xs(1)] show ?thesis unfolding ns xs(2) .
qed

text \<open>A keeper configured for a term other than one year never renews: the program rejects every such auto-renewal.\<close>

lemma auto_renew_other_term:
  assumes "years \<noteq> 1"
  shows "\<exists>e. auto_renew k distribute cfg now label tld years st = Inl e"
  using auto_renew_years[OF assms] by (metis sum.exhaust)

text \<open>The record address the keeper derives for the renewal from the parsed label and TLD is the one the client resolved for the watched name.\<close>

lemma keeper_renews_the_record_it_resolved:
  assumes "unicode_ok U" "parseName U name None = Inr (label, tld)" "list_all nfkc_stable label"
  shows "\<exists>h. nameParts K U (label @ js ''.'' @ tld) None = Inr (label, tld, h) \<and>
    findNameRecord K U name None = findNameRecordPda K h"
proof -
  have "canonical_label label" using assms(2) parseName_iff by blast
  then have "parseName U (label @ js ''.'' @ tld) None = Inr (label, tld)"
    using assms parseName_tld by (intro parseName_stable) auto
  then have "nameParts K U (label @ js ''.'' @ tld) None = Inr (label, tld, compute_name_hash (keccak_256 K) label tld)"
    by (simp add: nameParts_iff)
  moreover have "nameParts K U name None = Inr (label, tld, compute_name_hash (keccak_256 K) label tld)"
    using assms(2) by (simp add: nameParts_iff)
  from nameParts_nameInfo[OF this]
  have "findNameRecord K U name None = findNameRecordPda K (compute_name_hash (keccak_256 K) label tld)"
    by (auto simp: findNameRecord_def nameHashFor_def)
  ultimately show ?thesis by blast
qed

text \<open>With the console and metrics sinks fanned out and effects that settle, a sweep over a watchlist always returns, whatever fails on the way, and its tally counts every name once.\<close>

lemma runOnce_processes_every_name:
  assumes "deps_settle deps" "d_notify deps = multi_notify [console_notify, metrics_notify]"
  shows "\<exists>w' t. runOnce U names deps w = Some (w', Inr t) \<and> t_renewed t + t_skipped t + t_failed t = length names"
  using keeper_sinks.run_names_total[OF assms, of U names "\<lparr>t_renewed = 0, t_skipped = 0, t_failed = 0\<rparr>" w]
  by (simp add: runOnce_def tally_total_def)

section \<open>Properties\<close>

text \<open>C31: The keeper's handling of a name depends on its renew effect only if the name resolves to a record that is due for renewal and the owner has delegated at least the quoted fee to the config address.\<close>

theorem renewal_only_when_due_and_covered:
  assumes "processName U name (deps\<lparr>d_renew := f\<rparr>) w \<noteq> processName U name deps w"
  shows "\<exists>w1 rec label tld w2 fee w3 del. d_resolve deps name w = Some (w1, Inr (Some rec)) \<and>
    parseName U name None = Inr (label, tld) \<and>
    dueForRenewal (nr_expiresAt rec) (d_now deps) (d_windowSecs deps) \<and>
    d_quote deps label (d_years deps) w1 = Some (w2, Inr fee) \<and>
    d_ownerDelegation deps (nr_owner rec) w2 = Some (w3, Inr (Some del)) \<and>
    dl_delegate del = Some (d_configPda deps) \<and> fee \<le> dl_amount del"
  using assms
  by (auto simp: processName_def bind_eff_def of_res_def ret_def covers_def Let_def
      split: option.splits prod.splits sum.splits if_splits)

theorem renewal_only_when_due_and_covered_witness:
  "processName ascii_unicode (js ''alex.sol'') sample_deps () = Some ((), Inr ResRenewed) \<and>
   processName ascii_unicode (js ''alex.sol'') (sample_deps\<lparr>d_renew := \<lambda>l t y. of_res (Inl watchlist_error)\<rparr>) () =
     Some ((), Inr ResFailed) \<and>
   (\<exists>fee del. d_quote sample_deps (js ''alex'') 1 () = Some ((), Inr fee) \<and>
      d_ownerDelegation sample_deps sample_wallet () = Some ((), Inr (Some del)) \<and> fee \<le> dl_amount del)"
proof -
  let ?p = "\<lambda>deps. processName ascii_unicode (js ''alex.sol'') deps ()"
  have due: "dueForRenewal (nr_expiresAt sample_record) 31537000 RENEWAL_WINDOW_SECONDS"
    by (simp add: dueForRenewal_def sample_record_def RENEWAL_WINDOW_SECONDS_def)
  have a: "?p sample_deps = Some ((), Inr ResRenewed)"
    by (simp add: processName_def sample_name sample_deps_def bind_eff_def ret_def of_res_def due covers_def Let_def
        attempt_renew_def catch_eff_def del: js_Cons)
  have b: "?p (sample_deps\<lparr>d_renew := \<lambda>l t y. of_res (Inl watchlist_error)\<rparr>) = Some ((), Inr ResFailed)"
    by (simp add: processName_def sample_name sample_deps_def bind_eff_def ret_def of_res_def due covers_def Let_def
        attempt_renew_def catch_eff_def del: js_Cons)
  have "?p (sample_deps\<lparr>d_renew := \<lambda>l t y. of_res (Inl watchlist_error)\<rparr>) \<noteq> ?p sample_deps" unfolding a b by simp
  from renewal_only_when_due_and_covered[OF this] a b show ?thesis
    by (auto simp: sample_deps_def ret_def sample_record_def sample_name simp del: js_Cons)
qed





end
