(* ===== verification/Keeper_Main.thy ===== *)
theory Keeper_Main
  imports Keeper Samples
begin

text \<open>
  The keeper as a process (\<open>services/keeper/src/index.ts\<close>): \<open>main\<close> reads its settings from the environment, loads
  the key, starts the metrics server, runs a first sweep and arms a timer; afterwards every tick of the timer
  starts a sweep. The process is a labelled step relation: sweeps may overlap, the chain changes between
  them, and a sweep that rejects is an unhandled rejection, which ends the process. The environment of the
  process, \<open>Number\<close> on texts, the files, the RPC client's constructor and \<open>fetch\<close> are parameters.
\<close>

section \<open>Numbers\<close>

datatype jsnum = Num rat | NaN | Infinity | NegInfinity

fun positive :: "jsnum \<Rightarrow> bool" where
  "positive (Num q) = (q > 0)"
| "positive Infinity = True"
| "positive _ = False"

fun jsnum_str :: "(rat \<Rightarrow> jsstr) \<Rightarrow> jsnum \<Rightarrow> jsstr" where
  "jsnum_str num_str (Num q) = num_str q"
| "jsnum_str num_str NaN = js ''NaN''"
| "jsnum_str num_str Infinity = js ''Infinity''"
| "jsnum_str num_str NegInfinity = js ''-Infinity''"

text \<open>\<open>BigInt(n)\<close> of a number: a \<open>RangeError\<close> unless it is an integer.\<close>

definition bigint_num :: "(rat \<Rightarrow> jsstr) \<Rightarrow> jsnum \<Rightarrow> int res" where
  "bigint_num num_str n =
     (let err = Inl (JsError (js ''The number '' @ jsnum_str num_str n @
                       js '' cannot be converted to a BigInt because it is not an integer'')) in
      case n of Num q \<Rightarrow> if of_int \<lfloor>q\<rfloor> = q then Inr \<lfloor>q\<rfloor> else err | _ \<Rightarrow> err)"

section \<open>The settings\<close>

record 'c host =
  h_env :: "string \<Rightarrow> jsstr option"
  h_homedir :: jsstr
  h_Number :: "jsstr \<Rightarrow> jsnum"
  h_num_str :: "rat \<Rightarrow> jsstr"
  h_watchlist :: "jsstr \<Rightarrow> jsstr list option res"
  h_keypair :: "jsstr \<Rightarrow> address res"
  h_connect :: "jsstr \<Rightarrow> jsstr \<Rightarrow> unit res"
  h_fetch :: "jsstr \<Rightarrow> (jsstr \<times> jsstr) list \<Rightarrow> ('c process, unit) eff"

record keeperOptions =
  ko_rpcUrl :: jsstr
  ko_wsUrl :: jsstr
  ko_interval :: jsnum
  ko_years :: jsnum
  ko_notifyWindowSecs :: int
  ko_watchlist :: "jsstr list"

definition env_number :: "'c host \<Rightarrow> string \<Rightarrow> rat \<Rightarrow> jsnum" where
  "env_number H name d = (case h_env H name of None \<Rightarrow> Num d | Some s \<Rightarrow> h_Number H s)"

text \<open>\<open>rpcUrl.replace(/^http/, "ws")\<close>.\<close>

definition ws_of :: "jsstr \<Rightarrow> jsstr" where
  "ws_of url = (if startsWith url (js ''http'') then js ''ws'' @ drop 4 url else url)"

definition keeper_options :: "'c host \<Rightarrow> keeperOptions res" where
  "keeper_options H =
     (let rpcUrl = (case h_env H ''SOLANS_RPC_URL'' of None \<Rightarrow> js ''https://api.devnet.solana.com'' | Some u \<Rightarrow> u);
          wsUrl = (case h_env H ''SOLANS_WS_URL'' of None \<Rightarrow> ws_of rpcUrl | Some u \<Rightarrow> u) in
      bind_res (bigint_num (h_num_str H) (env_number H ''KEEPER_NOTIFY_WINDOW'' 60)) (\<lambda>days.
      bind_res (loadWatchlist
          (case h_env H ''WATCHLIST_FILE'' of
             None \<Rightarrow> None | Some f \<Rightarrow> if f = [] then None else Some (h_watchlist H f))
          (h_env H ''WATCHLIST'')) (\<lambda>watchlist.
        Inr \<lparr>ko_rpcUrl = rpcUrl, ko_wsUrl = wsUrl, ko_interval = env_number H ''KEEPER_INTERVAL'' 3600,
             ko_years = env_number H ''KEEPER_YEARS'' 1, ko_notifyWindowSecs = days * DAY, ko_watchlist = watchlist\<rparr>)))"

text \<open>What the running process holds on to: the options, the signer, the config address and the sinks.\<close>

record 'c keeper =
  k_options :: keeperOptions
  k_signer :: address
  k_configPda :: address
  k_metrics :: bool
  k_sinks :: "'c process notifier_fun list"

section \<open>Starting\<close>

text \<open>\<open>server.listen(port)\<close> throws for a number that is not a port.\<close>

definition listen :: "(rat \<Rightarrow> jsstr) \<Rightarrow> jsnum \<Rightarrow> unit res" where
  "listen num_str port =
     (if (case port of Num q \<Rightarrow> of_int \<lfloor>q\<rfloor> = q \<and> 0 \<le> q \<and> q < 65536 | _ \<Rightarrow> False) then Inr ()
      else Inl (JsError (js ''options.port should be >= 0 and < 65536. Received '' @ jsnum_str num_str port)))"

definition keeper_sinks_of :: "'c host \<Rightarrow> bool \<Rightarrow> 'c process notifier_fun list" where
  "keeper_sinks_of H metrics =
     console_notify #
     (case h_env H ''NOTIFY_WEBHOOK_URL'' of
        None \<Rightarrow> [] | Some url \<Rightarrow> if url = [] then [] else [webhook_notify (h_fetch H) url]) @
     (if metrics then [metrics_notify] else [])"

definition start_metrics :: "'c host \<Rightarrow> jsnum \<Rightarrow> ('c process, unit) eff" where
  "start_metrics H port =
     bind_eff (of_res buildKeeperMetrics) (\<lambda>r.
     bind_eff (\<lambda>p. Some (p\<lparr>reg := r\<rparr>, Inr ())) (\<lambda>_.
     bind_eff (of_res (listen (h_num_str H) port)) (\<lambda>_.
       log_out (js ''keeper: metrics on http://0.0.0.0:'' @ jsnum_str (h_num_str H) port @ js ''/metrics''))))"

definition keeper_setup :: "kit \<Rightarrow> 'c host \<Rightarrow> keeperOptions \<Rightarrow> ('c process, 'c keeper) eff" where
  "keeper_setup K H opts =
     bind_eff (of_res (h_connect H (ko_rpcUrl opts) (ko_wsUrl opts))) (\<lambda>_.
     bind_eff (of_res (h_keypair H (loadKeypairPath (h_homedir H) (h_env H ''KEEPER_KEYPAIR'')))) (\<lambda>signer.
     bind_eff (of_res (findConfigPda K)) (\<lambda>(configPda, b).
     let port = env_number H ''KEEPER_METRICS_PORT'' 0; metrics = positive port in
     bind_eff (if metrics then start_metrics H port else ret ()) (\<lambda>_.
     bind_eff (log_out (js ''keeper: watching '' @ dec_digits (length (ko_watchlist opts)) @ js '' name(s) on '' @
         ko_rpcUrl opts @ js '' as '' @ signer @
         (if positive (ko_interval opts) then js '', every '' @ jsnum_str (h_num_str H) (ko_interval opts) @ js ''s''
          else js '', once''))) (\<lambda>_.
       ret \<lparr>k_options = opts, k_signer = signer, k_configPda = configPda, k_metrics = metrics,
            k_sinks = keeper_sinks_of H metrics\<rparr>)))))"

text \<open>The effects of a sweep. \<open>BigInt(years)\<close> in \<open>quoteName\<close> rejects a term that is no integer, after reading the config; the
  term is used nowhere else before that.\<close>

definition run_deps ::
  "kit \<Rightarrow> unicode \<Rightarrow> 'c rpc \<Rightarrow> 'c host \<Rightarrow> 'c keeper \<Rightarrow> int \<Rightarrow> config \<Rightarrow> 'c process deps" where
  "run_deps K U R H k now cfg =
     (let deps = (\<lambda>years. keeper_deps K U R (k_signer k) (multi_notify (k_sinks k)) cfg (k_configPda k) now
                    (ko_notifyWindowSecs (k_options k)) years) in
      case bigint_num (h_num_str H) (ko_years (k_options k)) of
        Inr years \<Rightarrow> deps years
      | Inl e \<Rightarrow> (deps 0)\<lparr>d_quote := \<lambda>label y. read_chain (\<lambda>c.
          bind_res (getConfig K (accounts_of R c)) (\<lambda>g. case g of None \<Rightarrow> Inl not_initialized | Some _ \<Rightarrow> Inl e))\<rparr>)"

definition run_sweep ::
  "kit \<Rightarrow> unicode \<Rightarrow> 'c rpc \<Rightarrow> 'c host \<Rightarrow> 'c keeper \<Rightarrow> int \<Rightarrow> ('c process, unit) eff" where
  "run_sweep K U R H k now =
     sweep_with K U R (k_metrics k) (ko_watchlist (k_options k)) (run_deps K U R H k now)"

datatype 'c outcome = Exit nat | Up "'c keeper"

text \<open>\<open>main().catch(..)\<close>: what went wrong is written to the console and the exit code is 1.\<close>

definition write_out :: "jsstr \<Rightarrow> 'c process \<Rightarrow> 'c process" where
  "write_out s p = p\<lparr>out := out p @ [s]\<rparr>"

definition keeper_main ::
  "kit \<Rightarrow> unicode \<Rightarrow> 'c rpc \<Rightarrow> 'c host \<Rightarrow> int \<Rightarrow> 'c process \<Rightarrow> ('c process \<times> 'c outcome) option" where
  "keeper_main K U R H now p =
     (case keeper_options H of
        Inl e \<Rightarrow> Some (write_out (message e) p, Exit 1)
      | Inr opts \<Rightarrow>
          if ko_watchlist opts = []
          then Some (write_out (js ''keeper: empty watchlist (set WATCHLIST_FILE or WATCHLIST). Nothing to do.'') p, Exit 1)
          else (case bind_eff (keeper_setup K H opts) (\<lambda>k. bind_eff (run_sweep K U R H k now) (\<lambda>_. ret k)) p of
                  None \<Rightarrow> None
                | Some (p', Inl e) \<Rightarrow> Some (write_out (message e) p', Exit 1)
                | Some (p', Inr k) \<Rightarrow> Some (p', Up k)))"

section \<open>Running\<close>

text \<open>\<open>if (intervalSecs > 0) setInterval(.., intervalSecs * 1000)\<close>. Node replaces a delay outside 1 to 2147483647
  milliseconds by one millisecond.\<close>

definition armed :: "'c keeper \<Rightarrow> bool" where
  "armed k \<longleftrightarrow> positive (ko_interval (k_options k))"

definition timer_ms :: "'c keeper \<Rightarrow> rat" where
  "timer_ms k =
     (case ko_interval (k_options k) of
        Num q \<Rightarrow> if 1 \<le> q * 1000 \<and> q * 1000 \<le> 2147483647 then q * 1000 else 1
      | _ \<Rightarrow> 1)"

text \<open>The process after \<open>main\<close>: the number of sweeps that were started and have not settled, the number of completed
  sweeps, and the world; or its exit code.\<close>

datatype 'c keeper_state = Running (pending: nat) (completed: nat) "'c process" | Exited nat
  where "pending (Exited n) = 0" | "completed (Exited n) = 0"

datatype keeper_action = Tick | Settle int | Chain | Drain

inductive keeper_step ::
  "kit \<Rightarrow> unicode \<Rightarrow> 'c rpc \<Rightarrow> 'c host \<Rightarrow> 'c keeper \<Rightarrow> 'c keeper_state \<Rightarrow> keeper_action \<Rightarrow> 'c keeper_state \<Rightarrow> bool"
  for K U R H k where
  tick: "armed k \<Longrightarrow> keeper_step K U R H k (Running n d p) Tick (Running (Suc n) d p)"
| settled: "run_sweep K U R H k now p = Some (p', Inr ()) \<Longrightarrow>
    keeper_step K U R H k (Running (Suc n) d p) (Settle now) (Running n (Suc d) p')"
| rejected: "run_sweep K U R H k now p = Some (p', Inl e) \<Longrightarrow>
    keeper_step K U R H k (Running (Suc n) d p) (Settle now) (Exited 1)"
| chain_moves: "keeper_step K U R H k (Running n d p) Chain (Running n d (p\<lparr>chain := c\<rparr>))"
| drained: "\<not> armed k \<Longrightarrow> \<not> k_metrics k \<Longrightarrow> keeper_step K U R H k (Running 0 d p) Drain (Exited 0)"

inductive_cases step_tickE: "keeper_step K U R H k s Tick s'"
inductive_cases step_settleE: "keeper_step K U R H k s (Settle now) s'"
inductive_cases step_exitE: "keeper_step K U R H k s a (Exited n)"
inductive_cases step_runningE: "keeper_step K U R H k s a (Running n d p)"

definition keeper_reaches ::
  "kit \<Rightarrow> unicode \<Rightarrow> 'c rpc \<Rightarrow> 'c host \<Rightarrow> 'c keeper \<Rightarrow> 'c keeper_state \<Rightarrow> 'c keeper_state \<Rightarrow> bool" where
  "keeper_reaches K U R H k = (\<lambda>s s'. \<exists>a. keeper_step K U R H k s a s')\<^sup>*\<^sup>*"

section \<open>A notifier that does not reject\<close>

text \<open>Weaker than the contract \<open>notifier\<close>: a call need not settle, but one that settles does not reject. The fan-out promises
  this for every list of sinks.\<close>

definition never_rejects :: "('w, 'a) eff \<Rightarrow> bool" where
  "never_rejects m \<longleftrightarrow> (\<forall>w w' e. m w \<noteq> Some (w', Inl e))"

lemma ret_never: "never_rejects (ret x)"
  by (simp add: never_rejects_def ret_def)

lemma log_never: "never_rejects (log_out s)"
  by (simp add: never_rejects_def log_out_def)

lemma bind_never: "never_rejects m \<Longrightarrow> (\<And>x. never_rejects (f x)) \<Longrightarrow> never_rejects (bind_eff m f)"
  unfolding never_rejects_def bind_eff_def by (simp split: option.split prod.split sum.split)

lemma catch_never: "(\<And>e. never_rejects (h e)) \<Longrightarrow> never_rejects (catch_eff m h)"
  unfolding never_rejects_def catch_eff_def by (simp split: option.split prod.split sum.split)

locale quiet_notifier =
  fixes notify :: "'w notifier_fun"
  assumes quiet: "never_rejects (notify e)"
begin

lemma run_names_quiet: "d_notify deps = notify \<Longrightarrow> never_rejects (run_names U names deps t)"
proof (induction names arbitrary: t)
  case (Cons name names)
  then show ?case unfolding run_names.simps by (intro bind_never catch_never ret_never) (simp_all add: quiet)
qed (simp add: ret_never)

end

sublocale notifier \<subseteq> quiet_notifier notify
  using settles by unfold_locales (metis never_rejects_def option.inject prod.inject sum.distinct(1))

lemma multi_notify_quiet: "never_rejects (multi_notify sinks e)"
proof -
  have "multi_notify sinks e w = Some (w', r) \<Longrightarrow> r = Inr ()" for w w' r
    by (induction sinks arbitrary: w) (auto split: option.splits prod.splits)
  then show ?thesis by (auto simp: never_rejects_def)
qed

interpretation fan_out: quiet_notifier "multi_notify sinks" for sinks
  by unfold_locales (rule multi_notify_quiet)

section \<open>When a sweep rejects, and when it settles\<close>

lemma run_deps_notify: "d_notify (run_deps K U R H k now cfg) = multi_notify (k_sinks k)"
  by (simp add: run_deps_def keeper_deps_def Let_def split: sum.splits)

text \<open>Only the config read of a sweep can reject.\<close>

lemma sweep_rejects:
  "run_sweep K U R H k now p = Some (p', Inl e) \<longleftrightarrow> p' = p \<and> getConfig K (accounts_of R (chain p)) = Inl e"
proof -
  have i: "\<exists>r'. inc_named n 1 ls r = Inr r'" for n ls r using inc_named_ok[of 1] by simp
  have c: "never_rejects (\<lambda>p. case inc_named n 1 ls (reg p) of Inl e \<Rightarrow> Some (p, Inl e) | Inr r \<Rightarrow> Some (p\<lparr>reg := r\<rparr>, Inr ()))"
    for n ls unfolding never_rejects_def using i[of n ls] by (metis (no_types, lifting) option.inject prod.inject sum.case(2) sum.distinct(1))
  have q: "never_rejects (runOnce U names (run_deps K U R H k now cfg))" for names cfg
    unfolding runOnce_def by (rule fan_out.run_names_quiet[OF run_deps_notify])
  have "never_rejects (case g of
      None \<Rightarrow> log_out a
    | Some cfg \<Rightarrow> bind_eff (runOnce U names (run_deps K U R H k now cfg)) (\<lambda>t.
        bind_eff (if m then (\<lambda>p. case inc_named n 1 ls (reg p) of Inl e \<Rightarrow> Some (p, Inl e) | Inr r \<Rightarrow> Some (p\<lparr>reg := r\<rparr>, Inr ()))
          else ret ()) (\<lambda>_. log_out (f t))))" for g a names m n ls f
    by (cases g; cases m) (simp_all add: log_never bind_never q c ret_never)
  then show ?thesis
    unfolding run_sweep_def sweep_with_def
    by (cases "getConfig K (accounts_of R (chain p))") (auto simp: bind_eff_def[of "read_chain f" for f] read_chain_def never_rejects_def)
qed

definition chain_readable :: "kit \<Rightarrow> 'c rpc \<Rightarrow> bool" where
  "chain_readable K R \<longleftrightarrow> (\<forall>c. \<exists>cfg. getConfig K (accounts_of R c) = Inr cfg)"

text \<open>The effects settle: the RPC answers a submission with a result or an error, \<open>fetch\<close> of the webhook too, and the chain
  keeps the depth discipline that makes \<open>resolve\<close> return.\<close>

definition effects_settle :: "kit \<Rightarrow> 'c rpc \<Rightarrow> 'c host \<Rightarrow> bool" where
  "effects_settle K R H \<longleftrightarrow>
     (\<forall>ix c. \<exists>r. sendAndConfirm R ix c = Some r) \<and> (\<forall>url body p. \<exists>r. h_fetch H url body p = Some r) \<and>
     (\<forall>c. depth_ok K (accounts_of R c))"

text \<open>The process of a keeper that \<open>main\<close> has set up.\<close>

definition set_up :: "'c host \<Rightarrow> 'c keeper \<Rightarrow> bool" where
  "set_up H k \<longleftrightarrow> k_sinks k = keeper_sinks_of H (k_metrics k)"

lemma bind_eff_Inr:
  "bind_eff m f w = Some (w', Inr y) \<longleftrightarrow> (\<exists>w1 x. m w = Some (w1, Inr x) \<and> f x w1 = Some (w', Inr y))"
  by (auto simp: bind_eff_def split: option.splits prod.splits sum.splits)

lemma setup_sets_up: "keeper_setup K H opts p = Some (p', Inr k) \<Longrightarrow> set_up H k"
  by (auto simp: keeper_setup_def bind_eff_Inr set_up_def ret_def Let_def split: prod.splits)

lemma main_sets_up:
  assumes "keeper_main K U R H now p = Some (p', Up k)"
  shows "set_up H k"
proof -
  obtain opts where "bind_eff (keeper_setup K H opts) (\<lambda>k. bind_eff (run_sweep K U R H k now) (\<lambda>_. ret k)) p = Some (p', Inr k)"
    using assms unfolding keeper_main_def by (auto split: sum.splits if_splits option.splits)
  then show ?thesis by (auto simp: bind_eff_Inr ret_def intro: setup_sets_up)
qed

lemma resolve_settles: "depth_ok K fetch \<Longrightarrow> \<exists>y. Client.resolve K U fetch name = Some y"
  using resolve_loop_returns unfolding Client.resolve_def stored_def
  by (fastforce split: sum.splits prod.splits option.splits)

lemma read_chain_settles: "\<exists>r. read_chain f p = Some r"
  by (simp add: read_chain_def)

lemma pair_settles: "(\<And>a b. \<exists>r. f a b w = Some r) \<Longrightarrow> \<exists>r. (case x of (a, b) \<Rightarrow> f a b) w = Some r"
  by (cases x) simp

lemma option_settles:
  "\<exists>r. f w = Some r \<Longrightarrow> (\<And>y. \<exists>r. g y w = Some r) \<Longrightarrow> \<exists>r. (case x of None \<Rightarrow> f | Some y \<Rightarrow> g y) w = Some r"
  by (cases x) simp_all

lemma log_settles: "\<exists>r. log_out s w = Some r"
  by (simp add: log_out_def)

lemma sinks_settle:
  assumes "effects_settle K R H" "s \<in> set (keeper_sinks_of H m)"
  shows "\<exists>w' r. s e w = Some (w', r)"
  using assms console_settles[of e w] metrics_settles[of e w]
  by (auto simp: keeper_sinks_of_def effects_settle_def webhook_notify_def split: option.splits if_splits)

lemma keeper_renew_settles:
  assumes "effects_settle K R H"
  shows "\<exists>r. keeper_renew K U R keeper cfg years label tld p = Some r"
proof -
  have "\<exists>r. lift_chain (sendAndConfirm R ix) q = Some r" for ix q
    using assms by (auto simp: effects_settle_def lift_chain_def split: option.splits)
  then show ?thesis
    unfolding keeper_renew_def ownerAta_def
    by (intro bind_settles of_res_settles read_chain_settles ret_settles pair_settles)
qed

lemma run_deps_settle:
  assumes "effects_settle K R H"
  shows "deps_settle (run_deps K U R H k now cfg)"
proof -
  have "\<exists>r. client_resolve K U R n p = Some r" for n p
    using resolve_settles assms by (auto simp: client_resolve_def effects_settle_def split: option.splits)
  then show ?thesis
    using keeper_renew_settles[OF assms]
    by (auto simp: deps_settle_def run_deps_def keeper_deps_def ownerDelegation_def read_chain_def Let_def split: sum.splits)
qed

lemma run_sweep_settles:
  assumes "effects_settle K R H" "set_up H k" "chain_readable K R"
  shows "\<exists>p'. run_sweep K U R H k now p = Some (p', Inr ())"
proof -
  have n: "notifier (multi_notify (k_sinks k))"
    using assms by unfold_locales (rule multi_notify_settles, auto simp: set_up_def sinks_settle)
  have "\<exists>r. runOnce U names (run_deps K U R H k now cfg) q = Some r" for names cfg q
    using notifier.run_names_total[OF n run_deps_settle[OF assms(1)] run_deps_notify] unfolding runOnce_def by blast
  moreover have "\<exists>r. (if m then (\<lambda>p. case inc_named n 1 [] (reg p) of Inl e \<Rightarrow> Some (p, Inl e) | Inr r \<Rightarrow> Some (p\<lparr>reg := r\<rparr>, Inr ()))
      else ret ()) q = Some r" for m n and q :: "'a process"
    by (simp add: ret_def split: sum.splits)
  ultimately have "\<exists>r. run_sweep K U R H k now p = Some r"
    unfolding run_sweep_def sweep_with_def by (intro bind_settles option_settles read_chain_settles log_settles)
  then obtain p' r where r: "run_sweep K U R H k now p = Some (p', r)" by auto
  moreover have "r \<noteq> Inl e" for e using sweep_rejects r assms(3) by (metis chain_readable_def sum.distinct(1))
  ultimately show ?thesis by (cases r) auto
qed

section \<open>Runs\<close>

text \<open>A run is an infinite sequence of steps. It is fair when the timer keeps ticking, and when a sweep that can settle is
  eventually let settle.\<close>

definition keeper_run ::
  "kit \<Rightarrow> unicode \<Rightarrow> 'c rpc \<Rightarrow> 'c host \<Rightarrow> 'c keeper \<Rightarrow> (nat \<Rightarrow> keeper_action) \<Rightarrow> (nat \<Rightarrow> 'c keeper_state) \<Rightarrow> bool" where
  "keeper_run K U R H k \<alpha> \<sigma> \<longleftrightarrow> (\<forall>i. keeper_step K U R H k (\<sigma> i) (\<alpha> i) (\<sigma> (Suc i)))"

definition fair ::
  "kit \<Rightarrow> unicode \<Rightarrow> 'c rpc \<Rightarrow> 'c host \<Rightarrow> 'c keeper \<Rightarrow> (nat \<Rightarrow> keeper_action) \<Rightarrow> (nat \<Rightarrow> 'c keeper_state) \<Rightarrow> bool" where
  "fair K U R H k \<alpha> \<sigma> \<longleftrightarrow>
     (\<forall>i. \<exists>j \<ge> i. \<alpha> j = Tick) \<and>
     (\<forall>i. (\<exists>now s. keeper_step K U R H k (\<sigma> i) (Settle now) s) \<longrightarrow> (\<exists>j \<ge> i. \<exists>now. \<alpha> j = Settle now))"

definition started :: "'c keeper_state \<Rightarrow> nat" where
  "started s = completed s + pending s"

fun running :: "'c keeper_state \<Rightarrow> bool" where
  "running (Running n d p) = True"
| "running (Exited n) = False"

lemma run_counts:
  assumes "keeper_run K U R H k \<alpha> \<sigma>" "\<And>i. running (\<sigma> i)"
  shows "i \<le> j \<Longrightarrow> started (\<sigma> i) \<le> started (\<sigma> j) \<and> completed (\<sigma> i) \<le> completed (\<sigma> j)"
proof (induction j)
  case (Suc j)
  have "keeper_step K U R H k (\<sigma> j) (\<alpha> j) (\<sigma> (Suc j))" "running (\<sigma> (Suc j))" using assms by (auto simp: keeper_run_def)
  then have "started (\<sigma> j) \<le> started (\<sigma> (Suc j)) \<and> completed (\<sigma> j) \<le> completed (\<sigma> (Suc j))"
    by cases (auto simp: started_def)
  with Suc show ?case by (cases "i = Suc j") (auto simp: le_Suc_eq)
qed simp

lemma readable_running:
  assumes "chain_readable K R" "armed k" "keeper_step K U R H k s a s'" "running s"
  shows "running s'"
  using assms(3)
proof cases
  case (rejected now p p' e n d)
  then show ?thesis using sweep_rejects assms(1) by (metis chain_readable_def sum.distinct(1))
qed (use assms in auto)

lemma run_running:
  assumes "chain_readable K R" "armed k" "keeper_run K U R H k \<alpha> \<sigma>" "running (\<sigma> 0)"
  shows "running (\<sigma> i)"
  by (induction i) (use assms readable_running keeper_run_def in \<open>blast+\<close>)

text \<open>Every sweep started before \<open>i\<close> has settled by some \<open>j\<close>.\<close>

lemma started_complete:
  assumes run: "keeper_run K U R H k \<alpha> \<sigma>" and r: "\<And>i. running (\<sigma> i)" and f: "fair K U R H k \<alpha> \<sigma>"
    and s: "\<And>now p. \<exists>p'. run_sweep K U R H k now p = Some (p', Inr ())"
  shows "N \<le> started (\<sigma> i) \<Longrightarrow> \<exists>j \<ge> i. N \<le> completed (\<sigma> j)"
proof (induction "N - completed (\<sigma> i)" arbitrary: i rule: less_induct)
  case less
  show ?case
  proof (cases "N \<le> completed (\<sigma> i)")
    case False
    with less.prems obtain n d p where i: "\<sigma> i = Running (Suc n) d p"
      using r[of i] by (cases "\<sigma> i"; cases "pending (\<sigma> i)") (auto simp: started_def)
    obtain p' where "run_sweep K U R H k 0 p = Some (p', Inr ())" using s by blast
    then have "keeper_step K U R H k (\<sigma> i) (Settle 0) (Running n (Suc d) p')" unfolding i by (rule settled)
    then obtain j now where j: "j \<ge> i" "\<alpha> j = Settle now" using f unfolding fair_def by blast
    have "keeper_step K U R H k (\<sigma> j) (Settle now) (\<sigma> (Suc j))" using run j(2) by (metis keeper_run_def)
    then have "completed (\<sigma> (Suc j)) = Suc (completed (\<sigma> j))" using r[of "Suc j"] by cases auto
    moreover have "completed (\<sigma> i) \<le> completed (\<sigma> j)" "started (\<sigma> i) \<le> started (\<sigma> (Suc j))"
      using run_counts[OF run r] j(1) by auto
    ultimately have "\<exists>l \<ge> Suc j. N \<le> completed (\<sigma> l)" using less False by (intro less.hyps) auto
    with j(1) show ?thesis by (meson Suc_leD le_trans)
  qed auto
qed

lemma ticks_start:
  assumes run: "keeper_run K U R H k \<alpha> \<sigma>" and r: "\<And>i. running (\<sigma> i)" and f: "fair K U R H k \<alpha> \<sigma>"
  shows "\<exists>i. N \<le> started (\<sigma> i)"
proof (induction N)
  case (Suc N)
  then obtain i where i: "N \<le> started (\<sigma> i)" by blast
  obtain j where j: "j \<ge> i" "\<alpha> j = Tick" using f unfolding fair_def by blast
  have "keeper_step K U R H k (\<sigma> j) Tick (\<sigma> (Suc j))" using run j(2) by (metis keeper_run_def)
  then have "started (\<sigma> (Suc j)) = Suc (started (\<sigma> j))" by cases (auto simp: started_def)
  with i run_counts[OF run r j(1)] have "Suc N \<le> started (\<sigma> (Suc j))" by auto
  then show ?case by blast
qed simp

text \<open>Fair runs exist: each tick's sweep settles before the next tick.\<close>

lemma fair_run_exists:
  assumes "armed k" and s: "\<And>now p. \<exists>p'. run_sweep K U R H k now p = Some (p', Inr ())"
  shows "\<exists>\<alpha> \<sigma>. keeper_run K U R H k \<alpha> \<sigma> \<and> fair K U R H k \<alpha> \<sigma> \<and> \<sigma> 0 = Running n d p"
proof -
  define f where "f q = fst (the (run_sweep K U R H k 0 q))" for q
  have f: "run_sweep K U R H k 0 q = Some (f q, Inr ())" for q using s[of 0 q] by (auto simp: f_def)
  define \<alpha> where "\<alpha> i = (if even i then Tick else Settle 0)" for i :: nat
  define \<sigma> where "\<sigma> i = Running (n + i mod 2) (d + i div 2) ((f ^^ (i div 2)) p)" for i
  have "keeper_step K U R H k (\<sigma> i) (\<alpha> i) (\<sigma> (Suc i))" for i
  proof (cases "even i")
    case True
    then show ?thesis using tick[OF assms(1)] by (auto simp: \<alpha>_def \<sigma>_def elim!: evenE)
  next
    case False
    then obtain m where "i = 2 * m + 1" by (elim oddE)
    then show ?thesis using settled[OF f] by (simp add: \<alpha>_def \<sigma>_def)
  qed
  moreover have "\<exists>j \<ge> i. \<alpha> j = Tick" "\<exists>j \<ge> i. \<alpha> j = Settle 0" for i
    by (rule exI[of _ "2 * i"], simp add: \<alpha>_def) (rule exI[of _ "2 * i + 1"], simp add: \<alpha>_def)
  then have "fair K U R H k \<alpha> \<sigma>" unfolding fair_def by blast
  moreover have "\<sigma> 0 = Running n d p" by (simp add: \<sigma>_def)
  ultimately show ?thesis by (auto simp: keeper_run_def)
qed

section \<open>Exits\<close>

lemma exit_by_config:
  assumes "keeper_reaches K U R H k s (Exited m)" "running s" "armed k"
  shows "m = 1 \<and> (\<exists>c e. getConfig K (accounts_of R c) = Inl e)"
proof -
  have "running s' \<or> (s' = Exited 1 \<and> (\<exists>c e. getConfig K (accounts_of R c) = Inl e))" if "keeper_reaches K U R H k s s'" for s'
    using that unfolding keeper_reaches_def
  proof (induction rule: rtranclp_induct)
    case (step s1 s2)
    then obtain a where a: "keeper_step K U R H k s1 a s2" by blast
    show ?case
    proof (cases s2)
      case (Exited m)
      from a[unfolded this] have "m = 1 \<and> (\<exists>c e. getConfig K (accounts_of R c) = Inl e)"
        using assms(3) by (elim step_exitE) (auto simp: sweep_rejects)
      with Exited show ?thesis by simp
    qed simp
  qed (use assms(2) in simp)
  from this[OF assms(1)] show ?thesis by simp
qed

lemma reaches_refl: "keeper_reaches K U R H k s s"
  by (simp add: keeper_reaches_def)

lemma reaches_step:
  "keeper_step K U R H k s a s' \<Longrightarrow> keeper_reaches K U R H k s' t \<Longrightarrow> keeper_reaches K U R H k s t"
  unfolding keeper_reaches_def by (rule converse_rtranclp_into_rtranclp) auto

lemma config_exits:
  assumes "getConfig K (accounts_of R c) = Inl e" "armed k"
  shows "keeper_reaches K U R H k (Running n d p) (Exited 1)"
proof -
  let ?q = "p\<lparr>chain := c\<rparr>"
  have "run_sweep K U R H k 0 ?q = Some (?q, Inl e)" using assms(1) by (simp add: sweep_rejects)
  then have "keeper_step K U R H k (Running (Suc n) d ?q) (Settle 0) (Exited 1)" by (rule rejected)
  moreover have "keeper_step K U R H k (Running n d p) Chain (Running n d ?q)" by (rule chain_moves)
  moreover have "keeper_step K U R H k (Running n d ?q) Tick (Running (Suc n) d ?q)" using assms(2) by (rule tick)
  ultimately show ?thesis using reaches_step reaches_refl by metis
qed

text \<open>An interval of more than 2147483.647 seconds (24.8 days) makes the timer tick every millisecond.\<close>

lemma long_interval_overflows:
  "ko_interval (k_options k) = Num q \<Longrightarrow> q > 2147483.647 \<Longrightarrow> timer_ms k = 1"
  by (simp add: timer_ms_def)

section \<open>Overlapping and competing renewals\<close>

text \<open>The times at which a sequence of renewal attempts on one record succeeds. An attempt has the config, the time and the
  arguments of the call; one that fails leaves the record and the tokens as they are.\<close>

fun renewal_times ::
  "(bytes \<Rightarrow> bytes) \<Rightarrow> (config \<Rightarrow> int \<Rightarrow> 't \<Rightarrow> solans_error + 't) \<Rightarrow> (config \<times> int \<times> jsstr \<times> jsstr \<times> int) list \<Rightarrow>
   nameRecord \<times> 't \<Rightarrow> int list" where
  "renewal_times h distribute [] st = []"
| "renewal_times h distribute ((cfg, now, label, tld, years) # attempts) st =
     (case auto_renew h distribute cfg now label tld years st of
        Inl e \<Rightarrow> renewal_times h distribute attempts st
      | Inr st' \<Rightarrow> now # renewal_times h distribute attempts st')"

lemma auto_renew_effect:
  assumes "auto_renew h distribute cfg now label tld years (r, toks) = Inr (r', toks')"
  shows "nr_expiresAt r - 2592000 \<le> now \<and> nr_expiresAt r' = max (nr_expiresAt r) now + 31536000"
  using assms
  by (auto simp: auto_renew_def res_simps renewed_expiry_def years_to_secs_def SECONDS_PER_YEAR_def
      RUST_RENEWAL_WINDOW_SECONDS_def split: if_splits)

lemma renewal_times_after:
  "x \<in> set (renewal_times h distribute attempts (r, toks)) \<Longrightarrow> nr_expiresAt r - 2592000 \<le> x"
proof (induction attempts arbitrary: r toks)
  case (Cons a attempts)
  obtain cfg now label tld years where a: "a = (cfg, now, label, tld, years)" by (cases a)
  show ?case
  proof (cases "auto_renew h distribute cfg now label tld years (r, toks)")
    case (Inr st)
    then obtain r' toks' where "auto_renew h distribute cfg now label tld years (r, toks) = Inr (r', toks')" by (cases st) auto
    with auto_renew_effect[OF this] Cons show ?thesis by (fastforce simp: a)
  qed (use Cons a in auto)
qed simp

section \<open>A sample keeper\<close>

text \<open>A chain on which the registry is not initialised yet, a host that watches one name, and the keeper that \<open>main\<close> sets up there.\<close>

definition sample_rpc :: "unit rpc" where
  "sample_rpc = \<lparr>findAssociatedTokenPda = \<lambda>owner mint. Inr sample_address, decodeToken = \<lambda>bs. Inr (None, 0),
     accounts_of = \<lambda>c a. Inr None, sendAndConfirm = \<lambda>ix. ret (js ''signature'')\<rparr>"

definition sample_host :: "unit host" where
  "sample_host = \<lparr>h_env = [''WATCHLIST'' \<mapsto> js ''alex.sol''], h_homedir = js ''/home/keeper'', h_Number = (\<lambda>s. NaN),
     h_num_str = (\<lambda>q. js ''3600''), h_watchlist = (\<lambda>f. Inr None), h_keypair = (\<lambda>f. Inr sample_wallet),
     h_connect = (\<lambda>r w. Inr ()), h_fetch = (\<lambda>url body. ret ())\<rparr>"

definition sample_keeper :: "unit keeper" where
  "sample_keeper = \<lparr>k_options = \<lparr>ko_rpcUrl = js ''https://api.devnet.solana.com'', ko_wsUrl = js ''wss://api.devnet.solana.com'',
       ko_interval = Num 3600, ko_years = Num 1, ko_notifyWindowSecs = 60 * DAY, ko_watchlist = [js ''alex.sol'']\<rparr>,
     k_signer = sample_wallet, k_configPda = replicate 31 49 @ [53], k_metrics = False, k_sinks = [console_notify]\<rparr>"

lemma sample_keeper_facts:
  "armed sample_keeper" "chain_readable ref_kit sample_rpc"
  "effects_settle ref_kit sample_rpc sample_host"
proof -
  show "armed sample_keeper" by (simp add: armed_def sample_keeper_def)
  show "chain_readable ref_kit sample_rpc"
    by (simp add: chain_readable_def getConfig_def fetch_decoded_def sample_pdas sample_rpc_def)
  show "effects_settle ref_kit sample_rpc sample_host"
    by (simp add: effects_settle_def sample_rpc_def sample_host_def ret_def depth_ok_def stored_def)
qed

text \<open>\<open>main\<close> on that host comes up with that keeper.\<close>

lemma sample_main:
  "\<exists>p. keeper_main ref_kit ascii_unicode sample_rpc sample_host 0 \<lparr>out = [], reg = [], chain = ()\<rparr> = Some (p, Up sample_keeper)"
proof -
  have t: "trim (js ''alex.sol'') = js ''alex.sol''" by (simp add: trim_def is_js_space_def)
  have c: "split_on 44 (js ''alex.sol'') = [js ''alex.sol'']" by simp
  have w: "loadWatchlist None (Some (js ''alex.sol'')) = Inr [js ''alex.sol'']"
    unfolding loadWatchlist_def option.case c Let_def bind_res.simps by (simp add: t set_add_def del: js_Cons) simp
  have o: "keeper_options sample_host = Inr (k_options sample_keeper)"
    using w by (simp add: keeper_options_def sample_host_def sample_keeper_def bigint_num_def env_number_def Let_def ws_of_def startsWith_def)
  let ?p = "\<lparr>out = [], reg = [], chain = ()\<rparr>"
  obtain p where p: "keeper_setup ref_kit sample_host (k_options sample_keeper) ?p = Some (p, Inr sample_keeper)"
    by (simp add: keeper_setup_def bind_eff_def of_res_def ret_def log_out_def sample_pdas Let_def env_number_def
        sample_host_def keeper_sinks_of_def sample_keeper_def del: js_Cons)
  obtain q where q: "run_sweep ref_kit ascii_unicode sample_rpc sample_host sample_keeper 0 p = Some (q, Inr ())"
    using run_sweep_settles[OF sample_keeper_facts(3) setup_sets_up[OF p] sample_keeper_facts(2)] by blast
  have "ko_watchlist (k_options sample_keeper) \<noteq> []" by (simp add: sample_keeper_def)
  with o p q show ?thesis by (simp add: keeper_main_def bind_step ret_def)
qed

section \<open>Properties\<close>

text \<open>C32: A keeper with a timer, on a chain whose config can be read and with effects that settle, lives forever: once main has come up there are fair runs, and in every fair run it never exits, every sweep that was started has completed at some later point, however the sweeps overlap and the chain changes, and the number of completed sweeps grows without bound.\<close>

theorem keeper_keeps_sweeping:
  assumes "armed k" "chain_readable K R" "effects_settle K R H" "keeper_main K U R H now p0 = Some (p, Up k)"
  shows "(\<exists>\<alpha> \<sigma>. keeper_run K U R H k \<alpha> \<sigma> \<and> fair K U R H k \<alpha> \<sigma> \<and> \<sigma> 0 = Running 0 1 p) \<and>
    (\<forall>\<alpha> \<sigma>. keeper_run K U R H k \<alpha> \<sigma> \<and> fair K U R H k \<alpha> \<sigma> \<and> running (\<sigma> 0) \<longrightarrow>
      (\<forall>i. running (\<sigma> i)) \<and> (\<forall>i. \<exists>j \<ge> i. started (\<sigma> i) \<le> completed (\<sigma> j)) \<and> (\<forall>N. \<exists>j. N \<le> completed (\<sigma> j)))"
proof -
  have s: "\<exists>p'. run_sweep K U R H k now p = Some (p', Inr ())" for now p
    using run_sweep_settles[OF assms(3) main_sets_up[OF assms(4)] assms(2)] .
  have "(\<forall>i. running (\<sigma> i)) \<and> (\<forall>i. \<exists>j \<ge> i. started (\<sigma> i) \<le> completed (\<sigma> j)) \<and> (\<forall>N. \<exists>j. N \<le> completed (\<sigma> j))"
    if run: "keeper_run K U R H k \<alpha> \<sigma>" and f: "fair K U R H k \<alpha> \<sigma>" and r0: "running (\<sigma> 0)" for \<alpha> \<sigma>
  proof -
    have r: "running (\<sigma> i)" for i using run_running[OF assms(2,1) run r0] .
    have "\<exists>j \<ge> i. N \<le> completed (\<sigma> j)" if "N \<le> started (\<sigma> i)" for N i using started_complete[OF run r f s that] .
    with r ticks_start[OF run r f] show ?thesis by blast
  qed
  with fair_run_exists[OF assms(1) s] show ?thesis by blast
qed

theorem keeper_keeps_sweeping_witness:
  "\<exists>p \<alpha> \<sigma>. keeper_run ref_kit ascii_unicode sample_rpc sample_host sample_keeper \<alpha> \<sigma> \<and> \<sigma> 0 = Running 0 1 p \<and>
     (\<forall>i. running (\<sigma> i)) \<and> (\<forall>N. \<exists>j. N \<le> completed (\<sigma> j))"
proof -
  obtain p where "keeper_main ref_kit ascii_unicode sample_rpc sample_host 0 \<lparr>out = [], reg = [], chain = ()\<rparr> = Some (p, Up sample_keeper)"
    using sample_main by blast
  note L = keeper_keeps_sweeping[OF sample_keeper_facts this]
  then obtain \<alpha> \<sigma> where r: "keeper_run ref_kit ascii_unicode sample_rpc sample_host sample_keeper \<alpha> \<sigma>"
    "fair ref_kit ascii_unicode sample_rpc sample_host sample_keeper \<alpha> \<sigma>" "\<sigma> 0 = Running 0 1 p" by blast
  then have "running (\<sigma> 0)" by simp
  with L r show ?thesis by blast
qed

text \<open>C34: However many renewals overlapping sweeps and competing keepers submit for a record, in whatever order they arrive, at whatever times, and however the configuration changes in between, two that the program accepts are at least a year less the thirty-day window (335 days) apart, so an owner is not charged twice for one term.\<close>

theorem renewals_are_a_year_apart:
  "sorted_wrt (\<lambda>t u. t + 335 * 86400 \<le> u) (renewal_times h distribute attempts st)"
proof (induction attempts arbitrary: st)
  case (Cons a attempts)
  obtain cfg now label tld years where a: "a = (cfg, now, label, tld, years)" by (cases a)
  obtain r toks where st: "st = (r, toks)" by (cases st)
  show ?case
  proof (cases "auto_renew h distribute cfg now label tld years st")
    case (Inr st')
    obtain r' toks' where st': "st' = (r', toks')" by (cases st')
    have "nr_expiresAt r' = max (nr_expiresAt r) now + 31536000" using auto_renew_effect[OF Inr[unfolded st st']] by blast
    with renewal_times_after[of _ h distribute attempts r' toks'] Cons show ?thesis by (fastforce simp: a Inr st')
  qed (use Cons a in simp)
qed simp

text \<open>C36: Once its timer is armed, the keeper can exit exactly when some state of the chain makes the config read reject, and it then exits with code 1: a failing lookup, renewal, webhook or metrics update never ends it, but a single failing config read in a later sweep is not caught and does.\<close>

theorem keeper_exits_exactly_on_unreadable_config:
  assumes "armed k"
  shows "((\<exists>m. keeper_reaches K U R H k (Running n d p) (Exited m)) \<longleftrightarrow> (\<exists>c e. getConfig K (accounts_of R c) = Inl e)) \<and>
    (\<forall>m. keeper_reaches K U R H k (Running n d p) (Exited m) \<longrightarrow> m = 1)"
  using exit_by_config[OF _ _ assms, of K U R H "Running n d p"] config_exits[OF _ assms, of K R _ _ U H n d p] by auto

theorem keeper_exits_exactly_on_unreadable_config_witness:
  "\<not> (\<exists>m. keeper_reaches ref_kit ascii_unicode sample_rpc sample_host sample_keeper (Running 0 1 \<lparr>out = [], reg = [], chain = ()\<rparr>)
      (Exited m)) \<and>
   (\<exists>m. keeper_reaches ref_kit ascii_unicode (sample_rpc\<lparr>accounts_of := \<lambda>c a. Inl watchlist_error\<rparr>) sample_host sample_keeper
      (Running 0 1 \<lparr>out = [], reg = [], chain = ()\<rparr>) (Exited m))"
proof
  show "\<not> (\<exists>m. keeper_reaches ref_kit ascii_unicode sample_rpc sample_host sample_keeper (Running 0 1 \<lparr>out = [], reg = [], chain = ()\<rparr>)
      (Exited m))"
    using keeper_exits_exactly_on_unreadable_config[OF sample_keeper_facts(1), of ref_kit ascii_unicode sample_rpc]
      sample_keeper_facts(2) by (auto simp: chain_readable_def)
  have "getConfig ref_kit (\<lambda>a. Inl watchlist_error) = Inl watchlist_error"
    by (simp add: getConfig_def fetch_decoded_def sample_pdas)
  then show "\<exists>m. keeper_reaches ref_kit ascii_unicode (sample_rpc\<lparr>accounts_of := \<lambda>c a. Inl watchlist_error\<rparr>) sample_host sample_keeper
      (Running 0 1 \<lparr>out = [], reg = [], chain = ()\<rparr>) (Exited m)"
    using keeper_exits_exactly_on_unreadable_config[OF sample_keeper_facts(1), of ref_kit ascii_unicode
        "sample_rpc\<lparr>accounts_of := \<lambda>c a. Inl watchlist_error\<rparr>"] by auto
qed

end
