(* ===== verification/Hosting.thy ===== *)
theory Hosting
  imports Prelude
begin

text \<open>
  \<open>clients/sdk/src/hosting.ts\<close>, \<open>records.ts\<close> and \<open>pinata.ts\<close>. The regular expressions of \<open>hostingUrl\<close> are
  written out as predicates on code points: \<open>.\<close> matches anything but a line terminator, the \<open>i\<close> flag folds
  ASCII letters only (a non-ASCII character never folds to an ASCII one). \<open>pinBytes\<close> takes its \<open>fetch\<close> as an
  argument, as the code does.
\<close>

section \<open>hosting.ts\<close>

record gateways =
  gw_ipfs :: jsstr
  gw_arweave :: jsstr

definition DEFAULT_GATEWAYS :: gateways where
  "DEFAULT_GATEWAYS = \<lparr>gw_ipfs = js ''https://ipfs.io'', gw_arweave = js ''https://arweave.net''\<rparr>"

definition trimEnd :: "jsstr \<Rightarrow> jsstr" where
  "trimEnd s = rev (dropWhile (\<lambda>c. c = 47) (rev s))"

definition stripSlashes :: "jsstr \<Rightarrow> jsstr" where
  "stripSlashes s = trimEnd (dropWhile (\<lambda>c. c = 47) s)"

text \<open>A scheme prefix under the \<open>i\<close> flag, and what follows it.\<close>

definition strip_scheme :: "string \<Rightarrow> jsstr \<Rightarrow> jsstr option" where
  "strip_scheme scheme r =
     (let n = length scheme in
      if map ascii_lower (take n r) = js scheme then Some (drop n r) else None)"

definition is_http :: "jsstr \<Rightarrow> bool" where
  "is_http r \<longleftrightarrow> strip_scheme ''http://'' r \<noteq> None \<or> strip_scheme ''https://'' r \<noteq> None"

definition is_line_terminator :: "nat \<Rightarrow> bool" where
  "is_line_terminator c \<longleftrightarrow> c = 10 \<or> c = 13 \<or> c = 0x2028 \<or> c = 0x2029"

text \<open>\<open>/^scheme:\/\/(.+)$/i.exec(r)\<close>: the group, if the expression matches.\<close>

definition match_scheme :: "string \<Rightarrow> jsstr \<Rightarrow> jsstr option" where
  "match_scheme scheme r =
     (case strip_scheme scheme r of
        None \<Rightarrow> None
      | Some rest \<Rightarrow> if rest \<noteq> [] \<and> list_all (\<lambda>c. \<not> is_line_terminator c) rest then Some rest else None)"

definition is_alnum :: "nat \<Rightarrow> bool" where
  "is_alnum c \<longleftrightarrow> (65 \<le> c \<and> c \<le> 90) \<or> (97 \<le> c \<and> c \<le> 122) \<or> (48 \<le> c \<and> c \<le> 57)"

definition is_arweave_id :: "jsstr \<Rightarrow> bool" where
  "is_arweave_id r \<longleftrightarrow> length r = 43 \<and> list_all (\<lambda>c. is_alnum c \<or> c = 95 \<or> c = 45) r"

text \<open>\<open>[1-9A-HJ-NP-Za-km-z]\<close> and \<open>[a-z2-7]\<close>.\<close>

definition is_base58_char :: "nat \<Rightarrow> bool" where
  "is_base58_char c \<longleftrightarrow>
     (49 \<le> c \<and> c \<le> 57) \<or> (65 \<le> c \<and> c \<le> 72) \<or> (74 \<le> c \<and> c \<le> 78) \<or> (80 \<le> c \<and> c \<le> 90) \<or>
     (97 \<le> c \<and> c \<le> 107) \<or> (109 \<le> c \<and> c \<le> 122)"

definition is_base32_char :: "nat \<Rightarrow> bool" where
  "is_base32_char c \<longleftrightarrow> (97 \<le> c \<and> c \<le> 122) \<or> (50 \<le> c \<and> c \<le> 55)"

definition is_cid :: "jsstr \<Rightarrow> bool" where
  "is_cid r \<longleftrightarrow>
     (take 2 r = js ''Qm'' \<and> 44 \<le> length (drop 2 r) \<and> list_all is_base58_char (drop 2 r)) \<or>
     (take 2 r = js ''ba'' \<and> 40 \<le> length (drop 2 r) \<and> list_all is_base32_char (drop 2 r))"

definition hostingUrl :: "jsstr option \<Rightarrow> jsstr \<Rightarrow> gateways \<Rightarrow> jsstr option" where
  "hostingUrl ref subPath gateways =
     (case ref of
        None \<Rightarrow> None
      | Some ref \<Rightarrow>
          let r = trim ref; sub = (if subPath \<noteq> [] then 47 # stripSlashes subPath else []) in
          if r = [] then None
          else if is_http r then Some (trimEnd r @ sub)
          else case match_scheme ''ipfs://'' r of
            Some m \<Rightarrow> Some (trimEnd (gw_ipfs gateways) @ js ''/ipfs/'' @ stripSlashes m @ sub)
          | None \<Rightarrow>
              (case match_scheme ''ar://'' r of
                 Some m \<Rightarrow> Some (trimEnd (gw_arweave gateways) @ js ''/'' @ stripSlashes m @ sub)
               | None \<Rightarrow>
                   if is_arweave_id r then Some (trimEnd (gw_arweave gateways) @ js ''/'' @ r @ sub)
                   else if is_cid r then Some (trimEnd (gw_ipfs gateways) @ js ''/ipfs/'' @ r @ sub)
                   else None))"

section \<open>records.ts\<close>

definition RecordKeys :: "(jsstr \<times> jsstr) list" where
  "RecordKeys = [
     (js ''addressSol'', js ''address.SOL''), (js ''addressEth'', js ''address.ETH''),
     (js ''addressBtc'', js ''address.BTC''), (js ''url'', js ''url''), (js ''avatar'', js ''avatar''),
     (js ''content'', js ''content''), (js ''twitter'', js ''twitter''), (js ''github'', js ''github''),
     (js ''email'', js ''email''), (js ''notice'', js ''notice''), (js ''keywords'', js ''keywords'')]"

section \<open>pinata.ts\<close>

record pin_request =
  pr_url :: jsstr
  pr_method :: jsstr
  pr_authorization :: jsstr
  pr_file :: bytes
  pr_filename :: jsstr

record pin_response =
  ps_status :: nat
  ps_text :: jsstr
  ps_IpfsHash :: "jsstr option"

definition PINATA_PIN_URL :: jsstr where
  "PINATA_PIN_URL = js ''https://api.pinata.cloud/pinning/pinFileToIPFS''"

text \<open>\<open>res.ok\<close> is a status in the 200 range.\<close>

definition pinBytes :: "(pin_request \<Rightarrow> pin_response res) \<Rightarrow> jsstr \<Rightarrow> bytes \<Rightarrow> jsstr \<Rightarrow> jsstr res" where
  "pinBytes fetcher jwt bs filename =
     bind_res (fetcher \<lparr>pr_url = PINATA_PIN_URL, pr_method = js ''POST'',
                        pr_authorization = js ''Bearer '' @ jwt, pr_file = bs, pr_filename = filename\<rparr>) (\<lambda>r.
       if \<not> (200 \<le> ps_status r \<and> ps_status r \<le> 299)
       then Inl (JsError (js ''Pinata pin failed: '' @ dec_digits (ps_status r) @ js '' '' @ ps_text r))
       else case ps_IpfsHash r of
         Some (c # cs) \<Rightarrow> Inr (c # cs)
       | _ \<Rightarrow> Inl (JsError (js ''Pinata response missing IpfsHash'')))"

section \<open>Lemmas\<close>

lemma trimEnd_idem [simp]: "trimEnd (trimEnd s) = trimEnd s"
  by (simp add: trimEnd_def dropWhile_idem)

lemma trimEnd_no_slash: "trimEnd s \<noteq> [] \<Longrightarrow> last (trimEnd s) \<noteq> 47"
  by (metis (mono_tags, lifting) hd_dropWhile last_rev rev_is_Nil_conv trimEnd_def)

text \<open>A url that is returned points to an \<open>http(s)\<close> address the reference itself gives, or below one of
  the two configured gateways.\<close>

lemma hostingUrl_targets:
  assumes "hostingUrl (Some ref) sub gw = Some u"
  shows "(is_http (trim ref) \<and> prefix (trimEnd (trim ref)) u) \<or> prefix (trimEnd (gw_ipfs gw) @ js ''/ipfs/'') u \<or>
    prefix (trimEnd (gw_arweave gw) @ js ''/'') u"
  using assms
  by (auto simp: hostingUrl_def Let_def prefix_def split: if_splits option.splits)

lemma line_terminator_space: "is_line_terminator c \<Longrightarrow> is_js_space c"
  by (auto simp: is_line_terminator_def is_js_space_def)

lemma hostingUrl_ipfs:
  assumes "cid \<noteq> []" "list_all (\<lambda>c. \<not> is_js_space c) cid" "stripSlashes cid = cid"
  shows "hostingUrl (Some (js ''ipfs://'' @ cid)) [] gw = Some (trimEnd (gw_ipfs gw) @ js ''/ipfs/'' @ cid)"
proof -
  have "trim (js ''ipfs://'' @ cid) = js ''ipfs://'' @ cid"
    using assms(2) by (intro trim_id) (simp add: is_js_space_def)
  moreover have "list_all (\<lambda>c. \<not> is_line_terminator c) cid"
    using assms(2) line_terminator_space by (metis (mono_tags, lifting) list_all_iff)
  then have "match_scheme ''ipfs://'' (js ''ipfs://'' @ cid) = Some cid"
    using assms(1) by (simp add: match_scheme_def strip_scheme_def ascii_lower_def)
  moreover have "\<not> is_http (js ''ipfs://'' @ cid)"
    by (simp add: is_http_def strip_scheme_def ascii_lower_def)
  ultimately show ?thesis
    by (simp add: hostingUrl_def Let_def assms(1,3) del: js_Cons)
qed

end
