(* ===== verification/Cache.thy ===== *)
theory Cache
  imports Prelude "HOL-Library.AList"
begin

text \<open>
  \<open>services/resolver/src/cache.ts\<close>: the TTL cache. The interface \<open>Cache\<close> is the locale \<open>ttl_cache\<close>, over an
  abstract view (key to value and expiry time); \<open>MemoryCache\<close> is the association list of its \<open>Map\<close>. The
  injected clock is the argument \<open>now\<close> of each operation, in milliseconds. Inside the locale, a cache that
  only holds what a function of its keys produced is shown to answer with that function.
\<close>

section \<open>MemoryCache\<close>

type_synonym memory_cache = "(jsstr \<times> jsstr \<times> int) list"

definition new_MemoryCache :: memory_cache where
  "new_MemoryCache = []"

definition cache_get :: "int \<Rightarrow> jsstr \<Rightarrow> memory_cache \<Rightarrow> memory_cache \<times> jsstr option" where
  "cache_get now k store =
     (case map_of store k of
        None \<Rightarrow> (store, None)
      | Some (v, expiresAt) \<Rightarrow> if now \<ge> expiresAt then (AList.delete k store, None) else (store, Some v))"

definition cache_set :: "int \<Rightarrow> jsstr \<Rightarrow> jsstr \<Rightarrow> int \<Rightarrow> memory_cache \<Rightarrow> memory_cache" where
  "cache_set now k v ttlSeconds store = AList.update k (v, now + ttlSeconds * 1000) store"

section \<open>The interface\<close>

type_synonym cache_view = "jsstr \<Rightarrow> (jsstr \<times> int) option"

locale ttl_cache =
  fixes get :: "int \<Rightarrow> jsstr \<Rightarrow> 's \<Rightarrow> 's \<times> jsstr option"
    and set :: "int \<Rightarrow> jsstr \<Rightarrow> jsstr \<Rightarrow> int \<Rightarrow> 's \<Rightarrow> 's"
    and view :: "'s \<Rightarrow> cache_view"
    and init :: 's
  assumes view_init: "view init k = None"
    and get_value: "snd (get now k s) =
      (case view s k of None \<Rightarrow> None | Some (v, x) \<Rightarrow> if now < x then Some v else None)"
    and get_view: "view (fst (get now k s)) j = (if j = k \<and> snd (get now k s) = None then None else view s j)"
    and set_view: "view (set now k v ttl s) = (view s)(k \<mapsto> (v, now + ttl * 1000))"
begin

lemma get_after_set:
  "snd (get now' k (set now k v ttl s)) = (if now' < now + ttl * 1000 then Some v else None)"
  by (simp add: get_value set_view)

lemma set_other: "j \<noteq> k \<Longrightarrow> snd (get now' j (set now k v ttl s)) = snd (get now' j s)"
  by (simp add: get_value set_view)

text \<open>\<open>holds F s\<close>: every entry is what \<open>F\<close> gives for its key. Lookups keep it, so do stores of \<open>F\<close>'s values,
  and under it a hit is \<open>F\<close>'s value.\<close>

definition holds :: "(jsstr \<Rightarrow> jsstr) \<Rightarrow> 's \<Rightarrow> bool" where
  "holds F s \<longleftrightarrow> (\<forall>k v x. view s k = Some (v, x) \<longrightarrow> v = F k)"

lemma holds_init: "holds F init"
  by (simp add: holds_def view_init)

lemma holds_get: "holds F s \<Longrightarrow> holds F (fst (get now k s))"
  by (auto simp: holds_def get_view split: if_splits)

lemma holds_set: "holds F s \<Longrightarrow> holds F (set now k (F k) ttl s)"
  by (auto simp: holds_def set_view)

lemma hit_value: "holds F s \<Longrightarrow> snd (get now k s) = Some v \<Longrightarrow> v = F k"
  by (auto simp: holds_def get_value split: option.splits prod.splits if_splits)

end

lemma map_of_delete: "map_of (AList.delete k al) j = (if j = k then None else map_of al j)"
  by (simp add: delete_conv')

interpretation mem_cache: ttl_cache cache_get cache_set map_of new_MemoryCache
  by unfold_locales
     (auto simp: cache_get_def cache_set_def new_MemoryCache_def update_conv' map_of_delete
       split: option.splits prod.splits)

text \<open>After a set, a lookup of the key returns the value strictly before its expiry and nothing from then on, and lookups of other keys are unaffected.\<close>

lemma cache_returns_last_unexpired_value:
  "snd (cache_get later j (cache_set now k v ttl s)) =
     (if j = k then (if later < now + ttl * 1000 then Some v else None) else snd (cache_get later j s))"
  by (simp add: mem_cache.get_after_set mem_cache.set_other)

end
