(* ===== verification/Doh.thy ===== *)
theory Doh
  imports Account_Types "HOL-Library.Word"
begin

text \<open>
  \<open>services/resolver/src/doh.ts\<close>: DNS messages for the resolver. The package \<open>dns-packet\<close> is the parameter
  record \<open>dns\<close>: its decoder, its encoder and its constant \<open>AUTHORITATIVE_ANSWER\<close>; \<open>dns_ok\<close> states that decoding
  what was encoded gives the message back, for messages the encoder accepts whose names are neither
  empty nor dotted at an end (the decoder prints the root as a dot and drops a final dot).
\<close>

record question =
  q_type :: "jsstr option"
  q_name :: "jsstr option"

record answer =
  a_type :: jsstr
  a_name :: jsstr
  a_ttl :: int
  a_data :: "jsstr list"

record dnsMessage =
  m_type :: jsstr
  m_id :: "int option"
  m_flags :: nat
  m_questions :: "question list"
  m_answers :: "answer list"

record dns =
  dns_decode :: "bytes \<Rightarrow> dnsMessage res"
  dns_encode :: "dnsMessage \<Rightarrow> bytes res"
  AUTHORITATIVE_ANSWER :: nat
  rcode_name :: "nat \<Rightarrow> jsstr"

definition plain_name :: "jsstr \<Rightarrow> bool" where
  "plain_name n \<longleftrightarrow> n \<noteq> [] \<and> hd n \<noteq> 46 \<and> last n \<noteq> 46"

definition message_ok :: "dnsMessage \<Rightarrow> bool" where
  "message_ok m \<longleftrightarrow>
     m_flags m < 2 ^ 15 \<and>
     list_all (\<lambda>q. q_type q \<noteq> None \<and> (case q_name q of None \<Rightarrow> False | Some n \<Rightarrow> plain_name n)) (m_questions m) \<and>
     list_all (\<lambda>a. plain_name (a_name a)) (m_answers m)"

definition dns_ok :: "dns \<Rightarrow> bool" where
  "dns_ok D \<longleftrightarrow>
     (\<forall>m bs. message_ok m \<and> dns_encode D m = Inr bs \<longrightarrow> dns_decode D bs = Inr m) \<and>
     AUTHORITATIVE_ANSWER D = 2 ^ 10"

record dohQuery =
  dq_id :: int
  dq_name :: jsstr
  dq_type :: jsstr

definition RCODE_NXDOMAIN :: nat where "RCODE_NXDOMAIN = 3"

definition decodeDohQuery :: "dns \<Rightarrow> bytes \<Rightarrow> dohQuery res" where
  "decodeDohQuery D bs =
     bind_res (dns_decode D bs) (\<lambda>msg.
       let q = (case m_questions msg of [] \<Rightarrow> None | x # xs \<Rightarrow> Some x) in
       Inr \<lparr>dq_id = or_else (m_id msg) 0,
            dq_name = (case q of None \<Rightarrow> [] | Some x \<Rightarrow> or_else (q_name x) []),
            dq_type = (case q of None \<Rightarrow> js ''TXT'' | Some x \<Rightarrow> or_else (q_type x) (js ''TXT''))\<rparr>)"

definition encodeDohQuery :: "dns \<Rightarrow> jsstr \<Rightarrow> jsstr \<Rightarrow> int \<Rightarrow> bytes res" where
  "encodeDohQuery D name type i =
     dns_encode D \<lparr>m_type = js ''query'', m_id = Some i, m_flags = 0,
       m_questions = [\<lparr>q_type = Some type, q_name = Some name\<rparr>], m_answers = []\<rparr>"

text \<open>The rcode of a decoded response is the low nibble of its flags, by name.\<close>

definition decodeDohResponse :: "dns \<Rightarrow> bytes \<Rightarrow> (jsstr \<times> (jsstr \<times> jsstr list) list) res" where
  "decodeDohResponse D bs =
     bind_res (dns_decode D bs) (\<lambda>msg.
       Inr (rcode_name D (m_flags msg mod 16), map (\<lambda>a. (a_name a, a_data a)) (m_answers msg)))"

definition txt_line :: "srecord \<Rightarrow> jsstr" where
  "txt_line r = key r @ js ''='' @ val r"

definition encodeDohResponse :: "dns \<Rightarrow> dohQuery \<Rightarrow> srecord list \<Rightarrow> bytes res" where
  "encodeDohResponse D q records =
     (let answers = (if dq_type q = js ''TXT''
                     then map (\<lambda>r. \<lparr>a_type = js ''TXT'', a_name = dq_name q, a_ttl = 60, a_data = [txt_line r]\<rparr>) records
                     else [])
      in dns_encode D \<lparr>m_type = js ''response'', m_id = Some (dq_id q),
           m_flags = or (AUTHORITATIVE_ANSWER D) (if records = [] then RCODE_NXDOMAIN else 0),
           m_questions = [\<lparr>q_type = Some (dq_type q), q_name = Some (dq_name q)\<rparr>], m_answers = answers\<rparr>)"

section \<open>Lemmas\<close>

lemma dns_ok_decode: "dns_ok D \<Longrightarrow> message_ok m \<Longrightarrow> dns_encode D m = Inr bs \<Longrightarrow> dns_decode D bs = Inr m"
  by (simp add: dns_ok_def)

lemma query_roundtrip:
  assumes "dns_ok D" "plain_name name" "encodeDohQuery D name type i = Inr bs"
  shows "decodeDohQuery D bs = Inr \<lparr>dq_id = i, dq_name = name, dq_type = type\<rparr>"
proof -
  have "dns_decode D bs = Inr \<lparr>m_type = js ''query'', m_id = Some i, m_flags = 0,
      m_questions = [\<lparr>q_type = Some type, q_name = Some name\<rparr>], m_answers = []\<rparr>"
    using assms(2,3) by (intro dns_ok_decode[OF assms(1)]) (simp_all add: message_ok_def encodeDohQuery_def)
  then show ?thesis by (simp add: decodeDohQuery_def or_else_def)
qed

lemma response_decoded:
  assumes "dns_ok D" "plain_name (dq_name q)" "encodeDohResponse D q records = Inr bs"
  shows "decodeDohResponse D bs =
    Inr (rcode_name D (if records = [] then 3 else 0),
         if dq_type q = js ''TXT'' then map (\<lambda>r. (dq_name q, [txt_line r])) records else [])"
proof -
  let ?m = "\<lparr>m_type = js ''response'', m_id = Some (dq_id q),
      m_flags = or (AUTHORITATIVE_ANSWER D) (if records = [] then RCODE_NXDOMAIN else 0),
      m_questions = [\<lparr>q_type = Some (dq_type q), q_name = Some (dq_name q)\<rparr>],
      m_answers = (if dq_type q = js ''TXT''
        then map (\<lambda>r. \<lparr>a_type = js ''TXT'', a_name = dq_name q, a_ttl = 60, a_data = [txt_line r]\<rparr>) records else [])\<rparr>"
  have a: "AUTHORITATIVE_ANSWER D = 1024" using assms(1) by (simp add: dns_ok_def)
  have flags: "or (1024 :: nat) 3 = 1027" by (simp add: or_nat_def)
  have "message_ok ?m" using assms(2) by (auto simp: message_ok_def a flags RCODE_NXDOMAIN_def list_all_iff)
  then have "dns_decode D bs = Inr ?m"
    using assms(3) by (intro dns_ok_decode[OF assms(1)]) (simp_all add: encodeDohResponse_def Let_def)
  then show ?thesis
    by (simp add: decodeDohResponse_def a flags RCODE_NXDOMAIN_def comp_def)
qed

section \<open>A concrete package for witnesses\<close>

text \<open>Messages with one question, whose answers are single-string TXT records of its name with a TTL of 60,
  written as length-prefixed fields.\<close>

fun pack :: "nat list list \<Rightarrow> nat list" where
  "pack [] = []"
| "pack (s # ss) = length s # s @ pack ss"

fun unpack :: "nat list \<Rightarrow> nat list list" where
  "unpack [] = []"
| "unpack (n # r) = take n r # unpack (drop n r)"

definition toy_fields :: "dnsMessage \<Rightarrow> nat list list" where
  "toy_fields m =
     (case m_questions m of
        [q] \<Rightarrow> [m_type m, [nat (or_else (m_id m) 0)], [m_flags m], or_else (q_type q) [], or_else (q_name q) []] @
                map (\<lambda>a. concat (a_data a)) (m_answers m)
      | _ \<Rightarrow> [])"

definition toy_message :: "nat list list \<Rightarrow> dnsMessage" where
  "toy_message fs =
     (case fs of
        t # i # fl # qt # qn # ds \<Rightarrow>
          \<lparr>m_type = t, m_id = Some (int (hd i)), m_flags = hd fl, m_questions = [\<lparr>q_type = Some qt, q_name = Some qn\<rparr>],
           m_answers = map (\<lambda>d. \<lparr>a_type = js ''TXT'', a_name = qn, a_ttl = 60, a_data = [d]\<rparr>) ds\<rparr>
      | _ \<Rightarrow> \<lparr>m_type = [], m_id = None, m_flags = 0, m_questions = [], m_answers = []\<rparr>)"

definition toy_dns :: dns where
  "toy_dns = \<lparr>dns_decode = (\<lambda>bs. Inr (toy_message (unpack bs))),
     dns_encode = (\<lambda>m. if toy_message (toy_fields m) = m then Inr (pack (toy_fields m)) else Inl (JsError (js ''unsupported''))),
     AUTHORITATIVE_ANSWER = 1024, rcode_name = dec_digits\<rparr>"

lemma unpack_pack: "unpack (pack ss) = ss"
  by (induction ss) simp_all

lemma toy_dns_ok: "dns_ok toy_dns"
  by (auto simp: dns_ok_def toy_dns_def unpack_pack split: if_splits)

lemma toy_dns_query_encodes: "\<exists>bs. encodeDohQuery toy_dns (js ''alex.sol'') (js ''TXT'') 7 = Inr bs"
  by (simp add: encodeDohQuery_def toy_dns_def toy_message_def toy_fields_def or_else_def)

lemma toy_dns_query:
  "\<exists>bs. decodeDohQuery toy_dns bs = Inr \<lparr>dq_id = 7, dq_name = js ''alex.sol'', dq_type = js ''TXT''\<rparr>"
proof -
  have "plain_name (js ''alex.sol'')" by (simp add: plain_name_def)
  with toy_dns_query_encodes query_roundtrip[OF toy_dns_ok] show ?thesis by blast
qed

lemma toy_dns_encodes:
  "\<exists>bs. encodeDohResponse toy_dns \<lparr>dq_id = 7, dq_name = js ''alex.sol'', dq_type = js ''TXT''\<rparr>
     [\<lparr>key = js ''url'', val = js ''x''\<rparr>] = Inr bs"
  by (simp add: encodeDohResponse_def toy_dns_def toy_message_def toy_fields_def or_else_def Let_def)

end
