(* ===== verification/Json.thy ===== *)
theory Json
  imports Prelude
begin

text \<open>
  The part of \<open>JSON.stringify\<close> and \<open>JSON.parse\<close> the resolver's cache uses: values built of null, booleans,
  strings, arrays and objects (nothing the resolver caches holds a number). \<open>stringify\<close> is the text of
  ECMA-262 \<open>SerializeJSONProperty\<close> without indentation, escapes included; \<open>json_parse\<close> reads JSON text of this
  fragment, with white space between tokens. Its fuel is the length of the text, which bounds the
  nesting; the round trip shows it is enough.
\<close>

section \<open>Text of a value\<close>

datatype jval =
    JNull
  | JBool bool
  | JStr jsstr
  | JArr "jval list"
  | JObj "(jsstr \<times> jval) list"

definition hex4 :: "nat \<Rightarrow> jsstr" where
  "hex4 c = [hex_digit (c div 4096 mod 16), hex_digit (c div 256 mod 16), hex_digit (c div 16 mod 16), hex_digit (c mod 16)]"

definition escape_json :: "nat \<Rightarrow> jsstr" where
  "escape_json c =
     (if c = 34 then [92, 34] else if c = 92 then [92, 92]
      else if c = 8 then [92, 98] else if c = 12 then [92, 102] else if c = 10 then [92, 110]
      else if c = 13 then [92, 114] else if c = 9 then [92, 116]
      else if c < 32 \<or> (0xD800 \<le> c \<and> c \<le> 0xDFFF) then [92, 117] @ hex4 c
      else [c])"

definition quote_json :: "jsstr \<Rightarrow> jsstr" where
  "quote_json s = 34 # concat (map escape_json s) @ [34]"

fun stringify :: "jval \<Rightarrow> jsstr"
  and stringify_items :: "jval list \<Rightarrow> jsstr"
  and stringify_members :: "(jsstr \<times> jval) list \<Rightarrow> jsstr" where
  "stringify JNull = js ''null''"
| "stringify (JBool b) = (if b then js ''true'' else js ''false'')"
| "stringify (JStr s) = quote_json s"
| "stringify (JArr vs) = 91 # stringify_items vs @ [93]"
| "stringify (JObj ms) = 123 # stringify_members ms @ [125]"
| "stringify_items [] = []"
| "stringify_items (v # vs) = stringify v @ (if vs = [] then [] else 44 # stringify_items vs)"
| "stringify_members [] = []"
| "stringify_members (kv # ms) =
     quote_json (fst kv) @ 58 # stringify (snd kv) @ (if ms = [] then [] else 44 # stringify_members ms)"

section \<open>Reading text\<close>

definition hex_value :: "nat \<Rightarrow> nat option" where
  "hex_value c =
     (if 48 \<le> c \<and> c \<le> 57 then Some (c - 48)
      else if 97 \<le> c \<and> c \<le> 102 then Some (c - 87)
      else if 65 \<le> c \<and> c \<le> 70 then Some (c - 55)
      else None)"

definition unescape :: "nat \<Rightarrow> nat option" where
  "unescape c =
     (if c = 34 then Some 34 else if c = 92 then Some 92 else if c = 47 then Some 47
      else if c = 98 then Some 8 else if c = 102 then Some 12 else if c = 110 then Some 10
      else if c = 114 then Some 13 else if c = 116 then Some 9 else None)"

definition cons_fst :: "nat \<Rightarrow> (jsstr \<times> jsstr) option \<Rightarrow> (jsstr \<times> jsstr) option" where
  "cons_fst c r = map_option (\<lambda>(s, t). (c # s, t)) r"

definition unhex4 :: "nat \<Rightarrow> nat \<Rightarrow> nat \<Rightarrow> nat \<Rightarrow> nat option" where
  "unhex4 a b c d =
     (case (hex_value a, hex_value b, hex_value c, hex_value d) of
        (Some w, Some x, Some y, Some z) \<Rightarrow> Some (w * 4096 + x * 256 + y * 16 + z)
      | _ \<Rightarrow> None)"

text \<open>The characters of a string up to its closing quotation mark.\<close>

function read_chars :: "jsstr \<Rightarrow> (jsstr \<times> jsstr) option" where
  "read_chars [] = None"
| "read_chars (c # s) =
     (if c = 34 then Some ([], s)
      else if c = 92 then
        (case s of
           [] \<Rightarrow> None
         | e # s1 \<Rightarrow>
             if e = 117 then
               (case s1 of
                  h1 # h2 # h3 # h4 # s2 \<Rightarrow>
                    (case unhex4 h1 h2 h3 h4 of None \<Rightarrow> None | Some x \<Rightarrow> cons_fst x (read_chars s2))
                | _ \<Rightarrow> None)
             else (case unescape e of None \<Rightarrow> None | Some x \<Rightarrow> cons_fst x (read_chars s1)))
      else if c < 32 then None
      else cons_fst c (read_chars s))"
  by pat_completeness auto
termination by (relation "measure length") auto

definition is_json_space :: "nat \<Rightarrow> bool" where
  "is_json_space c \<longleftrightarrow> c = 32 \<or> c = 9 \<or> c = 10 \<or> c = 13"

definition skip :: "jsstr \<Rightarrow> jsstr" where
  "skip s = dropWhile is_json_space s"

fun expect :: "nat \<Rightarrow> jsstr \<Rightarrow> jsstr option" where
  "expect c [] = None"
| "expect c (x # s) = (if x = c then Some s else None)"

fun read_val :: "nat \<Rightarrow> jsstr \<Rightarrow> (jval \<times> jsstr) option"
  and read_items :: "nat \<Rightarrow> jsstr \<Rightarrow> (jval list \<times> jsstr) option"
  and read_members :: "nat \<Rightarrow> jsstr \<Rightarrow> ((jsstr \<times> jval) list \<times> jsstr) option" where
  "read_val 0 s = None"
| "read_val (Suc n) s0 =
     (let s = skip s0 in
      if take 4 s = js ''null'' then Some (JNull, drop 4 s)
      else if take 4 s = js ''true'' then Some (JBool True, drop 4 s)
      else if take 5 s = js ''false'' then Some (JBool False, drop 5 s)
      else case s of
        [] \<Rightarrow> None
      | c # t \<Rightarrow>
          if c = 34 then map_option (\<lambda>(x, r). (JStr x, r)) (read_chars t)
          else if c = 91 then
            (case skip t of
               [] \<Rightarrow> None
             | d # u \<Rightarrow> if d = 93 then Some (JArr [], u)
                       else map_option (\<lambda>(vs, r). (JArr vs, r)) (read_items n (d # u)))
          else if c = 123 then
            (case skip t of
               [] \<Rightarrow> None
             | d # u \<Rightarrow> if d = 125 then Some (JObj [], u)
                       else map_option (\<lambda>(ms, r). (JObj ms, r)) (read_members n (d # u)))
          else None)"
| "read_items 0 s = None"
| "read_items (Suc n) s =
     (case read_val n s of
        None \<Rightarrow> None
      | Some (v, r) \<Rightarrow>
          (case skip r of
             [] \<Rightarrow> None
           | d # u \<Rightarrow>
               if d = 93 then Some ([v], u)
               else if d = 44 then map_option (\<lambda>(vs, r'). (v # vs, r')) (read_items n u)
               else None))"
| "read_members 0 s = None"
| "read_members (Suc n) s0 =
     (case skip s0 of
        [] \<Rightarrow> None
      | q # t \<Rightarrow>
          if q \<noteq> 34 then None
          else (case read_chars t of
             None \<Rightarrow> None
           | Some (k, r) \<Rightarrow>
               (case expect 58 (skip r) of
                  None \<Rightarrow> None
                | Some r1 \<Rightarrow>
                    (case read_val n r1 of
                       None \<Rightarrow> None
                     | Some (v, r2) \<Rightarrow>
                         (case skip r2 of
                            [] \<Rightarrow> None
                          | d # u \<Rightarrow>
                              if d = 125 then Some ([(k, v)], u)
                              else if d = 44 then map_option (\<lambda>(ms, r'). ((k, v) # ms, r')) (read_members n u)
                              else None)))))"

definition syntax_error :: js_error where
  "syntax_error = JsError (js ''Unexpected token in JSON'')"

definition json_parse :: "jsstr \<Rightarrow> jval res" where
  "json_parse s =
     (case read_val (2 * length s + 1) s of
        Some (v, r) \<Rightarrow> if skip r = [] then Inr v else Inl syntax_error
      | None \<Rightarrow> Inl syntax_error)"

section \<open>The round trip\<close>

lemma hex_value_digit: "d < 16 \<Longrightarrow> hex_value (hex_digit d) = Some d"
  by (simp add: hex_value_def hex_digit_def)

lemma unhex4_hex4:
  assumes "c < 65536"
  shows "unhex4 (hex_digit (c div 4096 mod 16)) (hex_digit (c div 256 mod 16)) (hex_digit (c div 16 mod 16)) (hex_digit (c mod 16)) = Some c"
proof -
  have "c div 4096 < 16" using assms by (simp add: less_mult_imp_div_less)
  then have top: "c div 4096 mod 16 = c div 4096" by simp
  moreover have "c div 256 div 16 = c div 4096" "c div 16 div 16 = c div 256" by (simp_all flip: div_mult2_eq)
  then have "c div 256 = c div 4096 * 16 + c div 256 mod 16" "c div 16 = c div 256 * 16 + c div 16 mod 16"
    by (metis div_mult_mod_eq)+
  moreover have "c = c div 16 * 16 + c mod 16" by simp
  ultimately have "c div 4096 * 4096 + c div 256 mod 16 * 256 + c div 16 mod 16 * 16 + c mod 16 = c"
    by linarith
  then show ?thesis unfolding top by (simp add: unhex4_def hex_value_digit \<open>c div 4096 < 16\<close>)
qed

lemma read_chars_u: "c < 65536 \<Longrightarrow> read_chars (92 # 117 # hex4 c @ s) = cons_fst c (read_chars s)"
proof -
  assume "c < 65536"
  then obtain h1 h2 h3 h4 where "hex4 c = [h1, h2, h3, h4]" "unhex4 h1 h2 h3 h4 = Some c"
    using unhex4_hex4 hex4_def by metis
  then show ?thesis by simp
qed

lemma read_chars_escape: "read_chars (escape_json c @ s) = cons_fst c (read_chars s)"
proof (cases "escape_json c = [92, 117] @ hex4 c")
  case True
  moreover from this have "c < 65536" by (auto simp: escape_json_def hex4_def split: if_splits)
  ultimately show ?thesis by (simp add: read_chars_u del: read_chars.simps)
next
  case False
  then show ?thesis by (auto simp: escape_json_def unescape_def hex4_def split: if_splits)
qed

lemma read_chars_quote: "read_chars (concat (map escape_json s) @ 34 # r) = Some (s, r)"
  by (induction s) (simp_all add: read_chars_escape cons_fst_def del: read_chars.simps(2), simp)

lemma skip_Cons: "\<not> is_json_space c \<Longrightarrow> skip (c # s) = c # s"
  by (simp add: skip_def)

text \<open>Every value's text starts with a character that is neither white space nor a closing bracket.\<close>

lemma stringify_head:
  "\<exists>c t. stringify v = c # t \<and> \<not> is_json_space c \<and> c \<noteq> 93 \<and> c \<noteq> 125"
  by (cases v) (auto simp: quote_json_def is_json_space_def)

fun depth :: "jval \<Rightarrow> nat" and depth_items :: "jval list \<Rightarrow> nat" and depth_members :: "(jsstr \<times> jval) list \<Rightarrow> nat" where
  "depth JNull = 1" | "depth (JBool b) = 1" | "depth (JStr s) = 1"
| "depth (JArr vs) = Suc (depth_items vs)"
| "depth (JObj ms) = Suc (depth_members ms)"
| "depth_items [] = 0"
| "depth_items (v # vs) = Suc (max (depth v) (depth_items vs))"
| "depth_members [] = 0"
| "depth_members (kv # ms) = Suc (max (depth (snd kv)) (depth_members ms))"

text \<open>What follows a value in a text.\<close>

lemma read_val_str: "read_val (Suc n) (quote_json s @ r) = Some (JStr s, r)"
  by (simp add: quote_json_def skip_Cons is_json_space_def read_chars_quote Let_def)

lemma roundtrip_val:
  "depth v \<le> n \<Longrightarrow> read_val n (stringify v @ r) = Some (v, r)"
  and roundtrip_items:
  "vs \<noteq> [] \<Longrightarrow> depth_items vs \<le> n \<Longrightarrow> read_items n (stringify_items vs @ 93 # r) = Some (vs, r)"
  and roundtrip_members:
  "ms \<noteq> [] \<Longrightarrow> depth_members ms \<le> n \<Longrightarrow> read_members n (stringify_members ms @ 125 # r) = Some (ms, r)"
proof (induction v and vs and ms arbitrary: n r and n r and n r rule: stringify_stringify_items_stringify_members.induct)
  case 1
  then show ?case by (cases n) (auto simp: Let_def skip_Cons is_json_space_def)
next
  case (2 b)
  then show ?case by (cases n) (auto simp: Let_def skip_Cons is_json_space_def)
next
  case (3 s)
  then show ?case by (cases n) (simp_all add: read_val_str del: read_val.simps(2))
next
  case (4 vs)
  then obtain m where m: "n = Suc m" "depth_items vs \<le> m" by (cases n) auto
  show ?case
  proof (cases vs)
    case Nil
    then show ?thesis by (simp add: m Let_def skip_Cons is_json_space_def)
  next
    case (Cons x xs)
    obtain c t where h: "stringify x = c # t" "\<not> is_json_space c" "c \<noteq> 93" using stringify_head by blast
    from 4(1)[of m r] m(2) Cons have "read_items m (stringify_items vs @ 93 # r) = Some (vs, r)" by simp
    then show ?thesis by (simp add: m Let_def skip_Cons is_json_space_def[of 91] Cons h del: depth_items.simps)
  qed
next
  case (5 ms)
  then obtain m where m: "n = Suc m" "depth_members ms \<le> m" by (cases n) auto
  show ?case
  proof (cases ms)
    case Nil
    then show ?thesis by (simp add: m Let_def skip_Cons is_json_space_def)
  next
    case (Cons x xs)
    from 5(1)[of m r] m(2) Cons have "read_members m (stringify_members ms @ 125 # r) = Some (ms, r)" by simp
    then show ?thesis by (simp add: m Let_def skip_Cons is_json_space_def Cons quote_json_def)
  qed
next
  case (7 v vs)
  then obtain m where m: "n = Suc m" "depth v \<le> m" "depth_items vs \<le> m" by (cases n) auto
  show ?case
  proof (cases "vs = []")
    case True
    with 7(1)[OF m(2), of "93 # r"] show ?thesis by (simp add: m skip_Cons is_json_space_def)
  next
    case False
    with 7(1)[OF m(2), of "44 # stringify_items vs @ 93 # r"] 7(2)[OF False _ m(3), of r]
    show ?thesis by (simp add: m skip_Cons is_json_space_def)
  qed
next
  case (9 kv ms)
  then obtain m where m: "n = Suc m" "depth (snd kv) \<le> m" "depth_members ms \<le> m" by (cases n) auto
  show ?case
  proof (cases "ms = []")
    case True
    with 9(1)[OF m(2), of "125 # r"] show ?thesis
      by (simp add: m skip_Cons is_json_space_def quote_json_def read_chars_quote)
  next
    case False
    with 9(1)[OF m(2), of "44 # stringify_members ms @ 125 # r"] 9(2)[OF False _ m(3), of r]
    show ?thesis by (simp add: m skip_Cons is_json_space_def quote_json_def read_chars_quote)
  qed
qed auto

lemma depth_length:
  "depth v < 2 * length (stringify v)"
  and "depth_items vs \<le> 2 * length (stringify_items vs)"
  and "depth_members ms \<le> 2 * length (stringify_members ms)"
  by (induction v and vs and ms rule: stringify_stringify_items_stringify_members.induct)
     (auto simp: quote_json_def)

lemma json_roundtrip: "json_parse (stringify v) = Inr v"
proof -
  have "read_val (2 * length (stringify v) + 1) (stringify v @ []) = Some (v, [])"
    using depth_length(1)[of v] by (intro roundtrip_val) simp
  then show ?thesis by (simp add: json_parse_def skip_def)
qed

end
