(* ===== verification/Resolver.thy ===== *)
theory Resolver
  imports Client Hosting Cache Doh Json Effects Metrics
begin

text \<open>
  \<open>services/resolver/src/app.ts\<close>: the HTTP resolver. The injected \<open>Resolver\<close> is the record \<open>resolver\<close> of
  effects on a world \<open>'w\<close> (\<open>client_resolver\<close> is \<open>SolansClient\<close> as one), the injected cache is a pair of
  operations on a cache state, the content fetcher is an effect on the world. A handler is an effect on the
  application state; a rejection that leaves a handler is the framework's 500. Values that pass through
  the cache are JSON values. Fastify's routing, \<open>Buffer.from(.., "base64url")\<close> and \<open>toUpperCase\<close> are
  parameters.
\<close>

section \<open>State and options\<close>

record 'w resolver =
  r_resolve :: "jsstr \<Rightarrow> ('w, nameRecord option) eff"
  r_reverseLookup :: "address \<Rightarrow> ('w, jsstr option) eff"
  r_getRecords :: "jsstr \<Rightarrow> ('w, srecord list) eff"
  r_contentRef :: "jsstr \<Rightarrow> ('w, jsstr option) eff"

definition read_eff :: "('w \<Rightarrow> 'a res option) \<Rightarrow> ('w, 'a) eff" where
  "read_eff f w = (case f w of None \<Rightarrow> None | Some r \<Rightarrow> Some (w, r))"

definition client_resolver :: "kit \<Rightarrow> unicode \<Rightarrow> ('w \<Rightarrow> fetcher) \<Rightarrow> 'w resolver" where
  "client_resolver K U fetch =
     \<lparr>r_resolve = (\<lambda>n. read_eff (\<lambda>w. Client.resolve K U (fetch w) n)),
      r_reverseLookup = (\<lambda>a. read_eff (\<lambda>w. Some (reverseLookup K (fetch w) a))),
      r_getRecords = (\<lambda>n. read_eff (\<lambda>w. getRecords K U (fetch w) n)),
      r_contentRef = (\<lambda>n. read_eff (\<lambda>w. contentRef K U (fetch w) n))\<rparr>"

record 's cache_ops =
  co_get :: "int \<Rightarrow> jsstr \<Rightarrow> 's \<Rightarrow> 's \<times> jsstr option"
  co_set :: "int \<Rightarrow> jsstr \<Rightarrow> jsstr \<Rightarrow> int \<Rightarrow> 's \<Rightarrow> 's"

record ('s, 'w) rapp =
  ra_cache :: 's
  ra_registry :: registry
  ra_world :: 'w

record upstream =
  us_status :: nat
  us_contentType :: "jsstr option"
  us_body :: bytes

record ('s, 'w) opts =
  op_fetchContent :: "jsstr \<Rightarrow> ('w, upstream) eff"
  op_gateways :: gateways
  op_cache :: "'s cache_ops option"
  op_cacheTtl :: int

datatype rbody =
    Json jval
  | DnsJson nat "jsstr \<times> jsstr" "(jsstr \<times> jsstr) list"
  | Raw bytes
  | Text jsstr

record response =
  rs_status :: nat
  rs_contentType :: "jsstr option"
  rs_body :: rbody

definition reply :: "nat \<Rightarrow> rbody \<Rightarrow> response" where
  "reply st b = \<lparr>rs_status = st, rs_contentType = None, rs_body = b\<rparr>"

definition error_body :: "jsstr \<Rightarrow> rbody" where
  "error_body m = Json (JObj [(js ''error'', JStr m)])"

definition in_world :: "('w, 'a) eff \<Rightarrow> (('s, 'w) rapp, 'a) eff" where
  "in_world m a = (case m (ra_world a) of None \<Rightarrow> None | Some (w, r) \<Rightarrow> Some (a\<lparr>ra_world := w\<rparr>, r))"

definition resolver_registry :: "registry res" where
  "resolver_registry =
     bind_res (reg_counter (js ''solans_http_requests_total'') (js ''Resolver HTTP requests handled'') []) (\<lambda>r.
     bind_res (reg_histogram (js ''solans_http_request_duration_seconds'')
                 (js ''Resolver HTTP request duration in seconds'') DEFAULT_BUCKETS r) (\<lambda>r.
       reg_counter (js ''solans_resolver_cache_total'') (js ''Resolver read-through cache lookups'') r))"

section \<open>serialize, cached\<close>

definition opt_json :: "jsstr option \<Rightarrow> jval" where
  "opt_json x = (case x of None \<Rightarrow> JNull | Some s \<Rightarrow> JStr s)"

definition record_json :: "srecord \<Rightarrow> jval" where
  "record_json r = JObj [(js ''key'', JStr (key r)), (js ''value'', JStr (val r))]"

definition serialize :: "unicode \<Rightarrow> jsstr \<Rightarrow> nameRecord \<Rightarrow> jval res" where
  "serialize U input d =
     bind_res (parseName U input None) (\<lambda>(name, tld).
     bind_res (iso_string (nr_expiresAt d)) (\<lambda>expires.
       Inr (JObj [
         (js ''name'', JStr (name @ js ''.'' @ tld)),
         (js ''owner'', JStr (nr_owner d)),
         (js ''controller'', opt_json (nr_controller d)),
         (js ''expiresAt'', JStr expires),
         (js ''transferLocked'', JBool (nr_transferLocked d)),
         (js ''reverseSet'', JBool (nr_reverseSet d)),
         (js ''resolver'', opt_json (nr_resolver d)),
         (js ''hostingRef'', opt_json (nr_hostingRef d)),
         (js ''nftMint'', opt_json (nr_nftMint d)),
         (js ''tokenized'', JBool (nr_nftMint d \<noteq> None)),
         (js ''listed'', JBool (nr_listed d)),
         (js ''records'', JArr (map record_json (nr_records d)))])))"

definition count_cache :: "string \<Rightarrow> ('s, 'w) rapp \<Rightarrow> ('s, 'w) rapp" where
  "count_cache result a =
     a\<lparr>ra_registry := bump ''solans_resolver_cache_total'' [(js ''result'', js result)] (ra_registry a)\<rparr>"

text \<open>\<open>t1\<close> and \<open>t2\<close> are the clock's values at the lookup and at the store.\<close>

definition cached ::
  "'s cache_ops option \<Rightarrow> int \<Rightarrow> int \<Rightarrow> int \<Rightarrow> jsstr \<Rightarrow> (('s, 'w) rapp, jval) eff \<Rightarrow> (('s, 'w) rapp, jval) eff" where
  "cached cache ttl t1 t2 k produce =
     (case cache of
        None \<Rightarrow> produce
      | Some ops \<Rightarrow> (\<lambda>a.
          case co_get ops t1 k (ra_cache a) of
            (c, Some hit) \<Rightarrow> Some (count_cache ''hit'' (a\<lparr>ra_cache := c\<rparr>), json_parse hit)
          | (c, None) \<Rightarrow>
              bind_eff produce
                (\<lambda>v a. Some (a\<lparr>ra_cache := co_set ops t2 k (stringify v) ttl (ra_cache a)\<rparr>, Inr v))
                (count_cache ''miss'' (a\<lparr>ra_cache := c\<rparr>))))"

definition recordsOf ::
  "('s, 'w) opts \<Rightarrow> 'w resolver \<Rightarrow> int \<Rightarrow> int \<Rightarrow> jsstr \<Rightarrow> (('s, 'w) rapp, jval) eff" where
  "recordsOf opts R t1 t2 name =
     cached (op_cache opts) (op_cacheTtl opts) t1 t2 (js ''records:'' @ name)
       (bind_eff (in_world (r_getRecords R name)) (\<lambda>rs. ret (JArr (map record_json rs))))"

text \<open>\<open>r.key\<close> and \<open>r.value\<close> of the records, fresh or read back from the cache.\<close>

fun member :: "jsstr \<Rightarrow> jval \<Rightarrow> jsstr" where
  "member f (JObj ms) = (case map_of ms f of Some (JStr s) \<Rightarrow> s | _ \<Rightarrow> js ''undefined'')"
| "member f v = js ''undefined''"

fun records_of :: "jval \<Rightarrow> srecord list" where
  "records_of (JArr vs) = map (\<lambda>v. \<lparr>key = member (js ''key'') v, val = member (js ''value'') v\<rparr>) vs"
| "records_of v = []"

section \<open>Routes\<close>

definition get_resolve ::
  "unicode \<Rightarrow> ('s, 'w) opts \<Rightarrow> 'w resolver \<Rightarrow> int \<Rightarrow> int \<Rightarrow> jsstr \<Rightarrow> (('s, 'w) rapp, response) eff" where
  "get_resolve U opts R t1 t2 name =
     catch_eff
       (bind_eff
          (cached (op_cache opts) (op_cacheTtl opts) t1 t2 (js ''resolve:'' @ name)
             (bind_eff (in_world (r_resolve R name)) (\<lambda>rec.
                case rec of None \<Rightarrow> ret JNull | Some d \<Rightarrow> of_res (serialize U name d))))
          (\<lambda>body. ret (if body = JNull then reply 404 (error_body (js ''not registered'')) else reply 200 (Json body))))
       (\<lambda>e. ret (reply 400 (error_body (message e))))"

definition get_reverse ::
  "kit \<Rightarrow> ('s, 'w) opts \<Rightarrow> 'w resolver \<Rightarrow> int \<Rightarrow> int \<Rightarrow> jsstr \<Rightarrow> (('s, 'w) rapp, response) eff" where
  "get_reverse K opts R t1 t2 pubkey =
     catch_eff
       (bind_eff
          (cached (op_cache opts) (op_cacheTtl opts) t1 t2 (js ''reverse:'' @ pubkey)
             (bind_eff (of_res (address_of K pubkey)) (\<lambda>a.
              bind_eff (in_world (r_reverseLookup R a)) (\<lambda>n. ret (opt_json n)))))
          (\<lambda>name. ret (if name = JNull \<or> name = JStr [] then reply 404 (error_body (js ''no reverse record''))
                       else reply 200 (Json (JObj [(js ''pubkey'', JStr pubkey), (js ''name'', name)])))))
       (\<lambda>e. ret (reply 400 (error_body (message e))))"

definition binaryDoh ::
  "dns \<Rightarrow> ('s, 'w) opts \<Rightarrow> 'w resolver \<Rightarrow> int \<Rightarrow> int \<Rightarrow> bytes \<Rightarrow> (('s, 'w) rapp, response) eff" where
  "binaryDoh D opts R t1 t2 queryBytes =
     (case decodeDohQuery D queryBytes of
        Inl e \<Rightarrow> ret (reply 400 (error_body (js ''malformed DNS message'')))
      | Inr q \<Rightarrow>
          bind_eff (catch_eff (recordsOf opts R t1 t2 (dq_name q)) (\<lambda>e. ret (JArr []))) (\<lambda>records.
          bind_eff (of_res (encodeDohResponse D q (records_of records))) (\<lambda>bs.
            ret \<lparr>rs_status = 200, rs_contentType = Some (js ''application/dns-message''), rs_body = Raw bs\<rparr>)))"

definition jsonDoh ::
  "('s, 'w) opts \<Rightarrow> 'w resolver \<Rightarrow> int \<Rightarrow> int \<Rightarrow> jsstr \<Rightarrow> jsstr \<Rightarrow> (('s, 'w) rapp, response) eff" where
  "jsonDoh opts R t1 t2 name type =
     catch_eff
       (bind_eff (recordsOf opts R t1 t2 name) (\<lambda>records.
          let rs = records_of records;
              answer = (if type = js ''TXT'' then map (\<lambda>r. (name, txt_line r)) rs else [])
          in ret \<lparr>rs_status = 200, rs_contentType = Some (js ''application/dns-json''),
                  rs_body = DnsJson (if rs = [] then 3 else 0) (name, type) answer\<rparr>))
       (\<lambda>e. ret (reply 400 (error_body (message e))))"

definition get_dns_query ::
  "dns \<Rightarrow> (jsstr \<Rightarrow> bytes) \<Rightarrow> (jsstr \<Rightarrow> jsstr) \<Rightarrow> ('s, 'w) opts \<Rightarrow> 'w resolver \<Rightarrow> int \<Rightarrow> int \<Rightarrow>
   jsstr option \<Rightarrow> jsstr option \<Rightarrow> jsstr option \<Rightarrow> jsstr option \<Rightarrow> (('s, 'w) rapp, response) eff" where
  "get_dns_query D base64url toUpper opts R t1 t2 accept name type dnsq =
     (let has_dns = (dnsq \<noteq> None \<and> dnsq \<noteq> Some []);
          acc = (case accept of None \<Rightarrow> [] | Some x \<Rightarrow> x) in
      if has_dns \<or> sublist (js ''application/dns-message'') acc then
        (if \<not> has_dns then ret (reply 400 (error_body (js ''missing ?dns'')))
         else binaryDoh D opts R t1 t2 (base64url (the dnsq)))
      else if name = None \<or> name = Some [] then ret (reply 400 (error_body (js ''missing ?name'')))
      else jsonDoh opts R t1 t2 (the name) (toUpper (case type of None \<Rightarrow> js ''TXT'' | Some t \<Rightarrow> t)))"

definition serveSite ::
  "('s, 'w) opts \<Rightarrow> 'w resolver \<Rightarrow> jsstr \<Rightarrow> jsstr \<Rightarrow> (('s, 'w) rapp, response) eff" where
  "serveSite opts R name subPath a =
     (case in_world (r_contentRef R name) a of
        None \<Rightarrow> None
      | Some (a, Inl e) \<Rightarrow> ret (reply 400 (error_body (message e))) a
      | Some (a, Inr ref) \<Rightarrow>
          if ref = None \<or> ref = Some [] then ret (reply 404 (error_body (js ''no hosted content''))) a
          else case hostingUrl ref subPath (op_gateways opts) of
            None \<Rightarrow> ret (reply 422 (error_body (js ''unsupported content ref: '' @ the ref))) a
          | Some [] \<Rightarrow> ret (reply 422 (error_body (js ''unsupported content ref: '' @ the ref))) a
          | Some (c # cs) \<Rightarrow>
              catch_eff
                (bind_eff (in_world (op_fetchContent opts (c # cs))) (\<lambda>res.
                   ret \<lparr>rs_status = us_status res,
                        rs_contentType = (if us_contentType res = Some [] then None else us_contentType res),
                        rs_body = Raw (us_body res)\<rparr>))
                (\<lambda>e. ret (reply 502 (error_body (js ''upstream gateway fetch failed'')))) a)"

section \<open>The service\<close>

datatype resolver_request =
    Get_Health
  | Get_Metrics
  | Get_Resolve jsstr
  | Get_Reverse jsstr
  | Post_Dns bytes
  | Get_Dns "jsstr option" "jsstr option" "jsstr option" "jsstr option"
  | Get_Site jsstr
  | Get_Site_Path jsstr jsstr

fun resolver_route :: "resolver_request \<Rightarrow> jsstr \<times> jsstr" where
  "resolver_route Get_Health = (js ''GET'', js ''/health'')"
| "resolver_route Get_Metrics = (js ''GET'', js ''/metrics'')"
| "resolver_route (Get_Resolve n) = (js ''GET'', js ''/resolve/:name'')"
| "resolver_route (Get_Reverse p) = (js ''GET'', js ''/reverse/:pubkey'')"
| "resolver_route (Post_Dns b) = (js ''POST'', js ''/dns-query'')"
| "resolver_route (Get_Dns a n t d) = (js ''GET'', js ''/dns-query'')"
| "resolver_route (Get_Site n) = (js ''GET'', js ''/site/:name'')"
| "resolver_route (Get_Site_Path n p) = (js ''GET'', js ''/site/:name/*'')"

fun resolver_handle ::
  "kit \<Rightarrow> unicode \<Rightarrow> dns \<Rightarrow> (jsstr \<Rightarrow> bytes) \<Rightarrow> (jsstr \<Rightarrow> jsstr) \<Rightarrow> (rat \<Rightarrow> jsstr) \<Rightarrow> ('s, 'w) opts \<Rightarrow> 'w resolver \<Rightarrow>
   int \<Rightarrow> int \<Rightarrow> resolver_request \<Rightarrow> (('s, 'w) rapp, response) eff" where
  "resolver_handle K U D base64url toUpper num_str opts R t1 t2 Get_Health =
     ret (reply 200 (Json (JObj [(js ''ok'', JBool True)])))"
| "resolver_handle K U D base64url toUpper num_str opts R t1 t2 Get_Metrics =
     (\<lambda>a. ret \<lparr>rs_status = 200, rs_contentType = Some CONTENT_TYPE,
               rs_body = Text (registry_expose num_str (ra_registry a))\<rparr> a)"
| "resolver_handle K U D base64url toUpper num_str opts R t1 t2 (Get_Resolve name) = get_resolve U opts R t1 t2 name"
| "resolver_handle K U D base64url toUpper num_str opts R t1 t2 (Get_Reverse pubkey) = get_reverse K opts R t1 t2 pubkey"
| "resolver_handle K U D base64url toUpper num_str opts R t1 t2 (Post_Dns body) = binaryDoh D opts R t1 t2 body"
| "resolver_handle K U D base64url toUpper num_str opts R t1 t2 (Get_Dns accept name type dnsq) =
     get_dns_query D base64url toUpper opts R t1 t2 accept name type dnsq"
| "resolver_handle K U D base64url toUpper num_str opts R t1 t2 (Get_Site name) = serveSite opts R name []"
| "resolver_handle K U D base64url toUpper num_str opts R t1 t2 (Get_Site_Path name path) = serveSite opts R name path"

text \<open>The handler, the framework's 500 for a rejection that leaves it, then the \<open>onResponse\<close> hook.\<close>

definition resolver_serve ::
  "kit \<Rightarrow> unicode \<Rightarrow> dns \<Rightarrow> (jsstr \<Rightarrow> bytes) \<Rightarrow> (jsstr \<Rightarrow> jsstr) \<Rightarrow> (rat \<Rightarrow> jsstr) \<Rightarrow> ('s, 'w) opts \<Rightarrow> 'w resolver \<Rightarrow>
   int \<Rightarrow> int \<Rightarrow> rat \<Rightarrow> resolver_request \<Rightarrow> (('s, 'w) rapp, response) eff" where
  "resolver_serve K U D base64url toUpper num_str opts R t1 t2 elapsed req =
     bind_eff
       (catch_eff (resolver_handle K U D base64url toUpper num_str opts R t1 t2 req)
          (\<lambda>e. ret (reply 500 (error_body (message e)))))
       (\<lambda>r a. Some (a\<lparr>ra_registry := on_response (resolver_route req) (rs_status r) elapsed (ra_registry a)\<rparr>, Inr r))"

section \<open>The read-through cache is transparent\<close>

context ttl_cache
begin

definition ops :: "'s cache_ops" where
  "ops = \<lparr>co_get = get, co_set = set\<rparr>"

lemma cached_transparent:
  assumes "holds (\<lambda>k. stringify (F k)) (ra_cache a)"
    and pure: "\<And>b. produce b = Some (b, Inr (F k))"
  shows "\<exists>a'. cached (Some ops) ttl t1 t2 k produce a = Some (a', Inr (F k)) \<and>
    holds (\<lambda>k. stringify (F k)) (ra_cache a') \<and> ra_world a' = ra_world a"
proof (cases "get t1 k (ra_cache a)")
  case (Pair c r)
  have c: "holds (\<lambda>k. stringify (F k)) c" using holds_get[OF assms(1), of t1 k] by (simp add: Pair)
  show ?thesis
  proof (cases r)
    case None
    then show ?thesis using holds_set[OF c]
      by (simp add: cached_def ops_def Pair bind_eff_def pure count_cache_def)
  next
    case (Some hit)
    then have "hit = stringify (F k)" using hit_value[OF assms(1), of t1 k] by (simp add: Pair)
    then show ?thesis using c Some by (simp add: cached_def ops_def Pair count_cache_def json_roundtrip)
  qed
qed

end

definition memory_ops :: "memory_cache cache_ops" where
  "memory_ops = \<lparr>co_get = cache_get, co_set = cache_set\<rparr>"

lemma memory_ops_eq: "mem_cache.ops = memory_ops"
  by (simp add: mem_cache.ops_def memory_ops_def)

section \<open>Records survive the trip through JSON\<close>

lemma records_of_json: "records_of (JArr (map record_json rs)) = rs"
proof -
  have "\<lparr>key = member (js ''key'') (record_json r), val = member (js ''value'') (record_json r)\<rparr> = r" for r
    by (simp add: record_json_def)
  then show ?thesis by (simp add: comp_def)
qed

section \<open>Status codes\<close>

lemma get_resolve_uncached:
  assumes "op_cache opts = None" "r_resolve R name (ra_world a) = Some (w, Inr rec)"
  shows "get_resolve U opts R t1 t2 name a = Some (a\<lparr>ra_world := w\<rparr>, Inr
    (case rec of
       None \<Rightarrow> reply 404 (error_body (js ''not registered''))
     | Some d \<Rightarrow> (case serialize U name d of
         Inl e \<Rightarrow> reply 400 (error_body (message e))
       | Inr body \<Rightarrow> reply 200 (Json body))))"
proof (cases rec)
  case None
  with assms show ?thesis
    by (simp add: get_resolve_def cached_def in_world_def bind_eff_def catch_eff_def ret_def)
next
  case (Some d)
  have "serialize U name d \<noteq> Inr JNull" by (auto simp: serialize_def res_simps)
  with Some assms show ?thesis
    by (auto simp: get_resolve_def cached_def in_world_def bind_eff_def catch_eff_def ret_def of_res_def split: sum.splits)
qed

text \<open>The hosted-content route asks only for a url of the reference or of a configured gateway.\<close>

definition allowed_target :: "gateways \<Rightarrow> jsstr \<Rightarrow> jsstr \<Rightarrow> bool" where
  "allowed_target gw ref u \<longleftrightarrow>
     (is_http (trim ref) \<and> prefix (trimEnd (trim ref)) u) \<or> prefix (trimEnd (gw_ipfs gw) @ js ''/ipfs/'') u \<or>
     prefix (trimEnd (gw_arweave gw) @ js ''/'') u"

section \<open>Sample options\<close>

definition sample_opts :: "(memory_cache, unit) opts" where
  "sample_opts = \<lparr>op_fetchContent = (\<lambda>u. of_res (Inl not_configured)), op_gateways = DEFAULT_GATEWAYS,
     op_cache = None, op_cacheTtl = 30\<rparr>"

definition sample_app :: "(memory_cache, unit) rapp" where
  "sample_app = \<lparr>ra_cache = [], ra_registry = [], ra_world = ()\<rparr>"

lemma sample_uncached: "op_cache sample_opts = None"
  by (simp add: sample_opts_def)

text \<open>For a TXT query of a plain name, the binary DoH response decodes to the same response code and the same answers that the JSON endpoint returns for the same records.\<close>

lemma json_and_binary_dns_agree:
  assumes "dns_ok D" "op_cache opts = None" "decodeDohQuery D qbytes = Inr q" "dq_type q = js ''TXT''" "plain_name (dq_name q)"
    "r_getRecords R (dq_name q) (ra_world a) = Some (w, Inr rs)" "encodeDohResponse D q rs = Inr bs"
  shows "\<exists>code answers a'.
    binaryDoh D opts R t1 t2 qbytes a = Some (a', Inr \<lparr>rs_status = 200,
      rs_contentType = Some (js ''application/dns-message''), rs_body = Raw bs\<rparr>) \<and>
    jsonDoh opts R t1 t2 (dq_name q) (js ''TXT'') a = Some (a', Inr \<lparr>rs_status = 200,
      rs_contentType = Some (js ''application/dns-json''), rs_body = DnsJson code (dq_name q, js ''TXT'') answers\<rparr>) \<and>
    decodeDohResponse D bs = Inr (rcode_name D code, map (\<lambda>(n, t). (n, [t])) answers)"
proof -
  let ?a = "a\<lparr>ra_world := w\<rparr>"
  have r: "recordsOf opts R t1 t2 (dq_name q) a = Some (?a, Inr (JArr (map record_json rs)))"
    using assms(2,6) by (simp add: recordsOf_def cached_def in_world_def bind_eff_def ret_def)
  have "binaryDoh D opts R t1 t2 qbytes a = Some (?a, Inr \<lparr>rs_status = 200,
      rs_contentType = Some (js ''application/dns-message''), rs_body = Raw bs\<rparr>)"
    by (simp add: binaryDoh_def assms(3) bind_eff_def catch_eff_def r records_of_json of_res_def assms(7) ret_def
        del: js_Cons records_of.simps)
  moreover have "jsonDoh opts R t1 t2 (dq_name q) (js ''TXT'') a = Some (?a, Inr \<lparr>rs_status = 200,
      rs_contentType = Some (js ''application/dns-json''),
      rs_body = DnsJson (if rs = [] then 3 else 0) (dq_name q, js ''TXT'') (map (\<lambda>r. (dq_name q, txt_line r)) rs)\<rparr>)"
    by (simp add: jsonDoh_def bind_eff_def catch_eff_def r records_of_json ret_def Let_def del: js_Cons records_of.simps)
  moreover have "decodeDohResponse D bs = Inr (rcode_name D (if rs = [] then 3 else 0),
      map (\<lambda>(n, t). (n, [t])) (map (\<lambda>r. (dq_name q, txt_line r)) rs))"
    using response_decoded[OF assms(1,5,7)] assms(4) by (simp add: comp_def del: js_Cons)
  ultimately show ?thesis by blast
qed

section \<open>Properties\<close>









end
