(* ===== verification/Cli_Context.thy ===== *)
theory Cli_Context
  imports Tx Account_Fetch Effects Hosting
begin

text \<open>
  \<open>cli/src/context.ts\<close> and the helpers at the top of \<open>cli/src/index.ts\<close>: cluster selection, the key file's
  path, sending and simulating a transaction, amounts. A command is an effect on a \<open>terminal\<close>: the
  lines written to standard output and standard error, around the world \<open>'c\<close> of the chain. The RPC
  (\<open>@solana/kit\<close>), the file system and \<open>findAssociatedTokenPda\<close> are the fields of \<open>cli_rpc\<close>; a signed
  transaction is the message that was signed with its signature. \<open>process.env\<close> is the argument \<open>env\<close>.

  \<open>Number(s)\<close> is the parameter \<open>number\<close> (\<open>None\<close> is NaN; doubles are exact rationals) and \<open>num_arg\<close> is what a
  number encoder of the kit makes of such a value; \<open>BigInt(s)\<close> is written out.
\<close>

section \<open>Numbers from text\<close>

definition syntax_error :: js_error where
  "syntax_error = JsError (js ''Cannot convert to a BigInt'')"

definition digit_value :: "nat \<Rightarrow> nat" where
  "digit_value c =
     (if 48 \<le> c \<and> c \<le> 57 then c - 48 else if 97 \<le> c \<and> c \<le> 122 then c - 87
      else if 65 \<le> c \<and> c \<le> 90 then c - 55 else 99)"

definition radix_digits :: "nat \<Rightarrow> jsstr \<Rightarrow> nat option" where
  "radix_digits radix s =
     (if s \<noteq> [] \<and> list_all (\<lambda>c. digit_value c < radix) s
      then Some (foldl (\<lambda>a c. a * radix + digit_value c) 0 s) else None)"

text \<open>\<open>BigInt(s)\<close> (\<open>StringToBigInt\<close>): surrounding white space is dropped, the empty text is 0, a prefix \<open>0x\<close>, \<open>0o\<close> or
  \<open>0b\<close> selects another radix and takes no sign.\<close>

definition bigint_of :: "jsstr \<Rightarrow> int res" where
  "bigint_of s =
     (let t = trim s;
          signed = (\<lambda>neg d. case radix_digits 10 d of
             None \<Rightarrow> Inl syntax_error | Some n \<Rightarrow> Inr (if neg then - int n else int n));
          prefixed = (\<lambda>radix d. case radix_digits radix d of None \<Rightarrow> Inl syntax_error | Some n \<Rightarrow> Inr (int n))
      in case t of
           [] \<Rightarrow> Inr 0
         | [c] \<Rightarrow> signed False t
         | c # x # d \<Rightarrow>
             if c = 45 then signed True (x # d)
             else if c = 43 then signed False (x # d)
             else if c = 48 \<and> (x = 120 \<or> x = 88) then prefixed 16 d
             else if c = 48 \<and> (x = 111 \<or> x = 79) then prefixed 8 d
             else if c = 48 \<and> (x = 98 \<or> x = 66) then prefixed 2 d
             else signed False t)"

definition LAMPORTS_PER_SOL :: int where "LAMPORTS_PER_SOL = 1000000000"

text \<open>\<open>const [whole, frac = ""] = sol.trim().split(".")\<close>; further parts are ignored.\<close>

definition solToLamports :: "jsstr \<Rightarrow> int res" where
  "solToLamports sol =
     (let parts = split_on 46 (trim sol);
          whole = hd parts;
          frac = (case tl parts of [] \<Rightarrow> [] | f # _ \<Rightarrow> f)
      in bind_res (bigint_of (if whole = [] then js ''0'' else whole)) (\<lambda>w.
         bind_res (bigint_of (take 9 (frac @ js ''000000000''))) (\<lambda>f.
           Inr (w * LAMPORTS_PER_SOL + f))))"

text \<open>\<open>(Number(l) / Number(LAMPORTS_PER_SOL)).toString()\<close> over the text \<open>num_str\<close> of a number.\<close>

definition lamportsToSol :: "(rat \<Rightarrow> jsstr) \<Rightarrow> int \<Rightarrow> jsstr" where
  "lamportsToSol num_str l = num_str (of_int l / of_int LAMPORTS_PER_SOL)"

definition bigint_range_error :: js_error where
  "bigint_range_error = JsError (js ''The number cannot be converted to a BigInt because it is not an integer'')"

text \<open>\<open>BigInt(Math.round(Number(days) * 86400))\<close>.\<close>

definition day_seconds :: "(jsstr \<Rightarrow> rat option) \<Rightarrow> jsstr \<Rightarrow> int res" where
  "day_seconds number days =
     (case number days of None \<Rightarrow> Inl bigint_range_error | Some q \<Rightarrow> Inr \<lfloor>q * 86400 + 1 / 2\<rfloor>)"

section \<open>context.ts: options and clusters\<close>

record globalOpts =
  go_cluster :: "jsstr option"
  go_url :: "jsstr option"
  go_ws :: "jsstr option"
  go_keypair :: "jsstr option"
  go_simulate :: bool
  go_yes :: bool
  go_json :: bool

type_synonym environment = "string \<Rightarrow> jsstr option"

text \<open>\<open>a ?? b\<close> of two optional values.\<close>

definition either :: "'a option \<Rightarrow> 'a option \<Rightarrow> 'a option" where
  "either a b = (case a of None \<Rightarrow> b | Some x \<Rightarrow> Some x)"

definition clusterName :: "environment \<Rightarrow> globalOpts \<Rightarrow> jsstr" where
  "clusterName env opts = or_else (either (go_cluster opts) (env ''SOLANS_CLUSTER'')) (js ''devnet'')"

definition replace_http :: "jsstr \<Rightarrow> jsstr" where
  "replace_http rpc = (if take 4 rpc = js ''http'' then js ''ws'' @ drop 4 rpc else rpc)"

definition resolveUrls :: "environment \<Rightarrow> globalOpts \<Rightarrow> (jsstr \<times> jsstr) res" where
  "resolveUrls env opts =
     (let url = either (go_url opts) (env ''SOLANS_RPC_URL'') in
      if truthy_str url then
        Inr (the url, or_else (either (go_ws opts) (env ''SOLANS_WS_URL'')) (replace_http (the url)))
      else
        let c = clusterName env opts in
        if c = js ''local'' \<or> c = js ''localnet'' then Inr (js ''http://127.0.0.1:8899'', js ''ws://127.0.0.1:8900'')
        else if c = js ''devnet'' then Inr (js ''https://api.devnet.solana.com'', js ''wss://api.devnet.solana.com'')
        else if c = js ''mainnet'' \<or> c = js ''mainnet-beta''
        then Inr (js ''https://api.mainnet-beta.solana.com'', js ''wss://api.mainnet-beta.solana.com'')
        else Inl (JsError (js ''Unknown cluster: '' @ c)))"

definition keypair_path :: "environment \<Rightarrow> jsstr \<Rightarrow> globalOpts \<Rightarrow> jsstr" where
  "keypair_path env homedir opts =
     (let path = or_else (either (go_keypair opts) (env ''SOLANS_KEYPAIR'')) (homedir @ js ''/.config/solana/id.json'')
      in if take 2 path = js ''~/'' then homedir @ js ''/'' @ drop 2 path else path)"

section \<open>The terminal and the RPC\<close>

record 'c terminal =
  tm_out :: "jsstr list"
  tm_err :: "jsstr list"
  tm_chain :: 'c

record message =
  ms_feePayer :: address
  ms_blockhash :: jsstr
  ms_instructions :: "instruction list"

record signedTx =
  st_message :: message
  st_signature :: jsstr

text \<open>What a simulation reports: \<open>sim_err\<close> is the JSON text of the error with its bigints written as strings,
  \<open>sim_err_plain\<close> the outcome of \<open>JSON.stringify\<close> alone, which throws on a bigint.\<close>

record simulation =
  sim_err :: "jsstr option"
  sim_err_plain :: "jsstr res"
  sim_logs :: "jsstr list option"
  sim_units :: "int option"
  sim_returnData :: "jsstr option"

record 'c cli_rpc =
  cr_accounts :: "'c \<Rightarrow> fetcher"
  cr_blockhash :: "('c, jsstr) eff"
  cr_sign :: "message \<Rightarrow> ('c, jsstr) eff"
  cr_simulate :: "signedTx \<Rightarrow> ('c, simulation) eff"
  cr_send :: "signedTx \<Rightarrow> ('c, unit) eff"
  cr_find_ata :: find_ata
  cr_base64 :: "jsstr \<Rightarrow> bytes"

text \<open>\<open>Ctx\<close>, with the key pair that \<open>generateKeyPairSigner()\<close> makes in the run (a command makes at most one).\<close>

record 'c ctx =
  cx_rpc :: "'c cli_rpc"
  cx_signer :: address
  cx_opts :: globalOpts
  cx_mint :: address

definition on_chain :: "('c, 'a) eff \<Rightarrow> ('c terminal, 'a) eff" where
  "on_chain m t = (case m (tm_chain t) of None \<Rightarrow> None | Some (c, r) \<Rightarrow> Some (t\<lparr>tm_chain := c\<rparr>, r))"

definition with_accounts :: "'c ctx \<Rightarrow> (fetcher \<Rightarrow> 'a res option) \<Rightarrow> ('c terminal, 'a) eff" where
  "with_accounts C f t = (case f (cr_accounts (cx_rpc C) (tm_chain t)) of None \<Rightarrow> None | Some r \<Rightarrow> Some (t, r))"

definition console_log :: "jsstr \<Rightarrow> ('c terminal, unit) eff" where
  "console_log s t = Some (t\<lparr>tm_out := tm_out t @ [s]\<rparr>, Inr ())"

definition console_error :: "jsstr \<Rightarrow> ('c terminal, unit) eff" where
  "console_error s t = Some (t\<lparr>tm_err := tm_err t @ [s]\<rparr>, Inr ())"

fun each_line :: "(jsstr \<Rightarrow> ('c terminal, unit) eff) \<Rightarrow> jsstr list \<Rightarrow> ('c terminal, unit) eff" where
  "each_line p [] = ret ()"
| "each_line p (l # ls) = bind_eff (p l) (\<lambda>_. each_line p ls)"

section \<open>context.ts: accounts and transactions\<close>

definition cli_getConfig :: "kit \<Rightarrow> 'c ctx \<Rightarrow> ('c terminal, address \<times> config) eff" where
  "cli_getConfig K C = with_accounts C (\<lambda>fetch. Some (
     bind_res (first_of (findConfigPda K)) (\<lambda>configPda.
     bind_res (fetchConfig K fetch configPda) (\<lambda>data. Inr (configPda, data)))))"

definition cli_ataFor :: "'c ctx \<Rightarrow> address \<Rightarrow> address \<Rightarrow> address res" where
  "cli_ataFor C owner mint = ataFor (cr_find_ata (cx_rpc C)) owner mint"

text \<open>The message both functions build and sign.\<close>

definition sign_instructions :: "'c ctx \<Rightarrow> instruction list \<Rightarrow> ('c terminal, signedTx) eff" where
  "sign_instructions C instructions =
     bind_eff (on_chain (cr_blockhash (cx_rpc C))) (\<lambda>blockhash.
       let m = \<lparr>ms_feePayer = cx_signer C, ms_blockhash = blockhash, ms_instructions = instructions\<rparr> in
       bind_eff (on_chain (cr_sign (cx_rpc C) m)) (\<lambda>signature.
         ret \<lparr>st_message = m, st_signature = signature\<rparr>))"

definition sendInstructions :: "'c ctx \<Rightarrow> instruction list \<Rightarrow> ('c terminal, jsstr option) eff" where
  "sendInstructions C instructions =
     bind_eff (sign_instructions C instructions) (\<lambda>signedTx.
     bind_eff (on_chain (cr_simulate (cx_rpc C) signedTx)) (\<lambda>sim.
       case sim_err sim of
         Some err \<Rightarrow>
           bind_eff (console_error ([10007] @ js '' simulation failed: '' @ err)) (\<lambda>_.
           bind_eff (each_line (\<lambda>l. console_error (js ''    '' @ l)) (or_else (sim_logs sim) [])) (\<lambda>_.
             throw (JsError (js ''transaction simulation failed''))))
       | None \<Rightarrow>
           bind_eff (console_error (js ''  simulated OK ('' @
             (case sim_units sim of None \<Rightarrow> js ''?'' | Some u \<Rightarrow> int_str u) @ js '' CU)'')) (\<lambda>_.
           if go_simulate (cx_opts C)
           then bind_eff (console_error (js ''  --simulate set: not sending.'')) (\<lambda>_. ret None)
           else bind_eff (on_chain (cr_send (cx_rpc C) signedTx)) (\<lambda>_. ret (Some (st_signature signedTx))))))"

definition simulateReturnData :: "'c ctx \<Rightarrow> instruction list \<Rightarrow> ('c terminal, bytes option) eff" where
  "simulateReturnData C instructions =
     bind_eff (sign_instructions C instructions) (\<lambda>signedTx.
     bind_eff (on_chain (cr_simulate (cx_rpc C) signedTx)) (\<lambda>sim.
       case sim_err sim of
         Some _ \<Rightarrow>
           bind_eff (each_line (\<lambda>l. console_error (js ''    '' @ l)) (or_else (sim_logs sim) [])) (\<lambda>_.
           bind_eff (of_res (sim_err_plain sim)) (\<lambda>err.
             throw (JsError (js ''simulation failed: '' @ err))))
       | None \<Rightarrow>
           ret (if truthy_str (sim_returnData sim) then Some (cr_base64 (cx_rpc C) (the (sim_returnData sim))) else None)))"

definition reportSig :: "environment \<Rightarrow> 'c ctx \<Rightarrow> jsstr option \<Rightarrow> ('c terminal, unit) eff" where
  "reportSig env C sg =
     (if \<not> truthy_str sg then ret ()
      else bind_eff (console_log ([10003] @ js '' '' @ the sg)) (\<lambda>_.
        let c = clusterName env (cx_opts C) in
        if c \<noteq> js ''local'' \<and> c \<noteq> js ''localnet'' then
          console_log (js ''  https://explorer.solana.com/tx/'' @ the sg @ js ''?cluster='' @
            (if c = js ''mainnet'' then js ''mainnet-beta'' else c))
        else ret ()))"

text \<open>\<open>reportSig(ctx, await sendInstructions(ctx, ixs))\<close>, the end of every writing command.\<close>

definition submit :: "environment \<Rightarrow> 'c ctx \<Rightarrow> instruction list \<Rightarrow> ('c terminal, unit) eff" where
  "submit env C ixs = bind_eff (sendInstructions C ixs) (reportSig env C)"

section \<open>What the commands share\<close>

text \<open>The packages and the language's number functions behind the commands: the kit, \<open>normalize\<close>/\<open>toLowerCase\<close>,
  \<open>process.env\<close>, \<open>Number(s)\<close>, a number as an encoder's argument, the text of a number, the builders
  \<open>getApproveInstruction\<close> and \<open>getRevokeInstruction\<close> of \<open>@solana-program/token\<close>, the global \<open>fetch\<close> that \<open>pinBytes\<close> uses,
  \<open>readFile\<close>, \<open>basename\<close> and \<open>TextDecoder\<close>.\<close>

record lib =
  lk :: kit
  lu :: unicode
  lenv :: environment
  number :: "jsstr \<Rightarrow> rat option"
  num_arg :: "rat option \<Rightarrow> cval"
  num_str :: "rat \<Rightarrow> jsstr"
  getApproveInstruction :: "ixInput \<Rightarrow> instruction res"
  getRevokeInstruction :: "ixInput \<Rightarrow> instruction res"
  pin_fetch :: "pin_request \<Rightarrow> pin_response res"
  readFile :: "jsstr \<Rightarrow> bytes res"
  basename :: "jsstr \<Rightarrow> jsstr"
  text_of :: "bytes \<Rightarrow> jsstr"

text \<open>\<open>makeContext\<close>: \<open>connect\<close> creates the RPC clients for the two urls, \<open>read_key\<close> reads and imports the key file.\<close>

definition makeContext ::
  "lib \<Rightarrow> jsstr \<Rightarrow> (jsstr \<Rightarrow> jsstr \<Rightarrow> 'c cli_rpc) \<Rightarrow> (jsstr \<Rightarrow> ('c terminal, address) eff) \<Rightarrow> address \<Rightarrow> globalOpts \<Rightarrow>
   ('c terminal, 'c ctx) eff" where
  "makeContext L homedir connect read_key mint opts =
     bind_eff (of_res (resolveUrls (lenv L) opts)) (\<lambda>(rpc, ws).
     bind_eff (read_key (keypair_path (lenv L) homedir opts)) (\<lambda>signer.
       ret \<lparr>cx_rpc = connect rpc ws, cx_signer = signer, cx_opts = opts, cx_mint = mint\<rparr>))"

text \<open>The options commander hands to an action: values by name, with the declared defaults, and flags.\<close>

record options =
  op_val :: "string \<Rightarrow> jsstr option"
  op_flag :: "string \<Rightarrow> bool"

definition with_defaults :: "(string \<times> string) list \<Rightarrow> options \<Rightarrow> options" where
  "with_defaults ds o' = o'\<lparr>op_val := (\<lambda>k. either (op_val o' k) (map_option js (map_of ds k)))\<rparr>"

definition missing_option :: js_error where
  "missing_option = JsError (js ''error: required option not specified'')"

text \<open>An option that is required or has a default.\<close>

definition opt :: "options \<Rightarrow> string \<Rightarrow> jsstr res" where
  "opt o' k = (case op_val o' k of None \<Rightarrow> Inl missing_option | Some v \<Rightarrow> Inr v)"

definition big :: "options \<Rightarrow> string \<Rightarrow> int res" where
  "big o' k = bind_res (opt o' k) bigint_of"

definition num :: "lib \<Rightarrow> options \<Rightarrow> string \<Rightarrow> cval res" where
  "num L o' k = bind_res (opt o' k) (\<lambda>s. Inr (num_arg L (number L s)))"

text \<open>\<open>o.k ? address(o.k) : d\<close>, and the same with \<open>undefined\<close>.\<close>

definition addr_or :: "lib \<Rightarrow> options \<Rightarrow> string \<Rightarrow> address \<Rightarrow> address res" where
  "addr_or L o' k d = (if truthy_str (op_val o' k) then address_of (lk L) (the (op_val o' k)) else Inr d)"

definition addr_opt :: "lib \<Rightarrow> options \<Rightarrow> string \<Rightarrow> acctVal option res" where
  "addr_opt L o' k =
     (if truthy_str (op_val o' k)
      then bind_res (address_of (lk L) (the (op_val o' k))) (\<lambda>a. Inr (Some (AddrI a))) else Inr None)"

definition nameRecordPda :: "lib \<Rightarrow> jsstr \<Rightarrow> address res" where
  "nameRecordPda L name = first_of (bind_res (nameHashFor (lk L) (lu L) name None) (findNameRecordPda (lk L)))"

text \<open>\<open>SolansClient.fromRpc(ctx.rpc).resolve(name)\<close>.\<close>

definition sdk_resolve :: "lib \<Rightarrow> 'c ctx \<Rightarrow> jsstr \<Rightarrow> ('c terminal, nameRecord option) eff" where
  "sdk_resolve L C name = with_accounts C (\<lambda>fetch. Client.resolve (lk L) (lu L) fetch name)"

definition nftTokenAccountIfTokenized :: "lib \<Rightarrow> 'c ctx \<Rightarrow> jsstr \<Rightarrow> ('c terminal, acctVal option) eff" where
  "nftTokenAccountIfTokenized L C name =
     bind_eff (sdk_resolve L C name) (\<lambda>rec.
       let mint = (case rec of None \<Rightarrow> None | Some r \<Rightarrow> nr_nftMint r) in
       of_res (ata_if (cr_find_ata (cx_rpc C)) mint (cx_signer C) (or_else mint [])))"

text \<open>The end of a command that sends one instruction, and of one that then prints a line.\<close>

definition submit1 :: "lib \<Rightarrow> 'c ctx \<Rightarrow> instruction res \<Rightarrow> ('c terminal, unit) eff" where
  "submit1 L C ix = bind_eff (of_res (just ix)) (submit (lenv L) C)"

definition submit_and_say :: "lib \<Rightarrow> 'c ctx \<Rightarrow> instruction res \<Rightarrow> jsstr \<Rightarrow> ('c terminal, unit) eff" where
  "submit_and_say L C ix line = bind_eff (submit1 L C ix) (\<lambda>_. console_log line)"

section \<open>Amounts\<close>

lemma digits_value:
  "list_all (\<lambda>c. 48 \<le> c \<and> c \<le> 57) s \<Longrightarrow> s \<noteq> [] \<Longrightarrow> radix_digits 10 s = Some (dec_val s)"
proof -
  assume d: "list_all (\<lambda>c. 48 \<le> c \<and> c \<le> 57) s" and ne: "s \<noteq> []"
  have "foldl (\<lambda>a c. a * 10 + digit_value c) a s = foldl (\<lambda>a c. a * 10 + (c - 48)) a s" for a
    using d by (induction s arbitrary: a) (simp_all add: digit_value_def)
  moreover have "list_all (\<lambda>c. digit_value c < 10) s" using d by (auto simp: list_all_iff digit_value_def)
  ultimately show ?thesis using ne by (simp add: radix_digits_def)
qed

lemma trim_digits: "list_all (\<lambda>c. (48 \<le> c \<and> c \<le> 57) \<or> c = 46) s \<Longrightarrow> trim s = s"
  by (intro trim_id) (auto simp: list_all_iff is_js_space_def)

lemma bigint_digits:
  assumes "list_all (\<lambda>c. 48 \<le> c \<and> c \<le> 57) s" "s \<noteq> []"
  shows "bigint_of s = Inr (int (dec_val s))"
proof -
  have t: "trim s = s" using assms(1) by (intro trim_digits) (auto simp: list_all_iff)
  obtain c d where s: "s = c # d" using assms(2) by (cases s) auto
  show ?thesis
  proof (cases d)
    case Nil
    with digits_value[OF assms] show ?thesis using t by (simp add: bigint_of_def s Let_def del: dec_val.simps)
  next
    case (Cons x e)
    with digits_value[OF assms] assms(1) t show ?thesis by (auto simp: bigint_of_def s Let_def simp del: dec_val.simps)
  qed
qed

lemma foldl_digits:
  "foldl (\<lambda>a c. a * 10 + (c - 48)) a u = a * 10 ^ length u + foldl (\<lambda>a c. a * 10 + (c - 48)) (0::nat) u"
proof (induction u rule: rev_induct)
  case (snoc c u)
  then show ?case by (simp add: distrib_right)
qed simp

lemma dec_val_append: "dec_val (s @ u) = dec_val s * 10 ^ length u + dec_val u"
  unfolding dec_val.simps foldl_append by (rule foldl_digits)

lemma dec_val_bound: "list_all (\<lambda>c. 48 \<le> c \<and> c \<le> 57) s \<Longrightarrow> dec_val s < 10 ^ length s"
proof (induction s rule: rev_induct)
  case (snoc c s)
  then have "dec_val s < 10 ^ length s" "c - 48 \<le> 9" by auto
  then show ?case using dec_val_append[of s "[c]"] by simp
qed simp

lemma take_digits: "list_all P s \<Longrightarrow> list_all P (take n s)"
  by (auto simp: list_all_iff dest: in_set_takeD)

text \<open>The nine digits behind the point are the fraction in lamports, rounded down.\<close>

lemma fraction_digits:
  assumes "list_all (\<lambda>c. 48 \<le> c \<and> c \<le> 57) f"
  shows "dec_val (take 9 (f @ js ''000000000'')) = dec_val f * 10 ^ 9 div 10 ^ length f"
proof (cases "length f \<le> 9")
  case True
  have z: "dec_val (take n (js ''000000000'')) = 0" for n
  proof -
    have "set (take n (js ''000000000'')) \<subseteq> {48}" using set_take_subset[of n "js ''000000000''"] by auto
    then have "take n (js ''000000000'') = replicate (length (take n (js ''000000000''))) 48"
      by (intro replicate_eqI) auto
    moreover have "dec_val (replicate m 48) = 0" for m by (induction m) simp_all
    ultimately show ?thesis by metis
  qed
  have "take 9 (f @ js ''000000000'') = f @ take (9 - length f) (js ''000000000'')" using True by simp
  then have "dec_val (take 9 (f @ js ''000000000'')) = dec_val f * 10 ^ (9 - length f)"
    using True z by (simp only: dec_val_append) simp
  moreover have "dec_val f * 10 ^ 9 = (dec_val f * 10 ^ (9 - length f)) * 10 ^ length f"
    using True by (simp flip: power_add add: mult.assoc del: dec_val.simps)
  ultimately show ?thesis by (metis nonzero_mult_div_cancel_right power_not_zero zero_neq_numeral)
next
  case False
  have f: "f = take 9 f @ drop 9 f" by simp
  have "dec_val (drop 9 f) < 10 ^ length (drop 9 f)"
    using assms by (intro dec_val_bound) (auto simp: list_all_iff dest: in_set_dropD)
  moreover have "dec_val f = dec_val (take 9 f) * 10 ^ length (drop 9 f) + dec_val (drop 9 f)"
    using dec_val_append[of "take 9 f" "drop 9 f"] by simp
  ultimately have q: "dec_val f div 10 ^ (length f - 9) = dec_val (take 9 f)" by (simp del: dec_val.simps)
  have "length f = (length f - 9) + 9" using False by simp
  then have "(10::nat) ^ length f = 10 ^ (length f - 9) * 10 ^ 9" by (metis power_add)
  then have "dec_val f * 10 ^ 9 div 10 ^ length f = dec_val f div 10 ^ (length f - 9)" by (simp del: dec_val.simps)
  with q False show ?thesis by simp
qed

lemma lamports_floor:
  "\<lfloor>(of_nat w + of_nat f / 10 ^ n) * 10 ^ 9 :: rat\<rfloor> = int w * 10 ^ 9 + int (f * 10 ^ 9 div 10 ^ n)"
proof -
  have "(of_nat w + of_nat f / 10 ^ n) * 10 ^ 9 = of_int (int w * 10 ^ 9) + (of_nat (f * 10 ^ 9) / of_nat (10 ^ n) :: rat)"
    by (simp add: algebra_simps)
  also have "\<lfloor>\<dots>\<rfloor> = int w * 10 ^ 9 + \<lfloor>of_nat (f * 10 ^ 9) / of_nat (10 ^ n) :: rat\<rfloor>" by (rule int_add_floor[symmetric])
  also have "\<dots> = int w * 10 ^ 9 + int (f * 10 ^ 9 div 10 ^ n)" by (simp only: floor_divide_of_nat_eq)
  finally show ?thesis .
qed

text \<open>A minus sign reaches only the whole part.\<close>

lemma trim_minus: "list_all (\<lambda>c. (48 \<le> c \<and> c \<le> 57) \<or> c = 46) s \<Longrightarrow> trim (45 # s) = 45 # s"
  by (intro trim_id) (auto simp: list_all_iff is_js_space_def)

lemma bigint_minus:
  assumes "list_all (\<lambda>c. 48 \<le> c \<and> c \<le> 57) s" "s \<noteq> []"
  shows "bigint_of (45 # s) = Inr (- int (dec_val s))"
proof -
  have "trim (45 # s) = 45 # s" using assms(1) by (intro trim_minus) (auto simp: list_all_iff)
  moreover obtain c d where "s = c # d" using assms(2) by (cases s) auto
  ultimately show ?thesis using digits_value[OF assms] by (simp add: bigint_of_def Let_def del: dec_val.simps)
qed

lemma minus_amount:
  assumes w: "list_all (\<lambda>c. 48 \<le> c \<and> c \<le> 57) whole" and f: "list_all (\<lambda>c. 48 \<le> c \<and> c \<le> 57) fr"
  shows "split_on 46 (trim (js ''-'' @ whole @ js ''.'' @ fr)) = [45 # whole, fr]"
proof -
  have "46 \<notin> set (45 # whole)" "46 \<notin> set fr" using w f by (auto simp: list_all_iff)
  then have "split_on 46 ((45 # whole) @ 46 # fr) = [45 # whole, fr]"
    by (simp add: split_on_append split_on_notin del: append_Cons set_simps)
  moreover have "trim (js ''-'' @ whole @ js ''.'' @ fr) = (45 # whole) @ 46 # fr"
    using trim_minus[of "whole @ 46 # fr"] w f by (auto simp: list_all_iff)
  ultimately show ?thesis by simp
qed

section \<open>Properties\<close>

text \<open>C29: A decimal SOL amount, with or without a fraction of any length, is read as its exact value in lamports, rounded down; after a minus sign the whole part is negated but the fraction is still added.\<close>

theorem sol_amounts_are_exact:
  assumes w: "list_all (\<lambda>c. 48 \<le> c \<and> c \<le> 57) whole" and f: "list_all (\<lambda>c. 48 \<le> c \<and> c \<le> 57) fr"
  shows "solToLamports (whole @ js ''.'' @ fr) =
      Inr \<lfloor>(of_nat (dec_val whole) + of_nat (dec_val fr) / 10 ^ length fr) * 10 ^ 9 :: rat\<rfloor> \<and>
    solToLamports whole = Inr (int (dec_val whole) * 10 ^ 9) \<and>
    (whole \<noteq> [] \<longrightarrow> solToLamports (js ''-'' @ whole @ js ''.'' @ fr) =
      Inr (\<lfloor>of_nat (dec_val fr) / 10 ^ length fr * 10 ^ 9 :: rat\<rfloor> - int (dec_val whole) * 10 ^ 9))"
proof -
  have dots: "46 \<notin> set whole" "46 \<notin> set fr" using w f by (auto simp: list_all_iff)
  have W: "bigint_of (if whole = [] then js ''0'' else whole) = Inr (int (dec_val whole))"
    using bigint_digits[of "js ''0''"] bigint_digits[OF w] by (auto simp: digit_value_def)
  have "list_all (\<lambda>c. 48 \<le> c \<and> c \<le> 57) (fr @ js ''000000000'')" using f by simp
  then have F: "bigint_of (take 9 (fr @ js ''000000000'')) = Inr (int (dec_val fr * 10 ^ 9 div 10 ^ length fr))"
    using fraction_digits[OF f] by (subst bigint_digits[OF take_digits]) simp_all
  have Z: "bigint_of (take 9 ([] @ js ''000000000'')) = Inr 0"
    by (subst bigint_digits) simp_all
  have t: "trim (whole @ js ''.'' @ fr) = whole @ 46 # fr" "trim whole = whole"
    using trim_digits[of "whole @ 46 # fr"] trim_digits[of whole] w f by (auto simp: list_all_iff)
  have parts: "split_on 46 (whole @ 46 # fr) = [whole, fr]" "split_on 46 whole = [whole]"
    using dots by (simp_all add: split_on_append split_on_notin)
  have "solToLamports (whole @ js ''.'' @ fr) =
      Inr (int (dec_val whole) * LAMPORTS_PER_SOL + int (dec_val fr * 10 ^ 9 div 10 ^ length fr))"
    unfolding solToLamports_def t Let_def parts list.sel
    by (simp add: W F del: dec_val.simps js_Cons append_take_drop_id take_append split del: if_split)
  moreover have "solToLamports whole = Inr (int (dec_val whole) * LAMPORTS_PER_SOL + 0)"
    unfolding solToLamports_def t Let_def parts list.sel
    by (simp add: W Z[unfolded append_Nil] del: dec_val.simps js_Cons split del: if_split)
  moreover have "solToLamports (js ''-'' @ whole @ js ''.'' @ fr) =
      Inr (- int (dec_val whole) * LAMPORTS_PER_SOL + int (dec_val fr * 10 ^ 9 div 10 ^ length fr))" if "whole \<noteq> []"
    unfolding solToLamports_def Let_def minus_amount[OF w f]
    by (simp add: bigint_minus[OF w that] F del: dec_val.simps js_Cons take_append)
  ultimately show ?thesis using lamports_floor[of "dec_val whole" "dec_val fr" "length fr"]
      lamports_floor[of 0 "dec_val fr" "length fr"]
    by (simp add: LAMPORTS_PER_SOL_def del: dec_val.simps)
qed

theorem sol_amounts_are_exact_witness:
  "solToLamports (js ''1.5'') = Inr 1500000000 \<and> solToLamports (js ''0.0000000019'') = Inr 1 \<and>
   solToLamports (js ''20'') = Inr 20000000000 \<and> solToLamports (js ''-1.5'') = Inr (- 500000000) \<and>
   solToLamports (js ''-0.5'') = Inr 500000000"
  using sol_amounts_are_exact[of "js ''1''" "js ''5''"] sol_amounts_are_exact[of "js ''0''" "js ''0000000019''"]
    sol_amounts_are_exact[of "js ''20''" "[]"] sol_amounts_are_exact[of "js ''0''" "js ''5''"]
  by (simp add: floor_eq_iff)

end
