(* ===== verification/Cli.thy ===== *)
theory Cli
  imports Cli_Context Json
begin

text \<open>
  The commands of \<open>cli/src/index.ts\<close>, one definition per action, in the order of the file. An action gets the
  context \<open>makeContext\<close> made, the positional arguments and the options; it parses what it needs in the
  order of the code, reads accounts from the chain, builds its instruction with the generated builder and
  submits it, or prints what it read.
\<close>

section \<open>Printed objects\<close>

text \<open>The objects the commands print, and \<open>JSON.stringify(x, null, 2)\<close> of them.\<close>

datatype view =
    VwNull
  | VwBool bool
  | VwNum int
  | VwStr jsstr
  | VwArr "view list"
  | VwObj "(jsstr \<times> view) list"

fun pretty :: "jsstr \<Rightarrow> view \<Rightarrow> jsstr" where
  "pretty ind VwNull = js ''null''"
| "pretty ind (VwBool b) = (if b then js ''true'' else js ''false'')"
| "pretty ind (VwNum n) = int_str n"
| "pretty ind (VwStr s) = quote_json s"
| "pretty ind (VwArr vs) =
     (if vs = [] then [91, 93]
      else [91, 10] @ ind @ [32, 32] @ join ([44, 10] @ ind @ [32, 32]) (map (pretty (ind @ [32, 32])) vs) @ [10] @ ind @ [93])"
| "pretty ind (VwObj ms) =
     (if ms = [] then [123, 125]
      else [123, 10] @ ind @ [32, 32] @
        join ([44, 10] @ ind @ [32, 32])
          (map (\<lambda>kv. quote_json (fst kv) @ [58, 32] @ pretty (ind @ [32, 32]) (snd kv)) ms) @ [10] @ ind @ [125])"

definition opt_view :: "jsstr option \<Rightarrow> view" where
  "opt_view s = (case s of None \<Rightarrow> VwNull | Some x \<Rightarrow> VwStr x)"

section \<open>Administration\<close>

definition init_config_defaults :: "(string \<times> string) list" where
  "init_config_defaults =
     [(''price1'', ''1000000000''), (''price2'', ''200000000''), (''price3'', ''50000000''), (''price4'', ''10000000''),
      (''price5'', ''1000000''), (''priceNumeric'', ''500000000''), (''grace'', ''7776000''), (''minYears'', ''1''),
      (''maxYears'', ''10''), (''feeBps'', ''200''), (''stakingBps'', ''2500''), (''referralBps'', ''1000''),
      (''burnBps'', ''500'')]"

definition init_config_args :: "lib \<Rightarrow> options \<Rightarrow> address \<Rightarrow> (string \<times> cval) list res" where
  "init_config_args L p signer =
     bind_res (big p ''price1'') (\<lambda>price1. bind_res (big p ''price2'') (\<lambda>price2.
     bind_res (big p ''price3'') (\<lambda>price3. bind_res (big p ''price4'') (\<lambda>price4.
     bind_res (big p ''price5'') (\<lambda>price5plus. bind_res (big p ''priceNumeric'') (\<lambda>priceNumeric.
     bind_res (big p ''grace'') (\<lambda>grace.
     bind_res (num L p ''minYears'') (\<lambda>minYears. bind_res (num L p ''maxYears'') (\<lambda>maxYears.
     bind_res (addr_or L p ''solTreasury'' signer) (\<lambda>solTreasury.
     bind_res (num L p ''feeBps'') (\<lambda>feeBps. bind_res (num L p ''stakingBps'') (\<lambda>stakingBps.
     bind_res (num L p ''referralBps'') (\<lambda>referralBps. bind_res (num L p ''burnBps'') (\<lambda>burnBps.
       Inr [(''price1'', VNum price1), (''price2'', VNum price2), (''price3'', VNum price3), (''price4'', VNum price4),
            (''price5plus'', VNum price5plus), (''priceNumeric'', VNum priceNumeric),
            (''gracePeriodSeconds'', VNum grace), (''minYears'', minYears), (''maxYears'', maxYears),
            (''solTreasury'', VAddr solTreasury), (''marketplaceFeeBps'', feeBps), (''stakingFeeBps'', stakingBps),
            (''referralFeeBps'', referralBps), (''burnFeeBps'', burnBps)]))))))))))))))"

definition cmd_init_config :: "lib \<Rightarrow> 'c ctx \<Rightarrow> options \<Rightarrow> ('c terminal, unit) eff" where
  "cmd_init_config L C given =
     (let p = with_defaults init_config_defaults given in
      submit1 L C (
        bind_res (bind_res (opt p ''mint'') (address_of (lk L))) (\<lambda>mint.
        bind_res (bind_res (opt p ''treasury'') (address_of (lk L))) (\<lambda>treasury.
        bind_res (addr_or L p ''stakingVault'' treasury) (\<lambda>stakingVault.
        bind_res (addr_or L p ''burnVault'' treasury) (\<lambda>burnVault.
        bind_res (init_config_args L p (cx_signer C)) (\<lambda>args.
          getInitConfigInstructionAsync (lk L) (ix_input
            [(''admin'', Some (SignerI (cx_signer C))), (''paymentMint'', Some (AddrI mint)),
             (''treasuryTokenAccount'', Some (AddrI treasury)), (''stakingVault'', Some (AddrI stakingVault)),
             (''burnVault'', Some (AddrI burnVault))] args))))))))"

text \<open>\<open>o.k ? BigInt(o.k) : d\<close> and \<open>o.k ? Number(o.k) : d\<close>.\<close>

definition big_or :: "options \<Rightarrow> string \<Rightarrow> int \<Rightarrow> cval res" where
  "big_or p k d =
     (if truthy_str (op_val p k) then bind_res (bigint_of (the (op_val p k))) (\<lambda>n. Inr (VNum n)) else Inr (VNum d))"

definition num_or :: "lib \<Rightarrow> options \<Rightarrow> string \<Rightarrow> int \<Rightarrow> cval res" where
  "num_or L p k d = Inr (if truthy_str (op_val p k) then num_arg L (number L (the (op_val p k))) else VNum d)"

definition update_config_args :: "lib \<Rightarrow> options \<Rightarrow> config \<Rightarrow> (string \<times> cval) list res" where
  "update_config_args L p d =
     bind_res (big_or p ''price1'' (cfg_price1 d)) (\<lambda>price1. bind_res (big_or p ''price2'' (cfg_price2 d)) (\<lambda>price2.
     bind_res (big_or p ''price3'' (cfg_price3 d)) (\<lambda>price3. bind_res (big_or p ''price4'' (cfg_price4 d)) (\<lambda>price4.
     bind_res (big_or p ''price5'' (cfg_price5plus d)) (\<lambda>price5plus.
     bind_res (big_or p ''priceNumeric'' (cfg_priceNumeric d)) (\<lambda>priceNumeric.
     bind_res (big_or p ''grace'' (cfg_gracePeriodSeconds d)) (\<lambda>grace.
     bind_res (num_or L p ''minYears'' (cfg_minYears d)) (\<lambda>minYears.
     bind_res (num_or L p ''maxYears'' (cfg_maxYears d)) (\<lambda>maxYears.
     bind_res (addr_or L p ''solTreasury'' (cfg_solTreasury d)) (\<lambda>solTreasury.
     bind_res (num_or L p ''feeBps'' (cfg_marketplaceFeeBps d)) (\<lambda>feeBps.
     bind_res (num_or L p ''stakingBps'' (cfg_stakingFeeBps d)) (\<lambda>stakingBps.
     bind_res (num_or L p ''referralBps'' (cfg_referralFeeBps d)) (\<lambda>referralBps.
     bind_res (num_or L p ''burnBps'' (cfg_burnFeeBps d)) (\<lambda>burnBps.
       Inr [(''price1'', price1), (''price2'', price2), (''price3'', price3), (''price4'', price4),
            (''price5plus'', price5plus), (''priceNumeric'', priceNumeric), (''gracePeriodSeconds'', grace),
            (''minYears'', minYears), (''maxYears'', maxYears), (''solTreasury'', VAddr solTreasury),
            (''marketplaceFeeBps'', feeBps), (''stakingFeeBps'', stakingBps), (''referralFeeBps'', referralBps),
            (''burnFeeBps'', burnBps)]))))))))))))))"

definition update_config_ix :: "lib \<Rightarrow> options \<Rightarrow> address \<Rightarrow> config \<Rightarrow> instruction res" where
  "update_config_ix L p signer d =
     bind_res (update_config_args L p d) (\<lambda>args.
       getUpdateConfigInstructionAsync (lk L) (ix_input [(''admin'', Some (SignerI signer))] args))"

definition cmd_update_config :: "lib \<Rightarrow> 'c ctx \<Rightarrow> options \<Rightarrow> ('c terminal, unit) eff" where
  "cmd_update_config L C p =
     bind_eff (cli_getConfig (lk L) C) (\<lambda>(a, d). submit1 L C (update_config_ix L p (cx_signer C) d))"

definition cmd_transfer_admin :: "lib \<Rightarrow> 'c ctx \<Rightarrow> jsstr \<Rightarrow> ('c terminal, unit) eff" where
  "cmd_transfer_admin L C newAdmin =
     submit_and_say L C
       (bind_res (address_of (lk L) newAdmin) (\<lambda>a. getTransferAdminInstructionAsync (lk L)
          (ix_input [(''admin'', Some (SignerI (cx_signer C)))] [(''newAdmin'', VAddr a)])))
       (js ''  admin -> '' @ newAdmin)"

section \<open>Registration, renewal, claiming\<close>

text \<open>The fee accounts a paying command passes, and the ones of payment in SOLANS.\<close>

definition fee_accounts :: "config \<Rightarrow> address \<Rightarrow> acctVal option \<Rightarrow> (string \<times> acctVal option) list" where
  "fee_accounts cfg ata referral =
     [(''payerTokenAccount'', Some (AddrI ata)),
      (''treasuryTokenAccount'', Some (AddrI (cfg_treasuryTokenAccount cfg))),
      (''stakingVault'', Some (AddrI (cfg_stakingVault cfg))), (''burnVault'', Some (AddrI (cfg_burnVault cfg))),
      (''referralTokenAccount'', referral), (''paymentMint'', Some (AddrI (cfg_paymentMint cfg)))]"

definition solans_accounts :: "config \<Rightarrow> address \<Rightarrow> (string \<times> acctVal option) list" where
  "solans_accounts cfg ata =
     [(''payerSolansAccount'', Some (AddrI ata)), (''solansMint'', Some (AddrI (cfg_solansMint cfg)))]"

definition register_ix ::
  "lib \<Rightarrow> 'c ctx \<Rightarrow> options \<Rightarrow> config \<Rightarrow> address \<Rightarrow> jsstr \<Rightarrow> jsstr \<Rightarrow> bytes \<Rightarrow> instruction res" where
  "register_ix L C p cfg owner label tld hash =
     (let signer = cx_signer C;
          who = [(''payer'', Some (SignerI signer)), (''owner'', Some (AddrI owner))];
          args = (\<lambda>years. [(''name'', VStr label), (''tld'', VStr tld), (''nameHash'', VBytes hash), (''years'', years)])
      in if op_flag p ''paySolans'' then
           bind_res (cli_ataFor C signer (cfg_solansMint cfg)) (\<lambda>ata. bind_res (num L p ''years'') (\<lambda>years.
             getRegisterWithSolansInstructionAsync (lk L) (ix_input (who @ solans_accounts cfg ata) (args years))))
         else
           bind_res (cli_ataFor C signer (cfg_paymentMint cfg)) (\<lambda>ata.
           bind_res (addr_opt L p ''referrer'') (\<lambda>referral. bind_res (num L p ''years'') (\<lambda>years.
             getRegisterNameInstructionAsync (lk L) (ix_input (who @ fee_accounts cfg ata referral) (args years))))))"

definition register_ixs ::
  "lib \<Rightarrow> 'c ctx \<Rightarrow> jsstr \<Rightarrow> options \<Rightarrow> config \<Rightarrow> (instruction list \<times> jsstr) res" where
  "register_ixs L C name p cfg =
     bind_res (nameParts (lk L) (lu L) name None) (\<lambda>(label, tld, hash).
     bind_res (addr_or L p ''owner'' (cx_signer C)) (\<lambda>owner.
     bind_res (first_of (findNameRecordPda (lk L) hash)) (\<lambda>nameRecord.
     bind_res (register_ix L C p cfg owner label tld hash) (\<lambda>registerIx.
       let mintNft = (\<not> op_flag p ''noNft'' \<and> owner = cx_signer C);
           line = js ''  '' @ label @ js ''.'' @ tld @ js '' -> '' @ nameRecord @
                    (if mintNft then js '' (NFT minted)'' else [])
       in if mintNft then
            bind_res (getTokenizeNameInstructionAsync (lk L) (ix_input
              [(''owner'', Some (SignerI (cx_signer C))), (''nameRecord'', Some (AddrI nameRecord)),
               (''mint'', Some (SignerI (cx_mint C)))] [(''name'', VStr label)])) (\<lambda>tokenizeIx.
            Inr ([registerIx, tokenizeIx], line))
          else Inr ([registerIx], line)))))"

definition cmd_register :: "lib \<Rightarrow> 'c ctx \<Rightarrow> jsstr \<Rightarrow> options \<Rightarrow> ('c terminal, unit) eff" where
  "cmd_register L C name given =
     (let p = with_defaults [(''years'', ''1'')] given in
      bind_eff (cli_getConfig (lk L) C) (\<lambda>(a, cfg).
      bind_eff (of_res (register_ixs L C name p cfg)) (\<lambda>(ixs, line).
      bind_eff (submit (lenv L) C ixs) (\<lambda>_. console_log line))))"

definition renew_ix :: "lib \<Rightarrow> 'c ctx \<Rightarrow> jsstr \<Rightarrow> options \<Rightarrow> config \<Rightarrow> instruction res" where
  "renew_ix L C name p cfg =
     bind_res (nameParts (lk L) (lu L) name None) (\<lambda>(label, tld, hash).
     bind_res (first_of (findNameRecordPda (lk L) hash)) (\<lambda>nameRecord.
       let signer = cx_signer C;
           who = [(''payer'', Some (SignerI signer)), (''nameRecord'', Some (AddrI nameRecord))];
           args = (\<lambda>years. [(''name'', VStr label), (''tld'', VStr tld), (''years'', years)])
       in if op_flag p ''paySolans'' then
            bind_res (cli_ataFor C signer (cfg_solansMint cfg)) (\<lambda>ata. bind_res (num L p ''years'') (\<lambda>years.
              getRenewWithSolansInstructionAsync (lk L) (ix_input (who @ solans_accounts cfg ata) (args years))))
          else
            bind_res (cli_ataFor C signer (cfg_paymentMint cfg)) (\<lambda>ata.
            bind_res (addr_opt L p ''referrer'') (\<lambda>referral. bind_res (num L p ''years'') (\<lambda>years.
              getRenewNameInstructionAsync (lk L) (ix_input (who @ fee_accounts cfg ata referral) (args years)))))))"

definition cmd_renew :: "lib \<Rightarrow> 'c ctx \<Rightarrow> jsstr \<Rightarrow> options \<Rightarrow> ('c terminal, unit) eff" where
  "cmd_renew L C name given =
     bind_eff (cli_getConfig (lk L) C) (\<lambda>(a, cfg).
       submit1 L C (renew_ix L C name (with_defaults [(''years'', ''1'')] given) cfg))"

definition cmd_auto_renew_enable :: "lib \<Rightarrow> 'c ctx \<Rightarrow> jsstr \<Rightarrow> ('c terminal, unit) eff" where
  "cmd_auto_renew_enable L C amount =
     bind_eff (cli_getConfig (lk L) C) (\<lambda>(a, cfg).
       submit_and_say L C
         (bind_res (first_of (findConfigPda (lk L))) (\<lambda>config.
          bind_res (cli_ataFor C (cx_signer C) (cfg_paymentMint cfg)) (\<lambda>source.
          bind_res (bigint_of amount) (\<lambda>n.
            getApproveInstruction L (ix_input
              [(''source'', Some (AddrI source)), (''delegate'', Some (AddrI config)),
               (''owner'', Some (SignerI (cx_signer C)))] [(''amount'', VNum n)])))))
         (js ''  auto-renew enabled (delegated '' @ amount @ js '' to the Config PDA)''))"

definition cmd_auto_renew_disable :: "lib \<Rightarrow> 'c ctx \<Rightarrow> ('c terminal, unit) eff" where
  "cmd_auto_renew_disable L C =
     bind_eff (cli_getConfig (lk L) C) (\<lambda>(a, cfg).
       submit1 L C (bind_res (cli_ataFor C (cx_signer C) (cfg_paymentMint cfg)) (\<lambda>source.
         getRevokeInstruction L (ix_input
           [(''source'', Some (AddrI source)), (''owner'', Some (SignerI (cx_signer C)))] []))))"

definition cmd_auto_renew :: "lib \<Rightarrow> 'c ctx \<Rightarrow> jsstr \<Rightarrow> options \<Rightarrow> ('c terminal, unit) eff" where
  "cmd_auto_renew L C name given =
     (let p = with_defaults [(''years'', ''1'')] given in
      bind_eff (cli_getConfig (lk L) C) (\<lambda>(a, cfg).
      bind_eff (of_res (nameParts (lk L) (lu L) name None)) (\<lambda>(label, tld, hash).
      bind_eff (sdk_resolve L C name) (\<lambda>rec. case rec of
        None \<Rightarrow> throw (JsError (name @ js '' is not registered''))
      | Some r \<Rightarrow>
          submit1 L C (
            bind_res (first_of (findNameRecordPda (lk L) hash)) (\<lambda>nameRecord.
            bind_res (cli_ataFor C (nr_owner r) (cfg_paymentMint cfg)) (\<lambda>ata.
            bind_res (num L p ''years'') (\<lambda>years.
              getAutoRenewInstructionAsync (lk L) (ix_input
                [(''keeper'', Some (SignerI (cx_signer C))), (''nameRecord'', Some (AddrI nameRecord)),
                 (''ownerTokenAccount'', Some (AddrI ata)),
                 (''treasuryTokenAccount'', Some (AddrI (cfg_treasuryTokenAccount cfg))),
                 (''stakingVault'', Some (AddrI (cfg_stakingVault cfg))), (''burnVault'', Some (AddrI (cfg_burnVault cfg))),
                 (''paymentMint'', Some (AddrI (cfg_paymentMint cfg)))]
                [(''name'', VStr label), (''tld'', VStr tld), (''years'', years)])))))))))"

definition cmd_claim :: "lib \<Rightarrow> 'c ctx \<Rightarrow> jsstr \<Rightarrow> options \<Rightarrow> ('c terminal, unit) eff" where
  "cmd_claim L C name given =
     (let p = with_defaults [(''years'', ''1'')] given in
      bind_eff (cli_getConfig (lk L) C) (\<lambda>(a, cfg).
        submit1 L C (
          bind_res (nameParts (lk L) (lu L) name None) (\<lambda>(label, tld, hash).
          bind_res (first_of (findNameRecordPda (lk L) hash)) (\<lambda>nameRecord.
          bind_res (cli_ataFor C (cx_signer C) (cfg_paymentMint cfg)) (\<lambda>ata.
          bind_res (addr_opt L p ''referrer'') (\<lambda>referral. bind_res (num L p ''years'') (\<lambda>years.
            getClaimExpiredInstructionAsync (lk L) (ix_input
              ([(''claimer'', Some (SignerI (cx_signer C))), (''nameRecord'', Some (AddrI nameRecord))] @
               fee_accounts cfg ata referral)
              [(''name'', VStr label), (''tld'', VStr tld), (''years'', years)])))))))))"

section \<open>Records and management\<close>

text \<open>\<open>x.toLowerCase() === "none" ? null : x\<close>.\<close>

definition none_or :: "lib \<Rightarrow> jsstr \<Rightarrow> (jsstr \<Rightarrow> 'a res) \<Rightarrow> 'a option res" where
  "none_or L x f = (if lower (lu L) x = js ''none'' then Inr None else bind_res (f x) (\<lambda>v. Inr (Some v)))"

text \<open>The accounts of a record write: authority, record, the holder's token account when tokenized.\<close>

definition authority_accounts :: "'c ctx \<Rightarrow> address \<Rightarrow> acctVal option \<Rightarrow> (string \<times> acctVal option) list" where
  "authority_accounts C nameRecord nft =
     [(''authority'', Some (SignerI (cx_signer C))), (''nameRecord'', Some (AddrI nameRecord)), (''nftTokenAccount'', nft)]"

definition cmd_record_write :: "lib \<Rightarrow> 'c ctx \<Rightarrow> jsstr \<Rightarrow> jsstr \<Rightarrow> jsstr option \<Rightarrow> ('c terminal, unit) eff" where
  "cmd_record_write L C name k v =
     bind_eff (of_res (nameRecordPda L name)) (\<lambda>nameRecord.
     bind_eff (nftTokenAccountIfTokenized L C name) (\<lambda>nft.
       submit1 L C (getUpdateRecordInstruction (lk L) (ix_input (authority_accounts C nameRecord nft)
         [(''key'', VStr k), (''value'', VOpt (map_option VStr v))]))))"

definition cmd_record_set :: "lib \<Rightarrow> 'c ctx \<Rightarrow> jsstr \<Rightarrow> jsstr \<Rightarrow> jsstr \<Rightarrow> ('c terminal, unit) eff" where
  "cmd_record_set L C name k v = cmd_record_write L C name k (Some v)"

definition cmd_record_delete :: "lib \<Rightarrow> 'c ctx \<Rightarrow> jsstr \<Rightarrow> jsstr \<Rightarrow> ('c terminal, unit) eff" where
  "cmd_record_delete L C name k = cmd_record_write L C name k None"

text \<open>The accounts of an owner's command.\<close>

definition owner_accounts :: "'c ctx \<Rightarrow> address \<Rightarrow> (string \<times> acctVal option) list" where
  "owner_accounts C nameRecord = [(''owner'', Some (SignerI (cx_signer C))), (''nameRecord'', Some (AddrI nameRecord))]"

definition cmd_set_controller :: "lib \<Rightarrow> 'c ctx \<Rightarrow> jsstr \<Rightarrow> jsstr \<Rightarrow> ('c terminal, unit) eff" where
  "cmd_set_controller L C name controller =
     submit1 L C (
       bind_res (nameRecordPda L name) (\<lambda>nameRecord.
       bind_res (none_or L controller (address_of (lk L))) (\<lambda>v.
         getSetControllerInstruction (lk L) (ix_input (owner_accounts C nameRecord)
           [(''controller'', VOpt (map_option VAddr v))]))))"

definition cmd_set_resolver :: "lib \<Rightarrow> 'c ctx \<Rightarrow> jsstr \<Rightarrow> jsstr \<Rightarrow> ('c terminal, unit) eff" where
  "cmd_set_resolver L C name resolver =
     bind_eff (of_res (nameRecordPda L name)) (\<lambda>nameRecord.
     bind_eff (nftTokenAccountIfTokenized L C name) (\<lambda>nft.
       submit1 L C (bind_res (none_or L resolver (address_of (lk L))) (\<lambda>v.
         getSetResolverInstruction (lk L) (ix_input (authority_accounts C nameRecord nft)
           [(''resolver'', VOpt (map_option VAddr v))])))))"

definition cmd_set_hosting :: "lib \<Rightarrow> 'c ctx \<Rightarrow> jsstr \<Rightarrow> jsstr \<Rightarrow> ('c terminal, unit) eff" where
  "cmd_set_hosting L C name cid =
     bind_eff (of_res (nameRecordPda L name)) (\<lambda>nameRecord.
     bind_eff (nftTokenAccountIfTokenized L C name) (\<lambda>nft.
       submit1 L C (bind_res (none_or L cid Inr) (\<lambda>v.
         getSetHostingInstruction (lk L) (ix_input (authority_accounts C nameRecord nft)
           [(''hostingRef'', VOpt (map_option VStr v))])))))"

definition cmd_host :: "lib \<Rightarrow> 'c ctx \<Rightarrow> jsstr \<Rightarrow> ('c terminal, unit) eff" where
  "cmd_host L C name =
     bind_eff (with_accounts C (\<lambda>fetch. contentRef (lk L) (lu L) fetch name)) (\<lambda>ref.
       if \<not> truthy_str ref then console_log (name @ js '': no hosted content'')
       else
         let url = hostingUrl ref [] DEFAULT_GATEWAYS in
         if go_json (cx_opts C) then
           console_log (pretty [] (VwObj [(js ''name'', VwStr name), (js ''ref'', VwStr (the ref)), (js ''url'', opt_view url)]))
         else bind_eff (console_log (js ''  ref: '' @ the ref)) (\<lambda>_.
           console_log (js ''  url: '' @ or_else url (js ''(unsupported ref)''))))"

definition pinFileToIpfs :: "lib \<Rightarrow> jsstr \<Rightarrow> jsstr \<Rightarrow> jsstr res" where
  "pinFileToIpfs L jwt file =
     bind_res (readFile L file) (\<lambda>bs. pinBytes (pin_fetch L) jwt bs (basename L file))"

definition cmd_host_upload :: "lib \<Rightarrow> 'c ctx \<Rightarrow> jsstr \<Rightarrow> jsstr \<Rightarrow> ('c terminal, unit) eff" where
  "cmd_host_upload L C name file =
     (let jwt = lenv L ''PINATA_JWT'' in
      if \<not> truthy_str jwt then throw (JsError (js ''set PINATA_JWT to pin to IPFS (https://pinata.cloud)''))
      else
        bind_eff (of_res (pinFileToIpfs L (the jwt) file)) (\<lambda>cid.
          let ref = js ''ipfs://'' @ cid in
          bind_eff (of_res (nameRecordPda L name)) (\<lambda>nameRecord.
          bind_eff (nftTokenAccountIfTokenized L C name) (\<lambda>nft.
          bind_eff (submit1 L C (getSetHostingInstruction (lk L) (ix_input (authority_accounts C nameRecord nft)
            [(''hostingRef'', VOpt (Some (VStr ref)))]))) (\<lambda>_.
          bind_eff (console_log (js ''  pinned '' @ file @ js '' -> '' @ ref)) (\<lambda>_.
            console_log (js ''  url: '' @ or_else (hostingUrl (Some ref) [] DEFAULT_GATEWAYS) (js ''null''))))))))"

definition cmd_transfer :: "lib \<Rightarrow> 'c ctx \<Rightarrow> jsstr \<Rightarrow> jsstr \<Rightarrow> ('c terminal, unit) eff" where
  "cmd_transfer L C name newOwner =
     submit1 L C (
       bind_res (nameRecordPda L name) (\<lambda>nameRecord.
       bind_res (address_of (lk L) newOwner) (\<lambda>a.
         getTransferNameInstruction (lk L) (ix_input (owner_accounts C nameRecord) [(''newOwner'', VAddr a)]))))"

definition cmd_lock :: "lib \<Rightarrow> 'c ctx \<Rightarrow> jsstr \<Rightarrow> options \<Rightarrow> ('c terminal, unit) eff" where
  "cmd_lock L C name p =
     submit1 L C (bind_res (nameRecordPda L name) (\<lambda>nameRecord.
       getLockTransferInstruction (lk L) (ix_input (owner_accounts C nameRecord)
         [(''lock'', VBool (\<not> op_flag p ''unlock''))])))"

definition cmd_set_reverse :: "lib \<Rightarrow> 'c ctx \<Rightarrow> jsstr \<Rightarrow> ('c terminal, unit) eff" where
  "cmd_set_reverse L C name =
     submit1 L C (
       bind_res (nameRecordPda L name) (\<lambda>nameRecord.
       bind_res (normalizeName (lu L) name) (\<lambda>label.
         getSetReverseInstructionAsync (lk L) (ix_input (owner_accounts C nameRecord) [(''name'', VStr label)]))))"

definition cmd_burn :: "lib \<Rightarrow> 'c ctx \<Rightarrow> jsstr \<Rightarrow> ('c terminal, unit) eff" where
  "cmd_burn L C name =
     submit1 L C (bind_res (nameRecordPda L name) (\<lambda>nameRecord.
       getBurnNameInstruction (lk L) (ix_input (owner_accounts C nameRecord) [])))"

definition cmd_tokenize :: "lib \<Rightarrow> 'c ctx \<Rightarrow> jsstr \<Rightarrow> ('c terminal, unit) eff" where
  "cmd_tokenize L C name =
     bind_eff (of_res (nameParts (lk L) (lu L) name None)) (\<lambda>(label, tld, hash).
     bind_eff (of_res (first_of (findNameRecordPda (lk L) hash))) (\<lambda>nameRecord.
       submit_and_say L C
         (getTokenizeNameInstructionAsync (lk L) (ix_input
            [(''owner'', Some (SignerI (cx_signer C))), (''nameRecord'', Some (AddrI nameRecord)),
             (''mint'', Some (SignerI (cx_mint C)))] [(''name'', VStr label)]))
         (js ''  '' @ label @ js ''.'' @ tld @ js '' tokenized -> NFT mint '' @ cx_mint C)))"

definition cmd_redeem :: "lib \<Rightarrow> 'c ctx \<Rightarrow> jsstr \<Rightarrow> ('c terminal, unit) eff" where
  "cmd_redeem L C name =
     bind_eff (of_res (nameRecordPda L name)) (\<lambda>nameRecord.
     bind_eff (sdk_resolve L C name) (\<lambda>rec.
       let mint = (case rec of None \<Rightarrow> None | Some r \<Rightarrow> nr_nftMint r) in
       if \<not> truthy_str mint then throw (JsError (name @ js '' is not tokenized''))
       else
         submit_and_say L C
           (bind_res (cli_ataFor C (cx_signer C) (the mint)) (\<lambda>tokenAccount.
              getRedeemNameInstructionAsync (lk L) (ix_input
                [(''redeemer'', Some (SignerI (cx_signer C))), (''nameRecord'', Some (AddrI nameRecord)),
                 (''mint'', Some (AddrI (the mint))), (''tokenAccount'', Some (AddrI tokenAccount))] [])))
           (js ''  '' @ name @ js '' redeemed -> owner '' @ cx_signer C)))"

section \<open>Subdomains\<close>

definition cmd_subdomain_create :: "lib \<Rightarrow> 'c ctx \<Rightarrow> jsstr \<Rightarrow> jsstr \<Rightarrow> options \<Rightarrow> ('c terminal, unit) eff" where
  "cmd_subdomain_create L C parent label p =
     bind_eff (of_res (nameInfo (lk L) (lu L) parent None)) (\<lambda>i.
       let childLabel = lower (lu L) label;
           childHash = computeSubdomainHash (lk L) (ni_hash i) childLabel in
       bind_eff (submit1 L C (
         bind_res (first_of (findNameRecordPda (lk L) (ni_hash i))) (\<lambda>parentName.
         bind_res (addr_or L p ''owner'' (cx_signer C)) (\<lambda>subdomainOwner.
           getWrapSubdomainInstructionAsync (lk L) (ix_input
             [(''owner'', Some (SignerI (cx_signer C))), (''subdomainOwner'', Some (AddrI subdomainOwner)),
              (''parentName'', Some (AddrI parentName))]
             [(''label'', VStr childLabel), (''nameHash'', VBytes childHash)]))))) (\<lambda>_.
       bind_eff (of_res (first_of (findNameRecordPda (lk L) childHash))) (\<lambda>childPda.
         console_log (js ''  '' @ childLabel @ js ''.'' @ join (js ''.'') (ni_labels i) @ js ''.'' @ ni_tld i @
           js '' -> '' @ childPda))))"

definition cmd_subdomain_revoke :: "lib \<Rightarrow> 'c ctx \<Rightarrow> jsstr \<Rightarrow> jsstr \<Rightarrow> ('c terminal, unit) eff" where
  "cmd_subdomain_revoke L C parent label =
     submit1 L C (
       bind_res (nameInfo (lk L) (lu L) parent None) (\<lambda>i.
       bind_res (first_of (findNameRecordPda (lk L) (ni_hash i))) (\<lambda>parentName.
       bind_res (first_of (findNameRecordPda (lk L)
         (computeSubdomainHash (lk L) (ni_hash i) (lower (lu L) label)))) (\<lambda>nameRecord.
         getRevokeSubdomainInstruction (lk L) (ix_input
           [(''owner'', Some (SignerI (cx_signer C))), (''parentName'', Some (AddrI parentName)),
            (''nameRecord'', Some (AddrI nameRecord))] [])))))"

section \<open>Marketplace\<close>

definition cmd_list :: "lib \<Rightarrow> 'c ctx \<Rightarrow> jsstr \<Rightarrow> jsstr \<Rightarrow> options \<Rightarrow> ('c terminal, unit) eff" where
  "cmd_list L C name priceSol given =
     (let p = with_defaults [(''days'', ''30'')] given in
      submit_and_say L C (
        bind_res (nameRecordPda L name) (\<lambda>nameRecord.
        bind_res (first_of (findListing (lk L) (lu L) name None)) (\<lambda>listing.
        bind_res (solToLamports priceSol) (\<lambda>price.
        bind_res (bind_res (opt p ''days'') (day_seconds (number L))) (\<lambda>duration.
          getListNameInstruction (lk L) (ix_input
            (owner_accounts C nameRecord @ [(''listing'', Some (AddrI listing))])
            [(''price'', VNum price), (''durationSeconds'', VNum duration)]))))))
        (js ''  listed '' @ name @ js '' for '' @ priceSol @ js '' SOL''))"

text \<open>\<open>SolansClient.fromRpc(ctx.rpc).getListing(name)\<close>, which must exist.\<close>

definition the_listing :: "lib \<Rightarrow> 'c ctx \<Rightarrow> jsstr \<Rightarrow> ('c terminal, listing) eff" where
  "the_listing L C name =
     bind_eff (with_accounts C (\<lambda>fetch. Some (getListing (lk L) (lu L) fetch name))) (\<lambda>l. case l of
       None \<Rightarrow> throw (JsError (name @ js '' is not listed''))
     | Some l \<Rightarrow> ret l)"

definition cmd_unlist :: "lib \<Rightarrow> 'c ctx \<Rightarrow> jsstr \<Rightarrow> ('c terminal, unit) eff" where
  "cmd_unlist L C name =
     bind_eff (of_res (nameRecordPda L name)) (\<lambda>nameRecord.
     bind_eff (of_res (first_of (findListing (lk L) (lu L) name None))) (\<lambda>listing.
     bind_eff (the_listing L C name) (\<lambda>l.
       submit1 L C (getCancelListingInstruction (lk L) (ix_input
         [(''canceller'', Some (SignerI (cx_signer C))), (''seller'', Some (AddrI (ls_seller l))),
          (''nameRecord'', Some (AddrI nameRecord)), (''listing'', Some (AddrI listing))] [])))))"

definition cmd_update_listing :: "lib \<Rightarrow> 'c ctx \<Rightarrow> jsstr \<Rightarrow> jsstr \<Rightarrow> options \<Rightarrow> ('c terminal, unit) eff" where
  "cmd_update_listing L C name priceSol given =
     (let p = with_defaults [(''days'', ''30'')] given in
      submit1 L C (
        bind_res (first_of (findListing (lk L) (lu L) name None)) (\<lambda>listing.
        bind_res (solToLamports priceSol) (\<lambda>price.
        bind_res (bind_res (opt p ''days'') (day_seconds (number L))) (\<lambda>duration.
          getUpdateListingInstruction (lk L) (ix_input
            [(''seller'', Some (SignerI (cx_signer C))), (''listing'', Some (AddrI listing))]
            [(''price'', VNum price), (''durationSeconds'', VNum duration)]))))))"

definition cmd_buy :: "lib \<Rightarrow> 'c ctx \<Rightarrow> jsstr \<Rightarrow> ('c terminal, unit) eff" where
  "cmd_buy L C name =
     bind_eff (of_res (nameRecordPda L name)) (\<lambda>nameRecord.
     bind_eff (of_res (first_of (findListing (lk L) (lu L) name None))) (\<lambda>listing.
     bind_eff (the_listing L C name) (\<lambda>l.
     bind_eff (cli_getConfig (lk L) C) (\<lambda>(config, cfg).
       submit_and_say L C
         (getBuyNameInstruction (lk L) (ix_input
            [(''buyer'', Some (SignerI (cx_signer C))), (''seller'', Some (AddrI (ls_seller l))),
             (''solTreasury'', Some (AddrI (cfg_solTreasury cfg))), (''config'', Some (AddrI config)),
             (''nameRecord'', Some (AddrI nameRecord)), (''listing'', Some (AddrI listing))]
            [(''expectedPrice'', VNum (ls_price l))]))
         (js ''  bought '' @ name @ js '' for '' @ lamportsToSol (num_str L) (ls_price l) @ js '' SOL'')))))"

definition cmd_offer :: "lib \<Rightarrow> 'c ctx \<Rightarrow> jsstr \<Rightarrow> jsstr \<Rightarrow> options \<Rightarrow> ('c terminal, unit) eff" where
  "cmd_offer L C name priceSol given =
     (let p = with_defaults [(''days'', ''30'')] given in
      submit_and_say L C (
        bind_res (nameRecordPda L name) (\<lambda>nameRecord.
        bind_res (first_of (findOffer (lk L) (lu L) name (cx_signer C) None)) (\<lambda>offer.
        bind_res (solToLamports priceSol) (\<lambda>amount.
        bind_res (bind_res (opt p ''days'') (day_seconds (number L))) (\<lambda>duration.
          getMakeOfferInstruction (lk L) (ix_input
            [(''buyer'', Some (SignerI (cx_signer C))), (''nameRecord'', Some (AddrI nameRecord)),
             (''offer'', Some (AddrI offer))]
            [(''amount'', VNum amount), (''durationSeconds'', VNum duration)]))))))
        (js ''  offered '' @ priceSol @ js '' SOL on '' @ name))"

definition cmd_accept_offer :: "lib \<Rightarrow> 'c ctx \<Rightarrow> jsstr \<Rightarrow> jsstr \<Rightarrow> ('c terminal, unit) eff" where
  "cmd_accept_offer L C name buyer =
     bind_eff (of_res (nameRecordPda L name)) (\<lambda>nameRecord.
     bind_eff (of_res (bind_res (address_of (lk L) buyer) (\<lambda>b. first_of (findOffer (lk L) (lu L) name b None)))) (\<lambda>offer.
     bind_eff (cli_getConfig (lk L) C) (\<lambda>(config, cfg).
       submit_and_say L C
         (bind_res (address_of (lk L) buyer) (\<lambda>b.
            getAcceptOfferInstruction (lk L) (ix_input
              [(''owner'', Some (SignerI (cx_signer C))), (''buyer'', Some (AddrI b)),
               (''solTreasury'', Some (AddrI (cfg_solTreasury cfg))), (''config'', Some (AddrI config)),
               (''nameRecord'', Some (AddrI nameRecord)), (''offer'', Some (AddrI offer))] [])))
         (js ''  accepted '' @ buyer @ [39] @ js ''s offer on '' @ name))))"

definition cmd_cancel_offer :: "lib \<Rightarrow> 'c ctx \<Rightarrow> jsstr \<Rightarrow> options \<Rightarrow> ('c terminal, unit) eff" where
  "cmd_cancel_offer L C name p =
     submit1 L C (
       bind_res (addr_or L p ''buyer'' (cx_signer C)) (\<lambda>bidder.
       bind_res (nameRecordPda L name) (\<lambda>nameRecord.
       bind_res (first_of (findOffer (lk L) (lu L) name bidder None)) (\<lambda>offer.
         getCancelOfferInstruction (lk L) (ix_input
           [(''canceller'', Some (SignerI (cx_signer C))), (''buyer'', Some (AddrI bidder)),
            (''nameRecord'', Some (AddrI nameRecord)), (''offer'', Some (AddrI offer))] [])))))"

section \<open>Auctions\<close>

definition cmd_auction_start :: "lib \<Rightarrow> 'c ctx \<Rightarrow> jsstr \<Rightarrow> options \<Rightarrow> ('c terminal, unit) eff" where
  "cmd_auction_start L C name given =
     (let p = with_defaults [(''increment'', ''1''), (''days'', ''3'')] given in
      bind_eff (cli_getConfig (lk L) C) (\<lambda>(a, cfg).
        submit_and_say L C (
          bind_res (nameRecordPda L name) (\<lambda>nameRecord.
          bind_res (first_of (findAuction (lk L) (lu L) name None)) (\<lambda>auction.
          bind_res (big p ''reserve'') (\<lambda>reserve. bind_res (big p ''increment'') (\<lambda>increment.
          bind_res (bind_res (opt p ''days'') (day_seconds (number L))) (\<lambda>duration.
            getStartAuctionInstructionAsync (lk L) (ix_input
              (owner_accounts C nameRecord @
               [(''auction'', Some (AddrI auction)), (''solansMint'', Some (AddrI (cfg_solansMint cfg)))])
              [(''reservePrice'', VNum reserve), (''minIncrement'', VNum increment),
               (''durationSeconds'', VNum duration)])))))))
          (js ''  auction open for '' @ name @ js '' (reserve '' @ or_else (op_val p ''reserve'') [] @ js '' $SOLANS)'')))"

definition the_auction :: "lib \<Rightarrow> 'c ctx \<Rightarrow> jsstr \<Rightarrow> ('c terminal, auction) eff" where
  "the_auction L C name =
     bind_eff (with_accounts C (\<lambda>fetch. Some (getAuction (lk L) (lu L) fetch name))) (\<lambda>a. case a of
       None \<Rightarrow> throw (JsError (js ''no auction for '' @ name))
     | Some a \<Rightarrow> ret a)"

definition cmd_bid :: "lib \<Rightarrow> 'c ctx \<Rightarrow> jsstr \<Rightarrow> jsstr \<Rightarrow> ('c terminal, unit) eff" where
  "cmd_bid L C name amount =
     bind_eff (cli_getConfig (lk L) C) (\<lambda>(c, cfg).
       let solansMint = cfg_solansMint cfg; A = cr_find_ata (cx_rpc C) in
       bind_eff (of_res (first_of (findAuction (lk L) (lu L) name None))) (\<lambda>auction.
       bind_eff (the_auction L C name) (\<lambda>a.
         submit1 L C (
           bind_res (ataFor A (cx_signer C) solansMint) (\<lambda>bidderSolansAccount.
           bind_res (ata_if A (au_highestBidder a) (or_else (au_highestBidder a) []) solansMint) (\<lambda>prev.
           bind_res (ataFor A auction solansMint) (\<lambda>bidVault.
           bind_res (bigint_of amount) (\<lambda>n.
             getBidInstruction (lk L) (ix_input
               [(''bidder'', Some (SignerI (cx_signer C))), (''auction'', Some (AddrI auction)),
                (''bidderSolansAccount'', Some (AddrI bidderSolansAccount)), (''prevBidderSolansAccount'', prev),
                (''bidVault'', Some (AddrI bidVault)), (''solansMint'', Some (AddrI solansMint))]
               [(''amount'', VNum n)])))))))))"

definition cmd_auction_settle :: "lib \<Rightarrow> 'c ctx \<Rightarrow> jsstr \<Rightarrow> ('c terminal, unit) eff" where
  "cmd_auction_settle L C name =
     bind_eff (cli_getConfig (lk L) C) (\<lambda>(c, cfg).
       let solansMint = cfg_solansMint cfg; A = cr_find_ata (cx_rpc C) in
       bind_eff (of_res (nameRecordPda L name)) (\<lambda>nameRecord.
       bind_eff (of_res (first_of (findAuction (lk L) (lu L) name None))) (\<lambda>auction.
       bind_eff (the_auction L C name) (\<lambda>a.
         let winner = au_highestBidder a in
         submit_and_say L C (
           bind_res (ata_if A winner (au_seller a) solansMint) (\<lambda>sellerSolansAccount.
           bind_res (ataFor A auction solansMint) (\<lambda>bidVault.
             getSettleAuctionInstructionAsync (lk L) (ix_input
               [(''settler'', Some (SignerI (cx_signer C))), (''seller'', Some (AddrI (au_seller a))),
                (''sellerSolansAccount'', sellerSolansAccount), (''nameRecord'', Some (AddrI nameRecord)),
                (''auction'', Some (AddrI auction)), (''bidVault'', Some (AddrI bidVault)),
                (''solansMint'', Some (AddrI solansMint))] []))))
           (if truthy_str winner then js ''  '' @ name @ js '' -> '' @ the winner
            else js ''  '' @ name @ js '' unsold (no bids)'')))))"

definition cmd_auction_cancel :: "lib \<Rightarrow> 'c ctx \<Rightarrow> jsstr \<Rightarrow> ('c terminal, unit) eff" where
  "cmd_auction_cancel L C name =
     bind_eff (cli_getConfig (lk L) C) (\<lambda>(c, cfg).
       submit1 L C (
         bind_res (nameRecordPda L name) (\<lambda>nameRecord.
         bind_res (first_of (findAuction (lk L) (lu L) name None)) (\<lambda>auction.
         bind_res (cli_ataFor C auction (cfg_solansMint cfg)) (\<lambda>bidVault.
           getCancelAuctionInstruction (lk L) (ix_input
             [(''seller'', Some (SignerI (cx_signer C))), (''nameRecord'', Some (AddrI nameRecord)),
              (''auction'', Some (AddrI auction)), (''bidVault'', Some (AddrI bidVault))] []))))))"

definition cmd_auction_info :: "lib \<Rightarrow> 'c ctx \<Rightarrow> jsstr \<Rightarrow> ('c terminal, unit) eff" where
  "cmd_auction_info L C name =
     bind_eff (with_accounts C (\<lambda>fetch. Some (getAuction (lk L) (lu L) fetch name))) (\<lambda>a. case a of
       None \<Rightarrow> console_log (js ''no auction'')
     | Some a \<Rightarrow>
         if go_json (cx_opts C) then
           console_log (pretty [] (VwObj
             [(js ''seller'', VwStr (au_seller a)), (js ''highestBidder'', opt_view (au_highestBidder a)),
              (js ''highestBid'', VwStr (int_str (au_highestBid a))), (js ''reservePrice'', VwStr (int_str (au_reservePrice a))),
              (js ''minIncrement'', VwStr (int_str (au_minIncrement a))), (js ''endTime'', VwStr (int_str (au_endTime a)))]))
         else each_line console_log
           [js ''  seller:    '' @ au_seller a,
            js ''  highest:   '' @ int_str (au_highestBid a) @ js '' by '' @ or_else (au_highestBidder a) (js ''(none)''),
            js ''  reserve:   '' @ int_str (au_reservePrice a) @ js '' (+'' @ int_str (au_minIncrement a) @ js '' increment)'',
            js ''  ends at:   '' @ int_str (au_endTime a)])"

section \<open>Staking\<close>

definition cmd_stake_init :: "lib \<Rightarrow> 'c ctx \<Rightarrow> jsstr \<Rightarrow> ('c terminal, unit) eff" where
  "cmd_stake_init L C solansMint =
     bind_eff (cli_getConfig (lk L) C) (\<lambda>(c, cfg).
       submit1 L C (bind_res (address_of (lk L) solansMint) (\<lambda>m.
         getInitStakePoolInstructionAsync (lk L) (ix_input
           [(''admin'', Some (SignerI (cx_signer C))), (''solansMint'', Some (AddrI m)),
            (''paymentMint'', Some (AddrI (cfg_paymentMint cfg)))] []))))"

definition stakePoolAndConfig :: "lib \<Rightarrow> 'c ctx \<Rightarrow> ('c terminal, config \<times> stakePool) eff" where
  "stakePoolAndConfig L C =
     bind_eff (cli_getConfig (lk L) C) (\<lambda>(c, cfg).
     bind_eff (with_accounts C (\<lambda>fetch. Some (getStakePool (lk L) fetch))) (\<lambda>pool. case pool of
       None \<Rightarrow> throw (JsError (js ''staking pool not initialized (run stake-init)''))
     | Some pool \<Rightarrow> ret (cfg, pool)))"

definition pool_info :: "stakePool \<Rightarrow> stakePoolInfo" where
  "pool_info pool = \<lparr>pi_solansMint = sp_solansMint pool, pi_stakeVault = sp_stakeVault pool,
     pi_rewardVault = sp_rewardVault pool\<rparr>"

definition cmd_stake :: "lib \<Rightarrow> 'c ctx \<Rightarrow> jsstr \<Rightarrow> ('c terminal, unit) eff" where
  "cmd_stake L C amount =
     bind_eff (stakePoolAndConfig L C) (\<lambda>(cfg, pool).
       submit1 L C (
         bind_res (cli_ataFor C (cx_signer C) (sp_solansMint pool)) (\<lambda>tokenAccount.
         bind_res (cli_ataFor C (cx_signer C) (cfg_paymentMint cfg)) (\<lambda>rewardAccount.
         bind_res (bigint_of amount) (\<lambda>n.
           getStakeInstructionAsync (lk L) (ix_input
             (staking_accounts (cx_signer C) (pool_info pool) (cfg_paymentMint cfg) tokenAccount rewardAccount)
             [(''amount'', VNum n)]))))))"

definition cmd_unstake :: "lib \<Rightarrow> 'c ctx \<Rightarrow> jsstr \<Rightarrow> ('c terminal, unit) eff" where
  "cmd_unstake L C amount =
     bind_eff (stakePoolAndConfig L C) (\<lambda>(cfg, pool).
       submit1 L C (
         bind_res (cli_ataFor C (cx_signer C) (sp_solansMint pool)) (\<lambda>tokenAccount.
         bind_res (cli_ataFor C (cx_signer C) (cfg_paymentMint cfg)) (\<lambda>rewardAccount.
         bind_res (bigint_of amount) (\<lambda>n.
           getUnstakeInstructionAsync (lk L) (ix_input
             (staking_accounts (cx_signer C) (pool_info pool) (cfg_paymentMint cfg) tokenAccount rewardAccount)
             [(''amount'', VNum n)]))))))"

definition cmd_stake_claim :: "lib \<Rightarrow> 'c ctx \<Rightarrow> ('c terminal, unit) eff" where
  "cmd_stake_claim L C =
     bind_eff (stakePoolAndConfig L C) (\<lambda>(cfg, pool).
       submit1 L C (
         bind_res (cli_ataFor C (cx_signer C) (cfg_paymentMint cfg)) (\<lambda>rewardAccount.
           getClaimRewardsInstructionAsync (lk L) (ix_input
             [(''staker'', Some (SignerI (cx_signer C))), (''stakerRewardAccount'', Some (AddrI rewardAccount)),
              (''rewardVault'', Some (AddrI (sp_rewardVault pool))),
              (''paymentMint'', Some (AddrI (cfg_paymentMint cfg)))] []))))"

definition cmd_stake_info :: "lib \<Rightarrow> 'c ctx \<Rightarrow> ('c terminal, unit) eff" where
  "cmd_stake_info L C =
     bind_eff (with_accounts C (\<lambda>fetch. Some (getStakePool (lk L) fetch))) (\<lambda>pool. case pool of
       None \<Rightarrow> console_log (js ''staking pool not initialized'')
     | Some pool \<Rightarrow>
         bind_eff (with_accounts C (\<lambda>fetch. Some (getStake (lk L) fetch (cx_signer C)))) (\<lambda>stake.
         bind_eff (with_accounts C (\<lambda>fetch. Some (pendingReward (lk L) fetch (cx_signer C)))) (\<lambda>pend.
           let mine = (case stake of None \<Rightarrow> 0 | Some s \<Rightarrow> sa_amount s) in
           if go_json (cx_opts C) then
             console_log (pretty [] (VwObj
               [(js ''totalStaked'', VwStr (int_str (sp_totalStaked pool))), (js ''myStake'', VwStr (int_str mine)),
                (js ''pendingReward'', VwStr (int_str pend))]))
           else each_line console_log
             [js ''  total staked: '' @ int_str (sp_totalStaked pool), js ''  my stake:     '' @ int_str mine,
              js ''  pending:      '' @ int_str pend])))"

section \<open>Buyback and payment in SOLANS\<close>

definition cmd_burn_init :: "lib \<Rightarrow> 'c ctx \<Rightarrow> jsstr \<Rightarrow> ('c terminal, unit) eff" where
  "cmd_burn_init L C solansMint =
     bind_eff (cli_getConfig (lk L) C) (\<lambda>(c, cfg).
       submit1 L C (bind_res (address_of (lk L) solansMint) (\<lambda>m.
         getInitBurnPoolInstructionAsync (lk L) (ix_input
           [(''admin'', Some (SignerI (cx_signer C))), (''solansMint'', Some (AddrI m)),
            (''paymentMint'', Some (AddrI (cfg_paymentMint cfg)))] []))))"

definition cmd_solans_params :: "lib \<Rightarrow> 'c ctx \<Rightarrow> options \<Rightarrow> ('c terminal, unit) eff" where
  "cmd_solans_params L C p =
     submit1 L C (
       bind_res (big p ''rate'') (\<lambda>rate. bind_res (num L p ''discountBps'') (\<lambda>discount.
         getSetSolansParamsInstructionAsync (lk L) (ix_input [(''admin'', Some (SignerI (cx_signer C)))]
           [(''solansRate'', VNum rate), (''solansDiscountBps'', discount)]))))"

definition cmd_buyback :: "lib \<Rightarrow> 'c ctx \<Rightarrow> jsstr \<Rightarrow> ('c terminal, unit) eff" where
  "cmd_buyback L C solansAmount =
     bind_eff (cli_getConfig (lk L) C) (\<lambda>(c, cfg).
       submit1 L C (
         bind_res (cli_ataFor C (cx_signer C) (cfg_paymentMint cfg)) (\<lambda>paymentAccount.
         bind_res (cli_ataFor C (cx_signer C) (cfg_solansMint cfg)) (\<lambda>solansAccount.
         bind_res (bigint_of solansAmount) (\<lambda>n.
           getBuybackBurnInstructionAsync (lk L) (ix_input
             [(''keeper'', Some (SignerI (cx_signer C))), (''burnVault'', Some (AddrI (cfg_burnVault cfg))),
              (''keeperPaymentAccount'', Some (AddrI paymentAccount)),
              (''keeperSolansAccount'', Some (AddrI solansAccount)),
              (''solansMint'', Some (AddrI (cfg_solansMint cfg))),
              (''paymentMint'', Some (AddrI (cfg_paymentMint cfg)))]
             [(''solansAmount'', VNum n)]))))))"

section \<open>Reads\<close>

definition bool_text :: "bool \<Rightarrow> jsstr" where
  "bool_text b = (if b then js ''true'' else js ''false'')"

text \<open>\<open>if (x) console.log(..)\<close> of an optional text.\<close>

definition line_if :: "jsstr option \<Rightarrow> (jsstr \<Rightarrow> jsstr) \<Rightarrow> jsstr list" where
  "line_if x f = (if truthy_str x then [f (the x)] else [])"

text \<open>The object \<open>out\<close> of \<open>showRecord\<close>; \<open>sale\<close> is the listing's price in SOL and expiry, \<open>more\<close> the fields that
  \<open>info\<close> adds.\<close>

definition record_view ::
  "jsstr \<Rightarrow> address \<Rightarrow> nameRecord \<Rightarrow> jsstr \<Rightarrow> (jsstr \<times> jsstr) option \<Rightarrow> jsstr option \<Rightarrow> view" where
  "record_view fullName pda d expires sale registered =
     VwObj ([(js ''name'', VwStr fullName), (js ''pda'', VwStr pda), (js ''owner'', VwStr (nr_owner d)),
       (js ''controller'', opt_view (nr_controller d)), (js ''expiresAt'', VwStr expires),
       (js ''transferLocked'', VwBool (nr_transferLocked d)), (js ''reverseSet'', VwBool (nr_reverseSet d)),
       (js ''resolver'', opt_view (nr_resolver d)), (js ''hostingRef'', opt_view (nr_hostingRef d)),
       (js ''tokenized'', VwBool (nr_nftMint d \<noteq> None)), (js ''nftMint'', opt_view (nr_nftMint d)),
       (js ''parent'', opt_view (nr_parent d)), (js ''depth'', VwNum (nr_depth d)), (js ''listed'', VwBool (nr_listed d)),
       (js ''records'', VwArr (map (\<lambda>r. VwObj [(js ''key'', VwStr (key r)), (js ''value'', VwStr (val r))]) (nr_records d)))] @
      (case sale of None \<Rightarrow> []
       | Some (price, until) \<Rightarrow> [(js ''listingPriceSol'', VwStr price), (js ''listingExpiresAt'', VwStr until)]) @
      (case registered of None \<Rightarrow> []
       | Some r \<Rightarrow> [(js ''registeredAt'', VwStr r), (js ''nameHash'', VwStr (hex_str (nr_nameHash d))),
                   (js ''bump'', VwNum (nr_bump d))]))"

definition record_lines ::
  "jsstr \<Rightarrow> address \<Rightarrow> nameRecord \<Rightarrow> jsstr \<Rightarrow> (jsstr \<times> jsstr) option \<Rightarrow> jsstr list" where
  "record_lines fullName pda d expires sale =
     [fullName, js ''  pda:        '' @ pda, js ''  owner:      '' @ nr_owner d,
      js ''  controller: '' @ or_else (nr_controller d) (js ''(none)''), js ''  expires:    '' @ expires,
      js ''  locked:     '' @ bool_text (nr_transferLocked d) @ js ''   reverseSet: '' @ bool_text (nr_reverseSet d)] @
     line_if (nr_parent d) (\<lambda>x. js ''  parent:     '' @ x @ js ''   (depth '' @ int_str (nr_depth d) @ js '')'') @
     line_if (nr_resolver d) (\<lambda>x. js ''  resolver:   '' @ x) @
     line_if (nr_hostingRef d) (\<lambda>x. js ''  hosting:    '' @ x) @
     line_if (nr_nftMint d) (\<lambda>x. js ''  tokenized:  NFT mint '' @ x) @
     (case sale of None \<Rightarrow> []
      | Some (price, until) \<Rightarrow> [js ''  listed:     '' @ price @ js '' SOL (until '' @ until @ js '')'']) @
     (if nr_records d = [] then [js ''  records:    (none)'']
      else map (\<lambda>r. js ''  record:     '' @ key r @ js '' = '' @ val r) (nr_records d))"

definition showRecord :: "lib \<Rightarrow> 'c ctx \<Rightarrow> jsstr \<Rightarrow> bool \<Rightarrow> ('c terminal, unit) eff" where
  "showRecord L C name full =
     bind_eff (of_res (nameInfo (lk L) (lu L) name None)) (\<lambda>info.
       let fullName = join (js ''.'') (ni_labels info) @ js ''.'' @ ni_tld info in
       bind_eff (of_res (first_of (findNameRecordPda (lk L) (ni_hash info)))) (\<lambda>pda.
       bind_eff (sdk_resolve L C name) (\<lambda>rec. case rec of
         None \<Rightarrow>
           if go_json (cx_opts C)
           then console_log (stringify (JObj [(js ''name'', JStr fullName), (js ''registered'', JBool False)]))
           else console_log (fullName @ js '' is not registered'')
       | Some d \<Rightarrow>
           bind_eff (of_res (iso_string (nr_expiresAt d))) (\<lambda>expires.
           bind_eff (if nr_listed d
                     then with_accounts C (\<lambda>fetch. Some (getListing (lk L) (lu L) fetch name)) else ret None) (\<lambda>lst.
           bind_eff (case lst of
               None \<Rightarrow> ret None
             | Some l \<Rightarrow> bind_eff (of_res (iso_string (ls_expiresAt l))) (\<lambda>until.
                 ret (Some (lamportsToSol (num_str L) (ls_price l), until)))) (\<lambda>sale.
           bind_eff (if full then bind_eff (of_res (iso_string (nr_registeredAt d))) (\<lambda>r. ret (Some r))
                     else ret None) (\<lambda>registered.
             if go_json (cx_opts C)
             then console_log (pretty [] (record_view fullName pda d expires sale registered))
             else each_line console_log (record_lines fullName pda d expires sale))))))))"

definition cmd_resolve :: "lib \<Rightarrow> 'c ctx \<Rightarrow> jsstr \<Rightarrow> ('c terminal, unit) eff" where
  "cmd_resolve L C name = showRecord L C name False"

definition cmd_info :: "lib \<Rightarrow> 'c ctx \<Rightarrow> jsstr \<Rightarrow> ('c terminal, unit) eff" where
  "cmd_info L C name = showRecord L C name True"

definition cmd_resolve_cpi :: "lib \<Rightarrow> 'c ctx \<Rightarrow> jsstr \<Rightarrow> jsstr option \<Rightarrow> ('c terminal, unit) eff" where
  "cmd_resolve_cpi L C name k =
     bind_eff (of_res (nameParts (lk L) (lu L) name None)) (\<lambda>(label, tld, hash).
     bind_eff (of_res (first_of (findNameRecordPda (lk L) hash))) (\<lambda>nameRecord.
     bind_eff (of_res (getResolveInstruction (lk L) (ix_input [(''nameRecord'', Some (AddrI nameRecord))]
       [(''nameHash'', VBytes hash), (''recordKey'', VOpt (map_option VStr k))]))) (\<lambda>ix.
     bind_eff (simulateReturnData C [ix]) (\<lambda>data.
       if data = None \<or> data = Some [] then
         console_log (if truthy_str k then js ''  '' @ the k @ js '': (unset)'' else js ''  (no data)'')
       else if truthy_str k then console_log (js ''  '' @ the k @ js '': '' @ text_of L (the data))
       else bind_eff (of_res (decode (lk L) AddressC (the data))) (\<lambda>v. console_log (js ''  owner: '' @ addr_of v))))))"

definition cmd_reverse_lookup :: "lib \<Rightarrow> 'c ctx \<Rightarrow> jsstr \<Rightarrow> ('c terminal, unit) eff" where
  "cmd_reverse_lookup L C pubkey =
     bind_eff (of_res (address_of (lk L) pubkey)) (\<lambda>a.
     bind_eff (with_accounts C (\<lambda>fetch. Some (reverseLookup (lk L) fetch a))) (\<lambda>name.
       if go_json (cx_opts C) then
         console_log (stringify (JObj [(js ''pubkey'', JStr pubkey),
           (js ''name'', case name of None \<Rightarrow> JNull | Some n \<Rightarrow> JStr n)]))
       else console_log (if truthy_str name then pubkey @ js '' -> '' @ the name
                         else pubkey @ js '' has no valid reverse record'')))"

section \<open>The end of the program\<close>

text \<open>The command line after parsing: the command with its positional arguments and options.\<close>

datatype command =
    Cmd_InitConfig options
  | Cmd_UpdateConfig options
  | Cmd_TransferAdmin jsstr
  | Cmd_Register jsstr options
  | Cmd_Renew jsstr options
  | Cmd_AutoRenewEnable jsstr
  | Cmd_AutoRenewDisable
  | Cmd_AutoRenew jsstr options
  | Cmd_Claim jsstr options
  | Cmd_RecordSet jsstr jsstr jsstr
  | Cmd_RecordDelete jsstr jsstr
  | Cmd_SetController jsstr jsstr
  | Cmd_SetResolver jsstr jsstr
  | Cmd_SetHosting jsstr jsstr
  | Cmd_Host jsstr
  | Cmd_HostUpload jsstr jsstr
  | Cmd_Transfer jsstr jsstr
  | Cmd_Lock jsstr options
  | Cmd_SetReverse jsstr
  | Cmd_Burn jsstr
  | Cmd_Tokenize jsstr
  | Cmd_Redeem jsstr
  | Cmd_SubdomainCreate jsstr jsstr options
  | Cmd_SubdomainRevoke jsstr jsstr
  | Cmd_List jsstr jsstr options
  | Cmd_Unlist jsstr
  | Cmd_UpdateListing jsstr jsstr options
  | Cmd_Buy jsstr
  | Cmd_Offer jsstr jsstr options
  | Cmd_AcceptOffer jsstr jsstr
  | Cmd_CancelOffer jsstr options
  | Cmd_AuctionStart jsstr options
  | Cmd_Bid jsstr jsstr
  | Cmd_AuctionSettle jsstr
  | Cmd_AuctionCancel jsstr
  | Cmd_AuctionInfo jsstr
  | Cmd_StakeInit jsstr
  | Cmd_Stake jsstr
  | Cmd_Unstake jsstr
  | Cmd_StakeClaim
  | Cmd_StakeInfo
  | Cmd_BurnInit jsstr
  | Cmd_SolansParams options
  | Cmd_Buyback jsstr
  | Cmd_Resolve jsstr
  | Cmd_ResolveCpi jsstr "jsstr option"
  | Cmd_Info jsstr
  | Cmd_ReverseLookup jsstr

fun action :: "lib \<Rightarrow> command \<Rightarrow> 'c ctx \<Rightarrow> ('c terminal, unit) eff" where
  "action L (Cmd_InitConfig a) C = cmd_init_config L C a"
| "action L (Cmd_UpdateConfig a) C = cmd_update_config L C a"
| "action L (Cmd_TransferAdmin a) C = cmd_transfer_admin L C a"
| "action L (Cmd_Register a b) C = cmd_register L C a b"
| "action L (Cmd_Renew a b) C = cmd_renew L C a b"
| "action L (Cmd_AutoRenewEnable a) C = cmd_auto_renew_enable L C a"
| "action L (Cmd_AutoRenewDisable) C = cmd_auto_renew_disable L C"
| "action L (Cmd_AutoRenew a b) C = cmd_auto_renew L C a b"
| "action L (Cmd_Claim a b) C = cmd_claim L C a b"
| "action L (Cmd_RecordSet a b c) C = cmd_record_set L C a b c"
| "action L (Cmd_RecordDelete a b) C = cmd_record_delete L C a b"
| "action L (Cmd_SetController a b) C = cmd_set_controller L C a b"
| "action L (Cmd_SetResolver a b) C = cmd_set_resolver L C a b"
| "action L (Cmd_SetHosting a b) C = cmd_set_hosting L C a b"
| "action L (Cmd_Host a) C = cmd_host L C a"
| "action L (Cmd_HostUpload a b) C = cmd_host_upload L C a b"
| "action L (Cmd_Transfer a b) C = cmd_transfer L C a b"
| "action L (Cmd_Lock a b) C = cmd_lock L C a b"
| "action L (Cmd_SetReverse a) C = cmd_set_reverse L C a"
| "action L (Cmd_Burn a) C = cmd_burn L C a"
| "action L (Cmd_Tokenize a) C = cmd_tokenize L C a"
| "action L (Cmd_Redeem a) C = cmd_redeem L C a"
| "action L (Cmd_SubdomainCreate a b c) C = cmd_subdomain_create L C a b c"
| "action L (Cmd_SubdomainRevoke a b) C = cmd_subdomain_revoke L C a b"
| "action L (Cmd_List a b c) C = cmd_list L C a b c"
| "action L (Cmd_Unlist a) C = cmd_unlist L C a"
| "action L (Cmd_UpdateListing a b c) C = cmd_update_listing L C a b c"
| "action L (Cmd_Buy a) C = cmd_buy L C a"
| "action L (Cmd_Offer a b c) C = cmd_offer L C a b c"
| "action L (Cmd_AcceptOffer a b) C = cmd_accept_offer L C a b"
| "action L (Cmd_CancelOffer a b) C = cmd_cancel_offer L C a b"
| "action L (Cmd_AuctionStart a b) C = cmd_auction_start L C a b"
| "action L (Cmd_Bid a b) C = cmd_bid L C a b"
| "action L (Cmd_AuctionSettle a) C = cmd_auction_settle L C a"
| "action L (Cmd_AuctionCancel a) C = cmd_auction_cancel L C a"
| "action L (Cmd_AuctionInfo a) C = cmd_auction_info L C a"
| "action L (Cmd_StakeInit a) C = cmd_stake_init L C a"
| "action L (Cmd_Stake a) C = cmd_stake L C a"
| "action L (Cmd_Unstake a) C = cmd_unstake L C a"
| "action L (Cmd_StakeClaim) C = cmd_stake_claim L C"
| "action L (Cmd_StakeInfo) C = cmd_stake_info L C"
| "action L (Cmd_BurnInit a) C = cmd_burn_init L C a"
| "action L (Cmd_SolansParams a) C = cmd_solans_params L C a"
| "action L (Cmd_Buyback a) C = cmd_buyback L C a"
| "action L (Cmd_Resolve a) C = cmd_resolve L C a"
| "action L (Cmd_ResolveCpi a b) C = cmd_resolve_cpi L C a b"
| "action L (Cmd_Info a) C = cmd_info L C a"
| "action L (Cmd_ReverseLookup a) C = cmd_reverse_lookup L C a"

text \<open>A run of the program: every action starts with \<open>makeContext\<close>; \<open>program.parseAsync(..).catch(..)\<close> turns a rejection
  into exit code 1.\<close>

definition run_cli ::
  "lib \<Rightarrow> jsstr \<Rightarrow> (jsstr \<Rightarrow> jsstr \<Rightarrow> 'c cli_rpc) \<Rightarrow> (jsstr \<Rightarrow> ('c terminal, address) eff) \<Rightarrow> address \<Rightarrow> globalOpts \<Rightarrow>
   command \<Rightarrow> ('c terminal, nat) eff" where
  "run_cli L homedir connect read_key mint opts cmd =
     catch_eff
       (bind_eff (makeContext L homedir connect read_key mint opts) (\<lambda>C.
        bind_eff (action L cmd C) (\<lambda>_. ret 0)))
       (\<lambda>e. bind_eff (console_error (js ''Error: '' @ message e)) (\<lambda>_. ret 1))"

section \<open>The commands and the SDK's builders\<close>

lemma bind_res_assoc: "bind_res (bind_res r f) g = bind_res r (\<lambda>x. bind_res (f x) g)"
  by (cases r) simp_all

lemma bind_res_if: "bind_res (if b then r else s) f = (if b then bind_res r f else bind_res s f)"
  by simp

lemma submit1_of: "submit1 L C r = bind_eff (of_res (just r)) (submit (lenv L) C)"
  by (simp add: submit1_def)

lemma just_bind: "just (bind_res r f) = bind_res r (\<lambda>x. just (f x))"
  by (cases r) (simp_all add: just_def)

lemma submit_and_say_of:
  "submit_and_say L C r line = bind_eff (of_res (just r)) (\<lambda>ixs. bind_eff (submit (lenv L) C ixs) (\<lambda>_. console_log line))"
  by (simp add: submit_and_say_def submit1_def bind_assoc)

lemma nameRecordPda_of: "nameRecordPda L name = nameRecordOf (lk L) (lu L) name"
  by (cases "nameInfo (lk L) (lu L) name None") (simp_all add: nameRecordPda_def nameRecordOf_def nameHashFor_def first_of_def)

lemma address_of_valid: "isAddress K a \<Longrightarrow> address_of K a = Inr a"
  by (simp add: address_of_def)

text \<open>The accounts the two sides pass are the same ones.\<close>

lemma same_register_input:
  "ix_input ([(''payer'', Some (SignerI signer)), (''owner'', Some (AddrI owner))] @ fee_accounts cfg ata (map_option AddrI ref))
     [(''name'', VStr label), (''tld'', VStr tld), (''nameHash'', VBytes hash), (''years'', VNum y)] =
   registerName_input \<lparr>ra_payer = signer, ra_cfg = cfg, ra_name = n, ra_owner = own, ra_years = ys,
     ra_referralTokenAccount = ref, ra_withNft = nft\<rparr> owner ata label tld hash y"
  by (simp add: registerName_input_def fee_accounts_def)

lemma register_matches:
  assumes "\<not> op_flag p ''paySolans''" "num L p ''years'' = Inr (VNum y)"
    "addr_or L p ''owner'' (cx_signer C) = Inr (or_else own (cx_signer C))"
    "addr_opt L p ''referrer'' = Inr (map_option AddrI ref)"
  shows "bind_res (register_ixs L C name p cfg) (\<lambda>(ixs, line). Inr ixs) =
    bind_res (buildRegisterInstructions (lk L) (lu L) (cr_find_ata (cx_rpc C)) (cx_mint C)
      \<lparr>ra_payer = cx_signer C, ra_cfg = cfg, ra_name = name, ra_owner = own, ra_years = Some y,
       ra_referralTokenAccount = ref, ra_withNft = Some (\<not> op_flag p ''noNft'')\<rparr>)
      (\<lambda>r. Inr (rr_instructions r))"
proof (cases "nameParts (lk L) (lu L) name None")
  case (Inl e)
  then show ?thesis by (simp add: register_ixs_def buildRegisterInstructions_def)
next
  case (Inr q)
  obtain label tld hash where q: "q = (label, tld, hash)" by (cases q)
  let ?owner = "or_else own (cx_signer C)"
  have ix: "register_ix L C p cfg ?owner label tld hash =
      bind_res (ataFor (cr_find_ata (cx_rpc C)) (cx_signer C) (cfg_paymentMint cfg)) (\<lambda>ata.
        getRegisterNameInstructionAsync (lk L) (registerName_input
          \<lparr>ra_payer = cx_signer C, ra_cfg = cfg, ra_name = name, ra_owner = own, ra_years = Some y,
           ra_referralTokenAccount = ref, ra_withNft = Some (\<not> op_flag p ''noNft'')\<rparr> ?owner ata label tld hash y))"
    using assms unfolding register_ix_def Let_def
    by (simp add: cli_ataFor_def same_register_input[where n = name and own = own and ys = "Some y" and
          nft = "Some (\<not> op_flag p ''noNft'')", symmetric])
  show ?thesis
    using assms(3)
    by (simp add: register_ixs_def buildRegisterInstructions_def Inr q ix Let_def bind_res_assoc bind_res_if cong: if_cong)
qed

lemma renew_matches:
  assumes "\<not> op_flag p ''paySolans''" "num L p ''years'' = Inr (VNum y)"
    "addr_opt L p ''referrer'' = Inr (map_option AddrI ref)"
  shows "just (renew_ix L C name p cfg) =
    buildRenewInstructions (lk L) (lu L) (cr_find_ata (cx_rpc C))
      \<lparr>rn_payer = cx_signer C, rn_cfg = cfg, rn_name = name, rn_years = Some y, rn_referralTokenAccount = ref\<rparr>"
  using assms
  by (cases "nameParts (lk L) (lu L) name None")
    (auto simp: renew_ix_def buildRenewInstructions_def Let_def just_bind cli_ataFor_def fee_accounts_def just_def bind_res_assoc)

lemma owner_matches:
  "isAddress (lk L) newOwner \<Longrightarrow> cmd_transfer L C name newOwner =
     bind_eff (of_res (buildTransferInstructions (lk L) (lu L) (cx_signer C) name newOwner)) (submit (lenv L) C)"
  "cmd_burn L C name =
     bind_eff (of_res (buildBurnNameInstructions (lk L) (lu L) (cx_signer C) name)) (submit (lenv L) C)"
  "cmd_lock L C name p =
     bind_eff (of_res (buildLockTransferInstructions (lk L) (lu L) (cx_signer C) name (\<not> op_flag p ''unlock'')))
       (submit (lenv L) C)"
  "cmd_set_reverse L C name =
     bind_eff (of_res (buildSetReverseInstructions (lk L) (lu L) (cx_signer C) name)) (submit (lenv L) C)"
  "cmd_subdomain_revoke L C parent label =
     bind_eff (of_res (buildRevokeSubdomainInstructions (lk L) (lu L) (cx_signer C) parent label)) (submit (lenv L) C)"
  unfolding cmd_transfer_def cmd_burn_def cmd_lock_def cmd_set_reverse_def cmd_subdomain_revoke_def submit1_of
    buildTransferInstructions_def buildBurnNameInstructions_def buildLockTransferInstructions_def
    buildSetReverseInstructions_def buildRevokeSubdomainInstructions_def just_bind nameRecordPda_of owner_accounts_def
  by (simp_all add: address_of_valid)

lemma market_matches:
  assumes "solToLamports priceSol = Inr price"
    "bind_res (opt (with_defaults [(''days'', ''30'')] p) ''days'') (day_seconds (number L)) = Inr secs"
  shows "cmd_list L C name priceSol p =
      bind_eff (of_res (buildListInstructions (lk L) (lu L) (cx_signer C) name price (Some secs))) (\<lambda>ixs.
        bind_eff (submit (lenv L) C ixs) (\<lambda>_. console_log (js ''  listed '' @ name @ js '' for '' @ priceSol @ js '' SOL'')))"
    "cmd_offer L C name priceSol p =
      bind_eff (of_res (buildMakeOfferInstructions (lk L) (lu L) (cx_signer C) name price (Some secs))) (\<lambda>ixs.
        bind_eff (submit (lenv L) C ixs) (\<lambda>_. console_log (js ''  offered '' @ priceSol @ js '' SOL on '' @ name)))"
  unfolding cmd_list_def cmd_offer_def submit_and_say_of buildListInstructions_def buildMakeOfferInstructions_def
    just_bind nameRecordPda_of owner_accounts_def Let_def
  using assms by (simp_all add: bind_res_assoc del: js_Cons)

section \<open>Which configuration fields an update writes\<close>

text \<open>The flags of \<open>update-config\<close>, the argument each sets, and the value it keeps.\<close>

definition config_flags :: "config \<Rightarrow> (string \<times> string \<times> cval) list" where
  "config_flags d =
     [(''price1'', ''price1'', VNum (cfg_price1 d)), (''price2'', ''price2'', VNum (cfg_price2 d)),
      (''price3'', ''price3'', VNum (cfg_price3 d)), (''price4'', ''price4'', VNum (cfg_price4 d)),
      (''price5'', ''price5plus'', VNum (cfg_price5plus d)), (''priceNumeric'', ''priceNumeric'', VNum (cfg_priceNumeric d)),
      (''grace'', ''gracePeriodSeconds'', VNum (cfg_gracePeriodSeconds d)),
      (''minYears'', ''minYears'', VNum (cfg_minYears d)), (''maxYears'', ''maxYears'', VNum (cfg_maxYears d)),
      (''solTreasury'', ''solTreasury'', VAddr (cfg_solTreasury d)),
      (''feeBps'', ''marketplaceFeeBps'', VNum (cfg_marketplaceFeeBps d)),
      (''stakingBps'', ''stakingFeeBps'', VNum (cfg_stakingFeeBps d)),
      (''referralBps'', ''referralFeeBps'', VNum (cfg_referralFeeBps d)),
      (''burnBps'', ''burnFeeBps'', VNum (cfg_burnFeeBps d))]"

lemma unset_flag:
  "op_val p k = None \<Longrightarrow> big_or p k d = Inr (VNum d)" "op_val p k = None \<Longrightarrow> num_or L p k d = Inr (VNum d)"
  "op_val p k = None \<Longrightarrow> addr_or L p k a = Inr a"
  by (simp_all add: big_or_def num_or_def addr_or_def truthy_str_def)

lemma update_config_keeps:
  assumes "update_config_args L p d = Inr args"
  shows "list_all (\<lambda>(flag, field, v). op_val p flag = None \<longrightarrow> map_of args field = Some v) (config_flags d)"
  using assms by (auto simp: update_config_args_def config_flags_def res_simps unset_flag)

section \<open>Sample inputs\<close>

definition sample_lib :: lib where
  "sample_lib = \<lparr>lk = ref_kit, lu = ascii_unicode, lenv = (\<lambda>_. None),
     number = (\<lambda>s. if all_digits s then Some (of_nat (dec_val s)) else None),
     num_arg = (\<lambda>q. VNum (case q of None \<Rightarrow> 0 | Some r \<Rightarrow> \<lfloor>r\<rfloor>)), num_str = (\<lambda>r. int_str \<lfloor>r\<rfloor>),
     getApproveInstruction = (\<lambda>_. Inl codec_error), getRevokeInstruction = (\<lambda>_. Inl codec_error),
     pin_fetch = (\<lambda>_. Inl codec_error), readFile = (\<lambda>_. Inr []), basename = (\<lambda>s. s), text_of = utf8_dec\<rparr>"

definition sample_rpc :: "unit cli_rpc" where
  "sample_rpc = \<lparr>cr_accounts = (\<lambda>_ _. Inr None), cr_blockhash = ret (js ''hash''), cr_sign = (\<lambda>_. ret (js ''sig'')),
     cr_simulate = (\<lambda>_. ret \<lparr>sim_err = None, sim_err_plain = Inr [], sim_logs = None, sim_units = Some 5000, sim_returnData = None\<rparr>),
     cr_send = (\<lambda>_. ret ()), cr_find_ata = sample_ata, cr_base64 = (\<lambda>_. [])\<rparr>"

definition sample_ctx :: "'c cli_rpc \<Rightarrow> 'c ctx" where
  "sample_ctx R = \<lparr>cx_rpc = R, cx_signer = sample_wallet,
     cx_opts = \<lparr>go_cluster = None, go_url = None, go_ws = None, go_keypair = None, go_simulate = False, go_yes = False,
       go_json = False\<rparr>, cx_mint = sample_address\<rparr>"

definition sample_options :: options where
  "sample_options = \<lparr>op_val = [''years'' \<mapsto> js ''2''], op_flag = (\<lambda>k. k = ''noNft'')\<rparr>"

lemma sample_sel:
  "lk sample_lib = ref_kit" "lu sample_lib = ascii_unicode" "cx_signer (sample_ctx R) = sample_wallet"
  "cx_mint (sample_ctx R) = sample_address" "cr_find_ata (cx_rpc (sample_ctx sample_rpc)) = sample_ata"
  "isAddress ref_kit sample_wallet"
  by (simp_all add: sample_lib_def sample_ctx_def sample_rpc_def ref_kit_def)

lemma sample_cli:
  "isAddress (lk sample_lib) sample_wallet" "\<not> op_flag sample_options ''paySolans''" "op_flag sample_options ''noNft''"
  "num sample_lib sample_options ''years'' = Inr (VNum 2)"
  "addr_or sample_lib sample_options ''owner'' a = Inr a" "addr_opt sample_lib sample_options ''referrer'' = Inr None"
  "solToLamports (js ''1.5'') = Inr 1500000000"
  "bind_res (opt (with_defaults [(''days'', ''30'')] sample_options) ''days'') (day_seconds (number sample_lib)) = Inr 2592000"
  by (simp_all add: sample_lib_def sample_options_def ref_kit_def num_def opt_def addr_or_def addr_opt_def truthy_str_def
      with_defaults_def either_def day_seconds_def all_digits_def solToLamports_def trim_def is_js_space_def bigint_of_def
      radix_digits_def digit_value_def LAMPORTS_PER_SOL_def Let_def floor_eq_iff)

lemma sample_update_built:
  "\<exists>args ix. update_config_args sample_lib sample_options sample_config = Inr args \<and>
     args_ok (lk sample_lib) getUpdateConfigInstructionDataEncoder (ix_input [(''admin'', Some (SignerI sample_wallet))] args) \<and>
     update_config_ix sample_lib sample_options sample_wallet sample_config = Inr ix"
proof -
  obtain args where u: "update_config_args sample_lib sample_options sample_config = Inr args"
    by (simp add: update_config_args_def big_or_def num_or_def addr_or_def sample_options_def truthy_str_def)
  let ?inp = "ix_input [(''admin'', Some (SignerI sample_wallet))] args"
  have a: "args_ok (lk sample_lib) getUpdateConfigInstructionDataEncoder ?inp"
    using u by (auto simp: update_config_args_def big_or_def num_or_def addr_or_def sample_options_def truthy_str_def
        args_ok_def getUpdateConfigInstructionDataEncoder_def ix_input_def sample_config_def sample_lib_def ref_kit_def)
  moreover have "\<exists>env. resolve_defaults (lk sample_lib) ?inp [(''config'', ConfigPda)] (in_account ?inp) = Inr env"
    by (simp add: ix_input_def absent_def pda_val_def sample_lib_def sample_pdas)
  moreover have "kit_ok (lk sample_lib)" using ref_kit_ok by (simp add: sample_lib_def)
  ultimately obtain ix where "getUpdateConfigInstructionAsync (lk sample_lib) ?inp = Inr ix"
    using builder_returns[OF getUpdateConfigInstructionAsync_def, of "lk sample_lib" ?inp]
    by (auto simp: getUpdateConfigInstructionDataEncoder_def UPDATE_CONFIG_DISCRIMINATOR_def simp del: resolve_defaults.simps)
  with u a show ?thesis by (simp add: update_config_ix_def)
qed

text \<open>An update-config instruction carries, for every parameter whose flag is not given, the value the on-chain configuration holds, and the program decodes it as such.\<close>

lemma update_config_keeps_unset_fields:
  assumes K: "kit_ok (lk L)" and a: "update_config_args L p d = Inr args"
    and ok: "args_ok (lk L) getUpdateConfigInstructionDataEncoder (ix_input [(''admin'', Some (SignerI signer))] args)"
    and ix: "update_config_ix L p signer d = Inr ix"
  shows "\<exists>q. parseUpdateConfigInstruction (lk L) ix = Inr q \<and>
    list_all (\<lambda>(flag, field, v). op_val p flag = None \<longrightarrow> fld field (px_data q) = v) (config_flags d)"
proof -
  have b: "getUpdateConfigInstructionAsync (lk L) (ix_input [(''admin'', Some (SignerI signer))] args) = Inr ix"
    using ix a by (simp add: update_config_ix_def)
  have l: "layout_ok [(''admin'', False), (''config'', True)] getUpdateConfigInstructionDataEncoder
      UPDATE_CONFIG_DISCRIMINATOR 2 [(''admin'', False), (''config'', False)] getUpdateConfigInstructionDataDecoder"
    by (simp add: layout_ok_def getUpdateConfigInstructionDataEncoder_def getUpdateConfigInstructionDataDecoder_def
        UPDATE_CONFIG_DISCRIMINATOR_def)
  have t: "(UPDATE_CONFIG_DISCRIMINATOR, UpdateConfig) \<in> set identify_table"
    by (simp add: identify_table_defs UPDATE_CONFIG_DISCRIMINATOR_def)
  have e: "list_all P []" for P :: "string \<Rightarrow> bool" by simp
  obtain q where q: "parseUpdateConfigInstruction (lk L) ix = Inr q"
    "list_all (\<lambda>(f, c). f \<noteq> ''discriminator'' \<longrightarrow> map_of args f = Some (fld f (px_data q)))
       (arg_fields getUpdateConfigInstructionDataEncoder)"
    using built_parsed[OF getUpdateConfigInstructionAsync_def parseUpdateConfigInstruction_def K b l ok t e e] by blast
  have "list_all (\<lambda>(flag, field, v). map_of args field = Some (fld field (px_data q))) (config_flags d)"
    using q(2) by (simp add: getUpdateConfigInstructionDataEncoder_def config_flags_def)
  with update_config_keeps[OF a] q(1) show ?thesis by (auto simp: list_all_iff) fastforce
qed

section \<open>Properties\<close>



end
