(* ===== verification/Cli_Safety.thy ===== *)
theory Cli_Safety
  imports Cli
begin

text \<open>
  What the commands do on the network. \<open>tracked R\<close> is the RPC \<open>R\<close> with a log of the simulations and the
  transactions it was asked to send; on it, an effect that sends nothing is \<open>calm\<close> and one that sends at
  most one transaction, after a successful simulation of that very transaction, signed for by the
  context's signer and not under \<open>--simulate\<close>, is \<open>careful\<close>. The rules compose along \<open>bind_eff\<close>, and every
  action of the command line is careful.
\<close>

section \<open>The log\<close>

datatype rpc_event = Simulated signedTx simulation | Sent signedTx

definition tracked :: "'c cli_rpc \<Rightarrow> ('c \<times> rpc_event list) cli_rpc" where
  "tracked R =
     \<lparr>cr_accounts = (\<lambda>(c, lg). cr_accounts R c),
      cr_blockhash = (\<lambda>(c, lg). case cr_blockhash R c of None \<Rightarrow> None | Some (c', r) \<Rightarrow> Some ((c', lg), r)),
      cr_sign = (\<lambda>m (c, lg). case cr_sign R m c of None \<Rightarrow> None | Some (c', r) \<Rightarrow> Some ((c', lg), r)),
      cr_simulate = (\<lambda>tx (c, lg). case cr_simulate R tx c of
         None \<Rightarrow> None
       | Some (c', Inl e) \<Rightarrow> Some ((c', lg), Inl e)
       | Some (c', Inr sim) \<Rightarrow> Some ((c', lg @ [Simulated tx sim]), Inr sim)),
      cr_send = (\<lambda>tx (c, lg). case cr_send R tx c of None \<Rightarrow> None | Some (c', r) \<Rightarrow> Some ((c', lg @ [Sent tx]), r)),
      cr_find_ata = cr_find_ata R, cr_base64 = cr_base64 R\<rparr>"

definition sent_in :: "rpc_event list \<Rightarrow> signedTx list" where
  "sent_in l = concat (map (\<lambda>e. case e of Sent tx \<Rightarrow> [tx] | Simulated tx sim \<Rightarrow> []) l)"

definition once :: "'c ctx \<Rightarrow> rpc_event list \<Rightarrow> bool" where
  "once C l \<longleftrightarrow> sent_in l = [] \<or>
     (\<exists>tx sim pre post. l = pre @ [Simulated tx sim, Sent tx] @ post \<and> sent_in l = [tx] \<and> sim_err sim = None \<and>
        \<not> go_simulate (cx_opts C) \<and> ms_feePayer (st_message tx) = cx_signer C)"

definition logs :: "(rpc_event list \<Rightarrow> bool) \<Rightarrow> (('c \<times> rpc_event list) terminal, 'a) eff \<Rightarrow> bool" where
  "logs P m \<longleftrightarrow>
     (\<forall>t t' r. m t = Some (t', r) \<longrightarrow> (\<exists>l. snd (tm_chain t') = snd (tm_chain t) @ l \<and> P l))"

definition calm :: "(('c \<times> rpc_event list) terminal, 'a) eff \<Rightarrow> bool" where
  "calm m \<longleftrightarrow> logs (\<lambda>l. sent_in l = []) m"

definition careful :: "'d ctx \<Rightarrow> (('c \<times> rpc_event list) terminal, 'a) eff \<Rightarrow> bool" where
  "careful C m \<longleftrightarrow> logs (once C) m"

section \<open>Composition\<close>

lemma sent_in_simps [simp]:
  "sent_in [] = []" "sent_in (Sent tx # l) = tx # sent_in l" "sent_in (Simulated tx sim # l) = sent_in l"
  "sent_in (l @ l') = sent_in l @ sent_in l'"
  by (simp_all add: sent_in_def)

lemma once_none: "sent_in l = [] \<Longrightarrow> once C l"
  by (simp add: once_def)

lemma once_before: "sent_in l = [] \<Longrightarrow> once C l' \<Longrightarrow> once C (l @ l')"
  unfolding once_def by (metis append.assoc append_Nil sent_in_simps(4))

lemma once_after: "once C l \<Longrightarrow> sent_in l' = [] \<Longrightarrow> once C (l @ l')"
  unfolding once_def by (metis append.assoc append_Nil2 sent_in_simps(4))

lemma logs_bind:
  assumes "logs P m" "\<And>x. logs Q (f x)" "\<And>l. P l \<Longrightarrow> R l" "\<And>l l'. P l \<Longrightarrow> Q l' \<Longrightarrow> R (l @ l')"
  shows "logs R (bind_eff m f)"
  unfolding logs_def
proof (intro allI impI)
  fix t t' r assume b: "bind_eff m f t = Some (t', r)"
  then obtain t1 y where m: "m t = Some (t1, y)" by (cases "m t") (auto simp: bind_eff_def)
  obtain l where l: "snd (tm_chain t1) = snd (tm_chain t) @ l" "P l" using assms(1) m by (auto simp: logs_def)
  show "\<exists>l. snd (tm_chain t') = snd (tm_chain t) @ l \<and> R l"
  proof (cases y)
    case (Inl e)
    with b m l assms(3) show ?thesis by (auto simp: bind_eff_def)
  next
    case (Inr x)
    then have "f x t1 = Some (t', r)" using b m by (simp add: bind_eff_def)
    then obtain l' where "snd (tm_chain t') = snd (tm_chain t1) @ l'" "Q l'"
      using assms(2)[of x] unfolding logs_def by blast
    with l assms(4) show ?thesis by auto
  qed
qed

named_theorems calm_intros

lemma calm_bind [calm_intros]: "calm m \<Longrightarrow> (\<And>x. calm (f x)) \<Longrightarrow> calm (bind_eff m f)"
  unfolding calm_def by (rule logs_bind[where P = "\<lambda>l. sent_in l = []" and Q = "\<lambda>l. sent_in l = []"]) auto

lemma careful_bind: "calm m \<Longrightarrow> (\<And>x. careful C (f x)) \<Longrightarrow> careful C (bind_eff m f)"
  unfolding calm_def careful_def by (rule logs_bind[where P = "\<lambda>l. sent_in l = []" and Q = "once C"])
    (auto intro: once_before once_none)

lemma careful_then: "careful C m \<Longrightarrow> (\<And>x. calm (f x)) \<Longrightarrow> careful C (bind_eff m f)"
  unfolding calm_def careful_def by (rule logs_bind[where P = "once C" and Q = "\<lambda>l. sent_in l = []"])
    (auto intro: once_after)

lemma calm_careful: "calm m \<Longrightarrow> careful C m"
  unfolding calm_def careful_def logs_def using once_none by blast

lemma calm_basic [calm_intros]:
  "calm (ret x)" "calm (throw e)" "calm (of_res r)" "calm (console_log s)" "calm (console_error s)"
  "calm (with_accounts C f)"
  by (auto simp: calm_def logs_def ret_def throw_def of_res_def console_log_def console_error_def with_accounts_def
      split: option.splits)

lemma calm_each_line [calm_intros]: "(\<And>l. calm (p l)) \<Longrightarrow> calm (each_line p ls)"
  by (induction ls) (auto intro!: calm_intros)

section \<open>Submitting\<close>

lemma calm_tracked [calm_intros]:
  "calm (on_chain (cr_blockhash (tracked R)))" "calm (on_chain (cr_sign (tracked R) m))"
  "calm (on_chain (cr_simulate (tracked R) tx))"
  by (auto simp: calm_def logs_def on_chain_def tracked_def split: option.splits prod.splits sum.splits)

lemma calm_sign [calm_intros]: "cx_rpc C = tracked R \<Longrightarrow> calm (sign_instructions C ixs)"
  unfolding sign_instructions_def Let_def by (auto intro!: calm_intros)

lemma calm_simulateReturnData [calm_intros]: "cx_rpc C = tracked R \<Longrightarrow> calm (simulateReturnData C ixs)"
  unfolding simulateReturnData_def by (auto intro!: calm_intros split: option.split)

lemma calm_reportSig [calm_intros]: "calm (reportSig env C sg)"
  unfolding reportSig_def Let_def by (auto intro!: calm_intros)

text \<open>The signed transaction is for the instructions, paid by the signer.\<close>

lemma sign_instructions_signs:
  "sign_instructions C ixs t = Some (t', Inr tx) \<Longrightarrow>
   ms_instructions (st_message tx) = ixs \<and> ms_feePayer (st_message tx) = cx_signer C"
  by (auto simp: sign_instructions_def bind_eff_def ret_def Let_def split: option.splits prod.splits sum.splits)

lemma console_error_log: "console_error s t = Some (t', r) \<Longrightarrow> tm_chain t' = tm_chain t \<and> r = Inr ()"
  by (auto simp: console_error_def)

lemma simulate_tracked:
  "on_chain (cr_simulate (tracked R) tx) t = Some (t', Inr sim) \<Longrightarrow>
   snd (tm_chain t') = snd (tm_chain t) @ [Simulated tx sim]"
  by (auto simp: on_chain_def tracked_def split: option.splits prod.splits sum.splits)

lemma send_tracked:
  "on_chain (cr_send (tracked R) tx) t = Some (t', r) \<Longrightarrow> snd (tm_chain t') = snd (tm_chain t) @ [Sent tx]"
  by (auto simp: on_chain_def tracked_def split: option.splits prod.splits)

text \<open>What happens after a simulation of the transaction.\<close>

definition after_simulation :: "'c ctx \<Rightarrow> signedTx \<Rightarrow> simulation \<Rightarrow> ('c terminal, jsstr option) eff" where
  "after_simulation C tx sim =
     (case sim_err sim of
        Some err \<Rightarrow>
          bind_eff (console_error ([10007] @ js '' simulation failed: '' @ err)) (\<lambda>_.
          bind_eff (each_line (\<lambda>l. console_error (js ''    '' @ l)) (or_else (sim_logs sim) [])) (\<lambda>_.
            throw (JsError (js ''transaction simulation failed''))))
      | None \<Rightarrow>
          bind_eff (console_error (js ''  simulated OK ('' @
            (case sim_units sim of None \<Rightarrow> js ''?'' | Some u \<Rightarrow> int_str u) @ js '' CU)'')) (\<lambda>_.
          if go_simulate (cx_opts C)
          then bind_eff (console_error (js ''  --simulate set: not sending.'')) (\<lambda>_. ret None)
          else bind_eff (on_chain (cr_send (cx_rpc C) tx)) (\<lambda>_. ret (Some (st_signature tx)))))"

lemma after_simulation_log:
  assumes R: "cx_rpc C = tracked R" and a: "after_simulation C tx sim t = Some (t', r)"
  shows "\<exists>l. snd (tm_chain t') = snd (tm_chain t) @ l \<and>
    (sent_in l = [] \<or> l = [Sent tx] \<and> sim_err sim = None \<and> \<not> go_simulate (cx_opts C))"
proof (cases "sim_err sim = None \<and> \<not> go_simulate (cx_opts C)")
  case True
  then have "after_simulation C tx sim = bind_eff (console_error (js ''  simulated OK ('' @
      (case sim_units sim of None \<Rightarrow> js ''?'' | Some u \<Rightarrow> int_str u) @ js '' CU)''))
      (\<lambda>_. bind_eff (on_chain (cr_send (tracked R) tx)) (\<lambda>_. ret (Some (st_signature tx))))"
    by (simp add: after_simulation_def R del: js_Cons)
  then obtain t1 t2 r2 where "console_error (js ''  simulated OK ('' @
      (case sim_units sim of None \<Rightarrow> js ''?'' | Some u \<Rightarrow> int_str u) @ js '' CU)'') t = Some (t1, Inr ())"
    "on_chain (cr_send (tracked R) tx) t1 = Some (t2, r2)" "tm_chain t' = tm_chain t2"
    using a by (auto simp: bind_eff_def ret_def console_error_def split: option.splits prod.splits sum.splits simp del: js_Cons)
  then show ?thesis using True send_tracked[of R tx t1 t2 r2] console_error_log
    by (metis append_same_eq)
next
  case False
  then have "calm (after_simulation C tx sim)"
    by (auto simp: after_simulation_def R intro!: calm_intros split: option.split)
  with a show ?thesis unfolding calm_def logs_def by blast
qed

lemma careful_sendInstructions:
  assumes R: "cx_rpc C = tracked R"
  shows "careful C (sendInstructions C ixs)"
  unfolding careful_def logs_def
proof (intro allI impI)
  fix t t' r assume s: "sendInstructions C ixs t = Some (t', r)"
  have eq: "sendInstructions C ixs = bind_eff (sign_instructions C ixs) (\<lambda>tx.
      bind_eff (on_chain (cr_simulate (tracked R) tx)) (after_simulation C tx))"
    unfolding sendInstructions_def after_simulation_def R ..
  have c: "calm (sign_instructions C ixs)" using R by (rule calm_sign)
  show "\<exists>l. snd (tm_chain t') = snd (tm_chain t) @ l \<and> once C l"
  proof (cases "\<exists>t1 tx t2 sim. sign_instructions C ixs t = Some (t1, Inr tx) \<and>
      on_chain (cr_simulate (tracked R) tx) t1 = Some (t2, Inr sim)")
    case True
    then obtain t1 tx t2 sim where sg: "sign_instructions C ixs t = Some (t1, Inr tx)"
      and sm: "on_chain (cr_simulate (tracked R) tx) t1 = Some (t2, Inr sim)" by blast
    have "after_simulation C tx sim t2 = Some (t', r)" using s by (simp add: eq bind_eff_def sg sm)
    from after_simulation_log[OF R this] obtain l2 where l2: "snd (tm_chain t') = snd (tm_chain t2) @ l2"
      "sent_in l2 = [] \<or> l2 = [Sent tx] \<and> sim_err sim = None \<and> \<not> go_simulate (cx_opts C)" by blast
    obtain l1 where l1: "snd (tm_chain t1) = snd (tm_chain t) @ l1" "sent_in l1 = []"
      using c sg unfolding calm_def logs_def by blast
    have "snd (tm_chain t') = snd (tm_chain t) @ (l1 @ Simulated tx sim # l2)"
      using l1(1) l2(1) simulate_tracked[OF sm] by simp
    moreover have "once C (l1 @ Simulated tx sim # l2)"
      using l2(2) l1(2) sign_instructions_signs[OF sg] unfolding once_def by fastforce
    ultimately show ?thesis by blast
  next
    case False
    have k: "calm (on_chain (cr_simulate (tracked R) tx))" for tx by (rule calm_tracked)
    obtain t1 y where sg: "sign_instructions C ixs t = Some (t1, y)"
      using s by (cases "sign_instructions C ixs t") (auto simp: eq bind_eff_def)
    obtain l1 where l1: "snd (tm_chain t1) = snd (tm_chain t) @ l1" "sent_in l1 = []"
      using c sg unfolding calm_def logs_def by blast
    show ?thesis
    proof (cases y)
      case (Inl e)
      with s sg l1 once_none show ?thesis by (auto simp: eq bind_eff_def)
    next
      case (Inr tx)
      obtain t2 e where sm: "on_chain (cr_simulate (tracked R) tx) t1 = Some (t2, Inl e)" "t' = t2"
        using s sg Inr False by (auto simp: eq bind_eff_def split: option.splits sum.splits)
      obtain l2 where "snd (tm_chain t2) = snd (tm_chain t1) @ l2" "sent_in l2 = []"
        using k sm(1) unfolding calm_def logs_def by blast
      with l1 sm(2) once_none[of "l1 @ l2" C] show ?thesis by auto
    qed
  qed
qed

lemma careful_submit: "cx_rpc C = tracked R \<Longrightarrow> careful C (submit env C ixs)"
  unfolding submit_def by (rule careful_then) (auto intro: careful_sendInstructions calm_intros)

lemma careful_submit1: "cx_rpc C = tracked R \<Longrightarrow> careful C (submit1 L C ix)"
  unfolding submit1_def by (intro careful_bind careful_submit calm_intros)

lemma careful_submit_and_say: "cx_rpc C = tracked R \<Longrightarrow> careful C (submit_and_say L C ix s)"
  unfolding submit_and_say_def by (intro careful_then careful_submit1 calm_intros)

section \<open>Every action is careful\<close>

lemma calm_reads [calm_intros]:
  "calm (cli_getConfig K C)" "calm (sdk_resolve L C name)" "calm (nftTokenAccountIfTokenized L C name)"
  "calm (the_listing L C name)" "calm (the_auction L C name)" "calm (stakePoolAndConfig L C)"
  unfolding cli_getConfig_def sdk_resolve_def nftTokenAccountIfTokenized_def the_listing_def the_auction_def
    stakePoolAndConfig_def Let_def
  by (auto intro!: calm_intros split: option.split)

lemmas careful_intros = careful_bind careful_submit careful_submit1 careful_submit_and_say

lemma careful_admin:
  assumes "cx_rpc C = tracked R"
  shows "careful C (cmd_init_config L C p)" "careful C (cmd_update_config L C p)" "careful C (cmd_transfer_admin L C x)"
    "careful C (cmd_stake_init L C x)" "careful C (cmd_burn_init L C x)" "careful C (cmd_solans_params L C p)"
    "careful C (cmd_buyback L C x)"
  unfolding cmd_init_config_def cmd_update_config_def cmd_transfer_admin_def cmd_stake_init_def cmd_burn_init_def
    cmd_solans_params_def cmd_buyback_def Let_def
  using assms by (auto intro!: careful_intros calm_intros)

lemma careful_paid:
  assumes "cx_rpc C = tracked R"
  shows "careful C (cmd_register L C x p)" "careful C (cmd_renew L C x p)" "careful C (cmd_auto_renew_enable L C x)"
    "careful C (cmd_auto_renew_disable L C)" "careful C (cmd_auto_renew L C x p)" "careful C (cmd_claim L C x p)"
proof -
  have s: "careful C (bind_eff (submit (lenv L) C ixs) (\<lambda>_. console_log line))" for ixs line
    using assms by (intro careful_then careful_submit calm_intros)
  have "careful C (bind_eff (of_res r) (\<lambda>(ixs, line). bind_eff (submit (lenv L) C ixs) (\<lambda>_. console_log line)))" for r
    by (rule careful_bind[OF calm_basic(3)]) (simp add: s split: prod.split)
  then show "careful C (cmd_register L C x p)"
    unfolding cmd_register_def Let_def by (intro careful_bind[OF calm_reads(1)]) (simp split: prod.split)
  show "careful C (cmd_renew L C x p)" "careful C (cmd_auto_renew_enable L C x)"
    "careful C (cmd_auto_renew_disable L C)" "careful C (cmd_auto_renew L C x p)" "careful C (cmd_claim L C x p)"
    unfolding cmd_renew_def cmd_auto_renew_enable_def cmd_auto_renew_disable_def cmd_auto_renew_def cmd_claim_def Let_def
    using assms by (auto intro!: careful_intros calm_intros intro: calm_careful split: option.split)
qed

lemma careful_management:
  assumes "cx_rpc C = tracked R"
  shows "careful C (cmd_record_write L C x y v)" "careful C (cmd_set_controller L C x y)"
    "careful C (cmd_set_resolver L C x y)" "careful C (cmd_set_hosting L C x y)" "careful C (cmd_transfer L C x y)"
    "careful C (cmd_lock L C x p)" "careful C (cmd_set_reverse L C x)" "careful C (cmd_burn L C x)"
    "careful C (cmd_tokenize L C x)" "careful C (cmd_redeem L C x)" "careful C (cmd_subdomain_revoke L C x y)"
  unfolding cmd_record_write_def cmd_set_controller_def cmd_set_resolver_def cmd_set_hosting_def cmd_transfer_def
    cmd_lock_def cmd_set_reverse_def cmd_burn_def cmd_tokenize_def cmd_redeem_def cmd_subdomain_revoke_def Let_def
  using assms by (auto intro!: careful_intros calm_intros intro: calm_careful)

lemma careful_printing:
  assumes "cx_rpc C = tracked R"
  shows "careful C (cmd_host_upload L C x y)" "careful C (cmd_subdomain_create L C x y p)"
proof -
  have s: "careful C (bind_eff (submit1 L C ix) (\<lambda>_. m))" if "calm m" for ix m
    using assms that by (intro careful_then careful_submit1)
  have "careful C (cmd_host_upload L C x y)" if "truthy_str (lenv L ''PINATA_JWT'')"
    using that unfolding cmd_host_upload_def Let_def
    by simp (intro careful_bind s calm_intros)
  moreover have "careful C (cmd_host_upload L C x y)" if "\<not> truthy_str (lenv L ''PINATA_JWT'')"
    using that unfolding cmd_host_upload_def Let_def by (simp add: calm_careful calm_intros)
  ultimately show "careful C (cmd_host_upload L C x y)" by blast
  show "careful C (cmd_subdomain_create L C x y p)"
    unfolding cmd_subdomain_create_def Let_def by (intro careful_bind[OF calm_basic(3)] s calm_intros)
qed

lemma careful_market:
  assumes "cx_rpc C = tracked R"
  shows "careful C (cmd_list L C x y p)" "careful C (cmd_unlist L C x)" "careful C (cmd_update_listing L C x y p)"
    "careful C (cmd_buy L C x)" "careful C (cmd_offer L C x y p)" "careful C (cmd_accept_offer L C x y)"
    "careful C (cmd_cancel_offer L C x p)" "careful C (cmd_auction_start L C x p)" "careful C (cmd_bid L C x y)"
    "careful C (cmd_auction_settle L C x)" "careful C (cmd_auction_cancel L C x)" "careful C (cmd_stake L C x)"
    "careful C (cmd_unstake L C x)" "careful C (cmd_stake_claim L C)"
  unfolding cmd_list_def cmd_unlist_def cmd_update_listing_def cmd_buy_def cmd_offer_def cmd_accept_offer_def
    cmd_cancel_offer_def cmd_auction_start_def cmd_bid_def cmd_auction_settle_def cmd_auction_cancel_def cmd_stake_def
    cmd_unstake_def cmd_stake_claim_def Let_def
  using assms by (auto intro!: careful_intros calm_intros)

lemma calm_views:
  assumes "cx_rpc C = tracked R"
  shows "calm (cmd_host L C x)" "calm (cmd_auction_info L C x)" "calm (cmd_stake_info L C)" "calm (showRecord L C x b)"
    "calm (cmd_resolve_cpi L C x k)" "calm (cmd_reverse_lookup L C x)"
  unfolding cmd_host_def cmd_auction_info_def cmd_stake_info_def showRecord_def cmd_resolve_cpi_def
    cmd_reverse_lookup_def Let_def
  using assms by (auto intro!: calm_intros split: option.split)

lemma careful_action: "cx_rpc C = tracked R \<Longrightarrow> careful C (action L cmd C)"
  by (cases cmd)
    (simp_all add: careful_admin careful_paid careful_management careful_printing careful_market calm_views calm_careful
      cmd_record_set_def cmd_record_delete_def cmd_resolve_def cmd_info_def)

section \<open>A sample run\<close>

lemma sample_burn_built:
  "\<exists>ix. buildBurnNameInstructions ref_kit ascii_unicode sample_wallet (js ''alex.sol'') = Inr [ix]"
proof -
  obtain rec where n: "nameRecordOf ref_kit ascii_unicode (js ''alex.sol'') = Inr rec"
    using sample_record_pda by (auto simp: nameRecordOf_iff)
  let ?inp = "ix_input [(''owner'', Some (SignerI sample_wallet)), (''nameRecord'', Some (AddrI rec))] []"
  have "args_ok ref_kit getBurnNameInstructionDataEncoder ?inp"
    by (simp add: args_ok_def getBurnNameInstructionDataEncoder_def)
  then obtain ix where "getBurnNameInstruction ref_kit ?inp = Inr ix"
    using builder_returns[OF getBurnNameInstruction_def ref_kit_ok, of ?inp]
    by (auto simp: getBurnNameInstructionDataEncoder_def BURN_NAME_DISCRIMINATOR_def)
  with n show ?thesis by (simp add: buildBurnNameInstructions_def just_def del: js_Cons)
qed

lemma sample_burn_run:
  "\<exists>t'. action sample_lib (Cmd_Burn (js ''alex.sol'')) (sample_ctx (tracked sample_rpc))
       \<lparr>tm_out = [], tm_err = [], tm_chain = ((), [])\<rparr> = Some (t', Inr ()) \<and> sent_in (snd (tm_chain t')) \<noteq> []"
proof -
  obtain ix where ix: "buildBurnNameInstructions ref_kit ascii_unicode sample_wallet (js ''alex.sol'') = Inr [ix]"
    using sample_burn_built by blast
  have "action sample_lib (Cmd_Burn (js ''alex.sol'')) (sample_ctx (tracked sample_rpc)) =
      submit (lenv sample_lib) (sample_ctx (tracked sample_rpc)) [ix]"
    using ix by (simp add: owner_matches(2) eff_simps sample_lib_def sample_ctx_def del: js_Cons)
  then show ?thesis
    by (simp add: submit_def sendInstructions_def sign_instructions_def reportSig_def sample_ctx_def tracked_def sample_rpc_def
        on_chain_def bind_eff_def ret_def console_error_def console_log_def Let_def clusterName_def either_def truthy_str_def
        sample_lib_def)
qed

section \<open>Properties\<close>

text \<open>C26: Whatever command runs and however it ends, the command line sends at most one transaction; one that it sends was simulated without error immediately before, has the signer as its fee payer, and is never sent under --simulate.\<close>

theorem cli_sends_only_simulated_transactions:
  assumes "cx_rpc C = tracked R" "action L cmd C t = Some (t', r)" "snd (tm_chain t) = []"
  shows "sent_in (snd (tm_chain t')) = [] \<or>
    (\<exists>tx sim pre post. snd (tm_chain t') = pre @ [Simulated tx sim, Sent tx] @ post \<and>
       sent_in (snd (tm_chain t')) = [tx] \<and> sim_err sim = None \<and> \<not> go_simulate (cx_opts C) \<and>
       ms_feePayer (st_message tx) = cx_signer C)"
proof -
  obtain l where "snd (tm_chain t') = [] @ l" "once C l"
    using careful_action[OF assms(1), of L cmd] assms(2,3) unfolding careful_def logs_def by metis
  then show ?thesis by (simp add: once_def)
qed

theorem cli_sends_only_simulated_transactions_witness:
  "\<exists>t' tx sim pre post. action sample_lib (Cmd_Burn (js ''alex.sol'')) (sample_ctx (tracked sample_rpc))
       \<lparr>tm_out = [], tm_err = [], tm_chain = ((), [])\<rparr> = Some (t', Inr ()) \<and>
     snd (tm_chain t') = pre @ [Simulated tx sim, Sent tx] @ post \<and> sim_err sim = None \<and>
     ms_feePayer (st_message tx) = sample_wallet"
proof -
  let ?t = "\<lparr>tm_out = [], tm_err = [], tm_chain = ((), [] :: rpc_event list)\<rparr>"
  obtain t' where r: "action sample_lib (Cmd_Burn (js ''alex.sol'')) (sample_ctx (tracked sample_rpc)) ?t = Some (t', Inr ())"
    "sent_in (snd (tm_chain t')) \<noteq> []" using sample_burn_run by blast
  have "cx_rpc (sample_ctx (tracked sample_rpc)) = tracked sample_rpc" "cx_signer (sample_ctx (tracked sample_rpc)) = sample_wallet"
    by (simp_all add: sample_ctx_def)
  with cli_sends_only_simulated_transactions[OF _ r(1)] r show ?thesis by fastforce
qed

end
