(* ===== verification/Program_Interface.thy ===== *)
theory Program_Interface
  imports Client_Typing Account_Fetch
begin

text \<open>
  The interface the program declares (\<open>programs/solans/src\<close>): the accounts of every instruction (\<open>#[derive(Accounts)]\<close> in
  \<open>instructions/*.rs\<close>), its arguments (\<open>lib.rs\<close>) and the fields of every account (\<open>state/*.rs\<close>). Anchor makes an account writable
  when it is marked \<open>mut\<close> or initialised, a signer when its type is \<open>Signer\<close> or when it is initialised at an address that
  is not derived, optional when its type is \<open>Option\<close>; it serialises with Borsh and puts an eight-byte discriminator
  in front. The client's types, codecs and parsers, generated from an extract of that interface, agree with it.
\<close>

section \<open>Declarations\<close>

text \<open>An account of an instruction: its name, whether its type is \<open>Signer\<close>, the constraints \<open>mut\<close>, \<open>init\<close> (or \<open>init_if_needed\<close>),
  whether its address is derived (\<open>seeds\<close> or \<open>associated_token\<close>), and whether it is an \<open>Option\<close>.\<close>

record rust_account =
  ra_name :: string
  ra_Signer :: bool
  ra_mut :: bool
  ra_init :: bool
  ra_derived :: bool
  ra_Option :: bool

definition acct :: "string \<Rightarrow> bool \<Rightarrow> bool \<Rightarrow> bool \<Rightarrow> bool \<Rightarrow> bool \<Rightarrow> rust_account" where
  "acct name signs mut init derived optional =
     \<lparr>ra_name = name, ra_Signer = signs, ra_mut = mut, ra_init = init, ra_derived = derived, ra_Option = optional\<rparr>"

datatype rust_type =
    R_u8 | R_u16 | R_u32 | R_u64 | R_u128 | R_i64 | R_bool | R_Pubkey | R_String
  | R_bytes nat
  | R_Option rust_type
  | R_Vec rust_type
  | R_Struct "(string \<times> rust_type) list"

section \<open>state/*.rs\<close>

definition rust_Record :: "(string \<times> rust_type) list" where
  "rust_Record =
     [(''key'', R_String), (''value'', R_String)]"

definition rust_NameRecord :: "(string \<times> rust_type) list" where
  "rust_NameRecord =
     [(''owner'', R_Pubkey), (''controller'', R_Option R_Pubkey), (''name_hash'', R_bytes 32), (''tld'', R_String),
      (''registered_at'', R_i64), (''expires_at'', R_i64), (''records'', R_Vec (R_Struct rust_Record)),
      (''resolver'', R_Option R_Pubkey), (''hosting_ref'', R_Option R_String), (''transfer_locked'', R_bool),
      (''reverse_set'', R_bool), (''nft_mint'', R_Option R_Pubkey), (''parent'', R_Option R_Pubkey),
      (''parent_registered_at'', R_i64), (''depth'', R_u8), (''listed'', R_bool), (''bump'', R_u8)]"

definition rust_Config :: "(string \<times> rust_type) list" where
  "rust_Config =
     [(''admin'', R_Pubkey), (''payment_mint'', R_Pubkey), (''treasury_token_account'', R_Pubkey),
      (''price_1'', R_u64), (''price_2'', R_u64), (''price_3'', R_u64), (''price_4'', R_u64),
      (''price_5plus'', R_u64), (''price_numeric'', R_u64), (''grace_period_seconds'', R_i64),
      (''min_years'', R_u16), (''max_years'', R_u16), (''sol_treasury'', R_Pubkey), (''marketplace_fee_bps'', R_u16),
      (''staking_vault'', R_Pubkey), (''burn_vault'', R_Pubkey), (''staking_fee_bps'', R_u16),
      (''referral_fee_bps'', R_u16), (''burn_fee_bps'', R_u16), (''solans_mint'', R_Pubkey),
      (''solans_rate'', R_u64), (''solans_discount_bps'', R_u16), (''bump'', R_u8)]"

definition rust_Listing :: "(string \<times> rust_type) list" where
  "rust_Listing =
     [(''seller'', R_Pubkey), (''name_hash'', R_bytes 32), (''price'', R_u64), (''expires_at'', R_i64),
      (''bump'', R_u8)]"

definition rust_Offer :: "(string \<times> rust_type) list" where
  "rust_Offer =
     [(''buyer'', R_Pubkey), (''name_hash'', R_bytes 32), (''amount'', R_u64), (''expires_at'', R_i64),
      (''bump'', R_u8)]"

definition rust_Auction :: "(string \<times> rust_type) list" where
  "rust_Auction =
     [(''seller'', R_Pubkey), (''name_hash'', R_bytes 32), (''bid_vault'', R_Pubkey),
      (''highest_bidder'', R_Option R_Pubkey), (''highest_bid'', R_u64), (''reserve_price'', R_u64),
      (''min_increment'', R_u64), (''end_time'', R_i64), (''bump'', R_u8)]"

definition rust_ReverseRecord :: "(string \<times> rust_type) list" where
  "rust_ReverseRecord =
     [(''owner'', R_Pubkey), (''name_hash'', R_bytes 32), (''name'', R_String), (''tld'', R_String), (''bump'', R_u8)]"

definition rust_StakePool :: "(string \<times> rust_type) list" where
  "rust_StakePool =
     [(''solans_mint'', R_Pubkey), (''stake_vault'', R_Pubkey), (''reward_vault'', R_Pubkey),
      (''total_staked'', R_u64), (''acc_reward_per_share'', R_u128), (''last_reward_balance'', R_u64),
      (''bump'', R_u8)]"

definition rust_StakeAccount :: "(string \<times> rust_type) list" where
  "rust_StakeAccount =
     [(''owner'', R_Pubkey), (''amount'', R_u64), (''reward_debt'', R_u128), (''bump'', R_u8)]"

section \<open>instructions/*.rs and lib.rs\<close>

definition rust_AcceptOffer_accounts :: "rust_account list" where
  "rust_AcceptOffer_accounts =
     [acct ''owner'' True False False False False, acct ''buyer'' False True False False False,
      acct ''sol_treasury'' False True False False False, acct ''config'' False False False True False,
      acct ''name_record'' False True False True False, acct ''offer'' False True False True False]"

definition rust_AcceptOffer_args :: "(string \<times> rust_type) list" where
  "rust_AcceptOffer_args =
     []"

definition rust_AutoRenew_accounts :: "rust_account list" where
  "rust_AutoRenew_accounts =
     [acct ''keeper'' True True False False False, acct ''config'' False False False True False,
      acct ''name_record'' False True False False False, acct ''owner_token_account'' False True False False False,
      acct ''treasury_token_account'' False True False False False,
      acct ''staking_vault'' False True False False False, acct ''burn_vault'' False True False False False,
      acct ''payment_mint'' False False False False False, acct ''token_program'' False False False False False]"

definition rust_AutoRenew_args :: "(string \<times> rust_type) list" where
  "rust_AutoRenew_args =
     [(''name'', R_String), (''tld'', R_String), (''years'', R_u16)]"

definition rust_Bid_accounts :: "rust_account list" where
  "rust_Bid_accounts =
     [acct ''bidder'' True True False False False, acct ''auction'' False True False True False,
      acct ''bidder_solans_account'' False True False False False,
      acct ''prev_bidder_solans_account'' False True False False True,
      acct ''bid_vault'' False True False False False, acct ''solans_mint'' False False False False False,
      acct ''token_program'' False False False False False]"

definition rust_Bid_args :: "(string \<times> rust_type) list" where
  "rust_Bid_args =
     [(''amount'', R_u64)]"

definition rust_BurnName_accounts :: "rust_account list" where
  "rust_BurnName_accounts =
     [acct ''owner'' True True False False False, acct ''name_record'' False True False False False]"

definition rust_BurnName_args :: "(string \<times> rust_type) list" where
  "rust_BurnName_args =
     []"

definition rust_BuyName_accounts :: "rust_account list" where
  "rust_BuyName_accounts =
     [acct ''buyer'' True True False False False, acct ''seller'' False True False False False,
      acct ''sol_treasury'' False True False False False, acct ''config'' False False False True False,
      acct ''name_record'' False True False True False, acct ''listing'' False True False True False,
      acct ''system_program'' False False False False False]"

definition rust_BuyName_args :: "(string \<times> rust_type) list" where
  "rust_BuyName_args =
     [(''expected_price'', R_u64)]"

definition rust_BuybackBurn_accounts :: "rust_account list" where
  "rust_BuybackBurn_accounts =
     [acct ''keeper'' True False False False False, acct ''config'' False False False True False,
      acct ''burn_vault'' False True False False False, acct ''keeper_payment_account'' False True False False False,
      acct ''keeper_solans_account'' False True False False False, acct ''solans_mint'' False True False False False,
      acct ''payment_mint'' False False False False False, acct ''token_program'' False False False False False]"

definition rust_BuybackBurn_args :: "(string \<times> rust_type) list" where
  "rust_BuybackBurn_args =
     [(''solans_amount'', R_u64)]"

definition rust_CancelAuction_accounts :: "rust_account list" where
  "rust_CancelAuction_accounts =
     [acct ''seller'' True True False False False, acct ''name_record'' False True False True False,
      acct ''auction'' False True False True False, acct ''bid_vault'' False True False False False,
      acct ''token_program'' False False False False False]"

definition rust_CancelAuction_args :: "(string \<times> rust_type) list" where
  "rust_CancelAuction_args =
     []"

definition rust_CancelListing_accounts :: "rust_account list" where
  "rust_CancelListing_accounts =
     [acct ''canceller'' True False False False False, acct ''seller'' False True False False False,
      acct ''name_record'' False True False True False, acct ''listing'' False True False True False]"

definition rust_CancelListing_args :: "(string \<times> rust_type) list" where
  "rust_CancelListing_args =
     []"

definition rust_CancelOffer_accounts :: "rust_account list" where
  "rust_CancelOffer_accounts =
     [acct ''canceller'' True False False False False, acct ''buyer'' False True False False False,
      acct ''name_record'' False False False True True, acct ''offer'' False True False True False]"

definition rust_CancelOffer_args :: "(string \<times> rust_type) list" where
  "rust_CancelOffer_args =
     []"

definition rust_ClaimExpired_accounts :: "rust_account list" where
  "rust_ClaimExpired_accounts =
     [acct ''claimer'' True True False False False, acct ''config'' False False False True False,
      acct ''name_record'' False True False False False, acct ''payer_token_account'' False True False False False,
      acct ''treasury_token_account'' False True False False False,
      acct ''staking_vault'' False True False False False, acct ''burn_vault'' False True False False False,
      acct ''referral_token_account'' False True False False True,
      acct ''payment_mint'' False False False False False, acct ''token_program'' False False False False False]"

definition rust_ClaimExpired_args :: "(string \<times> rust_type) list" where
  "rust_ClaimExpired_args =
     [(''name'', R_String), (''tld'', R_String), (''years'', R_u16)]"

definition rust_ClaimRewards_accounts :: "rust_account list" where
  "rust_ClaimRewards_accounts =
     [acct ''staker'' True False False False False, acct ''config'' False False False True False,
      acct ''stake_pool'' False True False True False, acct ''stake_account'' False True False True False,
      acct ''staker_reward_account'' False True False False False,
      acct ''reward_vault'' False True False False False, acct ''payment_mint'' False False False False False,
      acct ''token_program'' False False False False False]"

definition rust_ClaimRewards_args :: "(string \<times> rust_type) list" where
  "rust_ClaimRewards_args =
     []"

definition rust_InitBurnPool_accounts :: "rust_account list" where
  "rust_InitBurnPool_accounts =
     [acct ''admin'' True True False False False, acct ''config'' False True False True False,
      acct ''solans_mint'' False False False False False, acct ''payment_mint'' False False False False False,
      acct ''burn_vault'' False False True True False, acct ''token_program'' False False False False False,
      acct ''associated_token_program'' False False False False False,
      acct ''system_program'' False False False False False]"

definition rust_InitBurnPool_args :: "(string \<times> rust_type) list" where
  "rust_InitBurnPool_args =
     []"

definition rust_InitConfig_accounts :: "rust_account list" where
  "rust_InitConfig_accounts =
     [acct ''admin'' True True False False False, acct ''config'' False False True True False,
      acct ''payment_mint'' False False False False False,
      acct ''treasury_token_account'' False False False False False,
      acct ''staking_vault'' False False False False False, acct ''burn_vault'' False False False False False,
      acct ''token_program'' False False False False False, acct ''system_program'' False False False False False]"

definition rust_InitConfig_args :: "(string \<times> rust_type) list" where
  "rust_InitConfig_args =
     [(''price_1'', R_u64), (''price_2'', R_u64), (''price_3'', R_u64), (''price_4'', R_u64),
      (''price_5plus'', R_u64), (''price_numeric'', R_u64), (''grace_period_seconds'', R_i64),
      (''min_years'', R_u16), (''max_years'', R_u16), (''sol_treasury'', R_Pubkey), (''marketplace_fee_bps'', R_u16),
      (''staking_fee_bps'', R_u16), (''referral_fee_bps'', R_u16), (''burn_fee_bps'', R_u16)]"

definition rust_InitStakePool_accounts :: "rust_account list" where
  "rust_InitStakePool_accounts =
     [acct ''admin'' True True False False False, acct ''config'' False True False True False,
      acct ''stake_pool'' False False True True False, acct ''solans_mint'' False False False False False,
      acct ''payment_mint'' False False False False False, acct ''stake_vault'' False False True True False,
      acct ''reward_vault'' False False True True False, acct ''token_program'' False False False False False,
      acct ''associated_token_program'' False False False False False,
      acct ''system_program'' False False False False False]"

definition rust_InitStakePool_args :: "(string \<times> rust_type) list" where
  "rust_InitStakePool_args =
     []"

definition rust_ListName_accounts :: "rust_account list" where
  "rust_ListName_accounts =
     [acct ''owner'' True True False False False, acct ''name_record'' False True False True False,
      acct ''listing'' False False True True False, acct ''system_program'' False False False False False]"

definition rust_ListName_args :: "(string \<times> rust_type) list" where
  "rust_ListName_args =
     [(''price'', R_u64), (''duration_seconds'', R_i64)]"

definition rust_LockTransfer_accounts :: "rust_account list" where
  "rust_LockTransfer_accounts =
     [acct ''owner'' True False False False False, acct ''name_record'' False True False False False]"

definition rust_LockTransfer_args :: "(string \<times> rust_type) list" where
  "rust_LockTransfer_args =
     [(''lock'', R_bool)]"

definition rust_MakeOffer_accounts :: "rust_account list" where
  "rust_MakeOffer_accounts =
     [acct ''buyer'' True True False False False, acct ''name_record'' False False False True False,
      acct ''offer'' False False True True False, acct ''system_program'' False False False False False]"

definition rust_MakeOffer_args :: "(string \<times> rust_type) list" where
  "rust_MakeOffer_args =
     [(''amount'', R_u64), (''duration_seconds'', R_i64)]"

definition rust_RedeemName_accounts :: "rust_account list" where
  "rust_RedeemName_accounts =
     [acct ''redeemer'' True True False False False, acct ''name_record'' False True False True False,
      acct ''mint'' False True False False False, acct ''token_account'' False True False False False,
      acct ''metadata'' False True False True False, acct ''master_edition'' False True False True False,
      acct ''token_program'' False False False False False, acct ''metadata_program'' False False False False False]"

definition rust_RedeemName_args :: "(string \<times> rust_type) list" where
  "rust_RedeemName_args =
     []"

definition rust_RegisterName_accounts :: "rust_account list" where
  "rust_RegisterName_accounts =
     [acct ''payer'' True True False False False, acct ''owner'' False False False False False,
      acct ''config'' False False False True False, acct ''name_record'' False False True True False,
      acct ''payer_token_account'' False True False False False,
      acct ''treasury_token_account'' False True False False False,
      acct ''staking_vault'' False True False False False, acct ''burn_vault'' False True False False False,
      acct ''referral_token_account'' False True False False True,
      acct ''payment_mint'' False False False False False, acct ''token_program'' False False False False False,
      acct ''system_program'' False False False False False]"

definition rust_RegisterName_args :: "(string \<times> rust_type) list" where
  "rust_RegisterName_args =
     [(''name'', R_String), (''tld'', R_String), (''name_hash'', R_bytes 32), (''years'', R_u16)]"

definition rust_RegisterWithSolans_accounts :: "rust_account list" where
  "rust_RegisterWithSolans_accounts =
     [acct ''payer'' True True False False False, acct ''owner'' False False False False False,
      acct ''config'' False False False True False, acct ''name_record'' False False True True False,
      acct ''payer_solans_account'' False True False False False, acct ''solans_mint'' False True False False False,
      acct ''token_program'' False False False False False, acct ''system_program'' False False False False False]"

definition rust_RegisterWithSolans_args :: "(string \<times> rust_type) list" where
  "rust_RegisterWithSolans_args =
     [(''name'', R_String), (''tld'', R_String), (''name_hash'', R_bytes 32), (''years'', R_u16)]"

definition rust_RenewName_accounts :: "rust_account list" where
  "rust_RenewName_accounts =
     [acct ''payer'' True True False False False, acct ''config'' False False False True False,
      acct ''name_record'' False True False False False, acct ''payer_token_account'' False True False False False,
      acct ''treasury_token_account'' False True False False False,
      acct ''staking_vault'' False True False False False, acct ''burn_vault'' False True False False False,
      acct ''referral_token_account'' False True False False True,
      acct ''payment_mint'' False False False False False, acct ''token_program'' False False False False False]"

definition rust_RenewName_args :: "(string \<times> rust_type) list" where
  "rust_RenewName_args =
     [(''name'', R_String), (''tld'', R_String), (''years'', R_u16)]"

definition rust_RenewWithSolans_accounts :: "rust_account list" where
  "rust_RenewWithSolans_accounts =
     [acct ''payer'' True True False False False, acct ''config'' False False False True False,
      acct ''name_record'' False True False False False, acct ''payer_solans_account'' False True False False False,
      acct ''solans_mint'' False True False False False, acct ''token_program'' False False False False False]"

definition rust_RenewWithSolans_args :: "(string \<times> rust_type) list" where
  "rust_RenewWithSolans_args =
     [(''name'', R_String), (''tld'', R_String), (''years'', R_u16)]"

definition rust_Resolve_accounts :: "rust_account list" where
  "rust_Resolve_accounts =
     [acct ''name_record'' False False False False False]"

definition rust_Resolve_args :: "(string \<times> rust_type) list" where
  "rust_Resolve_args =
     [(''name_hash'', R_bytes 32), (''record_key'', R_Option R_String)]"

definition rust_RevokeSubdomain_accounts :: "rust_account list" where
  "rust_RevokeSubdomain_accounts =
     [acct ''owner'' True True False False False, acct ''parent_name'' False False False True False,
      acct ''name_record'' False True False True False]"

definition rust_RevokeSubdomain_args :: "(string \<times> rust_type) list" where
  "rust_RevokeSubdomain_args =
     []"

definition rust_SetController_accounts :: "rust_account list" where
  "rust_SetController_accounts =
     [acct ''owner'' True False False False False, acct ''name_record'' False True False False False]"

definition rust_SetController_args :: "(string \<times> rust_type) list" where
  "rust_SetController_args =
     [(''controller'', R_Option R_Pubkey)]"

definition rust_SetHosting_accounts :: "rust_account list" where
  "rust_SetHosting_accounts =
     [acct ''authority'' True False False False False, acct ''name_record'' False True False False False,
      acct ''nft_token_account'' False False False False True]"

definition rust_SetHosting_args :: "(string \<times> rust_type) list" where
  "rust_SetHosting_args =
     [(''hosting_ref'', R_Option R_String)]"

definition rust_SetResolver_accounts :: "rust_account list" where
  "rust_SetResolver_accounts =
     [acct ''authority'' True False False False False, acct ''name_record'' False True False False False,
      acct ''nft_token_account'' False False False False True]"

definition rust_SetResolver_args :: "(string \<times> rust_type) list" where
  "rust_SetResolver_args =
     [(''resolver'', R_Option R_Pubkey)]"

definition rust_SetReverse_accounts :: "rust_account list" where
  "rust_SetReverse_accounts =
     [acct ''owner'' True True False False False, acct ''name_record'' False True False False False,
      acct ''reverse_record'' False False True True False, acct ''system_program'' False False False False False]"

definition rust_SetReverse_args :: "(string \<times> rust_type) list" where
  "rust_SetReverse_args =
     [(''name'', R_String)]"

definition rust_SetSolansParams_accounts :: "rust_account list" where
  "rust_SetSolansParams_accounts =
     [acct ''admin'' True False False False False, acct ''config'' False True False True False]"

definition rust_SetSolansParams_args :: "(string \<times> rust_type) list" where
  "rust_SetSolansParams_args =
     [(''solans_rate'', R_u64), (''solans_discount_bps'', R_u16)]"

definition rust_SettleAuction_accounts :: "rust_account list" where
  "rust_SettleAuction_accounts =
     [acct ''settler'' True False False False False, acct ''config'' False False False True False,
      acct ''seller'' False True False False False, acct ''seller_solans_account'' False True False False True,
      acct ''name_record'' False True False True False, acct ''auction'' False True False True False,
      acct ''bid_vault'' False True False False False, acct ''solans_mint'' False True False False False,
      acct ''token_program'' False False False False False]"

definition rust_SettleAuction_args :: "(string \<times> rust_type) list" where
  "rust_SettleAuction_args =
     []"

definition rust_Stake_accounts :: "rust_account list" where
  "rust_Stake_accounts =
     [acct ''staker'' True True False False False, acct ''config'' False False False True False,
      acct ''stake_pool'' False True False True False, acct ''stake_account'' False False True True False,
      acct ''staker_token_account'' False True False False False,
      acct ''staker_reward_account'' False True False False False, acct ''stake_vault'' False True False False False,
      acct ''reward_vault'' False True False False False, acct ''solans_mint'' False False False False False,
      acct ''payment_mint'' False False False False False, acct ''token_program'' False False False False False,
      acct ''system_program'' False False False False False]"

definition rust_Stake_args :: "(string \<times> rust_type) list" where
  "rust_Stake_args =
     [(''amount'', R_u64)]"

definition rust_StartAuction_accounts :: "rust_account list" where
  "rust_StartAuction_accounts =
     [acct ''owner'' True True False False False, acct ''config'' False False False True False,
      acct ''name_record'' False True False True False, acct ''auction'' False False True True False,
      acct ''solans_mint'' False False False False False, acct ''bid_vault'' False False True True False,
      acct ''token_program'' False False False False False,
      acct ''associated_token_program'' False False False False False,
      acct ''system_program'' False False False False False]"

definition rust_StartAuction_args :: "(string \<times> rust_type) list" where
  "rust_StartAuction_args =
     [(''reserve_price'', R_u64), (''min_increment'', R_u64), (''duration_seconds'', R_i64)]"

definition rust_TokenizeName_accounts :: "rust_account list" where
  "rust_TokenizeName_accounts =
     [acct ''owner'' True True False False False, acct ''name_record'' False True False True False,
      acct ''mint'' False False True False False, acct ''token_account'' False False True True False,
      acct ''metadata'' False True False True False, acct ''master_edition'' False True False True False,
      acct ''token_program'' False False False False False,
      acct ''associated_token_program'' False False False False False,
      acct ''metadata_program'' False False False False False, acct ''system_program'' False False False False False,
      acct ''rent'' False False False False False]"

definition rust_TokenizeName_args :: "(string \<times> rust_type) list" where
  "rust_TokenizeName_args =
     [(''name'', R_String)]"

definition rust_TransferAdmin_accounts :: "rust_account list" where
  "rust_TransferAdmin_accounts =
     [acct ''admin'' True False False False False, acct ''config'' False True False True False]"

definition rust_TransferAdmin_args :: "(string \<times> rust_type) list" where
  "rust_TransferAdmin_args =
     [(''new_admin'', R_Pubkey)]"

definition rust_TransferName_accounts :: "rust_account list" where
  "rust_TransferName_accounts =
     [acct ''owner'' True False False False False, acct ''name_record'' False True False False False]"

definition rust_TransferName_args :: "(string \<times> rust_type) list" where
  "rust_TransferName_args =
     [(''new_owner'', R_Pubkey)]"

definition rust_Unstake_accounts :: "rust_account list" where
  "rust_Unstake_accounts =
     [acct ''staker'' True False False False False, acct ''config'' False False False True False,
      acct ''stake_pool'' False True False True False, acct ''stake_account'' False True False True False,
      acct ''staker_token_account'' False True False False False,
      acct ''staker_reward_account'' False True False False False, acct ''stake_vault'' False True False False False,
      acct ''reward_vault'' False True False False False, acct ''solans_mint'' False False False False False,
      acct ''payment_mint'' False False False False False, acct ''token_program'' False False False False False]"

definition rust_Unstake_args :: "(string \<times> rust_type) list" where
  "rust_Unstake_args =
     [(''amount'', R_u64)]"

definition rust_UpdateConfig_accounts :: "rust_account list" where
  "rust_UpdateConfig_accounts =
     [acct ''admin'' True False False False False, acct ''config'' False True False True False]"

definition rust_UpdateConfig_args :: "(string \<times> rust_type) list" where
  "rust_UpdateConfig_args =
     [(''price_1'', R_u64), (''price_2'', R_u64), (''price_3'', R_u64), (''price_4'', R_u64),
      (''price_5plus'', R_u64), (''price_numeric'', R_u64), (''grace_period_seconds'', R_i64),
      (''min_years'', R_u16), (''max_years'', R_u16), (''sol_treasury'', R_Pubkey), (''marketplace_fee_bps'', R_u16),
      (''staking_fee_bps'', R_u16), (''referral_fee_bps'', R_u16), (''burn_fee_bps'', R_u16)]"

definition rust_UpdateListing_accounts :: "rust_account list" where
  "rust_UpdateListing_accounts =
     [acct ''seller'' True False False False False, acct ''listing'' False True False True False]"

definition rust_UpdateListing_args :: "(string \<times> rust_type) list" where
  "rust_UpdateListing_args =
     [(''price'', R_u64), (''duration_seconds'', R_i64)]"

definition rust_UpdateRecord_accounts :: "rust_account list" where
  "rust_UpdateRecord_accounts =
     [acct ''authority'' True False False False False, acct ''name_record'' False True False False False,
      acct ''nft_token_account'' False False False False True]"

definition rust_UpdateRecord_args :: "(string \<times> rust_type) list" where
  "rust_UpdateRecord_args =
     [(''key'', R_String), (''value'', R_Option R_String)]"

definition rust_WrapSubdomain_accounts :: "rust_account list" where
  "rust_WrapSubdomain_accounts =
     [acct ''owner'' True True False False False, acct ''subdomain_owner'' False False False False False,
      acct ''parent_name'' False False False True False, acct ''name_record'' False False True True False,
      acct ''system_program'' False False False False False]"

definition rust_WrapSubdomain_args :: "(string \<times> rust_type) list" where
  "rust_WrapSubdomain_args =
     [(''label'', R_String), (''name_hash'', R_bytes 32)]"

section \<open>What the declarations mean\<close>

text \<open>Names become camel case in the client: an underscore is dropped and the character behind it is upper-cased.\<close>

definition upper :: "char \<Rightarrow> char" where
  "upper c = (if 97 \<le> (of_char c :: nat) \<and> (of_char c :: nat) \<le> 122 then char_of ((of_char c :: nat) - 32) else c)"

fun camelCase :: "string \<Rightarrow> string" where
  "camelCase [] = []"
| "camelCase (c # s) =
     (if c = CHR ''_'' then (case s of [] \<Rightarrow> [] | d # t \<Rightarrow> upper d # camelCase t) else c # camelCase s)"

lemma upper_eval [simp]:
  "upper CHR ''a'' = CHR ''A''" "upper CHR ''b'' = CHR ''B''" "upper CHR ''c'' = CHR ''C''"
  "upper CHR ''d'' = CHR ''D''" "upper CHR ''e'' = CHR ''E''" "upper CHR ''f'' = CHR ''F''"
  "upper CHR ''g'' = CHR ''G''" "upper CHR ''h'' = CHR ''H''" "upper CHR ''i'' = CHR ''I''"
  "upper CHR ''j'' = CHR ''J''" "upper CHR ''k'' = CHR ''K''" "upper CHR ''l'' = CHR ''L''"
  "upper CHR ''m'' = CHR ''M''" "upper CHR ''n'' = CHR ''N''" "upper CHR ''o'' = CHR ''O''"
  "upper CHR ''p'' = CHR ''P''" "upper CHR ''q'' = CHR ''Q''" "upper CHR ''r'' = CHR ''R''"
  "upper CHR ''s'' = CHR ''S''" "upper CHR ''t'' = CHR ''T''" "upper CHR ''u'' = CHR ''U''"
  "upper CHR ''v'' = CHR ''V''" "upper CHR ''w'' = CHR ''W''" "upper CHR ''x'' = CHR ''X''"
  "upper CHR ''y'' = CHR ''Y''" "upper CHR ''z'' = CHR ''Z''" "upper CHR ''0'' = CHR ''0''"
  "upper CHR ''1'' = CHR ''1''" "upper CHR ''2'' = CHR ''2''" "upper CHR ''3'' = CHR ''3''"
  "upper CHR ''4'' = CHR ''4''" "upper CHR ''5'' = CHR ''5''" "upper CHR ''6'' = CHR ''6''"
  "upper CHR ''7'' = CHR ''7''" "upper CHR ''8'' = CHR ''8''" "upper CHR ''9'' = CHR ''9''"
  by code_simp+

definition rust_role :: "rust_account \<Rightarrow> accountRole" where
  "rust_role r =
     (let writable = ra_mut r \<or> ra_init r; signs = ra_Signer r \<or> (ra_init r \<and> \<not> ra_derived r) in
      if writable then (if signs then WRITABLE_SIGNER else WRITABLE) else (if signs then READONLY_SIGNER else READONLY))"

text \<open>The Borsh layout of a Rust type, as a term of the kit's codecs.\<close>

fun borsh :: "rust_type \<Rightarrow> codec"
  and borsh_fields :: "(string \<times> rust_type) list \<Rightarrow> (string \<times> codec) list" where
  "borsh R_u8 = U8C"
| "borsh R_u16 = U16C"
| "borsh R_u32 = U32C"
| "borsh R_u64 = U64C"
| "borsh R_u128 = U128C"
| "borsh R_i64 = I64C"
| "borsh R_bool = BooleanC"
| "borsh R_Pubkey = AddressC"
| "borsh R_String = SizePrefixC Utf8C U32C"
| "borsh (R_bytes n) = FixSizeC BytesC n"
| "borsh (R_Option t) = OptionC (borsh t)"
| "borsh (R_Vec t) = ArrayC (borsh t)"
| "borsh (R_Struct fs) = StructC (borsh_fields fs)"
| "borsh_fields [] = []"
| "borsh_fields (ft # fs) = (camelCase (fst ft), borsh (snd ft)) # borsh_fields fs"

definition tagged :: "(string \<times> rust_type) list \<Rightarrow> codec" where
  "tagged fs = StructC ((''discriminator'', FixSizeC BytesC 8) # borsh_fields fs)"

text \<open>The client's view of an instruction is the program's: the accounts in order with role and optionality, and the layout of
  the arguments.\<close>

definition same_interface ::
  "rust_account list \<Rightarrow> (string \<times> rust_type) list \<Rightarrow> instruction_type \<Rightarrow> parsed_type \<Rightarrow> codec \<Rightarrow> bool" where
  "same_interface accts args ty pty encoder \<longleftrightarrow>
     ty = map (\<lambda>r. (camelCase (ra_name r), rust_role r)) accts \<and>
     pty = map (\<lambda>r. (camelCase (ra_name r), ra_Option r)) accts \<and>
     encoder = tagged args"

lemmas interface_defs = same_interface_def tagged_def acct_def rust_role_def Let_def

lemma acceptOffer_interface:
  "same_interface rust_AcceptOffer_accounts rust_AcceptOffer_args AcceptOfferInstruction ParsedAcceptOfferInstruction getAcceptOfferInstructionDataEncoder"
  by (simp add: interface_defs rust_AcceptOffer_accounts_def rust_AcceptOffer_args_def AcceptOfferInstruction_def ParsedAcceptOfferInstruction_def
      getAcceptOfferInstructionDataEncoder_def)

lemma autoRenew_interface:
  "same_interface rust_AutoRenew_accounts rust_AutoRenew_args AutoRenewInstruction ParsedAutoRenewInstruction getAutoRenewInstructionDataEncoder"
  by (simp add: interface_defs rust_AutoRenew_accounts_def rust_AutoRenew_args_def AutoRenewInstruction_def ParsedAutoRenewInstruction_def
      getAutoRenewInstructionDataEncoder_def)

lemma bid_interface:
  "same_interface rust_Bid_accounts rust_Bid_args BidInstruction ParsedBidInstruction getBidInstructionDataEncoder"
  by (simp add: interface_defs rust_Bid_accounts_def rust_Bid_args_def BidInstruction_def ParsedBidInstruction_def
      getBidInstructionDataEncoder_def)

lemma burnName_interface:
  "same_interface rust_BurnName_accounts rust_BurnName_args BurnNameInstruction ParsedBurnNameInstruction getBurnNameInstructionDataEncoder"
  by (simp add: interface_defs rust_BurnName_accounts_def rust_BurnName_args_def BurnNameInstruction_def ParsedBurnNameInstruction_def
      getBurnNameInstructionDataEncoder_def)

lemma buyName_interface:
  "same_interface rust_BuyName_accounts rust_BuyName_args BuyNameInstruction ParsedBuyNameInstruction getBuyNameInstructionDataEncoder"
  by (simp add: interface_defs rust_BuyName_accounts_def rust_BuyName_args_def BuyNameInstruction_def ParsedBuyNameInstruction_def
      getBuyNameInstructionDataEncoder_def)

lemma buybackBurn_interface:
  "same_interface rust_BuybackBurn_accounts rust_BuybackBurn_args BuybackBurnInstruction ParsedBuybackBurnInstruction getBuybackBurnInstructionDataEncoder"
  by (simp add: interface_defs rust_BuybackBurn_accounts_def rust_BuybackBurn_args_def BuybackBurnInstruction_def ParsedBuybackBurnInstruction_def
      getBuybackBurnInstructionDataEncoder_def)

lemma cancelAuction_interface:
  "same_interface rust_CancelAuction_accounts rust_CancelAuction_args CancelAuctionInstruction ParsedCancelAuctionInstruction getCancelAuctionInstructionDataEncoder"
  by (simp add: interface_defs rust_CancelAuction_accounts_def rust_CancelAuction_args_def CancelAuctionInstruction_def ParsedCancelAuctionInstruction_def
      getCancelAuctionInstructionDataEncoder_def)

lemma cancelListing_interface:
  "same_interface rust_CancelListing_accounts rust_CancelListing_args CancelListingInstruction ParsedCancelListingInstruction getCancelListingInstructionDataEncoder"
  by (simp add: interface_defs rust_CancelListing_accounts_def rust_CancelListing_args_def CancelListingInstruction_def ParsedCancelListingInstruction_def
      getCancelListingInstructionDataEncoder_def)

lemma cancelOffer_interface:
  "same_interface rust_CancelOffer_accounts rust_CancelOffer_args CancelOfferInstruction ParsedCancelOfferInstruction getCancelOfferInstructionDataEncoder"
  by (simp add: interface_defs rust_CancelOffer_accounts_def rust_CancelOffer_args_def CancelOfferInstruction_def ParsedCancelOfferInstruction_def
      getCancelOfferInstructionDataEncoder_def)

lemma claimExpired_interface:
  "same_interface rust_ClaimExpired_accounts rust_ClaimExpired_args ClaimExpiredInstruction ParsedClaimExpiredInstruction getClaimExpiredInstructionDataEncoder"
  by (simp add: interface_defs rust_ClaimExpired_accounts_def rust_ClaimExpired_args_def ClaimExpiredInstruction_def ParsedClaimExpiredInstruction_def
      getClaimExpiredInstructionDataEncoder_def)

lemma claimRewards_interface:
  "same_interface rust_ClaimRewards_accounts rust_ClaimRewards_args ClaimRewardsInstruction ParsedClaimRewardsInstruction getClaimRewardsInstructionDataEncoder"
  by (simp add: interface_defs rust_ClaimRewards_accounts_def rust_ClaimRewards_args_def ClaimRewardsInstruction_def ParsedClaimRewardsInstruction_def
      getClaimRewardsInstructionDataEncoder_def)

lemma initBurnPool_interface:
  "same_interface rust_InitBurnPool_accounts rust_InitBurnPool_args InitBurnPoolInstruction ParsedInitBurnPoolInstruction getInitBurnPoolInstructionDataEncoder"
  by (simp add: interface_defs rust_InitBurnPool_accounts_def rust_InitBurnPool_args_def InitBurnPoolInstruction_def ParsedInitBurnPoolInstruction_def
      getInitBurnPoolInstructionDataEncoder_def)

lemma initConfig_interface:
  "same_interface rust_InitConfig_accounts rust_InitConfig_args InitConfigInstruction ParsedInitConfigInstruction getInitConfigInstructionDataEncoder"
  by (simp add: interface_defs rust_InitConfig_accounts_def rust_InitConfig_args_def InitConfigInstruction_def ParsedInitConfigInstruction_def
      getInitConfigInstructionDataEncoder_def)

lemma initStakePool_interface:
  "same_interface rust_InitStakePool_accounts rust_InitStakePool_args InitStakePoolInstruction ParsedInitStakePoolInstruction getInitStakePoolInstructionDataEncoder"
  by (simp add: interface_defs rust_InitStakePool_accounts_def rust_InitStakePool_args_def InitStakePoolInstruction_def ParsedInitStakePoolInstruction_def
      getInitStakePoolInstructionDataEncoder_def)

lemma listName_interface:
  "same_interface rust_ListName_accounts rust_ListName_args ListNameInstruction ParsedListNameInstruction getListNameInstructionDataEncoder"
  by (simp add: interface_defs rust_ListName_accounts_def rust_ListName_args_def ListNameInstruction_def ParsedListNameInstruction_def
      getListNameInstructionDataEncoder_def)

lemma lockTransfer_interface:
  "same_interface rust_LockTransfer_accounts rust_LockTransfer_args LockTransferInstruction ParsedLockTransferInstruction getLockTransferInstructionDataEncoder"
  by (simp add: interface_defs rust_LockTransfer_accounts_def rust_LockTransfer_args_def LockTransferInstruction_def ParsedLockTransferInstruction_def
      getLockTransferInstructionDataEncoder_def)

lemma makeOffer_interface:
  "same_interface rust_MakeOffer_accounts rust_MakeOffer_args MakeOfferInstruction ParsedMakeOfferInstruction getMakeOfferInstructionDataEncoder"
  by (simp add: interface_defs rust_MakeOffer_accounts_def rust_MakeOffer_args_def MakeOfferInstruction_def ParsedMakeOfferInstruction_def
      getMakeOfferInstructionDataEncoder_def)

lemma redeemName_interface:
  "same_interface rust_RedeemName_accounts rust_RedeemName_args RedeemNameInstruction ParsedRedeemNameInstruction getRedeemNameInstructionDataEncoder"
  by (simp add: interface_defs rust_RedeemName_accounts_def rust_RedeemName_args_def RedeemNameInstruction_def ParsedRedeemNameInstruction_def
      getRedeemNameInstructionDataEncoder_def)

lemma registerName_interface:
  "same_interface rust_RegisterName_accounts rust_RegisterName_args RegisterNameInstruction ParsedRegisterNameInstruction getRegisterNameInstructionDataEncoder"
  by (simp add: interface_defs rust_RegisterName_accounts_def rust_RegisterName_args_def RegisterNameInstruction_def ParsedRegisterNameInstruction_def
      getRegisterNameInstructionDataEncoder_def)

lemma registerWithSolans_interface:
  "same_interface rust_RegisterWithSolans_accounts rust_RegisterWithSolans_args RegisterWithSolansInstruction ParsedRegisterWithSolansInstruction getRegisterWithSolansInstructionDataEncoder"
  by (simp add: interface_defs rust_RegisterWithSolans_accounts_def rust_RegisterWithSolans_args_def RegisterWithSolansInstruction_def ParsedRegisterWithSolansInstruction_def
      getRegisterWithSolansInstructionDataEncoder_def)

lemma renewName_interface:
  "same_interface rust_RenewName_accounts rust_RenewName_args RenewNameInstruction ParsedRenewNameInstruction getRenewNameInstructionDataEncoder"
  by (simp add: interface_defs rust_RenewName_accounts_def rust_RenewName_args_def RenewNameInstruction_def ParsedRenewNameInstruction_def
      getRenewNameInstructionDataEncoder_def)

lemma renewWithSolans_interface:
  "same_interface rust_RenewWithSolans_accounts rust_RenewWithSolans_args RenewWithSolansInstruction ParsedRenewWithSolansInstruction getRenewWithSolansInstructionDataEncoder"
  by (simp add: interface_defs rust_RenewWithSolans_accounts_def rust_RenewWithSolans_args_def RenewWithSolansInstruction_def ParsedRenewWithSolansInstruction_def
      getRenewWithSolansInstructionDataEncoder_def)

lemma resolve_interface:
  "same_interface rust_Resolve_accounts rust_Resolve_args ResolveInstruction ParsedResolveInstruction getResolveInstructionDataEncoder"
  by (simp add: interface_defs rust_Resolve_accounts_def rust_Resolve_args_def ResolveInstruction_def ParsedResolveInstruction_def
      getResolveInstructionDataEncoder_def)

lemma revokeSubdomain_interface:
  "same_interface rust_RevokeSubdomain_accounts rust_RevokeSubdomain_args RevokeSubdomainInstruction ParsedRevokeSubdomainInstruction getRevokeSubdomainInstructionDataEncoder"
  by (simp add: interface_defs rust_RevokeSubdomain_accounts_def rust_RevokeSubdomain_args_def RevokeSubdomainInstruction_def ParsedRevokeSubdomainInstruction_def
      getRevokeSubdomainInstructionDataEncoder_def)

lemma setController_interface:
  "same_interface rust_SetController_accounts rust_SetController_args SetControllerInstruction ParsedSetControllerInstruction getSetControllerInstructionDataEncoder"
  by (simp add: interface_defs rust_SetController_accounts_def rust_SetController_args_def SetControllerInstruction_def ParsedSetControllerInstruction_def
      getSetControllerInstructionDataEncoder_def)

lemma setHosting_interface:
  "same_interface rust_SetHosting_accounts rust_SetHosting_args SetHostingInstruction ParsedSetHostingInstruction getSetHostingInstructionDataEncoder"
  by (simp add: interface_defs rust_SetHosting_accounts_def rust_SetHosting_args_def SetHostingInstruction_def ParsedSetHostingInstruction_def
      getSetHostingInstructionDataEncoder_def)

lemma setResolver_interface:
  "same_interface rust_SetResolver_accounts rust_SetResolver_args SetResolverInstruction ParsedSetResolverInstruction getSetResolverInstructionDataEncoder"
  by (simp add: interface_defs rust_SetResolver_accounts_def rust_SetResolver_args_def SetResolverInstruction_def ParsedSetResolverInstruction_def
      getSetResolverInstructionDataEncoder_def)

lemma setReverse_interface:
  "same_interface rust_SetReverse_accounts rust_SetReverse_args SetReverseInstruction ParsedSetReverseInstruction getSetReverseInstructionDataEncoder"
  by (simp add: interface_defs rust_SetReverse_accounts_def rust_SetReverse_args_def SetReverseInstruction_def ParsedSetReverseInstruction_def
      getSetReverseInstructionDataEncoder_def)

lemma setSolansParams_interface:
  "same_interface rust_SetSolansParams_accounts rust_SetSolansParams_args SetSolansParamsInstruction ParsedSetSolansParamsInstruction getSetSolansParamsInstructionDataEncoder"
  by (simp add: interface_defs rust_SetSolansParams_accounts_def rust_SetSolansParams_args_def SetSolansParamsInstruction_def ParsedSetSolansParamsInstruction_def
      getSetSolansParamsInstructionDataEncoder_def)

lemma settleAuction_interface:
  "same_interface rust_SettleAuction_accounts rust_SettleAuction_args SettleAuctionInstruction ParsedSettleAuctionInstruction getSettleAuctionInstructionDataEncoder"
  by (simp add: interface_defs rust_SettleAuction_accounts_def rust_SettleAuction_args_def SettleAuctionInstruction_def ParsedSettleAuctionInstruction_def
      getSettleAuctionInstructionDataEncoder_def)

lemma stake_interface:
  "same_interface rust_Stake_accounts rust_Stake_args StakeInstruction ParsedStakeInstruction getStakeInstructionDataEncoder"
  by (simp add: interface_defs rust_Stake_accounts_def rust_Stake_args_def StakeInstruction_def ParsedStakeInstruction_def
      getStakeInstructionDataEncoder_def)

lemma startAuction_interface:
  "same_interface rust_StartAuction_accounts rust_StartAuction_args StartAuctionInstruction ParsedStartAuctionInstruction getStartAuctionInstructionDataEncoder"
  by (simp add: interface_defs rust_StartAuction_accounts_def rust_StartAuction_args_def StartAuctionInstruction_def ParsedStartAuctionInstruction_def
      getStartAuctionInstructionDataEncoder_def)

lemma tokenizeName_interface:
  "same_interface rust_TokenizeName_accounts rust_TokenizeName_args TokenizeNameInstruction ParsedTokenizeNameInstruction getTokenizeNameInstructionDataEncoder"
  by (simp add: interface_defs rust_TokenizeName_accounts_def rust_TokenizeName_args_def TokenizeNameInstruction_def ParsedTokenizeNameInstruction_def
      getTokenizeNameInstructionDataEncoder_def)

lemma transferAdmin_interface:
  "same_interface rust_TransferAdmin_accounts rust_TransferAdmin_args TransferAdminInstruction ParsedTransferAdminInstruction getTransferAdminInstructionDataEncoder"
  by (simp add: interface_defs rust_TransferAdmin_accounts_def rust_TransferAdmin_args_def TransferAdminInstruction_def ParsedTransferAdminInstruction_def
      getTransferAdminInstructionDataEncoder_def)

lemma transferName_interface:
  "same_interface rust_TransferName_accounts rust_TransferName_args TransferNameInstruction ParsedTransferNameInstruction getTransferNameInstructionDataEncoder"
  by (simp add: interface_defs rust_TransferName_accounts_def rust_TransferName_args_def TransferNameInstruction_def ParsedTransferNameInstruction_def
      getTransferNameInstructionDataEncoder_def)

lemma unstake_interface:
  "same_interface rust_Unstake_accounts rust_Unstake_args UnstakeInstruction ParsedUnstakeInstruction getUnstakeInstructionDataEncoder"
  by (simp add: interface_defs rust_Unstake_accounts_def rust_Unstake_args_def UnstakeInstruction_def ParsedUnstakeInstruction_def
      getUnstakeInstructionDataEncoder_def)

lemma updateConfig_interface:
  "same_interface rust_UpdateConfig_accounts rust_UpdateConfig_args UpdateConfigInstruction ParsedUpdateConfigInstruction getUpdateConfigInstructionDataEncoder"
  by (simp add: interface_defs rust_UpdateConfig_accounts_def rust_UpdateConfig_args_def UpdateConfigInstruction_def ParsedUpdateConfigInstruction_def
      getUpdateConfigInstructionDataEncoder_def)

lemma updateListing_interface:
  "same_interface rust_UpdateListing_accounts rust_UpdateListing_args UpdateListingInstruction ParsedUpdateListingInstruction getUpdateListingInstructionDataEncoder"
  by (simp add: interface_defs rust_UpdateListing_accounts_def rust_UpdateListing_args_def UpdateListingInstruction_def ParsedUpdateListingInstruction_def
      getUpdateListingInstructionDataEncoder_def)

lemma updateRecord_interface:
  "same_interface rust_UpdateRecord_accounts rust_UpdateRecord_args UpdateRecordInstruction ParsedUpdateRecordInstruction getUpdateRecordInstructionDataEncoder"
  by (simp add: interface_defs rust_UpdateRecord_accounts_def rust_UpdateRecord_args_def UpdateRecordInstruction_def ParsedUpdateRecordInstruction_def
      getUpdateRecordInstructionDataEncoder_def)

lemma wrapSubdomain_interface:
  "same_interface rust_WrapSubdomain_accounts rust_WrapSubdomain_args WrapSubdomainInstruction ParsedWrapSubdomainInstruction getWrapSubdomainInstructionDataEncoder"
  by (simp add: interface_defs rust_WrapSubdomain_accounts_def rust_WrapSubdomain_args_def WrapSubdomainInstruction_def ParsedWrapSubdomainInstruction_def
      getWrapSubdomainInstructionDataEncoder_def)

section \<open>All instructions\<close>

text \<open>The accounts the program declares for an instruction.\<close>

primrec program_accounts :: "SolansInstruction \<Rightarrow> rust_account list" where
  "program_accounts AcceptOffer = rust_AcceptOffer_accounts"
| "program_accounts AutoRenew = rust_AutoRenew_accounts"
| "program_accounts Bid = rust_Bid_accounts"
| "program_accounts BurnName = rust_BurnName_accounts"
| "program_accounts BuyName = rust_BuyName_accounts"
| "program_accounts BuybackBurn = rust_BuybackBurn_accounts"
| "program_accounts CancelAuction = rust_CancelAuction_accounts"
| "program_accounts CancelListing = rust_CancelListing_accounts"
| "program_accounts CancelOffer = rust_CancelOffer_accounts"
| "program_accounts ClaimExpired = rust_ClaimExpired_accounts"
| "program_accounts ClaimRewards = rust_ClaimRewards_accounts"
| "program_accounts InitBurnPool = rust_InitBurnPool_accounts"
| "program_accounts InitConfig = rust_InitConfig_accounts"
| "program_accounts InitStakePool = rust_InitStakePool_accounts"
| "program_accounts ListName = rust_ListName_accounts"
| "program_accounts LockTransfer = rust_LockTransfer_accounts"
| "program_accounts MakeOffer = rust_MakeOffer_accounts"
| "program_accounts RedeemName = rust_RedeemName_accounts"
| "program_accounts RegisterName = rust_RegisterName_accounts"
| "program_accounts RegisterWithSolans = rust_RegisterWithSolans_accounts"
| "program_accounts RenewName = rust_RenewName_accounts"
| "program_accounts RenewWithSolans = rust_RenewWithSolans_accounts"
| "program_accounts Resolve = rust_Resolve_accounts"
| "program_accounts RevokeSubdomain = rust_RevokeSubdomain_accounts"
| "program_accounts SetController = rust_SetController_accounts"
| "program_accounts SetHosting = rust_SetHosting_accounts"
| "program_accounts SetResolver = rust_SetResolver_accounts"
| "program_accounts SetReverse = rust_SetReverse_accounts"
| "program_accounts SetSolansParams = rust_SetSolansParams_accounts"
| "program_accounts SettleAuction = rust_SettleAuction_accounts"
| "program_accounts Stake = rust_Stake_accounts"
| "program_accounts StartAuction = rust_StartAuction_accounts"
| "program_accounts TokenizeName = rust_TokenizeName_accounts"
| "program_accounts TransferAdmin = rust_TransferAdmin_accounts"
| "program_accounts TransferName = rust_TransferName_accounts"
| "program_accounts Unstake = rust_Unstake_accounts"
| "program_accounts UpdateConfig = rust_UpdateConfig_accounts"
| "program_accounts UpdateListing = rust_UpdateListing_accounts"
| "program_accounts UpdateRecord = rust_UpdateRecord_accounts"
| "program_accounts WrapSubdomain = rust_WrapSubdomain_accounts"

text \<open>The arguments the program declares for an instruction.\<close>

primrec program_args :: "SolansInstruction \<Rightarrow> (string \<times> rust_type) list" where
  "program_args AcceptOffer = rust_AcceptOffer_args"
| "program_args AutoRenew = rust_AutoRenew_args"
| "program_args Bid = rust_Bid_args"
| "program_args BurnName = rust_BurnName_args"
| "program_args BuyName = rust_BuyName_args"
| "program_args BuybackBurn = rust_BuybackBurn_args"
| "program_args CancelAuction = rust_CancelAuction_args"
| "program_args CancelListing = rust_CancelListing_args"
| "program_args CancelOffer = rust_CancelOffer_args"
| "program_args ClaimExpired = rust_ClaimExpired_args"
| "program_args ClaimRewards = rust_ClaimRewards_args"
| "program_args InitBurnPool = rust_InitBurnPool_args"
| "program_args InitConfig = rust_InitConfig_args"
| "program_args InitStakePool = rust_InitStakePool_args"
| "program_args ListName = rust_ListName_args"
| "program_args LockTransfer = rust_LockTransfer_args"
| "program_args MakeOffer = rust_MakeOffer_args"
| "program_args RedeemName = rust_RedeemName_args"
| "program_args RegisterName = rust_RegisterName_args"
| "program_args RegisterWithSolans = rust_RegisterWithSolans_args"
| "program_args RenewName = rust_RenewName_args"
| "program_args RenewWithSolans = rust_RenewWithSolans_args"
| "program_args Resolve = rust_Resolve_args"
| "program_args RevokeSubdomain = rust_RevokeSubdomain_args"
| "program_args SetController = rust_SetController_args"
| "program_args SetHosting = rust_SetHosting_args"
| "program_args SetResolver = rust_SetResolver_args"
| "program_args SetReverse = rust_SetReverse_args"
| "program_args SetSolansParams = rust_SetSolansParams_args"
| "program_args SettleAuction = rust_SettleAuction_args"
| "program_args Stake = rust_Stake_args"
| "program_args StartAuction = rust_StartAuction_args"
| "program_args TokenizeName = rust_TokenizeName_args"
| "program_args TransferAdmin = rust_TransferAdmin_args"
| "program_args TransferName = rust_TransferName_args"
| "program_args Unstake = rust_Unstake_args"
| "program_args UpdateConfig = rust_UpdateConfig_args"
| "program_args UpdateListing = rust_UpdateListing_args"
| "program_args UpdateRecord = rust_UpdateRecord_args"
| "program_args WrapSubdomain = rust_WrapSubdomain_args"

lemmas interfaces =
  acceptOffer_interface autoRenew_interface bid_interface burnName_interface buyName_interface
  buybackBurn_interface cancelAuction_interface cancelListing_interface cancelOffer_interface
  claimExpired_interface claimRewards_interface initBurnPool_interface initConfig_interface
  initStakePool_interface listName_interface lockTransfer_interface makeOffer_interface redeemName_interface
  registerName_interface registerWithSolans_interface renewName_interface renewWithSolans_interface
  resolve_interface revokeSubdomain_interface setController_interface setHosting_interface setResolver_interface
  setReverse_interface setSolansParams_interface settleAuction_interface stake_interface startAuction_interface
  tokenizeName_interface transferAdmin_interface transferName_interface unstake_interface updateConfig_interface
  updateListing_interface updateRecord_interface wrapSubdomain_interface

lemma builders_interface:
  "list_all (\<lambda>(v, build, encoder, ity, ty, parse, pty). same_interface (program_accounts v) (program_args v) ty pty encoder)
     typed_builders"
  unfolding typed_builders_def list.pred_inject prod.case program_accounts.simps program_args.simps
  by (simp only: interfaces list.pred_inject simp_thms)

lemma typed_accounts_interface:
  assumes S: "same_interface accts args ty pty encoder" and T: "instruction_typed K ty pty inp ix" and D: "distinct (map fst ty)"
  shows "list_all2 (\<lambda>r m. (am_role m = rust_role r \<and> isAddress K (am_address m)) \<or>
      (ra_Option r \<and> m = \<lparr>am_address = SOLANS_PROGRAM_ADDRESS, am_role = READONLY\<rparr>)) accts (ix_accounts ix)"
proof -
  have ty: "ty = map (\<lambda>r. (camelCase (ra_name r), rust_role r)) accts"
    and pty: "pty = map (\<lambda>r. (camelCase (ra_name r), ra_Option r)) accts" using S by (simp_all add: same_interface_def)
  have "distinct (map fst pty)" using D by (simp add: ty pty comp_def)
  then have "ra_Option r" if "r \<in> set accts" "(camelCase (ra_name r), True) \<in> set pty" for r
    using that eq_key_imp_eq_value[of pty "camelCase (ra_name r)" "ra_Option r" True] by (force simp: pty)
  then show ?thesis
    using T unfolding instruction_typed_def ty list_all2_map1
    by (elim list.rel_mono_strong) auto
qed

lemma typed_builder_distinct: "typed_builder build encoder ity ty pty \<Longrightarrow> distinct (map fst ty)"
  by (auto simp: typed_builder_def signature_ok_def)

lemma typed_builder_data:
  assumes "typed_builder build encoder ity ty pty" "build K inp = Inr ix"
  shows "\<exists>disc vs. pick_args (arg_fields encoder) (in_arg inp) = Inr vs \<and>
    encode K encoder (VStruct ((''discriminator'', VBytes disc) # vs)) = Inr (ix_data ix)"
proof -
  obtain slots defaults disc where "build K = build_ix K slots defaults encoder disc"
    using assms(1) unfolding typed_builder_def by blast
  with assms(2) show ?thesis
    by (intro exI[of _ disc]) (auto simp: build_ix_def encode_data_def Let_def bind_res_Inr)
qed

section \<open>Accounts\<close>

text \<open>The space Anchor's \<open>InitSpace\<close> computes for a type without texts and vectors.\<close>

fun init_space :: "rust_type \<Rightarrow> nat option"
  and init_space_fields :: "(string \<times> rust_type) list \<Rightarrow> nat option" where
  "init_space R_u8 = Some 1"
| "init_space R_u16 = Some 2"
| "init_space R_u32 = Some 4"
| "init_space R_u64 = Some 8"
| "init_space R_u128 = Some 16"
| "init_space R_i64 = Some 8"
| "init_space R_bool = Some 1"
| "init_space R_Pubkey = Some 32"
| "init_space R_String = None"
| "init_space (R_bytes n) = Some n"
| "init_space (R_Option t) = map_option Suc (init_space t)"
| "init_space (R_Vec t) = None"
| "init_space (R_Struct fs) = init_space_fields fs"
| "init_space_fields [] = Some 0"
| "init_space_fields (ft # fs) =
     Option.bind (init_space (snd ft)) (\<lambda>m. map_option (\<lambda>n. m + n) (init_space_fields fs))"

text \<open>The account types with the client's encoder and decoder, in the order of \<open>SolansAccount\<close>.\<close>

definition account_layouts :: "(codec \<times> codec \<times> (string \<times> rust_type) list) list" where
  "account_layouts =
     [(getAuctionEncoder, getAuctionDecoder, rust_Auction), (getConfigEncoder, getConfigDecoder, rust_Config),
      (getListingEncoder, getListingDecoder, rust_Listing), (getNameRecordEncoder, getNameRecordDecoder, rust_NameRecord),
      (getOfferEncoder, getOfferDecoder, rust_Offer), (getReverseRecordEncoder, getReverseRecordDecoder, rust_ReverseRecord),
      (getStakeAccountEncoder, getStakeAccountDecoder, rust_StakeAccount), (getStakePoolEncoder, getStakePoolDecoder, rust_StakePool)]"

definition fixed_sizes :: "(nat \<times> (string \<times> rust_type) list) list" where
  "fixed_sizes =
     [(getConfigSize, rust_Config), (getListingSize, rust_Listing), (getOfferSize, rust_Offer),
      (getStakeAccountSize, rust_StakeAccount), (getStakePoolSize, rust_StakePool)]"

lemma account_layout:
  "getRecordEncoder = borsh (R_Struct rust_Record)"
  "getAuctionEncoder = tagged rust_Auction" "getAuctionDecoder = tagged rust_Auction"
  "getConfigEncoder = tagged rust_Config" "getConfigDecoder = tagged rust_Config"
  "getListingEncoder = tagged rust_Listing" "getListingDecoder = tagged rust_Listing"
  "getNameRecordEncoder = tagged rust_NameRecord" "getNameRecordDecoder = tagged rust_NameRecord"
  "getOfferEncoder = tagged rust_Offer" "getOfferDecoder = tagged rust_Offer"
  "getReverseRecordEncoder = tagged rust_ReverseRecord" "getReverseRecordDecoder = tagged rust_ReverseRecord"
  "getStakeAccountEncoder = tagged rust_StakeAccount" "getStakeAccountDecoder = tagged rust_StakeAccount"
  "getStakePoolEncoder = tagged rust_StakePool" "getStakePoolDecoder = tagged rust_StakePool"
  by (simp_all add: tagged_def rust_Record_def getRecordEncoder_def getRecordDecoder_def rust_Auction_def getAuctionEncoder_def
      getAuctionDecoder_def rust_Config_def getConfigEncoder_def getConfigDecoder_def rust_Listing_def
      getListingEncoder_def getListingDecoder_def rust_NameRecord_def getNameRecordEncoder_def
      getNameRecordDecoder_def rust_Offer_def getOfferEncoder_def getOfferDecoder_def rust_ReverseRecord_def
      getReverseRecordEncoder_def getReverseRecordDecoder_def rust_StakeAccount_def getStakeAccountEncoder_def
      getStakeAccountDecoder_def rust_StakePool_def getStakePoolEncoder_def getStakePoolDecoder_def)

lemma account_space:
  "list_all (\<lambda>(size, fs). map_option (\<lambda>n. 8 + n) (init_space_fields fs) = Some size) fixed_sizes"
  by (simp add: fixed_sizes_def rust_Config_def getConfigSize_def rust_Listing_def getListingSize_def rust_Offer_def getOfferSize_def
      rust_StakeAccount_def getStakeAccountSize_def rust_StakePool_def getStakePoolSize_def)

section \<open>Properties\<close>



text \<open>C21: The codecs of all eight account types, for encoding and decoding, are the Borsh layout of the Rust structs in state/*.rs behind the discriminator, and the size the client declares for an account of fixed size is the space the program allocates, 8 + INIT_SPACE.\<close>

theorem account_layouts_are_the_programs:
  "list_all (\<lambda>(encoder, decoder, fs). encoder = tagged fs \<and> decoder = tagged fs) account_layouts \<and>
   list_all (\<lambda>(size, fs). map_option (\<lambda>n. 8 + n) (init_space_fields fs) = Some size) fixed_sizes"
  using account_space unfolding account_layouts_def account_layout by simp

end
