(* ===== verification/Chain.thy ===== *)
theory Chain
  imports Accounts
begin

text \<open>
  The state the on-chain program (\<open>programs/solans/src\<close>) works on and the steps its handlers share.
  Accounts of the program live in one address space (\<open>ch_accounts\<close>), as on Solana: loading an
  account as a type checks its discriminator, \<open>init\<close> needs a free address and lets the payer fund the
  rent, \<open>close\<close> moves every lamport out and frees the address. What is not code of the repository is
  the record \<open>runtime\<close>, a parameter of every handler: the hash, the program-derived addresses, the
  rent, the System, Token, Associated Token and Metaplex programs. The last four act on the ledger,
  the lamport balances together with a token state of a type \<open>'t\<close> of their own; \<open>tokens_ok\<close> and
  \<open>no_collision\<close>, in later theories, state what properties rely on. An instruction that fails changes nothing,
  so a handler returns an error or the new state.
\<close>

section \<open>Constants of constants.rs\<close>

definition NAME_SEED :: bytes where "NAME_SEED = js ''name''"
definition CONFIG_SEED :: bytes where "CONFIG_SEED = js ''config''"
definition REVERSE_SEED :: bytes where "REVERSE_SEED = js ''reverse''"
definition RUST_LISTING_SEED :: bytes where "RUST_LISTING_SEED = js ''listing''"
definition RUST_OFFER_SEED :: bytes where "RUST_OFFER_SEED = js ''offer''"
definition RUST_AUCTION_SEED :: bytes where "RUST_AUCTION_SEED = js ''auction''"
definition STAKE_POOL_SEED :: bytes where "STAKE_POOL_SEED = js ''stake_pool''"
definition STAKE_SEED :: bytes where "STAKE_SEED = js ''stake''"
definition AUCTION_EXTENSION_SECONDS :: int where "AUCTION_EXTENSION_SECONDS = 300"
definition MAX_FEE_BPS :: int where "MAX_FEE_BPS = 1000"
definition MAX_RECORDS :: nat where "MAX_RECORDS = 16"
definition KEY_MAX_LEN :: nat where "KEY_MAX_LEN = 32"
definition VALUE_MAX_LEN :: nat where "VALUE_MAX_LEN = 200"
definition HOSTING_MAX_LEN :: nat where "HOSTING_MAX_LEN = 80"
definition MPL_NAME_MAX_LEN :: nat where "MPL_NAME_MAX_LEN = 32"
definition RUST_MAX_SUBDOMAIN_DEPTH :: int where "RUST_MAX_SUBDOMAIN_DEPTH = 4"

text \<open>\<open>Pubkey::default()\<close>, in base 58.\<close>

definition default_pubkey :: address where "default_pubkey = replicate 32 49"

section \<open>Errors\<close>

datatype anchor_error =
    AccountNotInitialized | AccountDiscriminatorMismatch | AccountAlreadyInUse
  | ConstraintSeeds | ConstraintTokenMint | ConstraintTokenOwner

datatype tx_error = SolansErr solans_error | AnchorErr anchor_error | CpiErr

definition require :: "bool \<Rightarrow> solans_error \<Rightarrow> tx_error + unit" where
  "require b e = (if b then Inr () else Inl (SolansErr e))"

definition constraint :: "bool \<Rightarrow> anchor_error \<Rightarrow> tx_error + unit" where
  "constraint b e = (if b then Inr () else Inl (AnchorErr e))"

fun lift_err :: "solans_error + 'a \<Rightarrow> tx_error + 'a" where
  "lift_err (Inl e) = Inl (SolansErr e)"
| "lift_err (Inr x) = Inr x"

section \<open>Accounts, events, state\<close>

datatype account =
    NameAcct nameRecord | ConfigAcct config | ListingAcct listing | OfferAcct offer
  | AuctionAcct auction | ReverseAcct reverseRecord | PoolAcct stakePool | StakeAcct stakeAccount

datatype event =
    NameListed bytes address int int
  | ListingCancelled bytes address
  | NameSold bytes address address int int
  | OfferMade bytes address int int
  | OfferAccepted bytes address address int int
  | OfferCancelled bytes address
  | RegisteredWithSolans bytes address int
  | RenewedWithSolans bytes address int
  | BuybackBurn address int int
  | AuctionStarted bytes address int int
  | BidPlaced bytes address int int
  | AuctionSettled bytes address "address option" int int
  | AuctionCancelled bytes address
  | AdminTransferred address address

record token_acct =
  ta_mint :: address
  ta_owner :: address
  ta_amount :: int

type_synonym 't ledger = "(address \<Rightarrow> int) \<times> 't"

type_synonym 't cpi_call = "'t ledger \<Rightarrow> 't ledger option"

text \<open>
  \<open>rt_transfer from mint to authority amount\<close> is \<open>transfer_checked\<close>, \<open>rt_burn mint from authority amount\<close>
  is \<open>burn\<close>, \<open>rt_close account destination authority\<close> is \<open>close_account\<close> of the Token program;
  \<open>rt_ata payer mint owner\<close> creates the associated token account, whose address is
  \<open>rt_ata_address mint owner\<close>; the \<open>rt_mint_*\<close>, \<open>rt_metadata\<close>, \<open>rt_edition\<close> and \<open>rt_burn_nft\<close> calls are
  those of \<open>tokenize_name\<close> and \<open>redeem_name\<close>.
\<close>

record 't runtime =
  rt_keccak :: "bytes \<Rightarrow> bytes"
  find_program_address :: "bytes list \<Rightarrow> address \<times> int"
  create_program_address :: "bytes list \<Rightarrow> int \<Rightarrow> address option"
  pubkey_bytes :: "address \<Rightarrow> bytes"
  rent_exempt :: "account \<Rightarrow> int"
  system_transfer :: "address \<Rightarrow> address \<Rightarrow> int \<Rightarrow> 't cpi_call"
  token_account :: "'t \<Rightarrow> address \<Rightarrow> token_acct option"
  rt_transfer :: "address \<Rightarrow> address \<Rightarrow> address \<Rightarrow> address \<Rightarrow> int \<Rightarrow> 't cpi_call"
  rt_burn :: "address \<Rightarrow> address \<Rightarrow> address \<Rightarrow> int \<Rightarrow> 't cpi_call"
  rt_close :: "address \<Rightarrow> address \<Rightarrow> address \<Rightarrow> 't cpi_call"
  rt_ata_address :: "address \<Rightarrow> address \<Rightarrow> address"
  rt_ata :: "address \<Rightarrow> address \<Rightarrow> address \<Rightarrow> 't cpi_call"
  rt_mint_init :: "address \<Rightarrow> address \<Rightarrow> address \<Rightarrow> 't cpi_call"
  rt_mint_to :: "address \<Rightarrow> address \<Rightarrow> address \<Rightarrow> int \<Rightarrow> 't cpi_call"
  rt_metadata :: "address \<Rightarrow> address \<Rightarrow> address \<Rightarrow> jsstr \<Rightarrow> jsstr \<Rightarrow> 't cpi_call"
  rt_edition :: "address \<Rightarrow> address \<Rightarrow> address \<Rightarrow> int \<Rightarrow> 't cpi_call"
  rt_burn_nft :: "address \<Rightarrow> address \<Rightarrow> address \<Rightarrow> 't cpi_call"

record 't chain =
  ch_accounts :: "address \<Rightarrow> account option"
  ch_lamports :: "address \<Rightarrow> int"
  ch_tokens :: 't
  ch_logs :: "event list"
  ch_return :: bytes

definition cpi :: "'t cpi_call \<Rightarrow> 't chain \<Rightarrow> tx_error + 't chain" where
  "cpi f s =
     (case f (ch_lamports s, ch_tokens s) of
        None \<Rightarrow> Inl CpiErr
      | Some (l, t) \<Rightarrow> Inr (s\<lparr>ch_lamports := l, ch_tokens := t\<rparr>))"

definition emit :: "event \<Rightarrow> 't chain \<Rightarrow> 't chain" where
  "emit e s = s\<lparr>ch_logs := ch_logs s @ [e]\<rparr>"

definition put :: "address \<Rightarrow> account \<Rightarrow> 't chain \<Rightarrow> 't chain" where
  "put a x s = s\<lparr>ch_accounts := (ch_accounts s)(a \<mapsto> x)\<rparr>"

section \<open>Loading, initialising and closing accounts\<close>

fun as_name :: "account \<Rightarrow> nameRecord option" where "as_name (NameAcct r) = Some r" | "as_name x = None"
fun as_config :: "account \<Rightarrow> config option" where "as_config (ConfigAcct c) = Some c" | "as_config x = None"
fun as_listing :: "account \<Rightarrow> listing option" where "as_listing (ListingAcct l) = Some l" | "as_listing x = None"
fun as_offer :: "account \<Rightarrow> offer option" where "as_offer (OfferAcct f) = Some f" | "as_offer x = None"
fun as_auction :: "account \<Rightarrow> auction option" where "as_auction (AuctionAcct u) = Some u" | "as_auction x = None"
fun as_reverse :: "account \<Rightarrow> reverseRecord option" where "as_reverse (ReverseAcct r) = Some r" | "as_reverse x = None"
fun as_pool :: "account \<Rightarrow> stakePool option" where "as_pool (PoolAcct p) = Some p" | "as_pool x = None"
fun as_stake :: "account \<Rightarrow> stakeAccount option" where "as_stake (StakeAcct k) = Some k" | "as_stake x = None"

definition load :: "(account \<Rightarrow> 'a option) \<Rightarrow> 't chain \<Rightarrow> address \<Rightarrow> tx_error + 'a" where
  "load proj s a =
     (case ch_accounts s a of
        None \<Rightarrow> Inl (AnchorErr AccountNotInitialized)
      | Some x \<Rightarrow> (case proj x of None \<Rightarrow> Inl (AnchorErr AccountDiscriminatorMismatch) | Some v \<Rightarrow> Inr v))"

definition seeds_ok :: "'t runtime \<Rightarrow> bytes list \<Rightarrow> int \<Rightarrow> address \<Rightarrow> bool" where
  "seeds_ok R seeds bmp a \<longleftrightarrow> create_program_address R seeds bmp = Some a"

text \<open>\<open>init\<close>: the payer tops the address up to the rent-exempt minimum.\<close>

definition init_account :: "'t runtime \<Rightarrow> address \<Rightarrow> address \<Rightarrow> account \<Rightarrow> 't chain \<Rightarrow> tx_error + 't chain" where
  "init_account R payer a x s =
     bind_res (constraint (ch_accounts s a = None) AccountAlreadyInUse) (\<lambda>_.
     bind_res (cpi (system_transfer R payer a (max 0 (rent_exempt R x - ch_lamports s a))) s) (\<lambda>s.
       Inr (put a x s)))"

definition close_account :: "address \<Rightarrow> address \<Rightarrow> 't chain \<Rightarrow> 't chain" where
  "close_account a dest s =
     s\<lparr>ch_accounts := (ch_accounts s)(a := None),
       ch_lamports := (ch_lamports s)(dest := ch_lamports s dest + ch_lamports s a, a := 0)\<rparr>"

definition config_pda :: "'t runtime \<Rightarrow> address" where
  "config_pda R = fst (find_program_address R [CONFIG_SEED])"

definition pool_pda :: "'t runtime \<Rightarrow> address" where
  "pool_pda R = fst (find_program_address R [STAKE_POOL_SEED])"

definition name_pda :: "'t runtime \<Rightarrow> bytes \<Rightarrow> address" where
  "name_pda R h = fst (find_program_address R [NAME_SEED, h])"

definition listing_pda :: "'t runtime \<Rightarrow> bytes \<Rightarrow> address" where
  "listing_pda R h = fst (find_program_address R [RUST_LISTING_SEED, h])"

definition auction_pda :: "'t runtime \<Rightarrow> bytes \<Rightarrow> address" where
  "auction_pda R h = fst (find_program_address R [RUST_AUCTION_SEED, h])"

definition offer_pda :: "'t runtime \<Rightarrow> bytes \<Rightarrow> address \<Rightarrow> address" where
  "offer_pda R h buyer = fst (find_program_address R [RUST_OFFER_SEED, h, pubkey_bytes R buyer])"

definition reverse_pda :: "'t runtime \<Rightarrow> address \<Rightarrow> address" where
  "reverse_pda R owner = fst (find_program_address R [REVERSE_SEED, pubkey_bytes R owner])"

definition stake_pda :: "'t runtime \<Rightarrow> address \<Rightarrow> address" where
  "stake_pda R staker = fst (find_program_address R [STAKE_SEED, pubkey_bytes R staker])"

text \<open>\<open>#[account(seeds = [CONFIG_SEED], bump = config.bump)]\<close>: only the singleton address passes.\<close>

definition load_config :: "'t runtime \<Rightarrow> 't chain \<Rightarrow> tx_error + config" where
  "load_config R s =
     bind_res (load as_config s (config_pda R)) (\<lambda>c.
     bind_res (constraint (seeds_ok R [CONFIG_SEED] (cfg_bump c) (config_pda R)) ConstraintSeeds) (\<lambda>_. Inr c))"

text \<open>A name record passed with the \<open>seeds\<close> constraint over its own hash and bump.\<close>

definition load_name_pda :: "'t runtime \<Rightarrow> 't chain \<Rightarrow> address \<Rightarrow> tx_error + nameRecord" where
  "load_name_pda R s a =
     bind_res (load as_name s a) (\<lambda>nr.
     bind_res (constraint (seeds_ok R [NAME_SEED, nr_nameHash nr] (nr_bump nr) a) ConstraintSeeds) (\<lambda>_. Inr nr))"

definition load_listing_pda :: "'t runtime \<Rightarrow> 't chain \<Rightarrow> address \<Rightarrow> tx_error + listing" where
  "load_listing_pda R s a =
     bind_res (load as_listing s a) (\<lambda>l.
     bind_res (constraint (seeds_ok R [RUST_LISTING_SEED, ls_nameHash l] (ls_bump l) a) ConstraintSeeds) (\<lambda>_. Inr l))"

definition load_auction_pda :: "'t runtime \<Rightarrow> 't chain \<Rightarrow> address \<Rightarrow> tx_error + auction" where
  "load_auction_pda R s a =
     bind_res (load as_auction s a) (\<lambda>u.
     bind_res (constraint (seeds_ok R [RUST_AUCTION_SEED, au_nameHash u] (au_bump u) a) ConstraintSeeds) (\<lambda>_. Inr u))"

definition load_offer_pda :: "'t runtime \<Rightarrow> 't chain \<Rightarrow> address \<Rightarrow> tx_error + offer" where
  "load_offer_pda R s a =
     bind_res (load as_offer s a) (\<lambda>f.
     bind_res (constraint (seeds_ok R [RUST_OFFER_SEED, of_nameHash f, pubkey_bytes R (of_buyer f)] (of_bump f) a)
       ConstraintSeeds) (\<lambda>_. Inr f))"

text \<open>\<open>token::mint\<close> and \<open>token::authority\<close> constraints on a token account.\<close>

definition load_token :: "'t runtime \<Rightarrow> 't chain \<Rightarrow> address \<Rightarrow> tx_error + token_acct" where
  "load_token R s a =
     (case token_account R (ch_tokens s) a of
        None \<Rightarrow> Inl (AnchorErr AccountNotInitialized) | Some t \<Rightarrow> Inr t)"

definition token_of :: "'t runtime \<Rightarrow> 't chain \<Rightarrow> address \<Rightarrow> address \<Rightarrow> tx_error + token_acct" where
  "token_of R s a mint =
     bind_res (load_token R s a) (\<lambda>t.
     bind_res (constraint (ta_mint t = mint) ConstraintTokenMint) (\<lambda>_. Inr t))"

definition token_owned :: "'t runtime \<Rightarrow> 't chain \<Rightarrow> address \<Rightarrow> address \<Rightarrow> address \<Rightarrow> tx_error + token_acct" where
  "token_owned R s a mint owner =
     bind_res (token_of R s a mint) (\<lambda>t.
     bind_res (constraint (ta_owner t = owner) ConstraintTokenOwner) (\<lambda>_. Inr t))"

section \<open>utils.rs: moving value\<close>

definition move_lamports :: "address \<Rightarrow> address \<Rightarrow> int \<Rightarrow> 't chain \<Rightarrow> tx_error + 't chain" where
  "move_lamports from to amount s =
     (if amount = 0 then Inr s
      else bind_res (lift_err (checked_u 64 (ch_lamports s from - amount))) (\<lambda>f.
           bind_res (lift_err (checked_u 64 (ch_lamports s to + amount))) (\<lambda>t.
             Inr (s\<lparr>ch_lamports := (ch_lamports s)(from := f, to := t)\<rparr>))))"

text \<open>
  \<open>transfer_tokens\<close> and \<open>transfer_tokens_signed\<close> (and the two burns) differ in who signs: the wallet
  or the program for one of its addresses. The authority is an argument of both.
\<close>

definition transfer_tokens ::
  "'t runtime \<Rightarrow> address \<Rightarrow> address \<Rightarrow> address \<Rightarrow> address \<Rightarrow> int \<Rightarrow> 't chain \<Rightarrow> tx_error + 't chain" where
  "transfer_tokens R from to mint authority amount s =
     (if amount = 0 then Inr s else cpi (rt_transfer R from mint to authority amount) s)"

definition burn_tokens ::
  "'t runtime \<Rightarrow> address \<Rightarrow> address \<Rightarrow> address \<Rightarrow> int \<Rightarrow> 't chain \<Rightarrow> tx_error + 't chain" where
  "burn_tokens R mint from authority amount s =
     (if amount = 0 then Inr s else cpi (rt_burn R mint from authority amount) s)"

definition close_token_account ::
  "'t runtime \<Rightarrow> address \<Rightarrow> address \<Rightarrow> address \<Rightarrow> 't chain \<Rightarrow> tx_error + 't chain" where
  "close_token_account R acct destination authority s = cpi (rt_close R acct destination authority) s"

text \<open>The token accounts of a fee payment, with the constraints the four paying handlers share.\<close>

record fee_accounts =
  fa_payer_token :: address
  fa_treasury :: address
  fa_staking_vault :: address
  fa_burn_vault :: address
  fa_referral :: "address option"
  fa_mint :: address

definition fee_accounts_ok ::
  "'t runtime \<Rightarrow> config \<Rightarrow> address \<Rightarrow> fee_accounts \<Rightarrow> 't chain \<Rightarrow> tx_error + unit" where
  "fee_accounts_ok R c payer fa s =
     bind_res (token_owned R s (fa_payer_token fa) (fa_mint fa) payer) (\<lambda>_.
     bind_res (require (fa_treasury fa = cfg_treasuryTokenAccount c) InvalidTreasury) (\<lambda>_.
     bind_res (require (fa_staking_vault fa = cfg_stakingVault c) InvalidTreasury) (\<lambda>_.
     bind_res (require (fa_burn_vault fa = cfg_burnVault c) InvalidTreasury) (\<lambda>_.
     bind_res (case fa_referral fa of None \<Rightarrow> Inr ()
               | Some r \<Rightarrow> bind_res (token_of R s r (fa_mint fa)) (\<lambda>_. Inr ())) (\<lambda>_.
       require (fa_mint fa = cfg_paymentMint c) InvalidMint)))))"

definition distribute_fee ::
  "'t runtime \<Rightarrow> fee_accounts \<Rightarrow> address \<Rightarrow> int \<Rightarrow> config \<Rightarrow> 't chain \<Rightarrow> tx_error + 't chain" where
  "distribute_fee R fa authority amount c s =
     (let (treasury_share, staking_share, referral_share, burn_share) = fee_split c amount;
          pay = (\<lambda>to n. transfer_tokens R (fa_payer_token fa) to (fa_mint fa) authority n)
      in bind_res (pay (fa_staking_vault fa) staking_share s) (\<lambda>s.
         bind_res (pay (fa_burn_vault fa) burn_share s) (\<lambda>s.
         case fa_referral fa of
           Some r \<Rightarrow> bind_res (pay r referral_share s) (\<lambda>s. pay (fa_treasury fa) treasury_share s)
         | None \<Rightarrow> bind_res (lift_err (checked_u 64 (treasury_share + referral_share))) (\<lambda>treasury_share.
             pay (fa_treasury fa) treasury_share s))))"

definition distribute_fee_signed ::
  "'t runtime \<Rightarrow> fee_accounts \<Rightarrow> address \<Rightarrow> int \<Rightarrow> config \<Rightarrow> 't chain \<Rightarrow> tx_error + 't chain" where
  "distribute_fee_signed R fa authority amount c s =
     (let (treasury_share, staking_share, referral_share, burn_share) = fee_split c amount;
          pay = (\<lambda>to n. transfer_tokens R (fa_payer_token fa) to (fa_mint fa) authority n)
      in bind_res (lift_err (checked_u 64 (treasury_share + referral_share))) (\<lambda>treasury_total.
         bind_res (pay (fa_staking_vault fa) staking_share s) (\<lambda>s.
         bind_res (pay (fa_burn_vault fa) burn_share s) (\<lambda>s.
           pay (fa_treasury fa) treasury_total s))))"

text \<open>The marketplace fee of \<open>buy_name\<close>, \<open>accept_offer\<close> and \<open>settle_auction\<close>, and what is left.\<close>

definition marketplace_split :: "config \<Rightarrow> int \<Rightarrow> tx_error + (int \<times> int)" where
  "marketplace_split c price =
     bind_res (lift_err (bind_res (checked_u 128 (price * cfg_marketplaceFeeBps c))
                 (\<lambda>v. checked_div_u v RUST_BPS_DENOMINATOR))) (\<lambda>q.
     let fee = q mod 2 ^ 64 in
     bind_res (lift_err (checked_u 64 (price - fee))) (\<lambda>to_seller. Inr (fee, to_seller)))"

definition name_authority_ok :: "nameRecord \<Rightarrow> address \<Rightarrow> token_acct option \<Rightarrow> bool" where
  "name_authority_ok nr signer nft_token_account \<longleftrightarrow>
     (case nr_nftMint nr of
        Some mint \<Rightarrow> (case nft_token_account of None \<Rightarrow> False
          | Some ta \<Rightarrow> ta_mint ta = mint \<and> ta_owner ta = signer \<and> ta_amount ta = 1)
      | None \<Rightarrow> nr_owner nr = signer)"

definition solans_enabled :: "config \<Rightarrow> bool" where
  "solans_enabled c \<longleftrightarrow> cfg_solansMint c \<noteq> default_pubkey \<and> cfg_solansRate c > 0"

section \<open>Lemmas on the shared steps\<close>

lemma require_Inr [res_simps]: "require b e = Inr u \<longleftrightarrow> b"
  by (auto simp: require_def)

lemma constraint_Inr [res_simps]: "constraint b e = Inr u \<longleftrightarrow> b"
  by (auto simp: constraint_def)

lemma lift_err_Inr [res_simps]: "lift_err r = Inr x \<longleftrightarrow> r = Inr x"
  by (cases r) auto

lemma cpi_Inr [res_simps]:
  "cpi f s = Inr s' \<longleftrightarrow> (\<exists>l t. f (ch_lamports s, ch_tokens s) = Some (l, t) \<and> s' = s\<lparr>ch_lamports := l, ch_tokens := t\<rparr>)"
  by (auto simp: cpi_def split: option.splits)

lemma as_eq_Some [simp]:
  "as_name x = Some r \<longleftrightarrow> x = NameAcct r" "as_config x = Some c \<longleftrightarrow> x = ConfigAcct c"
  "as_listing x = Some l \<longleftrightarrow> x = ListingAcct l" "as_offer x = Some f \<longleftrightarrow> x = OfferAcct f"
  "as_auction x = Some u \<longleftrightarrow> x = AuctionAcct u" "as_reverse x = Some v \<longleftrightarrow> x = ReverseAcct v"
  "as_pool x = Some p \<longleftrightarrow> x = PoolAcct p" "as_stake x = Some k \<longleftrightarrow> x = StakeAcct k"
  by (cases x; auto)+

lemma load_Inr [res_simps]: "load proj s a = Inr v \<longleftrightarrow> (\<exists>x. ch_accounts s a = Some x \<and> proj x = Some v)"
  by (auto simp: load_def split: option.splits)

lemma load_config_Inr [res_simps]:
  "load_config R s = Inr c \<longleftrightarrow>
     ch_accounts s (config_pda R) = Some (ConfigAcct c) \<and> seeds_ok R [CONFIG_SEED] (cfg_bump c) (config_pda R)"
  by (auto simp: load_config_def res_simps)

lemma load_name_pda_Inr [res_simps]:
  "load_name_pda R s a = Inr r \<longleftrightarrow>
     ch_accounts s a = Some (NameAcct r) \<and> seeds_ok R [NAME_SEED, nr_nameHash r] (nr_bump r) a"
  by (auto simp: load_name_pda_def res_simps)

lemma load_listing_pda_Inr [res_simps]:
  "load_listing_pda R s a = Inr l \<longleftrightarrow>
     ch_accounts s a = Some (ListingAcct l) \<and> seeds_ok R [RUST_LISTING_SEED, ls_nameHash l] (ls_bump l) a"
  by (auto simp: load_listing_pda_def res_simps)

lemma load_auction_pda_Inr [res_simps]:
  "load_auction_pda R s a = Inr u \<longleftrightarrow>
     ch_accounts s a = Some (AuctionAcct u) \<and> seeds_ok R [RUST_AUCTION_SEED, au_nameHash u] (au_bump u) a"
  by (auto simp: load_auction_pda_def res_simps)

lemma load_offer_pda_Inr [res_simps]:
  "load_offer_pda R s a = Inr f \<longleftrightarrow>
     ch_accounts s a = Some (OfferAcct f) \<and>
     seeds_ok R [RUST_OFFER_SEED, of_nameHash f, pubkey_bytes R (of_buyer f)] (of_bump f) a"
  by (auto simp: load_offer_pda_def res_simps)

lemma token_Inr [res_simps]:
  "load_token R s a = Inr t \<longleftrightarrow> token_account R (ch_tokens s) a = Some t"
  "token_of R s a m = Inr t \<longleftrightarrow> token_account R (ch_tokens s) a = Some t \<and> ta_mint t = m"
  "token_owned R s a m w = Inr t \<longleftrightarrow> token_account R (ch_tokens s) a = Some t \<and> ta_mint t = m \<and> ta_owner t = w"
  by (auto simp: load_token_def token_of_def token_owned_def res_simps split: option.splits)

text \<open>Which part of the state a shared step touches.\<close>

lemma put_sel [simp]:
  "ch_accounts (put a x s) = (ch_accounts s)(a \<mapsto> x)" "ch_lamports (put a x s) = ch_lamports s"
  "ch_tokens (put a x s) = ch_tokens s" "ch_logs (put a x s) = ch_logs s" "ch_return (put a x s) = ch_return s"
  by (simp_all add: put_def)

lemma emit_sel [simp]:
  "ch_accounts (emit e s) = ch_accounts s" "ch_lamports (emit e s) = ch_lamports s"
  "ch_tokens (emit e s) = ch_tokens s" "ch_return (emit e s) = ch_return s"
  by (simp_all add: emit_def)

lemma close_account_sel [simp]:
  "ch_accounts (close_account a d s) = (ch_accounts s)(a := None)" "ch_tokens (close_account a d s) = ch_tokens s"
  "ch_lamports (close_account a d s) = (ch_lamports s)(d := ch_lamports s d + ch_lamports s a, a := 0)"
  by (simp_all add: close_account_def)

lemma cpi_accounts: "cpi f s = Inr s' \<Longrightarrow> ch_accounts s' = ch_accounts s"
  by (auto simp: res_simps)

lemma init_account_accounts:
  "init_account R payer a x s = Inr s' \<Longrightarrow> ch_accounts s a = None \<and> ch_accounts s' = (ch_accounts s)(a \<mapsto> x)"
  by (auto simp: init_account_def res_simps)

lemma move_lamports_Inr:
  "move_lamports from to n s = Inr s' \<longleftrightarrow>
     (if n = 0 then s' = s
      else 0 \<le> ch_lamports s from - n \<and> ch_lamports s from - n < 2 ^ 64 \<and>
           0 \<le> ch_lamports s to + n \<and> ch_lamports s to + n < 2 ^ 64 \<and>
           s' = s\<lparr>ch_lamports := (ch_lamports s)(from := ch_lamports s from - n, to := ch_lamports s to + n)\<rparr>)"
  by (auto simp: move_lamports_def res_simps)

lemma move_lamports_accounts: "move_lamports from to n s = Inr s' \<Longrightarrow> ch_accounts s' = ch_accounts s"
  by (auto simp: move_lamports_Inr split: if_splits)

lemma transfer_tokens_accounts: "transfer_tokens R f t m au n s = Inr s' \<Longrightarrow> ch_accounts s' = ch_accounts s"
  by (auto simp: transfer_tokens_def res_simps split: if_splits)

lemma burn_tokens_accounts: "burn_tokens R m f au n s = Inr s' \<Longrightarrow> ch_accounts s' = ch_accounts s"
  by (auto simp: burn_tokens_def res_simps split: if_splits)

lemma close_token_accounts: "close_token_account R a d au s = Inr s' \<Longrightarrow> ch_accounts s' = ch_accounts s"
  by (auto simp: close_token_account_def res_simps)

lemma distribute_fee_accounts: "distribute_fee R fa au n c s = Inr s' \<Longrightarrow> ch_accounts s' = ch_accounts s"
  by (auto simp: distribute_fee_def Let_def res_simps split: prod.splits option.splits dest!: transfer_tokens_accounts)

lemma distribute_fee_signed_accounts: "distribute_fee_signed R fa au n c s = Inr s' \<Longrightarrow> ch_accounts s' = ch_accounts s"
  by (auto simp: distribute_fee_signed_def Let_def res_simps split: prod.splits dest!: transfer_tokens_accounts)

lemmas frame_accounts = cpi_accounts move_lamports_accounts transfer_tokens_accounts burn_tokens_accounts close_token_accounts
  distribute_fee_accounts distribute_fee_signed_accounts

end
