(* ===== verification/Chain_Names.thy ===== *)
theory Chain_Names
  imports Chain
begin

text \<open>
  The handlers of the registry (\<open>programs/solans/src/instructions\<close>): registration, renewal, claim,
  transfer, records, delegation, reverse records, subdomains, NFTs and the on-chain resolver. Each
  definition is the \<open>Accounts\<close> struct of the instruction (its constraints first) followed by the body
  of \<open>handler\<close>. A signer is an argument; an account whose address the constraints fix to a derived
  address is looked up there, any other account is an argument. The order among the constraint
  errors of one struct is the order of its fields.
\<close>

section \<open>state/name\_record.rs and utils.rs\<close>

definition blank_name :: nameRecord where
  "blank_name =
     \<lparr>nr_discriminator = NAME_RECORD_DISCRIMINATOR, nr_owner = default_pubkey, nr_controller = None,
      nr_nameHash = replicate 32 0, nr_tld = [], nr_registeredAt = 0, nr_expiresAt = 0, nr_records = [],
      nr_resolver = None, nr_hostingRef = None, nr_transferLocked = False, nr_reverseSet = False,
      nr_nftMint = None, nr_parent = None, nr_parentRegisteredAt = 0, nr_depth = 0, nr_listed = False, nr_bump = 0\<rparr>"

definition init_top_level_record ::
  "nameRecord \<Rightarrow> address \<Rightarrow> bytes \<Rightarrow> jsstr \<Rightarrow> int \<Rightarrow> int \<Rightarrow> int \<Rightarrow> nameRecord" where
  "init_top_level_record nr owner name_hash tld now expires_at bmp =
     nr\<lparr>nr_owner := owner, nr_controller := None, nr_nameHash := name_hash, nr_tld := tld,
        nr_registeredAt := now, nr_expiresAt := expires_at, nr_records := [], nr_resolver := None,
        nr_hostingRef := None, nr_transferLocked := False, nr_reverseSet := False, nr_nftMint := None,
        nr_parent := None, nr_parentRegisteredAt := 0, nr_depth := 0, nr_listed := False, nr_bump := bmp\<rparr>"

fun set_existing :: "jsstr \<Rightarrow> jsstr \<Rightarrow> srecord list \<Rightarrow> srecord list option" where
  "set_existing k v [] = None"
| "set_existing k v (r # rs) =
     (if key r = k then Some (r\<lparr>val := v\<rparr> # rs) else map_option ((#) r) (set_existing k v rs))"

definition upsert_record :: "jsstr \<Rightarrow> jsstr \<Rightarrow> nameRecord \<Rightarrow> tx_error + nameRecord" where
  "upsert_record k v nr =
     (case set_existing k v (nr_records nr) of
        Some rs \<Rightarrow> Inr (nr\<lparr>nr_records := rs\<rparr>)
      | None \<Rightarrow> bind_res (require (length (nr_records nr) < MAX_RECORDS) TooManyRecords) (\<lambda>_.
          Inr (nr\<lparr>nr_records := nr_records nr @ [\<lparr>key = k, val = v\<rparr>]\<rparr>)))"

definition delete_record :: "jsstr \<Rightarrow> nameRecord \<Rightarrow> tx_error + nameRecord" where
  "delete_record k nr =
     (let before = length (nr_records nr); rs = filter (\<lambda>r. key r \<noteq> k) (nr_records nr)
      in bind_res (require (length rs \<noteq> before) RecordNotFound) (\<lambda>_. Inr (nr\<lparr>nr_records := rs\<rparr>)))"

section \<open>Registration and renewal\<close>

definition term_end :: "int \<Rightarrow> int \<Rightarrow> tx_error + int" where
  "term_end now years = lift_err (bind_res (years_to_secs years) (\<lambda>secs. checked_i64 (now + secs)))"

definition register_name_handler ::
  "'t runtime \<Rightarrow> int \<Rightarrow> address \<Rightarrow> address \<Rightarrow> fee_accounts \<Rightarrow> jsstr \<Rightarrow> jsstr \<Rightarrow> bytes \<Rightarrow> int \<Rightarrow> 't chain \<Rightarrow> tx_error + 't chain" where
  "register_name_handler R now payer owner fa name tld name_hash years s =
     bind_res (load_config R s) (\<lambda>c.
     let (a, bmp) = find_program_address R [NAME_SEED, name_hash] in
     bind_res (init_account R payer a (NameAcct blank_name) s) (\<lambda>s.
     bind_res (fee_accounts_ok R c payer fa s) (\<lambda>_.
     bind_res (lift_err (validate_name name)) (\<lambda>_.
     bind_res (lift_err (validate_tld tld)) (\<lambda>_.
     bind_res (require (compute_name_hash (rt_keccak R) name tld = name_hash) NameMismatch) (\<lambda>_.
     bind_res (lift_err (validate_years years (cfg_minYears c) (cfg_maxYears c))) (\<lambda>_.
     bind_res (lift_err (checked_u 64 (price_for_label c name * years))) (\<lambda>amount.
     bind_res (distribute_fee R fa payer amount c s) (\<lambda>s.
     bind_res (term_end now years) (\<lambda>expires_at.
       Inr (put a (NameAcct (init_top_level_record blank_name owner name_hash tld now expires_at bmp)) s)))))))))))"

definition register_with_solans_handler ::
  "'t runtime \<Rightarrow> int \<Rightarrow> address \<Rightarrow> address \<Rightarrow> address \<Rightarrow> address \<Rightarrow> jsstr \<Rightarrow> jsstr \<Rightarrow> bytes \<Rightarrow> int \<Rightarrow> 't chain \<Rightarrow> tx_error + 't chain" where
  "register_with_solans_handler R now payer owner payer_solans_account solans_mint name tld name_hash years s =
     bind_res (load_config R s) (\<lambda>c.
     let (a, bmp) = find_program_address R [NAME_SEED, name_hash] in
     bind_res (init_account R payer a (NameAcct blank_name) s) (\<lambda>s.
     bind_res (token_owned R s payer_solans_account solans_mint payer) (\<lambda>_.
     bind_res (require (solans_mint = cfg_solansMint c) InvalidMint) (\<lambda>_.
     bind_res (lift_err (validate_name name)) (\<lambda>_.
     bind_res (lift_err (validate_tld tld)) (\<lambda>_.
     bind_res (require (compute_name_hash (rt_keccak R) name tld = name_hash) NameMismatch) (\<lambda>_.
     bind_res (require (solans_enabled c) SolansNotConfigured) (\<lambda>_.
     bind_res (lift_err (validate_years years (cfg_minYears c) (cfg_maxYears c))) (\<lambda>_.
     bind_res (lift_err (checked_u 64 (price_for_label c name * years))) (\<lambda>usdc_fee.
     bind_res (lift_err (solans_fee c usdc_fee)) (\<lambda>solans_burned.
     bind_res (burn_tokens R solans_mint payer_solans_account payer solans_burned s) (\<lambda>s.
     bind_res (term_end now years) (\<lambda>expires_at.
       Inr (emit (RegisteredWithSolans name_hash payer solans_burned)
         (put a (NameAcct (init_top_level_record blank_name owner name_hash tld now expires_at bmp)) s)))))))))))))))"

definition renew_name_handler ::
  "'t runtime \<Rightarrow> int \<Rightarrow> address \<Rightarrow> address \<Rightarrow> fee_accounts \<Rightarrow> jsstr \<Rightarrow> jsstr \<Rightarrow> int \<Rightarrow> 't chain \<Rightarrow> tx_error + 't chain" where
  "renew_name_handler R now payer name_record fa name tld years s =
     bind_res (load_config R s) (\<lambda>c.
     bind_res (load as_name s name_record) (\<lambda>nr.
     bind_res (fee_accounts_ok R c payer fa s) (\<lambda>_.
     bind_res (lift_err (validate_name name)) (\<lambda>_.
     bind_res (lift_err (validate_tld tld)) (\<lambda>_.
     bind_res (require (nr_nameHash nr = compute_name_hash (rt_keccak R) name tld) NameMismatch) (\<lambda>_.
     bind_res (lift_err (validate_years years (cfg_minYears c) (cfg_maxYears c))) (\<lambda>_.
     bind_res (lift_err (checked_u 64 (price_for_label c name * years))) (\<lambda>amount.
     bind_res (distribute_fee R fa payer amount c s) (\<lambda>s.
     bind_res (lift_err (renewed_expiry (nr_expiresAt nr) now years)) (\<lambda>e.
       Inr (put name_record (NameAcct (nr\<lparr>nr_expiresAt := e\<rparr>)) s)))))))))))"

definition renew_with_solans_handler ::
  "'t runtime \<Rightarrow> int \<Rightarrow> address \<Rightarrow> address \<Rightarrow> address \<Rightarrow> address \<Rightarrow> jsstr \<Rightarrow> jsstr \<Rightarrow> int \<Rightarrow> 't chain \<Rightarrow> tx_error + 't chain" where
  "renew_with_solans_handler R now payer name_record payer_solans_account solans_mint name tld years s =
     bind_res (load_config R s) (\<lambda>c.
     bind_res (load as_name s name_record) (\<lambda>nr.
     bind_res (token_owned R s payer_solans_account solans_mint payer) (\<lambda>_.
     bind_res (require (solans_mint = cfg_solansMint c) InvalidMint) (\<lambda>_.
     bind_res (lift_err (validate_name name)) (\<lambda>_.
     bind_res (lift_err (validate_tld tld)) (\<lambda>_.
     bind_res (require (nr_nameHash nr = compute_name_hash (rt_keccak R) name tld) NameMismatch) (\<lambda>_.
     bind_res (require (solans_enabled c) SolansNotConfigured) (\<lambda>_.
     bind_res (lift_err (validate_years years (cfg_minYears c) (cfg_maxYears c))) (\<lambda>_.
     bind_res (lift_err (checked_u 64 (price_for_label c name * years))) (\<lambda>usdc_fee.
     bind_res (lift_err (solans_fee c usdc_fee)) (\<lambda>solans_burned.
     bind_res (burn_tokens R solans_mint payer_solans_account payer solans_burned s) (\<lambda>s.
     bind_res (lift_err (renewed_expiry (nr_expiresAt nr) now years)) (\<lambda>e.
       Inr (emit (RenewedWithSolans (nr_nameHash nr) payer solans_burned)
         (put name_record (NameAcct (nr\<lparr>nr_expiresAt := e\<rparr>)) s)))))))))))))))"

text \<open>The keeper's path: \<open>fa_payer_token\<close> is the owner's token account and the Config PDA signs the charge.\<close>

definition auto_renew_handler ::
  "'t runtime \<Rightarrow> int \<Rightarrow> address \<Rightarrow> fee_accounts \<Rightarrow> jsstr \<Rightarrow> jsstr \<Rightarrow> int \<Rightarrow> 't chain \<Rightarrow> tx_error + 't chain" where
  "auto_renew_handler R now name_record fa name tld years s =
     bind_res (load_config R s) (\<lambda>c.
     bind_res (load as_name s name_record) (\<lambda>nr.
     bind_res (token_of R s (fa_payer_token fa) (fa_mint fa)) (\<lambda>ta.
     bind_res (require (ta_owner ta = nr_owner nr) NotOwner) (\<lambda>_.
     bind_res (require (fa_treasury fa = cfg_treasuryTokenAccount c) InvalidTreasury) (\<lambda>_.
     bind_res (require (fa_staking_vault fa = cfg_stakingVault c) InvalidTreasury) (\<lambda>_.
     bind_res (require (fa_burn_vault fa = cfg_burnVault c) InvalidTreasury) (\<lambda>_.
     bind_res (require (fa_mint fa = cfg_paymentMint c) InvalidMint) (\<lambda>_.
     bind_res (lift_err (validate_name name)) (\<lambda>_.
     bind_res (lift_err (validate_tld tld)) (\<lambda>_.
     bind_res (require (nr_nameHash nr = compute_name_hash (rt_keccak R) name tld) NameMismatch) (\<lambda>_.
     bind_res (lift_err (validate_years years (cfg_minYears c) (cfg_maxYears c))) (\<lambda>_.
     bind_res (require (years = 1) InvalidYears) (\<lambda>_.
     bind_res (lift_err (checked_u 64 (price_for_label c name * years))) (\<lambda>amount.
     bind_res (lift_err (checked_i64 (nr_expiresAt nr - RUST_RENEWAL_WINDOW_SECONDS))) (\<lambda>window_opens.
     bind_res (require (window_opens \<le> now) AutoRenewTooEarly) (\<lambda>_.
     bind_res (distribute_fee_signed R fa (config_pda R) amount c s) (\<lambda>s.
     bind_res (lift_err (renewed_expiry (nr_expiresAt nr) now years)) (\<lambda>e.
       Inr (put name_record (NameAcct (nr\<lparr>nr_expiresAt := e\<rparr>)) s)))))))))))))))))))"

definition claim_expired_handler ::
  "'t runtime \<Rightarrow> int \<Rightarrow> address \<Rightarrow> address \<Rightarrow> fee_accounts \<Rightarrow> jsstr \<Rightarrow> jsstr \<Rightarrow> int \<Rightarrow> 't chain \<Rightarrow> tx_error + 't chain" where
  "claim_expired_handler R now claimer name_record fa name tld years s =
     bind_res (load_config R s) (\<lambda>c.
     bind_res (load as_name s name_record) (\<lambda>nr.
     bind_res (fee_accounts_ok R c claimer fa s) (\<lambda>_.
     bind_res (lift_err (validate_name name)) (\<lambda>_.
     bind_res (lift_err (validate_tld tld)) (\<lambda>_.
     bind_res (require (nr_parent nr = None) Subdomain) (\<lambda>_.
     bind_res (require (nr_nameHash nr = compute_name_hash (rt_keccak R) name tld) NameMismatch) (\<lambda>_.
     bind_res (lift_err (checked_i64 (nr_expiresAt nr + cfg_gracePeriodSeconds c))) (\<lambda>grace_end.
     bind_res (require (now > grace_end) NotExpired) (\<lambda>_.
     bind_res (lift_err (validate_years years (cfg_minYears c) (cfg_maxYears c))) (\<lambda>_.
     bind_res (lift_err (checked_u 64 (price_for_label c name * years))) (\<lambda>amount.
     bind_res (distribute_fee R fa claimer amount c s) (\<lambda>s.
     bind_res (term_end now years) (\<lambda>expires_at.
       Inr (put name_record (NameAcct
         (nr\<lparr>nr_owner := claimer, nr_controller := None, nr_registeredAt := now, nr_expiresAt := expires_at,
             nr_records := [], nr_resolver := None, nr_hostingRef := None, nr_transferLocked := False,
             nr_reverseSet := False, nr_nftMint := None, nr_parent := None, nr_parentRegisteredAt := 0,
             nr_depth := 0, nr_listed := False\<rparr>)) s))))))))))))))"

section \<open>Ownership, delegation and records\<close>

text \<open>\<open>#[account(mut, has_one = owner @ NotOwner)]\<close>\<close>

definition load_owned :: "'t chain \<Rightarrow> address \<Rightarrow> address \<Rightarrow> tx_error + nameRecord" where
  "load_owned s owner name_record =
     bind_res (load as_name s name_record) (\<lambda>nr.
     bind_res (require (nr_owner nr = owner) NotOwner) (\<lambda>_. Inr nr))"

definition transfer_name_handler :: "address \<Rightarrow> address \<Rightarrow> address \<Rightarrow> 't chain \<Rightarrow> tx_error + 't chain" where
  "transfer_name_handler owner name_record new_owner s =
     bind_res (load_owned s owner name_record) (\<lambda>nr.
     bind_res (require (nr_nftMint nr = None) Tokenized) (\<lambda>_.
     bind_res (require (\<not> nr_listed nr) Listed) (\<lambda>_.
     bind_res (require (\<not> nr_transferLocked nr) TransferLocked) (\<lambda>_.
       Inr (put name_record (NameAcct (nr\<lparr>nr_owner := new_owner, nr_controller := None, nr_reverseSet := False\<rparr>)) s)))))"

definition lock_transfer_handler :: "address \<Rightarrow> address \<Rightarrow> bool \<Rightarrow> 't chain \<Rightarrow> tx_error + 't chain" where
  "lock_transfer_handler owner name_record lock s =
     bind_res (load_owned s owner name_record) (\<lambda>nr.
     bind_res (require (nr_nftMint nr = None) Tokenized) (\<lambda>_.
     bind_res (require (\<not> nr_listed nr) Listed) (\<lambda>_.
       Inr (put name_record (NameAcct (nr\<lparr>nr_transferLocked := lock\<rparr>)) s))))"

definition set_controller_handler :: "address \<Rightarrow> address \<Rightarrow> address option \<Rightarrow> 't chain \<Rightarrow> tx_error + 't chain" where
  "set_controller_handler owner name_record controller s =
     bind_res (load_owned s owner name_record) (\<lambda>nr.
     bind_res (require (nr_nftMint nr = None) Tokenized) (\<lambda>_.
     bind_res (require (\<not> nr_listed nr) Listed) (\<lambda>_.
       Inr (put name_record (NameAcct (nr\<lparr>nr_controller := controller\<rparr>)) s))))"

text \<open>The optional proof of holdership, deserialized as a token account.\<close>

definition load_nft :: "'t runtime \<Rightarrow> 't chain \<Rightarrow> address option \<Rightarrow> tx_error + token_acct option" where
  "load_nft R s acct =
     (case acct of None \<Rightarrow> Inr None | Some a \<Rightarrow> bind_res (load_token R s a) (\<lambda>t. Inr (Some t)))"

definition update_record_handler ::
  "'t runtime \<Rightarrow> address \<Rightarrow> address \<Rightarrow> address option \<Rightarrow> jsstr \<Rightarrow> jsstr option \<Rightarrow> 't chain \<Rightarrow> tx_error + 't chain" where
  "update_record_handler R authority name_record nft_token_account k v s =
     bind_res (load as_name s name_record) (\<lambda>nr.
     bind_res (load_nft R s nft_token_account) (\<lambda>nft_ta.
     bind_res (require (\<not> nr_listed nr) Listed) (\<lambda>_.
     bind_res (require (name_authority_ok nr authority nft_ta \<or> nr_controller nr = Some authority) NotAuthorized) (\<lambda>_.
     bind_res (require (length (utf8 k) \<le> KEY_MAX_LEN) RecordTooLong) (\<lambda>_.
     bind_res (case v of
         Some v \<Rightarrow> bind_res (require (length (utf8 v) \<le> VALUE_MAX_LEN) RecordTooLong) (\<lambda>_. upsert_record k v nr)
       | None \<Rightarrow> delete_record k nr) (\<lambda>nr.
       Inr (put name_record (NameAcct nr) s)))))))"

definition set_hosting_handler ::
  "'t runtime \<Rightarrow> address \<Rightarrow> address \<Rightarrow> address option \<Rightarrow> jsstr option \<Rightarrow> 't chain \<Rightarrow> tx_error + 't chain" where
  "set_hosting_handler R authority name_record nft_token_account hosting_ref s =
     bind_res (load as_name s name_record) (\<lambda>nr.
     bind_res (load_nft R s nft_token_account) (\<lambda>nft_ta.
     bind_res (require (\<not> nr_listed nr) Listed) (\<lambda>_.
     bind_res (require (name_authority_ok nr authority nft_ta \<or> nr_controller nr = Some authority) NotAuthorized) (\<lambda>_.
     bind_res (case hosting_ref of None \<Rightarrow> Inr ()
               | Some h \<Rightarrow> require (length (utf8 h) \<le> HOSTING_MAX_LEN) RecordTooLong) (\<lambda>_.
       Inr (put name_record (NameAcct (nr\<lparr>nr_hostingRef := hosting_ref\<rparr>)) s))))))"

definition set_resolver_handler ::
  "'t runtime \<Rightarrow> address \<Rightarrow> address \<Rightarrow> address option \<Rightarrow> address option \<Rightarrow> 't chain \<Rightarrow> tx_error + 't chain" where
  "set_resolver_handler R authority name_record nft_token_account resolver s =
     bind_res (load as_name s name_record) (\<lambda>nr.
     bind_res (load_nft R s nft_token_account) (\<lambda>nft_ta.
     bind_res (require (\<not> nr_listed nr) Listed) (\<lambda>_.
     bind_res (require (name_authority_ok nr authority nft_ta) NotAuthorized) (\<lambda>_.
       Inr (put name_record (NameAcct (nr\<lparr>nr_resolver := resolver\<rparr>)) s)))))"

definition blank_reverse :: reverseRecord where
  "blank_reverse = \<lparr>rv_discriminator = REVERSE_RECORD_DISCRIMINATOR, rv_owner = default_pubkey,
     rv_nameHash = replicate 32 0, rv_name = [], rv_tld = [], rv_bump = 0\<rparr>"

text \<open>\<open>init_if_needed\<close>, then every field is rewritten.\<close>

definition set_reverse_handler :: "'t runtime \<Rightarrow> address \<Rightarrow> address \<Rightarrow> jsstr \<Rightarrow> 't chain \<Rightarrow> tx_error + 't chain" where
  "set_reverse_handler R owner name_record name s =
     bind_res (load_owned s owner name_record) (\<lambda>nr.
     let (ra, bmp) = find_program_address R [REVERSE_SEED, pubkey_bytes R owner] in
     bind_res (if ch_accounts s ra = None then init_account R owner ra (ReverseAcct blank_reverse) s else Inr s) (\<lambda>s.
     bind_res (load as_reverse s ra) (\<lambda>rv.
     bind_res (require (nr_nftMint nr = None) Tokenized) (\<lambda>_.
     bind_res (require (\<not> nr_listed nr) Listed) (\<lambda>_.
     bind_res (require (nr_parent nr = None) Subdomain) (\<lambda>_.
     bind_res (require (compute_name_hash (rt_keccak R) name (nr_tld nr) = nr_nameHash nr) NameMismatch) (\<lambda>_.
       Inr (put name_record (NameAcct (nr\<lparr>nr_reverseSet := True\<rparr>))
         (put ra (ReverseAcct (rv\<lparr>rv_owner := owner, rv_nameHash := nr_nameHash nr, rv_name := name,
                                  rv_tld := nr_tld nr, rv_bump := bmp\<rparr>)) s)))))))))"

definition burn_name_handler :: "address \<Rightarrow> address \<Rightarrow> 't chain \<Rightarrow> tx_error + 't chain" where
  "burn_name_handler owner name_record s =
     bind_res (load_owned s owner name_record) (\<lambda>nr.
     bind_res (require (nr_nftMint nr = None) Tokenized) (\<lambda>_.
     bind_res (require (\<not> nr_listed nr) Listed) (\<lambda>_.
       Inr (close_account name_record owner s))))"

section \<open>Subdomains\<close>

definition wrap_subdomain_handler ::
  "'t runtime \<Rightarrow> int \<Rightarrow> address \<Rightarrow> address \<Rightarrow> address \<Rightarrow> jsstr \<Rightarrow> bytes \<Rightarrow> 't chain \<Rightarrow> tx_error + 't chain" where
  "wrap_subdomain_handler R now owner subdomain_owner parent_name label name_hash s =
     bind_res (load_name_pda R s parent_name) (\<lambda>parent.
     bind_res (require (nr_owner parent = owner) NotOwner) (\<lambda>_.
     let (a, bmp) = find_program_address R [NAME_SEED, name_hash] in
     bind_res (init_account R owner a (NameAcct blank_name) s) (\<lambda>s.
     bind_res (require (nr_nftMint parent = None) Tokenized) (\<lambda>_.
     bind_res (require (\<not> nr_listed parent) Listed) (\<lambda>_.
     bind_res (require (now \<le> nr_expiresAt parent) ParentExpired) (\<lambda>_.
     bind_res (lift_err (validate_name label)) (\<lambda>_.
     bind_res (lift_err (checked_u 8 (nr_depth parent + 1))) (\<lambda>depth.
     bind_res (require (depth \<le> RUST_MAX_SUBDOMAIN_DEPTH) TooDeep) (\<lambda>_.
     bind_res (require (compute_subdomain_hash (rt_keccak R) (nr_nameHash parent) label = name_hash) NameMismatch) (\<lambda>_.
       Inr (put a (NameAcct
         (blank_name\<lparr>nr_owner := subdomain_owner, nr_controller := None, nr_nameHash := name_hash,
            nr_tld := nr_tld parent, nr_registeredAt := now, nr_expiresAt := nr_expiresAt parent, nr_records := [],
            nr_resolver := None, nr_hostingRef := None, nr_transferLocked := False, nr_reverseSet := False,
            nr_nftMint := None, nr_parent := Some parent_name, nr_parentRegisteredAt := nr_registeredAt parent,
            nr_depth := depth, nr_listed := False, nr_bump := bmp\<rparr>)) s)))))))))))"

definition revoke_subdomain_handler ::
  "'t runtime \<Rightarrow> address \<Rightarrow> address \<Rightarrow> address \<Rightarrow> 't chain \<Rightarrow> tx_error + 't chain" where
  "revoke_subdomain_handler R owner parent_name name_record s =
     bind_res (load_name_pda R s parent_name) (\<lambda>parent.
     bind_res (require (nr_owner parent = owner) NotOwner) (\<lambda>_.
     bind_res (load_name_pda R s name_record) (\<lambda>nr.
     bind_res (require (nr_parent nr = Some parent_name) NotParent) (\<lambda>_.
     bind_res (require (nr_nftMint nr = None) Tokenized) (\<lambda>_.
       Inr (close_account name_record owner s))))))"

section \<open>NFTs\<close>

text \<open>\<open>while nft_name.len() > MPL_NAME_MAX_LEN \{ nft_name.pop(); \}\<close>\<close>

function pop_to_cap :: "jsstr \<Rightarrow> jsstr" where
  "pop_to_cap nm = (if length (utf8 nm) > MPL_NAME_MAX_LEN then pop_to_cap (butlast nm) else nm)"
  by pat_completeness auto

lemma utf8_nonempty: "length (utf8 nm) > n \<Longrightarrow> nm \<noteq> []"
  by (auto simp: utf8_def)

termination pop_to_cap
  by (relation "measure length") (auto dest: utf8_nonempty)

definition tokenize_name_handler ::
  "'t runtime \<Rightarrow> address \<Rightarrow> address \<Rightarrow> address \<Rightarrow> jsstr \<Rightarrow> 't chain \<Rightarrow> tx_error + 't chain" where
  "tokenize_name_handler R owner name_record mint name s =
     bind_res (load_name_pda R s name_record) (\<lambda>nr.
     bind_res (require (nr_owner nr = owner) NotOwner) (\<lambda>_.
     bind_res (cpi (rt_mint_init R owner mint name_record) s) (\<lambda>s.
     bind_res (cpi (rt_ata R owner mint owner) s) (\<lambda>s.
     bind_res (require (nr_nftMint nr = None) Tokenized) (\<lambda>_.
     bind_res (require (\<not> nr_listed nr) Listed) (\<lambda>_.
     bind_res (require (nr_parent nr = None) Subdomain) (\<lambda>_.
     bind_res (require (compute_name_hash (rt_keccak R) name (nr_tld nr) = nr_nameHash nr) NameMismatch) (\<lambda>_.
     let nft_name = pop_to_cap (name @ js ''.'' @ nr_tld nr) in
     bind_res (cpi (rt_mint_to R mint (rt_ata_address R mint owner) name_record 1) s) (\<lambda>s.
     bind_res (cpi (rt_metadata R mint name_record owner nft_name (js ''SOLANS'')) s) (\<lambda>s.
     bind_res (cpi (rt_edition R mint name_record owner 0) s) (\<lambda>s.
       Inr (put name_record (NameAcct (nr\<lparr>nr_nftMint := Some mint\<rparr>)) s))))))))))))"

definition redeem_name_handler ::
  "'t runtime \<Rightarrow> address \<Rightarrow> address \<Rightarrow> address \<Rightarrow> address \<Rightarrow> 't chain \<Rightarrow> tx_error + 't chain" where
  "redeem_name_handler R redeemer name_record mint token_acc s =
     bind_res (load_name_pda R s name_record) (\<lambda>nr.
     bind_res (token_owned R s token_acc mint redeemer) (\<lambda>ta.
     bind_res (require (ta_amount ta = 1) NotAuthorized) (\<lambda>_.
     bind_res (require (nr_nftMint nr = Some mint) InvalidNftMint) (\<lambda>_.
     bind_res (cpi (rt_burn_nft R mint token_acc redeemer) s) (\<lambda>s.
       Inr (put name_record (NameAcct (nr\<lparr>nr_owner := redeemer, nr_controller := None, nr_reverseSet := False,
                                          nr_nftMint := None\<rparr>)) s))))))"

section \<open>The on-chain resolver\<close>

definition resolve_handler ::
  "'t runtime \<Rightarrow> int \<Rightarrow> address \<Rightarrow> bytes \<Rightarrow> jsstr option \<Rightarrow> 't chain \<Rightarrow> tx_error + 't chain" where
  "resolve_handler R now name_record name_hash record_key s =
     bind_res (load as_name s name_record) (\<lambda>nr.
     bind_res (require (nr_nameHash nr = name_hash) NameMismatch) (\<lambda>_.
     bind_res (require (now \<le> nr_expiresAt nr) NameExpired) (\<lambda>_.
     let data = (case record_key of
           Some k \<Rightarrow> (case List.find (\<lambda>r. key r = k) (nr_records nr) of Some r \<Rightarrow> utf8 (val r) | None \<Rightarrow> [])
         | None \<Rightarrow> pubkey_bytes R (nr_owner nr))
     in Inr (s\<lparr>ch_return := data\<rparr>))))"

section \<open>Lemmas on records\<close>

lemma load_owned_Inr [res_simps]:
  "load_owned s w a = Inr r \<longleftrightarrow> ch_accounts s a = Some (NameAcct r) \<and> nr_owner r = w"
  by (auto simp: load_owned_def res_simps)

lemma set_existing_Some:
  "set_existing k v rs = Some rs' \<Longrightarrow> map key rs' = map key rs \<and> k \<in> key ` set rs \<and>
     (\<forall>r\<in>set rs'. r \<in> set rs \<or> (key r = k \<and> val r = v))"
  by (induction rs arbitrary: rs') (auto split: if_splits)

lemma set_existing_None: "set_existing k v rs = None \<longleftrightarrow> k \<notin> key ` set rs"
  by (induction rs) auto

text \<open>The size of the fixed allocation: at most 16 records with distinct keys, each within its caps.\<close>

definition records_ok :: "srecord list \<Rightarrow> bool" where
  "records_ok rs \<longleftrightarrow> length rs \<le> MAX_RECORDS \<and> distinct (map key rs) \<and>
     (\<forall>r\<in>set rs. length (utf8 (key r)) \<le> KEY_MAX_LEN \<and> length (utf8 (val r)) \<le> VALUE_MAX_LEN)"

lemma upsert_record_ok:
  assumes "upsert_record k v nr = Inr nr'" "records_ok (nr_records nr)"
    "length (utf8 k) \<le> KEY_MAX_LEN" "length (utf8 v) \<le> VALUE_MAX_LEN"
  shows "\<exists>rs. nr' = nr\<lparr>nr_records := rs\<rparr> \<and> records_ok rs"
proof (cases "set_existing k v (nr_records nr)")
  case None
  then have "nr' = nr\<lparr>nr_records := nr_records nr @ [\<lparr>key = k, val = v\<rparr>]\<rparr>" "length (nr_records nr) < MAX_RECORDS"
    using assms(1) by (auto simp: upsert_record_def res_simps)
  moreover have "k \<notin> key ` set (nr_records nr)" using None by (simp only: set_existing_None not_False_eq_True)
  ultimately show ?thesis using assms(2,3,4)
    by (auto simp: records_ok_def intro!: exI[of _ "nr_records nr @ [\<lparr>key = k, val = v\<rparr>]"])
next
  case (Some rs)
  from set_existing_Some[OF this] have m: "map key rs = map key (nr_records nr)"
    "\<forall>r\<in>set rs. r \<in> set (nr_records nr) \<or> (key r = k \<and> val r = v)" by auto
  then have "records_ok rs" using assms(2,3,4) map_eq_imp_length_eq[OF m(1)] unfolding records_ok_def by auto
  then show ?thesis using assms(1) Some by (auto simp: upsert_record_def)
qed

lemma delete_record_ok:
  "delete_record k nr = Inr nr' \<Longrightarrow> records_ok (nr_records nr) \<Longrightarrow> \<exists>rs. nr' = nr\<lparr>nr_records := rs\<rparr> \<and> records_ok rs"
  by (auto simp: delete_record_def Let_def res_simps records_ok_def distinct_map inj_on_def
      intro: order_trans[OF length_filter_le])

end
