(* ===== verification/Chain_Market.thy ===== *)
theory Chain_Market
  imports Chain_Names
begin

text \<open>
  The marketplace handlers of \<open>programs/solans/src/instructions\<close>: fixed-price listings, standing
  offers with their lamport escrow, and English auctions with their token vault.
\<close>

section \<open>Listings\<close>

definition blank_listing :: listing where
  "blank_listing = \<lparr>ls_discriminator = LISTING_DISCRIMINATOR, ls_seller = default_pubkey,
     ls_nameHash = replicate 32 0, ls_price = 0, ls_expiresAt = 0, ls_bump = 0\<rparr>"

definition list_name_handler ::
  "'t runtime \<Rightarrow> int \<Rightarrow> address \<Rightarrow> address \<Rightarrow> int \<Rightarrow> int \<Rightarrow> 't chain \<Rightarrow> tx_error + 't chain" where
  "list_name_handler R now owner name_record price duration_seconds s =
     bind_res (load_name_pda R s name_record) (\<lambda>nr.
     bind_res (require (nr_owner nr = owner) NotOwner) (\<lambda>_.
     let (la, bmp) = find_program_address R [RUST_LISTING_SEED, nr_nameHash nr] in
     bind_res (init_account R owner la (ListingAcct blank_listing) s) (\<lambda>s.
     bind_res (require (nr_nftMint nr = None) Tokenized) (\<lambda>_.
     bind_res (require (\<not> nr_transferLocked nr) TransferLocked) (\<lambda>_.
     bind_res (require (\<not> nr_listed nr) Listed) (\<lambda>_.
     bind_res (require (duration_seconds > 0) ListingExpired) (\<lambda>_.
     bind_res (lift_err (checked_i64 (now + duration_seconds))) (\<lambda>expires_at.
       Inr (emit (NameListed (nr_nameHash nr) owner price expires_at)
         (put name_record (NameAcct (nr\<lparr>nr_listed := True\<rparr>))
           (put la (ListingAcct (blank_listing\<lparr>ls_seller := owner, ls_nameHash := nr_nameHash nr, ls_price := price,
              ls_expiresAt := expires_at, ls_bump := bmp\<rparr>)) s)))))))))))"

definition cancel_listing_handler ::
  "'t runtime \<Rightarrow> int \<Rightarrow> address \<Rightarrow> address \<Rightarrow> address \<Rightarrow> 't chain \<Rightarrow> tx_error + 't chain" where
  "cancel_listing_handler R now canceller name_record listing_acct s =
     bind_res (load_listing_pda R s listing_acct) (\<lambda>l.
     bind_res (load_name_pda R s name_record) (\<lambda>nr.
     bind_res (require (nr_nameHash nr = ls_nameHash l) NotListed) (\<lambda>_.
     bind_res (require (canceller = ls_seller l \<or> now > ls_expiresAt l) NotSeller) (\<lambda>_.
       Inr (close_account listing_acct (ls_seller l)
         (emit (ListingCancelled (ls_nameHash l) (ls_seller l))
           (put name_record (NameAcct (nr\<lparr>nr_listed := False\<rparr>)) s)))))))"

definition update_listing_handler ::
  "'t runtime \<Rightarrow> int \<Rightarrow> address \<Rightarrow> address \<Rightarrow> int \<Rightarrow> int \<Rightarrow> 't chain \<Rightarrow> tx_error + 't chain" where
  "update_listing_handler R now seller listing_acct price duration_seconds s =
     bind_res (load_listing_pda R s listing_acct) (\<lambda>l.
     bind_res (require (ls_seller l = seller) NotSeller) (\<lambda>_.
     bind_res (require (duration_seconds > 0) ListingExpired) (\<lambda>_.
     bind_res (lift_err (checked_i64 (now + duration_seconds))) (\<lambda>e.
       Inr (put listing_acct (ListingAcct (l\<lparr>ls_price := price, ls_expiresAt := e\<rparr>)) s)))))"

text \<open>The seller and the treasury are the accounts the constraints pin (\<open>listing.seller\<close>, \<open>config.sol_treasury\<close>).\<close>

definition buy_name_handler ::
  "'t runtime \<Rightarrow> int \<Rightarrow> address \<Rightarrow> address \<Rightarrow> address \<Rightarrow> int \<Rightarrow> 't chain \<Rightarrow> tx_error + 't chain" where
  "buy_name_handler R now buyer name_record listing_acct expected_price s =
     bind_res (load_config R s) (\<lambda>c.
     bind_res (load_listing_pda R s listing_acct) (\<lambda>l.
     bind_res (load_name_pda R s name_record) (\<lambda>nr.
     bind_res (require (nr_nameHash nr = ls_nameHash l) NotListed) (\<lambda>_.
     bind_res (require (nr_listed nr) NotListed) (\<lambda>_.
     bind_res (require (nr_owner nr = ls_seller l) NotSeller) (\<lambda>_.
     bind_res (require (buyer \<noteq> ls_seller l) SelfPurchase) (\<lambda>_.
     bind_res (require (now \<le> ls_expiresAt l) ListingExpired) (\<lambda>_.
     bind_res (require (expected_price = ls_price l) PriceMismatch) (\<lambda>_.
     bind_res (marketplace_split c (ls_price l)) (\<lambda>(fee, to_seller).
     bind_res (if to_seller > 0 then cpi (system_transfer R buyer (ls_seller l) to_seller) s else Inr s) (\<lambda>s.
     bind_res (if fee > 0 then cpi (system_transfer R buyer (cfg_solTreasury c) fee) s else Inr s) (\<lambda>s.
       Inr (close_account listing_acct (ls_seller l)
         (emit (NameSold (nr_nameHash nr) (ls_seller l) buyer (ls_price l) fee)
           (put name_record (NameAcct (nr\<lparr>nr_owner := buyer, nr_controller := None, nr_reverseSet := False,
                                          nr_listed := False\<rparr>)) s)))))))))))))))"

section \<open>Offers\<close>

definition blank_offer :: offer where
  "blank_offer = \<lparr>of_discriminator = OFFER_DISCRIMINATOR, of_buyer = default_pubkey,
     of_nameHash = replicate 32 0, of_amount = 0, of_expiresAt = 0, of_bump = 0\<rparr>"

definition make_offer_handler ::
  "'t runtime \<Rightarrow> int \<Rightarrow> address \<Rightarrow> address \<Rightarrow> int \<Rightarrow> int \<Rightarrow> 't chain \<Rightarrow> tx_error + 't chain" where
  "make_offer_handler R now buyer name_record amount duration_seconds s =
     bind_res (load_name_pda R s name_record) (\<lambda>nr.
     let (oa, bmp) = find_program_address R [RUST_OFFER_SEED, nr_nameHash nr, pubkey_bytes R buyer] in
     bind_res (init_account R buyer oa (OfferAcct blank_offer) s) (\<lambda>s.
     bind_res (require (duration_seconds > 0) OfferExpired) (\<lambda>_.
     bind_res (lift_err (checked_i64 (now + duration_seconds))) (\<lambda>expires_at.
     bind_res (cpi (system_transfer R buyer oa amount)
         (put oa (OfferAcct (blank_offer\<lparr>of_buyer := buyer, of_nameHash := nr_nameHash nr, of_amount := amount,
                                         of_expiresAt := expires_at, of_bump := bmp\<rparr>)) s)) (\<lambda>s.
       Inr (emit (OfferMade (nr_nameHash nr) buyer amount expires_at) s))))))"

definition accept_offer_handler ::
  "'t runtime \<Rightarrow> int \<Rightarrow> address \<Rightarrow> address \<Rightarrow> address \<Rightarrow> 't chain \<Rightarrow> tx_error + 't chain" where
  "accept_offer_handler R now owner name_record offer_acct s =
     bind_res (load_config R s) (\<lambda>c.
     bind_res (load_offer_pda R s offer_acct) (\<lambda>f.
     bind_res (load_name_pda R s name_record) (\<lambda>nr.
     bind_res (require (nr_owner nr = owner) NotOwner) (\<lambda>_.
     bind_res (require (nr_nameHash nr = of_nameHash f) NotOfferer) (\<lambda>_.
     bind_res (require (nr_nftMint nr = None) Tokenized) (\<lambda>_.
     bind_res (require (\<not> nr_listed nr) Listed) (\<lambda>_.
     bind_res (require (now \<le> of_expiresAt f) OfferExpired) (\<lambda>_.
     bind_res (require (of_buyer f \<noteq> owner) SelfPurchase) (\<lambda>_.
     bind_res (marketplace_split c (of_amount f)) (\<lambda>(fee, to_owner).
     bind_res (move_lamports offer_acct owner to_owner s) (\<lambda>s.
     bind_res (move_lamports offer_acct (cfg_solTreasury c) fee s) (\<lambda>s.
       Inr (close_account offer_acct (of_buyer f)
         (emit (OfferAccepted (nr_nameHash nr) owner (of_buyer f) (of_amount f) fee)
           (put name_record (NameAcct (nr\<lparr>nr_owner := of_buyer f, nr_controller := None, nr_reverseSet := False\<rparr>)) s)))))))))))))))"

definition cancel_offer_handler ::
  "'t runtime \<Rightarrow> int \<Rightarrow> address \<Rightarrow> address option \<Rightarrow> address \<Rightarrow> 't chain \<Rightarrow> tx_error + 't chain" where
  "cancel_offer_handler R now canceller name_record offer_acct s =
     bind_res (load_offer_pda R s offer_acct) (\<lambda>f.
     bind_res (case name_record of None \<Rightarrow> Inr None
               | Some a \<Rightarrow> bind_res (load_name_pda R s a) (\<lambda>nr. Inr (Some nr))) (\<lambda>name_record.
     let is_owner = (case name_record of None \<Rightarrow> False
           | Some nr \<Rightarrow> nr_nameHash nr = of_nameHash f \<and> nr_owner nr = canceller) in
     bind_res (require (canceller = of_buyer f \<or> is_owner \<or> now > of_expiresAt f) NotOfferer) (\<lambda>_.
       Inr (close_account offer_acct (of_buyer f) (emit (OfferCancelled (of_nameHash f) (of_buyer f)) s)))))"

section \<open>Auctions\<close>

definition blank_auction :: auction where
  "blank_auction = \<lparr>au_discriminator = AUCTION_DISCRIMINATOR, au_seller = default_pubkey,
     au_nameHash = replicate 32 0, au_bidVault = default_pubkey, au_highestBidder = None, au_highestBid = 0,
     au_reservePrice = 0, au_minIncrement = 0, au_endTime = 0, au_bump = 0\<rparr>"

definition start_auction_handler ::
  "'t runtime \<Rightarrow> int \<Rightarrow> address \<Rightarrow> address \<Rightarrow> address \<Rightarrow> int \<Rightarrow> int \<Rightarrow> int \<Rightarrow> 't chain \<Rightarrow> tx_error + 't chain" where
  "start_auction_handler R now owner name_record solans_mint reserve_price min_increment duration_seconds s =
     bind_res (load_config R s) (\<lambda>c.
     bind_res (load_name_pda R s name_record) (\<lambda>nr.
     bind_res (require (nr_owner nr = owner) NotOwner) (\<lambda>_.
     let (ua, bmp) = find_program_address R [RUST_AUCTION_SEED, nr_nameHash nr] in
     bind_res (init_account R owner ua (AuctionAcct blank_auction) s) (\<lambda>s.
     bind_res (require (solans_mint = cfg_solansMint c) InvalidMint) (\<lambda>_.
     bind_res (cpi (rt_ata R owner solans_mint ua) s) (\<lambda>s.
     bind_res (require (solans_enabled c) SolansNotConfigured) (\<lambda>_.
     bind_res (require (nr_nftMint nr = None) Tokenized) (\<lambda>_.
     bind_res (require (nr_parent nr = None) Subdomain) (\<lambda>_.
     bind_res (require (\<not> nr_transferLocked nr) TransferLocked) (\<lambda>_.
     bind_res (require (\<not> nr_listed nr) Listed) (\<lambda>_.
     bind_res (require (duration_seconds > 0) AuctionEnded) (\<lambda>_.
     bind_res (lift_err (checked_i64 (now + duration_seconds))) (\<lambda>end_time.
       Inr (emit (AuctionStarted (nr_nameHash nr) owner reserve_price end_time)
         (put name_record (NameAcct (nr\<lparr>nr_listed := True\<rparr>))
           (put ua (AuctionAcct (blank_auction\<lparr>au_seller := owner, au_nameHash := nr_nameHash nr,
              au_bidVault := rt_ata_address R solans_mint ua, au_highestBidder := None, au_highestBid := 0,
              au_reservePrice := reserve_price, au_minIncrement := min_increment, au_endTime := end_time,
              au_bump := bmp\<rparr>)) s))))))))))))))))"

text \<open>The first bid must clear the reserve, a later one the standing bid and the increment.\<close>

definition min_required :: "auction \<Rightarrow> tx_error + int" where
  "min_required u =
     (case au_highestBidder u of
        Some b \<Rightarrow> lift_err (checked_u 64 (au_highestBid u + au_minIncrement u))
      | None \<Rightarrow> Inr (au_reservePrice u))"

definition refund_previous ::
  "'t runtime \<Rightarrow> address \<Rightarrow> auction \<Rightarrow> address option \<Rightarrow> address \<Rightarrow> 't chain \<Rightarrow> tx_error + 't chain" where
  "refund_previous R auction_acct u prev_bidder_solans_account solans_mint s =
     (if au_highestBidder u = None then Inr s
      else case prev_bidder_solans_account of
        None \<Rightarrow> Inl (SolansErr WrongRefundAccount)
      | Some p \<Rightarrow> transfer_tokens R (au_bidVault u) p solans_mint auction_acct (au_highestBid u) s)"

text \<open>\<open>bid_vault\<close> is the account pinned to \<open>auction.bid_vault\<close>.\<close>

definition bid_handler ::
  "'t runtime \<Rightarrow> int \<Rightarrow> address \<Rightarrow> address \<Rightarrow> address \<Rightarrow> address option \<Rightarrow> address \<Rightarrow> int \<Rightarrow> 't chain \<Rightarrow> tx_error + 't chain" where
  "bid_handler R now bidder auction_acct bidder_solans_account prev_bidder_solans_account solans_mint amount s =
     bind_res (load_auction_pda R s auction_acct) (\<lambda>u.
     bind_res (token_owned R s bidder_solans_account solans_mint bidder) (\<lambda>_.
     bind_res (case prev_bidder_solans_account of None \<Rightarrow> Inr ()
               | Some p \<Rightarrow> bind_res (token_of R s p solans_mint) (\<lambda>t.
                   require (au_highestBidder u = Some (ta_owner t)) WrongRefundAccount)) (\<lambda>_.
     bind_res (token_of R s (au_bidVault u) solans_mint) (\<lambda>_.
     bind_res (require (now < au_endTime u) AuctionEnded) (\<lambda>_.
     bind_res (require (bidder \<noteq> au_seller u) SelfBid) (\<lambda>_.
     bind_res (min_required u) (\<lambda>required.
     bind_res (require (amount > 0 \<and> amount \<ge> required) BidTooLow) (\<lambda>_.
     bind_res (refund_previous R auction_acct u prev_bidder_solans_account solans_mint s) (\<lambda>s.
     bind_res (transfer_tokens R bidder_solans_account (au_bidVault u) solans_mint bidder amount s) (\<lambda>s.
     bind_res (lift_err (checked_i64 (now + AUCTION_EXTENSION_SECONDS))) (\<lambda>min_end.
     let end_time = (if au_endTime u < min_end then min_end else au_endTime u) in
       Inr (emit (BidPlaced (au_nameHash u) bidder amount end_time)
         (put auction_acct (AuctionAcct (u\<lparr>au_highestBidder := Some bidder, au_highestBid := amount,
                                           au_endTime := end_time\<rparr>)) s)))))))))))))"

text \<open>With a winner: pay the seller and burn the fee out of the vault, and move the name.\<close>

definition pay_winner ::
  "'t runtime \<Rightarrow> config \<Rightarrow> address \<Rightarrow> auction \<Rightarrow> address option \<Rightarrow> address \<Rightarrow> nameRecord \<Rightarrow> 't chain \<Rightarrow>
   tx_error + (int \<times> nameRecord \<times> 't chain)" where
  "pay_winner R c auction_acct u seller_solans_account solans_mint nr s =
     (case au_highestBidder u of
        None \<Rightarrow> Inr (0, nr, s)
      | Some winner \<Rightarrow>
          bind_res (marketplace_split c (au_highestBid u)) (\<lambda>(fee, to_seller).
          case seller_solans_account of
            None \<Rightarrow> Inl (SolansErr InvalidTreasury)
          | Some seller_solans \<Rightarrow>
              bind_res (transfer_tokens R (au_bidVault u) seller_solans solans_mint auction_acct to_seller s) (\<lambda>s.
              bind_res (burn_tokens R solans_mint (au_bidVault u) auction_acct fee s) (\<lambda>s.
                Inr (fee, nr\<lparr>nr_owner := winner, nr_controller := None, nr_reverseSet := False\<rparr>, s)))))"

definition settle_auction_handler ::
  "'t runtime \<Rightarrow> int \<Rightarrow> address option \<Rightarrow> address \<Rightarrow> address \<Rightarrow> address \<Rightarrow> 't chain \<Rightarrow> tx_error + 't chain" where
  "settle_auction_handler R now seller_solans_account name_record auction_acct solans_mint s =
     bind_res (load_config R s) (\<lambda>c.
     bind_res (load_auction_pda R s auction_acct) (\<lambda>u.
     bind_res (case seller_solans_account of None \<Rightarrow> Inr ()
               | Some a \<Rightarrow> bind_res (token_owned R s a solans_mint (au_seller u)) (\<lambda>_. Inr ())) (\<lambda>_.
     bind_res (load_name_pda R s name_record) (\<lambda>nr.
     bind_res (require (nr_nameHash nr = au_nameHash u) NameMismatch) (\<lambda>_.
     bind_res (token_of R s (au_bidVault u) solans_mint) (\<lambda>_.
     bind_res (require (now \<ge> au_endTime u) AuctionActive) (\<lambda>_.
     bind_res (pay_winner R c auction_acct u seller_solans_account solans_mint nr s) (\<lambda>(fee, nr, s).
     bind_res (close_token_account R (au_bidVault u) (au_seller u) auction_acct
                 (put name_record (NameAcct (nr\<lparr>nr_listed := False\<rparr>)) s)) (\<lambda>s.
       Inr (close_account auction_acct (au_seller u)
         (emit (AuctionSettled (au_nameHash u) (au_seller u) (au_highestBidder u) (au_highestBid u) fee) s)))))))))))"

definition cancel_auction_handler ::
  "'t runtime \<Rightarrow> address \<Rightarrow> address \<Rightarrow> address \<Rightarrow> 't chain \<Rightarrow> tx_error + 't chain" where
  "cancel_auction_handler R seller name_record auction_acct s =
     bind_res (load_auction_pda R s auction_acct) (\<lambda>u.
     bind_res (load_name_pda R s name_record) (\<lambda>nr.
     bind_res (require (nr_nameHash nr = au_nameHash u) NameMismatch) (\<lambda>_.
     bind_res (require (au_seller u = seller) NotSeller) (\<lambda>_.
     bind_res (load_token R s (au_bidVault u)) (\<lambda>_.
     bind_res (require (au_highestBidder u = None) AuctionHasBids) (\<lambda>_.
     bind_res (close_token_account R (au_bidVault u) seller auction_acct
                 (put name_record (NameAcct (nr\<lparr>nr_listed := False\<rparr>)) s)) (\<lambda>s.
       Inr (close_account auction_acct seller
         (emit (AuctionCancelled (au_nameHash u) seller) s)))))))))"

section \<open>Lemmas on the auction steps\<close>

lemma min_required_Inr [res_simps]:
  "min_required u = Inr n \<longleftrightarrow> n = (case au_highestBidder u of None \<Rightarrow> au_reservePrice u | Some b \<Rightarrow> au_highestBid u + au_minIncrement u) \<and>
     (au_highestBidder u \<noteq> None \<longrightarrow> u64 n)"
  by (auto simp: min_required_def res_simps u64_def split: option.splits)

lemma refund_previous_accounts: "refund_previous R ua u prev m s = Inr s' \<Longrightarrow> ch_accounts s' = ch_accounts s"
  by (auto simp: refund_previous_def split: if_splits option.splits dest: transfer_tokens_accounts)

lemma pay_winner_Inr:
  "pay_winner R c ua u sa m nr s = Inr (fee, nr', s') \<Longrightarrow>
     nr' = (case au_highestBidder u of None \<Rightarrow> nr | Some v \<Rightarrow> nr\<lparr>nr_owner := v, nr_controller := None, nr_reverseSet := False\<rparr>) \<and>
     ch_accounts s' = ch_accounts s"
  by (auto simp: pay_winner_def res_simps split: option.splits dest!: transfer_tokens_accounts burn_tokens_accounts)

end
