(* ===== verification/Chain_Stake.thy ===== *)
theory Chain_Stake
  imports Chain
begin

text \<open>
  The staking pool and the configuration handlers of \<open>programs/solans/src/instructions\<close>. The pool's
  two vaults are token accounts the pool's address owns; \<open>sync\<close>, \<open>accrued\<close> and \<open>pending\<close> are the
  accumulator of \<open>state/stake.rs\<close>, modelled in \<open>Program\<close>.
\<close>

section \<open>stake.rs, unstake.rs, claim\_rewards.rs\<close>

definition blank_stake :: stakeAccount where
  "blank_stake = \<lparr>sa_discriminator = STAKE_ACCOUNT_DISCRIMINATOR, sa_owner = default_pubkey, sa_amount = 0,
     sa_rewardDebt = 0, sa_bump = 0\<rparr>"

definition load_pool :: "'t runtime \<Rightarrow> 't chain \<Rightarrow> tx_error + stakePool" where
  "load_pool R s =
     bind_res (load as_pool s (pool_pda R)) (\<lambda>p.
     bind_res (constraint (seeds_ok R [STAKE_POOL_SEED] (sp_bump p) (pool_pda R)) ConstraintSeeds) (\<lambda>_. Inr p))"

text \<open>The three handlers first credit the new deposits, then pay the pending reward out of the vault.\<close>

definition settle_pending ::
  "'t runtime \<Rightarrow> config \<Rightarrow> stakePool \<Rightarrow> stakeAccount \<Rightarrow> address \<Rightarrow> int \<Rightarrow> 't chain \<Rightarrow> tx_error + (stakePool \<times> 't chain)" where
  "settle_pending R c pool k staker_reward_account reward_before s =
     bind_res (lift_err (sync pool reward_before)) (\<lambda>pool.
     bind_res (lift_err (pending pool k)) (\<lambda>n.
     bind_res (transfer_tokens R (sp_rewardVault pool) staker_reward_account (cfg_paymentMint c) (pool_pda R) n s) (\<lambda>s.
       Inr (pool, s))))"

text \<open>\<open>reward_vault.reload()\<close> and the watermark, the last step of all three.\<close>

definition rebaseline :: "'t runtime \<Rightarrow> stakePool \<Rightarrow> 't chain \<Rightarrow> tx_error + 't chain" where
  "rebaseline R pool s =
     bind_res (load_token R s (sp_rewardVault pool)) (\<lambda>v.
       Inr (put (pool_pda R) (PoolAcct (pool\<lparr>sp_lastRewardBalance := ta_amount v\<rparr>)) s))"

definition stake_handler ::
  "'t runtime \<Rightarrow> address \<Rightarrow> address \<Rightarrow> address \<Rightarrow> int \<Rightarrow> 't chain \<Rightarrow> tx_error + 't chain" where
  "stake_handler R staker staker_token_account staker_reward_account amount s =
     bind_res (load_config R s) (\<lambda>c.
     bind_res (load_pool R s) (\<lambda>pool.
     let (ka, bmp) = find_program_address R [STAKE_SEED, pubkey_bytes R staker] in
     bind_res (if ch_accounts s ka = None then init_account R staker ka (StakeAcct blank_stake) s else Inr s) (\<lambda>s.
     bind_res (load as_stake s ka) (\<lambda>k.
     bind_res (token_owned R s staker_token_account (sp_solansMint pool) staker) (\<lambda>_.
     bind_res (token_owned R s staker_reward_account (cfg_paymentMint c) staker) (\<lambda>_.
     bind_res (load_token R s (sp_stakeVault pool)) (\<lambda>_.
     bind_res (load_token R s (sp_rewardVault pool)) (\<lambda>rv.
     bind_res (require (amount > 0) InsufficientStake) (\<lambda>_.
     let k = (if sa_owner k = default_pubkey then k\<lparr>sa_owner := staker, sa_bump := bmp\<rparr> else k) in
     bind_res (settle_pending R c pool k staker_reward_account (ta_amount rv) s) (\<lambda>(pool, s).
     bind_res (transfer_tokens R staker_token_account (sp_stakeVault pool) (sp_solansMint pool) staker amount s) (\<lambda>s.
     bind_res (lift_err (checked_u 64 (sp_totalStaked pool + amount))) (\<lambda>total.
     bind_res (lift_err (checked_u 64 (sa_amount k + amount))) (\<lambda>amt.
     let pool = pool\<lparr>sp_totalStaked := total\<rparr> in
     bind_res (lift_err (accrued pool amt)) (\<lambda>debt.
       rebaseline R pool (put ka (StakeAcct (k\<lparr>sa_amount := amt, sa_rewardDebt := debt\<rparr>)) s)))))))))))))))"

text \<open>\<open>seeds = [STAKE_SEED, staker], bump = stake_account.bump\<close>\<close>

definition load_stake :: "'t runtime \<Rightarrow> 't chain \<Rightarrow> address \<Rightarrow> tx_error + stakeAccount" where
  "load_stake R s staker =
     bind_res (load as_stake s (stake_pda R staker)) (\<lambda>k.
     bind_res (constraint (seeds_ok R [STAKE_SEED, pubkey_bytes R staker] (sa_bump k) (stake_pda R staker)) ConstraintSeeds)
       (\<lambda>_. Inr k))"

definition unstake_handler ::
  "'t runtime \<Rightarrow> address \<Rightarrow> address \<Rightarrow> address \<Rightarrow> int \<Rightarrow> 't chain \<Rightarrow> tx_error + 't chain" where
  "unstake_handler R staker staker_token_account staker_reward_account amount s =
     bind_res (load_config R s) (\<lambda>c.
     bind_res (load_pool R s) (\<lambda>pool.
     bind_res (load_stake R s staker) (\<lambda>k.
     bind_res (token_owned R s staker_token_account (sp_solansMint pool) staker) (\<lambda>_.
     bind_res (token_owned R s staker_reward_account (cfg_paymentMint c) staker) (\<lambda>_.
     bind_res (load_token R s (sp_stakeVault pool)) (\<lambda>_.
     bind_res (load_token R s (sp_rewardVault pool)) (\<lambda>rv.
     bind_res (require (sa_amount k \<ge> amount) InsufficientStake) (\<lambda>_.
     bind_res (settle_pending R c pool k staker_reward_account (ta_amount rv) s) (\<lambda>(pool, s).
     bind_res (transfer_tokens R (sp_stakeVault pool) staker_token_account (sp_solansMint pool) (pool_pda R) amount s) (\<lambda>s.
     bind_res (lift_err (checked_u 64 (sp_totalStaked pool - amount))) (\<lambda>total.
     bind_res (lift_err (checked_u 64 (sa_amount k - amount))) (\<lambda>amt.
     let pool = pool\<lparr>sp_totalStaked := total\<rparr> in
     bind_res (lift_err (accrued pool amt)) (\<lambda>debt.
       rebaseline R pool (put (stake_pda R staker) (StakeAcct (k\<lparr>sa_amount := amt, sa_rewardDebt := debt\<rparr>)) s))))))))))))))"

definition claim_rewards_handler :: "'t runtime \<Rightarrow> address \<Rightarrow> address \<Rightarrow> 't chain \<Rightarrow> tx_error + 't chain" where
  "claim_rewards_handler R staker staker_reward_account s =
     bind_res (load_config R s) (\<lambda>c.
     bind_res (load_pool R s) (\<lambda>pool.
     bind_res (load_stake R s staker) (\<lambda>k.
     bind_res (token_owned R s staker_reward_account (cfg_paymentMint c) staker) (\<lambda>_.
     bind_res (load_token R s (sp_rewardVault pool)) (\<lambda>rv.
     bind_res (settle_pending R c pool k staker_reward_account (ta_amount rv) s) (\<lambda>(pool, s).
     bind_res (lift_err (accrued pool (sa_amount k))) (\<lambda>debt.
       rebaseline R pool (put (stake_pda R staker) (StakeAcct (k\<lparr>sa_rewardDebt := debt\<rparr>)) s))))))))"

section \<open>buyback\_burn.rs\<close>

definition buyback_burn_handler ::
  "'t runtime \<Rightarrow> address \<Rightarrow> address \<Rightarrow> address \<Rightarrow> int \<Rightarrow> 't chain \<Rightarrow> tx_error + 't chain" where
  "buyback_burn_handler R keeper keeper_payment_account keeper_solans_account solans_amount s =
     bind_res (load_config R s) (\<lambda>c.
     bind_res (token_owned R s (cfg_burnVault c) (cfg_paymentMint c) (config_pda R)) (\<lambda>bv.
     bind_res (token_owned R s keeper_payment_account (cfg_paymentMint c) keeper) (\<lambda>_.
     bind_res (token_owned R s keeper_solans_account (cfg_solansMint c) keeper) (\<lambda>_.
     bind_res (require (solans_enabled c) SolansNotConfigured) (\<lambda>_.
     bind_res (require (solans_amount > 0) InsufficientBurnVault) (\<lambda>_.
     bind_res (lift_err (buyback_usdc c solans_amount)) (\<lambda>usdc_out.
     bind_res (require (usdc_out > 0) InsufficientBurnVault) (\<lambda>_.
     bind_res (require (usdc_out \<le> ta_amount bv) InsufficientBurnVault) (\<lambda>_.
     bind_res (transfer_tokens R (cfg_burnVault c) keeper_payment_account (cfg_paymentMint c) (config_pda R) usdc_out s) (\<lambda>s.
     bind_res (burn_tokens R (cfg_solansMint c) keeper_solans_account keeper solans_amount s) (\<lambda>s.
       Inr (emit (BuybackBurn keeper solans_amount usdc_out) s))))))))))))"

section \<open>Configuration\<close>

text \<open>The arguments \<open>init_config\<close> and \<open>update_config\<close> have in common.\<close>

record config_params =
  p_price_1 :: int
  p_price_2 :: int
  p_price_3 :: int
  p_price_4 :: int
  p_price_5plus :: int
  p_price_numeric :: int
  p_grace_period_seconds :: int
  p_min_years :: int
  p_max_years :: int
  p_sol_treasury :: address
  p_marketplace_fee_bps :: int
  p_staking_fee_bps :: int
  p_referral_fee_bps :: int
  p_burn_fee_bps :: int

definition params_ok :: "config_params \<Rightarrow> tx_error + unit" where
  "params_ok p =
     bind_res (require (p_min_years p \<ge> 1 \<and> p_min_years p \<le> p_max_years p) InvalidYears) (\<lambda>_.
     bind_res (require (p_grace_period_seconds p \<ge> 0) InvalidYears) (\<lambda>_.
     bind_res (require (p_price_1 p > 0 \<and> p_price_2 p > 0 \<and> p_price_3 p > 0 \<and> p_price_4 p > 0 \<and>
                        p_price_5plus p > 0 \<and> p_price_numeric p > 0) InvalidPrice) (\<lambda>_.
     bind_res (require (p_marketplace_fee_bps p \<le> MAX_FEE_BPS) InvalidFeeBps) (\<lambda>_.
       require (p_staking_fee_bps p + p_referral_fee_bps p + p_burn_fee_bps p < RUST_BPS_DENOMINATOR) InvalidFeeSplit))))"

definition with_params :: "config_params \<Rightarrow> config \<Rightarrow> config" where
  "with_params p c =
     c\<lparr>cfg_price1 := p_price_1 p, cfg_price2 := p_price_2 p, cfg_price3 := p_price_3 p, cfg_price4 := p_price_4 p,
       cfg_price5plus := p_price_5plus p, cfg_priceNumeric := p_price_numeric p,
       cfg_gracePeriodSeconds := p_grace_period_seconds p, cfg_minYears := p_min_years p, cfg_maxYears := p_max_years p,
       cfg_solTreasury := p_sol_treasury p, cfg_marketplaceFeeBps := p_marketplace_fee_bps p,
       cfg_stakingFeeBps := p_staking_fee_bps p, cfg_referralFeeBps := p_referral_fee_bps p,
       cfg_burnFeeBps := p_burn_fee_bps p\<rparr>"

definition blank_config :: config where
  "blank_config = \<lparr>cfg_discriminator = CONFIG_DISCRIMINATOR, cfg_admin = default_pubkey, cfg_paymentMint = default_pubkey,
     cfg_treasuryTokenAccount = default_pubkey, cfg_price1 = 0, cfg_price2 = 0, cfg_price3 = 0, cfg_price4 = 0,
     cfg_price5plus = 0, cfg_priceNumeric = 0, cfg_gracePeriodSeconds = 0, cfg_minYears = 0, cfg_maxYears = 0,
     cfg_solTreasury = default_pubkey, cfg_marketplaceFeeBps = 0, cfg_stakingVault = default_pubkey,
     cfg_burnVault = default_pubkey, cfg_stakingFeeBps = 0, cfg_referralFeeBps = 0, cfg_burnFeeBps = 0,
     cfg_solansMint = default_pubkey, cfg_solansRate = 0, cfg_solansDiscountBps = 0, cfg_bump = 0\<rparr>"

definition init_config_handler ::
  "'t runtime \<Rightarrow> address \<Rightarrow> address \<Rightarrow> address \<Rightarrow> address \<Rightarrow> address \<Rightarrow> config_params \<Rightarrow> 't chain \<Rightarrow> tx_error + 't chain" where
  "init_config_handler R admin payment_mint treasury staking_vault burn_vault p s =
     (let (ca, bmp) = find_program_address R [CONFIG_SEED] in
      bind_res (init_account R admin ca (ConfigAcct blank_config) s) (\<lambda>s.
      bind_res (token_of R s treasury payment_mint) (\<lambda>_.
      bind_res (token_of R s staking_vault payment_mint) (\<lambda>_.
      bind_res (token_of R s burn_vault payment_mint) (\<lambda>_.
      bind_res (params_ok p) (\<lambda>_.
        Inr (put ca (ConfigAcct (with_params p
          (blank_config\<lparr>cfg_admin := admin, cfg_paymentMint := payment_mint, cfg_treasuryTokenAccount := treasury,
             cfg_stakingVault := staking_vault, cfg_burnVault := burn_vault, cfg_solansMint := default_pubkey,
             cfg_solansRate := 0, cfg_solansDiscountBps := 0, cfg_bump := bmp\<rparr>))) s)))))))"

text \<open>\<open>has_one = admin @ NotAdmin\<close>\<close>

definition load_admin_config :: "'t runtime \<Rightarrow> address \<Rightarrow> 't chain \<Rightarrow> tx_error + config" where
  "load_admin_config R admin s =
     bind_res (load_config R s) (\<lambda>c. bind_res (require (cfg_admin c = admin) NotAdmin) (\<lambda>_. Inr c))"

definition update_config_handler :: "'t runtime \<Rightarrow> address \<Rightarrow> config_params \<Rightarrow> 't chain \<Rightarrow> tx_error + 't chain" where
  "update_config_handler R admin p s =
     bind_res (load_admin_config R admin s) (\<lambda>c.
     bind_res (params_ok p) (\<lambda>_.
       Inr (put (config_pda R) (ConfigAcct (with_params p c)) s)))"

definition transfer_admin_handler :: "'t runtime \<Rightarrow> address \<Rightarrow> address \<Rightarrow> 't chain \<Rightarrow> tx_error + 't chain" where
  "transfer_admin_handler R admin new_admin s =
     bind_res (load_admin_config R admin s) (\<lambda>c.
       Inr (emit (AdminTransferred (cfg_admin c) new_admin)
         (put (config_pda R) (ConfigAcct (c\<lparr>cfg_admin := new_admin\<rparr>)) s)))"

definition set_solans_params_handler :: "'t runtime \<Rightarrow> address \<Rightarrow> int \<Rightarrow> int \<Rightarrow> 't chain \<Rightarrow> tx_error + 't chain" where
  "set_solans_params_handler R admin solans_rate solans_discount_bps s =
     bind_res (load_admin_config R admin s) (\<lambda>c.
     bind_res (require (solans_discount_bps < RUST_BPS_DENOMINATOR) InvalidDiscount) (\<lambda>_.
       Inr (put (config_pda R) (ConfigAcct (c\<lparr>cfg_solansRate := solans_rate,
                                              cfg_solansDiscountBps := solans_discount_bps\<rparr>)) s)))"

definition init_burn_pool_handler ::
  "'t runtime \<Rightarrow> address \<Rightarrow> address \<Rightarrow> address \<Rightarrow> 't chain \<Rightarrow> tx_error + 't chain" where
  "init_burn_pool_handler R admin solans_mint payment_mint s =
     bind_res (load_admin_config R admin s) (\<lambda>c.
     bind_res (require (payment_mint = cfg_paymentMint c) InvalidMint) (\<lambda>_.
     bind_res (cpi (rt_ata R admin payment_mint (config_pda R)) s) (\<lambda>s.
       Inr (put (config_pda R) (ConfigAcct (c\<lparr>cfg_burnVault := rt_ata_address R payment_mint (config_pda R),
                                              cfg_solansMint := solans_mint\<rparr>)) s))))"

definition blank_pool :: stakePool where
  "blank_pool = \<lparr>sp_discriminator = STAKE_POOL_DISCRIMINATOR, sp_solansMint = default_pubkey,
     sp_stakeVault = default_pubkey, sp_rewardVault = default_pubkey, sp_totalStaked = 0,
     sp_accRewardPerShare = 0, sp_lastRewardBalance = 0, sp_bump = 0\<rparr>"

definition init_stake_pool_handler ::
  "'t runtime \<Rightarrow> address \<Rightarrow> address \<Rightarrow> address \<Rightarrow> 't chain \<Rightarrow> tx_error + 't chain" where
  "init_stake_pool_handler R admin solans_mint payment_mint s =
     bind_res (load_admin_config R admin s) (\<lambda>c.
     let (pa, bmp) = find_program_address R [STAKE_POOL_SEED] in
     bind_res (init_account R admin pa (PoolAcct blank_pool) s) (\<lambda>s.
     bind_res (require (payment_mint = cfg_paymentMint c) InvalidMint) (\<lambda>_.
     bind_res (cpi (rt_ata R admin solans_mint pa) s) (\<lambda>s.
     bind_res (cpi (rt_ata R admin payment_mint pa) s) (\<lambda>s.
       Inr (put (config_pda R) (ConfigAcct (c\<lparr>cfg_stakingVault := rt_ata_address R payment_mint pa\<rparr>))
         (put pa (PoolAcct (blank_pool\<lparr>sp_solansMint := solans_mint, sp_stakeVault := rt_ata_address R solans_mint pa,
            sp_rewardVault := rt_ata_address R payment_mint pa, sp_totalStaked := 0, sp_accRewardPerShare := 0,
            sp_lastRewardBalance := 0, sp_bump := bmp\<rparr>)) s)))))))"

section \<open>Lemmas on the shared steps\<close>

lemma load_pool_Inr [res_simps]:
  "load_pool R s = Inr p \<longleftrightarrow>
     ch_accounts s (pool_pda R) = Some (PoolAcct p) \<and> seeds_ok R [STAKE_POOL_SEED] (sp_bump p) (pool_pda R)"
  by (auto simp: load_pool_def res_simps)

lemma load_stake_Inr [res_simps]:
  "load_stake R s w = Inr k \<longleftrightarrow> ch_accounts s (stake_pda R w) = Some (StakeAcct k) \<and>
     seeds_ok R [STAKE_SEED, pubkey_bytes R w] (sa_bump k) (stake_pda R w)"
  by (auto simp: load_stake_def res_simps)

lemma settle_pending_accounts: "settle_pending R c p k ra n s = Inr x \<Longrightarrow> ch_accounts (snd x) = ch_accounts s"
  by (auto simp: settle_pending_def res_simps dest: transfer_tokens_accounts)

lemma rebaseline_accounts:
  "rebaseline R p s = Inr s' \<Longrightarrow> \<exists>p'. ch_accounts s' = (ch_accounts s)(pool_pda R \<mapsto> PoolAcct p')"
  by (auto simp: rebaseline_def res_simps)

lemma load_admin_config_Inr [res_simps]:
  "load_admin_config R v s = Inr c \<longleftrightarrow> load_config R s = Inr c \<and> cfg_admin c = v"
  by (auto simp: load_admin_config_def res_simps)

end
