(* ===== verification/Chain_Run.thy ===== *)
theory Chain_Run
  imports Chain_Market Chain_Stake
begin

text \<open>
  The program as a whole: the instructions of \<open>lib.rs\<close> with their dispatch, and the abstract registry
  that the handlers implement. \<open>registry_step\<close> says, rule by rule, what an instruction may do to the
  accounts of the program and who must have signed it; every successful handler is an instance of a
  rule (\<open>exec_registry_step\<close>), so an invariant needs one case per rule and not one per handler.
\<close>

section \<open>lib.rs: instructions and dispatch\<close>

datatype instr =
    Ix_init_config address address address address address config_params
  | Ix_update_config address config_params
  | Ix_transfer_admin address address
  | Ix_register_name address address fee_accounts jsstr jsstr bytes int
  | Ix_update_record address address "address option" jsstr "jsstr option"
  | Ix_transfer_name address address address
  | Ix_renew_name address address fee_accounts jsstr jsstr int
  | Ix_auto_renew address address fee_accounts jsstr jsstr int
  | Ix_set_controller address address "address option"
  | Ix_lock_transfer address address bool
  | Ix_burn_name address address
  | Ix_claim_expired address address fee_accounts jsstr jsstr int
  | Ix_set_reverse address address jsstr
  | Ix_set_hosting address address "address option" "jsstr option"
  | Ix_set_resolver address address "address option" "address option"
  | Ix_tokenize_name address address address jsstr
  | Ix_redeem_name address address address address
  | Ix_wrap_subdomain address address address jsstr bytes
  | Ix_revoke_subdomain address address address
  | Ix_list_name address address int int
  | Ix_buy_name address address address int
  | Ix_cancel_listing address address address
  | Ix_update_listing address address int int
  | Ix_make_offer address address int int
  | Ix_accept_offer address address address
  | Ix_cancel_offer address "address option" address
  | Ix_init_stake_pool address address address
  | Ix_stake address address address int
  | Ix_unstake address address address int
  | Ix_claim_rewards address address
  | Ix_init_burn_pool address address address
  | Ix_set_solans_params address int int
  | Ix_register_with_solans address address address address jsstr jsstr bytes int
  | Ix_renew_with_solans address address address address jsstr jsstr int
  | Ix_buyback_burn address address address int
  | Ix_start_auction address address address int int int
  | Ix_bid address address address "address option" address int
  | Ix_settle_auction address "address option" address address address
  | Ix_cancel_auction address address address
  | Ix_resolve address bytes "jsstr option"

primrec exec :: "'t runtime \<Rightarrow> int \<Rightarrow> instr \<Rightarrow> 't chain \<Rightarrow> tx_error + 't chain" where
  "exec R now (Ix_init_config admin m t sv bv p) = init_config_handler R admin m t sv bv p"
| "exec R now (Ix_update_config admin p) = update_config_handler R admin p"
| "exec R now (Ix_transfer_admin admin w) = transfer_admin_handler R admin w"
| "exec R now (Ix_register_name payer w fa name tld h y) = register_name_handler R now payer w fa name tld h y"
| "exec R now (Ix_update_record w a nft k v) = update_record_handler R w a nft k v"
| "exec R now (Ix_transfer_name w a w') = transfer_name_handler w a w'"
| "exec R now (Ix_renew_name payer a fa name tld y) = renew_name_handler R now payer a fa name tld y"
| "exec R now (Ix_auto_renew keeper a fa name tld y) = auto_renew_handler R now a fa name tld y"
| "exec R now (Ix_set_controller w a ct) = set_controller_handler w a ct"
| "exec R now (Ix_lock_transfer w a b) = lock_transfer_handler w a b"
| "exec R now (Ix_burn_name w a) = burn_name_handler w a"
| "exec R now (Ix_claim_expired w a fa name tld y) = claim_expired_handler R now w a fa name tld y"
| "exec R now (Ix_set_reverse w a name) = set_reverse_handler R w a name"
| "exec R now (Ix_set_hosting w a nft h) = set_hosting_handler R w a nft h"
| "exec R now (Ix_set_resolver w a nft v) = set_resolver_handler R w a nft v"
| "exec R now (Ix_tokenize_name w a m name) = tokenize_name_handler R w a m name"
| "exec R now (Ix_redeem_name w a m ta) = redeem_name_handler R w a m ta"
| "exec R now (Ix_wrap_subdomain w w' p label h) = wrap_subdomain_handler R now w w' p label h"
| "exec R now (Ix_revoke_subdomain w p a) = revoke_subdomain_handler R w p a"
| "exec R now (Ix_list_name w a price d) = list_name_handler R now w a price d"
| "exec R now (Ix_buy_name w a la price) = buy_name_handler R now w a la price"
| "exec R now (Ix_cancel_listing w a la) = cancel_listing_handler R now w a la"
| "exec R now (Ix_update_listing w la price d) = update_listing_handler R now w la price d"
| "exec R now (Ix_make_offer w a n d) = make_offer_handler R now w a n d"
| "exec R now (Ix_accept_offer w a oa) = accept_offer_handler R now w a oa"
| "exec R now (Ix_cancel_offer w a oa) = cancel_offer_handler R now w a oa"
| "exec R now (Ix_init_stake_pool admin m pm) = init_stake_pool_handler R admin m pm"
| "exec R now (Ix_stake w ta ra n) = stake_handler R w ta ra n"
| "exec R now (Ix_unstake w ta ra n) = unstake_handler R w ta ra n"
| "exec R now (Ix_claim_rewards w ra) = claim_rewards_handler R w ra"
| "exec R now (Ix_init_burn_pool admin m pm) = init_burn_pool_handler R admin m pm"
| "exec R now (Ix_set_solans_params admin rate d) = set_solans_params_handler R admin rate d"
| "exec R now (Ix_register_with_solans payer w ta m name tld h y) = register_with_solans_handler R now payer w ta m name tld h y"
| "exec R now (Ix_renew_with_solans payer a ta m name tld y) = renew_with_solans_handler R now payer a ta m name tld y"
| "exec R now (Ix_buyback_burn keeper pa sa n) = buyback_burn_handler R keeper pa sa n"
| "exec R now (Ix_start_auction w a m r inc d) = start_auction_handler R now w a m r inc d"
| "exec R now (Ix_bid w ua ta prev m n) = bid_handler R now w ua ta prev m n"
| "exec R now (Ix_settle_auction settler sa a ua m) = settle_auction_handler R now sa a ua m"
| "exec R now (Ix_cancel_auction w a ua) = cancel_auction_handler R w a ua"
| "exec R now (Ix_resolve a h k) = resolve_handler R now a h k"

text \<open>The wallet that signs, the \<open>Signer\<close> of the instruction's struct; \<open>resolve\<close> has none.\<close>

primrec signer :: "instr \<Rightarrow> address option" where
  "signer (Ix_init_config w m t sv bv p) = Some w"
| "signer (Ix_update_config w p) = Some w"
| "signer (Ix_transfer_admin w w') = Some w"
| "signer (Ix_register_name w w' fa name tld h y) = Some w"
| "signer (Ix_update_record w a nft k v) = Some w"
| "signer (Ix_transfer_name w a w') = Some w"
| "signer (Ix_renew_name w a fa name tld y) = Some w"
| "signer (Ix_auto_renew w a fa name tld y) = Some w"
| "signer (Ix_set_controller w a ct) = Some w"
| "signer (Ix_lock_transfer w a b) = Some w"
| "signer (Ix_burn_name w a) = Some w"
| "signer (Ix_claim_expired w a fa name tld y) = Some w"
| "signer (Ix_set_reverse w a name) = Some w"
| "signer (Ix_set_hosting w a nft h) = Some w"
| "signer (Ix_set_resolver w a nft v) = Some w"
| "signer (Ix_tokenize_name w a m name) = Some w"
| "signer (Ix_redeem_name w a m ta) = Some w"
| "signer (Ix_wrap_subdomain w w' p label h) = Some w"
| "signer (Ix_revoke_subdomain w p a) = Some w"
| "signer (Ix_list_name w a price d) = Some w"
| "signer (Ix_buy_name w a la price) = Some w"
| "signer (Ix_cancel_listing w a la) = Some w"
| "signer (Ix_update_listing w la price d) = Some w"
| "signer (Ix_make_offer w a n d) = Some w"
| "signer (Ix_accept_offer w a oa) = Some w"
| "signer (Ix_cancel_offer w a oa) = Some w"
| "signer (Ix_init_stake_pool w m pm) = Some w"
| "signer (Ix_stake w ta ra n) = Some w"
| "signer (Ix_unstake w ta ra n) = Some w"
| "signer (Ix_claim_rewards w ra) = Some w"
| "signer (Ix_init_burn_pool w m pm) = Some w"
| "signer (Ix_set_solans_params w rate d) = Some w"
| "signer (Ix_register_with_solans w w' ta m name tld h y) = Some w"
| "signer (Ix_renew_with_solans w a ta m name tld y) = Some w"
| "signer (Ix_buyback_burn w pa sa n) = Some w"
| "signer (Ix_start_auction w a m r inc d) = Some w"
| "signer (Ix_bid w ua ta prev m n) = Some w"
| "signer (Ix_settle_auction w sa a ua m) = Some w"
| "signer (Ix_cancel_auction w a ua) = Some w"
| "signer (Ix_resolve a h k) = None"

section \<open>The abstract registry\<close>

type_synonym accounts = "address \<Rightarrow> account option"

text \<open>A change of owner drops what the old owner delegated.\<close>

definition moved :: "nameRecord \<Rightarrow> address \<Rightarrow> nameRecord" where
  "moved r w = r\<lparr>nr_owner := w, nr_controller := None, nr_reverseSet := False\<rparr>"

definition reclaimed :: "nameRecord \<Rightarrow> address \<Rightarrow> int \<Rightarrow> int \<Rightarrow> nameRecord" where
  "reclaimed r w now e =
     r\<lparr>nr_owner := w, nr_controller := None, nr_registeredAt := now, nr_expiresAt := e, nr_records := [],
       nr_resolver := None, nr_hostingRef := None, nr_transferLocked := False, nr_reverseSet := False,
       nr_nftMint := None, nr_parent := None, nr_parentRegisteredAt := 0, nr_depth := 0, nr_listed := False\<rparr>"

definition wrapped :: "address \<Rightarrow> nameRecord \<Rightarrow> address \<Rightarrow> bytes \<Rightarrow> int \<Rightarrow> int \<Rightarrow> nameRecord" where
  "wrapped p parent w h now b =
     blank_name\<lparr>nr_owner := w, nr_controller := None, nr_nameHash := h, nr_tld := nr_tld parent, nr_registeredAt := now,
       nr_expiresAt := nr_expiresAt parent, nr_records := [], nr_resolver := None, nr_hostingRef := None,
       nr_transferLocked := False, nr_reverseSet := False, nr_nftMint := None, nr_parent := Some p,
       nr_parentRegisteredAt := nr_registeredAt parent, nr_depth := nr_depth parent + 1, nr_listed := False, nr_bump := b\<rparr>"

text \<open>Who may edit records: the owner, the NFT holder while tokenized, or the controller.\<close>

definition manages :: "'t runtime \<Rightarrow> 't chain \<Rightarrow> address \<Rightarrow> nameRecord \<Rightarrow> bool" where
  "manages R s w r \<longleftrightarrow> nr_controller r = Some w \<or> name_authority_ok r w None \<or>
     (\<exists>a t. token_account R (ch_tokens s) a = Some t \<and> name_authority_ok r w (Some t))"

definition holds_nft :: "'t runtime \<Rightarrow> 't chain \<Rightarrow> address \<Rightarrow> address \<Rightarrow> bool" where
  "holds_nft R s w m \<longleftrightarrow>
     (\<exists>a t. token_account R (ch_tokens s) a = Some t \<and> ta_mint t = m \<and> ta_owner t = w \<and> ta_amount t = 1)"

definition hosting_ok :: "jsstr option \<Rightarrow> bool" where
  "hosting_ok h \<longleftrightarrow> (case h of None \<Rightarrow> True | Some v \<Rightarrow> length (utf8 v) \<le> HOSTING_MAX_LEN)"

text \<open>Accounts that carry no name: configuration and offers, and those of the staking pool.\<close>

fun aux :: "account option \<Rightarrow> bool" where
  "aux None = True" | "aux (Some (ConfigAcct c)) = True" | "aux (Some (OfferAcct f)) = True" | "aux (Some x) = False"

fun staked :: "account option \<Rightarrow> bool" where
  "staked (Some (PoolAcct p)) = True" | "staked (Some (StakeAcct k)) = True" | "staked x = False"

fun staking :: "instr \<Rightarrow> bool" where
  "staking (Ix_init_stake_pool w m pm) = True"
| "staking (Ix_stake w ta ra n) = True"
| "staking (Ix_unstake w ta ra n) = True"
| "staking (Ix_claim_rewards w ra) = True"
| "staking i = False"

text \<open>What the program feeds to the hash function when it creates a name.\<close>

definition name_input :: "jsstr \<Rightarrow> jsstr \<Rightarrow> bytes" where
  "name_input name tld = concat [utf8 name, js ''.'', utf8 tld]"

definition sub_input :: "bytes \<Rightarrow> jsstr \<Rightarrow> bytes" where
  "sub_input parent_hash label = concat [[0], parent_hash, utf8 label]"

fun created :: "instr \<Rightarrow> 't chain \<Rightarrow> (bytes \<times> int) set" where
  "created (Ix_register_name payer w fa name tld h y) s = {(name_input name tld, 0)}"
| "created (Ix_register_with_solans payer w ta m name tld h y) s = {(name_input name tld, 0)}"
| "created (Ix_wrap_subdomain w w' p label h) s =
     (case ch_accounts s p of Some (NameAcct r) \<Rightarrow> {(sub_input (nr_nameHash r) label, nr_depth r + 1)} | _ \<Rightarrow> {})"
| "created i s = {}"

text \<open>
  A step is indexed by whether it is one of the staking pool and by the pairs of hash input and
  depth of the names it creates, which the invariant on depths collects.
\<close>

inductive registry_step :: "'t runtime \<Rightarrow> int \<Rightarrow> address option \<Rightarrow> 't chain \<Rightarrow> bool \<Rightarrow> (bytes \<times> int) set \<Rightarrow> accounts \<Rightarrow> bool"
  for R :: "'t runtime" and now :: int and w :: "address option" and s :: "'t chain" where
  reg_register: "validate_name name = Inr () \<Longrightarrow> validate_tld tld = Inr () \<Longrightarrow>
    find_program_address R [NAME_SEED, compute_name_hash (rt_keccak R) name tld] = (a, b) \<Longrightarrow> ch_accounts s a = None \<Longrightarrow>
    registry_step R now w s False {(name_input name tld, 0)} ((ch_accounts s)(a \<mapsto>
      NameAcct (init_top_level_record blank_name v (compute_name_hash (rt_keccak R) name tld) tld now e b)))"
| reg_wrap: "ch_accounts s p = Some (NameAcct r) \<Longrightarrow> w = Some (nr_owner r) \<Longrightarrow> nr_nftMint r = None \<Longrightarrow> \<not> nr_listed r \<Longrightarrow>
    now \<le> nr_expiresAt r \<Longrightarrow> validate_name label = Inr () \<Longrightarrow> 0 \<le> nr_depth r + 1 \<Longrightarrow> nr_depth r + 1 \<le> RUST_MAX_SUBDOMAIN_DEPTH \<Longrightarrow>
    find_program_address R [NAME_SEED, compute_subdomain_hash (rt_keccak R) (nr_nameHash r) label] = (a, b) \<Longrightarrow>
    ch_accounts s a = None \<Longrightarrow>
    registry_step R now w s False {(sub_input (nr_nameHash r) label, nr_depth r + 1)} ((ch_accounts s)(a \<mapsto> NameAcct
      (wrapped p r v (compute_subdomain_hash (rt_keccak R) (nr_nameHash r) label) now b)))"
| reg_renew: "ch_accounts s a = Some (NameAcct r) \<Longrightarrow> max (nr_expiresAt r) now \<le> e \<Longrightarrow>
    registry_step R now w s False {} ((ch_accounts s)(a \<mapsto> NameAcct (r\<lparr>nr_expiresAt := e\<rparr>)))"
| reg_edit: "ch_accounts s a = Some (NameAcct r) \<Longrightarrow> \<not> nr_listed r \<Longrightarrow> w = Some v \<Longrightarrow> manages R s v r \<Longrightarrow>
    records_ok (nr_records r) \<longrightarrow> records_ok rs \<Longrightarrow> hosting_ok h \<or> h = nr_hostingRef r \<Longrightarrow>
    registry_step R now w s False {} ((ch_accounts s)(a \<mapsto> NameAcct
      (r\<lparr>nr_controller := ct, nr_records := rs, nr_resolver := rv, nr_hostingRef := h, nr_transferLocked := lk\<rparr>)))"
| reg_reverse: "ch_accounts s a = Some (NameAcct r) \<Longrightarrow> w = Some (nr_owner r) \<Longrightarrow> nr_nftMint r = None \<Longrightarrow> \<not> nr_listed r \<Longrightarrow>
    find_program_address R [REVERSE_SEED, pubkey_bytes R (nr_owner r)] = (ra, rv_bump v) \<Longrightarrow>
    ch_accounts s ra = None \<or> (\<exists>v. ch_accounts s ra = Some (ReverseAcct v)) \<Longrightarrow>
    compute_name_hash (rt_keccak R) name (nr_tld r) = nr_nameHash r \<Longrightarrow>
    rv_owner v = nr_owner r \<Longrightarrow> rv_nameHash v = nr_nameHash r \<Longrightarrow> rv_name v = name \<Longrightarrow> rv_tld v = nr_tld r \<Longrightarrow>
    registry_step R now w s False {} ((ch_accounts s)(ra \<mapsto> ReverseAcct v, a \<mapsto> NameAcct (r\<lparr>nr_reverseSet := True\<rparr>)))"
| reg_tokenize: "ch_accounts s a = Some (NameAcct r) \<Longrightarrow> w = Some (nr_owner r) \<Longrightarrow> nr_nftMint r = None \<Longrightarrow> \<not> nr_listed r \<Longrightarrow>
    nr_parent r = None \<Longrightarrow>
    registry_step R now w s False {} ((ch_accounts s)(a \<mapsto> NameAcct (r\<lparr>nr_nftMint := Some m\<rparr>)))"
| reg_redeem: "ch_accounts s a = Some (NameAcct r) \<Longrightarrow> w = Some v \<Longrightarrow> nr_nftMint r = Some m \<Longrightarrow> holds_nft R s v m \<Longrightarrow>
    registry_step R now w s False {} ((ch_accounts s)(a \<mapsto> NameAcct ((moved r v)\<lparr>nr_nftMint := None\<rparr>)))"
| reg_transfer: "ch_accounts s a = Some (NameAcct r) \<Longrightarrow> w = Some (nr_owner r) \<Longrightarrow> nr_nftMint r = None \<Longrightarrow> \<not> nr_listed r \<Longrightarrow>
    \<not> nr_transferLocked r \<Longrightarrow>
    registry_step R now w s False {} ((ch_accounts s)(a \<mapsto> NameAcct (moved r v)))"
| reg_accept: "ch_accounts s a = Some (NameAcct r) \<Longrightarrow> w = Some (nr_owner r) \<Longrightarrow> nr_nftMint r = None \<Longrightarrow> \<not> nr_listed r \<Longrightarrow>
    ch_accounts s oa = Some (OfferAcct f) \<Longrightarrow> of_nameHash f = nr_nameHash r \<Longrightarrow> now \<le> of_expiresAt f \<Longrightarrow>
    registry_step R now w s False {} ((ch_accounts s)(a \<mapsto> NameAcct (moved r (of_buyer f)), oa := None))"
| reg_claim: "ch_accounts s a = Some (NameAcct r) \<Longrightarrow> nr_parent r = None \<Longrightarrow> w = Some v \<Longrightarrow>
    ch_accounts s (config_pda R) = Some (ConfigAcct c) \<Longrightarrow> nr_expiresAt r + cfg_gracePeriodSeconds c < now \<Longrightarrow>
    registry_step R now w s False {} ((ch_accounts s)(a \<mapsto> NameAcct (reclaimed r v now e)))"
| reg_list: "ch_accounts s a = Some (NameAcct r) \<Longrightarrow> w = Some (nr_owner r) \<Longrightarrow> nr_nftMint r = None \<Longrightarrow> \<not> nr_listed r \<Longrightarrow>
    find_program_address R [RUST_LISTING_SEED, nr_nameHash r] = (la, ls_bump l) \<Longrightarrow> ch_accounts s la = None \<Longrightarrow>
    ls_seller l = nr_owner r \<Longrightarrow> ls_nameHash l = nr_nameHash r \<Longrightarrow>
    registry_step R now w s False {} ((ch_accounts s)(la \<mapsto> ListingAcct l, a \<mapsto> NameAcct (r\<lparr>nr_listed := True\<rparr>)))"
| reg_update_listing: "ch_accounts s la = Some (ListingAcct l) \<Longrightarrow> w = Some (ls_seller l) \<Longrightarrow>
    registry_step R now w s False {} ((ch_accounts s)(la \<mapsto> ListingAcct (l\<lparr>ls_price := n, ls_expiresAt := e\<rparr>)))"
| reg_cancel_listing: "ch_accounts s a = Some (NameAcct r) \<Longrightarrow> ch_accounts s la = Some (ListingAcct l) \<Longrightarrow>
    nr_nameHash r = ls_nameHash l \<Longrightarrow> w = Some (ls_seller l) \<or> ls_expiresAt l < now \<Longrightarrow>
    registry_step R now w s False {} ((ch_accounts s)(a \<mapsto> NameAcct (r\<lparr>nr_listed := False\<rparr>), la := None))"
| reg_buy: "ch_accounts s a = Some (NameAcct r) \<Longrightarrow> ch_accounts s la = Some (ListingAcct l) \<Longrightarrow> nr_nameHash r = ls_nameHash l \<Longrightarrow>
    w = Some v \<Longrightarrow> nr_listed r \<Longrightarrow> nr_owner r = ls_seller l \<Longrightarrow> now \<le> ls_expiresAt l \<Longrightarrow>
    registry_step R now w s False {} ((ch_accounts s)(a \<mapsto> NameAcct ((moved r v)\<lparr>nr_listed := False\<rparr>), la := None))"
| reg_auction: "ch_accounts s a = Some (NameAcct r) \<Longrightarrow> w = Some (nr_owner r) \<Longrightarrow> nr_nftMint r = None \<Longrightarrow> \<not> nr_listed r \<Longrightarrow>
    nr_parent r = None \<Longrightarrow> find_program_address R [RUST_AUCTION_SEED, nr_nameHash r] = (ua, au_bump u) \<Longrightarrow> ch_accounts s ua = None \<Longrightarrow>
    au_seller u = nr_owner r \<Longrightarrow> au_nameHash u = nr_nameHash r \<Longrightarrow> au_highestBidder u = None \<Longrightarrow>
    au_highestBid u = 0 \<Longrightarrow> now < au_endTime u \<Longrightarrow>
    registry_step R now w s False {} ((ch_accounts s)(ua \<mapsto> AuctionAcct u, a \<mapsto> NameAcct (r\<lparr>nr_listed := True\<rparr>)))"
| reg_bid: "ch_accounts s ua = Some (AuctionAcct u) \<Longrightarrow> w = Some v \<Longrightarrow> v \<noteq> au_seller u \<Longrightarrow> now < au_endTime u \<Longrightarrow> 0 < n \<Longrightarrow>
    e = max (au_endTime u) (now + AUCTION_EXTENSION_SECONDS) \<Longrightarrow>
    (case au_highestBidder u of None \<Rightarrow> au_reservePrice u | Some b \<Rightarrow> au_highestBid u + au_minIncrement u) \<le> n \<Longrightarrow>
    registry_step R now w s False {} ((ch_accounts s)(ua \<mapsto> AuctionAcct
      (u\<lparr>au_highestBidder := Some v, au_highestBid := n, au_endTime := e\<rparr>)))"
| reg_settle: "ch_accounts s a = Some (NameAcct r) \<Longrightarrow> ch_accounts s ua = Some (AuctionAcct u) \<Longrightarrow> nr_nameHash r = au_nameHash u \<Longrightarrow>
    au_endTime u \<le> now \<Longrightarrow> r' = (case au_highestBidder u of None \<Rightarrow> r | Some v \<Rightarrow> moved r v) \<Longrightarrow>
    registry_step R now w s False {} ((ch_accounts s)(a \<mapsto> NameAcct (r'\<lparr>nr_listed := False\<rparr>), ua := None))"
| reg_cancel_auction: "ch_accounts s a = Some (NameAcct r) \<Longrightarrow> ch_accounts s ua = Some (AuctionAcct u) \<Longrightarrow>
    nr_nameHash r = au_nameHash u \<Longrightarrow> w = Some (au_seller u) \<Longrightarrow> au_highestBidder u = None \<Longrightarrow>
    registry_step R now w s False {} ((ch_accounts s)(a \<mapsto> NameAcct (r\<lparr>nr_listed := False\<rparr>), ua := None))"
| reg_burn: "ch_accounts s a = Some (NameAcct r) \<Longrightarrow> w = Some (nr_owner r) \<Longrightarrow> nr_nftMint r = None \<Longrightarrow> \<not> nr_listed r \<Longrightarrow>
    registry_step R now w s False {} ((ch_accounts s)(a := None))"
| reg_revoke: "ch_accounts s p = Some (NameAcct r) \<Longrightarrow> w = Some (nr_owner r) \<Longrightarrow> ch_accounts s a = Some (NameAcct q) \<Longrightarrow>
    nr_parent q = Some p \<Longrightarrow> nr_nftMint q = None \<Longrightarrow>
    registry_step R now w s False {} ((ch_accounts s)(a := None))"
| reg_other: "(\<And>x. A x \<noteq> ch_accounts s x \<Longrightarrow> aux (ch_accounts s x) \<and> aux (A x)) \<Longrightarrow>
    registry_step R now w s False {} A"
| reg_pool: "(\<And>x. A x \<noteq> ch_accounts s x \<Longrightarrow>
      (aux (ch_accounts s x) \<or> staked (ch_accounts s x)) \<and> (aux (A x) \<or> staked (A x))) \<Longrightarrow>
    registry_step R now w s True {} A"

section \<open>Every handler implements a rule\<close>

lemma reg_same: "A = ch_accounts s \<Longrightarrow> registry_step R now w s False {} A"
  by (rule reg_other) simp

lemma term_end_Inr [res_simps]: "term_end now y = Inr e \<longleftrightarrow> e = now + y * SECONDS_PER_YEAR \<and> i64 (y * SECONDS_PER_YEAR) \<and> i64 e"
  by (auto simp: term_end_def years_to_secs_def res_simps)

text \<open>What an \<open>init\<close> at a derived address and a fee payment leave of the accounts.\<close>

lemmas step_simps = res_simps Let_def case_prod_beta
lemmas step_frames = init_account_accounts frame_accounts

lemma register_name_step:
  "register_name_handler R now payer v fa name tld h y s = Inr s' \<Longrightarrow> registry_step R now w s False {(name_input name tld, 0)} (ch_accounts s')"
  by (auto simp: register_name_handler_def step_simps dest!: step_frames intro!: reg_register)

lemma register_with_solans_step:
  "register_with_solans_handler R now payer v ta m name tld h y s = Inr s' \<Longrightarrow> registry_step R now w s False {(name_input name tld, 0)} (ch_accounts s')"
  by (auto simp: register_with_solans_handler_def step_simps dest!: step_frames intro!: reg_register)

lemma renewed_expiry_ge:
  "renewed_expiry x now y = Inr e \<Longrightarrow> 0 \<le> y \<Longrightarrow> max x now \<le> e"
  by (auto simp: renewed_expiry_def years_to_secs_def res_simps SECONDS_PER_YEAR_def)

lemma renew_name_step:
  "renew_name_handler R now payer a fa name tld y s = Inr s' \<Longrightarrow> 0 \<le> y \<Longrightarrow> registry_step R now w s False {} (ch_accounts s')"
  by (auto simp: renew_name_handler_def step_simps dest!: step_frames renewed_expiry_ge intro!: reg_renew)

lemma renew_with_solans_step:
  "renew_with_solans_handler R now payer a ta m name tld y s = Inr s' \<Longrightarrow> 0 \<le> y \<Longrightarrow> registry_step R now w s False {} (ch_accounts s')"
  by (auto simp: renew_with_solans_handler_def step_simps dest!: step_frames renewed_expiry_ge intro!: reg_renew)

lemma auto_renew_step:
  "auto_renew_handler R now a fa name tld y s = Inr s' \<Longrightarrow> registry_step R now w s False {} (ch_accounts s')"
  by (auto simp: auto_renew_handler_def step_simps dest!: step_frames renewed_expiry_ge intro!: reg_renew)

lemma claim_expired_step:
  "claim_expired_handler R now v a fa name tld y s = Inr s' \<Longrightarrow> registry_step R now (Some v) s False {} (ch_accounts s')"
  by (auto simp: claim_expired_handler_def step_simps reclaimed_def[symmetric] dest!: step_frames intro!: reg_claim)

lemma transfer_name_step:
  "transfer_name_handler v a v' s = Inr s' \<Longrightarrow> registry_step R now (Some v) s False {} (ch_accounts s')"
  by (auto simp: transfer_name_handler_def step_simps moved_def[symmetric] intro!: reg_transfer)

text \<open>The five handlers that edit a record in place.\<close>

lemma reg_edit_record:
  assumes "ch_accounts s a = Some (NameAcct r)" "\<not> nr_listed r" "manages R s v r"
    "r' = r\<lparr>nr_controller := nr_controller r', nr_records := nr_records r', nr_resolver := nr_resolver r',
            nr_hostingRef := nr_hostingRef r', nr_transferLocked := nr_transferLocked r'\<rparr>"
    "records_ok (nr_records r) \<longrightarrow> records_ok (nr_records r')" "hosting_ok (nr_hostingRef r') \<or> nr_hostingRef r' = nr_hostingRef r"
  shows "registry_step R now (Some v) s False {} ((ch_accounts s)(a \<mapsto> NameAcct r'))"
  by (subst assms(4), rule reg_edit[OF assms(1,2) refl assms(3,5,6)])

lemma owner_manages: "nr_owner r = v \<Longrightarrow> nr_nftMint r = None \<Longrightarrow> manages R s v r"
  by (simp add: manages_def name_authority_ok_def)

lemma nft_manages:
  "load_nft R s nft = Inr t \<Longrightarrow> name_authority_ok r v t \<or> nr_controller r = Some v \<Longrightarrow> manages R s v r"
  by (auto simp: manages_def load_nft_def res_simps split: option.splits)

lemma lock_transfer_step:
  "lock_transfer_handler v a b s = Inr s' \<Longrightarrow> registry_step R now (Some v) s False {} (ch_accounts s')"
  by (auto simp: lock_transfer_handler_def step_simps intro!: reg_edit_record owner_manages)

lemma set_controller_step:
  "set_controller_handler v a ct s = Inr s' \<Longrightarrow> registry_step R now (Some v) s False {} (ch_accounts s')"
  by (auto simp: set_controller_handler_def step_simps intro!: reg_edit_record owner_manages)

lemma set_resolver_step:
  "set_resolver_handler R v a nft rv s = Inr s' \<Longrightarrow> registry_step R now (Some v) s False {} (ch_accounts s')"
  by (auto simp: set_resolver_handler_def step_simps intro!: reg_edit_record dest: nft_manages)

lemma set_hosting_step:
  "set_hosting_handler R v a nft h s = Inr s' \<Longrightarrow> registry_step R now (Some v) s False {} (ch_accounts s')"
  by (auto simp: set_hosting_handler_def step_simps hosting_ok_def split: option.splits
      intro!: reg_edit_record dest: nft_manages)

lemma update_record_step:
  assumes "update_record_handler R v a nft k x s = Inr s'"
  shows "registry_step R now (Some v) s False {} (ch_accounts s')"
proof -
  from assms obtain r t r' where r: "ch_accounts s a = Some (NameAcct r)" "\<not> nr_listed r" "load_nft R s nft = Inr t"
      "name_authority_ok r v t \<or> nr_controller r = Some v" "length (utf8 k) \<le> KEY_MAX_LEN" "s' = put a (NameAcct r') s"
      "(case x of Some y \<Rightarrow> bind_res (require (length (utf8 y) \<le> VALUE_MAX_LEN) RecordTooLong) (\<lambda>_. upsert_record k y r)
        | None \<Rightarrow> delete_record k r) = Inr r'"
    by (auto simp: update_record_handler_def step_simps)
  have "records_ok (nr_records r) \<longrightarrow> (\<exists>rs. r' = r\<lparr>nr_records := rs\<rparr> \<and> records_ok rs)"
    using r(5,7) upsert_record_ok delete_record_ok by (auto simp: step_simps split: option.splits)
  moreover have "\<exists>rs. r' = r\<lparr>nr_records := rs\<rparr>"
    using r(7) by (auto simp: upsert_record_def delete_record_def step_simps split: option.splits)
  ultimately obtain rs where rs: "r' = r\<lparr>nr_records := rs\<rparr>" "records_ok (nr_records r) \<longrightarrow> records_ok rs"
    by (metis (no_types, lifting) nameRecord.select_convs(8) nameRecord.surjective nameRecord.update_convs(8))
  then show ?thesis using r nft_manages[OF r(3,4)] by (auto intro!: reg_edit_record)
qed

lemma set_reverse_step:
  "set_reverse_handler R v a name s = Inr s' \<Longrightarrow> registry_step R now (Some v) s False {} (ch_accounts s')"
  by (auto simp: set_reverse_handler_def step_simps split: if_splits dest!: step_frames intro!: reg_reverse)

lemma burn_name_step:
  "burn_name_handler v a s = Inr s' \<Longrightarrow> registry_step R now (Some v) s False {} (ch_accounts s')"
  by (auto simp: burn_name_handler_def step_simps intro!: reg_burn)

lemma wrap_subdomain_step:
  "wrap_subdomain_handler R now v v' p label h s = Inr s' \<Longrightarrow> registry_step R now (Some v) s False (created (Ix_wrap_subdomain v v' p label h) s) (ch_accounts s')"
  by (auto simp: wrap_subdomain_handler_def step_simps wrapped_def[symmetric] dest!: step_frames intro!: reg_wrap)

lemma revoke_subdomain_step:
  "revoke_subdomain_handler R v p a s = Inr s' \<Longrightarrow> registry_step R now (Some v) s False {} (ch_accounts s')"
  by (auto simp: revoke_subdomain_handler_def step_simps intro: reg_revoke)

lemma tokenize_name_step:
  "tokenize_name_handler R v a m name s = Inr s' \<Longrightarrow> registry_step R now (Some v) s False {} (ch_accounts s')"
  by (auto simp: tokenize_name_handler_def step_simps intro!: reg_tokenize)

lemma redeem_name_step:
  assumes "redeem_name_handler R v a m ta s = Inr s'"
  shows "registry_step R now (Some v) s False {} (ch_accounts s')"
proof -
  from assms obtain r where r: "ch_accounts s a = Some (NameAcct r)" "nr_nftMint r = Some m" "holds_nft R s v m"
    "ch_accounts s' = (ch_accounts s)(a \<mapsto> NameAcct ((moved r v)\<lparr>nr_nftMint := None\<rparr>))"
    unfolding redeem_name_handler_def holds_nft_def by (fastforce simp: step_simps moved_def)
  show ?thesis unfolding r(4) by (rule reg_redeem[OF r(1) refl r(2,3)])
qed

lemma list_name_step:
  "list_name_handler R now v a price d s = Inr s' \<Longrightarrow> registry_step R now (Some v) s False {} (ch_accounts s')"
  by (auto simp: list_name_handler_def step_simps dest!: step_frames intro!: reg_list)

lemma update_listing_step:
  "update_listing_handler R now v la price d s = Inr s' \<Longrightarrow> registry_step R now (Some v) s False {} (ch_accounts s')"
  by (auto simp: update_listing_handler_def step_simps intro!: reg_update_listing)

lemma cancel_listing_step:
  "cancel_listing_handler R now v a la s = Inr s' \<Longrightarrow> registry_step R now (Some v) s False {} (ch_accounts s')"
  by (auto simp: cancel_listing_handler_def step_simps intro!: reg_cancel_listing)

lemma buy_name_step:
  assumes "buy_name_handler R now v a la n s = Inr s'"
  shows "registry_step R now (Some v) s False {} (ch_accounts s')"
proof -
  from assms obtain r l where r: "ch_accounts s a = Some (NameAcct r)" "ch_accounts s la = Some (ListingAcct l)"
    "nr_nameHash r = ls_nameHash l" "nr_listed r" "nr_owner r = ls_seller l" "now \<le> ls_expiresAt l"
    "ch_accounts s' = (ch_accounts s)(a \<mapsto> NameAcct ((moved r v)\<lparr>nr_listed := False\<rparr>), la := None)"
    by (auto simp: buy_name_handler_def step_simps moved_def split: if_splits)
  show ?thesis unfolding r(7) by (rule reg_buy[OF r(1-3) refl r(4-6)])
qed

lemma reg_aux_put: "aux (ch_accounts s x) \<Longrightarrow> aux (Some y) \<Longrightarrow> registry_step R now w s False {} ((ch_accounts s)(x \<mapsto> y))"
  by (rule reg_other) (auto split: if_splits)

lemma reg_aux_del: "aux (ch_accounts s x) \<Longrightarrow> registry_step R now w s False {} ((ch_accounts s)(x := None))"
  by (rule reg_other) (auto split: if_splits)

lemma reg_pool_puts:
  "aux (ch_accounts s x) \<or> staked (ch_accounts s x) \<Longrightarrow> aux (ch_accounts s x') \<or> staked (ch_accounts s x') \<Longrightarrow>
   aux (Some y) \<or> staked (Some y) \<Longrightarrow> aux (Some y') \<or> staked (Some y') \<Longrightarrow>
   registry_step R now w s True {} ((ch_accounts s)(x \<mapsto> y, x' \<mapsto> y'))"
  by (rule reg_pool) (auto split: if_splits)

lemma make_offer_step:
  "make_offer_handler R now v a n d s = Inr s' \<Longrightarrow> registry_step R now w s False {} (ch_accounts s')"
  by (auto simp: make_offer_handler_def step_simps dest!: step_frames intro!: reg_aux_put)

lemma accept_offer_step:
  "accept_offer_handler R now v a oa s = Inr s' \<Longrightarrow> registry_step R now (Some v) s False {} (ch_accounts s')"
  by (auto simp: accept_offer_handler_def step_simps moved_def[symmetric] dest!: step_frames intro!: reg_accept)

lemma cancel_offer_step:
  "cancel_offer_handler R now v a oa s = Inr s' \<Longrightarrow> registry_step R now w s False {} (ch_accounts s')"
  by (auto simp: cancel_offer_handler_def step_simps intro!: reg_aux_del)

lemma start_auction_step:
  "start_auction_handler R now v a m n i d s = Inr s' \<Longrightarrow> registry_step R now (Some v) s False {} (ch_accounts s')"
  by (auto simp: start_auction_handler_def step_simps blank_auction_def dest!: step_frames intro!: reg_auction)

lemma if_less_max: "(if x < y then y else x) = max x (y :: int)"
  by (simp add: max_def)

lemma bid_step:
  "bid_handler R now v ua ta prev m n s = Inr s' \<Longrightarrow> registry_step R now (Some v) s False {} (ch_accounts s')"
  by (auto simp: bid_handler_def step_simps if_less_max dest!: refund_previous_accounts step_frames intro!: reg_bid)

lemma settle_auction_step:
  assumes "settle_auction_handler R now sa a ua m s = Inr s'"
  shows "registry_step R now w s False {} (ch_accounts s')"
proof -
  from assms obtain c r u fee r' s1 s2 where u: "ch_accounts s a = Some (NameAcct r)" "ch_accounts s ua = Some (AuctionAcct u)"
      "nr_nameHash r = au_nameHash u" "au_endTime u \<le> now" and p: "pay_winner R c ua u sa m r s = Inr (fee, r', s1)"
      and c: "close_token_account R (au_bidVault u) (au_seller u) ua (put a (NameAcct (r'\<lparr>nr_listed := False\<rparr>)) s1) = Inr s2"
      "ch_accounts s' = (ch_accounts s2)(ua := None)"
    by (auto simp: settle_auction_handler_def step_simps)
  have "r' = (case au_highestBidder u of None \<Rightarrow> r | Some v \<Rightarrow> moved r v)" "ch_accounts s1 = ch_accounts s"
    using pay_winner_Inr[OF p] by (auto simp: moved_def split: option.splits)
  with c close_token_accounts[OF c(1)] show ?thesis by (auto intro: reg_settle[OF u])
qed

lemma cancel_auction_step:
  "cancel_auction_handler R v a ua s = Inr s' \<Longrightarrow> registry_step R now (Some v) s False {} (ch_accounts s')"
  by (auto simp: cancel_auction_handler_def step_simps dest!: step_frames intro!: reg_cancel_auction)

lemma stake_step: "stake_handler R v ta ra n s = Inr s' \<Longrightarrow> registry_step R now w s True {} (ch_accounts s')"
  by (auto simp: stake_handler_def res_simps Let_def case_prod_beta split: if_splits
      dest!: step_frames settle_pending_accounts rebaseline_accounts intro!: reg_pool_puts)

lemma unstake_step: "unstake_handler R v ta ra n s = Inr s' \<Longrightarrow> registry_step R now w s True {} (ch_accounts s')"
  by (auto simp: unstake_handler_def res_simps Let_def case_prod_beta split: if_splits
      dest!: step_frames settle_pending_accounts rebaseline_accounts intro!: reg_pool_puts)

lemma claim_rewards_step: "claim_rewards_handler R v ra s = Inr s' \<Longrightarrow> registry_step R now w s True {} (ch_accounts s')"
  by (auto simp: claim_rewards_handler_def res_simps Let_def case_prod_beta split: if_splits
      dest!: step_frames settle_pending_accounts rebaseline_accounts intro!: reg_pool_puts)

lemma buyback_burn_step: "buyback_burn_handler R v pa sa n s = Inr s' \<Longrightarrow> registry_step R now w s False {} (ch_accounts s')"
  by (auto simp: buyback_burn_handler_def step_simps dest!: step_frames intro!: reg_same)

lemma init_config_step: "init_config_handler R v m t sv bv p s = Inr s' \<Longrightarrow> registry_step R now w s False {} (ch_accounts s')"
  by (auto simp: init_config_handler_def step_simps dest!: step_frames intro!: reg_aux_put)

lemma config_steps:
  "update_config_handler R v p s = Inr s' \<Longrightarrow> registry_step R now w s False {} (ch_accounts s')"
  "transfer_admin_handler R v v' s = Inr s' \<Longrightarrow> registry_step R now w s False {} (ch_accounts s')"
  "set_solans_params_handler R v n d s = Inr s' \<Longrightarrow> registry_step R now w s False {} (ch_accounts s')"
  "init_burn_pool_handler R v m pm s = Inr s' \<Longrightarrow> registry_step R now w s False {} (ch_accounts s')"
  by (auto simp: update_config_handler_def transfer_admin_handler_def set_solans_params_handler_def
      init_burn_pool_handler_def step_simps intro!: reg_aux_put)

lemma init_stake_pool_step: "init_stake_pool_handler R v m pm s = Inr s' \<Longrightarrow> registry_step R now w s True {} (ch_accounts s')"
  by (auto simp: init_stake_pool_handler_def step_simps dest!: step_frames intro!: reg_pool_puts)

lemma resolve_step: "resolve_handler R now a h k s = Inr s' \<Longrightarrow> registry_step R now w s False {} (ch_accounts s')"
  by (auto simp: resolve_handler_def step_simps intro!: reg_same)

text \<open>The arguments of an instruction are within the ranges of their types.\<close>

fun years_ok :: "instr \<Rightarrow> bool" where
  "years_ok (Ix_renew_name w a fa name tld y) = (0 \<le> y)"
| "years_ok (Ix_renew_with_solans w a ta m name tld y) = (0 \<le> y)"
| "years_ok i = True"

lemmas handler_steps = register_name_step register_with_solans_step renew_name_step renew_with_solans_step auto_renew_step
  claim_expired_step transfer_name_step lock_transfer_step set_controller_step set_resolver_step set_hosting_step
  update_record_step set_reverse_step burn_name_step wrap_subdomain_step revoke_subdomain_step tokenize_name_step
  redeem_name_step list_name_step update_listing_step cancel_listing_step buy_name_step make_offer_step
  accept_offer_step cancel_offer_step start_auction_step bid_step settle_auction_step cancel_auction_step
  stake_step unstake_step claim_rewards_step buyback_burn_step init_config_step config_steps init_stake_pool_step resolve_step

lemma exec_registry_step:
  "exec R now i s = Inr s' \<Longrightarrow> years_ok i \<Longrightarrow> registry_step R now (signer i) s (staking i) (created i s) (ch_accounts s')"
  by (cases i) (simp_all add: handler_steps wrap_subdomain_step[simplified])

end
