(* ===== verification/Chain_Invariant.thy ===== *)
theory Chain_Invariant
  imports Chain_Run
begin

text \<open>
  The reachable states of the program and their invariants. A state is reached from one without
  accounts by successful instructions, in any order, at any time and by any signer, interleaved with
  moves of value by other programs. The invariant has four parts: every account sits at the address
  its own fields derive, with its fields within their bounds; a frozen name has a listing or an
  auction that unfreezes it; a subdomain was created one level below its parent; and the depth of a
  name is determined by what was hashed for it.
\<close>

section \<open>Reachable states\<close>

text \<open>\<open>G\<close> collects the hash inputs of the names created so far, with their depth.\<close>

inductive reach :: "'t runtime \<Rightarrow> (bytes \<times> int) set \<Rightarrow> 't chain \<Rightarrow> bool" for R :: "'t runtime" where
  reach_start: "ch_accounts s = (\<lambda>a. None) \<Longrightarrow> reach R {} s"
| reach_exec: "reach R G s \<Longrightarrow> exec R now i s = Inr s' \<Longrightarrow> years_ok i \<Longrightarrow> reach R (created i s \<union> G) s'"
| reach_other: "reach R G s \<Longrightarrow> ch_accounts s' = ch_accounts s \<Longrightarrow> reach R G s'"

text \<open>
  An invariant of the program: it holds without accounts, every successful instruction keeps it, and it
  reads only the accounts.
\<close>

locale program_invariant =
  fixes R :: "'t runtime" and holds :: "(bytes \<times> int) set \<Rightarrow> (address \<Rightarrow> account option) \<Rightarrow> bool"
  assumes initially: "holds {} (\<lambda>a. None)"
    and preserved: "holds G (ch_accounts s) \<Longrightarrow> exec R now i s = Inr s' \<Longrightarrow> years_ok i \<Longrightarrow> holds (created i s \<union> G) (ch_accounts s')"
begin

lemma always: "reach R G s \<Longrightarrow> holds G (ch_accounts s)"
  by (induction rule: reach.induct) (auto simp: initially preserved)

end

section \<open>Accounts in isolation\<close>

fun account_ok :: "'t runtime \<Rightarrow> address \<Rightarrow> account \<Rightarrow> bool" where
  "account_ok R a (NameAcct r) \<longleftrightarrow>
     find_program_address R [NAME_SEED, nr_nameHash r] = (a, nr_bump r) \<and>
     nr_discriminator r = NAME_RECORD_DISCRIMINATOR \<and> nr_tld r \<in> set RUST_ALLOWED_TLDS \<and>
     records_ok (nr_records r) \<and> hosting_ok (nr_hostingRef r) \<and>
     0 \<le> nr_depth r \<and> nr_depth r \<le> RUST_MAX_SUBDOMAIN_DEPTH \<and> (nr_parent r = None \<longleftrightarrow> nr_depth r = 0) \<and>
     (nr_nftMint r \<noteq> None \<longrightarrow> \<not> nr_listed r \<and> nr_parent r = None)"
| "account_ok R a (ListingAcct l) \<longleftrightarrow> find_program_address R [RUST_LISTING_SEED, ls_nameHash l] = (a, ls_bump l)"
| "account_ok R a (AuctionAcct u) \<longleftrightarrow>
     find_program_address R [RUST_AUCTION_SEED, au_nameHash u] = (a, au_bump u) \<and>
     0 \<le> au_highestBid u \<and> (au_highestBidder u = None \<longleftrightarrow> au_highestBid u = 0) \<and> au_highestBidder u \<noteq> Some (au_seller u)"
| "account_ok R a (ReverseAcct v) \<longleftrightarrow>
     find_program_address R [REVERSE_SEED, pubkey_bytes R (rv_owner v)] = (a, rv_bump v) \<and>
     rv_nameHash v = compute_name_hash (rt_keccak R) (rv_name v) (rv_tld v)"
| "account_ok R a x \<longleftrightarrow> True"

definition accounts_ok :: "'t runtime \<Rightarrow> accounts \<Rightarrow> bool" where
  "accounts_ok R A \<longleftrightarrow> (\<forall>a x. A a = Some x \<longrightarrow> account_ok R a x)"

lemma accounts_okD: "accounts_ok R A \<Longrightarrow> A a = Some x \<Longrightarrow> account_ok R a x"
  by (simp add: accounts_ok_def)

lemma accounts_ok_put [intro!]: "accounts_ok R A \<Longrightarrow> account_ok R a x \<Longrightarrow> accounts_ok R (A(a \<mapsto> x))"
  by (simp add: accounts_ok_def)

lemma accounts_ok_del [intro!]: "accounts_ok R A \<Longrightarrow> accounts_ok R (A(a := None))"
  by (simp add: accounts_ok_def)

lemma plain_account_ok: "aux (Some x) \<or> staked (Some x) \<Longrightarrow> account_ok R a x"
  by (cases x) auto

text \<open>The two rules for accounts that carry no name, at once.\<close>

definition plain_step :: "accounts \<Rightarrow> accounts \<Rightarrow> bool" where
  "plain_step A A' \<longleftrightarrow> (\<forall>x. A' x \<noteq> A x \<longrightarrow> (aux (A x) \<or> staked (A x)) \<and> (aux (A' x) \<or> staked (A' x)))"

lemma plain_accounts_ok: "plain_step A A' \<Longrightarrow> accounts_ok R A \<Longrightarrow> accounts_ok R A'"
  unfolding accounts_ok_def plain_step_def using plain_account_ok by metis

lemma plain_name: "plain_step A A' \<Longrightarrow> A' a = Some (NameAcct r) \<longleftrightarrow> A a = Some (NameAcct r)"
  unfolding plain_step_def by (metis aux.simps(4) staked.simps(4))

lemma plain_sale:
  assumes "plain_step A A'" "A a = Some y" "(\<exists>l. y = ListingAcct l) \<or> (\<exists>u. y = AuctionAcct u)"
  shows "A' a = Some y"
proof -
  have "\<not> (aux (A a) \<or> staked (A a))" using assms(2,3) by auto
  with assms(1,2) show ?thesis by (metis plain_step_def)
qed

lemma plain_rules:
  "(\<And>x. A x \<noteq> ch_accounts s x \<Longrightarrow> aux (ch_accounts s x) \<and> aux (A x)) \<Longrightarrow> plain_step (ch_accounts s) A"
  "(\<And>x. A x \<noteq> ch_accounts s x \<Longrightarrow>
      (aux (ch_accounts s x) \<or> staked (ch_accounts s x)) \<and> (aux (A x) \<or> staked (A x))) \<Longrightarrow> plain_step (ch_accounts s) A"
  by (auto simp: plain_step_def)

lemmas record_shapes = init_top_level_record_def blank_name_def wrapped_def moved_def reclaimed_def

lemma validate_tld_Inr: "validate_tld tld = Inr u \<longleftrightarrow> tld \<in> set RUST_ALLOWED_TLDS"
  by (auto simp: validate_tld_def)

lemma step_accounts_ok:
  assumes "registry_step R now w s k C A" "accounts_ok R (ch_accounts s)"
  shows "accounts_ok R A"
  using assms(1)
proof cases
  case reg_other
  then show ?thesis using plain_accounts_ok[OF plain_rules(1) assms(2)] by blast
next
  case reg_pool
  then show ?thesis using plain_accounts_ok[OF plain_rules(2) assms(2)] by blast
next
  case (reg_settle a r ua u r')
  then show ?thesis using assms(2) accounts_okD[OF assms(2) reg_settle(4)]
    by (auto simp: record_shapes split: option.splits)
qed (use assms(2) in \<open>auto simp: record_shapes records_ok_def hosting_ok_def RUST_MAX_SUBDOMAIN_DEPTH_def
    validate_tld_Inr dest: accounts_okD\<close>)

lemma same_hash_same_address:
  assumes "accounts_ok R A" "A a = Some (NameAcct r)" "A b = Some (NameAcct q)" "nr_nameHash r = nr_nameHash q"
  shows "a = b"
  using accounts_okD[OF assms(1,2)] accounts_okD[OF assms(1,3)] assms(4) by simp

section \<open>Frozen names\<close>

text \<open>\<open>sale_of R A h\<close>: the listing or the auction that a frozen name with hash \<open>h\<close> waits for.\<close>

definition sale_of :: "'t runtime \<Rightarrow> accounts \<Rightarrow> bytes \<Rightarrow> bool" where
  "sale_of R A h \<longleftrightarrow>
     (\<exists>l. A (listing_pda R h) = Some (ListingAcct l) \<and> ls_nameHash l = h) \<or>
     (\<exists>u. A (auction_pda R h) = Some (AuctionAcct u) \<and> au_nameHash u = h)"

definition frozen_ok :: "'t runtime \<Rightarrow> accounts \<Rightarrow> bool" where
  "frozen_ok R A \<longleftrightarrow> (\<forall>a r. A a = Some (NameAcct r) \<and> nr_listed r \<longrightarrow> sale_of R A (nr_nameHash r))"

text \<open>A step that ends the sale of the names with a hash in \<open>H\<close> must leave them unfrozen.\<close>

lemma frozen_step:
  assumes "frozen_ok R A" "\<And>h. h \<notin> H \<Longrightarrow> sale_of R A h \<Longrightarrow> sale_of R A' h"
    "\<And>a r. A' a = Some (NameAcct r) \<Longrightarrow> nr_listed r \<Longrightarrow>
       sale_of R A' (nr_nameHash r) \<or> nr_nameHash r \<notin> H \<and> (\<exists>q. A a = Some (NameAcct q) \<and> nr_listed q \<and> nr_nameHash q = nr_nameHash r)"
  shows "frozen_ok R A'"
  using assms unfolding frozen_ok_def by metis

lemma sale_of_keep:
  assumes "sale_of R A h" "\<And>x l. A x = Some (ListingAcct l) \<Longrightarrow> ls_nameHash l = h \<Longrightarrow> A' x = Some (ListingAcct l)"
    "\<And>x u. A x = Some (AuctionAcct u) \<Longrightarrow> au_nameHash u = h \<Longrightarrow> A' x = Some (AuctionAcct u)"
  shows "sale_of R A' h"
  using assms unfolding sale_of_def by blast

text \<open>Steps that touch no sale and freeze no name, and those that change the terms of a sale.\<close>

lemma frozen_no_sale:
  assumes F: "frozen_ok R A"
    and k: "\<And>x y. A x = Some y \<Longrightarrow> (\<exists>l. y = ListingAcct l) \<or> (\<exists>u. y = AuctionAcct u) \<Longrightarrow> A' x = Some y"
    and n: "\<And>a r. A' a = Some (NameAcct r) \<Longrightarrow> nr_listed r \<Longrightarrow> \<exists>q. A a = Some (NameAcct q) \<and> nr_listed q \<and> nr_nameHash q = nr_nameHash r"
  shows "frozen_ok R A'"
  by (rule frozen_step[where H = "{}", OF F]) (use k n in \<open>auto elim!: sale_of_keep\<close>)

lemma frozen_plain:
  assumes "frozen_ok R A" "plain_step A A'"
  shows "frozen_ok R A'"
  by (rule frozen_no_sale[OF assms(1)]) (use assms(2) plain_sale plain_name in blast)+

lemma frozen_terms:
  assumes "frozen_ok R A" "A x = Some y"
    "(\<exists>l l'. y = ListingAcct l \<and> y' = ListingAcct l' \<and> ls_nameHash l' = ls_nameHash l) \<or>
     (\<exists>u u'. y = AuctionAcct u \<and> y' = AuctionAcct u' \<and> au_nameHash u' = au_nameHash u)"
  shows "frozen_ok R (A(x \<mapsto> y'))"
  by (rule frozen_step[where H = "{}", OF assms(1)]) (use assms(2,3) in \<open>auto simp: sale_of_def split: if_splits\<close>)

text \<open>Steps that close the sale of a name and unfreeze it.\<close>

lemma frozen_close_sale:
  assumes F: "frozen_ok R A" and ok: "accounts_ok R A" and a: "A a = Some (NameAcct q)"
    and x: "(\<exists>l. A x = Some (ListingAcct l) \<and> ls_nameHash l = nr_nameHash q) \<or> (\<exists>u. A x = Some (AuctionAcct u) \<and> au_nameHash u = nr_nameHash q)"
    and r: "\<not> nr_listed r"
  shows "frozen_ok R (A(a \<mapsto> NameAcct r, x := None))"
proof (rule frozen_step[where H = "{nr_nameHash q}", OF F])
  show "sale_of R (A(a \<mapsto> NameAcct r, x := None)) h" if "h \<notin> {nr_nameHash q}" "sale_of R A h" for h
    using that a x by (auto elim!: sale_of_keep)
  fix b t
  assume "(A(a \<mapsto> NameAcct r, x := None)) b = Some (NameAcct t)" "nr_listed t"
  then have "A b = Some (NameAcct t)" "b \<noteq> a" using r by (auto split: if_splits)
  with same_hash_same_address[OF ok _ a] \<open>nr_listed t\<close>
  show "sale_of R (A(a \<mapsto> NameAcct r, x := None)) (nr_nameHash t) \<or> nr_nameHash t \<notin> {nr_nameHash q} \<and>
    (\<exists>q. A b = Some (NameAcct q) \<and> nr_listed q \<and> nr_nameHash q = nr_nameHash t)" by auto
qed

text \<open>Steps that open a sale at a free address.\<close>

lemma frozen_open_sale:
  assumes F: "frozen_ok R A" and a: "A a = Some (NameAcct r)" and x: "A x = None" and y: "as_name y = None"
    and s: "sale_of R (A(x \<mapsto> y, a \<mapsto> NameAcct (r\<lparr>nr_listed := True\<rparr>))) (nr_nameHash r)"
  shows "frozen_ok R (A(x \<mapsto> y, a \<mapsto> NameAcct (r\<lparr>nr_listed := True\<rparr>)))"
  by (rule frozen_step[where H = "{}", OF F]) (use a x y s in \<open>auto elim!: sale_of_keep split: if_splits\<close>)

lemma step_frozen_ok:
  assumes "registry_step R now w s k C A" "accounts_ok R (ch_accounts s)" "frozen_ok R (ch_accounts s)"
  shows "frozen_ok R A"
  using assms(1)
proof cases
  case reg_other
  then show ?thesis by (intro frozen_plain[OF assms(3) plain_rules(1)])
next
  case reg_pool
  then show ?thesis by (intro frozen_plain[OF assms(3) plain_rules(2)])
next
  case (reg_list a r la l)
  then show ?thesis by (auto simp: sale_of_def listing_pda_def intro!: frozen_open_sale[OF assms(3)])
next
  case (reg_auction a r ua u)
  then show ?thesis by (auto simp: sale_of_def auction_pda_def intro!: frozen_open_sale[OF assms(3)])
next
  case reg_update_listing
  then show ?thesis by (auto intro: frozen_terms[OF assms(3)])
next
  case reg_bid
  then show ?thesis by (auto intro: frozen_terms[OF assms(3)])
next
  case (reg_cancel_listing a r la l)
  then show ?thesis by (auto intro!: frozen_close_sale[OF assms(3,2)])
next
  case (reg_buy a r la l v)
  then show ?thesis by (auto intro!: frozen_close_sale[OF assms(3,2)])
next
  case (reg_settle a r ua u r')
  then show ?thesis by (auto intro!: frozen_close_sale[OF assms(3,2)])
next
  case (reg_cancel_auction a r ua u)
  then show ?thesis by (auto intro!: frozen_close_sale[OF assms(3,2)])
qed (auto simp: record_shapes split: if_splits intro!: frozen_no_sale[OF assms(3)])

section \<open>Depths\<close>

text \<open>Every recorded input is that of a top-level name or of a label below a recorded name.\<close>

definition input_ok :: "'t runtime \<Rightarrow> (bytes \<times> int) set \<Rightarrow> bytes \<Rightarrow> int \<Rightarrow> bool" where
  "input_ok R G x d \<longleftrightarrow> (d = 0 \<and> x \<noteq> [] \<and> hd x \<noteq> 0) \<or>
     (0 < d \<and> (\<exists>y label. (y, d - 1) \<in> G \<and> x = sub_input (rt_keccak R y) label))"

definition inputs_ok :: "'t runtime \<Rightarrow> (bytes \<times> int) set \<Rightarrow> bool" where
  "inputs_ok R G \<longleftrightarrow> (\<forall>x d. (x, d) \<in> G \<longrightarrow> input_ok R G x d)"

lemma inputs_ok_insert:
  assumes "inputs_ok R G" "input_ok R G x d"
  shows "inputs_ok R (insert (x, d) G)"
proof -
  have "input_ok R (insert (x, d) G) y e" if "input_ok R G y e" for y e
    using that unfolding input_ok_def by blast
  with assms show ?thesis by (auto simp: inputs_ok_def)
qed

text \<open>Every name was created from a recorded input, and its parent one level above it.\<close>

definition depths_ok :: "'t runtime \<Rightarrow> (bytes \<times> int) set \<Rightarrow> accounts \<Rightarrow> bool" where
  "depths_ok R G A \<longleftrightarrow>
     (\<forall>a r. A a = Some (NameAcct r) \<longrightarrow>
        (\<exists>x. (x, nr_depth r) \<in> G \<and> nr_nameHash r = rt_keccak R x) \<and>
        (\<forall>p. nr_parent r = Some p \<longrightarrow> (\<exists>y. (y, nr_depth r - 1) \<in> G \<and> p = name_pda R (rt_keccak R y))))"

lemma name_input_hd:
  assumes "validate_name name = Inr ()"
  shows "name_input name tld \<noteq> [] \<and> hd (name_input name tld) \<noteq> 0"
proof -
  have "name_input name tld = utf8 (name @ 46 # tld)" by (simp add: name_input_def utf8_def utf8_char_def js_def)
  moreover have "utf8 (name @ 46 # tld) \<noteq> 0 # x" for x using root_input_head assms validate_name_iff by blast
  moreover have "utf8 (name @ 46 # tld) \<noteq> []" by (simp add: utf8_def utf8_char_def)
  ultimately show ?thesis by (metis list.collapse)
qed

lemma depths_mono: "depths_ok R G A \<Longrightarrow> depths_ok R (C \<union> G) A"
  unfolding depths_ok_def by blast

lemma depths_put:
  assumes "depths_ok R G A" "\<exists>x. (x, nr_depth r) \<in> G \<and> nr_nameHash r = rt_keccak R x"
    "\<forall>p. nr_parent r = Some p \<longrightarrow> (\<exists>y. (y, nr_depth r - 1) \<in> G \<and> p = name_pda R (rt_keccak R y))"
  shows "depths_ok R G (A(a \<mapsto> NameAcct r))"
  using assms unfolding depths_ok_def by auto

lemma depths_keep:
  assumes "depths_ok R G A"
    "\<And>a r. A' a = Some (NameAcct r) \<Longrightarrow> \<exists>q. A a = Some (NameAcct q) \<and> nr_nameHash r = nr_nameHash q \<and>
       nr_depth r = nr_depth q \<and> nr_parent r = nr_parent q"
  shows "depths_ok R G A'"
  using assms unfolding depths_ok_def by metis

lemma step_depths:
  assumes "registry_step R now w s k C A" "accounts_ok R (ch_accounts s)" "inputs_ok R G" "depths_ok R G (ch_accounts s)"
  shows "inputs_ok R (C \<union> G) \<and> depths_ok R (C \<union> G) A"
  using assms(1)
proof cases
  case (reg_register name tld a b v e)
  then show ?thesis using assms(3) name_input_hd[of name tld] depths_mono[OF assms(4), of C]
    by (auto simp: input_ok_def record_shapes compute_name_hash_def name_input_def intro!: depths_put inputs_ok_insert)
next
  case (reg_wrap p r label a b v)
  obtain y where y: "(y, nr_depth r) \<in> G" "nr_nameHash r = rt_keccak R y"
    using assms(4) reg_wrap(4) unfolding depths_ok_def by blast
  have p: "p = name_pda R (nr_nameHash r)" "0 \<le> nr_depth r"
    using accounts_okD[OF assms(2) reg_wrap(4)] by (auto simp: name_pda_def)
  have C: "C = {(sub_input (rt_keccak R y) label, nr_depth r + 1)}" using reg_wrap(2) y(2) by simp
  have "input_ok R G (sub_input (rt_keccak R y) label) (nr_depth r + 1)"
    using y(1) p(2) unfolding input_ok_def by auto
  then have "inputs_ok R (C \<union> G)" using inputs_ok_insert[OF assms(3)] by (simp add: C)
  moreover have "depths_ok R (C \<union> G) A" unfolding reg_wrap(3)
    by (rule depths_put[OF depths_mono[OF assms(4)]])
      (use y p in \<open>auto simp: C record_shapes compute_subdomain_hash_def sub_input_def\<close>)
  ultimately show ?thesis by simp
next
  case reg_other
  then have "depths_ok R G A" using plain_name[OF plain_rules(1)] by (intro depths_keep[OF assms(4)]) blast
  then show ?thesis using assms(3) reg_other(2) by simp
next
  case reg_pool
  then have "depths_ok R G A" using plain_name[OF plain_rules(2)] by (intro depths_keep[OF assms(4)]) blast
  then show ?thesis using assms(3) reg_pool(2) by simp
next
  case (reg_claim a r v c e)
  then have "nr_depth r = 0" using accounts_okD[OF assms(2) reg_claim(4)] by simp
  with reg_claim show ?thesis using assms(3) by (auto simp: record_shapes split: if_splits intro!: depths_keep[OF assms(4)])
next
  case (reg_settle a r ua u r')
  then show ?thesis using assms(3)
    by (auto simp: record_shapes intro!: depths_keep[OF assms(4)] split: option.splits if_splits)
qed (use assms(3) in \<open>auto simp: record_shapes split: if_splits intro!: depths_keep[OF assms(4)]\<close>)

interpretation well_formed: program_invariant R
  "\<lambda>G A. accounts_ok R A \<and> frozen_ok R A \<and> inputs_ok R G \<and> depths_ok R G A" for R :: "'t runtime"
proof unfold_locales
  show "accounts_ok R (\<lambda>a. None) \<and> frozen_ok R (\<lambda>a. None) \<and> inputs_ok R {} \<and> depths_ok R {} (\<lambda>a. None)"
    by (simp add: accounts_ok_def frozen_ok_def inputs_ok_def depths_ok_def)
next
  fix G now i and s s' :: "'t chain"
  assume I: "accounts_ok R (ch_accounts s) \<and> frozen_ok R (ch_accounts s) \<and> inputs_ok R G \<and> depths_ok R G (ch_accounts s)"
    and x: "exec R now i s = Inr s'" "years_ok i"
  note st = exec_registry_step[OF x]
  show "accounts_ok R (ch_accounts s') \<and> frozen_ok R (ch_accounts s') \<and> inputs_ok R (created i s \<union> G) \<and>
      depths_ok R (created i s \<union> G) (ch_accounts s')"
    using step_accounts_ok[OF st] step_frozen_ok[OF st] step_depths[OF st] I by simp
qed

lemmas reach_invariant = well_formed.always

text \<open>
  Without a collision among the inputs hashed so far, an input has one depth. The digests have one
  length, so the parent's digest can be read off the input of a label below it.
\<close>

lemma recorded: "(x, d) \<in> G \<Longrightarrow> x \<in> fst ` G"
  by force

lemma input_depth_unique:
  assumes G: "inputs_ok R G" and inj: "inj_on (rt_keccak R) (fst ` G)" and len: "\<And>x. length (rt_keccak R x) = 32"
  shows "(x, d) \<in> G \<Longrightarrow> (x, e) \<in> G \<Longrightarrow> d = e"
proof (induction "nat d" arbitrary: x d e)
  case (0 d)
  have o: "input_ok R G x d" "input_ok R G x e" using G 0(2,3) unfolding inputs_ok_def by blast+
  then have "d = 0" "hd x \<noteq> 0" using 0(1) by (auto simp: input_ok_def)
  moreover have "e = 0" using o(2) \<open>hd x \<noteq> 0\<close> by (auto simp: input_ok_def sub_input_def)
  ultimately show ?case by simp
next
  case (Suc n d)
  have o: "input_ok R G x d" "input_ok R G x e" using G Suc(3,4) unfolding inputs_ok_def by blast+
  then obtain y l where y: "(y, d - 1) \<in> G" "x = sub_input (rt_keccak R y) l"
    using Suc(2) by (auto simp: input_ok_def)
  obtain z m where z: "(z, e - 1) \<in> G" "x = sub_input (rt_keccak R z) m"
    using o(2) y(2) by (auto simp: input_ok_def sub_input_def)
  have "rt_keccak R y = rt_keccak R z" using y(2) z(2) len by (auto simp: sub_input_def append_eq_append_conv)
  then have "y = z" using inj_onD[OF inj _ recorded[OF y(1)] recorded[OF z(1)]] by simp
  then have "d - 1 = e - 1" using Suc(1)[of "d - 1"] Suc(2) y(1) z(1) by simp
  then show ?case by simp
qed

text \<open>The assumptions on the hash and on the derived addresses, relative to what was hashed so far.\<close>

definition no_collision :: "'t runtime \<Rightarrow> (bytes \<times> int) set \<Rightarrow> bool" where
  "no_collision R G \<longleftrightarrow> (\<forall>x. length (rt_keccak R x) = 32) \<and> inj_on (rt_keccak R) (fst ` G) \<and>
     inj_on (name_pda R) (rt_keccak R ` fst ` G)"

lemma parent_one_level_up:
  assumes "reach R G s" "no_collision R G" "ch_accounts s a = Some (NameAcct c)" "nr_parent c = Some p"
    "ch_accounts s p = Some (NameAcct r)"
  shows "nr_depth r = nr_depth c - 1"
proof -
  note I = reach_invariant[OF assms(1)]
  obtain x where x: "(x, nr_depth r) \<in> G" "nr_nameHash r = rt_keccak R x"
    using I assms(5) unfolding depths_ok_def by blast
  obtain y where y: "(y, nr_depth c - 1) \<in> G" "p = name_pda R (rt_keccak R y)"
    using I assms(3,4) unfolding depths_ok_def by blast
  have "name_pda R (rt_keccak R x) = name_pda R (rt_keccak R y)"
    using accounts_okD[of R "ch_accounts s", OF _ assms(5)] I x(2) y(2) by (simp add: name_pda_def)
  moreover have N: "inj_on (rt_keccak R) (fst ` G)" "inj_on (name_pda R) (rt_keccak R ` fst ` G)" "\<And>x. length (rt_keccak R x) = 32"
    using assms(2) by (simp_all add: no_collision_def)
  ultimately have "rt_keccak R x = rt_keccak R y"
    by (blast intro: inj_onD[OF N(2) _ imageI[OF recorded[OF x(1)]] imageI[OF recorded[OF y(1)]]])
  then have "x = y" by (rule inj_onD[OF N(1) _ recorded[OF x(1)] recorded[OF y(1)]])
  then show ?thesis using input_depth_unique[OF _ N(1,3) x(1)] I y(1) by simp
qed

section \<open>Who can take a name\<close>

definition owner_at :: "accounts \<Rightarrow> address \<Rightarrow> address option" where
  "owner_at A a = (case A a of Some (NameAcct r) \<Rightarrow> Some (nr_owner r) | _ \<Rightarrow> None)"

text \<open>
  The ways an owner loses the name \<open>r\<close> at \<open>a\<close>, \<open>v\<close> being the next owner (\<open>None\<close> when the account is
  closed): the owner signs and the name is neither tokenized nor frozen; the holder of its NFT redeems
  it; anyone claims it after the grace period; a buyer takes it at the owner's own listing; an ended
  auction of the name is settled; the owner of the parent revokes it.
\<close>

definition takes :: "'t runtime \<Rightarrow> int \<Rightarrow> address option \<Rightarrow> 't chain \<Rightarrow> nameRecord \<Rightarrow> address option \<Rightarrow> bool" where
  "takes R now w s r v \<longleftrightarrow>
     (w = Some (nr_owner r) \<and> nr_nftMint r = None \<and> \<not> nr_listed r) \<or>
     (v = w \<and> v \<noteq> None \<and> (\<exists>m. nr_nftMint r = Some m \<and> holds_nft R s (the w) m)) \<or>
     (v = w \<and> v \<noteq> None \<and> nr_parent r = None \<and>
        (\<exists>c. ch_accounts s (config_pda R) = Some (ConfigAcct c) \<and> nr_expiresAt r + cfg_gracePeriodSeconds c < now)) \<or>
     (v = w \<and> v \<noteq> None \<and> nr_listed r \<and>
        (\<exists>la l. ch_accounts s la = Some (ListingAcct l) \<and> ls_nameHash l = nr_nameHash r \<and> ls_seller l = nr_owner r \<and>
           now \<le> ls_expiresAt l)) \<or>
     (v \<noteq> None \<and> (\<exists>ua u. ch_accounts s ua = Some (AuctionAcct u) \<and> au_nameHash u = nr_nameHash r \<and>
           au_endTime u \<le> now \<and> au_highestBidder u = v)) \<or>
     (v = None \<and> nr_nftMint r = None \<and>
        (\<exists>p q. nr_parent r = Some p \<and> ch_accounts s p = Some (NameAcct q) \<and> w = Some (nr_owner q)))"

lemma step_takes:
  assumes "registry_step R now w s k C A" "ch_accounts s a = Some (NameAcct r)" "owner_at A a \<noteq> Some (nr_owner r)"
  shows "takes R now w s r (owner_at A a)"
  using assms(1)
proof cases
  case (reg_settle b q ua u r')
  then show ?thesis using assms(2,3) by (auto simp: owner_at_def record_shapes takes_def split: if_splits option.splits)
next
  case reg_other
  then have "A a = Some (NameAcct r)" using plain_name[OF plain_rules(1)] assms(2) by blast
  then show ?thesis using assms(3) by (simp add: owner_at_def)
next
  case reg_pool
  then have "A a = Some (NameAcct r)" using plain_name[OF plain_rules(2)] assms(2) by blast
  then show ?thesis using assms(3) by (simp add: owner_at_def)
qed (use assms(2,3) in \<open>auto simp: owner_at_def record_shapes takes_def split: if_splits\<close>)

text \<open>While a name stays frozen only its expiry moves.\<close>

lemma step_frozen_record:
  assumes "registry_step R now w s k C A" "ch_accounts s a = Some (NameAcct r)" "nr_listed r"
    "A a = Some (NameAcct r')" "nr_listed r'" "accounts_ok R (ch_accounts s)"
  shows "\<exists>e \<ge> nr_expiresAt r. r' = r\<lparr>nr_expiresAt := e\<rparr>"
  using assms(1)
proof cases
  case (reg_renew b q e)
  then show ?thesis using assms(2,4) by (auto split: if_splits intro: exI[of _ "nr_expiresAt r"])
next
  case reg_other
  then have "A a = Some (NameAcct r)" using plain_name[OF plain_rules(1)] assms(2) by blast
  then show ?thesis using assms(4) by (auto intro: exI[of _ "nr_expiresAt r"])
next
  case reg_pool
  then have "A a = Some (NameAcct r)" using plain_name[OF plain_rules(2)] assms(2) by blast
  then show ?thesis using assms(4) by (auto intro: exI[of _ "nr_expiresAt r"])
next
  case (reg_redeem b q v m)
  then show ?thesis using assms(2-5) accounts_okD[OF assms(6,2)] by (auto simp: record_shapes split: if_splits)
qed (use assms(2-5) in \<open>auto simp: record_shapes split: if_splits intro: exI[of _ "nr_expiresAt r"]\<close>)

end
