(* ===== verification/Chain_Escrow.thy ===== *)
theory Chain_Escrow
  imports Chain_Invariant
begin

text \<open>
  What the marketplace does with value: the token vault of an auction across bids, settlement and
  cancellation, the lamport escrow of an offer, and the split of a sale price. The Token program is a
  parameter; \<open>tokens_ok\<close> states the documented effect of its transfer, burn and close instructions
  (for a mint without transfer fees): when they succeed, what they then do, and that a transfer, a
  burn or a close that its authority may make succeeds.
\<close>

section \<open>The Token program\<close>

definition transfer_ok :: "'t runtime \<Rightarrow> bool" where
  "transfer_ok R \<longleftrightarrow> (\<forall>from m to au n l t.
     (\<forall>l' t'. rt_transfer R from m to au n (l, t) = Some (l', t') \<longrightarrow>
        l' = l \<and> (\<exists>f g. token_account R t from = Some f \<and> token_account R t to = Some g \<and> ta_mint f = m \<and> ta_mint g = m \<and>
          0 \<le> n \<and> n \<le> ta_amount f \<and>
          token_account R t' = (if from = to then token_account R t
            else (token_account R t)(from \<mapsto> f\<lparr>ta_amount := ta_amount f - n\<rparr>, to \<mapsto> g\<lparr>ta_amount := ta_amount g + n\<rparr>)))) \<and>
     (\<forall>f g. token_account R t from = Some f \<and> token_account R t to = Some g \<and> ta_mint f = m \<and> ta_mint g = m \<and>
        ta_owner f = au \<and> 0 \<le> n \<and> n \<le> ta_amount f \<and> ta_amount g + n < 2 ^ 64 \<longrightarrow>
        rt_transfer R from m to au n (l, t) \<noteq> None))"

definition burn_ok :: "'t runtime \<Rightarrow> bool" where
  "burn_ok R \<longleftrightarrow> (\<forall>m from au n l t.
     (\<forall>l' t'. rt_burn R m from au n (l, t) = Some (l', t') \<longrightarrow>
        l' = l \<and> (\<exists>f. token_account R t from = Some f \<and> ta_mint f = m \<and> 0 \<le> n \<and> n \<le> ta_amount f \<and>
          token_account R t' = (token_account R t)(from \<mapsto> f\<lparr>ta_amount := ta_amount f - n\<rparr>))) \<and>
     (\<forall>f. token_account R t from = Some f \<and> ta_mint f = m \<and> ta_owner f = au \<and> 0 \<le> n \<and> n \<le> ta_amount f \<longrightarrow>
        rt_burn R m from au n (l, t) \<noteq> None))"

definition close_ok :: "'t runtime \<Rightarrow> bool" where
  "close_ok R \<longleftrightarrow> (\<forall>a d au l t.
     (\<forall>l' t'. rt_close R a d au (l, t) = Some (l', t') \<longrightarrow>
        l' = l(d := l d + l a, a := 0) \<and> (\<exists>f. token_account R t a = Some f \<and> ta_amount f = 0) \<and>
        token_account R t' = (token_account R t)(a := None)) \<and>
     (\<forall>f. token_account R t a = Some f \<and> ta_owner f = au \<and> ta_amount f = 0 \<longrightarrow> rt_close R a d au (l, t) \<noteq> None))"

definition tokens_ok :: "'t runtime \<Rightarrow> bool" where
  "tokens_ok R \<longleftrightarrow> transfer_ok R \<and> burn_ok R \<and> close_ok R"

definition tok :: "'t runtime \<Rightarrow> 't chain \<Rightarrow> address \<Rightarrow> token_acct option" where
  "tok R s = token_account R (ch_tokens s)"

lemma tok_frame [simp]: "tok R (put a x s) = tok R s" "tok R (emit e s) = tok R s" "tok R (close_account a d s) = tok R s"
  by (simp_all add: tok_def)

lemma transfer_okD:
  assumes "transfer_ok R" "rt_transfer R from m to au n (l, t) = Some (l', t')"
  obtains f g where "token_account R t from = Some f" "token_account R t to = Some g" "n \<le> ta_amount f"
    "token_account R t' = (if from = to then token_account R t
       else (token_account R t)(from \<mapsto> f\<lparr>ta_amount := ta_amount f - n\<rparr>, to \<mapsto> g\<lparr>ta_amount := ta_amount g + n\<rparr>))"
  using assms unfolding transfer_ok_def by blast

lemma transfer_okI:
  assumes "transfer_ok R" "token_account R t from = Some f" "token_account R t to = Some g" "ta_mint f = m" "ta_mint g = m"
    "ta_owner f = au" "0 \<le> n" "n \<le> ta_amount f" "ta_amount g + n < 2 ^ 64"
  shows "rt_transfer R from m to au n (l, t) \<noteq> None"
  using assms unfolding transfer_ok_def by blast

lemma burn_okD:
  assumes "burn_ok R" "rt_burn R m from au n (l, t) = Some (l', t')"
  obtains f where "token_account R t from = Some f" "token_account R t' = (token_account R t)(from \<mapsto> f\<lparr>ta_amount := ta_amount f - n\<rparr>)"
  using assms unfolding burn_ok_def by blast

lemma burn_okI:
  "burn_ok R \<Longrightarrow> token_account R t from = Some f \<Longrightarrow> ta_mint f = m \<Longrightarrow> ta_owner f = au \<Longrightarrow> 0 \<le> n \<Longrightarrow> n \<le> ta_amount f \<Longrightarrow>
   rt_burn R m from au n (l, t) \<noteq> None"
  unfolding burn_ok_def by blast

lemma close_okD:
  assumes "close_ok R" "rt_close R a d au (l, t) = Some (l', t')"
  obtains f where "token_account R t a = Some f" "ta_amount f = 0" "token_account R t' = (token_account R t)(a := None)"
  using assms unfolding close_ok_def by blast

lemma close_okI:
  "close_ok R \<Longrightarrow> token_account R t a = Some f \<Longrightarrow> ta_owner f = au \<Longrightarrow> ta_amount f = 0 \<Longrightarrow> rt_close R a d au (l, t) \<noteq> None"
  unfolding close_ok_def by blast

lemma cpi_succeeds: "f (ch_lamports s, ch_tokens s) \<noteq> None \<Longrightarrow> \<exists>s'. cpi f s = Inr s'"
  by (auto simp: cpi_def)

lemma transfer_tokens_effect:
  assumes "transfer_ok R" "transfer_tokens R from to m au n s = Inr s'"
    "tok R s from = Some f" "tok R s to = Some g" "from \<noteq> to"
  shows "tok R s' = (tok R s)(from \<mapsto> f\<lparr>ta_amount := ta_amount f - n\<rparr>, to \<mapsto> g\<lparr>ta_amount := ta_amount g + n\<rparr>)"
proof (cases "n = 0")
  case True
  then have "s' = s" using assms(2) by (simp add: transfer_tokens_def)
  then show ?thesis using True assms(3,4) by (auto simp: fun_eq_iff)
next
  case False
  then obtain l t where st: "rt_transfer R from m to au n (ch_lamports s, ch_tokens s) = Some (l, t)"
      "s' = s\<lparr>ch_lamports := l, ch_tokens := t\<rparr>"
    using assms(2) by (auto simp: transfer_tokens_def res_simps)
  then show ?thesis using assms(3-5) by (elim transfer_okD[OF assms(1)]) (simp add: tok_def)
qed

lemma transfer_tokens_covered:
  "transfer_ok R \<Longrightarrow> transfer_tokens R from to m au n s = Inr s' \<Longrightarrow> tok R s from = Some f \<Longrightarrow> n = 0 \<or> n \<le> ta_amount f"
  by (auto simp: transfer_tokens_def res_simps tok_def split: if_splits elim: transfer_okD)

lemma transfer_tokens_succeeds:
  "transfer_ok R \<Longrightarrow> tok R s from = Some f \<Longrightarrow> tok R s to = Some g \<Longrightarrow> ta_mint f = m \<Longrightarrow> ta_mint g = m \<Longrightarrow> ta_owner f = au \<Longrightarrow>
   0 \<le> n \<Longrightarrow> n \<le> ta_amount f \<Longrightarrow> ta_amount g + n < 2 ^ 64 \<Longrightarrow> \<exists>s'. transfer_tokens R from to m au n s = Inr s'"
  using transfer_okI[of R "ch_tokens s" "from" f to g m au n "ch_lamports s"] cpi_succeeds[of "rt_transfer R from m to au n" s]
  by (simp add: transfer_tokens_def tok_def)

lemma burn_tokens_effect:
  assumes "burn_ok R" "burn_tokens R m from au n s = Inr s'" "tok R s from = Some f"
  shows "tok R s' = (tok R s)(from \<mapsto> f\<lparr>ta_amount := ta_amount f - n\<rparr>)"
proof (cases "n = 0")
  case True
  then have "s' = s" using assms(2) by (simp add: burn_tokens_def)
  then show ?thesis using True assms(3) by (auto simp: fun_eq_iff)
next
  case False
  then obtain l t where "rt_burn R m from au n (ch_lamports s, ch_tokens s) = Some (l, t)" "s' = s\<lparr>ch_lamports := l, ch_tokens := t\<rparr>"
    using assms(2) by (auto simp: burn_tokens_def res_simps)
  then show ?thesis using assms(3) by (elim burn_okD[OF assms(1)]) (simp add: tok_def)
qed

lemma burn_tokens_succeeds:
  "burn_ok R \<Longrightarrow> tok R s from = Some f \<Longrightarrow> ta_mint f = m \<Longrightarrow> ta_owner f = au \<Longrightarrow> 0 \<le> n \<Longrightarrow> n \<le> ta_amount f \<Longrightarrow>
   \<exists>s'. burn_tokens R m from au n s = Inr s'"
  using burn_okI[of R "ch_tokens s" "from" f m au n "ch_lamports s"] cpi_succeeds[of "rt_burn R m from au n" s]
  by (simp add: burn_tokens_def tok_def)

lemma close_token_effect:
  assumes "close_ok R" "close_token_account R a d au s = Inr s'"
  shows "\<exists>f. tok R s a = Some f \<and> ta_amount f = 0 \<and> tok R s' = (tok R s)(a := None)"
proof -
  from assms(2) obtain l t where "rt_close R a d au (ch_lamports s, ch_tokens s) = Some (l, t)" "s' = s\<lparr>ch_lamports := l, ch_tokens := t\<rparr>"
    by (auto simp: close_token_account_def res_simps)
  then show ?thesis by (elim close_okD[OF assms(1)]) (simp add: tok_def)
qed

lemma close_token_succeeds:
  "close_ok R \<Longrightarrow> tok R s a = Some f \<Longrightarrow> ta_owner f = au \<Longrightarrow> ta_amount f = 0 \<Longrightarrow> \<exists>s'. close_token_account R a d au s = Inr s'"
  using close_okI[of R "ch_tokens s" a f au d "ch_lamports s"] cpi_succeeds[of "rt_close R a d au" s]
  by (simp add: close_token_account_def tok_def)

section \<open>The price split\<close>

lemma marketplace_split_exact:
  assumes "u64 n" "0 \<le> cfg_marketplaceFeeBps c" "cfg_marketplaceFeeBps c \<le> MAX_FEE_BPS"
  shows "marketplace_split c n = Inr (n * cfg_marketplaceFeeBps c div 10000, n - n * cfg_marketplaceFeeBps c div 10000)"
proof -
  have n: "0 \<le> n" "n < 2 ^ 64" using assms(1) by (auto simp: u64_def)
  have le: "n * cfg_marketplaceFeeBps c \<le> n * 1000" using assms n by (intro mult_left_mono) (auto simp: MAX_FEE_BPS_def)
  have nn: "0 \<le> n * cfg_marketplaceFeeBps c" using assms(2) n(1) by simp
  have d: "0 \<le> n * cfg_marketplaceFeeBps c div 10000" "n * cfg_marketplaceFeeBps c div 10000 \<le> n"
    using nn le n(1) zdiv_mono1[OF le, of 10000] by (auto simp: pos_imp_zdiv_nonneg_iff)
  have "checked_u 128 (n * cfg_marketplaceFeeBps c) = Inr (n * cfg_marketplaceFeeBps c)"
    using nn le n by (simp add: checked_u_def)
  moreover have "checked_u 64 (n - n * cfg_marketplaceFeeBps c div 10000) = Inr (n - n * cfg_marketplaceFeeBps c div 10000)"
    using d n by (simp add: checked_u_def)
  ultimately show ?thesis using d n
    by (simp add: marketplace_split_def checked_div_u_def RUST_BPS_DENOMINATOR_def Let_def)
qed

lemma marketplace_split_sum: "marketplace_split c n = Inr (fee, rest) \<Longrightarrow> rest = n - fee \<and> 0 \<le> fee \<and> 0 \<le> rest"
  by (auto simp: marketplace_split_def Let_def res_simps)

section \<open>The vault of an auction\<close>

text \<open>What the vault holds beyond the standing bid.\<close>

definition surplus :: "'t runtime \<Rightarrow> 't chain \<Rightarrow> auction \<Rightarrow> int" where
  "surplus R s u = (case tok R s (au_bidVault u) of Some v \<Rightarrow> ta_amount v - au_highestBid u | None \<Rightarrow> 0)"

text \<open>The vault belongs to the auction: neither the bidder nor the standing bidder owns it.\<close>

definition vault_of :: "'t runtime \<Rightarrow> 't chain \<Rightarrow> address \<Rightarrow> auction \<Rightarrow> token_acct \<Rightarrow> bool" where
  "vault_of R s ua u v \<longleftrightarrow> tok R s (au_bidVault u) = Some v \<and> ta_owner v = ua \<and> ua \<noteq> au_seller u \<and>
     au_highestBidder u \<noteq> Some ua \<and> (au_highestBidder u = None \<longleftrightarrow> au_highestBid u = 0) \<and> 0 \<le> au_highestBid u"

lemma refund_previous_effect:
  assumes "transfer_ok R" "refund_previous R ua u prev m s = Inr s'" "tok R s (au_bidVault u) = Some v"
    "au_highestBidder u = None \<longrightarrow> au_highestBid u = 0" "\<forall>p. prev = Some p \<longrightarrow> p \<noteq> au_bidVault u \<and> tok R s p \<noteq> None"
  shows "tok R s' (au_bidVault u) = Some (v\<lparr>ta_amount := ta_amount v - au_highestBid u\<rparr>)"
proof (cases "au_highestBidder u")
  case None
  then show ?thesis using assms(2-4) by (simp add: refund_previous_def)
next
  case (Some b)
  then obtain p where p: "prev = Some p" "transfer_tokens R (au_bidVault u) p m ua (au_highestBid u) s = Inr s'"
    using assms(2) by (auto simp: refund_previous_def split: option.splits)
  then obtain t where "tok R s p = Some t" "p \<noteq> au_bidVault u" using assms(5) by auto
  then show ?thesis using transfer_tokens_effect[OF assms(1) p(2) assms(3)] by auto
qed

lemma refund_previous_frame:
  assumes "transfer_ok R" "refund_previous R ua u prev m s = Inr s'" "tok R s (au_bidVault u) = Some v"
    "\<forall>p. prev = Some p \<longrightarrow> tok R s p \<noteq> None" "tok R s b \<noteq> None"
  shows "tok R s' b \<noteq> None"
proof (cases "au_highestBidder u = None")
  case False
  then obtain p where p: "prev = Some p" "transfer_tokens R (au_bidVault u) p m ua (au_highestBid u) s = Inr s'"
    using assms(2) by (auto simp: refund_previous_def split: option.splits)
  then obtain t where "tok R s p = Some t" using assms(4) by auto
  then show ?thesis using assms(3,5) transfer_tokens_effect[OF assms(1) p(2) assms(3)] p
    by (cases "p = au_bidVault u")
      (auto simp: transfer_tokens_def res_simps tok_def split: if_splits elim!: transfer_okD[OF assms(1)])
qed (use assms(2,5) in \<open>simp add: refund_previous_def\<close>)

lemma bid_surplus:
  assumes T: "transfer_ok R" and b: "bid_handler R now w ua ta prev m n s = Inr s'"
    and u: "ch_accounts s ua = Some (AuctionAcct u)" and v: "vault_of R s ua u v" and w: "w \<noteq> ua"
  shows "\<exists>u'. ch_accounts s' ua = Some (AuctionAcct u') \<and> au_bidVault u' = au_bidVault u \<and> au_highestBidder u' = Some w \<and>
    au_highestBid u' = n \<and> tok R s' (au_bidVault u) = Some (v\<lparr>ta_amount := ta_amount v - au_highestBid u + n\<rparr>)"
proof -
  from b u obtain t s1 s2 e where t: "tok R s ta = Some t" "ta_owner t = w"
    and prev: "\<forall>p. prev = Some p \<longrightarrow> (\<exists>x. tok R s p = Some x \<and> au_highestBidder u = Some (ta_owner x))"
    and s1: "refund_previous R ua u prev m s = Inr s1" and s2: "transfer_tokens R ta (au_bidVault u) m w n s1 = Inr s2"
    and s': "ch_accounts s' = (ch_accounts s2)(ua \<mapsto> AuctionAcct (u\<lparr>au_highestBidder := Some w, au_highestBid := n, au_endTime := e\<rparr>))"
      "tok R s' = tok R s2"
    by (auto simp: bid_handler_def step_simps if_less_max tok_def split: option.splits)
  have vt: "tok R s (au_bidVault u) = Some v" "ta_owner v = ua" using v by (auto simp: vault_of_def)
  have p: "\<forall>p. prev = Some p \<longrightarrow> p \<noteq> au_bidVault u \<and> tok R s p \<noteq> None"
    using prev vt v by (auto simp: vault_of_def)
  have v1: "tok R s1 (au_bidVault u) = Some (v\<lparr>ta_amount := ta_amount v - au_highestBid u\<rparr>)"
    using refund_previous_effect[OF T s1 vt(1) _ p] v by (simp add: vault_of_def)
  obtain t1 where t1: "tok R s1 ta = Some t1"
    using refund_previous_frame[OF T s1 vt(1), of ta] p t(1) by auto
  have "ta \<noteq> au_bidVault u" using t vt w by auto
  from transfer_tokens_effect[OF T s2 t1 v1 this] s' show ?thesis by auto
qed

text \<open>The vault, on any runtime whose Token program keeps its contract.\<close>

locale token_program =
  fixes R :: "'t runtime"
  assumes tokens: "tokens_ok R"
begin

lemma pay_winner_vault:
  assumes p: "pay_winner R c ua u sa m r s = Inr (fee, r', s')" and v: "vault_of R s ua u v"
    and sa: "\<forall>x. sa = Some x \<longrightarrow> (\<exists>t. tok R s x = Some t \<and> ta_owner t = au_seller u)"
  shows "tok R s' (au_bidVault u) = Some (v\<lparr>ta_amount := ta_amount v - au_highestBid u\<rparr>)"
proof (cases "au_highestBidder u")
  case None
  then show ?thesis using p v by (auto simp: pay_winner_def vault_of_def)
next
  case (Some b)
  with p obtain ts x s1 where x: "marketplace_split c (au_highestBid u) = Inr (fee, ts)" "sa = Some x"
    "transfer_tokens R (au_bidVault u) x m ua ts s = Inr s1" "burn_tokens R m (au_bidVault u) ua fee s1 = Inr s'"
    by (auto simp: pay_winner_def res_simps split: option.splits)
  obtain t where t: "tok R s x = Some t" "ta_owner t = au_seller u" using sa x(2) by blast
  have vt: "tok R s (au_bidVault u) = Some v" "au_bidVault u \<noteq> x" using v t by (auto simp: vault_of_def)
  have "tok R s1 (au_bidVault u) = Some (v\<lparr>ta_amount := ta_amount v - ts\<rparr>)"
    using transfer_tokens_effect[OF _ x(3) vt(1) t(1) vt(2)] tokens vt(2) by (auto simp: tokens_ok_def)
  from burn_tokens_effect[OF _ x(4) this] show ?thesis
    using tokens marketplace_split_sum[OF x(1)] by (auto simp: tokens_ok_def)
qed

lemma settle_auctionE:
  assumes "settle_auction_handler R now sa a ua m s = Inr s'" "ch_accounts s ua = Some (AuctionAcct u)"
  obtains c r fee r' s1 s2 where "load_config R s = Inr c" "ch_accounts s a = Some (NameAcct r)"
    "pay_winner R c ua u sa m r s = Inr (fee, r', s1)"
    "\<forall>x. sa = Some x \<longrightarrow> (\<exists>t. tok R s x = Some t \<and> ta_owner t = au_seller u)"
    "close_token_account R (au_bidVault u) (au_seller u) ua (put a (NameAcct (r'\<lparr>nr_listed := False\<rparr>)) s1) = Inr s2"
  using assms by (auto simp: settle_auction_handler_def step_simps tok_def split: option.splits)

lemma settle_needs_exact_vault:
  assumes "settle_auction_handler R now sa a ua m s = Inr s'" "ch_accounts s ua = Some (AuctionAcct u)" "vault_of R s ua u v"
  shows "ta_amount v = au_highestBid u"
proof -
  obtain c r fee r' s1 s2 where p: "pay_winner R c ua u sa m r s = Inr (fee, r', s1)"
    "\<forall>x. sa = Some x \<longrightarrow> (\<exists>t. tok R s x = Some t \<and> ta_owner t = au_seller u)"
    "close_token_account R (au_bidVault u) (au_seller u) ua (put a (NameAcct (r'\<lparr>nr_listed := False\<rparr>)) s1) = Inr s2"
    using settle_auctionE[OF assms(1,2)] by metis
  from close_token_effect[OF _ p(3)] pay_winner_vault[OF p(1) assms(3) p(2)] tokens
  show ?thesis by (auto simp: tokens_ok_def)
qed

lemma cancel_needs_empty_vault:
  assumes "cancel_auction_handler R w a ua s = Inr s'" "ch_accounts s ua = Some (AuctionAcct u)" "vault_of R s ua u v"
  shows "ta_amount v = au_highestBid u"
proof -
  from assms(1,2) obtain x s1 where "close_token_account R (au_bidVault u) w ua (put a x s) = Inr s1" "au_highestBidder u = None"
    by (auto simp: cancel_auction_handler_def step_simps)
  with close_token_effect[of R "au_bidVault u" w ua "put a x s" s1] tokens assms(3) show ?thesis
    by (auto simp: tokens_ok_def vault_of_def)
qed

text \<open>Settling an ended auction whose vault holds exactly the winning bid.\<close>

lemma settle_auction_pays:
  assumes c: "load_config R s = Inr c" "0 \<le> cfg_marketplaceFeeBps c" "cfg_marketplaceFeeBps c \<le> MAX_FEE_BPS"
    and u: "load_auction_pda R s ua = Inr u" "au_highestBidder u = Some w" "u64 (au_highestBid u)" "au_endTime u \<le> now"
    and r: "load_name_pda R s a = Inr r" "nr_nameHash r = au_nameHash u"
    and v: "vault_of R s ua u v" "ta_mint v = m" "ta_amount v = au_highestBid u"
    and x: "tok R s x = Some t" "ta_mint t = m" "ta_owner t = au_seller u" "ta_amount t + au_highestBid u < 2 ^ 64"
  shows "\<exists>s'. settle_auction_handler R now (Some x) a ua m s = Inr s' \<and>
    ch_accounts s' = (ch_accounts s)(a \<mapsto> NameAcct ((moved r w)\<lparr>nr_listed := False\<rparr>), ua := None) \<and>
    tok R s' = (tok R s)(x \<mapsto> t\<lparr>ta_amount := ta_amount t + (au_highestBid u - au_highestBid u * cfg_marketplaceFeeBps c div 10000)\<rparr>,
      au_bidVault u := None)"
proof -
  define fee where "fee = au_highestBid u * cfg_marketplaceFeeBps c div 10000"
  note R = tokens[unfolded tokens_ok_def]
  have sp: "marketplace_split c (au_highestBid u) = Inr (fee, au_highestBid u - fee)"
    using marketplace_split_exact[OF u(3) c(2,3)] by (simp add: fee_def)
  note f = marketplace_split_sum[OF sp]
  have vt: "tok R s (au_bidVault u) = Some v" "ta_owner v = ua" "au_bidVault u \<noteq> x" using v x by (auto simp: vault_of_def)
  obtain s1 where s1: "transfer_tokens R (au_bidVault u) x m ua (au_highestBid u - fee) s = Inr s1"
    using transfer_tokens_succeeds[OF _ vt(1) x(1) v(2) x(2) vt(2)] R f v(3) x(4) by fastforce
  note t1 = transfer_tokens_effect[OF conjunct1[OF R] s1 vt(1) x(1) vt(3)]
  obtain s2 where s2: "burn_tokens R m (au_bidVault u) ua fee s1 = Inr s2"
    using burn_tokens_succeeds[of R s1 "au_bidVault u" "v\<lparr>ta_amount := fee\<rparr>" m ua fee] t1 vt v f R by auto
  have t2: "tok R s2 = (tok R s1)(au_bidVault u \<mapsto> v\<lparr>ta_amount := 0\<rparr>)"
    using burn_tokens_effect[OF _ s2, of "v\<lparr>ta_amount := fee\<rparr>"] t1 vt v(3) R by auto
  let ?r = "NameAcct ((moved r w)\<lparr>nr_listed := False\<rparr>)"
  obtain s3 where s3: "close_token_account R (au_bidVault u) (au_seller u) ua (put a ?r s2) = Inr s3"
    using close_token_succeeds[of R "put a ?r s2" "au_bidVault u" "v\<lparr>ta_amount := 0\<rparr>" ua "au_seller u"] t2 vt R by auto
  have t3: "tok R s3 = (tok R s2)(au_bidVault u := None)" using close_token_effect[OF _ s3] R by auto
  have A: "ch_accounts s3 = (ch_accounts s)(a \<mapsto> ?r)"
    using close_token_accounts[OF s3] burn_tokens_accounts[OF s2] transfer_tokens_accounts[OF s1] by simp
  have "settle_auction_handler R now (Some x) a ua m s = Inr (close_account ua (au_seller u)
      (emit (AuctionSettled (au_nameHash u) (au_seller u) (Some w) (au_highestBid u) fee) s3))"
    using s3 v(2) x vt u r c(1) s1 s2 sp
    by (simp add: settle_auction_handler_def pay_winner_def token_owned_def token_of_def load_token_def require_def constraint_def
        tok_def moved_def)
  then show ?thesis using A t1 t2 t3 vt(3) by (auto simp: fee_def fun_eq_iff)
qed

end

end
