(* ===== verification/Chain_Pool.thy ===== *)
theory Chain_Pool
  imports Chain_Invariant
begin

text \<open>
  The staking pool in the reachable states of the program: the pool's total is the sum of the stakes,
  because the three staking handlers move both and no other instruction touches either.
\<close>

definition stakers :: "accounts \<Rightarrow> address set" where
  "stakers A = {x. \<exists>k. A x = Some (StakeAcct k)}"

definition staked_at :: "accounts \<Rightarrow> address \<Rightarrow> int" where
  "staked_at A x = (case A x of Some (StakeAcct k) \<Rightarrow> sa_amount k | _ \<Rightarrow> 0)"

definition pool_ok :: "'t runtime \<Rightarrow> accounts \<Rightarrow> bool" where
  "pool_ok R A \<longleftrightarrow>
     finite (stakers A) \<and> (\<forall>x k. A x = Some (StakeAcct k) \<longrightarrow> u64 (sa_amount k)) \<and>
     (\<forall>x p. A x = Some (PoolAcct p) \<longrightarrow> x = pool_pda R \<and> u64 (sp_totalStaked p) \<and> sp_totalStaked p = (\<Sum>x\<in>stakers A. staked_at A x)) \<and>
     ((\<forall>p. A (pool_pda R) \<noteq> Some (PoolAcct p)) \<longrightarrow> stakers A = {})"

lemma pool_okI:
  assumes "finite (stakers A)" "\<And>x k. A x = Some (StakeAcct k) \<Longrightarrow> u64 (sa_amount k)"
    "\<And>x p. A x = Some (PoolAcct p) \<Longrightarrow> x = pool_pda R \<and> u64 (sp_totalStaked p) \<and> sp_totalStaked p = (\<Sum>x\<in>stakers A. staked_at A x)"
    "(\<And>p. A (pool_pda R) \<noteq> Some (PoolAcct p)) \<Longrightarrow> stakers A = {}"
  shows "pool_ok R A"
  unfolding pool_ok_def by (intro conjI allI impI) (use assms in blast)+

lemma pool_okD:
  assumes "pool_ok R A"
  shows "finite (stakers A)" "A x = Some (StakeAcct k) \<Longrightarrow> u64 (sa_amount k)"
    "A x = Some (PoolAcct p) \<Longrightarrow> x = pool_pda R \<and> u64 (sp_totalStaked p) \<and> sp_totalStaked p = (\<Sum>x\<in>stakers A. staked_at A x)"
    "(\<And>p. A (pool_pda R) \<noteq> Some (PoolAcct p)) \<Longrightarrow> stakers A = {}"
  using assms unfolding pool_ok_def by blast+

section \<open>Other instructions\<close>

lemma aux_not_staked: "aux y \<Longrightarrow> \<not> staked y"
  by (induction y rule: aux.induct) auto

lemma step_stakes:
  assumes "registry_step R now w s False C A"
  shows "A x = ch_accounts s x \<or> \<not> staked (ch_accounts s x) \<and> \<not> staked (A x)"
  using assms
proof cases
  case reg_other
  then show ?thesis using reg_other(2)[of x] aux_not_staked by blast
qed auto

lemma step_keeps_stakes:
  "registry_step R now w s False C A \<Longrightarrow> staked (ch_accounts s x) \<or> staked (A x) \<Longrightarrow> A x = ch_accounts s x"
  using step_stakes[of R now w s C A x] by blast

lemma pool_ok_keep:
  assumes "pool_ok R A" "\<And>x. staked (A x) \<or> staked (A' x) \<Longrightarrow> A' x = A x"
  shows "pool_ok R A'"
proof -
  have st: "A' x = Some (StakeAcct k) \<longleftrightarrow> A x = Some (StakeAcct k)" for x k
    using assms(2)[of x] by (metis staked.simps(2))
  have pl: "A' x = Some (PoolAcct p) \<longleftrightarrow> A x = Some (PoolAcct p)" for x p
    using assms(2)[of x] by (metis staked.simps(1))
  have S: "stakers A' = stakers A" by (simp add: stakers_def st)
  have T: "(\<Sum>x\<in>stakers A. staked_at A' x) = (\<Sum>x\<in>stakers A. staked_at A x)"
  proof (rule sum.cong[OF refl])
    fix x assume "x \<in> stakers A"
    then obtain k where "A x = Some (StakeAcct k)" by (auto simp: stakers_def)
    then show "staked_at A' x = staked_at A x" using st[of x k] by (simp add: staked_at_def)
  qed
  show ?thesis using assms(1) unfolding pool_ok_def st pl S T .
qed

section \<open>The staking instructions\<close>

text \<open>A staking step replaces one stake and moves the pool's total by the same amount.\<close>

lemma pool_ok_move:
  assumes "pool_ok R A" "A (pool_pda R) = Some (PoolAcct p)" "A ka = None \<or> (\<exists>k0. A ka = Some (StakeAcct k0))"
    "sp_totalStaked p' = sp_totalStaked p + (sa_amount k - staked_at A ka)" "u64 (sp_totalStaked p')" "u64 (sa_amount k)"
  shows "pool_ok R (A(ka \<mapsto> StakeAcct k, pool_pda R \<mapsto> PoolAcct p'))"
proof -
  define B where "B = A(ka \<mapsto> StakeAcct k, pool_pda R \<mapsto> PoolAcct p')"
  have ne: "ka \<noteq> pool_pda R" using assms(2,3) by auto
  have fin: "finite (stakers A)" and tot: "sp_totalStaked p = (\<Sum>x\<in>stakers A. staked_at A x)"
    using assms(1,2) by (auto simp: pool_ok_def)
  have S: "stakers B = insert ka (stakers A)" using ne assms(2) by (auto simp: stakers_def B_def)
  have "(\<Sum>x\<in>stakers B. staked_at B x) = sa_amount k + (\<Sum>x\<in>stakers A - {ka}. staked_at B x)"
    unfolding S using fin ne by (subst sum.insert_remove) (auto simp: staked_at_def B_def)
  also have "(\<Sum>x\<in>stakers A - {ka}. staked_at B x) = (\<Sum>x\<in>stakers A - {ka}. staked_at A x)"
    by (rule sum.cong) (use ne assms(2) in \<open>auto simp: staked_at_def stakers_def B_def\<close>)
  also have "(\<Sum>x\<in>stakers A - {ka}. staked_at A x) = (\<Sum>x\<in>stakers A. staked_at A x) - staked_at A ka"
    using fin by (cases "ka \<in> stakers A") (auto simp: sum_diff1 staked_at_def stakers_def split: option.splits account.splits)
  finally have t: "(\<Sum>x\<in>stakers B. staked_at B x) = sp_totalStaked p'" using assms(4) tot by simp
  show ?thesis unfolding B_def[symmetric]
  proof (rule pool_okI)
    fix x q assume "B x = Some (PoolAcct q)"
    then have "x = pool_pda R" "q = p'"
      using pool_okD(3)[OF assms(1), of x q] ne by (auto simp: B_def split: if_splits)
    then show "x = pool_pda R \<and> u64 (sp_totalStaked q) \<and> sp_totalStaked q = (\<Sum>x\<in>stakers B. staked_at B x)"
      unfolding t using assms(5) by blast
  next
    fix x q assume "B x = Some (StakeAcct q)"
    then show "u64 (sa_amount q)" using pool_okD(2)[OF assms(1), of x q] assms(6) by (auto simp: B_def split: if_splits)
  qed (use S fin in \<open>auto simp: B_def\<close>)
qed

lemma sync_total: "sync p n = Inr p' \<Longrightarrow> sp_totalStaked p' = sp_totalStaked p"
  by (auto simp: sync_def Let_def res_simps split: if_splits)

lemma settle_pending_effect:
  "settle_pending R c p k ra n s = Inr x \<Longrightarrow> ch_accounts (snd x) = ch_accounts s \<and> sp_totalStaked (fst x) = sp_totalStaked p"
  by (auto simp: settle_pending_def res_simps dest: sync_total transfer_tokens_accounts)

lemma rebaseline_pool:
  "rebaseline R p s = Inr s' \<Longrightarrow>
   \<exists>n. ch_accounts s' = (ch_accounts s)(pool_pda R \<mapsto> PoolAcct (p\<lparr>sp_lastRewardBalance := n\<rparr>))"
  by (auto simp: rebaseline_def res_simps)

text \<open>What the three staking instructions have in common, for the position at \<open>ka\<close>.\<close>

definition moves_stake :: "'t runtime \<Rightarrow> accounts \<Rightarrow> accounts \<Rightarrow> bool" where
  "moves_stake R A A' \<longleftrightarrow> (\<exists>p p' ka k. A (pool_pda R) = Some (PoolAcct p) \<and> (A ka = None \<or> (\<exists>k0. A ka = Some (StakeAcct k0))) \<and>
     sp_totalStaked p' = sp_totalStaked p + (sa_amount k - staked_at A ka) \<and> (u64 (sp_totalStaked p) \<longrightarrow> u64 (sp_totalStaked p')) \<and>
     ((\<forall>k0. A ka = Some (StakeAcct k0) \<longrightarrow> u64 (sa_amount k0)) \<longrightarrow> u64 (sa_amount k)) \<and>
     A' = A(ka \<mapsto> StakeAcct k, pool_pda R \<mapsto> PoolAcct p'))"

lemma moves_stake_pool_ok:
  assumes "moves_stake R A A'" "pool_ok R A"
  shows "pool_ok R A'"
proof -
  from assms(1) obtain p p' ka k where m: "A (pool_pda R) = Some (PoolAcct p)" "A ka = None \<or> (\<exists>k0. A ka = Some (StakeAcct k0))"
    "sp_totalStaked p' = sp_totalStaked p + (sa_amount k - staked_at A ka)" "u64 (sp_totalStaked p) \<longrightarrow> u64 (sp_totalStaked p')"
    "(\<forall>k0. A ka = Some (StakeAcct k0) \<longrightarrow> u64 (sa_amount k0)) \<longrightarrow> u64 (sa_amount k)"
    and A': "A' = A(ka \<mapsto> StakeAcct k, pool_pda R \<mapsto> PoolAcct p')"
    unfolding moves_stake_def by blast
  have "u64 (sp_totalStaked p')" "u64 (sa_amount k)" using m assms(2) unfolding pool_ok_def by blast+
  from pool_ok_move[OF assms(2) m(1-3) this] show ?thesis by (simp only: A')
qed

lemma moves_stakeI:
  assumes "A (pool_pda R) = Some (PoolAcct p)" "A ka = None \<or> (\<exists>k0. A ka = Some (StakeAcct k0))"
    "sp_totalStaked p' = sp_totalStaked p + (sa_amount k - staked_at A ka)" "u64 (sp_totalStaked p) \<longrightarrow> u64 (sp_totalStaked p')"
    "(\<forall>k0. A ka = Some (StakeAcct k0) \<longrightarrow> u64 (sa_amount k0)) \<longrightarrow> u64 (sa_amount k)"
  shows "moves_stake R A (A(ka \<mapsto> StakeAcct k, pool_pda R \<mapsto> PoolAcct p'))"
  using assms unfolding moves_stake_def by blast

lemma stake_moves: "stake_handler R w ta ra n s = Inr s' \<Longrightarrow> moves_stake R (ch_accounts s) (ch_accounts s')"
  by (auto simp: stake_handler_def step_simps staked_at_def u64_def blank_stake_def split: if_splits
      dest!: step_frames settle_pending_effect rebaseline_pool intro!: moves_stakeI)

lemma unstake_moves: "unstake_handler R w ta ra n s = Inr s' \<Longrightarrow> moves_stake R (ch_accounts s) (ch_accounts s')"
  by (auto simp: unstake_handler_def step_simps staked_at_def u64_def split: if_splits
      dest!: step_frames settle_pending_effect rebaseline_pool intro!: moves_stakeI)

lemma claim_rewards_moves: "claim_rewards_handler R w ra s = Inr s' \<Longrightarrow> moves_stake R (ch_accounts s) (ch_accounts s')"
  by (auto simp: claim_rewards_handler_def step_simps staked_at_def u64_def split: if_splits
      dest!: step_frames settle_pending_effect rebaseline_pool intro!: moves_stakeI)

lemma init_stake_pool_ok:
  assumes "init_stake_pool_handler R w m pm s = Inr s'" "pool_ok R (ch_accounts s)"
  shows "pool_ok R (ch_accounts s')"
proof -
  from assms(1) obtain c b where c: "ch_accounts s (config_pda R) = Some (ConfigAcct c)" "ch_accounts s (pool_pda R) = None"
    and A: "ch_accounts s' = (ch_accounts s)(pool_pda R \<mapsto> PoolAcct (blank_pool\<lparr>sp_solansMint := m,
        sp_stakeVault := rt_ata_address R m (pool_pda R), sp_rewardVault := rt_ata_address R (cfg_paymentMint c) (pool_pda R),
        sp_totalStaked := 0, sp_accRewardPerShare := 0, sp_lastRewardBalance := 0, sp_bump := b\<rparr>),
      config_pda R \<mapsto> ConfigAcct (c\<lparr>cfg_stakingVault := rt_ata_address R (cfg_paymentMint c) (pool_pda R)\<rparr>))"
    by (auto simp: init_stake_pool_handler_def step_simps pool_pda_def[symmetric] dest!: step_frames)
  have ne: "config_pda R \<noteq> pool_pda R" using c(1,2) by auto
  have n: "ch_accounts s x \<noteq> Some (StakeAcct k)" for x k using pool_okD(4)[OF assms(2)] c(2) by (auto simp: stakers_def)
  have e: "stakers (ch_accounts s') = {}" unfolding A by (auto simp: stakers_def n split: if_splits)
  show ?thesis
  proof (rule pool_okI)
    fix x p assume "ch_accounts s' x = Some (PoolAcct p)"
    then have "x = pool_pda R \<and> sp_totalStaked p = 0"
      using pool_okD(3)[OF assms(2), of x p] c(2) ne unfolding A by (auto split: if_splits)
    then show "x = pool_pda R \<and> u64 (sp_totalStaked p) \<and>
        sp_totalStaked p = (\<Sum>x\<in>stakers (ch_accounts s'). staked_at (ch_accounts s') x)" by (simp add: e u64_def)
  qed (use e in \<open>auto simp: stakers_def\<close>)
qed

lemma exec_pool_ok:
  assumes "exec R now i s = Inr s'" "years_ok i" "pool_ok R (ch_accounts s)"
  shows "pool_ok R (ch_accounts s')"
proof (cases "staking i")
  case False
  with exec_registry_step[OF assms(1,2)] have "registry_step R now (signer i) s False (created i s) (ch_accounts s')" by simp
  then show ?thesis by (intro pool_ok_keep[OF assms(3)] step_keeps_stakes)
next
  case True
  then show ?thesis using assms(1,3)
    by (cases i) (auto dest: init_stake_pool_ok stake_moves unstake_moves claim_rewards_moves intro: moves_stake_pool_ok)
qed

interpretation pool: program_invariant R "\<lambda>G A. pool_ok R A" for R :: "'t runtime"
proof unfold_locales
  show "pool_ok R (\<lambda>a. None)" by (simp add: pool_ok_def stakers_def)
qed (rule exec_pool_ok)

lemmas reach_pool_ok = pool.always

end
