(* ===== verification/Chain_Sample.thy ===== *)
theory Chain_Sample
  imports Chain_Escrow Chain_Pool Samples
begin

text \<open>
  A reference runtime with a token ledger of its own, on which the hypotheses about the programs the
  registry calls hold, and the runs on it that the witnesses and the counterexamples use.
\<close>

section \<open>A reference runtime\<close>

type_synonym ref_tokens = "address \<Rightarrow> token_acct option"

definition ref_transfer :: "address \<Rightarrow> address \<Rightarrow> address \<Rightarrow> address \<Rightarrow> int \<Rightarrow> ref_tokens cpi_call" where
  "ref_transfer from m to au n = (\<lambda>(l, t).
     case t from of None \<Rightarrow> None | Some f \<Rightarrow>
     case t to of None \<Rightarrow> None | Some g \<Rightarrow>
       if ta_mint f = m \<and> ta_mint g = m \<and> ta_owner f = au \<and> 0 \<le> n \<and> n \<le> ta_amount f \<and> ta_amount g + n < 2 ^ 64
       then Some (l, if from = to then t
              else t(from \<mapsto> f\<lparr>ta_amount := ta_amount f - n\<rparr>, to \<mapsto> g\<lparr>ta_amount := ta_amount g + n\<rparr>))
       else None)"

definition ref_burn :: "address \<Rightarrow> address \<Rightarrow> address \<Rightarrow> int \<Rightarrow> ref_tokens cpi_call" where
  "ref_burn m from au n = (\<lambda>(l, t).
     case t from of None \<Rightarrow> None | Some f \<Rightarrow>
       if ta_mint f = m \<and> ta_owner f = au \<and> 0 \<le> n \<and> n \<le> ta_amount f
       then Some (l, t(from \<mapsto> f\<lparr>ta_amount := ta_amount f - n\<rparr>)) else None)"

definition ref_close :: "address \<Rightarrow> address \<Rightarrow> address \<Rightarrow> ref_tokens cpi_call" where
  "ref_close a d au = (\<lambda>(l, t).
     case t a of None \<Rightarrow> None | Some f \<Rightarrow>
       if ta_owner f = au \<and> ta_amount f = 0 then Some (l(d := l d + l a, a := 0), t(a := None)) else None)"

definition ref_system_transfer :: "address \<Rightarrow> address \<Rightarrow> int \<Rightarrow> ref_tokens cpi_call" where
  "ref_system_transfer from to n = (\<lambda>(l, t).
     if n = 0 then Some (l, t)
     else if 0 \<le> n \<and> n \<le> l from then Some ((l(from := l from - n))(to := (l(from := l from - n)) to + n), t) else None)"

definition ref_ata_address :: "address \<Rightarrow> address \<Rightarrow> address" where
  "ref_ata_address m w = last w # m"

definition ref_ata :: "address \<Rightarrow> address \<Rightarrow> address \<Rightarrow> ref_tokens cpi_call" where
  "ref_ata payer m w = (\<lambda>(l, t).
     if t (ref_ata_address m w) = None
     then Some (l, t(ref_ata_address m w \<mapsto> \<lparr>ta_mint = m, ta_owner = w, ta_amount = 0\<rparr>)) else None)"

text \<open>The addresses that the reference kit derives, so that the client and the program agree on them.\<close>

definition ref_hash :: "bytes \<Rightarrow> bytes" where
  "ref_hash bs = take 32 (length bs mod 256 # bs @ replicate 32 0)"

definition ref_find :: "bytes list \<Rightarrow> address \<times> int" where
  "ref_find seeds = (case toy_pda SOLANS_PROGRAM_ADDRESS seeds of Inr x \<Rightarrow> x | Inl e \<Rightarrow> (sample_address, 0))"

definition pda :: "nat \<Rightarrow> address" where
  "pda n = replicate 31 49 @ [alphabet58 ! (n mod 57 + 1)]"

lemma ref_find_pda:
  "ref_find seeds = (if length seeds > 16 \<or> list_ex (\<lambda>s. length s > 32) seeds then (sample_address, 0) else (pda (sum_list (concat seeds)), 255))"
  by (simp add: ref_find_def toy_pda_def pda_def)

lemma pda_eq [simp]: "pda m = pda n \<longleftrightarrow> m mod 57 = n mod 57"
proof -
  have "distinct alphabet58" "length alphabet58 = 58" by (simp_all add: alphabet58_def)
  moreover have "m mod 57 < 57" "n mod 57 < 57" by simp_all
  ultimately show ?thesis by (simp add: pda_def nth_eq_iff_index_eq)
qed

lemma pda_length [simp]: "length (pda n) = 32"
  by (simp add: pda_def)

lemma pda_short [simp]: "pda n \<noteq> []" "pda n \<noteq> [x]" "[x] \<noteq> pda n"
  by (simp_all add: pda_def append_eq_Cons_conv Cons_eq_append_conv)

lemma sample_wallet_pda: "sample_wallet = pda 0"
  by (simp add: sample_wallet_def pda_def alphabet58_def)

definition ref_runtime :: "ref_tokens runtime" where
  "ref_runtime =
     \<lparr>rt_keccak = ref_hash, find_program_address = ref_find,
      create_program_address = (\<lambda>seeds b. if b = 255 then Some (fst (ref_find seeds)) else None),
      pubkey_bytes = (\<lambda>w. w), rent_exempt = (\<lambda>x. 2), system_transfer = ref_system_transfer,
      token_account = (\<lambda>t. t), rt_transfer = ref_transfer, rt_burn = ref_burn, rt_close = ref_close,
      rt_ata_address = ref_ata_address, rt_ata = ref_ata, rt_mint_init = (\<lambda>p m au x. Some x),
      rt_mint_to = (\<lambda>m to au n (l, t). case t to of None \<Rightarrow> None | Some f \<Rightarrow> Some (l, t(to \<mapsto> f\<lparr>ta_amount := ta_amount f + n\<rparr>))),
      rt_metadata = (\<lambda>m au p nm sy x. Some x), rt_edition = (\<lambda>m au p n x. Some x),
      rt_burn_nft = (\<lambda>m ta w (l, t). Some (l, t(ta := None)))\<rparr>"

lemma ref_runtime_sel:
  "token_account ref_runtime = (\<lambda>t. t)" "rt_transfer ref_runtime = ref_transfer" "system_transfer ref_runtime = ref_system_transfer"
  "rent_exempt ref_runtime = (\<lambda>x. 2)" "rt_ata ref_runtime = ref_ata" "rt_ata_address ref_runtime = ref_ata_address"
  by (simp_all add: ref_runtime_def)

lemma ref_tokens_ok: "tokens_ok ref_runtime"
  by (auto simp: tokens_ok_def transfer_ok_def burn_ok_def close_ok_def ref_runtime_def ref_transfer_def ref_burn_def ref_close_def
      split: option.splits if_splits)

interpretation ref: token_program ref_runtime
  by unfold_locales (rule ref_tokens_ok)

lemmas ref_simps = ref_runtime_def ref_transfer_def ref_burn_def ref_close_def ref_system_transfer_def ref_find_pda
  ref_ata_address_def ref_ata_def
lemmas eval_simps = cpi_def require_def constraint_def load_def load_config_def load_name_pda_def load_listing_pda_def
  load_auction_pda_def load_offer_pda_def load_token_def token_of_def token_owned_def init_account_def put_def emit_def
  close_account_def transfer_tokens_def burn_tokens_def close_token_account_def seeds_ok_def config_pda_def pool_pda_def name_pda_def
  listing_pda_def auction_pda_def stake_pda_def NAME_SEED_def CONFIG_SEED_def STAKE_POOL_SEED_def STAKE_SEED_def
  RUST_LISTING_SEED_def RUST_AUCTION_SEED_def

section \<open>A registry with one name and one subdomain\<close>

definition sample_params :: config_params where
  "sample_params = \<lparr>p_price_1 = 20, p_price_2 = 6, p_price_3 = 5, p_price_4 = 4, p_price_5plus = 3, p_price_numeric = 9,
     p_grace_period_seconds = 10, p_min_years = 1, p_max_years = 5, p_sol_treasury = [70], p_marketplace_fee_bps = 200,
     p_staking_fee_bps = 2500, p_referral_fee_bps = 500, p_burn_fee_bps = 1000\<rparr>"

definition sample_fees :: fee_accounts where
  "sample_fees = \<lparr>fa_payer_token = [30], fa_treasury = [31], fa_staking_vault = [32], fa_burn_vault = [33],
     fa_referral = None, fa_mint = [9]\<rparr>"

definition sample_ledger :: "int \<Rightarrow> int \<Rightarrow> int \<Rightarrow> int \<Rightarrow> ref_tokens" where
  "sample_ledger np nt ns nb =
     [[30] \<mapsto> \<lparr>ta_mint = [9], ta_owner = sample_wallet, ta_amount = np\<rparr>,
      [31] \<mapsto> \<lparr>ta_mint = [9], ta_owner = [70], ta_amount = nt\<rparr>,
      [32] \<mapsto> \<lparr>ta_mint = [9], ta_owner = [70], ta_amount = ns\<rparr>,
      [33] \<mapsto> \<lparr>ta_mint = [9], ta_owner = [70], ta_amount = nb\<rparr>]"

definition sample_start :: "ref_tokens chain" where
  "sample_start = \<lparr>ch_accounts = Map.empty, ch_lamports = (\<lambda>a. 100), ch_tokens = sample_ledger 50 0 0 0, ch_logs = [], ch_return = []\<rparr>"

definition sample_cfg :: config where
  "sample_cfg = with_params sample_params
     (blank_config\<lparr>cfg_admin := [70], cfg_paymentMint := [9], cfg_treasuryTokenAccount := [31], cfg_stakingVault := [32],
        cfg_burnVault := [33], cfg_bump := 255\<rparr>)"

definition sample_hash :: bytes where "sample_hash = ref_hash (js ''a.sol'')"

lemma sample_hash_sums [simp]:
  "length sample_hash = 32" "sum_list sample_hash = 482" "compute_name_hash ref_hash [97] [115, 111, 108] = sample_hash"
  by (simp_all add: sample_hash_def ref_hash_def compute_name_hash_def utf8_def utf8_char_def)

definition chain_name :: nameRecord where
  "chain_name = init_top_level_record blank_name sample_wallet sample_hash (js ''sol'') 5 31536005 255"

definition sample_configured :: "ref_tokens chain" where
  "sample_configured = sample_start\<lparr>ch_accounts := [config_pda ref_runtime \<mapsto> ConfigAcct sample_cfg]\<rparr>"

definition sample_registered :: "ref_tokens chain" where
  "sample_registered = sample_configured\<lparr>
     ch_accounts := (ch_accounts sample_configured)(name_pda ref_runtime sample_hash \<mapsto> NameAcct chain_name),
     ch_tokens := sample_ledger 30 13 5 2\<rparr>"

lemma sample_init: "exec ref_runtime 0 (Ix_init_config [70] [9] [31] [32] [33] sample_params) sample_start = Inr sample_configured"
  by (simp add: init_config_handler_def params_ok_def sample_params_def sample_start_def ref_simps eval_simps
   sample_configured_def sample_ledger_def RUST_BPS_DENOMINATOR_def MAX_FEE_BPS_def sample_cfg_def with_params_def blank_config_def)

lemma sample_cfg_sel [simp]:
  "cfg_admin sample_cfg = [70]" "cfg_bump sample_cfg = 255" "cfg_treasuryTokenAccount sample_cfg = [31]" "cfg_stakingVault sample_cfg = [32]"
  "cfg_burnVault sample_cfg = [33]" "cfg_paymentMint sample_cfg = [9]" "cfg_minYears sample_cfg = 1" "cfg_maxYears sample_cfg = 5"
  "cfg_marketplaceFeeBps sample_cfg = 200" "cfg_gracePeriodSeconds sample_cfg = 10"
  by (simp_all add: sample_cfg_def with_params_def sample_params_def blank_config_def)

lemma sample_label [simp]: "validate_name [97] = Inr ()" "validate_tld [115, 111, 108] = Inr ()"
  by (simp_all add: validate_name_def validate_tld_def utf8_def utf8_char_def NAME_MIN_LEN_def RUST_NAME_MAX_LEN_def
      RUST_ALLOWED_TLDS_def)

lemma sample_price [simp]: "price_for_label sample_cfg [97] = 20" "fee_split sample_cfg 20 = (12, 5, 1, 2)"
  by (simp_all add: price_for_label_def price_for_len_def fee_split_def ascii_str_def utf8_def utf8_char_def saturating_sub_def
      RUST_BPS_DENOMINATOR_def sample_cfg_def with_params_def sample_params_def blank_config_def)

lemma sample_term [simp]: "term_end 5 1 = Inr 31536005" "term_end 40000000 1 = Inr 71536000" "validate_years 1 1 5 = Inr ()"
  by (simp_all add: term_end_def years_to_secs_def validate_years_def checked_i64_def i64_def SECONDS_PER_YEAR_def)

lemma sample_register:
  "exec ref_runtime 5 (Ix_register_name sample_wallet sample_wallet sample_fees (js ''a'') (js ''sol'') sample_hash 1) sample_configured =
   Inr sample_registered"
proof -
  have "sample_ledger 30 13 5 2 =
    [[32] \<mapsto> \<lparr>ta_mint = [9], ta_owner = [70], ta_amount = 5\<rparr>, [33] \<mapsto> \<lparr>ta_mint = [9], ta_owner = [70], ta_amount = 2\<rparr>,
     [30] \<mapsto> \<lparr>ta_mint = [9], ta_owner = sample_wallet, ta_amount = 30\<rparr>, [31] \<mapsto> \<lparr>ta_mint = [9], ta_owner = [70], ta_amount = 13\<rparr>]"
    by (auto simp: sample_ledger_def fun_eq_iff)
  then show ?thesis
    by (simp add: register_name_handler_def sample_configured_def sample_registered_def sample_start_def ref_simps eval_simps
        fee_accounts_ok_def sample_fees_def sample_ledger_def distribute_fee_def checked_u_def chain_name_def)
qed

definition sample_sub_hash :: bytes where "sample_sub_hash = compute_subdomain_hash ref_hash sample_hash (js ''a'')"

lemma sample_sub_sums [simp]: "length sample_sub_hash = 32" "sum_list sample_sub_hash = 516"
  "compute_subdomain_hash ref_hash sample_hash [97] = sample_sub_hash"
  by (simp_all add: sample_sub_hash_def compute_subdomain_hash_def sample_hash_def ref_hash_def utf8_def utf8_char_def)

definition chain_sub :: nameRecord where
  "chain_sub = blank_name\<lparr>nr_owner := sample_address, nr_nameHash := sample_sub_hash, nr_tld := js ''sol'', nr_registeredAt := 6,
     nr_expiresAt := 31536005, nr_parent := Some (name_pda ref_runtime sample_hash), nr_parentRegisteredAt := 5, nr_depth := 1, nr_bump := 255\<rparr>"

definition sample_wrapped :: "ref_tokens chain" where
  "sample_wrapped = sample_registered\<lparr>ch_accounts := (ch_accounts sample_registered)(name_pda ref_runtime sample_sub_hash \<mapsto> NameAcct chain_sub)\<rparr>"

lemma sample_wrap:
  "exec ref_runtime 6 (Ix_wrap_subdomain sample_wallet sample_address (name_pda ref_runtime sample_hash) (js ''a'') sample_sub_hash)
     sample_registered = Inr sample_wrapped"
  by (simp add: wrap_subdomain_handler_def sample_configured_def sample_registered_def sample_wrapped_def sample_start_def ref_simps
      eval_simps chain_name_def init_top_level_record_def blank_name_def chain_sub_def checked_u_def RUST_MAX_SUBDOMAIN_DEPTH_def)

definition sample_inputs :: "(bytes \<times> int) set" where
  "sample_inputs = {(sub_input sample_hash (js ''a''), 1), (name_input (js ''a'') (js ''sol''), 0)}"

lemma sample_reach: "reach ref_runtime sample_inputs sample_wrapped"
proof -
  have 0: "reach ref_runtime {} sample_configured"
    using reach_exec[OF reach_start sample_init] by (simp add: sample_start_def)
  have 1: "reach ref_runtime {(name_input (js ''a'') (js ''sol''), 0)} sample_registered"
    using reach_exec[OF 0 sample_register] by simp
  have "ch_accounts sample_registered (name_pda ref_runtime sample_hash) = Some (NameAcct chain_name)"
    by (simp add: sample_registered_def)
  then show ?thesis using reach_exec[OF 1 sample_wrap]
    by (simp add: sample_inputs_def chain_name_def init_top_level_record_def insert_commute)
qed

lemma sample_no_collision: "no_collision ref_runtime sample_inputs"
proof -
  have h: "ref_hash (sub_input sample_hash [97]) = sample_sub_hash" "ref_hash (name_input [97] [115, 111, 108]) = sample_hash"
    by (simp_all add: sample_sub_hash_def sample_hash_def compute_subdomain_hash_def sub_input_def name_input_def utf8_def utf8_char_def)
  have "sum_list sample_sub_hash \<noteq> sum_list sample_hash" by simp
  then have n: "sample_sub_hash \<noteq> sample_hash" by metis
  have "length (ref_hash x) = 32" for x by (simp add: ref_hash_def)
  then show ?thesis using n
    by (auto simp: no_collision_def sample_inputs_def inj_on_def ref_runtime_def h name_pda_def ref_find_pda NAME_SEED_def)
qed

section \<open>An auction that outlives its seller's registration\<close>

definition sample_auction :: auction where
  "sample_auction = blank_auction\<lparr>au_seller := sample_wallet, au_nameHash := sample_hash, au_bidVault := [40],
     au_highestBidder := Some [22], au_highestBid := 300, au_reservePrice := 100, au_minIncrement := 1, au_endTime := 1000, au_bump := 255\<rparr>"

text \<open>\<open>x\<close> tokens in the vault; the claimer \<open>[21]\<close> pays from \<open>[34]\<close>.\<close>

definition auction_ledger :: "int \<Rightarrow> ref_tokens" where
  "auction_ledger x = (sample_ledger 30 13 5 2)
     ([34] \<mapsto> \<lparr>ta_mint = [9], ta_owner = [21], ta_amount = 50\<rparr>,
      [40] \<mapsto> \<lparr>ta_mint = [8], ta_owner = auction_pda ref_runtime sample_hash, ta_amount = x\<rparr>,
      [41] \<mapsto> \<lparr>ta_mint = [8], ta_owner = sample_wallet, ta_amount = 0\<rparr>)"

definition sample_auctioned :: "int \<Rightarrow> ref_tokens chain" where
  "sample_auctioned x = sample_registered\<lparr>
     ch_accounts := (ch_accounts sample_registered)(name_pda ref_runtime sample_hash \<mapsto> NameAcct (chain_name\<lparr>nr_listed := True\<rparr>),
       auction_pda ref_runtime sample_hash \<mapsto> AuctionAcct sample_auction),
     ch_tokens := auction_ledger x\<rparr>"

lemma sample_pdas_eq:
  "config_pda ref_runtime = pda 630" "name_pda ref_runtime sample_hash = pda 899" "auction_pda ref_runtime sample_hash = pda 1237"
  by (simp_all add: config_pda_def name_pda_def auction_pda_def ref_runtime_def ref_find_pda NAME_SEED_def CONFIG_SEED_def RUST_AUCTION_SEED_def)

lemma sample_auction_loads:
  "load_config ref_runtime (sample_auctioned x) = Inr sample_cfg"
  "load_auction_pda ref_runtime (sample_auctioned x) (auction_pda ref_runtime sample_hash) = Inr sample_auction"
  "load_name_pda ref_runtime (sample_auctioned x) (name_pda ref_runtime sample_hash) = Inr (chain_name\<lparr>nr_listed := True\<rparr>)"
  by (simp_all add: load_config_def load_auction_pda_def load_name_pda_def load_def sample_auctioned_def sample_registered_def
      sample_configured_def sample_pdas_eq constraint_def seeds_ok_def sample_auction_def chain_name_def init_top_level_record_def)
    (simp_all add: ref_runtime_def ref_find_pda NAME_SEED_def CONFIG_SEED_def RUST_AUCTION_SEED_def)

lemma sample_auction_tokens:
  "tok ref_runtime (sample_auctioned x) [40] = Some \<lparr>ta_mint = [8], ta_owner = auction_pda ref_runtime sample_hash, ta_amount = x\<rparr>"
  "tok ref_runtime (sample_auctioned x) [41] = Some \<lparr>ta_mint = [8], ta_owner = sample_wallet, ta_amount = 0\<rparr>"
  by (simp_all add: tok_def ref_runtime_def sample_auctioned_def auction_ledger_def)

lemma sample_auction_vault: "vault_of ref_runtime (sample_auctioned x) (auction_pda ref_runtime sample_hash) sample_auction
    \<lparr>ta_mint = [8], ta_owner = auction_pda ref_runtime sample_hash, ta_amount = x\<rparr>"
  by (simp add: vault_of_def sample_auction_def sample_auction_tokens) (simp add: sample_pdas_eq sample_wallet_pda)

definition sample_claimed :: "ref_tokens chain" where
  "sample_claimed = (sample_auctioned 300)\<lparr>
     ch_accounts := (ch_accounts (sample_auctioned 300))(name_pda ref_runtime sample_hash \<mapsto>
       NameAcct (chain_name\<lparr>nr_owner := [21], nr_registeredAt := 40000000, nr_expiresAt := 71536000\<rparr>)),
     ch_tokens := (auction_ledger 300)([32] \<mapsto> \<lparr>ta_mint = [9], ta_owner = [70], ta_amount = 10\<rparr>,
       [33] \<mapsto> \<lparr>ta_mint = [9], ta_owner = [70], ta_amount = 4\<rparr>, [34] \<mapsto> \<lparr>ta_mint = [9], ta_owner = [21], ta_amount = 30\<rparr>,
       [31] \<mapsto> \<lparr>ta_mint = [9], ta_owner = [70], ta_amount = 26\<rparr>)\<rparr>"

lemma sample_claim:
  "exec ref_runtime 40000000 (Ix_claim_expired [21] (name_pda ref_runtime sample_hash) (sample_fees\<lparr>fa_payer_token := [34]\<rparr>)
     (js ''a'') (js ''sol'') 1) (sample_auctioned 300) = Inr sample_claimed"
  by (simp add: claim_expired_handler_def sample_auction_loads fee_accounts_ok_def sample_fees_def eval_simps ref_simps
      distribute_fee_def checked_u_def checked_i64_def i64_def sample_auctioned_def sample_claimed_def sample_registered_def
      sample_configured_def auction_ledger_def sample_ledger_def chain_name_def init_top_level_record_def blank_name_def)

section \<open>A staking pool with three stakers\<close>

definition pool_params :: stakePool where
  "pool_params = \<lparr>sp_discriminator = STAKE_POOL_DISCRIMINATOR, sp_solansMint = [8], sp_stakeVault = [113, 8], sp_rewardVault = [113, 9],
     sp_totalStaked = 0, sp_accRewardPerShare = 0, sp_lastRewardBalance = 0, sp_bump = 255\<rparr>"

text \<open>
  Stakers \<open>[1]\<close>, \<open>[2]\<close> and \<open>[3]\<close> hold \<open>xs\<close> of the staked token and \<open>ys\<close> of the reward token, \<open>sv\<close> and \<open>rv\<close>
  are the balances of the stake vault and of the reward vault, and \<open>[4]\<close> has \<open>d\<close> rewards to deposit.
\<close>

definition pool_ledger :: "int list \<Rightarrow> int list \<Rightarrow> int \<Rightarrow> int \<Rightarrow> int \<Rightarrow> ref_tokens" where
  "pool_ledger xs ys sv rv d = (\<lambda>a.
     if a = [113, 8] then Some \<lparr>ta_mint = [8], ta_owner = pool_pda ref_runtime, ta_amount = sv\<rparr>
     else if a = [113, 9] then Some \<lparr>ta_mint = [9], ta_owner = pool_pda ref_runtime, ta_amount = rv\<rparr>
     else if a = [61] then Some \<lparr>ta_mint = [8], ta_owner = [1], ta_amount = xs ! 0\<rparr>
     else if a = [62] then Some \<lparr>ta_mint = [8], ta_owner = [2], ta_amount = xs ! 1\<rparr>
     else if a = [63] then Some \<lparr>ta_mint = [8], ta_owner = [3], ta_amount = xs ! 2\<rparr>
     else if a = [71] then Some \<lparr>ta_mint = [9], ta_owner = [1], ta_amount = ys ! 0\<rparr>
     else if a = [72] then Some \<lparr>ta_mint = [9], ta_owner = [2], ta_amount = ys ! 1\<rparr>
     else if a = [73] then Some \<lparr>ta_mint = [9], ta_owner = [3], ta_amount = ys ! 2\<rparr>
     else if a = [74] then Some \<lparr>ta_mint = [9], ta_owner = [4], ta_amount = d\<rparr>
     else None)"

definition staker :: "nat \<Rightarrow> (int \<times> int) option \<Rightarrow> account option" where
  "staker w x = map_option (\<lambda>(n, d). StakeAcct (blank_stake\<lparr>sa_owner := [w], sa_amount := n, sa_rewardDebt := d, sa_bump := 255\<rparr>)) x"

definition pool_state :: "int \<Rightarrow> int \<Rightarrow> int \<Rightarrow> (int \<times> int) option list \<Rightarrow> ref_tokens \<Rightarrow> ref_tokens chain" where
  "pool_state tot acc lst ks t = sample_start\<lparr>
     ch_accounts := (\<lambda>a.
       if a = config_pda ref_runtime then Some (ConfigAcct (sample_cfg\<lparr>cfg_stakingVault := [113, 9]\<rparr>))
       else if a = pool_pda ref_runtime
       then Some (PoolAcct (pool_params\<lparr>sp_totalStaked := tot, sp_accRewardPerShare := acc, sp_lastRewardBalance := lst\<rparr>))
       else if a = stake_pda ref_runtime [1] then staker 1 (ks ! 0)
       else if a = stake_pda ref_runtime [2] then staker 2 (ks ! 1)
       else if a = stake_pda ref_runtime [3] then staker 3 (ks ! 2)
       else None),
     ch_tokens := t\<rparr>"

lemma pool_pdas: "pool_pda ref_runtime = pda 1073" "stake_pda ref_runtime [n] = pda (536 + n)"
  by (simp_all add: pool_pda_def stake_pda_def ref_runtime_def ref_find_pda STAKE_POOL_SEED_def STAKE_SEED_def)

lemma pool_seeds:
  "seeds_ok ref_runtime [CONFIG_SEED] 255 (pda 630)" "seeds_ok ref_runtime [STAKE_POOL_SEED] 255 (pda 1073)"
  "seeds_ok ref_runtime [STAKE_SEED, pubkey_bytes ref_runtime [n]] 255 a \<longleftrightarrow> a = pda (536 + n)"
  "find_program_address ref_runtime [STAKE_SEED, pubkey_bytes ref_runtime [n]] = (pda (536 + n), 255)"
  "find_program_address ref_runtime [STAKE_POOL_SEED] = (pda 1073, 255)"
  by (auto simp: seeds_ok_def ref_runtime_def ref_find_pda STAKE_POOL_SEED_def STAKE_SEED_def CONFIG_SEED_def)

lemmas pool_eval = stake_handler_def claim_rewards_handler_def unstake_handler_def load_config_def load_pool_def load_stake_def
  load_def constraint_def require_def sample_pdas_eq pool_pdas pool_seeds load_token_def token_of_def token_owned_def
  settle_pending_def rebaseline_def sync_def pending_def accrued_def transfer_tokens_def init_account_def put_def cpi_def
  pool_params_def blank_stake_def staker_def checked_u_def checked_div_u_def saturating_sub_def ACC_SCALE_def
  pool_state_def sample_start_def pool_ledger_def ref_runtime_sel ref_transfer_def ref_system_transfer_def
lemmas pool_eq = pool_state_def sample_start_def pool_ledger_def pool_params_def blank_stake_def staker_def sample_pdas_eq pool_pdas fun_eq_iff

text \<open>A deposit of \<open>n\<close> into the reward vault, as a fee payment makes it, then an instruction.\<close>

fun pool_script :: "(int \<times> instr) list \<Rightarrow> ref_tokens chain \<Rightarrow> tx_error + ref_tokens chain" where
  "pool_script [] s = Inr s"
| "pool_script ((n, i) # xs) s =
     bind_res (transfer_tokens ref_runtime [74] [113, 9] [9] [4] n s) (\<lambda>s.
     bind_res (exec ref_runtime 0 i s) (pool_script xs))"

lemma pool_deposit:
  "0 < n \<and> n \<le> d \<and> 0 \<le> rv \<and> rv + n < 2 ^ 64 \<Longrightarrow>
   transfer_tokens ref_runtime [74] [113, 9] [9] [4] n (pool_state tot acc lst ks (pool_ledger xs ys sv rv d)) =
   Inr (pool_state tot acc lst ks (pool_ledger xs ys sv (rv + n) (d - n)))"
  by (simp add: transfer_tokens_def cpi_def ref_runtime_sel ref_transfer_def pool_state_def sample_start_def pool_ledger_def) (simp add: fun_eq_iff)

lemma pool_run:
  "exec ref_runtime 0 (Ix_stake [1] [61] [71] 10) (pool_state 0 0 0 [None, None, None] (pool_ledger [10, 1, 1] [0, 0, 0] 0 0 11)) =
   Inr (pool_state 10 0 0 [Some (10, 0), None, None] (pool_ledger [0, 1, 1] [0, 0, 0] 10 0 11))"
  "exec ref_runtime 0 (Ix_stake [2] [62] [72] 1) (pool_state 10 0 0 [Some (10, 0), None, None] (pool_ledger [0, 1, 1] [0, 0, 0] 10 9 2)) =
   Inr (pool_state 11 900000000000 9 [Some (10, 0), Some (1, 0), None] (pool_ledger [0, 0, 1] [0, 0, 0] 11 9 2))"
  "exec ref_runtime 0 (Ix_stake [3] [63] [73] 1)
     (pool_state 11 900000000000 9 [Some (10, 0), Some (1, 0), None] (pool_ledger [0, 0, 1] [0, 0, 0] 11 9 2)) =
   Inr (pool_state 12 900000000000 9 [Some (10, 0), Some (1, 0), Some (1, 0)] (pool_ledger [0, 0, 0] [0, 0, 0] 12 9 2))"
  "exec ref_runtime 0 (Ix_claim_rewards [1] [71])
     (pool_state 12 900000000000 9 [Some (10, 0), Some (1, 0), Some (1, 0)] (pool_ledger [0, 0, 0] [0, 0, 0] 12 11 0)) =
   Inr (pool_state 12 1066666666666 1 [Some (10, 10), Some (1, 0), Some (1, 0)] (pool_ledger [0, 0, 0] [10, 0, 0] 12 1 0))"
  "exec ref_runtime 0 (Ix_claim_rewards [2] [72])
     (pool_state 12 1066666666666 1 [Some (10, 10), Some (1, 0), Some (1, 0)] (pool_ledger [0, 0, 0] [10, 0, 0] 12 1 0)) =
   Inr (pool_state 12 1066666666666 0 [Some (10, 10), Some (1, 1), Some (1, 0)] (pool_ledger [0, 0, 0] [10, 1, 0] 12 0 0))"
  "exec ref_runtime 0 (Ix_unstake [3] [63] [73] 1)
     (pool_state 12 1066666666666 0 [Some (10, 10), Some (1, 1), Some (1, 0)] (pool_ledger [0, 0, 0] [10, 1, 0] 12 0 0)) = Inl CpiErr"
  "exec ref_runtime 0 (Ix_claim_rewards [3] [73])
     (pool_state 12 1066666666666 0 [Some (10, 10), Some (1, 1), Some (1, 0)] (pool_ledger [0, 0, 0] [10, 1, 0] 12 0 0)) = Inl CpiErr"
  by (simp_all add: pool_eval) (simp_all add: pool_eq)

lemma pda_last [simp]: "last (pda n) = alphabet58 ! (n mod 57 + 1)"
  by (simp add: pda_def)

lemma sample_init_pool:
  "\<exists>t. exec ref_runtime 0 (Ix_init_stake_pool [70] [8] [9]) sample_configured = Inr (pool_state 0 0 0 [None, None, None] t)"
  by (simp add: init_stake_pool_handler_def load_admin_config_def pool_eval ref_ata_def ref_ata_address_def sample_configured_def
      sample_ledger_def blank_pool_def alphabet58_def) (simp add: pool_eq)

lemma sample_pool_reach: "reach ref_runtime {} (pool_state 0 0 0 [None, None, None] t)"
proof -
  obtain u where u: "exec ref_runtime 0 (Ix_init_stake_pool [70] [8] [9]) sample_configured = Inr (pool_state 0 0 0 [None, None, None] u)"
    using sample_init_pool by blast
  have "reach ref_runtime {} sample_configured" using reach_exec[OF reach_start sample_init] by (simp add: sample_start_def)
  from reach_exec[OF this u] have "reach ref_runtime {} (pool_state 0 0 0 [None, None, None] u)" by simp
  then show ?thesis by (rule reach_other) (simp add: pool_state_def)
qed

end
