(* ===== verification/Chain_Safety.thy ===== *)
theory Chain_Safety
  imports Chain_Sample
begin

text \<open>
  What the program guarantees, and where it does not: the handlers refine the abstract registry, the
  reachable states are well formed, a name changes hands only by an authority, the staking pool's
  total is the sum of the stakes, an auction settles exactly when its vault holds the winning bid.
  Two runs show how the handlers interact: an auction that outlives the seller's registration takes
  the name from the wallet that claimed it, and rounding in favour of the stakers leaves the last one
  unable to withdraw.
\<close>

text \<open>The vault of the settled auction, with the seller's token account \<open>x\<close>.\<close>

definition can_settle :: "'t runtime \<Rightarrow> int \<Rightarrow> address \<Rightarrow> address \<Rightarrow> address \<Rightarrow> address \<Rightarrow> config \<Rightarrow> auction \<Rightarrow> nameRecord \<Rightarrow> token_acct \<Rightarrow> 't chain \<Rightarrow> bool" where
  "can_settle R now x a ua m c u r v s \<longleftrightarrow>
     load_config R s = Inr c \<and> 0 \<le> cfg_marketplaceFeeBps c \<and> cfg_marketplaceFeeBps c \<le> MAX_FEE_BPS \<and>
     load_auction_pda R s ua = Inr u \<and> au_highestBidder u \<noteq> None \<and> u64 (au_highestBid u) \<and> au_endTime u \<le> now \<and>
     load_name_pda R s a = Inr r \<and> nr_nameHash r = au_nameHash u \<and> vault_of R s ua u v \<and> ta_mint v = m \<and>
     (\<exists>t. tok R s x = Some t \<and> ta_mint t = m \<and> ta_owner t = au_seller u \<and> ta_amount t + au_highestBid u < 2 ^ 64)"

context token_program
begin

lemma can_settle_pays:
  assumes "can_settle R now x a ua m c u r v s" "ta_amount v = au_highestBid u" "au_highestBidder u = Some w"
  shows "\<exists>s' t. settle_auction_handler R now (Some x) a ua m s = Inr s' \<and> tok R s x = Some t \<and>
    ch_accounts s' = (ch_accounts s)(a \<mapsto> NameAcct ((moved r w)\<lparr>nr_listed := False\<rparr>), ua := None) \<and>
    tok R s' = (tok R s)(x \<mapsto> t\<lparr>ta_amount := ta_amount t + (au_highestBid u - au_highestBid u * cfg_marketplaceFeeBps c div 10000)\<rparr>,
      au_bidVault u := None)"
proof -
  note C = assms(1)[unfolded can_settle_def]
  from C obtain t where t: "tok R s x = Some t" "ta_mint t = m" "ta_owner t = au_seller u" "ta_amount t + au_highestBid u < 2 ^ 64" by blast
  from settle_auction_pays[OF _ _ _ _ assms(3) _ _ _ _ _ _ assms(2) t] C t(1) show ?thesis by auto
qed

lemma settle_fails:
  assumes "ch_accounts s ua = Some (AuctionAcct u)" "vault_of R s ua u v" "ta_amount v \<noteq> au_highestBid u"
  shows "\<exists>e. settle_auction_handler R now sa a ua m s = Inl e" "\<exists>e. cancel_auction_handler R w a ua s = Inl e"
  using settle_needs_exact_vault[OF _ assms(1,2), of now sa a m] cancel_needs_empty_vault[OF _ assms(1,2), of w a] assms(3)
  by (metis sum.exhaust)+

end

lemma surplus_vault: "vault_of R s ua u v \<Longrightarrow> surplus R s u = ta_amount v - au_highestBid u"
  by (simp add: surplus_def vault_of_def)

lemma sample_can_settle:
  "can_settle ref_runtime 1000 [41] (name_pda ref_runtime sample_hash) (auction_pda ref_runtime sample_hash) [8] sample_cfg sample_auction
     (chain_name\<lparr>nr_listed := True\<rparr>) \<lparr>ta_mint = [8], ta_owner = auction_pda ref_runtime sample_hash, ta_amount = x\<rparr> (sample_auctioned x)"
  using sample_auction_vault[of x]
  by (simp add: can_settle_def sample_auction_loads sample_auction_tokens MAX_FEE_BPS_def)
    (simp add: sample_auction_def u64_def chain_name_def init_top_level_record_def blank_auction_def)

lemma sample_can_settle_claimed:
  "can_settle ref_runtime 40000000 [41] (name_pda ref_runtime sample_hash) (auction_pda ref_runtime sample_hash) [8] sample_cfg sample_auction
     (chain_name\<lparr>nr_owner := [21], nr_registeredAt := 40000000, nr_expiresAt := 71536000\<rparr>)
     \<lparr>ta_mint = [8], ta_owner = auction_pda ref_runtime sample_hash, ta_amount = 300\<rparr> sample_claimed"
proof -
  have t: "tok ref_runtime sample_claimed [40] = tok ref_runtime (sample_auctioned 300) [40]"
    "tok ref_runtime sample_claimed [41] = tok ref_runtime (sample_auctioned 300) [41]"
    by (simp_all add: tok_def ref_runtime_def sample_claimed_def sample_auctioned_def)
  have l: "load_config ref_runtime sample_claimed = Inr sample_cfg"
    "load_auction_pda ref_runtime sample_claimed (auction_pda ref_runtime sample_hash) = Inr sample_auction"
    "load_name_pda ref_runtime sample_claimed (name_pda ref_runtime sample_hash) =
      Inr (chain_name\<lparr>nr_owner := [21], nr_registeredAt := 40000000, nr_expiresAt := 71536000\<rparr>)"
    using sample_auction_loads[of 300]
    by (auto simp: res_simps sample_claimed_def sample_pdas_eq)
  then show ?thesis using sample_auction_vault[of 300] t
    by (simp add: can_settle_def sample_auction_tokens MAX_FEE_BPS_def vault_of_def)
      (simp add: sample_auction_def u64_def chain_name_def init_top_level_record_def blank_auction_def)
qed

section \<open>Properties\<close>

text \<open>C1: Every instruction of the program that succeeds, whatever the accounts it is given and whatever the programs it calls do, is a step of the abstract registry on the accounts, under the rule for its effect and with the authority that rule demands of the signer (years_ok: the unsigned argument years of a renewal is not negative).\<close>

theorem instructions_refine_the_registry:
  assumes "exec R now i s = Inr s'" "years_ok i"
  shows "registry_step R now (signer i) s (staking i) (created i s) (ch_accounts s')"
  using assms by (rule exec_registry_step)

theorem instructions_refine_the_registry_witness:
  "registry_step ref_runtime 5 (Some sample_wallet) sample_configured False {(name_input (js ''a'') (js ''sol''), 0)}
     (ch_accounts sample_registered) \<and>
   registry_step ref_runtime 40000000 (Some [21]) (sample_auctioned 300) False {} (ch_accounts sample_claimed)"
  using instructions_refine_the_registry[OF sample_register] instructions_refine_the_registry[OF sample_claim] by simp

text \<open>C2: In every state the program reaches, by any instructions of any signers and with other programs moving value in between, every name, listing, auction and reverse record sits at the address derived from its own fields, a name has a valid tld, at most sixteen records of bounded size and a depth between 0 and 4 that is 0 exactly without a parent, a tokenized name is neither frozen nor a subdomain, and a frozen name has a listing or an auction of its own hash.\<close>

theorem reachable_registry_is_well_formed:
  assumes "reach R G s"
  shows "accounts_ok R (ch_accounts s) \<and> frozen_ok R (ch_accounts s)"
  using reach_invariant[OF assms] by simp

theorem reachable_registry_is_well_formed_witness:
  "accounts_ok ref_runtime (ch_accounts sample_wrapped) \<and> frozen_ok ref_runtime (ch_accounts sample_wrapped)"
  by (rule reachable_registry_is_well_formed[OF sample_reach])

text \<open>C3: In a reachable state an instruction takes a name from its owner only when the owner signed and the name is neither tokenized nor frozen, when the holder of its NFT redeems it, when it is past its grace period and the signer claims it, when the signer buys it at the listing its owner made, when an ended auction of it is settled for the highest bidder, or when the owner of its parent revokes it; and while a name stays frozen nothing in its record but the expiry can change.\<close>

theorem names_change_hands_only_by_authority:
  assumes "reach R G s" "exec R now i s = Inr s'" "years_ok i" "ch_accounts s a = Some (NameAcct r)"
  shows "(owner_at (ch_accounts s') a \<noteq> Some (nr_owner r) \<longrightarrow> takes R now (signer i) s r (owner_at (ch_accounts s') a)) \<and>
    (\<forall>r'. nr_listed r \<and> ch_accounts s' a = Some (NameAcct r') \<and> nr_listed r' \<longrightarrow>
       (\<exists>e \<ge> nr_expiresAt r. r' = r\<lparr>nr_expiresAt := e\<rparr>))"
proof -
  note st = exec_registry_step[OF assms(2,3)]
  show ?thesis
    using step_takes[OF st assms(4)] step_frozen_record[OF st assms(4)] reach_invariant[OF assms(1)] by blast
qed

theorem names_change_hands_only_by_authority_witness:
  "\<exists>s'. exec ref_runtime 7 (Ix_transfer_name sample_wallet (name_pda ref_runtime sample_hash) [21]) sample_wrapped = Inr s' \<and>
     owner_at (ch_accounts s') (name_pda ref_runtime sample_hash) = Some [21] \<and>
     takes ref_runtime 7 (Some sample_wallet) sample_wrapped chain_name (Some [21])"
proof -
  let ?a = "name_pda ref_runtime sample_hash"
  have d: "name_pda ref_runtime sample_sub_hash \<noteq> ?a"
    by (simp add: name_pda_def ref_runtime_def ref_find_pda NAME_SEED_def)
  then have n: "ch_accounts sample_wrapped ?a = Some (NameAcct chain_name)" by (simp add: sample_wrapped_def sample_registered_def)
  have o: "nr_owner chain_name = sample_wallet" "sample_wallet \<noteq> [21]"
    by (simp_all add: chain_name_def init_top_level_record_def sample_wallet_pda)
  obtain s' where s': "exec ref_runtime 7 (Ix_transfer_name sample_wallet ?a [21]) sample_wrapped = Inr s'"
    "owner_at (ch_accounts s') ?a = Some [21]"
    using n by (simp add: transfer_name_handler_def load_owned_def load_def require_def owner_at_def chain_name_def
        init_top_level_record_def)
  with names_change_hands_only_by_authority[OF sample_reach s'(1) _ n] o show ?thesis by auto
qed

text \<open>C9: An ended auction whose accounts are in order settles exactly when its bid vault holds the winning bid and nothing else: then the name moves to the winner, the seller gets the bid less the marketplace fee, the fee is burned and vault and auction are closed; with any surplus in the vault settle_auction fails for everyone and so does cancel_auction, and a bid never removes a surplus.\<close>

theorem auction_settles_exactly_when_vault_matches:
  assumes "token_program R" "can_settle R now x a ua m c u r v s"
  shows "(surplus R s u = 0 \<longrightarrow> (\<exists>s' w t. settle_auction_handler R now (Some x) a ua m s = Inr s' \<and>
      au_highestBidder u = Some w \<and> tok R s x = Some t \<and>
      ch_accounts s' = (ch_accounts s)(a \<mapsto> NameAcct (r\<lparr>nr_owner := w, nr_controller := None, nr_reverseSet := False, nr_listed := False\<rparr>), ua := None) \<and>
      tok R s' = (tok R s)(x \<mapsto> t\<lparr>ta_amount := ta_amount t + (au_highestBid u - au_highestBid u * cfg_marketplaceFeeBps c div 10000)\<rparr>,
        au_bidVault u := None))) \<and>
    (surplus R s u \<noteq> 0 \<longrightarrow> (\<forall>now sa a m w. (\<exists>e. settle_auction_handler R now sa a ua m s = Inl e) \<and>
      (\<exists>e. cancel_auction_handler R w a ua s = Inl e))) \<and>
    (\<forall>now w ta prev n s' u'. bid_handler R now w ua ta prev m n s = Inr s' \<and> w \<noteq> ua \<and> ch_accounts s' ua = Some (AuctionAcct u') \<longrightarrow>
      surplus R s' u' = surplus R s u)"
proof (intro conjI impI allI)
  from assms(2) obtain w where w: "au_highestBidder u = Some w" and v: "vault_of R s ua u v" and u: "ch_accounts s ua = Some (AuctionAcct u)"
    by (auto simp: can_settle_def res_simps)
  show "\<exists>s' w t. settle_auction_handler R now (Some x) a ua m s = Inr s' \<and> au_highestBidder u = Some w \<and> tok R s x = Some t \<and>
      ch_accounts s' = (ch_accounts s)(a \<mapsto> NameAcct (r\<lparr>nr_owner := w, nr_controller := None, nr_reverseSet := False, nr_listed := False\<rparr>), ua := None) \<and>
      tok R s' = (tok R s)(x \<mapsto> t\<lparr>ta_amount := ta_amount t + (au_highestBid u - au_highestBid u * cfg_marketplaceFeeBps c div 10000)\<rparr>,
        au_bidVault u := None)" if "surplus R s u = 0"
    using token_program.can_settle_pays[OF assms _ w] that v w by (auto simp: surplus_vault moved_def)
  show "\<exists>e. settle_auction_handler R now sa a ua m s = Inl e" "\<exists>e. cancel_auction_handler R w a ua s = Inl e"
    if "surplus R s u \<noteq> 0" for now sa a m w
    using token_program.settle_fails[OF assms(1) u v] that v by (auto simp: surplus_vault)
  show "surplus R s' u' = surplus R s u"
    if "bid_handler R now w ua ta prev m n s = Inr s' \<and> w \<noteq> ua \<and> ch_accounts s' ua = Some (AuctionAcct u')" for now w ta prev n s' u'
    using bid_surplus[OF _ _ u v, of now w ta prev m n s'] that token_program.tokens[OF assms(1)] v by (auto simp: tokens_ok_def surplus_def vault_of_def)
qed

theorem auction_settles_exactly_when_vault_matches_witness:
  "(\<exists>s'. settle_auction_handler ref_runtime 1000 (Some [41]) (name_pda ref_runtime sample_hash) (auction_pda ref_runtime sample_hash) [8]
      (sample_auctioned 300) = Inr s' \<and>
      tok ref_runtime s' [41] = Some \<lparr>ta_mint = [8], ta_owner = sample_wallet, ta_amount = 294\<rparr>) \<and>
   (\<exists>e. settle_auction_handler ref_runtime 1000 (Some [41]) (name_pda ref_runtime sample_hash) (auction_pda ref_runtime sample_hash) [8]
      (sample_auctioned 301) = Inl e)"
proof -
  have s: "surplus ref_runtime (sample_auctioned x) sample_auction = x - 300" for x
    using surplus_vault[OF sample_auction_vault[of x]] by (simp add: sample_auction_def)
  have n: "au_bidVault sample_auction = [40]" "au_highestBid sample_auction = 300" by (simp_all add: sample_auction_def)
  show ?thesis
    using auction_settles_exactly_when_vault_matches[OF ref.token_program_axioms sample_can_settle[of 300]]
      auction_settles_exactly_when_vault_matches[OF ref.token_program_axioms sample_can_settle[of 301]]
    by (auto simp: s n sample_auction_tokens)
qed



text \<open>C11: In every reachable state the staking pool is the account at its singleton address, and its total_staked is the sum of the amounts of all stake accounts and fits a u64; without a pool there are no stakes.\<close>

theorem pool_total_is_the_sum_of_stakes:
  assumes "reach R G s"
  shows "finite (stakers (ch_accounts s)) \<and>
    (\<forall>x p. ch_accounts s x = Some (PoolAcct p) \<longrightarrow> x = pool_pda R \<and> u64 (sp_totalStaked p) \<and>
       sp_totalStaked p = (\<Sum>x\<in>stakers (ch_accounts s). staked_at (ch_accounts s) x)) \<and>
    ((\<forall>p. ch_accounts s (pool_pda R) \<noteq> Some (PoolAcct p)) \<longrightarrow> stakers (ch_accounts s) = {})"
  using reach_pool_ok[OF assms] unfolding pool_ok_def by (elim conjE) (intro conjI)

theorem pool_total_is_the_sum_of_stakes_witness:
  "\<exists>s p. exec ref_runtime 0 (Ix_stake [1] [61] [71] 10) (pool_state 0 0 0 [None, None, None] (pool_ledger [10, 1, 1] [0, 0, 0] 0 0 11)) =
     Inr s \<and> ch_accounts s (pool_pda ref_runtime) = Some (PoolAcct p) \<and> sp_totalStaked p = 10 \<and>
     (\<Sum>x\<in>stakers (ch_accounts s). staked_at (ch_accounts s) x) = 10"
proof -
  let ?s = "pool_state 10 0 0 [Some (10, 0), None, None] (pool_ledger [0, 1, 1] [0, 0, 0] 10 0 11)"
  have p: "ch_accounts ?s (pool_pda ref_runtime) = Some (PoolAcct (pool_params\<lparr>sp_totalStaked := 10\<rparr>))"
    by (simp add: pool_state_def sample_pdas_eq pool_pdas pool_params_def)
  have r: "reach ref_runtime {} ?s" using reach_exec[OF sample_pool_reach pool_run(1)] by simp
  have "sp_totalStaked (pool_params\<lparr>sp_totalStaked := 10\<rparr>) = (\<Sum>x\<in>stakers (ch_accounts ?s). staked_at (ch_accounts ?s) x)"
    using conjunct1[OF conjunct2[OF pool_total_is_the_sum_of_stakes[OF r]]] p by blast
  moreover have e: "sp_totalStaked (pool_params\<lparr>sp_totalStaked := 10\<rparr>) = 10" by (simp add: pool_params_def)
  ultimately have "(\<Sum>x\<in>stakers (ch_accounts ?s). staked_at (ch_accounts ?s) x) = 10" by metis
  with p e pool_run(1) show ?thesis by blast
qed

text \<open>C12: Rewards are rounded in favour of the stakers (reward_debt is rounded down), so the pending rewards can exceed what was deposited. Concretely, from a fresh reachable pool, three wallets stake 10, 1 and 1 around deposits of 9 and 2 and two of them claim; every step succeeds, and then the third wallet can neither claim nor withdraw its stake, although the stake vault holds it: the transfer of its pending reward from the empty reward vault fails.\<close>

theorem rounding_can_lock_the_last_stake:
  "reach ref_runtime {} (pool_state 0 0 0 [None, None, None] (pool_ledger [10, 1, 1] [0, 0, 0] 0 0 11)) \<and>
   (\<exists>s k. pool_script [(0, Ix_stake [1] [61] [71] 10), (9, Ix_stake [2] [62] [72] 1), (0, Ix_stake [3] [63] [73] 1),
        (2, Ix_claim_rewards [1] [71]), (0, Ix_claim_rewards [2] [72])]
        (pool_state 0 0 0 [None, None, None] (pool_ledger [10, 1, 1] [0, 0, 0] 0 0 11)) = Inr s \<and>
      ch_accounts s (stake_pda ref_runtime [3]) = Some (StakeAcct k) \<and> sa_owner k = [3] \<and> sa_amount k = 1 \<and>
      map_option ta_amount (tok ref_runtime s (sp_stakeVault pool_params)) = Some 12 \<and>
      map_option ta_amount (tok ref_runtime s (sp_rewardVault pool_params)) = Some 0 \<and>
      exec ref_runtime 0 (Ix_unstake [3] [63] [73] 1) s = Inl CpiErr \<and>
      exec ref_runtime 0 (Ix_claim_rewards [3] [73]) s = Inl CpiErr)"
proof -
  let ?s = "pool_state 12 1066666666666 0 [Some (10, 10), Some (1, 1), Some (1, 0)] (pool_ledger [0, 0, 0] [10, 1, 0] 12 0 0)"
  have z: "transfer_tokens ref_runtime x y m w 0 s = Inr s" for x y m w s by (simp add: transfer_tokens_def)
  have d: "transfer_tokens ref_runtime [74] [113, 9] [9] [4] 9 (pool_state t acc l ks (pool_ledger xs ys sv 0 11)) =
      Inr (pool_state t acc l ks (pool_ledger xs ys sv 9 2))"
    "transfer_tokens ref_runtime [74] [113, 9] [9] [4] 2 (pool_state t acc l ks (pool_ledger xs ys sv 9 2)) =
      Inr (pool_state t acc l ks (pool_ledger xs ys sv 11 0))" for t acc l ks xs ys sv
    using pool_deposit[of 9 11 0] pool_deposit[of 2 2 9] by simp_all
  have "pool_script [(0, Ix_stake [1] [61] [71] 10), (9, Ix_stake [2] [62] [72] 1), (0, Ix_stake [3] [63] [73] 1),
        (2, Ix_claim_rewards [1] [71]), (0, Ix_claim_rewards [2] [72])]
        (pool_state 0 0 0 [None, None, None] (pool_ledger [10, 1, 1] [0, 0, 0] 0 0 11)) = Inr ?s"
    by (simp only: pool_script.simps z d bind_res.simps pool_run)
  moreover have "\<exists>k. ch_accounts ?s (stake_pda ref_runtime [3]) = Some (StakeAcct k) \<and> sa_owner k = [3] \<and> sa_amount k = 1"
    by (simp add: pool_state_def sample_pdas_eq pool_pdas staker_def)
  moreover have "map_option ta_amount (tok ref_runtime ?s (sp_stakeVault pool_params)) = Some 12"
    "map_option ta_amount (tok ref_runtime ?s (sp_rewardVault pool_params)) = Some 0"
    by (simp_all add: tok_def ref_runtime_sel pool_state_def pool_params_def pool_ledger_def)
  ultimately show ?thesis using pool_run(6,7) sample_pool_reach by blast
qed

end
