(* ===== verification/Chain_Client.thy ===== *)
theory Chain_Client
  imports Client Client_Typing Chain_Sample
begin

text \<open>
  The SDK's \<open>resolve\<close> on the states the program reaches. The program's own discipline on parents bounds
  the loop of the client, and the client returns exactly the records that are alive on the chain. What
  links the two sides are two hypotheses: the kit hashes and derives addresses as the runtime does
  (\<open>same_addresses\<close>), and an RPC read of a name address returns the bytes of the record the program
  stored there, or nothing (\<open>serves\<close>).
\<close>

section \<open>The two sides\<close>

definition same_addresses :: "kit \<Rightarrow> 't runtime \<Rightarrow> bool" where
  "same_addresses K R \<longleftrightarrow> kit_ok K \<and> keccak_256 K = rt_keccak R \<and>
     (\<forall>h. length h = 32 \<longrightarrow>
        getProgramDerivedAddress K SOLANS_PROGRAM_ADDRESS [NAME_SEED, h] = Inr (find_program_address R [NAME_SEED, h]))"

definition serves :: "kit \<Rightarrow> 't runtime \<Rightarrow> fetcher \<Rightarrow> 't chain \<Rightarrow> bool" where
  "serves K R fetch s \<longleftrightarrow>
     (\<forall>a r. ch_accounts s a = Some (NameAcct r) \<longrightarrow> stored K fetch a r) \<and>
     (\<forall>h. (\<forall>r. ch_accounts s (name_pda R h) \<noteq> Some (NameAcct r)) \<longrightarrow> fetch (name_pda R h) = Inr None)"

text \<open>A record whose ancestors all exist on the chain with the registration time their child captured.\<close>

inductive alive :: "'t chain \<Rightarrow> nameRecord \<Rightarrow> bool" for s where
  alive_root: "nr_parent c = None \<Longrightarrow> alive s c"
| alive_sub: "nr_parent c = Some p \<Longrightarrow> ch_accounts s p = Some (NameAcct r) \<Longrightarrow>
    nr_registeredAt r = nr_parentRegisteredAt c \<Longrightarrow> alive s r \<Longrightarrow> alive s c"

lemma name_record_pda:
  assumes "same_addresses K R" "length h = 32"
  shows "findNameRecordPda K h = Inr (find_program_address R [NAME_SEED, h])"
proof -
  have "kit_ok K" using assms(1) by (simp add: same_addresses_def)
  from bytes_seed[OF this] hash_seed[OF this assms(2)] show ?thesis
    using assms by (simp add: findNameRecordPda_def derive_def same_addresses_def NAME_SEED_def)
qed

lemma stored_unique: "stored K fetch a r \<Longrightarrow> stored K fetch a q \<Longrightarrow> r = q"
  by (auto simp: stored_def)

lemma served_name: "serves K R fetch s \<Longrightarrow> stored K fetch (name_pda R h) r \<longleftrightarrow> ch_accounts s (name_pda R h) = Some (NameAcct r)"
  unfolding serves_def by (metis option.distinct(1) stored_def stored_unique sum.inject(2))

lemma reach_parent:
  assumes "reach R G s" "ch_accounts s a = Some (NameAcct c)" "nr_parent c = Some p"
  obtains h where "p = name_pda R h"
  using reach_invariant[OF assms(1)] assms(2,3) unfolding depths_ok_def by blast

lemma reach_depth: "reach R G s \<Longrightarrow> ch_accounts s a = Some (NameAcct r) \<Longrightarrow> 0 \<le> nr_depth r"
  using accounts_okD[of R "ch_accounts s" a "NameAcct r"] reach_invariant[of R G s] by auto

section \<open>The loop on a reachable state\<close>

lemma resolve_loop_on_chain:
  assumes "reach R G s" "no_collision R G" "serves K R fetch s"
  shows "ch_accounts s a = Some (NameAcct c) \<Longrightarrow> resolve_loop K fetch leaf c = Some (Inr (if alive s c then Some leaf else None))"
proof (induction "nat (nr_depth c)" arbitrary: a c rule: less_induct)
  case less
  show ?case
  proof (cases "nr_parent c")
    case None
    then show ?thesis by (simp add: resolve_loop.simps alive_root)
  next
    case (Some p)
    obtain h where h: "p = name_pda R h" by (rule reach_parent[OF assms(1) less(2) Some])
    have al: "alive s c \<longleftrightarrow> (\<exists>r. ch_accounts s p = Some (NameAcct r) \<and> nr_registeredAt r = nr_parentRegisteredAt c \<and> alive s r)"
      using Some by (auto elim: alive.cases intro: alive_sub)
    show ?thesis
    proof (cases "\<exists>r. ch_accounts s p = Some (NameAcct r)")
      case False
      then have "fetch p = Inr None" using assms(3) h by (auto simp: serves_def)
      then show ?thesis using Some False al by (auto simp: resolve_loop.simps)
    next
      case True
      then obtain r where r: "ch_accounts s p = Some (NameAcct r)" by blast
      then obtain data where d: "fetch p = Inr (Some data)" "decodeNameRecord K data = Inr r"
        using assms(3) unfolding serves_def stored_def by blast
      have "nr_depth r = nr_depth c - 1" by (rule parent_one_level_up[OF assms(1,2) less(2) Some r])
      then have "nat (nr_depth r) < nat (nr_depth c)" using reach_depth[OF assms(1) r] by simp
      from less(1)[OF this r] show ?thesis using Some d r al by (simp add: resolve_loop.simps[of K fetch leaf c])
    qed
  qed
qed

lemma client_address:
  assumes "same_addresses K R" "\<And>x. length (rt_keccak R x) = 32" "parsePath U name None = Inr (labels, tld)"
  shows "\<exists>b. findNameRecord K U name None = Inr (name_pda R (onchain_hash (rt_keccak R) tld labels), b)"
proof -
  have k: "keccak_256 K = rt_keccak R" using assms(1) by (simp add: same_addresses_def)
  have n: "nameInfo K U name None = Inr (path_info K tld labels)" using assms(3) by (simp add: nameInfo_iff)
  have "labels \<noteq> []" "isAllowedTld tld" using assms(3) parsePath_iff parsePath_tld by (auto simp: canonical_path_def)
  then have "length (onchain_hash (rt_keccak R) tld labels) = 32" using onchain_hash_input[of labels tld "rt_keccak R"] assms(2) by simp
  from name_record_pda[OF assms(1) this] show ?thesis
    by (cases "find_program_address R [NAME_SEED, onchain_hash (rt_keccak R) tld labels]")
      (simp add: findNameRecord_def nameHashFor_def n path_info_def k name_pda_def)
qed

section \<open>A kit and a fetcher for the sample registry\<close>

definition chain_kit :: kit where
  "chain_kit = ref_kit\<lparr>keccak_256 := ref_hash\<rparr>"

lemma same_addresses_sample: "same_addresses chain_kit ref_runtime"
  using ref_kit_ok
  by (simp add: same_addresses_def chain_kit_def kit_ok_def ref_runtime_def)
    (simp add: ref_kit_def ref_find_def toy_pda_def NAME_SEED_def)

lemma chain_names_ok: "nameRecord_ok ref_kit chain_name" "nameRecord_ok ref_kit chain_sub"
proof -
  have p: "is_address_ref (pda n)" for n
    using address_certificate[of "[n mod 57 + 1]" "[n mod 57 + 1]" 31] by (simp add: less_Suc_eq_le pda_def)
  show "nameRecord_ok ref_kit chain_name" "nameRecord_ok ref_kit chain_sub"
    using p
    by (simp_all add: nameRecord_ok_def getNameRecordEncoder_def nameRecord_val_def chain_name_def chain_sub_def ref_kit_def
      init_top_level_record_def blank_name_def text_ok_ascii ascii_str_def NAME_RECORD_DISCRIMINATOR_def sample_pdas_eq)
qed

lemma chain_name_bytes: "\<exists>bs. decodeNameRecord chain_kit bs = Inr chain_name" "\<exists>bs. decodeNameRecord chain_kit bs = Inr chain_sub"
proof -
  have d: "decodeNameRecord chain_kit bs = decodeNameRecord ref_kit bs" for bs
    by (simp add: decodeNameRecord_def decode_def chain_kit_def)
  show "\<exists>bs. decodeNameRecord chain_kit bs = Inr chain_name" "\<exists>bs. decodeNameRecord chain_kit bs = Inr chain_sub"
    using decodeNameRecord_encode[OF ref_kit_ok chain_names_ok(1)] decodeNameRecord_encode[OF ref_kit_ok chain_names_ok(2)] d
    by (auto simp: chain_name_def chain_sub_def init_top_level_record_def blank_name_def)
qed

definition sample_fetch :: "bytes \<Rightarrow> bytes \<Rightarrow> fetcher" where
  "sample_fetch x y a = Inr (if a = name_pda ref_runtime sample_hash then Some x
     else if a = name_pda ref_runtime sample_sub_hash then Some y else None)"

lemma sample_sub_pda_neq: "name_pda ref_runtime sample_sub_hash \<noteq> name_pda ref_runtime sample_hash"
  by (simp add: name_pda_def ref_runtime_def ref_find_pda NAME_SEED_def)

lemma sample_names:
  "ch_accounts sample_wrapped a = Some (NameAcct r) \<longleftrightarrow>
     (a = name_pda ref_runtime sample_hash \<and> r = chain_name) \<or> (a = name_pda ref_runtime sample_sub_hash \<and> r = chain_sub)"
  using sample_sub_pda_neq by (auto simp: sample_wrapped_def sample_registered_def sample_configured_def)

lemma serves_sample:
  assumes "decodeNameRecord chain_kit x = Inr chain_name" "decodeNameRecord chain_kit y = Inr chain_sub"
  shows "serves chain_kit ref_runtime (sample_fetch x y) sample_wrapped"
  using assms sample_sub_pda_neq by (auto simp: serves_def sample_names stored_def sample_fetch_def)

lemma sample_alive: "alive sample_wrapped chain_sub"
proof (rule alive_sub)
  show "nr_parent chain_sub = Some (name_pda ref_runtime sample_hash)" by (simp add: chain_sub_def)
  show "ch_accounts sample_wrapped (name_pda ref_runtime sample_hash) = Some (NameAcct chain_name)" by (simp add: sample_names)
  show "nr_registeredAt chain_name = nr_parentRegisteredAt chain_sub" by (simp add: chain_name_def chain_sub_def init_top_level_record_def)
  show "alive sample_wrapped chain_name" by (rule alive_root) (simp add: chain_name_def init_top_level_record_def)
qed

lemma sample_path: "parsePath ascii_unicode (dotted [js ''a'', js ''a''] (js ''sol'')) None = Inr ([js ''a'', js ''a''], js ''sol'')"
proof (rule parsePath_stable_dotted[OF ascii_unicode_ok])
qed (simp_all add: canonical_path_def canonical_label_def label_char_def utf8_def utf8_char_def isAllowedTld_def
        ALLOWED_TLDS_def nfkc_stable_def sublist_code)

section \<open>Properties\<close>

text \<open>C4: On every state the program reaches, reading through an RPC that returns the stored records, and as long as no two inputs hashed so far collide, the resolve of the SDK terminates on every name it accepts, without an error: it returns the record the program holds at the address of the name when every ancestor still exists with the registration time the child captured, and null otherwise.\<close>

theorem client_resolves_what_is_alive_on_chain:
  assumes "reach R G s" "no_collision R G" "same_addresses K R" "serves K R fetch s" "parsePath U name None = Inr (labels, tld)"
  shows "resolve K U fetch name =
    Some (Inr (case ch_accounts s (name_pda R (onchain_hash (rt_keccak R) tld labels)) of
       Some (NameAcct r) \<Rightarrow> if alive s r then Some r else None | _ \<Rightarrow> None))"
proof -
  let ?a = "name_pda R (onchain_hash (rt_keccak R) tld labels)"
  obtain b where f: "findNameRecord K U name None = Inr (?a, b)"
    using client_address[OF assms(3) _ assms(5)] assms(2) by (auto simp: no_collision_def)
  show ?thesis
  proof (cases "\<exists>r. ch_accounts s ?a = Some (NameAcct r)")
    case True
    then obtain r where r: "ch_accounts s ?a = Some (NameAcct r)" by blast
    then obtain data where "fetch ?a = Inr (Some data)" "decodeNameRecord K data = Inr r"
      using assms(4) unfolding serves_def stored_def by blast
    then show ?thesis using resolve_loop_on_chain[OF assms(1,2,4) r, of r] by (simp add: resolve_def f r)
  next
    case False
    then have "fetch ?a = Inr None" using assms(4) unfolding serves_def by blast
    then show ?thesis using False by (auto simp: resolve_def f split: option.splits account.splits)
  qed
qed

theorem client_resolves_what_is_alive_on_chain_witness:
  "\<exists>x y. serves chain_kit ref_runtime (sample_fetch x y) sample_wrapped \<and>
     resolve chain_kit ascii_unicode (sample_fetch x y) (dotted [js ''a'', js ''a''] (js ''sol'')) = Some (Inr (Some chain_sub))"
proof -
  obtain x y where d: "decodeNameRecord chain_kit x = Inr chain_name" "decodeNameRecord chain_kit y = Inr chain_sub"
    using chain_name_bytes by blast
  have "onchain_hash (rt_keccak ref_runtime) (js ''sol'') [js ''a'', js ''a''] = sample_sub_hash"
    by (simp add: ref_runtime_def)
  then have "resolve chain_kit ascii_unicode (sample_fetch x y) (dotted [js ''a'', js ''a''] (js ''sol'')) =
      Some (Inr (case ch_accounts sample_wrapped (name_pda ref_runtime sample_sub_hash) of
        Some (NameAcct r) \<Rightarrow> if alive sample_wrapped r then Some r else None | _ \<Rightarrow> None))"
    using client_resolves_what_is_alive_on_chain[OF sample_reach sample_no_collision same_addresses_sample serves_sample[OF d] sample_path]
    by (simp only:)
  moreover have "ch_accounts sample_wrapped (name_pda ref_runtime sample_sub_hash) = Some (NameAcct chain_sub)" by (simp add: sample_names)
  ultimately show ?thesis using serves_sample[OF d] sample_alive by auto
qed

end
