(* ===== verification/Spec2Isabelle.thy ===== *)
theory Spec2Isabelle
  imports Plugin_Typing Solans_Errors Client Tx Indexer Keeper_Main Resolver Cli_Safety Program_Interface
    Chain_Safety Chain_Client
begin

text \<open>
  SolaNS is a name service on Solana. Its TypeScript side has a client library (\<open>clients/ts\<close>: name
  normalization, hashing, generated account and instruction codecs), an SDK (\<open>clients/sdk\<close>: the read
  API, write builders, hosting links), a command line (\<open>cli\<close>), and three services over it: an indexer fed by transaction webhooks, an
  HTTP/DNS resolver with a cache, and a keeper that renews names before they expire. They share a small
  metrics library. The on-chain program (\<open>programs/solans\<close>, Rust)
  keeps the registry, the marketplace and the staking pool, and is the authority the clients mirror.

  \<^bold>\<open>How the parts interact.\<close> A name is normalized and hashed; the hash gives the address of its record; the SDK
  fetches and decodes records through an injected fetcher. Builders encode instructions, transactions carry
  them, the indexer identifies and decodes them into events and folds the events into its store. The
  keeper resolves the names of a watchlist, checks expiry and delegation and sends \<open>auto_renew\<close>. The resolver
  answers HTTP and DNS queries from the SDK through a read-through cache.

  \<^bold>\<open>Theories.\<close>
  \<^item> \<open>Prelude\<close>: JavaScript strings as code points, results (\<open>res\<close>), UTF-8, decimal and hexadecimal text, the
    parameter \<open>unicode\<close> for \<open>normalize("NFKC")\<close> and \<open>toLowerCase\<close>.
  \<^item> \<open>Account_Types\<close>, \<open>Program\<close>: the account records of \<open>generated/accounts\<close>; the functions of the Rust program that the
    client mirrors (\<open>utils.rs\<close>, \<open>state/config.rs\<close>, \<open>state/stake.rs\<close>, the \<open>auto_renew\<close> handler), with checked, saturating
    and truncating arithmetic written out on \<open>int\<close>.
  \<^item> \<open>Normalize\<close>, \<open>Hash_Name\<close>: \<open>normalize.ts\<close> and \<open>hashName.ts\<close> with the PDA finders. The client accepts exactly the
    labels the program accepts, computes the hashes the program recomputes, and two names with one hash exhibit
    a collision of the hash function.
  \<^item> \<open>Kit\<close>: the codecs of the package \<open>@solana/kit\<close> as a parameter record with the locale \<open>kit_codecs\<close> (what the generated
    code relies on), a reference implementation that interprets it, and the locale \<open>tagged_codec\<close> that gives the round
    trip of every discriminated struct.
  \<^item> \<open>Accounts\<close>, \<open>Account_Fetch\<close>, \<open>Samples\<close>: the eight account codecs and \<open>identifySolansAccount\<close>; the fetch functions (locale
    \<open>account_reads\<close>: reading many accounts agrees with reading each) and the declared sizes (locale \<open>kit_sizes\<close>), which are
    exact; concrete accounts for witnesses.
  \<^item> \<open>Solans_Errors\<close>: the generated error codes and messages beside the program's enumeration; the client recognises each
    error of the program as itself.
  \<^item> \<open>Instruction_Core\<close>, \<open>Name_Instructions\<close>, \<open>Market_Instructions\<close>, \<open>Admin_Instructions\<close>, \<open>Programs\<close>: the forty generated
    instruction files (discriminator, data encoder and decoder, synchronous and asynchronous builder, parser),
    \<open>identifySolansInstruction\<close> and the generated \<open>parseSolansInstruction\<close>. What a builder emits is identified as its
    own instruction and parsed back.
  \<^item> \<open>Instruction_Typing\<close>, \<open>Client_Types\<close>, \<open>Client_Typing\<close>: the TypeScript types of the instruction files as data (\<open>XInput\<close>,
    \<open>XAsyncInput\<close>, \<open>XInstruction\<close>, \<open>ParsedXInstruction\<close>) and the check \<open>signature_ok\<close> of a builder's table against them. A checked
    builder accepts every input of its type and emits an instruction of its type; all sixty-four builders and forty
    parsers pass. \<open>derivation_ok\<close> is what this needs of address derivation; the reference kit meets it.
  \<^item> \<open>Plugin\<close>, \<open>Plugin_Typing\<close>: the object \<open>solansProgram()\<close> adds to a kit client and its types; every entry accepts the inputs of
    its type and builds its own instruction, the paying ones with the client's payer by default, and
    \<open>parseSolansInstruction\<close> returns a member of \<open>ParsedSolansInstruction\<close>.
  \<^item> \<open>Program_Interface\<close>: what the Rust sources declare for every instruction (accounts with their constraints, arguments) and
    account (fields). The client's roles, optional accounts, argument layouts, account layouts and sizes are the
    program's.
  \<^item> \<open>Client\<close>: \<open>SolansClient\<close>. Resolution returns exactly the live records, returns at all under the program's depth
    discipline, and prices, quotes and rewards are the program's.
  \<^item> \<open>Chain\<close>, \<open>Chain_Names\<close>, \<open>Chain_Market\<close>, \<open>Chain_Stake\<close>: the on-chain program. One address space of accounts, lamports and a
    token state form the state \<open>chain\<close>; \<open>Chain\<close> has the account constraints of Anchor (loading with discriminator and seeds,
    \<open>init\<close>, \<open>close\<close>), the events and \<open>utils.rs\<close>; the others have one \<open>X_handler\<close> per file of \<open>instructions/\<close>, with its \<open>Accounts\<close>
    struct: names and subdomains, listings, offers and auctions, staking, buyback and configuration.
  \<^item> \<open>Chain_Run\<close>: the instructions of \<open>lib.rs\<close> with their dispatch \<open>exec\<close>, and the abstract registry \<open>registry_step\<close>, twenty-two
    rules that say what may happen to the accounts and who must have signed. Every successful instruction is one of
    its steps.
  \<^item> \<open>Chain_Invariant\<close>, \<open>Chain_Pool\<close>: the states the program reaches (\<open>reach\<close>) and the locale \<open>program_invariant\<close>, interpreted for
    well-formedness (addresses, bounds, frozen names, depths) and for the pool's total.
  \<^item> \<open>Chain_Escrow\<close>: the contract of the Token program (locale \<open>token_program\<close>) and the bid vault of an auction across bids,
    settlement and cancellation.
  \<^item> \<open>Chain_Sample\<close>, \<open>Chain_Safety\<close>: a reference runtime and runs on it; what the program guarantees, and two runs of
    handlers that interact badly.
  \<^item> \<open>Chain_Client\<close>: the SDK's \<open>resolve\<close> over the states the program reaches: it returns, and returns what is alive.
  \<^item> \<open>Index_Store\<close>, \<open>Indexer\<close>: the store interface as the locale \<open>index_store\<close>, \<open>MemoryStore\<close> as its interpretation,
    \<open>applyEvent\<close> as a refinement of an abstract map of entries, the webhook ingest and the HTTP routes.
  \<^item> \<open>Tx\<close>: the SDK's write builders (\<open>tx.ts\<close>), each over the generated builder it calls. What the SDK writes is what
    the indexer reads: registrations, subdomains and the other tracked writes are decoded as the matching
    event at the address the client resolves the name to.
  \<^item> \<open>Effects\<close>, \<open>Keeper\<close>: asynchronous code as functions on a world that may not settle, reject or return; the
    keeper's decision logic, notifiers (locale \<open>notifier\<close>), watchlist and sweep.
  \<^item> \<open>Keeper_Main\<close>: \<open>main\<close> of the keeper (settings, start-up, exits) and the running process as the step relation
    \<open>keeper_step\<close>: timer ticks, overlapping sweeps that settle or reject (the contract \<open>quiet_notifier\<close>), a chain that changes in
    between. Fair runs never stop sweeping; the process exits exactly when a config read rejects; accepted
    renewals of a record are 335 days apart whatever the keepers submit.
  \<^item> \<open>Metrics\<close>: counters, gauges, histograms, the registry and its text.
  \<^item> \<open>Hosting\<close>, \<open>Cache\<close>, \<open>Doh\<close>, \<open>Json\<close>, \<open>Resolver\<close>: content links and pinning, the TTL cache (locale \<open>ttl_cache\<close>), DNS
    messages, JSON text, and the resolver's routes.
  \<^item> \<open>Cli_Context\<close>, \<open>Cli\<close>, \<open>Cli_Safety\<close>: \<open>cli/src/context.ts\<close> and the forty-eight commands of \<open>cli/src/index.ts\<close> as effects on
    a terminal (standard output, standard error, the chain behind the RPC). SOL amounts are read exactly; the commands
    build what the SDK builds; \<open>update-config\<close> keeps the fields whose flags are not given. \<open>Cli_Safety\<close> logs the RPC and
    shows that a run sends at most one transaction, only after that same transaction was simulated without
    error, and none under \<open>--simulate\<close>.

  \<^bold>\<open>Bounds and fuel.\<close> \<open>resolve_loop\<close> follows pointers the chain supplies: it is a \<open>partial_function\<close> whose \<open>None\<close> is "does
  not return", proved to return on every state the program reaches, and shown not to on a record that is its own parent. The JSON
  reader has fuel \<open>2 * length + 1\<close>, enough for every text the printer writes. An effect's \<open>None\<close> is a promise that never
  settles. Everything else is total.

  \<^bold>\<open>Parameters.\<close> Code outside the repository is an argument: \<open>runtime\<close> (for the program: hashing, address derivation, rent, the
  System, Token, Associated Token and Metaplex programs), \<open>kit\<close> (hash, address derivation, codecs), \<open>unicode\<close>, \<open>dns\<close>
  (\<open>dns-packet\<close>), \<open>rpc\<close> (accounts, token program client, sending), \<open>find_ata\<close> (\<open>@solana-program/token\<close>), the address of a
  fresh key pair, \<open>Number(s)\<close> and the text of a number, \<open>fetch\<close>; for the keeper's \<open>main\<close> the record \<open>host\<close> (environment, files); for the command line the record \<open>lib\<close> (key and content files,
  \<open>TextDecoder\<close>, the token client's approve and revoke builders) and \<open>cli_rpc\<close> (blockhash, signing, simulation, sending);
  a command starts where commander has parsed the arguments. Their documented
  behaviour is stated in \<open>kit_ok\<close>, \<open>unicode_ok\<close> and \<open>dns_ok\<close>, each with a concrete instance that meets it.

  \<^bold>\<open>Not modelled.\<close> Which of several broken account constraints Anchor reports first, the kind checks on accounts that other programs
  own (System accounts, mints, program ids), compute budgets and the limit on the size of a transaction; the derivation
  of Anchor's discriminators; the Rust client (\<open>clients/rust\<close>); \<open>server.ts\<close> of the indexer and the resolver, which only read the
  environment and listen; rounding of doubles; Fastify's routing and body parsing; the interleaving of two sweeps of a keeper
  below the level of a whole sweep (the program's side of it is \<open>renewal_times\<close>); tests and scripts.
\<close>

end
